(* ===== verification/Vultr_Prelude.thy ===== *)
theory Vultr_Prelude
  imports Main
begin

text \<open>
  What the components share: computations over a state with Go's three ways of
  ending (returning, panicking, looping for ever), sequencing, deferred calls,
  and a weakest-precondition calculus with its rule collections. No source
  file is modelled here.

  A function of the program that has effects is a \<open>comp\<close>: it takes the state
  and gives an outcome. \<open>Ret a s\<close> is a normal return, \<open>Panic msg s\<close> a run-time
  panic (a nil dereference, a slice bound out of range) with the state at
  that moment, \<open>Diverge\<close> a loop that never ends. An \<open>error\<close> returned by Go is
  no outcome of its own: it is part of the returned value, as in the source.
\<close>

section \<open>Rule collections\<close>

named_theorems wp_rules
  \<open>rules that compute the weakest precondition of a computation\<close>

named_theorems emit_rules
  \<open>rules that bound the effects a computation appends to the trace\<close>

named_theorems frame_rules
  \<open>rules that say a computation leaves the reconciled object alone\<close>

named_theorems go_defs
  \<open>definitions that are unfolded when a concrete run is evaluated\<close>

section \<open>Computations\<close>

datatype ('s, 'a) outcome = Ret 'a 's | Panic string 's | Diverge

type_synonym ('s, 'a) comp = "'s \<Rightarrow> ('s, 'a) outcome"

definition ret :: "'a \<Rightarrow> ('s, 'a) comp" where
  "ret a s = Ret a s"

definition panic :: "string \<Rightarrow> ('s, 'a) comp" where
  "panic msg s = Panic msg s"

definition and_then :: "('s, 'a) comp \<Rightarrow> ('a \<Rightarrow> ('s, 'b) comp) \<Rightarrow> ('s, 'b) comp" where
  "and_then m k s = (case m s of
      Ret a s' \<Rightarrow> k a s'
    | Panic msg s' \<Rightarrow> Panic msg s'
    | Diverge \<Rightarrow> Diverge)"

definition read_state :: "('s \<Rightarrow> 'a) \<Rightarrow> ('s, 'a) comp" where
  "read_state f s = Ret (f s) s"

definition update_state :: "('s \<Rightarrow> 's) \<Rightarrow> ('s, unit) comp" where
  "update_state f s = Ret () (f s)"

text \<open>
  A call that returns a value and an error, followed by the source's
  \<^verbatim>\<open>if err != nil { return ..., handle(err) }\<close>.
\<close>

definition try_then ::
  "('s, 'e + 'a) comp \<Rightarrow> ('e \<Rightarrow> ('s, 'b) comp) \<Rightarrow> ('a \<Rightarrow> ('s, 'b) comp) \<Rightarrow> ('s, 'b) comp" where
  "try_then m h k = and_then m (\<lambda>r. case r of Inl e \<Rightarrow> h e | Inr a \<Rightarrow> k a)"

text \<open>
  A deferred function runs when the body returns and also when it panics; a
  panic of the body goes on after the deferred function returned.
\<close>

definition deferred :: "('a \<Rightarrow> ('s, 'a) comp) \<Rightarrow> ('s, unit) comp \<Rightarrow> ('s, 'a) comp \<Rightarrow> ('s, 'a) comp" where
  "deferred after on_panic m s = (case m s of
      Ret a s' \<Rightarrow> after a s'
    | Panic msg s' \<Rightarrow> (case on_panic s' of
          Ret _ s'' \<Rightarrow> Panic msg s''
        | Panic msg' s'' \<Rightarrow> Panic msg' s''
        | Diverge \<Rightarrow> Diverge)
    | Diverge \<Rightarrow> Diverge)"

lemma ret_apply [simp]: "ret a s = Ret a s"
  by (simp add: ret_def)

lemma panic_apply [simp]: "panic msg s = Panic msg s"
  by (simp add: panic_def)

lemma read_state_apply [simp]: "read_state f s = Ret (f s) s"
  by (simp add: read_state_def)

lemma update_state_apply [simp]: "update_state f s = Ret () (f s)"
  by (simp add: update_state_def)

lemma and_then_Ret [simp]: "m s = Ret a s' \<Longrightarrow> and_then m k s = k a s'"
  by (simp add: and_then_def)

lemma and_then_Panic [simp]: "m s = Panic msg s' \<Longrightarrow> and_then m k s = Panic msg s'"
  by (simp add: and_then_def)

lemma and_then_Diverge [simp]: "m s = Diverge \<Longrightarrow> and_then m k s = Diverge"
  by (simp add: and_then_def)

lemma and_then_eq_RetE:
  assumes "and_then m k s = Ret b s''"
  obtains a s' where "m s = Ret a s'" and "k a s' = Ret b s''"
  using assms by (auto simp: and_then_def split: outcome.splits)

lemma and_then_assoc: "and_then (and_then m k) l = and_then m (\<lambda>a. and_then (k a) l)"
  by (rule ext) (simp add: and_then_def split: outcome.split)

lemma try_then_Inl [simp]: "m s = Ret (Inl e) s' \<Longrightarrow> try_then m h k s = h e s'"
  by (simp add: try_then_def)

lemma try_then_Inr [simp]: "m s = Ret (Inr a) s' \<Longrightarrow> try_then m h k s = k a s'"
  by (simp add: try_then_def)

lemma try_then_Panic [simp]: "m s = Panic msg s' \<Longrightarrow> try_then m h k s = Panic msg s'"
  by (simp add: try_then_def)

lemma try_then_Diverge [simp]: "m s = Diverge \<Longrightarrow> try_then m h k s = Diverge"
  by (simp add: try_then_def)

section \<open>Weakest preconditions\<close>

text \<open>
  \<open>wp m Q P s\<close>: a run of \<open>m\<close> from \<open>s\<close> that returns satisfies \<open>Q\<close>, one that
  panics leaves a state that satisfies \<open>P\<close>. That a run returns at all is
  \<open>returns m s\<close>, stated and proved on its own.
\<close>

definition wp ::
  "('s, 'a) comp \<Rightarrow> ('a \<Rightarrow> 's \<Rightarrow> bool) \<Rightarrow> ('s \<Rightarrow> bool) \<Rightarrow> 's \<Rightarrow> bool" where
  "wp m Q P s \<longleftrightarrow> (case m s of Ret a s' \<Rightarrow> Q a s' | Panic _ s' \<Rightarrow> P s' | Diverge \<Rightarrow> True)"

definition returns :: "('s, 'a) comp \<Rightarrow> 's \<Rightarrow> bool" where
  "returns m s \<longleftrightarrow> (\<exists>a s'. m s = Ret a s')"

lemma wp_ret [wp_rules]: "wp (ret a) Q P s \<longleftrightarrow> Q a s"
  by (simp add: wp_def)

lemma wp_panic [wp_rules]: "wp (panic msg) Q P s \<longleftrightarrow> P s"
  by (simp add: wp_def)

lemma wp_read_state [wp_rules]: "wp (read_state f) Q P s \<longleftrightarrow> Q (f s) s"
  by (simp add: wp_def)

lemma wp_update_state [wp_rules]: "wp (update_state f) Q P s \<longleftrightarrow> Q () (f s)"
  by (simp add: wp_def)

lemma wp_and_then [wp_rules]:
  "wp (and_then m k) Q P s \<longleftrightarrow> wp m (\<lambda>a s'. wp (k a) Q P s') P s"
  by (auto simp: wp_def and_then_def split: outcome.split)

lemma wp_try_then [wp_rules]:
  "wp (try_then m h k) Q P s \<longleftrightarrow>
     wp m (\<lambda>r s'. case r of Inl e \<Rightarrow> wp (h e) Q P s' | Inr a \<Rightarrow> wp (k a) Q P s') P s"
proof -
  have "\<And>r s'. wp (case r of Inl e \<Rightarrow> h e | Inr a \<Rightarrow> k a) Q P s' =
      (case r of Inl e \<Rightarrow> wp (h e) Q P s' | Inr a \<Rightarrow> wp (k a) Q P s')"
    by (simp split: sum.split)
  then show ?thesis
    by (simp add: try_then_def wp_and_then)
qed

lemma wp_if [wp_rules]:
  "wp (if b then m else m') Q P s \<longleftrightarrow> (if b then wp m Q P s else wp m' Q P s)"
  by simp

lemma wp_mono:
  assumes "wp m Q P s"
    and "\<And>a s'. m s = Ret a s' \<Longrightarrow> Q a s' \<Longrightarrow> Q' a s'"
    and "\<And>s'. P s' \<Longrightarrow> P' s'"
  shows "wp m Q' P' s"
  using assms by (auto simp: wp_def split: outcome.splits)

lemma wp_conj:
  assumes "wp m Q P s" and "wp m Q' P' s"
  shows "wp m (\<lambda>a s'. Q a s' \<and> Q' a s') (\<lambda>s'. P s' \<and> P' s') s"
  using assms by (auto simp: wp_def split: outcome.splits)

lemma wp_RetD: "wp m Q P s \<Longrightarrow> m s = Ret a s' \<Longrightarrow> Q a s'"
  by (simp add: wp_def)

lemma wp_PanicD: "wp m Q P s \<Longrightarrow> m s = Panic msg s' \<Longrightarrow> P s'"
  by (simp add: wp_def)

lemma wp_run: "m s = k s' \<Longrightarrow> wp k Q P s' \<Longrightarrow> wp m Q P s"
  by (simp add: wp_def)

lemma wp_Ret: "m s = Ret a s' \<Longrightarrow> wp m Q P s \<longleftrightarrow> Q a s'"
  by (simp add: wp_def)

lemma wp_deferred:
  assumes "wp m (\<lambda>a. wp (after a) Q P) (wp on_panic (\<lambda>_. P) P) s"
  shows "wp (deferred after on_panic m) Q P s"
  using assms by (auto simp: wp_def deferred_def split: outcome.splits)

section \<open>Lists and integers\<close>

text \<open>Go's conversion of an \<open>int\<close> to an \<open>int32\<close> keeps the low 32 bits, read as signed.\<close>

definition int32 :: "int \<Rightarrow> int" where
  "int32 x = (x + 2 ^ 31) mod 2 ^ 32 - 2 ^ 31"

lemma int32_id: "- (2 ^ 31) \<le> x \<Longrightarrow> x < 2 ^ 31 \<Longrightarrow> int32 x = x"
  by (simp add: int32_def)

lemma int32_range: "- (2 ^ 31) \<le> int32 x \<and> int32 x < 2 ^ 31"
proof -
  have "0 \<le> (x + 2 ^ 31) mod 2 ^ 32" and "(x + 2 ^ 31) mod 2 ^ 32 < 2 ^ 32"
    by (simp_all add: pos_mod_bound)
  then show ?thesis by (simp add: int32_def)
qed

lemma length_filter_le_1_cases:
  assumes "length (filter P xs) \<le> 1"
  obtains "filter P xs = []" | x where "filter P xs = [x]" and "x \<in> set xs" and "P x"
proof (cases "filter P xs")
  case Nil
  then show ?thesis using that(1) by blast
next
  case (Cons x ys)
  with assms have x: "filter P xs = [x]" by simp
  have "x \<in> set (filter P xs)" by (simp only: x) simp
  then have "x \<in> set xs" and "P x" by simp_all
  with x show ?thesis by (rule that(2))
qed

end
