(* ===== verification/Go_Strings.thy ===== *)
theory Go_Strings
  imports Vultr_Prelude "HOL-Library.Sublist"
begin

text \<open>
  The functions of Go's standard library that the sources call on strings and
  bytes: \<^verbatim>\<open>strings.Index\<close>, \<^verbatim>\<open>Split\<close>, \<^verbatim>\<open>Cut\<close>, \<^verbatim>\<open>TrimSpace\<close>,
  \<^verbatim>\<open>HasPrefix\<close>, \<^verbatim>\<open>Contains\<close>, \<^verbatim>\<open>ToLower\<close>, \<^verbatim>\<open>Join\<close>, slicing with its
  bounds check, the \<^verbatim>\<open>%d\<close> and \<^verbatim>\<open>%q\<close> verbs of \<^verbatim>\<open>fmt\<close>, and
  \<^verbatim>\<open>base64.StdEncoding.EncodeToString\<close>. A Go string is its list of bytes
  (\<open>char list\<close>).

  Two functions go by the bytes of ASCII text: \<open>ToLower\<close> maps \<open>A..Z\<close> and leaves
  other bytes alone, and \<open>quote\<close> (the \<^verbatim>\<open>%q\<close> verb) copies bytes above 127.
  The sources apply them to error texts and to identifiers.
\<close>

section \<open>Searching and splitting\<close>

fun index_of :: "string \<Rightarrow> string \<Rightarrow> nat option" where
  "index_of sub [] = (if sub = [] then Some 0 else None)"
| "index_of sub (c # cs) =
     (if prefix sub (c # cs) then Some 0 else map_option Suc (index_of sub cs))"

definition strings_Index :: "string \<Rightarrow> string \<Rightarrow> int" where
  "strings_Index s sub = (case index_of sub s of None \<Rightarrow> -1 | Some i \<Rightarrow> int i)"

definition strings_Contains :: "string \<Rightarrow> string \<Rightarrow> bool" where
  "strings_Contains s sub \<longleftrightarrow> index_of sub s \<noteq> None"

definition strings_HasPrefix :: "string \<Rightarrow> string \<Rightarrow> bool" where
  "strings_HasPrefix s p \<longleftrightarrow> prefix p s"

lemma index_of_Some:
  "index_of sub s = Some i \<Longrightarrow>
     i + length sub \<le> length s \<and> take i s @ sub @ drop (i + length sub) s = s"
proof (induction sub s arbitrary: i rule: index_of.induct)
  case (1 sub)
  then show ?case by (simp split: if_splits)
next
  case (2 sub c cs)
  show ?case
  proof (cases "prefix sub (c # cs)")
    case True
    with "2.prems" have "i = 0" by simp
    moreover obtain zs where "c # cs = sub @ zs" using True by (auto simp: prefix_def)
    ultimately show ?thesis by (metis add_0 append_Nil append_eq_conv_conj length_append le_add1 take_0)
  next
    case False
    with "2.prems" obtain j where "index_of sub cs = Some j" and "i = Suc j" by auto
    with "2.IH" [OF False] show ?thesis by simp
  qed
qed

lemma index_of_None_iff: "index_of sub s = None \<longleftrightarrow> \<not> sublist sub s"
proof (induction sub s rule: index_of.induct)
  case (1 sub)
  then show ?case by simp
next
  case (2 sub c cs)
  then show ?case by (simp add: sublist_Cons_right)
qed

lemma strings_Contains_iff: "strings_Contains s sub \<longleftrightarrow> sublist sub s"
  by (simp add: strings_Contains_def index_of_None_iff)

text \<open>The first occurrence is found at the end of a front that holds no part of it.\<close>

lemma index_of_append_distinct_first:
  assumes "\<And>c. c \<in> set xs \<Longrightarrow> c \<noteq> d"
  shows "index_of (d # ds) (xs @ d # ds @ ys) = Some (length xs)"
  using assms by (induction xs) (auto simp: prefix_def)

text \<open>
  \<^verbatim>\<open>strings.Split\<close> cuts at every occurrence of a non-empty separator, from
  left to right. The sources only call it with one.
\<close>

function strings_Split :: "string \<Rightarrow> string \<Rightarrow> string list" where
  "strings_Split s sep =
     (if sep = [] then map (\<lambda>c. [c]) s
      else case index_of sep s of
        None \<Rightarrow> [s]
      | Some i \<Rightarrow> take i s # strings_Split (drop (i + length sep) s) sep)"
  by pat_completeness auto
termination
proof (relation "measure (\<lambda>(s, sep). length s)")
  show "wf (measure (\<lambda>(s, sep). length s))" by simp
next
  fix s sep :: string and i
  assume "sep \<noteq> []" and "index_of sep s = Some i"
  then have "0 < length sep" and "i + length sep \<le> length s"
    using index_of_Some by auto
  then show "((drop (i + length sep) s, sep), (s, sep)) \<in> measure (\<lambda>(s, sep). length s)"
    by (simp del: length_greater_0_conv)
qed

declare strings_Split.simps [simp del]

lemma strings_Split_no_sep: "\<not> sublist sep s \<Longrightarrow> strings_Split s sep = [s]"
  using index_of_None_iff [of sep s] by (subst strings_Split.simps) auto

lemma strings_Split_step:
  assumes "sep \<noteq> []" and "index_of sep s = Some i"
  shows "strings_Split s sep = take i s # strings_Split (drop (i + length sep) s) sep"
  using assms by (subst strings_Split.simps) simp

fun strings_Join :: "string list \<Rightarrow> string \<Rightarrow> string" where
  "strings_Join [] sep = []"
| "strings_Join [x] sep = x"
| "strings_Join (x # y # zs) sep = x @ sep @ strings_Join (y # zs) sep"

lemma strings_Split_nonempty: "sep \<noteq> [] \<Longrightarrow> strings_Split s sep \<noteq> []"
  by (subst strings_Split.simps) (simp split: option.split)

lemma strings_Join_Split: "sep \<noteq> [] \<Longrightarrow> strings_Join (strings_Split s sep) sep = s"
proof (induction s sep rule: strings_Split.induct)
  case (1 s sep)
  show ?case
  proof (cases "index_of sep s")
    case None
    with "1.prems" show ?thesis by (subst strings_Split.simps) simp
  next
    case (Some i)
    let ?rest = "strings_Split (drop (i + length sep) s) sep"
    obtain y zs where rest: "?rest = y # zs"
      using strings_Split_nonempty [OF "1.prems"] by (cases ?rest) auto
    have "strings_Join ?rest sep = drop (i + length sep) s"
      using "1.IH" "1.prems" Some by blast
    then show ?thesis
      using index_of_Some [OF Some] strings_Split_step [OF "1.prems" Some] rest by simp
  qed
qed

text \<open>\<^verbatim>\<open>strings.Cut\<close> around the first occurrence: what is before, what is after, whether it was found.\<close>

definition strings_Cut :: "string \<Rightarrow> string \<Rightarrow> string \<times> string \<times> bool" where
  "strings_Cut s sep = (case index_of sep s of
      None \<Rightarrow> (s, [], False)
    | Some i \<Rightarrow> (take i s, drop (i + length sep) s, True))"

lemma strings_Cut_shorter:
  assumes "strings_Cut s sep = (line, tail, found)" and "sep \<noteq> []" and "tail \<noteq> []"
  shows "length tail < length s"
proof -
  from assms obtain i where i: "index_of sep s = Some i" and "tail = drop (i + length sep) s"
    by (auto simp: strings_Cut_def split: option.splits)
  moreover have "0 < length sep" and "i + length sep \<le> length s"
    using assms(2) index_of_Some [OF i] by auto
  ultimately show ?thesis by (simp del: length_greater_0_conv)
qed

lemma strings_Cut_join:
  "strings_Cut s sep = (line, tail, found) \<Longrightarrow> s = (if found then line @ sep @ tail else line)"
  using index_of_Some [of sep s] by (auto simp: strings_Cut_def split: option.splits)

section \<open>Slices\<close>

text \<open>
  \<^verbatim>\<open>s[:i]\<close> and \<^verbatim>\<open>s[i:]\<close> panic unless \<open>0 \<le> i \<le> len(s)\<close>; \<open>None\<close> is the panic.
\<close>

definition slice_to :: "'a list \<Rightarrow> int \<Rightarrow> 'a list option" where
  "slice_to s i = (if 0 \<le> i \<and> i \<le> int (length s) then Some (take (nat i) s) else None)"

definition slice_from :: "'a list \<Rightarrow> int \<Rightarrow> 'a list option" where
  "slice_from s i = (if 0 \<le> i \<and> i \<le> int (length s) then Some (drop (nat i) s) else None)"

section \<open>White space and letter case\<close>

text \<open>
  The length of the Unicode white-space character a string starts with, 0 for
  none: the six ASCII ones, and in UTF-8 U+0085, U+00A0, U+1680,
  U+2000 to U+200A, U+2028, U+2029, U+202F, U+205F and U+3000.
\<close>

definition ascii_space :: "nat \<Rightarrow> bool" where
  "ascii_space n \<longleftrightarrow> n \<in> {9, 10, 11, 12, 13, 32}"

definition space3 :: "nat \<Rightarrow> nat \<Rightarrow> nat \<Rightarrow> bool" where
  "space3 a b c \<longleftrightarrow>
     a = 225 \<and> b = 154 \<and> c = 128 \<or>
     a = 226 \<and> b = 128 \<and> (128 \<le> c \<and> c \<le> 138 \<or> c = 168 \<or> c = 169 \<or> c = 175) \<or>
     a = 226 \<and> b = 129 \<and> c = 159 \<or>
     a = 227 \<and> b = 128 \<and> c = 128"

fun space_len :: "nat list \<Rightarrow> nat" where
  "space_len [] = 0"
| "space_len (a # cs) =
     (if ascii_space a then 1
      else case cs of
        [] \<Rightarrow> 0
      | b # ds \<Rightarrow>
          if a = 194 \<and> (b = 133 \<or> b = 160) then 2
          else (case ds of [] \<Rightarrow> 0 | c # _ \<Rightarrow> if space3 a b c then 3 else 0))"

fun space_len_rev :: "nat list \<Rightarrow> nat" where
  "space_len_rev [] = 0"
| "space_len_rev (a # cs) =
     (if ascii_space a then 1
      else case cs of
        [] \<Rightarrow> 0
      | b # ds \<Rightarrow>
          if b = 194 \<and> (a = 133 \<or> a = 160) then 2
          else (case ds of [] \<Rightarrow> 0 | c # _ \<Rightarrow> if space3 c b a then 3 else 0))"

text \<open>Dropping white space from the front, given how long it is there.\<close>

function drop_spaces :: "(nat list \<Rightarrow> nat) \<Rightarrow> nat list \<Rightarrow> nat list" where
  "drop_spaces f s = (if f s = 0 \<or> s = [] then s else drop_spaces f (drop (f s) s))"
  by pat_completeness auto
termination
  by (relation "measure (\<lambda>(f, s). length s)") auto

declare drop_spaces.simps [simp del]

definition bytes :: "string \<Rightarrow> nat list" where
  "bytes s = map of_char s"

definition unbytes :: "nat list \<Rightarrow> string" where
  "unbytes ns = map char_of ns"

definition strings_TrimSpace :: "string \<Rightarrow> string" where
  "strings_TrimSpace s =
     unbytes (rev (drop_spaces space_len_rev (rev (drop_spaces space_len (bytes s)))))"

lemma unbytes_bytes [simp]: "unbytes (bytes s) = s"
  by (simp add: unbytes_def bytes_def comp_def)

lemma drop_spaces_suffix: "suffix (drop_spaces f s) s"
proof (induction f s rule: drop_spaces.induct)
  case (1 f s)
  show ?case
  proof (cases "f s = 0 \<or> s = []")
    case True
    then show ?thesis by (subst drop_spaces.simps) simp
  next
    case False
    with "1.IH" have "suffix (drop_spaces f (drop (f s) s)) (drop (f s) s)" by simp
    then have "suffix (drop_spaces f (drop (f s) s)) s"
      using suffix_drop suffix_order.trans by blast
    with False show ?thesis by (subst drop_spaces.simps) simp
  qed
qed

lemma drop_spaces_done: "f s = 0 \<Longrightarrow> drop_spaces f s = s"
  by (subst drop_spaces.simps) simp

lemma drop_spaces_none_left: "drop_spaces f s = [] \<or> f (drop_spaces f s) = 0"
proof (induction f s rule: drop_spaces.induct)
  case (1 f s)
  then show ?case by (subst (1 2) drop_spaces.simps) auto
qed

definition lower_char :: "char \<Rightarrow> char" where
  "lower_char c =
     (if 65 \<le> (of_char c :: nat) \<and> (of_char c :: nat) \<le> 90 then char_of (of_char c + 32 :: nat) else c)"

definition strings_ToLower :: "string \<Rightarrow> string" where
  "strings_ToLower s = map lower_char s"

lemma strings_ToLower_append [simp]:
  "strings_ToLower (s @ t) = strings_ToLower s @ strings_ToLower t"
  by (simp add: strings_ToLower_def)

section \<open>Formatting verbs\<close>

fun nat_digits :: "nat \<Rightarrow> string" where
  "nat_digits n =
     (if n < 10 then [char_of (48 + n)] else nat_digits (n div 10) @ [char_of (48 + n mod 10)])"

declare nat_digits.simps [simp del]

definition itoa :: "int \<Rightarrow> string" where
  "itoa i = (if i < 0 then CHR ''-'' # nat_digits (nat (- i)) else nat_digits (nat i))"

definition hex_digit :: "nat \<Rightarrow> char" where
  "hex_digit n = char_of (if n < 10 then 48 + n else 87 + n)"

definition quote_char :: "char \<Rightarrow> string" where
  "quote_char c = (let n = (of_char c :: nat) in
     if n = 34 \<or> n = 92 then [CHR 92, c]
     else if n = 7 then [CHR 92, CHR ''a'']
     else if n = 8 then [CHR 92, CHR ''b'']
     else if n = 12 then [CHR 92, CHR ''f'']
     else if n = 10 then [CHR 92, CHR ''n'']
     else if n = 13 then [CHR 92, CHR ''r'']
     else if n = 9 then [CHR 92, CHR ''t'']
     else if n = 11 then [CHR 92, CHR ''v'']
     else if n < 32 \<or> n = 127 then [CHR 92, CHR ''x'', hex_digit (n div 16), hex_digit (n mod 16)]
     else [c])"

definition quote :: "string \<Rightarrow> string" where
  "quote s = CHR 34 # concat (map quote_char s) @ [CHR 34]"

section \<open>Base64\<close>

definition base64_alphabet :: string where
  "base64_alphabet = ''ABCDEFGHIJKLMNOPQRSTUVWXYZabcdefghijklmnopqrstuvwxyz0123456789+/''"

definition base64_char :: "nat \<Rightarrow> char" where
  "base64_char n = base64_alphabet ! n"

fun base64_encode :: "nat list \<Rightarrow> string" where
  "base64_encode [] = []"
| "base64_encode [a] =
     [base64_char (a div 4), base64_char (a mod 4 * 16), CHR ''='', CHR ''='']"
| "base64_encode [a, b] =
     [base64_char (a div 4), base64_char (a mod 4 * 16 + b div 16),
      base64_char (b mod 16 * 4), CHR ''='']"
| "base64_encode (a # b # c # rest) =
     base64_char (a div 4) # base64_char (a mod 4 * 16 + b div 16) #
     base64_char (b mod 16 * 4 + c div 64) # base64_char (c mod 64) # base64_encode rest"

definition base64_EncodeToString :: "string \<Rightarrow> string" where
  "base64_EncodeToString s = base64_encode (bytes s)"

end
