(* ===== verification/Kube_Types.thy ===== *)
theory Kube_Types
  imports Go_Strings
begin

text \<open>
  The data of Kubernetes and Cluster API that the sources read and write, as
  records with the fields the sources touch: object metadata, conditions, node
  addresses, endpoints, and the Cluster API \<^verbatim>\<open>Machine\<close> and \<^verbatim>\<open>Cluster\<close>. They are
  types of libraries, so they have no operations here.

  It also has \<open>error\<close>, Go's error values. \<open>Err text\<close> is an error with that text
  (\<^verbatim>\<open>errors.New\<close>, \<^verbatim>\<open>errors.Errorf\<close>, an error made by a library); \<open>Wrap msg e\<close> is
  \<^verbatim>\<open>errors.Wrap(e, msg)\<close> or \<^verbatim>\<open>fmt.Errorf\<close> with a \<^verbatim>\<open>%w\<close> verb. How a wrapped error
  prints is the error library's business and stays a parameter (\<open>WrapText\<close> of
  theory \<open>Vultr_Env\<close>).
\<close>

datatype error = Err string | Wrap string error

record NamespacedName =
  nn_Namespace :: string
  nn_Name :: string

record ObjectMeta =
  om_Name :: string
  om_Namespace :: string
  om_UID :: string
  om_Labels :: "(string \<times> string) list"
  om_Annotations :: "(string \<times> string) list"
  om_OwnerReferences :: "string list"
  om_Finalizers :: "string list"
  om_DeletionTimestamp :: "int option"

definition zero_ObjectMeta :: ObjectMeta where
  "zero_ObjectMeta = \<lparr>om_Name = [], om_Namespace = [], om_UID = [], om_Labels = [],
     om_Annotations = [], om_OwnerReferences = [], om_Finalizers = [], om_DeletionTimestamp = None\<rparr>"

text \<open>The API server keeps an object as long as it is not deleted or a finalizer is left on it.\<close>

definition object_kept :: "ObjectMeta \<Rightarrow> bool" where
  "object_kept meta \<longleftrightarrow> om_DeletionTimestamp meta = None \<or> om_Finalizers meta \<noteq> []"

text \<open>\<^verbatim>\<open>metav1.Condition\<close>, with the three values of \<^verbatim>\<open>metav1.ConditionStatus\<close>.\<close>

record Condition =
  c_Type :: string
  c_Status :: string
  c_Reason :: string
  c_Message :: string
  c_LastTransitionTime :: int

definition ConditionTrue :: string where "ConditionTrue = ''True''"
definition ConditionFalse :: string where "ConditionFalse = ''False''"
definition ConditionUnknown :: string where "ConditionUnknown = ''Unknown''"

text \<open>\<^verbatim>\<open>corev1.NodeAddress\<close> with the two address types the sources produce.\<close>

datatype NodeAddressType = NodeInternalIP | NodeExternalIP

record NodeAddress =
  na_Type :: NodeAddressType
  na_Address :: string

record APIEndpoint =
  ep_Host :: string
  ep_Port :: int

record InfrastructureRef =
  ir_Kind :: string
  ir_Name :: string

text \<open>\<^verbatim>\<open>clusterv1.Machine\<close>.\<close>

record Machine =
  mc_meta :: ObjectMeta
  mc_DataSecretName :: "string option"
  mc_InfrastructureRef :: InfrastructureRef

text \<open>\<^verbatim>\<open>clusterv1.Cluster\<close>.\<close>

record Cluster =
  cl_meta :: ObjectMeta
  cl_Paused :: bool
  cl_InfrastructureRef :: InfrastructureRef
  cl_Conditions :: "Condition list"
  cl_InfrastructureProvisioned :: "bool option"

definition InfrastructureReadyCondition :: string where
  "InfrastructureReadyCondition = ''InfrastructureReady''"

text \<open>\<^verbatim>\<open>corev1.Secret\<close>: its data.\<close>

type_synonym Secret = "string \<rightharpoonup> string"

text \<open>\<^verbatim>\<open>ctrl.Result\<close>; durations are nanoseconds, as in \<^verbatim>\<open>time.Duration\<close>.\<close>

record Result =
  RequeueAfter :: int

definition no_requeue :: Result where
  "no_requeue = \<lparr>RequeueAfter = 0\<rparr>"

definition Second :: int where
  "Second = 1000000000"

definition Minute :: int where
  "Minute = 60 * Second"

definition requeue_after :: "int \<Rightarrow> Result" where
  "requeue_after d = \<lparr>RequeueAfter = d\<rparr>"

lemma requeue_after_sel [simp]: "RequeueAfter (requeue_after d) = d"
  by (simp add: requeue_after_def)

lemma no_requeue_sel [simp]: "RequeueAfter no_requeue = 0"
  by (simp add: no_requeue_def)

lemma condition_status_distinct [simp]:
  "ConditionTrue \<noteq> ConditionFalse" "ConditionFalse \<noteq> ConditionTrue"
  "ConditionUnknown \<noteq> ConditionFalse" "ConditionFalse \<noteq> ConditionUnknown"
  "ConditionUnknown \<noteq> ConditionTrue" "ConditionTrue \<noteq> ConditionUnknown"
  by (simp_all add: ConditionTrue_def ConditionFalse_def ConditionUnknown_def)

end
