(* ===== verification/Api_Types.thy ===== *)
theory Api_Types
  imports Kube_Types
begin

text \<open>
  The API types of \<^verbatim>\<open>api/v1beta2\<close>: the status and reason constants
  (\<^verbatim>\<open>types.go\<close>, \<^verbatim>\<open>conditions.go\<close>), the load balancer specification with
  \<^verbatim>\<open>ApplyDefaults\<close>, and the three custom resources \<^verbatim>\<open>VultrMachine\<close>,
  \<^verbatim>\<open>VultrBareMetalMachine\<close> and \<^verbatim>\<open>VultrCluster\<close> with their condition accessors.
  A Go struct is a record; each field carries a short prefix for its struct, since
  record fields share one name space. A pointer field is an option, \<open>None\<close> for nil.
  Go's \<^verbatim>\<open>int\<close> is \<open>int\<close>.
\<close>

section \<open>Status values\<close>

type_synonym SubscriptionStatus = string
type_synonym PowerStatus = string
type_synonym ServerState = string

definition SubscriptionStatusPending :: SubscriptionStatus where
  "SubscriptionStatusPending = ''pending''"
definition SubscriptionStatusActive :: SubscriptionStatus where
  "SubscriptionStatusActive = ''active''"
definition SubscriptionStatusSuspended :: SubscriptionStatus where
  "SubscriptionStatusSuspended = ''suspended''"
definition SubscriptionStatusClosed :: SubscriptionStatus where
  "SubscriptionStatusClosed = ''closed''"
definition PowerStatusStarting :: PowerStatus where
  "PowerStatusStarting = ''starting''"
definition PowerStatusStopped :: PowerStatus where
  "PowerStatusStopped = ''stopped''"
definition PowerStatusRunning :: PowerStatus where
  "PowerStatusRunning = ''running''"
definition ServerStateNone :: ServerState where
  "ServerStateNone = ''none''"
definition ServerStateLocked :: ServerState where
  "ServerStateLocked = ''locked''"
definition ServerStateBooting :: ServerState where
  "ServerStateBooting = ''installingbooting''"
definition ServerStateIsoMounting :: ServerState where
  "ServerStateIsoMounting = ''isomounting''"
definition ServerStateOK :: ServerState where
  "ServerStateOK = ''ok''"
definition ServerStateError :: ServerState where
  "ServerStateError = ''error''"

lemma subscription_status_distinct [simp]:
  "SubscriptionStatusActive \<noteq> SubscriptionStatusPending"
  "SubscriptionStatusPending \<noteq> SubscriptionStatusActive"
  by (simp_all add: SubscriptionStatusPending_def SubscriptionStatusActive_def)

section \<open>Condition types and reasons\<close>

definition VultrClusterReadyCondition :: string where
  "VultrClusterReadyCondition = ''Ready''"
definition LoadBalancerReadyCondition :: string where
  "LoadBalancerReadyCondition = ''LoadBalancerReady''"
definition MachineReadyCondition :: string where
  "MachineReadyCondition = ''Ready''"
definition ErrorFetchingLBReason :: string where
  "ErrorFetchingLBReason = ''ErrorFetchingLoadBalancer''"
definition ErrorCreatingLBReason :: string where
  "ErrorCreatingLBReason = ''ErrorCreatingLoadBalancer''"
definition LoadBalancerProvisioningFailed :: string where
  "LoadBalancerProvisioningFailed = ''LoadBalancerProvisioningFailed''"
definition WaitingForIPReason :: string where
  "WaitingForIPReason = ''WaitingForIP''"

definition InstanceWaitingForClusterInfrastructureReason :: string where
  "InstanceWaitingForClusterInfrastructureReason = ''WaitingForClusterInfrastructure''"
definition InstanceWaitingForBootstrapDataReason :: string where
  "InstanceWaitingForBootstrapDataReason = ''WaitingForBootstrapData''"
definition InstanceWaitingForLoadBalancerReason :: string where
  "InstanceWaitingForLoadBalancerReason = ''WaitingForLoadBalancer''"
definition InstancePendingReason :: string where
  "InstancePendingReason = ''InstancePending''"
definition InstanceActiveReason :: string where
  "InstanceActiveReason = ''InstanceActive''"
definition InstanceCreationFailedReason :: string where
  "InstanceCreationFailedReason = ''InstanceCreationFailed''"
definition InstanceAddressFailedReason :: string where
  "InstanceAddressFailedReason = ''FailedToGetInstanceAddress''"
definition InstanceDeletingReason :: string where
  "InstanceDeletingReason = ''Deleting''"
definition InstanceNotFoundReason :: string where
  "InstanceNotFoundReason = ''InstanceNotFound''"
definition InstanceUnexpectedStatusReason :: string where
  "InstanceUnexpectedStatusReason = ''UnexpectedStatus''"

definition BareMetalMachineReadyCondition :: string where
  "BareMetalMachineReadyCondition = ''Ready''"
definition BareMetalWaitingForClusterInfrastructureReason :: string where
  "BareMetalWaitingForClusterInfrastructureReason = ''WaitingForClusterInfrastructure''"
definition BareMetalWaitingForBootstrapDataReason :: string where
  "BareMetalWaitingForBootstrapDataReason = ''WaitingForBootstrapData''"
definition BareMetalServerPendingReason :: string where
  "BareMetalServerPendingReason = ''ServerPending''"
definition BareMetalVPCAttachRequestedReason :: string where
  "BareMetalVPCAttachRequestedReason = ''VPCAttachRequested''"
definition BareMetalWaitingForLoadBalancerReason :: string where
  "BareMetalWaitingForLoadBalancerReason = ''WaitingForLoadBalancer''"
definition BareMetalServerActiveReason :: string where
  "BareMetalServerActiveReason = ''ServerActive''"
definition BareMetalDeletingReason :: string where
  "BareMetalDeletingReason = ''Deleting''"
definition BareMetalServerCreationFailedReason :: string where
  "BareMetalServerCreationFailedReason = ''ServerCreationFailed''"
definition BareMetalServerNotFoundReason :: string where
  "BareMetalServerNotFoundReason = ''ServerNotFound''"
definition BareMetalUnexpectedStatusReason :: string where
  "BareMetalUnexpectedStatusReason = ''UnexpectedStatus''"
definition BareMetalVPCAttachFailedReason :: string where
  "BareMetalVPCAttachFailedReason = ''VPCAttachFailed''"

lemmas status_defs [go_defs] =
  SubscriptionStatusPending_def SubscriptionStatusActive_def SubscriptionStatusSuspended_def
  SubscriptionStatusClosed_def PowerStatusRunning_def
  ConditionTrue_def ConditionFalse_def ConditionUnknown_def

lemmas reason_defs [go_defs] =
  VultrClusterReadyCondition_def LoadBalancerReadyCondition_def MachineReadyCondition_def
  ErrorFetchingLBReason_def ErrorCreatingLBReason_def WaitingForIPReason_def
  InstanceWaitingForClusterInfrastructureReason_def InstanceWaitingForBootstrapDataReason_def
  InstanceWaitingForLoadBalancerReason_def InstancePendingReason_def InstanceActiveReason_def
  InstanceCreationFailedReason_def InstanceAddressFailedReason_def InstanceDeletingReason_def
  InstanceNotFoundReason_def InstanceUnexpectedStatusReason_def
  BareMetalMachineReadyCondition_def BareMetalWaitingForClusterInfrastructureReason_def
  BareMetalWaitingForBootstrapDataReason_def BareMetalServerPendingReason_def
  BareMetalVPCAttachRequestedReason_def BareMetalWaitingForLoadBalancerReason_def
  BareMetalServerActiveReason_def BareMetalDeletingReason_def
  BareMetalServerCreationFailedReason_def BareMetalServerNotFoundReason_def
  BareMetalUnexpectedStatusReason_def BareMetalVPCAttachFailedReason_def

section \<open>Load balancer specification\<close>

record VultrResourceReference =
  ref_ResourceID :: string
  ref_ResourceSubscriptionStatus :: SubscriptionStatus
  ref_ResourcePowerStatus :: PowerStatus
  ref_ResourceServerState :: ServerState

record VultrNetworkResource =
  nr_APIServerLoadbalancersRef :: VultrResourceReference

record HealthCheck =
  hc_Protocol :: string
  hc_Port :: int
  hc_Path :: string
  hc_CheckInterval :: int
  hc_ResponseTimeout :: int
  hc_UnhealthyThreshold :: int
  hc_HealthyThreshold :: int

record StickySessions =
  ss_CookieName :: string

record GenericInfo =
  gi_BalancingAlgorithm :: string
  gi_SSLRedirect :: "bool option"
  gi_StickySessions :: "StickySessions option"
  gi_ProxyProtocol :: "bool option"
  gi_PrivateNetwork :: string
  gi_VPC :: string

record ForwardingRule =
  fr_RuleID :: string
  fr_FrontendProtocol :: string
  fr_FrontendPort :: int
  fr_BackendProtocol :: string
  fr_BackendPort :: int

record LBFirewallRule =
  fw_RuleID :: string
  fw_Port :: int
  fw_IPType :: string
  fw_Source :: string

record VultrLoadBalancer =
  lb_ID :: string
  lb_DateCreated :: string
  lb_Region :: string
  lb_Label :: string
  lb_Status :: string
  lb_IPV4 :: string
  lb_IPV6 :: string
  lb_Instances :: "string list"
  lb_Nodes :: int
  lb_HealthCheck :: "HealthCheck option"
  lb_GenericInfo :: "GenericInfo option"
  lb_SSLInfo :: "bool option"
  lb_ForwardingRules :: "ForwardingRule list"
  lb_FirewallRules :: "LBFirewallRule list"

record NetworkSpec =
  ns_APIServerLoadbalancers :: VultrLoadBalancer

definition zero_VultrResourceReference :: VultrResourceReference where
  "zero_VultrResourceReference = \<lparr>ref_ResourceID = [], ref_ResourceSubscriptionStatus = [],
     ref_ResourcePowerStatus = [], ref_ResourceServerState = []\<rparr>"

definition zero_HealthCheck :: HealthCheck where
  "zero_HealthCheck = \<lparr>hc_Protocol = [], hc_Port = 0, hc_Path = [], hc_CheckInterval = 0,
     hc_ResponseTimeout = 0, hc_UnhealthyThreshold = 0, hc_HealthyThreshold = 0\<rparr>"

definition zero_GenericInfo :: GenericInfo where
  "zero_GenericInfo = \<lparr>gi_BalancingAlgorithm = [], gi_SSLRedirect = None, gi_StickySessions = None,
     gi_ProxyProtocol = None, gi_PrivateNetwork = [], gi_VPC = []\<rparr>"

definition zero_VultrLoadBalancer :: VultrLoadBalancer where
  "zero_VultrLoadBalancer = \<lparr>lb_ID = [], lb_DateCreated = [], lb_Region = [], lb_Label = [],
     lb_Status = [], lb_IPV4 = [], lb_IPV6 = [], lb_Instances = [], lb_Nodes = 0,
     lb_HealthCheck = None, lb_GenericInfo = None, lb_SSLInfo = None,
     lb_ForwardingRules = [], lb_FirewallRules = []\<rparr>"

definition DefaultLBPort :: int where "DefaultLBPort = 6443"
definition DefaultLBAlgorithm :: string where "DefaultLBAlgorithm = ''roundrobin''"
definition DefaultLBHealthCheckInterval :: int where "DefaultLBHealthCheckInterval = 15"
definition DefaultLBHealthCheckTimeout :: int where "DefaultLBHealthCheckTimeout = 5"
definition DefaultLBHealthCheckUnhealthyThreshold :: int where
  "DefaultLBHealthCheckUnhealthyThreshold = 5"
definition DefaultLBHealthCheckHealthyThreshold :: int where
  "DefaultLBHealthCheckHealthyThreshold = 5"

lemmas default_lb_defs [go_defs] =
  DefaultLBPort_def DefaultLBAlgorithm_def DefaultLBHealthCheckInterval_def
  DefaultLBHealthCheckTimeout_def DefaultLBHealthCheckUnhealthyThreshold_def
  DefaultLBHealthCheckHealthyThreshold_def

text \<open>The health-check half and the generic-info half of \<open>ApplyDefaults\<close>.\<close>

definition default_HealthCheck :: "HealthCheck option \<Rightarrow> HealthCheck" where
  "default_HealthCheck h =
    (let h0 = (case h of None \<Rightarrow> zero_HealthCheck | Some h \<Rightarrow> h);
         h1 = (if hc_Port h0 = 0 then h0\<lparr>hc_Port := DefaultLBPort\<rparr> else h0);
         h2 = (if hc_CheckInterval h1 = 0
               then h1\<lparr>hc_CheckInterval := DefaultLBHealthCheckInterval\<rparr> else h1);
         h3 = (if hc_ResponseTimeout h2 = 0
               then h2\<lparr>hc_ResponseTimeout := DefaultLBHealthCheckTimeout\<rparr> else h2);
         h4 = (if hc_UnhealthyThreshold h3 = 0
               then h3\<lparr>hc_UnhealthyThreshold := DefaultLBHealthCheckUnhealthyThreshold\<rparr> else h3)
     in if hc_HealthyThreshold h4 = 0
        then h4\<lparr>hc_HealthyThreshold := DefaultLBHealthCheckHealthyThreshold\<rparr> else h4)"

definition default_GenericInfo :: "GenericInfo option \<Rightarrow> GenericInfo" where
  "default_GenericInfo g =
    (let g0 = (case g of None \<Rightarrow> zero_GenericInfo | Some g \<Rightarrow> g)
     in if gi_BalancingAlgorithm g0 = [] then g0\<lparr>gi_BalancingAlgorithm := DefaultLBAlgorithm\<rparr>
        else g0)"

definition ApplyDefaults :: "VultrLoadBalancer \<Rightarrow> VultrLoadBalancer" where
  "ApplyDefaults lb =
     lb\<lparr>lb_HealthCheck := Some (default_HealthCheck (lb_HealthCheck lb)),
        lb_GenericInfo := Some (default_GenericInfo (lb_GenericInfo lb))\<rparr>"

section \<open>VultrMachine\<close>

definition MachineFinalizer :: string where
  "MachineFinalizer = ''vultrmachine.infrastructure.cluster.x-k8s.io''"

record VultrMachineSpec =
  vms_ProviderID :: "string option"
  vms_Snapshot :: string
  vms_PlanID :: string
  vms_Region :: string
  vms_SSHKey :: "string list"
  vms_VPCID :: string
  vms_VPCOnly :: bool
  vms_FirewallGroupID :: string
  vms_VPC2ID :: string

record VultrMachineStatus =
  vmst_Ready :: bool
  vmst_CPU :: int
  vmst_RAM :: int
  vmst_Storage :: int
  vmst_Provisioned :: bool
  vmst_Addresses :: "NodeAddress list"
  vmst_SubscriptionStatus :: "SubscriptionStatus option"
  vmst_PowerStatus :: "PowerStatus option"
  vmst_ServerState :: "ServerState option"
  vmst_Conditions :: "Condition list"

record VultrMachine =
  vm_meta :: ObjectMeta
  vm_Spec :: VultrMachineSpec
  vm_Status :: VultrMachineStatus

definition VultrMachine_GetConditions :: "VultrMachine \<Rightarrow> Condition list" where
  "VultrMachine_GetConditions r = vmst_Conditions (vm_Status r)"

definition VultrMachine_SetConditions :: "Condition list \<Rightarrow> VultrMachine \<Rightarrow> VultrMachine" where
  "VultrMachine_SetConditions cs r = r\<lparr>vm_Status := (vm_Status r)\<lparr>vmst_Conditions := cs\<rparr>\<rparr>"

section \<open>VultrBareMetalMachine\<close>

definition BareMetalMachineFinalizer :: string where
  "BareMetalMachineFinalizer = ''vultrbaremetalmachine.infrastructure.cluster.x-k8s.io''"

type_synonym BareMetalDiskMode = string

definition BareMetalDiskModeRAID1 :: BareMetalDiskMode where "BareMetalDiskModeRAID1 = ''raid1''"
definition BareMetalDiskModeJBOD :: BareMetalDiskMode where "BareMetalDiskModeJBOD = ''jbod''"
definition BareMetalDiskModeNone :: BareMetalDiskMode where "BareMetalDiskModeNone = ''none''"

record VultrBareMetalMachineSpec =
  bms_ProviderID :: "string option"
  bms_Region :: string
  bms_PlanID :: string
  bms_OSID :: int
  bms_SSHKey :: "string list"
  bms_VPCID :: string
  bms_MdiskMode :: BareMetalDiskMode
  bms_EnableIPv6 :: "bool option"
  bms_AdditionalTags :: "string list"

record VultrBareMetalVPCStatus =
  bv_ID :: string
  bv_IPAddress :: string
  bv_MACAddress :: string

record VultrBareMetalMachineStatus =
  bmst_Ready :: bool
  bmst_Provisioned :: "bool option"
  bmst_Addresses :: "NodeAddress list"
  bmst_CPU :: int
  bmst_RAM :: string
  bmst_Disk :: string
  bmst_SubscriptionStatus :: "SubscriptionStatus option"
  bmst_VPC :: "VultrBareMetalVPCStatus option"
  bmst_Conditions :: "Condition list"

record VultrBareMetalMachine =
  bm_meta :: ObjectMeta
  bm_Spec :: VultrBareMetalMachineSpec
  bm_Status :: VultrBareMetalMachineStatus

definition VultrBareMetalMachine_GetConditions :: "VultrBareMetalMachine \<Rightarrow> Condition list" where
  "VultrBareMetalMachine_GetConditions r = bmst_Conditions (bm_Status r)"

definition VultrBareMetalMachine_SetConditions ::
  "Condition list \<Rightarrow> VultrBareMetalMachine \<Rightarrow> VultrBareMetalMachine" where
  "VultrBareMetalMachine_SetConditions cs r =
     r\<lparr>bm_Status := (bm_Status r)\<lparr>bmst_Conditions := cs\<rparr>\<rparr>"

section \<open>VultrCluster\<close>

definition ClusterFinalizer :: string where
  "ClusterFinalizer = ''vultrcluster.infrastructure.cluster.x-k8s.io''"

record VultrClusterSpec =
  vcs_Region :: string
  vcs_Network :: NetworkSpec
  vcs_ControlPlaneEndpoint :: APIEndpoint
  vcs_VPCID :: string

record VultrClusterStatus =
  vcst_Ready :: bool
  vcst_Provisioned :: "bool option"
  vcst_Conditions :: "Condition list"
  vcst_Network :: VultrNetworkResource

record VultrCluster =
  vc_meta :: ObjectMeta
  vc_Spec :: VultrClusterSpec
  vc_Status :: VultrClusterStatus

definition VultrCluster_GetConditions :: "VultrCluster \<Rightarrow> Condition list" where
  "VultrCluster_GetConditions r = vcst_Conditions (vc_Status r)"

definition VultrCluster_SetConditions :: "Condition list \<Rightarrow> VultrCluster \<Rightarrow> VultrCluster" where
  "VultrCluster_SetConditions cs r = r\<lparr>vc_Status := (vc_Status r)\<lparr>vcst_Conditions := cs\<rparr>\<rparr>"

text \<open>The zero value \<^verbatim>\<open>VultrCluster{}\<close>, which a failed \<^verbatim>\<open>Get\<close> leaves in place.\<close>

definition zero_VultrCluster :: VultrCluster where
  "zero_VultrCluster = \<lparr>vc_meta = zero_ObjectMeta,
     vc_Spec = \<lparr>vcs_Region = [],
       vcs_Network = \<lparr>ns_APIServerLoadbalancers = zero_VultrLoadBalancer\<rparr>,
       vcs_ControlPlaneEndpoint = \<lparr>ep_Host = [], ep_Port = 0\<rparr>, vcs_VPCID = []\<rparr>,
     vc_Status = \<lparr>vcst_Ready = False, vcst_Provisioned = None, vcst_Conditions = [],
       vcst_Network = \<lparr>nr_APIServerLoadbalancersRef = zero_VultrResourceReference\<rparr>\<rparr>\<rparr>"

definition GroupVersion_String :: string where
  "GroupVersion_String = ''infrastructure.cluster.x-k8s.io/v1beta2''"

lemmas finalizer_defs [go_defs] =
  MachineFinalizer_def BareMetalMachineFinalizer_def ClusterFinalizer_def GroupVersion_String_def

lemma GetConditions_SetConditions [simp]:
  "VultrMachine_GetConditions (VultrMachine_SetConditions cs m) = cs"
  "VultrBareMetalMachine_GetConditions (VultrBareMetalMachine_SetConditions cs b) = cs"
  "VultrCluster_GetConditions (VultrCluster_SetConditions cs c) = cs"
  by (simp_all add: VultrMachine_GetConditions_def VultrMachine_SetConditions_def
      VultrBareMetalMachine_GetConditions_def VultrBareMetalMachine_SetConditions_def
      VultrCluster_GetConditions_def VultrCluster_SetConditions_def)

lemma SetConditions_frame [simp]:
  "vm_meta (VultrMachine_SetConditions cs m) = vm_meta m"
  "vm_Spec (VultrMachine_SetConditions cs m) = vm_Spec m"
  "bm_meta (VultrBareMetalMachine_SetConditions cs b) = bm_meta b"
  "bm_Spec (VultrBareMetalMachine_SetConditions cs b) = bm_Spec b"
  "vc_meta (VultrCluster_SetConditions cs c) = vc_meta c"
  "vc_Spec (VultrCluster_SetConditions cs c) = vc_Spec c"
  by (simp_all add: VultrMachine_SetConditions_def VultrBareMetalMachine_SetConditions_def
      VultrCluster_SetConditions_def)

section \<open>Properties of the defaulting\<close>

text \<open>The chain of conditional updates, as one conditional value per field.\<close>

lemma HealthCheck_if_update:
  "(if b then h\<lparr>hc_Port := x\<rparr> else h) = h\<lparr>hc_Port := if b then x else hc_Port h\<rparr>"
  "(if b then h\<lparr>hc_CheckInterval := x\<rparr> else h) = h\<lparr>hc_CheckInterval := if b then x else hc_CheckInterval h\<rparr>"
  "(if b then h\<lparr>hc_ResponseTimeout := x\<rparr> else h) = h\<lparr>hc_ResponseTimeout := if b then x else hc_ResponseTimeout h\<rparr>"
  "(if b then h\<lparr>hc_UnhealthyThreshold := x\<rparr> else h) =
     h\<lparr>hc_UnhealthyThreshold := if b then x else hc_UnhealthyThreshold h\<rparr>"
  "(if b then h\<lparr>hc_HealthyThreshold := x\<rparr> else h) =
     h\<lparr>hc_HealthyThreshold := if b then x else hc_HealthyThreshold h\<rparr>"
  by simp_all

definition or_default_int :: "int \<Rightarrow> int \<Rightarrow> int" where
  "or_default_int d x = (if x = 0 then d else x)"

lemma or_default_int_idem [simp]: "or_default_int d (or_default_int d x) = or_default_int d x"
  by (simp add: or_default_int_def)

lemma default_HealthCheck_fields:
  "default_HealthCheck h =
    (let h0 = (case h of None \<Rightarrow> zero_HealthCheck | Some h \<Rightarrow> h) in
     h0\<lparr>hc_Port := or_default_int DefaultLBPort (hc_Port h0),
        hc_CheckInterval := or_default_int DefaultLBHealthCheckInterval (hc_CheckInterval h0),
        hc_ResponseTimeout := or_default_int DefaultLBHealthCheckTimeout (hc_ResponseTimeout h0),
        hc_UnhealthyThreshold := or_default_int DefaultLBHealthCheckUnhealthyThreshold (hc_UnhealthyThreshold h0),
        hc_HealthyThreshold := or_default_int DefaultLBHealthCheckHealthyThreshold (hc_HealthyThreshold h0)\<rparr>)"
  unfolding default_HealthCheck_def Let_def HealthCheck_if_update or_default_int_def by simp

lemma default_HealthCheck_idem: "default_HealthCheck (Some (default_HealthCheck h)) = default_HealthCheck h"
  by (simp add: default_HealthCheck_fields Let_def)

lemma default_GenericInfo_idem: "default_GenericInfo (Some (default_GenericInfo g)) = default_GenericInfo g"
  by (cases g) (auto simp: default_GenericInfo_def zero_GenericInfo_def default_lb_defs Let_def)

lemma ApplyDefaults_sel [simp]:
  "lb_HealthCheck (ApplyDefaults lb) = Some (default_HealthCheck (lb_HealthCheck lb))"
  "lb_GenericInfo (ApplyDefaults lb) = Some (default_GenericInfo (lb_GenericInfo lb))"
  "lb_ID (ApplyDefaults lb) = lb_ID lb"
  "lb_FirewallRules (ApplyDefaults lb) = lb_FirewallRules lb"
  by (simp_all add: ApplyDefaults_def)

lemma default_HealthCheck_nonzero:
  "hc_Port (default_HealthCheck h) \<noteq> 0 \<and> hc_CheckInterval (default_HealthCheck h) \<noteq> 0 \<and>
   hc_ResponseTimeout (default_HealthCheck h) \<noteq> 0 \<and>
   hc_UnhealthyThreshold (default_HealthCheck h) \<noteq> 0 \<and>
   hc_HealthyThreshold (default_HealthCheck h) \<noteq> 0"
  by (simp add: default_HealthCheck_fields Let_def or_default_int_def default_lb_defs)

lemma default_HealthCheck_Port:
  "hc_Port (default_HealthCheck h) =
     (case h of None \<Rightarrow> DefaultLBPort | Some c \<Rightarrow> if hc_Port c = 0 then DefaultLBPort else hc_Port c)"
  by (simp add: default_HealthCheck_fields Let_def or_default_int_def zero_HealthCheck_def split: option.split)

end
