(* ===== verification/Api_Tags.thy ===== *)
theory Api_Tags
  imports Api_Types
begin

text \<open>
  Resource tags (\<^verbatim>\<open>api/v1beta2/tags.go\<close>): the tags the provider puts on an
  instance or a server, and the test whether a resource's tags name a machine of a
  cluster. The main fact is \<open>TagsOwnedByMachine_BuildTags\<close>: the tags built for one
  machine are recognised for exactly the machines with its name and cluster UID.
\<close>

definition TagPrefix :: string where "TagPrefix = ''capvultr''"
definition ControlPlaneRoleTagValue :: string where "ControlPlaneRoleTagValue = ''control-plane''"
definition WorkerRoleTagValue :: string where "WorkerRoleTagValue = ''worker''"

definition ClusterTag :: "string \<Rightarrow> string" where
  "ClusterTag clusterName = TagPrefix @ '':cluster:'' @ clusterName"

definition ClusterUIDTag :: "string \<Rightarrow> string" where
  "ClusterUIDTag clusterUID = TagPrefix @ '':cluster-uid:'' @ clusterUID"

definition RoleTag :: "string \<Rightarrow> string" where
  "RoleTag role = TagPrefix @ '':role:'' @ role"

definition NameTagFromName :: "string \<Rightarrow> string" where
  "NameTagFromName name = ''name:'' @ name"

record BuildTagParams =
  bt_ClusterName :: string
  bt_ClusterUID :: string
  bt_Name :: string
  bt_Role :: string

definition BuildTags :: "BuildTagParams \<Rightarrow> string list" where
  "BuildTags params =
     [ClusterTag (bt_ClusterName params), ClusterUIDTag (bt_ClusterUID params),
      RoleTag (bt_Role params), NameTagFromName (bt_Name params)]"

definition TagsOwnedByMachine :: "string list \<Rightarrow> BuildTagParams \<Rightarrow> bool" where
  "TagsOwnedByMachine tags params \<longleftrightarrow>
     List.member tags (NameTagFromName (bt_Name params)) \<and>
     List.member tags (ClusterUIDTag (bt_ClusterUID params))"

lemmas tag_defs [go_defs] =
  TagPrefix_def ControlPlaneRoleTagValue_def WorkerRoleTagValue_def
  ClusterTag_def ClusterUIDTag_def RoleTag_def NameTagFromName_def

text \<open>Each tag builder is injective, and no two builders ever give the same tag.\<close>

lemma tag_inject [simp]:
  "ClusterTag a = ClusterTag b \<longleftrightarrow> a = b"
  "ClusterUIDTag a = ClusterUIDTag b \<longleftrightarrow> a = b"
  "RoleTag a = RoleTag b \<longleftrightarrow> a = b"
  "NameTagFromName a = NameTagFromName b \<longleftrightarrow> a = b"
  by (simp_all add: tag_defs)

lemma tag_distinct [simp]:
  "ClusterTag a \<noteq> ClusterUIDTag b" "ClusterUIDTag b \<noteq> ClusterTag a"
  "ClusterTag a \<noteq> RoleTag b" "RoleTag b \<noteq> ClusterTag a"
  "ClusterTag a \<noteq> NameTagFromName b" "NameTagFromName b \<noteq> ClusterTag a"
  "ClusterUIDTag a \<noteq> RoleTag b" "RoleTag b \<noteq> ClusterUIDTag a"
  "ClusterUIDTag a \<noteq> NameTagFromName b" "NameTagFromName b \<noteq> ClusterUIDTag a"
  "RoleTag a \<noteq> NameTagFromName b" "NameTagFromName b \<noteq> RoleTag a"
  by (simp_all add: tag_defs)

lemma TagsOwnedByMachine_mono:
  "set tags \<subseteq> set tags' \<Longrightarrow> TagsOwnedByMachine tags params \<Longrightarrow> TagsOwnedByMachine tags' params"
  by (auto simp: TagsOwnedByMachine_def)

lemma TagsOwnedByMachine_BuildTags:
  "TagsOwnedByMachine (BuildTags p) q \<longleftrightarrow> bt_Name p = bt_Name q \<and> bt_ClusterUID p = bt_ClusterUID q"
  by (auto simp: TagsOwnedByMachine_def BuildTags_def)

end
