(* ===== verification/Vultr_API.thy ===== *)
theory Vultr_API
  imports Api_Tags
begin

text \<open>
  The Vultr API as the sources see it, through the \<^verbatim>\<open>govultr\<close> client library:
  the request and answer types with the fields the sources use, and the service
  interfaces as records of functions on a world of an arbitrary type \<open>'w\<close>. These
  functions are parameters: nothing is assumed about what a call answers or does.
  A call returns \<^verbatim>\<open>govultr\<close>'s value, response and error, and the round trips it
  made through the HTTP transport.

  \<^verbatim>\<open>cloud/vultrerrors\<close> is modelled here: the transport that notes the HTTP status
  of every response for the call that owns the context.

  Every call and every event is noted in the trace of the state (\<open>effect\<close>); the
  trace is bookkeeping for the theorems and no definition reads it.
\<close>

section \<open>HTTP and vultrerrors\<close>

record Response =
  StatusCode :: int

definition StatusNotFound :: int where "StatusNotFound = 404"
definition StatusUnprocessableEntity :: int where "StatusUnprocessableEntity = 422"

text \<open>
  A context carries the capture cell of the call that owns it, or none; the cell
  holds the last status. One round trip gives a response or none, and an error or none.
\<close>

type_synonym capture = int
type_synonym call_ctx = "capture option"
type_synonym round_trip = "Response option \<times> error option"

definition Capture :: call_ctx where
  "Capture = Some 0"

definition Record :: "call_ctx \<Rightarrow> int \<Rightarrow> call_ctx" where
  "Record ctx status = (case ctx of Some _ \<Rightarrow> Some status | None \<Rightarrow> None)"

definition RoundTrip :: "round_trip \<Rightarrow> call_ctx \<Rightarrow> call_ctx" where
  "RoundTrip trip ctx = (case fst trip of Some res \<Rightarrow> Record ctx (StatusCode res) | None \<Rightarrow> ctx)"

text \<open>What \<^verbatim>\<open>status()\<close> of a captured call reports after the call made these round trips.\<close>

definition captured_status :: "round_trip list \<Rightarrow> int" where
  "captured_status trips = (case fold RoundTrip trips Capture of Some c \<Rightarrow> c | None \<Rightarrow> 0)"

section \<open>Requests and answers\<close>

record Instance =
  in_ID :: string
  in_Label :: string
  in_Hostname :: string
  in_Status :: string
  in_Tags :: "string list"
  in_MainIP :: string
  in_InternalIP :: string
  in_VCPUCount :: int
  in_RAM :: int
  in_Disk :: int

record InstanceCreateReq =
  icr_Label :: string
  icr_Hostname :: string
  icr_Region :: string
  icr_Plan :: string
  icr_SSHKeys :: "string list"
  icr_SnapshotID :: string
  icr_UserData :: string
  icr_EnableIPv6 :: "bool option"
  icr_AttachVPC :: "string list"
  icr_Tags :: "string list"

record BareMetalServer =
  bs_ID :: string
  bs_Plan :: string
  bs_Status :: string
  bs_Tags :: "string list"
  bs_MainIP :: string
  bs_CPUCount :: int
  bs_RAM :: string
  bs_Disk :: string

record BareMetalCreate =
  bcr_Region :: string
  bcr_Plan :: string
  bcr_OsID :: int
  bcr_Label :: string
  bcr_Hostname :: string
  bcr_SSHKeyIDs :: "string list"
  bcr_UserData :: string
  bcr_MdiskMode :: string
  bcr_EnableIPv6 :: "bool option"
  bcr_ActivationEmail :: "bool option"
  bcr_Tags :: "string list"

record VPCInfo =
  vpc_ID :: string
  vpc_IPAddress :: string
  vpc_MacAddress :: string

record LoadBalancer =
  gl_ID :: string
  gl_Label :: string
  gl_Status :: string
  gl_IPV4 :: string
  gl_Instances :: "string list"

record LBForwardingRule =
  lf_FrontendProtocol :: string
  lf_FrontendPort :: int
  lf_BackendProtocol :: string
  lf_BackendPort :: int

record LBHealthCheck =
  lh_Protocol :: string
  lh_Port :: int
  lh_CheckInterval :: int
  lh_ResponseTimeout :: int
  lh_UnhealthyThreshold :: int
  lh_HealthyThreshold :: int

record LBRule =
  lr_IPType :: string
  lr_Port :: int
  lr_Source :: string

record LoadBalancerReq =
  lq_Label :: string
  lq_Region :: string
  lq_VPC :: "string option"
  lq_ForwardingRules :: "LBForwardingRule list"
  lq_HealthCheck :: "LBHealthCheck option"
  lq_BalancingAlgorithm :: string
  lq_FirewallRules :: "LBRule list"
  lq_Instances :: "string list"

definition zero_LoadBalancerReq :: LoadBalancerReq where
  "zero_LoadBalancerReq = \<lparr>lq_Label = [], lq_Region = [], lq_VPC = None, lq_ForwardingRules = [],
     lq_HealthCheck = None, lq_BalancingAlgorithm = [], lq_FirewallRules = [], lq_Instances = []\<rparr>"

record ListOptions =
  lo_PerPage :: int
  lo_Cursor :: string
  lo_Label :: string
  lo_Tag :: string

text \<open>
  \<^verbatim>\<open>govultr.Meta\<close> with its \<^verbatim>\<open>Links\<close>: \<open>None\<close> for a nil pointer, and the cursor of
  the next page.
\<close>

record Links =
  Next :: string

record Meta =
  m_Links :: "Links option"

section \<open>The service interfaces\<close>

record 'a answer =
  a_value :: "'a option"
  a_resp :: "Response option"
  a_err :: "error option"
  a_trips :: "round_trip list"

record 'a page =
  p_items :: "'a list"
  p_meta :: "Meta option"
  p_err :: "error option"

record 'w InstanceService =
  Instances_Get :: "string \<Rightarrow> 'w \<Rightarrow> Instance answer \<times> 'w"
  Instances_List :: "ListOptions \<Rightarrow> 'w \<Rightarrow> Instance page \<times> 'w"
  Instances_Create :: "InstanceCreateReq \<Rightarrow> 'w \<Rightarrow> Instance answer \<times> 'w"
  Instances_Delete :: "string \<Rightarrow> 'w \<Rightarrow> unit answer \<times> 'w"

record 'w BareMetalServerService =
  BareMetal_Get :: "string \<Rightarrow> 'w \<Rightarrow> BareMetalServer answer \<times> 'w"
  BareMetal_List :: "ListOptions \<Rightarrow> 'w \<Rightarrow> BareMetalServer page \<times> 'w"
  BareMetal_Create :: "BareMetalCreate \<Rightarrow> 'w \<Rightarrow> BareMetalServer answer \<times> 'w"
  BareMetal_Delete :: "string \<Rightarrow> 'w \<Rightarrow> unit answer \<times> 'w"
  BareMetal_ListVPCInfo :: "string \<Rightarrow> 'w \<Rightarrow> (error + VPCInfo list) \<times> 'w"
  BareMetal_AttachVPC :: "string \<Rightarrow> string \<Rightarrow> 'w \<Rightarrow> error option \<times> 'w"

record 'w LoadBalancerService =
  LoadBalancers_Get :: "string \<Rightarrow> 'w \<Rightarrow> LoadBalancer answer \<times> 'w"
  LoadBalancers_Create :: "LoadBalancerReq \<Rightarrow> 'w \<Rightarrow> LoadBalancer answer \<times> 'w"
  LoadBalancers_Update :: "string \<Rightarrow> LoadBalancerReq \<Rightarrow> 'w \<Rightarrow> unit answer \<times> 'w"
  LoadBalancers_Delete :: "string \<Rightarrow> 'w \<Rightarrow> error option \<times> 'w"

text \<open>An SSH key is its ID; the snapshot service is handed on and never called.\<close>

record 'w SSHKeyService =
  SSHKeys_Get :: "string \<Rightarrow> 'w \<Rightarrow> string answer \<times> 'w"

record 'w VultrAPIClients =
  Instances :: "'w InstanceService"
  LoadBalancers :: "'w LoadBalancerService"
  SSHKeys :: "'w SSHKeyService"
  BareMetal :: "'w BareMetalServerService"

section \<open>State and trace\<close>

text \<open>
  Arguments of an event's note, which the event recorder formats: the recorder gets
  the format and the arguments, as in the source.
\<close>

datatype event_arg = AStr string | AErr error | AAddrs "NodeAddress list"

datatype effect =
    CallInstanceGet string
  | CallInstanceList ListOptions
  | CallInstanceCreate InstanceCreateReq
  | CallInstanceDelete string
  | CallBareMetalGet string
  | CallBareMetalList ListOptions
  | CallBareMetalCreate BareMetalCreate
  | CallBareMetalDelete string
  | CallListVPCInfo string
  | CallAttachVPC string string
  | CallLBGet string
  | CallLBCreate LoadBalancerReq
  | CallLBUpdate string LoadBalancerReq
  | CallLBDelete string
  | CallSSHKeyGet string
  | CallSecretGet NamespacedName
  | PatchVultrMachine VultrMachine
  | PatchVultrBareMetalMachine VultrBareMetalMachine
  | PatchVultrCluster VultrCluster
  | Eventf string string string string "event_arg list"

text \<open>
  The state of one reconcile: the world outside, the trace so far, and the object
  being reconciled, which the scopes hold by pointer and the code changes in place.
\<close>

record ('w, 'o) st =
  world :: 'w
  trace :: "effect list"
  obj :: 'o

definition call :: "effect \<Rightarrow> ('w \<Rightarrow> 'r \<times> 'w) \<Rightarrow> (('w, 'o) st, 'r) comp" where
  "call e f s = (case f (world s) of (r, w) \<Rightarrow> Ret r (s\<lparr>world := w, trace := trace s @ [e]\<rparr>))"

definition note_event :: "effect \<Rightarrow> (('w, 'o) st, unit) comp" where
  "note_event e s = Ret () (s\<lparr>trace := trace s @ [e]\<rparr>)"

definition modify_obj :: "('o \<Rightarrow> 'o) \<Rightarrow> (('w, 'o) st, unit) comp" where
  "modify_obj f s = Ret () (s\<lparr>obj := f (obj s)\<rparr>)"

definition get_obj :: "(('w, 'o) st, 'o) comp" where
  "get_obj s = Ret (obj s) s"

lemma modify_obj_apply [simp]: "modify_obj f s = Ret () (s\<lparr>obj := f (obj s)\<rparr>)"
  by (simp add: modify_obj_def)

lemma get_obj_apply [simp]: "get_obj s = Ret (obj s) s"
  by (simp add: get_obj_def)

lemma note_event_apply [simp]: "note_event e s = Ret () (s\<lparr>trace := trace s @ [e]\<rparr>)"
  by (simp add: note_event_def)

lemma wp_call [wp_rules]:
  "wp (call e f) Q P s \<longleftrightarrow>
     Q (fst (f (world s))) (s\<lparr>world := snd (f (world s)), trace := trace s @ [e]\<rparr>)"
  by (simp add: wp_def call_def split: prod.split)

lemma wp_note_event [wp_rules]:
  "wp (note_event e) Q P s \<longleftrightarrow> Q () (s\<lparr>trace := trace s @ [e]\<rparr>)"
  by (simp add: wp_def)

lemma wp_modify_obj [wp_rules]:
  "wp (modify_obj f) Q P s \<longleftrightarrow> Q () (s\<lparr>obj := f (obj s)\<rparr>)"
  by (simp add: wp_def)

lemma wp_get_obj [wp_rules]: "wp get_obj Q P s \<longleftrightarrow> Q (obj s) s"
  by (simp add: wp_def)

lemma call_eq: "f (world s) = (r, w) \<Longrightarrow> call e f s = Ret r (s\<lparr>world := w, trace := trace s @ [e]\<rparr>)"
  by (simp add: call_def)

section \<open>What a computation adds to the trace\<close>

text \<open>
  \<open>emits A n m\<close>: whatever the answers, a run of \<open>m\<close> only appends to the trace, and
  at most \<open>n\<close> of the effects it appends satisfy \<open>A\<close>. It is preserved by sequencing,
  so the bound of a whole handler follows from those of the calls it makes.
\<close>

definition appends :: "(effect \<Rightarrow> bool) \<Rightarrow> nat \<Rightarrow> ('w, 'o) st \<Rightarrow> ('w, 'o) st \<Rightarrow> bool" where
  "appends A n s s' \<longleftrightarrow> (\<exists>ts. trace s' = trace s @ ts \<and> length (filter A ts) \<le> n)"

definition emits :: "(effect \<Rightarrow> bool) \<Rightarrow> nat \<Rightarrow> (('w, 'o) st, 'a) comp \<Rightarrow> bool" where
  "emits A n m \<longleftrightarrow> (\<forall>s. wp m (\<lambda>_ s'. appends A n s s') (appends A n s) s)"

lemma appends_refl [simp, intro]: "appends A n s s"
  by (simp add: appends_def)

lemma appends_trans: "appends A i s s' \<Longrightarrow> appends A j s' s'' \<Longrightarrow> appends A (i + j) s s''"
  by (fastforce simp: appends_def)

lemma appends_mono: "appends A i s s' \<Longrightarrow> i \<le> j \<Longrightarrow> appends A j s s'"
  by (fastforce simp: appends_def)

lemma appends_set_obj [simp]:
  "appends A n (s\<lparr>obj := v\<rparr>) = appends A n s" "appends A n s (s'\<lparr>obj := v\<rparr>) \<longleftrightarrow> appends A n s s'"
  by (simp_all add: appends_def fun_eq_iff)

lemma emits_wp: "emits A n m \<Longrightarrow> wp m (\<lambda>_ s'. appends A n s s') (appends A n s) s"
  by (simp add: emits_def)

lemma emits_RetD: "emits A n m \<Longrightarrow> m s = Ret a s' \<Longrightarrow> appends A n s s'"
  using emits_wp wp_RetD by fastforce

lemma emits_PanicD: "emits A n m \<Longrightarrow> m s = Panic msg s' \<Longrightarrow> appends A n s s'"
  using emits_wp wp_PanicD by fastforce

lemma emits_mono: "emits A i m \<Longrightarrow> i \<le> j \<Longrightarrow> emits A j m"
  unfolding emits_def by (blast intro: wp_mono appends_mono)

lemma emits_ret [emit_rules]: "emits A n (ret a)"
  by (simp add: emits_def wp_rules)

lemma emits_panic [emit_rules]: "emits A n (panic msg)"
  by (simp add: emits_def wp_rules)

lemma emits_get_obj [emit_rules]: "emits A n get_obj"
  by (simp add: emits_def wp_rules)

lemma emits_read_state [emit_rules]: "emits A n (read_state f)"
  by (simp add: emits_def wp_rules)

lemma emits_modify_obj [emit_rules]: "emits A n (modify_obj f)"
  by (simp add: emits_def wp_rules appends_def)

lemma emits_call_free [emit_rules]: "\<not> A e \<Longrightarrow> emits A n (call e f)"
  by (simp add: emits_def wp_rules appends_def)

lemma emits_call_one: "emits A 1 (call e f)"
  by (simp add: emits_def wp_rules appends_def)

lemma emits_note_event_free [emit_rules]: "\<not> A e \<Longrightarrow> emits A n (note_event e)"
  by (simp add: emits_def wp_rules appends_def)

lemma emits_and_then:
  assumes "emits A i m" and "\<And>a. emits A j (k a)"
  shows "emits A (i + j) (and_then m k)"
proof -
  have "wp (and_then m k) (\<lambda>_. appends A (i + j) s) (appends A (i + j) s) s" for s
    unfolding wp_and_then
  proof (rule wp_mono [OF emits_wp [OF assms(1), of s]])
    fix a s' assume s': "appends A i s s'"
    show "wp (k a) (\<lambda>_. appends A (i + j) s) (appends A (i + j) s) s'"
      by (rule wp_mono [OF emits_wp [OF assms(2) [of a], of s']]) (rule appends_trans [OF s'], assumption)+
  next
    fix s' assume "appends A i s s'"
    then show "appends A (i + j) s s'" by (rule appends_mono) simp
  qed
  then show ?thesis by (simp add: emits_def)
qed

lemma emits_and_then_0 [emit_rules]:
  "emits A 0 m \<Longrightarrow> (\<And>a. emits A n (k a)) \<Longrightarrow> emits A n (and_then m k)"
  using emits_and_then [of A 0 m n k] by simp

lemma emits_try_then:
  assumes "emits A i m" and "\<And>e. emits A j (h e)" and "\<And>a. emits A j (k a)"
  shows "emits A (i + j) (try_then m h k)"
  unfolding try_then_def
  using assms by (intro emits_and_then) (auto split: sum.split)

lemma emits_try_then_0 [emit_rules]:
  "emits A 0 m \<Longrightarrow> (\<And>e. emits A n (h e)) \<Longrightarrow> (\<And>a. emits A n (k a)) \<Longrightarrow> emits A n (try_then m h k)"
  using emits_try_then [of A 0 m n h k] by simp

lemma emits_try_then_first:
  "emits A n m \<Longrightarrow> (\<And>e. emits A 0 (h e)) \<Longrightarrow> (\<And>a. emits A 0 (k a)) \<Longrightarrow> emits A n (try_then m h k)"
  using emits_try_then [of A n m 0 h k] by simp

lemma wp_try_then_emits:
  assumes "wp m (\<lambda>_. appends A n s) (appends A n s) s'" and "\<And>e. emits A 0 (h e)" and "\<And>a. emits A 0 (k a)"
  shows "wp (try_then m h k) (\<lambda>_. appends A n s) (appends A n s) s'"
  unfolding wp_try_then
proof (rule wp_mono [OF assms(1)])
  fix r s1 assume s1: "appends A n s s1"
  have "wp (case r of Inl e \<Rightarrow> h e | Inr a \<Rightarrow> k a) (\<lambda>_. appends A 0 s1) (appends A 0 s1) s1"
    using assms(2,3) by (auto split: sum.split intro: emits_wp)
  then have "wp (case r of Inl e \<Rightarrow> h e | Inr a \<Rightarrow> k a) (\<lambda>_. appends A n s) (appends A n s) s1"
    by (rule wp_mono) (use appends_trans [OF s1, of 0] in simp_all)
  then show "case r of Inl e \<Rightarrow> wp (h e) (\<lambda>_. appends A n s) (appends A n s) s1
      | Inr a \<Rightarrow> wp (k a) (\<lambda>_. appends A n s) (appends A n s) s1"
    by (simp split: sum.splits)
qed

lemma emits_call_then_one: "(\<And>a. emits A 0 (k a)) \<Longrightarrow> emits A 1 (and_then (call e f) k)"
  using emits_and_then [OF emits_call_one, of A 0 k e f] by simp

lemma emits_deferred:
  assumes "emits A i m" and "\<And>a. emits A j (after a)" and "emits A j on_panic"
  shows "emits A (i + j) (deferred after on_panic m)"
proof -
  have "wp (deferred after on_panic m) (\<lambda>_. appends A (i + j) s) (appends A (i + j) s) s" for s
  proof (rule wp_deferred, rule wp_mono [OF emits_wp [OF assms(1), of s]])
    fix a s' assume s': "appends A i s s'"
    show "wp (after a) (\<lambda>_. appends A (i + j) s) (appends A (i + j) s) s'"
      by (rule wp_mono [OF emits_wp [OF assms(2) [of a], of s']]) (rule appends_trans [OF s'], assumption)+
  next
    fix s' assume s': "appends A i s s'"
    show "wp on_panic (\<lambda>_. appends A (i + j) s) (appends A (i + j) s) s'"
      by (rule wp_mono [OF emits_wp [OF assms(3), of s']]) (rule appends_trans [OF s'], assumption)+
  qed
  then show ?thesis by (simp add: emits_def)
qed

lemma emits_if [emit_rules]:
  "(b \<Longrightarrow> emits A n m) \<Longrightarrow> (\<not> b \<Longrightarrow> emits A n m') \<Longrightarrow> emits A n (if b then m else m')"
  by simp

lemma emits_case_option [emit_rules]:
  "(x = None \<Longrightarrow> emits A n m) \<Longrightarrow> (\<And>y. x = Some y \<Longrightarrow> emits A n (k y)) \<Longrightarrow>
     emits A n (case x of None \<Rightarrow> m | Some y \<Rightarrow> k y)"
  by (cases x) simp_all

lemma emits_case_sum [emit_rules]:
  "(\<And>y. x = Inl y \<Longrightarrow> emits A n (h y)) \<Longrightarrow> (\<And>y. x = Inr y \<Longrightarrow> emits A n (k y)) \<Longrightarrow>
     emits A n (case x of Inl y \<Rightarrow> h y | Inr y \<Rightarrow> k y)"
  by (cases x) simp_all

lemma emits_case_prod [emit_rules]:
  "(\<And>y z. x = (y, z) \<Longrightarrow> emits A n (k y z)) \<Longrightarrow> emits A n (case x of (y, z) \<Rightarrow> k y z)"
  by (cases x) simp_all

lemma emits_Let [emit_rules]: "(\<And>y. y = x \<Longrightarrow> emits A n (k y)) \<Longrightarrow> emits A n (let y = x in k y)"
  by simp

section \<open>Computations that leave the object alone\<close>

definition keeps_obj :: "(('w, 'o) st, 'a) comp \<Rightarrow> bool" where
  "keeps_obj m \<longleftrightarrow> (\<forall>s. wp m (\<lambda>_ s'. obj s' = obj s) (\<lambda>s'. obj s' = obj s) s)"

lemma keeps_obj_wp: "keeps_obj m \<Longrightarrow> wp m (\<lambda>_ s'. obj s' = obj s) (\<lambda>s'. obj s' = obj s) s"
  by (simp add: keeps_obj_def)

lemma wp_keeps_obj:
  assumes "keeps_obj m" and "\<And>r s'. obj s' = obj s \<Longrightarrow> Q r s'" and "\<And>s'. obj s' = obj s \<Longrightarrow> P s'"
  shows "wp m Q P s"
  by (rule wp_mono [OF keeps_obj_wp [OF assms(1)]]) (simp_all add: assms(2,3))

lemma keeps_obj_RetD: "keeps_obj m \<Longrightarrow> m s = Ret a s' \<Longrightarrow> obj s' = obj s"
  unfolding keeps_obj_def using wp_RetD by fastforce

lemma keeps_obj_PanicD: "keeps_obj m \<Longrightarrow> m s = Panic msg s' \<Longrightarrow> obj s' = obj s"
  unfolding keeps_obj_def using wp_PanicD by fastforce

lemma keeps_obj_basic [frame_rules]:
  "keeps_obj (ret a)" "keeps_obj (panic msg)" "keeps_obj get_obj" "keeps_obj (read_state g)"
  "keeps_obj (call e f)" "keeps_obj (note_event e)"
  by (simp_all add: keeps_obj_def wp_rules)

lemma keeps_obj_and_then [frame_rules]:
  assumes "keeps_obj m" and "\<And>a. keeps_obj (k a)"
  shows "keeps_obj (and_then m k)"
  using assms by (fastforce simp: keeps_obj_def wp_def and_then_def split: outcome.splits)

lemma keeps_obj_try_then [frame_rules]:
  "keeps_obj m \<Longrightarrow> (\<And>e. keeps_obj (h e)) \<Longrightarrow> (\<And>a. keeps_obj (k a)) \<Longrightarrow> keeps_obj (try_then m h k)"
  unfolding try_then_def by (intro keeps_obj_and_then) (auto split: sum.split)

lemma keeps_obj_cases [frame_rules]:
  "(b \<Longrightarrow> keeps_obj m) \<Longrightarrow> (\<not> b \<Longrightarrow> keeps_obj m') \<Longrightarrow> keeps_obj (if b then m else m')"
  "(x = None \<Longrightarrow> keeps_obj m) \<Longrightarrow> (\<And>y. x = Some y \<Longrightarrow> keeps_obj (k y)) \<Longrightarrow>
     keeps_obj (case x of None \<Rightarrow> m | Some y \<Rightarrow> k y)"
  "(\<And>y z. p = (y, z) \<Longrightarrow> keeps_obj (k2 y z)) \<Longrightarrow> keeps_obj (case p of (y, z) \<Rightarrow> k2 y z)"
  "(\<And>y. u = Inl y \<Longrightarrow> keeps_obj (h y)) \<Longrightarrow> (\<And>y. u = Inr y \<Longrightarrow> keeps_obj (k3 y)) \<Longrightarrow>
     keeps_obj (case u of Inl y \<Rightarrow> h y | Inr y \<Rightarrow> k3 y)"
  by (simp_all split: option.split prod.split sum.split)

section \<open>What the captured status reports\<close>

lemma RoundTrip_fold_Some: "\<exists>c. fold RoundTrip trips (Some c0) = Some c"
proof (induction trips arbitrary: c0)
  case Nil
  then show ?case by simp
next
  case (Cons t ts)
  then show ?case by (cases "fst t") (simp_all add: RoundTrip_def Record_def)
qed

text \<open>Without a capture cell nothing is noted.\<close>

lemma RoundTrip_fold_None: "fold RoundTrip trips None = None"
  by (induction trips) (simp_all add: RoundTrip_def Record_def split: option.split)

lemma captured_status_append:
  "captured_status (trips @ [(r, e)]) = (case r of Some res \<Rightarrow> StatusCode res | None \<Rightarrow> captured_status trips)"
proof -
  obtain c where "fold RoundTrip trips Capture = Some c"
    using RoundTrip_fold_Some unfolding Capture_def by blast
  then show ?thesis
    by (simp add: captured_status_def RoundTrip_def Record_def split: option.split)
qed

lemma captured_status_Nil [simp]: "captured_status [] = 0"
  by (simp add: captured_status_def Capture_def)

end
