(* ===== verification/Vultr_Env.thy ===== *)
theory Vultr_Env
  imports Vultr_API
begin

text \<open>
  The libraries the sources call and do not contain, as one parameter \<open>E\<close> of the
  definitions that use them: the process environment, the Kubernetes client and the
  Cluster API helpers (functions on the world \<open>'w\<close>), and the pure helpers on
  conditions, finalizers, errors and YAML. Nothing is assumed of them in the
  definitions. What a theorem relies on is a named hypothesis, one of the predicates
  below, and each states the documented behaviour of the library function:
  \<^item> \<open>conditions_laws\<close>: \<^verbatim>\<open>conditions.Get\<close> after \<^verbatim>\<open>conditions.Set\<close>, and the predicates
    \<^verbatim>\<open>IsTrue\<close>, \<^verbatim>\<open>IsFalse\<close>, \<^verbatim>\<open>GetReason\<close> in terms of \<^verbatim>\<open>Get\<close>;
  \<^item> \<open>finalizer_laws\<close>: \<^verbatim>\<open>controllerutil.AddFinalizer\<close> and \<^verbatim>\<open>RemoveFinalizer\<close>;
  \<^item> \<open>wrap_laws\<close>: the text of a wrapped error holds the text of its cause.
\<close>

text \<open>A decoded YAML value, as \<^verbatim>\<open>sigs.k8s.io/yaml\<close> puts it into an \<^verbatim>\<open>interface{}\<close>.\<close>

datatype yaml =
    YNull
  | YBool bool
  | YNum string
  | YStr string
  | YList "yaml list"
  | YMap "(string \<times> yaml) list"

type_synonym yaml_doc = "string \<rightharpoonup> yaml"

record lib =
  IsPaused :: "Cluster \<Rightarrow> VultrCluster \<Rightarrow> bool"
  IsControlPlaneMachine :: "Machine \<Rightarrow> bool"
  IsNotFound :: "error \<Rightarrow> bool"
  WrapText :: "string \<Rightarrow> string \<Rightarrow> string"
  AddFinalizer :: "string \<Rightarrow> string list \<Rightarrow> bool \<times> string list"
  RemoveFinalizer :: "string \<Rightarrow> string list \<Rightarrow> bool \<times> string list"
  conditions_Set :: "Condition \<Rightarrow> Condition list \<Rightarrow> Condition list"
  conditions_Get :: "Condition list \<Rightarrow> string \<Rightarrow> Condition option"
  conditions_IsTrue :: "Condition list \<Rightarrow> string \<Rightarrow> bool"
  conditions_IsFalse :: "Condition list \<Rightarrow> string \<Rightarrow> bool"
  conditions_GetReason :: "Condition list \<Rightarrow> string \<Rightarrow> string"
  yaml_Unmarshal :: "string \<Rightarrow> error + yaml_doc option"
  yaml_Marshal :: "yaml_doc \<Rightarrow> error + string"
  json_Marshal :: "VultrLoadBalancer \<Rightarrow> string"

record 'w kube = lib +
  GetVultrMachine :: "NamespacedName \<Rightarrow> 'w \<Rightarrow> (error + VultrMachine) \<times> 'w"
  GetVultrBareMetalMachine :: "NamespacedName \<Rightarrow> 'w \<Rightarrow> (error + VultrBareMetalMachine) \<times> 'w"
  GetVultrCluster :: "NamespacedName \<Rightarrow> 'w \<Rightarrow> (error + VultrCluster) \<times> 'w"
  GetSecret :: "NamespacedName \<Rightarrow> 'w \<Rightarrow> (error + Secret) \<times> 'w"
  ListMachines :: "string \<Rightarrow> (string \<times> string) list \<Rightarrow> 'w \<Rightarrow> (error + Machine list) \<times> 'w"
  GetOwnerMachine :: "ObjectMeta \<Rightarrow> 'w \<Rightarrow> (error + Machine option) \<times> 'w"
  GetOwnerCluster :: "ObjectMeta \<Rightarrow> 'w \<Rightarrow> (error + Cluster option) \<times> 'w"
  GetClusterFromMetadata :: "ObjectMeta \<Rightarrow> 'w \<Rightarrow> (error + Cluster) \<times> 'w"
  EnsurePausedVM :: "Cluster \<Rightarrow> VultrMachine \<Rightarrow> 'w \<Rightarrow>
      ((bool \<times> bool \<times> error option) \<times> VultrMachine) \<times> 'w"
  EnsurePausedBM :: "Cluster \<Rightarrow> VultrBareMetalMachine \<Rightarrow> 'w \<Rightarrow>
      ((bool \<times> bool \<times> error option) \<times> VultrBareMetalMachine) \<times> 'w"

record 'w env = "'w kube" +
  NewHelperVM :: "VultrMachine \<Rightarrow> error option"
  NewHelperBM :: "VultrBareMetalMachine \<Rightarrow> error option"
  NewHelperVC :: "VultrCluster \<Rightarrow> error option"
  PatchVM :: "VultrMachine \<Rightarrow> VultrMachine \<Rightarrow> 'w \<Rightarrow> error option \<times> 'w"
  PatchBM :: "VultrBareMetalMachine \<Rightarrow> VultrBareMetalMachine \<Rightarrow> 'w \<Rightarrow> error option \<times> 'w"
  PatchVC :: "VultrCluster \<Rightarrow> VultrCluster \<Rightarrow> 'w \<Rightarrow> error option \<times> 'w"
  Getenv :: "string \<Rightarrow> string"
  Now :: "'w \<Rightarrow> int"
  NewClient :: "string \<Rightarrow> 'w VultrAPIClients"

text \<open>
  \<open>NewHelper*\<close> tells whether \<^verbatim>\<open>patch.NewHelper\<close> fails; the helper it makes is the
  snapshot of the object, which \<open>Patch*\<close> takes first. The YAML and JSON functions and
  the error texts are pure.
\<close>

text \<open>\<^verbatim>\<open>err.Error()\<close>.\<close>

primrec ErrorText :: "'w env \<Rightarrow> error \<Rightarrow> string" where
  "ErrorText E (Err msg) = msg"
| "ErrorText E (Wrap msg e) = WrapText E msg (ErrorText E e)"

definition wrap_laws :: "'w env \<Rightarrow> bool" where
  "wrap_laws E \<longleftrightarrow> (\<forall>msg cause. sublist cause (WrapText E msg cause))"

definition same_report :: "Condition \<Rightarrow> Condition \<Rightarrow> bool" where
  "same_report c d \<longleftrightarrow>
     c_Type c = c_Type d \<and> c_Status c = c_Status d \<and> c_Reason c = c_Reason d \<and> c_Message c = c_Message d"

definition conditions_laws :: "'w env \<Rightarrow> bool" where
  "conditions_laws E \<longleftrightarrow>
     (\<forall>c cs. \<exists>d. conditions_Get E (conditions_Set E c cs) (c_Type c) = Some d \<and> same_report d c) \<and>
     (\<forall>c cs t. t \<noteq> c_Type c \<longrightarrow>
        conditions_Get E (conditions_Set E c cs) t = conditions_Get E cs t) \<and>
     (\<forall>cs t. conditions_IsTrue E cs t \<longleftrightarrow>
        (\<exists>c. conditions_Get E cs t = Some c \<and> c_Status c = ConditionTrue)) \<and>
     (\<forall>cs t. conditions_IsFalse E cs t \<longleftrightarrow>
        (\<exists>c. conditions_Get E cs t = Some c \<and> c_Status c = ConditionFalse)) \<and>
     (\<forall>cs t. conditions_GetReason E cs t =
        (case conditions_Get E cs t of None \<Rightarrow> [] | Some c \<Rightarrow> c_Reason c))"

definition finalizer_laws :: "'w env \<Rightarrow> bool" where
  "finalizer_laws E \<longleftrightarrow>
     (\<forall>f fs. set (snd (AddFinalizer E f fs)) = insert f (set fs) \<and>
        fst (AddFinalizer E f fs) = (f \<notin> set fs)) \<and>
     (\<forall>f fs. set (snd (RemoveFinalizer E f fs)) = set fs - {f} \<and>
        fst (RemoveFinalizer E f fs) = (f \<in> set fs))"

lemma conditions_Get_Set_same:
  assumes "conditions_laws E"
  obtains d where "conditions_Get E (conditions_Set E c cs) (c_Type c) = Some d" and "same_report d c"
  using assms unfolding conditions_laws_def by blast

lemma conditions_Get_Set_other:
  "conditions_laws E \<Longrightarrow> t \<noteq> c_Type c \<Longrightarrow>
     conditions_Get E (conditions_Set E c cs) t = conditions_Get E cs t"
  unfolding conditions_laws_def by blast

lemma conditions_IsTrue_iff:
  "conditions_laws E \<Longrightarrow> conditions_IsTrue E cs t \<longleftrightarrow>
     (\<exists>c. conditions_Get E cs t = Some c \<and> c_Status c = ConditionTrue)"
  unfolding conditions_laws_def by blast

lemma conditions_IsFalse_iff:
  "conditions_laws E \<Longrightarrow> conditions_IsFalse E cs t \<longleftrightarrow>
     (\<exists>c. conditions_Get E cs t = Some c \<and> c_Status c = ConditionFalse)"
  unfolding conditions_laws_def by blast

lemma conditions_GetReason_eq:
  "conditions_laws E \<Longrightarrow>
     conditions_GetReason E cs t = (case conditions_Get E cs t of None \<Rightarrow> [] | Some c \<Rightarrow> c_Reason c)"
  unfolding conditions_laws_def by blast

lemma set_AddFinalizer [simp]:
  "finalizer_laws E \<Longrightarrow> set (snd (AddFinalizer E f fs)) = insert f (set fs)"
  unfolding finalizer_laws_def by blast

lemma set_RemoveFinalizer [simp]:
  "finalizer_laws E \<Longrightarrow> set (snd (RemoveFinalizer E f fs)) = set fs - {f}"
  unfolding finalizer_laws_def by blast

lemma ErrorText_Wrap_sublist: "wrap_laws E \<Longrightarrow> sublist (ErrorText E e) (ErrorText E (Wrap msg e))"
  by (simp add: wrap_laws_def)

end
