(* ===== verification/Scopes.thy ===== *)
theory Scopes
  imports Vultr_Env
begin

text \<open>
  The scopes of \<^verbatim>\<open>cloud/scope\<close> and \<^verbatim>\<open>util/reconciler\<close>: \<^verbatim>\<open>ClusterScope\<close>,
  \<^verbatim>\<open>MachineScope\<close>, \<^verbatim>\<open>BareMetalMachineScope\<close>, provider IDs, roles and bootstrap data.

  A scope holds the object it is about by pointer. The object lives in the state
  (\<open>obj\<close>), and a scope's method on it is a function on the object, which the
  controllers lift with \<open>modify_obj\<close>; a method that reads the clock or patches the
  object is a computation. The rest of a scope is the record of what it points to.
\<close>

section \<open>util/reconciler\<close>

definition DefaultLoopTimeout :: int where "DefaultLoopTimeout = 90 * Minute"

definition DefaultMappingTimeout :: int where "DefaultMappingTimeout = 60 * Second"

definition DefaultedLoopTimeout :: "int \<Rightarrow> int" where
  "DefaultedLoopTimeout timeout = (if timeout \<le> 0 then DefaultLoopTimeout else timeout)"

section \<open>Provider IDs, roles, bootstrap data (helpers.go)\<close>

definition providerIDScheme :: string where "providerIDScheme = ''vultr''"

definition ProviderIDToResourceID :: "string \<Rightarrow> string" where
  "ProviderIDToResourceID providerID =
    (let split = strings_Split providerID ''://'' in
     if length split \<noteq> 2 then []
     else if split ! 0 \<noteq> providerIDScheme then []
     else split ! 1)"

definition ResourceIDToProviderID :: "string \<Rightarrow> string" where
  "ResourceIDToProviderID resourceID = providerIDScheme @ ''://'' @ resourceID"

definition MachineRole :: "'w env \<Rightarrow> Machine \<Rightarrow> string" where
  "MachineRole E machine =
     (if IsControlPlaneMachine E machine then ControlPlaneRoleTagValue else WorkerRoleTagValue)"

definition GetBootstrapData ::
  "'w env \<Rightarrow> Machine \<Rightarrow> string \<Rightarrow> (('w, 'o) st, error + string) comp" where
  "GetBootstrapData E machine namespace = (case mc_DataSecretName machine of
      None \<Rightarrow> ret (Inl (Err ''error retrieving bootstrap data: linked Machine's bootstrap.dataSecretName is nil''))
    | Some secretName \<Rightarrow>
        let key = \<lparr>nn_Namespace = namespace, nn_Name = secretName\<rparr> in
        try_then (call (CallSecretGet key) (GetSecret E key))
          (\<lambda>err. ret (Inl (Wrap (''failed to retrieve bootstrap data secret '' @ namespace @ ''/'' @ secretName) err)))
          (\<lambda>data. case data ''value'' of
              None \<Rightarrow> ret (Inl (Err ''error retrieving bootstrap data: secret value key is missing''))
            | Some value \<Rightarrow> ret (Inr value)))"

section \<open>Vultr client (common.go)\<close>

definition CreateVultrClient :: "'w env \<Rightarrow> error + 'w VultrAPIClients" where
  "CreateVultrClient E =
    (let apiKey = Getenv E ''VULTR_API_KEY'' in
     if apiKey = [] then Inl (Err ''VULTR_API_KEY is required'') else Inr (NewClient E apiKey))"

definition MachineOnly :: "'w env \<Rightarrow> bool" where
  "MachineOnly E \<longleftrightarrow> Getenv E ''VULTR_MACHINE_ONLY'' = ''true''"

section \<open>ClusterScope (cluster.go)\<close>

record 'w ClusterScopeParams =
  cp_Instances :: "'w InstanceService option"
  cp_LoadBalancers :: "'w LoadBalancerService option"
  cp_SSHKeys :: "'w SSHKeyService option"
  cp_BareMetal :: "'w BareMetalServerService option"
  cp_Cluster :: "Cluster option"
  cp_VultrCluster :: "VultrCluster option"

record 'w ClusterScope =
  cs_clients :: "'w VultrAPIClients"
  cs_Cluster :: Cluster
  cs_VultrCluster :: VultrCluster
  cs_patchHelper :: VultrCluster

definition or_default :: "'a option \<Rightarrow> 'a \<Rightarrow> 'a" where
  "or_default x d = (case x of None \<Rightarrow> d | Some v \<Rightarrow> v)"

definition NewClusterScope :: "'w env \<Rightarrow> 'w ClusterScopeParams \<Rightarrow> error + 'w ClusterScope" where
  "NewClusterScope E params = (case cp_Cluster params of
      None \<Rightarrow> Inl (Err ''Cluster is required when creating a ClusterScope'')
    | Some cluster \<Rightarrow> (case cp_VultrCluster params of
        None \<Rightarrow> Inl (Err ''VultrCluster is required when creating a ClusterScope'')
      | Some vultrCluster \<Rightarrow> (case CreateVultrClient E of
          Inl err \<Rightarrow> Inl (Wrap ''failed to create Vultr Client'' err)
        | Inr vultrClient \<Rightarrow>
            let clients = \<lparr>Instances = or_default (cp_Instances params) (Instances vultrClient),
                  LoadBalancers = or_default (cp_LoadBalancers params) (LoadBalancers vultrClient),
                  SSHKeys = or_default (cp_SSHKeys params) (SSHKeys vultrClient),
                  BareMetal = or_default (cp_BareMetal params) (BareMetal vultrClient)\<rparr> in
            (case NewHelperVC E vultrCluster of
              Some err \<Rightarrow> Inl (Wrap ''failed to init patch helper'' err)
            | None \<Rightarrow> Inr \<lparr>cs_clients = clients, cs_Cluster = cluster,
                cs_VultrCluster = vultrCluster, cs_patchHelper = vultrCluster\<rparr>))))"

definition ClusterScope_PatchObject ::
  "'w env \<Rightarrow> 'w ClusterScope \<Rightarrow> (('w, VultrCluster) st, error option) comp" where
  "ClusterScope_PatchObject E cs =
     and_then get_obj (\<lambda>vc. call (PatchVultrCluster vc) (PatchVC E (cs_patchHelper cs) vc))"

definition ClusterScope_Close ::
  "'w env \<Rightarrow> 'w ClusterScope \<Rightarrow> (('w, VultrCluster) st, error option) comp" where
  "ClusterScope_Close E cs =
     and_then get_obj (\<lambda>vc. call (PatchVultrCluster vc) (PatchVC E (cs_patchHelper cs) vc))"

definition ClusterScope_AddFinalizer ::
  "'w env \<Rightarrow> 'w ClusterScope \<Rightarrow> (('w, VultrCluster) st, error option) comp" where
  "ClusterScope_AddFinalizer E cs = and_then get_obj (\<lambda>vc.
     let (added, fs) = AddFinalizer E GroupVersion_String (om_Finalizers (vc_meta vc)) in
     and_then (modify_obj (\<lambda>vc. vc\<lparr>vc_meta := (vc_meta vc)\<lparr>om_Finalizers := fs\<rparr>\<rparr>))
       (\<lambda>_. if added then ClusterScope_Close E cs else ret None))"

definition APIServerLoadbalancers :: "'w ClusterScope \<Rightarrow> VultrLoadBalancer" where
  "APIServerLoadbalancers cs = ns_APIServerLoadbalancers (vcs_Network (vc_Spec (cs_VultrCluster cs)))"

definition APIServerLoadbalancersRef :: "'w ClusterScope \<Rightarrow> VultrResourceReference" where
  "APIServerLoadbalancersRef cs =
     nr_APIServerLoadbalancersRef (vcst_Network (vc_Status (cs_VultrCluster cs)))"

definition APIServerLoadBalancerID :: "'w ClusterScope \<Rightarrow> string" where
  "APIServerLoadBalancerID cs =
    (let id = ref_ResourceID (APIServerLoadbalancersRef cs) in
     if id \<noteq> [] then id else lb_ID (APIServerLoadbalancers cs))"

definition ClusterScope_UID :: "'w ClusterScope \<Rightarrow> string" where
  "ClusterScope_UID cs = om_UID (cl_meta (cs_Cluster cs))"

definition ClusterScope_Region :: "'w ClusterScope \<Rightarrow> string" where
  "ClusterScope_Region cs = vcs_Region (vc_Spec (cs_VultrCluster cs))"

definition ClusterScope_Name :: "'w ClusterScope \<Rightarrow> string" where
  "ClusterScope_Name cs = om_Name (cl_meta (cs_Cluster cs))"

definition MachineTagParams :: "'w ClusterScope \<Rightarrow> string \<Rightarrow> string \<Rightarrow> BuildTagParams" where
  "MachineTagParams cs name role =
     \<lparr>bt_ClusterName = ClusterScope_Name cs, bt_ClusterUID = ClusterScope_UID cs,
      bt_Name = name, bt_Role = role\<rparr>"

definition ClusterScope_SetReady :: "VultrCluster \<Rightarrow> VultrCluster" where
  "ClusterScope_SetReady vc = vc\<lparr>vc_Status := (vc_Status vc)\<lparr>vcst_Ready := True\<rparr>\<rparr>"

definition SetControlPlaneEndpoint :: "APIEndpoint \<Rightarrow> VultrCluster \<Rightarrow> VultrCluster" where
  "SetControlPlaneEndpoint ep vc =
     vc\<lparr>vc_Spec := (vc_Spec vc)\<lparr>vcs_ControlPlaneEndpoint := ep\<rparr>\<rparr>"

definition ClusterScope_VPC :: "'w ClusterScope \<Rightarrow> string option" where
  "ClusterScope_VPC cs =
    (let vpc = vcs_VPCID (vc_Spec (cs_VultrCluster cs)) in if vpc \<noteq> [] then Some vpc else None)"

section \<open>MachineScope (machine.go)\<close>

definition terminalMachineReasons :: "string list" where
  "terminalMachineReasons = [InstanceUnexpectedStatusReason]"

text \<open>
  The embedded \<^verbatim>\<open>VultrAPIClients\<close> of the parameters are never read. The Kubernetes client is the
  part of the environment that the scope calls; \<open>None\<close> is nil.
\<close>

record 'w MachineScopeParams =
  mp_Client :: "'w env option"
  mp_Machine :: "Machine option"
  mp_Cluster :: "Cluster option"
  mp_VultrMachine :: "VultrMachine option"
  mp_VultrCluster :: "VultrCluster option"

record MachineScope =
  ms_Machine :: Machine
  ms_Cluster :: Cluster
  ms_VultrCluster :: VultrCluster
  ms_patchHelper :: VultrMachine

definition NewMachineScope :: "'w MachineScopeParams \<Rightarrow> error + MachineScope" where
  "NewMachineScope params = (case mp_Client params of
      None \<Rightarrow> Inl (Err ''Client is required when creating a MachineScope'')
    | Some E \<Rightarrow> (case mp_Cluster params of
        None \<Rightarrow> Inl (Err ''Cluster is required when creating a MachineScope'')
      | Some c \<Rightarrow> (case mp_Machine params of
          None \<Rightarrow> Inl (Err ''Machine is required when creating a MachineScope'')
        | Some m \<Rightarrow> (case mp_VultrCluster params of
            None \<Rightarrow> Inl (Err ''VultrCluster is required when creating a MachineScope'')
          | Some vc \<Rightarrow> (case mp_VultrMachine params of
              None \<Rightarrow> Inl (Err ''VultrMachine is required when creating a MachineScope'')
            | Some vm \<Rightarrow> (case NewHelperVM E vm of
                Some err \<Rightarrow> Inl (Wrap ''failed to init patch helper'' err)
              | None \<Rightarrow> Inr \<lparr>ms_Machine = m, ms_Cluster = c, ms_VultrCluster = vc,
                  ms_patchHelper = vm\<rparr>))))))"

definition MachineScope_Close ::
  "'w env \<Rightarrow> MachineScope \<Rightarrow> (('w, VultrMachine) st, error option) comp" where
  "MachineScope_Close E ms =
     and_then get_obj (\<lambda>vm. call (PatchVultrMachine vm) (PatchVM E (ms_patchHelper ms) vm))"

definition MachineScope_PatchObject ::
  "'w env \<Rightarrow> MachineScope \<Rightarrow> (('w, VultrMachine) st, error option) comp" where
  "MachineScope_PatchObject E ms =
     and_then get_obj (\<lambda>vm. call (PatchVultrMachine vm) (PatchVM E (ms_patchHelper ms) vm))"

definition MachineScope_SetReady :: "VultrMachine \<Rightarrow> VultrMachine" where
  "MachineScope_SetReady m = m\<lparr>vm_Status := (vm_Status m)\<lparr>vmst_Ready := True\<rparr>\<rparr>"

text \<open>\<^verbatim>\<open>conditions.Set\<close> on the machine, with the time of the call.\<close>

definition vm_set_condition :: "'w env \<Rightarrow> string \<Rightarrow> string \<Rightarrow> string \<Rightarrow> int \<Rightarrow> VultrMachine \<Rightarrow> VultrMachine" where
  "vm_set_condition E status reason message now m =
     VultrMachine_SetConditions
       (conditions_Set E \<lparr>c_Type = MachineReadyCondition, c_Status = status, c_Reason = reason,
          c_Message = message, c_LastTransitionTime = now\<rparr> (VultrMachine_GetConditions m)) m"

definition MachineScope_SetReadyCondition ::
  "'w env \<Rightarrow> string \<Rightarrow> string \<Rightarrow> string \<Rightarrow> (('w, VultrMachine) st, unit) comp" where
  "MachineScope_SetReadyCondition E status reason message =
     and_then (read_state (\<lambda>s. Now E (world s)))
       (\<lambda>now. modify_obj (vm_set_condition E status reason message now))"

definition vm_set_Provisioned :: "bool \<Rightarrow> VultrMachine \<Rightarrow> VultrMachine" where
  "vm_set_Provisioned b m = m\<lparr>vm_Status := (vm_Status m)\<lparr>vmst_Provisioned := b\<rparr>\<rparr>"

definition MachineScope_SetTerminalFailure ::
  "'w env \<Rightarrow> string \<Rightarrow> string \<Rightarrow> (('w, VultrMachine) st, unit) comp" where
  "MachineScope_SetTerminalFailure E reason message =
     and_then (MachineScope_SetReadyCondition E ConditionFalse reason message)
       (\<lambda>_. modify_obj (\<lambda>m. vm_set_Provisioned False
              (m\<lparr>vm_Status := (vm_Status m)\<lparr>vmst_Ready := False\<rparr>\<rparr>)))"

definition MachineScope_HasTerminalFailure :: "'w env \<Rightarrow> VultrMachine \<Rightarrow> bool" where
  "MachineScope_HasTerminalFailure E m =
     (case conditions_Get E (VultrMachine_GetConditions m) MachineReadyCondition of
        None \<Rightarrow> False
      | Some c \<Rightarrow> if c_Status c \<noteq> ConditionFalse then False
                  else List.member terminalMachineReasons (c_Reason c))"

definition MachineScope_AddFinalizer ::
  "'w env \<Rightarrow> MachineScope \<Rightarrow> (('w, VultrMachine) st, error option) comp" where
  "MachineScope_AddFinalizer E ms = and_then get_obj (\<lambda>vm.
     let (added, fs) = AddFinalizer E GroupVersion_String (om_Finalizers (vm_meta vm)) in
     and_then (modify_obj (\<lambda>vm. vm\<lparr>vm_meta := (vm_meta vm)\<lparr>om_Finalizers := fs\<rparr>\<rparr>))
       (\<lambda>_. if added then MachineScope_Close E ms else ret None))"

definition MachineScope_GetProviderID :: "VultrMachine \<Rightarrow> string" where
  "MachineScope_GetProviderID m = (case vms_ProviderID (vm_Spec m) of Some p \<Rightarrow> p | None \<Rightarrow> [])"

definition GetInstanceID :: "VultrMachine \<Rightarrow> string" where
  "GetInstanceID m = ProviderIDToResourceID (MachineScope_GetProviderID m)"

definition MachineScope_SetProviderID :: "string \<Rightarrow> VultrMachine \<Rightarrow> VultrMachine" where
  "MachineScope_SetProviderID instanceID m =
     m\<lparr>vm_Spec := (vm_Spec m)\<lparr>vms_ProviderID := Some (ResourceIDToProviderID instanceID)\<rparr>\<rparr>"

definition MachineScope_Name :: "VultrMachine \<Rightarrow> string" where
  "MachineScope_Name m = om_Name (vm_meta m)"

definition MachineScope_Namespace :: "VultrMachine \<Rightarrow> string" where
  "MachineScope_Namespace m = om_Namespace (vm_meta m)"

definition MachineScope_GetBootstrapData ::
  "'w env \<Rightarrow> MachineScope \<Rightarrow> (('w, VultrMachine) st, error + string) comp" where
  "MachineScope_GetBootstrapData E ms =
     and_then get_obj (\<lambda>vm. GetBootstrapData E (ms_Machine ms) (MachineScope_Namespace vm))"

definition MachineScope_IsControlPlane :: "'w env \<Rightarrow> MachineScope \<Rightarrow> bool" where
  "MachineScope_IsControlPlane E ms = IsControlPlaneMachine E (ms_Machine ms)"

definition MachineScope_Role :: "'w env \<Rightarrow> MachineScope \<Rightarrow> string" where
  "MachineScope_Role E ms = MachineRole E (ms_Machine ms)"

definition SetInstanceStatus :: "SubscriptionStatus \<Rightarrow> VultrMachine \<Rightarrow> VultrMachine" where
  "SetInstanceStatus v m = m\<lparr>vm_Status := (vm_Status m)\<lparr>vmst_SubscriptionStatus := Some v\<rparr>\<rparr>"

definition SetInstancePowerStatus :: "PowerStatus \<Rightarrow> VultrMachine \<Rightarrow> VultrMachine" where
  "SetInstancePowerStatus v m = m\<lparr>vm_Status := (vm_Status m)\<lparr>vmst_PowerStatus := Some v\<rparr>\<rparr>"

definition SetInstanceServerState :: "ServerState \<Rightarrow> VultrMachine \<Rightarrow> VultrMachine" where
  "SetInstanceServerState v m = m\<lparr>vm_Status := (vm_Status m)\<lparr>vmst_ServerState := Some v\<rparr>\<rparr>"

definition GetInstanceStatus :: "VultrMachine \<Rightarrow> SubscriptionStatus option" where
  "GetInstanceStatus m = vmst_SubscriptionStatus (vm_Status m)"

definition GetInstancePowerStatus :: "VultrMachine \<Rightarrow> PowerStatus option" where
  "GetInstancePowerStatus m = vmst_PowerStatus (vm_Status m)"

definition GetInstanceServerState :: "VultrMachine \<Rightarrow> ServerState option" where
  "GetInstanceServerState m = vmst_ServerState (vm_Status m)"

definition MachineScope_SetAddresses :: "NodeAddress list \<Rightarrow> VultrMachine \<Rightarrow> VultrMachine" where
  "MachineScope_SetAddresses addrs m = m\<lparr>vm_Status := (vm_Status m)\<lparr>vmst_Addresses := addrs\<rparr>\<rparr>"

definition SetCPU :: "int \<Rightarrow> VultrMachine \<Rightarrow> VultrMachine" where
  "SetCPU v m = m\<lparr>vm_Status := (vm_Status m)\<lparr>vmst_CPU := v\<rparr>\<rparr>"

definition SetRAM :: "int \<Rightarrow> VultrMachine \<Rightarrow> VultrMachine" where
  "SetRAM v m = m\<lparr>vm_Status := (vm_Status m)\<lparr>vmst_RAM := v\<rparr>\<rparr>"

definition SetStorage :: "int \<Rightarrow> VultrMachine \<Rightarrow> VultrMachine" where
  "SetStorage v m = m\<lparr>vm_Status := (vm_Status m)\<lparr>vmst_Storage := v\<rparr>\<rparr>"

section \<open>BareMetalMachineScope (baremetal\_machine.go)\<close>

definition terminalBareMetalReasons :: "string list" where
  "terminalBareMetalReasons = [BareMetalUnexpectedStatusReason, BareMetalVPCAttachFailedReason]"

record 'w BareMetalMachineScopeParams =
  bp_Client :: "'w env option"
  bp_Machine :: "Machine option"
  bp_Cluster :: "Cluster option"
  bp_VultrBareMetalMachine :: "VultrBareMetalMachine option"
  bp_VultrCluster :: "VultrCluster option"

record BareMetalMachineScope =
  bsc_Machine :: Machine
  bsc_Cluster :: Cluster
  bsc_VultrCluster :: VultrCluster
  bsc_patchHelper :: VultrBareMetalMachine

definition NewBareMetalMachineScope ::
  "'w BareMetalMachineScopeParams \<Rightarrow> error + BareMetalMachineScope" where
  "NewBareMetalMachineScope params = (case bp_Client params of
      None \<Rightarrow> Inl (Err ''Client is required when creating a BareMetalMachineScope'')
    | Some E \<Rightarrow> (case bp_Cluster params of
        None \<Rightarrow> Inl (Err ''Cluster is required when creating a BareMetalMachineScope'')
      | Some c \<Rightarrow> (case bp_Machine params of
          None \<Rightarrow> Inl (Err ''Machine is required when creating a BareMetalMachineScope'')
        | Some m \<Rightarrow> (case bp_VultrCluster params of
            None \<Rightarrow> Inl (Err ''VultrCluster is required when creating a BareMetalMachineScope'')
          | Some vc \<Rightarrow> (case bp_VultrBareMetalMachine params of
              None \<Rightarrow> Inl (Err ''VultrBareMetalMachine is required when creating a BareMetalMachineScope'')
            | Some bm \<Rightarrow> (case NewHelperBM E bm of
                Some err \<Rightarrow> Inl (Wrap ''failed to init patch helper'' err)
              | None \<Rightarrow> Inr \<lparr>bsc_Machine = m, bsc_Cluster = c, bsc_VultrCluster = vc,
                  bsc_patchHelper = bm\<rparr>))))))"

definition BareMetalMachineScope_Close ::
  "'w env \<Rightarrow> BareMetalMachineScope \<Rightarrow> (('w, VultrBareMetalMachine) st, error option) comp" where
  "BareMetalMachineScope_Close E bsc =
     and_then get_obj
       (\<lambda>bm. call (PatchVultrBareMetalMachine bm) (PatchBM E (bsc_patchHelper bsc) bm))"

definition BareMetalMachineScope_Name :: "VultrBareMetalMachine \<Rightarrow> string" where
  "BareMetalMachineScope_Name m = om_Name (bm_meta m)"

definition BareMetalMachineScope_Namespace :: "VultrBareMetalMachine \<Rightarrow> string" where
  "BareMetalMachineScope_Namespace m = om_Namespace (bm_meta m)"

definition BareMetalMachineScope_GetProviderID :: "VultrBareMetalMachine \<Rightarrow> string" where
  "BareMetalMachineScope_GetProviderID m =
     (case bms_ProviderID (bm_Spec m) of Some p \<Rightarrow> p | None \<Rightarrow> [])"

definition GetServerID :: "VultrBareMetalMachine \<Rightarrow> string" where
  "GetServerID m = ProviderIDToResourceID (BareMetalMachineScope_GetProviderID m)"

definition BareMetalMachineScope_SetProviderID ::
  "string \<Rightarrow> VultrBareMetalMachine \<Rightarrow> VultrBareMetalMachine" where
  "BareMetalMachineScope_SetProviderID serverID m =
     m\<lparr>bm_Spec := (bm_Spec m)\<lparr>bms_ProviderID := Some (ResourceIDToProviderID serverID)\<rparr>\<rparr>"

definition BareMetalMachineScope_GetBootstrapData ::
  "'w env \<Rightarrow> BareMetalMachineScope \<Rightarrow> (('w, VultrBareMetalMachine) st, error + string) comp" where
  "BareMetalMachineScope_GetBootstrapData E bsc =
     and_then get_obj (\<lambda>bm. GetBootstrapData E (bsc_Machine bsc) (BareMetalMachineScope_Namespace bm))"

definition BareMetalMachineScope_IsControlPlane :: "'w env \<Rightarrow> BareMetalMachineScope \<Rightarrow> bool" where
  "BareMetalMachineScope_IsControlPlane E bsc = IsControlPlaneMachine E (bsc_Machine bsc)"

definition BareMetalMachineScope_Role :: "'w env \<Rightarrow> BareMetalMachineScope \<Rightarrow> string" where
  "BareMetalMachineScope_Role E bsc = MachineRole E (bsc_Machine bsc)"

definition BareMetalMachineScope_SetReady :: "VultrBareMetalMachine \<Rightarrow> VultrBareMetalMachine" where
  "BareMetalMachineScope_SetReady m = m\<lparr>bm_Status := (bm_Status m)\<lparr>bmst_Ready := True\<rparr>\<rparr>"

definition SetProvisioned :: "VultrBareMetalMachine \<Rightarrow> VultrBareMetalMachine" where
  "SetProvisioned m = m\<lparr>bm_Status := (bm_Status m)\<lparr>bmst_Provisioned := Some True\<rparr>\<rparr>"

definition BareMetalMachineScope_SetAddresses ::
  "NodeAddress list \<Rightarrow> VultrBareMetalMachine \<Rightarrow> VultrBareMetalMachine" where
  "BareMetalMachineScope_SetAddresses addrs m =
     m\<lparr>bm_Status := (bm_Status m)\<lparr>bmst_Addresses := addrs\<rparr>\<rparr>"

definition SetServerStatus :: "SubscriptionStatus \<Rightarrow> VultrBareMetalMachine \<Rightarrow> VultrBareMetalMachine" where
  "SetServerStatus v m = m\<lparr>bm_Status := (bm_Status m)\<lparr>bmst_SubscriptionStatus := Some v\<rparr>\<rparr>"

definition SetHardware ::
  "int \<Rightarrow> string \<Rightarrow> string \<Rightarrow> VultrBareMetalMachine \<Rightarrow> VultrBareMetalMachine" where
  "SetHardware cpu ram disk m =
     m\<lparr>bm_Status := (bm_Status m)\<lparr>bmst_CPU := cpu, bmst_RAM := ram, bmst_Disk := disk\<rparr>\<rparr>"

definition SetVPC :: "VultrBareMetalVPCStatus option \<Rightarrow> VultrBareMetalMachine \<Rightarrow> VultrBareMetalMachine" where
  "SetVPC vpc m = m\<lparr>bm_Status := (bm_Status m)\<lparr>bmst_VPC := vpc\<rparr>\<rparr>"

definition bm_set_condition ::
  "'w env \<Rightarrow> string \<Rightarrow> string \<Rightarrow> string \<Rightarrow> int \<Rightarrow> VultrBareMetalMachine \<Rightarrow> VultrBareMetalMachine" where
  "bm_set_condition E status reason message now m =
     VultrBareMetalMachine_SetConditions
       (conditions_Set E \<lparr>c_Type = BareMetalMachineReadyCondition, c_Status = status,
          c_Reason = reason, c_Message = message, c_LastTransitionTime = now\<rparr>
          (VultrBareMetalMachine_GetConditions m)) m"

definition BareMetalMachineScope_SetReadyCondition ::
  "'w env \<Rightarrow> string \<Rightarrow> string \<Rightarrow> string \<Rightarrow> (('w, VultrBareMetalMachine) st, unit) comp" where
  "BareMetalMachineScope_SetReadyCondition E status reason message =
     and_then (read_state (\<lambda>s. Now E (world s)))
       (\<lambda>now. modify_obj (bm_set_condition E status reason message now))"

definition BareMetalMachineScope_SetTerminalFailure ::
  "'w env \<Rightarrow> string \<Rightarrow> string \<Rightarrow> (('w, VultrBareMetalMachine) st, unit) comp" where
  "BareMetalMachineScope_SetTerminalFailure E reason message =
     and_then (BareMetalMachineScope_SetReadyCondition E ConditionFalse reason message)
       (\<lambda>_. modify_obj (\<lambda>m. m\<lparr>bm_Status := (bm_Status m)\<lparr>bmst_Ready := False\<rparr>\<rparr>))"

definition BareMetalMachineScope_HasTerminalFailure :: "'w env \<Rightarrow> VultrBareMetalMachine \<Rightarrow> bool" where
  "BareMetalMachineScope_HasTerminalFailure E m =
     (case conditions_Get E (VultrBareMetalMachine_GetConditions m) BareMetalMachineReadyCondition of
        None \<Rightarrow> False
      | Some c \<Rightarrow> if c_Status c \<noteq> ConditionFalse then False
                  else List.member terminalBareMetalReasons (c_Reason c))"

section \<open>Facts about the scopes\<close>

lemmas vm_setter_defs [go_defs] =
  MachineScope_SetReady_def vm_set_condition_def vm_set_Provisioned_def MachineScope_SetProviderID_def
  SetInstanceStatus_def SetInstancePowerStatus_def SetInstanceServerState_def
  MachineScope_SetAddresses_def SetCPU_def SetRAM_def SetStorage_def

lemmas bm_setter_defs [go_defs] =
  BareMetalMachineScope_SetReady_def SetProvisioned_def bm_set_condition_def
  BareMetalMachineScope_SetProviderID_def BareMetalMachineScope_SetAddresses_def
  SetServerStatus_def SetHardware_def SetVPC_def

subsection \<open>Provider IDs\<close>

lemma strings_Split_singletonD:
  assumes "sep \<noteq> []" and "strings_Split s sep = [x]"
  shows "x = s \<and> \<not> sublist sep s"
proof (cases "index_of sep s")
  case None
  with assms show ?thesis
    using strings_Split_no_sep index_of_None_iff by auto
next
  case (Some i)
  with assms have "strings_Split (drop (i + length sep) s) sep = []"
    using strings_Split_step by auto
  with strings_Split_nonempty [OF assms(1)] show ?thesis by blast
qed

lemma strings_Split_pairD:
  assumes "sep \<noteq> []" and "strings_Split s sep = [x, y]"
  shows "s = x @ sep @ y \<and> \<not> sublist sep y"
proof -
  from assms(2) have "index_of sep s \<noteq> None"
    using strings_Split_no_sep [of sep s] by (auto simp: index_of_None_iff)
  then obtain i where i: "index_of sep s = Some i" by blast
  with assms have "strings_Split (drop (i + length sep) s) sep = [y]"
    using strings_Split_step by auto
  then have "\<not> sublist sep y" using strings_Split_singletonD [OF assms(1)] by blast
  moreover have "s = x @ sep @ y"
    using strings_Join_Split [OF assms(1), of s] assms(2) by simp
  ultimately show ?thesis by blast
qed

lemma index_of_scheme:
  "index_of ''://'' (providerIDScheme @ ''://'' @ rest) = Some 5"
proof -
  have "index_of (CHR '':'' # ''//'') (''vultr'' @ CHR '':'' # ''//'' @ rest) = Some (length ''vultr'')"
    by (rule index_of_append_distinct_first) auto
  then show ?thesis by (simp add: providerIDScheme_def)
qed

lemma strings_Split_ProviderID:
  "strings_Split (ResourceIDToProviderID r) ''://'' = providerIDScheme # strings_Split r ''://''"
proof -
  have "take 5 (providerIDScheme @ ''://'' @ r) = providerIDScheme"
    and "drop (5 + length ''://'') (providerIDScheme @ ''://'' @ r) = r"
    by (simp_all add: providerIDScheme_def)
  with strings_Split_step [OF _ index_of_scheme, of r] show ?thesis
    by (simp add: ResourceIDToProviderID_def)
qed

lemma ProviderID_roundtrip:
  "\<not> sublist ''://'' r \<Longrightarrow> ProviderIDToResourceID (ResourceIDToProviderID r) = r"
  by (simp add: ProviderIDToResourceID_def strings_Split_ProviderID strings_Split_no_sep)

lemma ProviderID_roundtrip_iff:
  "ProviderIDToResourceID p = r \<and> r \<noteq> [] \<longleftrightarrow>
     p = ResourceIDToProviderID r \<and> \<not> sublist ''://'' r \<and> r \<noteq> []" (is "?L \<longleftrightarrow> ?R")
proof
  assume ?L
  then have len: "length (strings_Split p ''://'') = 2"
    and scheme: "strings_Split p ''://'' ! 0 = providerIDScheme"
    and r: "strings_Split p ''://'' ! 1 = r"
    by (auto simp: ProviderIDToResourceID_def Let_def split: if_splits)
  have "strings_Split p ''://'' = [providerIDScheme, r]"
    using len scheme r by (cases "strings_Split p ''://''") (auto simp: length_Suc_conv)
  with \<open>?L\<close> show ?R
    using strings_Split_pairD [of "''://''" p] by (auto simp: ResourceIDToProviderID_def)
next
  assume ?R
  then show ?L using ProviderID_roundtrip by blast
qed

lemma GetInstanceID_SetProviderID:
  "\<not> sublist ''://'' i \<Longrightarrow> GetInstanceID (MachineScope_SetProviderID i m) = i"
  by (simp add: GetInstanceID_def MachineScope_GetProviderID_def MachineScope_SetProviderID_def
      ProviderID_roundtrip)

lemma GetServerID_SetProviderID:
  "\<not> sublist ''://'' i \<Longrightarrow> GetServerID (BareMetalMachineScope_SetProviderID i m) = i"
  by (simp add: GetServerID_def BareMetalMachineScope_GetProviderID_def
      BareMetalMachineScope_SetProviderID_def ProviderID_roundtrip)

subsection \<open>The Ready condition\<close>

definition vm_ready_condition :: "'w env \<Rightarrow> VultrMachine \<Rightarrow> Condition option" where
  "vm_ready_condition E m = conditions_Get E (VultrMachine_GetConditions m) MachineReadyCondition"

definition bm_ready_condition :: "'w env \<Rightarrow> VultrBareMetalMachine \<Rightarrow> Condition option" where
  "bm_ready_condition E m =
     conditions_Get E (VultrBareMetalMachine_GetConditions m) BareMetalMachineReadyCondition"

text \<open>The status and reason the Ready condition reports, if there is one.\<close>

definition vm_ready_report :: "'w env \<Rightarrow> VultrMachine \<Rightarrow> (string \<times> string) option" where
  "vm_ready_report E m = map_option (\<lambda>c. (c_Status c, c_Reason c)) (vm_ready_condition E m)"

definition bm_ready_report :: "'w env \<Rightarrow> VultrBareMetalMachine \<Rightarrow> (string \<times> string) option" where
  "bm_ready_report E m = map_option (\<lambda>c. (c_Status c, c_Reason c)) (bm_ready_condition E m)"

lemma vm_set_condition_report [simp]:
  assumes "conditions_laws E"
  shows "vm_ready_report E (vm_set_condition E status reason message now m) = Some (status, reason)"
proof -
  let ?c = "\<lparr>c_Type = MachineReadyCondition, c_Status = status, c_Reason = reason,
    c_Message = message, c_LastTransitionTime = now\<rparr>"
  obtain d where "conditions_Get E (conditions_Set E ?c (VultrMachine_GetConditions m))
      MachineReadyCondition = Some d" and "same_report d ?c"
    using conditions_Get_Set_same [OF assms, of ?c] by auto
  then show ?thesis
    by (simp add: vm_ready_report_def vm_ready_condition_def vm_set_condition_def same_report_def)
qed

lemma bm_set_condition_report [simp]:
  assumes "conditions_laws E"
  shows "bm_ready_report E (bm_set_condition E status reason message now m) = Some (status, reason)"
proof -
  let ?c = "\<lparr>c_Type = BareMetalMachineReadyCondition, c_Status = status, c_Reason = reason,
    c_Message = message, c_LastTransitionTime = now\<rparr>"
  obtain d where "conditions_Get E (conditions_Set E ?c (VultrBareMetalMachine_GetConditions m))
      BareMetalMachineReadyCondition = Some d" and "same_report d ?c"
    using conditions_Get_Set_same [OF assms, of ?c] by auto
  then show ?thesis
    by (simp add: bm_ready_report_def bm_ready_condition_def bm_set_condition_def same_report_def)
qed

text \<open>A terminal failure is a Ready condition that is False for a terminal reason.\<close>

lemma MachineScope_HasTerminalFailure_iff:
  "MachineScope_HasTerminalFailure E m \<longleftrightarrow>
     vm_ready_report E m = Some (ConditionFalse, InstanceUnexpectedStatusReason)"
  by (auto simp: MachineScope_HasTerminalFailure_def vm_ready_report_def vm_ready_condition_def
      terminalMachineReasons_def split: option.splits)

lemma BareMetalMachineScope_HasTerminalFailure_iff:
  "BareMetalMachineScope_HasTerminalFailure E m \<longleftrightarrow>
     bm_ready_report E m = Some (ConditionFalse, BareMetalUnexpectedStatusReason) \<or>
     bm_ready_report E m = Some (ConditionFalse, BareMetalVPCAttachFailedReason)"
  by (auto simp: BareMetalMachineScope_HasTerminalFailure_def bm_ready_report_def
      bm_ready_condition_def terminalBareMetalReasons_def split: option.splits)

lemma vm_report_frame [simp]:
  "vm_ready_report E (vm_set_Provisioned b m) = vm_ready_report E m"
  "vm_ready_report E (MachineScope_SetReady m) = vm_ready_report E m"
  "vm_ready_report E (m\<lparr>vm_Status := (vm_Status m)\<lparr>vmst_Ready := r\<rparr>\<rparr>) = vm_ready_report E m"
  by (simp_all add: vm_ready_report_def vm_ready_condition_def VultrMachine_GetConditions_def
      vm_set_Provisioned_def MachineScope_SetReady_def)

lemma wp_vm_SetReadyCondition [wp_rules]:
  "wp (MachineScope_SetReadyCondition E status reason message) Q P s \<longleftrightarrow>
     Q () (s\<lparr>obj := vm_set_condition E status reason message (Now E (world s)) (obj s)\<rparr>)"
  by (simp add: MachineScope_SetReadyCondition_def wp_rules)

lemma wp_bm_SetReadyCondition [wp_rules]:
  "wp (BareMetalMachineScope_SetReadyCondition E status reason message) Q P s \<longleftrightarrow>
     Q () (s\<lparr>obj := bm_set_condition E status reason message (Now E (world s)) (obj s)\<rparr>)"
  by (simp add: BareMetalMachineScope_SetReadyCondition_def wp_rules)

lemma SetReadyCondition_apply [simp]:
  "MachineScope_SetReadyCondition E status reason message s =
     Ret () (s\<lparr>obj := vm_set_condition E status reason message (Now E (world s)) (obj s)\<rparr>)"
  "BareMetalMachineScope_SetReadyCondition E status reason message s2 =
     Ret () (s2\<lparr>obj := bm_set_condition E status reason message (Now E (world s2)) (obj s2)\<rparr>)"
  by (simp_all add: MachineScope_SetReadyCondition_def BareMetalMachineScope_SetReadyCondition_def)

lemma emits_SetReadyCondition [emit_rules]:
  "emits A n (MachineScope_SetReadyCondition E status reason message)"
  "emits A n (BareMetalMachineScope_SetReadyCondition E status reason message)"
  by (simp_all add: emits_def wp_rules appends_def)

lemma emits_SetTerminalFailure [emit_rules]:
  "emits A n (MachineScope_SetTerminalFailure E reason message)"
  "emits A n (BareMetalMachineScope_SetTerminalFailure E reason message)"
  unfolding MachineScope_SetTerminalFailure_def BareMetalMachineScope_SetTerminalFailure_def
  by (intro emit_rules)+

lemma vm_SetTerminalFailure_apply [simp]:
  "MachineScope_SetTerminalFailure E reason message s =
     Ret () (s\<lparr>obj := vm_set_Provisioned False
       ((vm_set_condition E ConditionFalse reason message (Now E (world s)) (obj s))
        \<lparr>vm_Status := (vm_Status (vm_set_condition E ConditionFalse reason message (Now E (world s)) (obj s)))
           \<lparr>vmst_Ready := False\<rparr>\<rparr>)\<rparr>)"
  by (simp add: MachineScope_SetTerminalFailure_def)

subsection \<open>The Vultr client and the cluster scope\<close>

lemma NewClusterScope_Inr:
  "NewClusterScope E params = Inr cs \<Longrightarrow>
     cp_Cluster params = Some (cs_Cluster cs) \<and> cp_VultrCluster params = Some (cs_VultrCluster cs) \<and>
     cs_patchHelper cs = cs_VultrCluster cs \<and> Getenv E ''VULTR_API_KEY'' \<noteq> []"
  by (auto simp: NewClusterScope_def CreateVultrClient_def Let_def
      split: option.splits sum.splits if_splits)

lemma emits_GetBootstrapData [emit_rules]:
  "(\<And>key. \<not> A (CallSecretGet key)) \<Longrightarrow> emits A n (GetBootstrapData E machine namespace)"
  unfolding GetBootstrapData_def Let_def by (intro emit_rules) auto

lemma keeps_obj_GetBootstrapData [frame_rules]: "keeps_obj (GetBootstrapData E machine namespace)"
  unfolding GetBootstrapData_def Let_def by (intro frame_rules)

end
