(* ===== verification/Svc_Common.thy ===== *)
theory Svc_Common
  imports Scopes
begin

text \<open>
  What the services share: \<^verbatim>\<open>util.Pointer\<close>, SSH keys (\<^verbatim>\<open>cloud/services/sshkeys.go\<close>), the response code
  of an answer, and the loop over the pages of a listing, which
  \<^verbatim>\<open>FindInstanceForMachine\<close> and \<^verbatim>\<open>FindBareMetalServerByTags\<close> both run.

  The loop has no bound of its own: it runs until the API answers without a next
  cursor, so it is a partial function and \<open>None\<close> is a loop that never ends. The
  relation \<open>listing\<close> describes the answers of one complete listing, and the theorems
  \<open>list_loop_complete\<close> and \<open>list_loop_SomeD\<close> say that the loop returns exactly
  for the complete listings, with the matches of all the pages. \<open>listing_exists\<close>
  says when it returns: whenever the answers make progress towards a last page.
\<close>

text \<open>\<^verbatim>\<open>util.Pointer\<close>: a pointer to a copy of the value, which is not nil.\<close>

definition Pointer :: "'a \<Rightarrow> 'a option" where
  "Pointer t = Some t"

lemma Pointer_Some [simp]: "Pointer t = Some t"
  by (simp add: Pointer_def)

definition responseCode :: "Response option \<Rightarrow> int" where
  "responseCode resp = (case resp of None \<Rightarrow> 0 | Some r \<Rightarrow> StatusCode r)"

section \<open>SSH keys\<close>

definition GetSSHKey :: "'w ClusterScope \<Rightarrow> string \<Rightarrow> (('w, 'o) st, error + string option) comp" where
  "GetSSHKey cs sshkey =
    (if sshkey = [] then ret (Inl (Err ''missing ssh key''))
     else and_then (call (CallSSHKeyGet sshkey) (SSHKeys_Get (SSHKeys (cs_clients cs)) sshkey))
       (\<lambda>a. case a_err a of Some err \<Rightarrow> ret (Inl err) | None \<Rightarrow> ret (Inr (a_value a))))"

section \<open>Listing pages\<close>

definition next_cursor :: "Meta option \<Rightarrow> string option" where
  "next_cursor meta = (case meta of
      None \<Rightarrow> None
    | Some m \<Rightarrow> (case m_Links m of
        None \<Rightarrow> None
      | Some l \<Rightarrow> if Next l = [] then None else Some (Next l)))"

partial_function (option) list_loop ::
  "(ListOptions \<Rightarrow> effect) \<Rightarrow> (ListOptions \<Rightarrow> 'w \<Rightarrow> 'i page \<times> 'w) \<Rightarrow> ('i \<Rightarrow> bool) \<Rightarrow>
     (error \<Rightarrow> error) \<Rightarrow> ListOptions \<Rightarrow> 'i list \<Rightarrow> ('w, 'o) st \<Rightarrow> ((error + 'i list) \<times> ('w, 'o) st) option" where
  "list_loop eff api owned wrap options matches s =
    (case api options (world s) of (page, w) \<Rightarrow>
       let s' = s\<lparr>world := w, trace := trace s @ [eff options]\<rparr> in
       case p_err page of
         Some err \<Rightarrow> Some (Inl (wrap err), s')
       | None \<Rightarrow>
           let matches' = matches @ filter owned (p_items page) in
           (case next_cursor (p_meta page) of
              None \<Rightarrow> Some (Inr matches', s')
            | Some c \<Rightarrow> list_loop eff api owned wrap (options\<lparr>lo_Cursor := c\<rparr>) matches' s'))"

declare list_loop.simps [code]

text \<open>The loop as a computation: a run that never ends diverges.\<close>

definition run_list ::
  "(ListOptions \<Rightarrow> effect) \<Rightarrow> (ListOptions \<Rightarrow> 'w \<Rightarrow> 'i page \<times> 'w) \<Rightarrow> ('i \<Rightarrow> bool) \<Rightarrow>
     (error \<Rightarrow> error) \<Rightarrow> ListOptions \<Rightarrow> (('w, 'o) st, error + 'i list) comp" where
  "run_list eff api owned wrap options s =
     (case list_loop eff api owned wrap options [] s of
        None \<Rightarrow> Diverge
      | Some (r, s') \<Rightarrow> Ret r s')"

text \<open>
  One complete listing from a world: the items of all its pages, or the error of the
  page that failed, the options of the requests made, and the world it ends in.
\<close>

inductive listing ::
  "(ListOptions \<Rightarrow> 'w \<Rightarrow> 'i page \<times> 'w) \<Rightarrow> ListOptions \<Rightarrow> 'w \<Rightarrow> error + 'i list \<Rightarrow> ListOptions list \<Rightarrow> 'w \<Rightarrow> bool"
  for api where
  listing_error:
    "api options w = (page, w') \<Longrightarrow> p_err page = Some err \<Longrightarrow>
       listing api options w (Inl err) [options] w'"
| listing_last:
    "api options w = (page, w') \<Longrightarrow> p_err page = None \<Longrightarrow> next_cursor (p_meta page) = None \<Longrightarrow>
       listing api options w (Inr (p_items page)) [options] w'"
| listing_next:
    "api options w = (page, w') \<Longrightarrow> p_err page = None \<Longrightarrow> next_cursor (p_meta page) = Some c \<Longrightarrow>
       listing api (options\<lparr>lo_Cursor := c\<rparr>) w' r reqs w'' \<Longrightarrow>
       listing api options w (map_sum id (\<lambda>rest. p_items page @ rest) r) (options # reqs) w''"

lemma list_loop_complete:
  assumes "listing api options (world s) r reqs w'"
  shows "list_loop eff api owned wrap options matches s =
    Some (map_sum wrap (\<lambda>items. matches @ filter owned items) r,
          s\<lparr>world := w', trace := trace s @ map eff reqs\<rparr>)"
  using assms
proof (induction options "world s" r reqs w' arbitrary: s matches rule: listing.induct)
  case (listing_error options page w' err)
  then show ?case by (subst list_loop.simps) (simp add: Let_def)
next
  case (listing_last options page w')
  then show ?case by (subst list_loop.simps) (simp add: Let_def)
next
  case (listing_next options page w' c r reqs w'')
  let ?s = "s\<lparr>world := w', trace := trace s @ [eff options]\<rparr>"
  have "list_loop eff api owned wrap (options\<lparr>lo_Cursor := c\<rparr>) (matches @ filter owned (p_items page)) ?s =
      Some (map_sum wrap (\<lambda>items. (matches @ filter owned (p_items page)) @ filter owned items) r,
        ?s\<lparr>world := w'', trace := trace ?s @ map eff reqs\<rparr>)"
    using listing_next.hyps(5) [of ?s] by simp
  with listing_next.hyps(1-3) show ?case
    by (subst list_loop.simps) (cases r; simp add: Let_def)
qed

text \<open>What the loop returns, from the pages it reads.\<close>

definition lists_as ::
  "(ListOptions \<Rightarrow> effect) \<Rightarrow> (ListOptions \<Rightarrow> 'w \<Rightarrow> 'i page \<times> 'w) \<Rightarrow> ('i \<Rightarrow> bool) \<Rightarrow> (error \<Rightarrow> error) \<Rightarrow>
     ListOptions \<Rightarrow> 'i list \<Rightarrow> ('w, 'o) st \<Rightarrow> (error + 'i list) \<times> ('w, 'o) st \<Rightarrow> bool" where
  "lists_as eff api owned wrap options matches s x \<longleftrightarrow> (case x of (r, s') \<Rightarrow>
     \<exists>r0 reqs. listing api options (world s) r0 reqs (world s') \<and>
       r = map_sum wrap (\<lambda>items. matches @ filter owned items) r0 \<and>
       s' = s\<lparr>world := world s', trace := trace s @ map eff reqs\<rparr>)"

lemma lists_as_end:
  assumes "api options (world s) = (page, w)"
  shows "p_err page = Some err \<Longrightarrow>
      lists_as eff api owned wrap options matches s (Inl (wrap err), s\<lparr>world := w, trace := trace s @ [eff options]\<rparr>)"
    and "p_err page = None \<Longrightarrow> next_cursor (p_meta page) = None \<Longrightarrow>
      lists_as eff api owned wrap options matches s
        (Inr (matches @ filter owned (p_items page)), s\<lparr>world := w, trace := trace s @ [eff options]\<rparr>)"
proof -
  assume "p_err page = Some err"
  with listing_error [where api = api, OF assms] show "lists_as eff api owned wrap options matches s
      (Inl (wrap err), s\<lparr>world := w, trace := trace s @ [eff options]\<rparr>)"
    by (auto simp: lists_as_def intro!: exI [of _ "Inl err"] exI [of _ "[options]"])
next
  assume "p_err page = None" "next_cursor (p_meta page) = None"
  with listing_last [where api = api, OF assms] show "lists_as eff api owned wrap options matches s
      (Inr (matches @ filter owned (p_items page)), s\<lparr>world := w, trace := trace s @ [eff options]\<rparr>)"
    by (auto simp: lists_as_def intro!: exI [of _ "Inr (p_items page)"] exI [of _ "[options]"])
qed

lemma lists_as_next:
  assumes page: "api options (world s) = (page, w)" "p_err page = None" "next_cursor (p_meta page) = Some c"
    and rest: "lists_as eff api owned wrap (options\<lparr>lo_Cursor := c\<rparr>) (matches @ filter owned (p_items page))
      (s\<lparr>world := w, trace := trace s @ [eff options]\<rparr>) x"
  shows "lists_as eff api owned wrap options matches s x"
proof -
  let ?s = "s\<lparr>world := w, trace := trace s @ [eff options]\<rparr>"
  obtain r s' where x: "x = (r, s')" by fastforce
  from rest x obtain r0 reqs where l: "listing api (options\<lparr>lo_Cursor := c\<rparr>) w r0 reqs (world s')"
    and r: "r = map_sum wrap (\<lambda>items. (matches @ filter owned (p_items page)) @ filter owned items) r0"
    and s': "s' = ?s\<lparr>world := world s', trace := trace ?s @ map eff reqs\<rparr>"
    by (auto simp: lists_as_def)
  have "r = map_sum wrap (\<lambda>items. matches @ filter owned items) (map_sum id (\<lambda>rest. p_items page @ rest) r0)"
    by (cases r0) (simp_all add: r)
  moreover have "s' = s\<lparr>world := world s', trace := trace s @ map eff (options # reqs)\<rparr>" by (subst s') simp
  ultimately show ?thesis
    using listing_next [where api = api, OF page l] unfolding lists_as_def x prod.case by blast
qed

lemma list_loop_lists:
  assumes ret: "list_loop eff api owned wrap options matches s = Some x"
  shows "lists_as eff api owned wrap options matches s x"
proof (rule list_loop.raw_induct [where P = lists_as, OF _ ret])
  fix loop eff api owned wrap options matches and s :: "('b, 'c) st" and x
  assume IH: "\<And>eff api owned wrap options matches s x. loop eff api owned wrap options matches s = Some x \<Longrightarrow>
      lists_as eff api owned wrap options matches s x"
    and eq: "(case api options (world s) of (page, w) \<Rightarrow>
       let s' = s\<lparr>world := w, trace := trace s @ [eff options]\<rparr> in
       case p_err page of
         None \<Rightarrow>
           let matches' = matches @ filter owned (p_items page) in
           (case next_cursor (p_meta page) of
              None \<Rightarrow> Some (Inr matches', s')
            | Some c \<Rightarrow> loop eff api owned wrap (options\<lparr>lo_Cursor := c\<rparr>) matches' s')
       | Some err \<Rightarrow> Some (Inl (wrap err), s')) = Some x"
  obtain page w where page: "api options (world s) = (page, w)" by fastforce
  show "lists_as eff api owned wrap options matches s x"
  proof (cases "p_err page")
    case (Some err)
    with eq page lists_as_end(1) [where api = api, OF page Some] show ?thesis by (auto simp: Let_def)
  next
    case None
    show ?thesis
    proof (cases "next_cursor (p_meta page)")
      case last: None
      with eq page None lists_as_end(2) [where api = api, OF page None last] show ?thesis by (auto simp: Let_def)
    next
      case (Some c)
      with eq page None show ?thesis
        by (intro lists_as_next [where api = api, OF page None Some] IH) (simp add: Let_def)
    qed
  qed
qed

lemma list_loop_SomeD:
  assumes "list_loop eff api owned wrap options matches s = Some (r, s')"
  shows "\<exists>r0 reqs. listing api options (world s) r0 reqs (world s') \<and>
    r = map_sum wrap (\<lambda>items. matches @ filter owned items) r0 \<and>
    s' = s\<lparr>world := world s', trace := trace s @ map eff reqs\<rparr>"
  using list_loop_lists [OF assms] by (simp add: lists_as_def)

text \<open>
  A sufficient condition for the loop to return: every page with a next cursor makes
  some measure of cursor and world smaller.
\<close>

lemma listing_exists:
  fixes rank :: "ListOptions \<Rightarrow> 'w \<Rightarrow> nat"
  assumes progress: "\<And>options w page w' c. api options w = (page, w') \<Longrightarrow> p_err page = None \<Longrightarrow>
      next_cursor (p_meta page) = Some c \<Longrightarrow> rank (options\<lparr>lo_Cursor := c\<rparr>) w' < rank options w"
  shows "\<exists>r reqs w'. listing api options w r reqs w'"
proof (induction "rank options w" arbitrary: options w rule: less_induct)
  case less
  obtain page w' where api: "api options w = (page, w')" by fastforce
  show ?case
  proof (cases "p_err page")
    case (Some err)
    then show ?thesis using listing_error [where api = api, OF api] by blast
  next
    case None
    show ?thesis
    proof (cases "next_cursor (p_meta page)")
      case last: None
      then show ?thesis using listing_last [where api = api, OF api None] by blast
    next
      case (Some c)
      from less [OF progress [OF api None Some]]
      obtain r reqs w'' where "listing api (options\<lparr>lo_Cursor := c\<rparr>) w' r reqs w''" by blast
      then show ?thesis using listing_next [where api = api, OF api None Some] by blast
    qed
  qed
qed

lemma run_list_listing:
  assumes "listing api options (world s) r reqs w'"
  shows "run_list eff api owned wrap options s =
    Ret (map_sum wrap (filter owned) r) (s\<lparr>world := w', trace := trace s @ map eff reqs\<rparr>)"
  using list_loop_complete [OF assms] by (simp add: run_list_def)

lemma run_list_cases:
  obtains (ends) r reqs w' where "listing api options (world s) r reqs w'"
      and "run_list eff api owned wrap options s =
        Ret (map_sum wrap (filter owned) r) (s\<lparr>world := w', trace := trace s @ map eff reqs\<rparr>)"
  | (loops) "run_list eff api owned wrap options s = Diverge"
proof (cases "list_loop eff api owned wrap options [] s")
  case None
  then show ?thesis using loops by (simp add: run_list_def)
next
  case (Some x)
  obtain r s' where "x = (r, s')" by fastforce
  with Some list_loop_SomeD [of eff api owned wrap options "[]" s r s']
  obtain r0 reqs where l: "listing api options (world s) r0 reqs (world s')" by blast
  show ?thesis by (rule ends [OF l run_list_listing [OF l]])
qed

lemma emits_run_list [emit_rules]:
  assumes "\<And>options. \<not> A (eff options)"
  shows "emits A n (run_list eff api owned wrap options :: (('w, 'o) st, error + 'i list) comp)"
proof -
  have "wp (run_list eff api owned wrap options) (\<lambda>_. appends A n s) (appends A n s) s"
    for s :: "('w, 'o) st"
    by (rule run_list_cases [of api options s eff owned wrap])
      (use assms in \<open>auto simp: wp_def appends_def filter_empty_conv\<close>)
  then show ?thesis by (simp add: emits_def)
qed

lemma keeps_obj_run_list [frame_rules]:
  "keeps_obj (run_list eff api owned wrap options :: (('w, 'o) st, error + 'i list) comp)"
proof -
  have "wp (run_list eff api owned wrap options) (\<lambda>_ s'. obj s' = obj s) (\<lambda>s'. obj s' = obj s) s"
    for s :: "('w, 'o) st"
    by (rule run_list_cases [of api options s eff owned wrap]) (auto simp: wp_def)
  then show ?thesis by (simp add: keeps_obj_def)
qed

lemma emits_GetSSHKey [emit_rules]:
  "(\<And>k. \<not> A (CallSSHKeyGet k)) \<Longrightarrow> emits A n (GetSSHKey cs key)"
  unfolding GetSSHKey_def by (intro emit_rules) auto

lemma keeps_obj_GetSSHKey [frame_rules]: "keeps_obj (GetSSHKey cs key)"
  unfolding GetSSHKey_def by (intro frame_rules)

text \<open>A search that goes on with the matches of the listing.\<close>

lemma find_by_matches:
  assumes "listing api options (world s) r reqs w"
  shows "try_then (run_list eff api owned wrap options) (\<lambda>err. ret (Inl err)) k s =
    (case r of Inl e \<Rightarrow> Ret (Inl (wrap e)) (s\<lparr>world := w, trace := trace s @ map eff reqs\<rparr>)
     | Inr items \<Rightarrow> k (filter owned items) (s\<lparr>world := w, trace := trace s @ map eff reqs\<rparr>))"
  using run_list_listing [OF assms, of eff owned wrap] by (cases r) simp_all

lemma find_loops:
  assumes "\<And>r reqs w. \<not> listing api options (world s) r reqs w"
  shows "try_then (run_list eff api owned wrap options) h k s = Diverge"
  by (rule run_list_cases [of api options s eff owned wrap]) (use assms in auto)

lemma two_or_more: "2 \<le> length xs \<longleftrightarrow> (\<exists>x y ys. xs = x # y # ys)"
  by (cases xs rule: remdups_adj.cases) auto

section \<open>The contract of a search by tags\<close>

text \<open>
  What the controllers rely on when they look for the resource of a machine: the
  search reads one complete listing and answers by the number of owned items in it.
  Both services provide it.
\<close>

locale tag_finder =
  fixes eff :: "ListOptions \<Rightarrow> effect"
    and api :: "'w ClusterScope \<Rightarrow> ListOptions \<Rightarrow> 'w \<Rightarrow> 'i page \<times> 'w"
    and owned :: "'i \<Rightarrow> BuildTagParams \<Rightarrow> bool"
    and options :: "string \<Rightarrow> ListOptions"
    and find_res :: "'w ClusterScope \<Rightarrow> string \<Rightarrow> string \<Rightarrow> (('w, 'o) st, error + 'i option) comp"
  assumes none_law:
      "listing (api cs) (options name) (world s) (Inr items) reqs w \<Longrightarrow>
       filter (\<lambda>i. owned i (MachineTagParams cs name role)) items = [] \<Longrightarrow>
       find_res cs name role s = Ret (Inr None) (s\<lparr>world := w, trace := trace s @ map eff reqs\<rparr>)"
    and one_law:
      "listing (api cs) (options name) (world s) (Inr items) reqs w \<Longrightarrow>
       filter (\<lambda>i. owned i (MachineTagParams cs name role)) items = [i] \<Longrightarrow>
       find_res cs name role s = Ret (Inr (Some i)) (s\<lparr>world := w, trace := trace s @ map eff reqs\<rparr>)"
    and many_law:
      "listing (api cs) (options name) (world s) (Inr items) reqs w \<Longrightarrow>
       2 \<le> length (filter (\<lambda>i. owned i (MachineTagParams cs name role)) items) \<Longrightarrow>
       \<exists>err. find_res cs name role s = Ret (Inl err) (s\<lparr>world := w, trace := trace s @ map eff reqs\<rparr>)"
    and error_law:
      "listing (api cs) (options name) (world s) (Inl e) reqs w \<Longrightarrow>
       \<exists>err. find_res cs name role s = Ret (Inl err) (s\<lparr>world := w, trace := trace s @ map eff reqs\<rparr>)"
    and loop_law:
      "(\<And>r reqs w. \<not> listing (api cs) (options name) (world s) r reqs w) \<Longrightarrow>
       find_res cs name role s = Diverge"
begin

lemma find_res_cases:
  obtains (none) items reqs w where "listing (api cs) (options name) (world s) (Inr items) reqs w"
      and "\<forall>i\<in>set items. \<not> owned i (MachineTagParams cs name role)"
      and "find_res cs name role s = Ret (Inr None) (s\<lparr>world := w, trace := trace s @ map eff reqs\<rparr>)"
  | (one) items reqs w i where "listing (api cs) (options name) (world s) (Inr items) reqs w"
      and "filter (\<lambda>i. owned i (MachineTagParams cs name role)) items = [i]"
      and "find_res cs name role s = Ret (Inr (Some i)) (s\<lparr>world := w, trace := trace s @ map eff reqs\<rparr>)"
  | (failed) err reqs w r where "listing (api cs) (options name) (world s) r reqs w"
      and "find_res cs name role s = Ret (Inl err) (s\<lparr>world := w, trace := trace s @ map eff reqs\<rparr>)"
  | (loops) "\<nexists>r reqs w. listing (api cs) (options name) (world s) r reqs w"
      and "find_res cs name role s = Diverge"
proof (cases "\<exists>r reqs w. listing (api cs) (options name) (world s) r reqs w")
  case False
  then show ?thesis using loops loop_law by blast
next
  case True
  then obtain r reqs w where l: "listing (api cs) (options name) (world s) r reqs w" by blast
  show ?thesis
  proof (cases r)
    case (Inl e)
    then show ?thesis using l error_law failed by blast
  next
    case (Inr items)
    let ?own = "filter (\<lambda>i. owned i (MachineTagParams cs name role)) items"
    from Inr l have l': "listing (api cs) (options name) (world s) (Inr items) reqs w" by simp
    consider "?own = []" | i where "?own = [i]" | "2 \<le> length ?own"
      by (cases ?own rule: remdups_adj.cases) auto
    then show ?thesis
    proof cases
      case 1
      then show ?thesis using none [OF l'] none_law [OF l' 1] by (simp add: filter_empty_conv)
    next
      case 2
      then show ?thesis using one [OF l'] one_law [OF l' 2] by blast
    next
      case 3
      then show ?thesis using failed [OF l] many_law [OF l' 3] by blast
    qed
  qed
qed

lemma find_res_NoneD:
  assumes "find_res cs name role s = Ret (Inr None) s'"
  shows "\<exists>items reqs. listing (api cs) (options name) (world s) (Inr items) reqs (world s') \<and>
    (\<forall>i\<in>set items. \<not> owned i (MachineTagParams cs name role)) \<and>
    s' = s\<lparr>world := world s', trace := trace s @ map eff reqs\<rparr>"
  by (rule find_res_cases [of cs name s role]) (use assms in auto)

lemma find_res_SomeD:
  assumes "find_res cs name role s = Ret (Inr (Some i)) s'"
  shows "owned i (MachineTagParams cs name role) \<and>
    (\<exists>items reqs. listing (api cs) (options name) (world s) (Inr items) reqs (world s') \<and>
      filter (\<lambda>i. owned i (MachineTagParams cs name role)) items = [i] \<and>
      s' = s\<lparr>world := world s', trace := trace s @ map eff reqs\<rparr>)"
proof -
  have own: "owned i (MachineTagParams cs name role)"
    if "filter (\<lambda>i. owned i (MachineTagParams cs name role)) items = [i]" for items
    using that filter_eq_Cons_iff [of _ items i "[]"] by auto
  show ?thesis
    by (rule find_res_cases [of cs name s role]) (use assms own in auto)
qed

lemma find_res_returns_iff:
  "returns (find_res cs name role) s \<longleftrightarrow> (\<exists>r reqs w. listing (api cs) (options name) (world s) r reqs w)"
  by (rule find_res_cases [of cs name s role]) (auto simp: returns_def)

text \<open>The search leaves the object alone and asks for nothing but listings.\<close>

lemma emits_find_res: "(\<And>opts. \<not> A (eff opts)) \<Longrightarrow> emits A n (find_res cs name role)"
  unfolding emits_def
proof (intro allI)
  fix s assume no: "\<And>opts. \<not> A (eff opts)"
  show "wp (find_res cs name role) (\<lambda>_. appends A n s) (appends A n s) s"
    by (rule find_res_cases [of cs name s role])
      (use no in \<open>auto simp: wp_def appends_def filter_empty_conv\<close>)
qed

lemma keeps_obj_find_res: "keeps_obj (find_res cs name role)"
  unfolding keeps_obj_def
proof (intro allI)
  fix s
  show "wp (find_res cs name role) (\<lambda>_ s'. obj s' = obj s) (\<lambda>s'. obj s' = obj s) s"
    by (rule find_res_cases [of cs name s role]) (auto simp: wp_def)
qed

end

section \<open>The contract of a resource with an ID\<close>

text \<open>
  Reading and deleting by ID: an answer 404 is no error, whatever the client library
  makes of it, and an answer without a resource is one.
\<close>

locale keyed_resource =
  fixes get_eff :: "string \<Rightarrow> effect"
    and get_api :: "'w ClusterScope \<Rightarrow> string \<Rightarrow> 'w \<Rightarrow> 'i answer \<times> 'w"
    and get_res :: "'w ClusterScope \<Rightarrow> string \<Rightarrow> (('w, 'o) st, error + 'i option) comp"
    and del_eff :: "string \<Rightarrow> effect"
    and del_api :: "'w ClusterScope \<Rightarrow> string \<Rightarrow> 'w \<Rightarrow> unit answer \<times> 'w"
    and del_res :: "'w ClusterScope \<Rightarrow> string \<Rightarrow> (('w, 'o) st, error + bool) comp"
  assumes get_empty: "get_res cs [] s = Ret (Inr None) s"
    and get_found:
      "i \<noteq> [] \<Longrightarrow> get_api cs i (world s) = (a, w) \<Longrightarrow> a_err a = None \<Longrightarrow> a_value a = Some v \<Longrightarrow>
       get_res cs i s = Ret (Inr (Some v)) (s\<lparr>world := w, trace := trace s @ [get_eff i]\<rparr>)"
    and get_missing:
      "i \<noteq> [] \<Longrightarrow> get_api cs i (world s) = (a, w) \<Longrightarrow> a_err a = Some e \<Longrightarrow>
       captured_status (a_trips a) = StatusNotFound \<Longrightarrow>
       get_res cs i s = Ret (Inr None) (s\<lparr>world := w, trace := trace s @ [get_eff i]\<rparr>)"
    and get_failed:
      "i \<noteq> [] \<Longrightarrow> get_api cs i (world s) = (a, w) \<Longrightarrow>
       a_err a \<noteq> None \<and> captured_status (a_trips a) \<noteq> StatusNotFound \<or> a_err a = None \<and> a_value a = None \<Longrightarrow>
       \<exists>err. get_res cs i s = Ret (Inl err) (s\<lparr>world := w, trace := trace s @ [get_eff i]\<rparr>)"
    and del_empty: "\<exists>err. del_res cs [] s = Ret (Inl err) s"
    and del_done:
      "i \<noteq> [] \<Longrightarrow> del_api cs i (world s) = (d, w) \<Longrightarrow> a_err d = None \<Longrightarrow>
       del_res cs i s = Ret (Inr True) (s\<lparr>world := w, trace := trace s @ [del_eff i]\<rparr>)"
    and del_gone:
      "i \<noteq> [] \<Longrightarrow> del_api cs i (world s) = (d, w) \<Longrightarrow> a_err d = Some e \<Longrightarrow>
       captured_status (a_trips d) = StatusNotFound \<Longrightarrow>
       del_res cs i s = Ret (Inr False) (s\<lparr>world := w, trace := trace s @ [del_eff i]\<rparr>)"
    and del_failed:
      "i \<noteq> [] \<Longrightarrow> del_api cs i (world s) = (d, w) \<Longrightarrow> a_err d = Some e \<Longrightarrow>
       captured_status (a_trips d) \<noteq> StatusNotFound \<Longrightarrow>
       \<exists>err. del_res cs i s = Ret (Inl err) (s\<lparr>world := w, trace := trace s @ [del_eff i]\<rparr>)"
begin

lemma get_res_cases:
  assumes "i \<noteq> []"
  obtains (found) a w v where "get_api cs i (world s) = (a, w)" and "a_err a = None" and "a_value a = Some v"
      and "get_res cs i s = Ret (Inr (Some v)) (s\<lparr>world := w, trace := trace s @ [get_eff i]\<rparr>)"
  | (missing) a w where "get_api cs i (world s) = (a, w)" and "a_err a \<noteq> None"
      and "captured_status (a_trips a) = StatusNotFound"
      and "get_res cs i s = Ret (Inr None) (s\<lparr>world := w, trace := trace s @ [get_eff i]\<rparr>)"
  | (failed) a w err where "get_api cs i (world s) = (a, w)"
      and "a_err a \<noteq> None \<and> captured_status (a_trips a) \<noteq> StatusNotFound \<or> a_err a = None \<and> a_value a = None"
      and "get_res cs i s = Ret (Inl err) (s\<lparr>world := w, trace := trace s @ [get_eff i]\<rparr>)"
proof -
  obtain a w where a: "get_api cs i (world s) = (a, w)" by fastforce
  consider v where "a_err a = None" "a_value a = Some v"
    | e where "a_err a = Some e" "captured_status (a_trips a) = StatusNotFound"
    | "a_err a \<noteq> None \<and> captured_status (a_trips a) \<noteq> StatusNotFound \<or> a_err a = None \<and> a_value a = None"
    by (cases "a_err a"; cases "a_value a") auto
  then show ?thesis
  proof cases
    case 1
    then show ?thesis using found [OF a 1] get_found [OF assms a 1] by blast
  next
    case 2
    then show ?thesis using missing [OF a] get_missing [OF assms a 2] by simp
  next
    case 3
    then show ?thesis using failed [OF a 3] get_failed [OF assms a 3] by blast
  qed
qed

lemma del_res_cases:
  assumes "i \<noteq> []"
  obtains (deleted) d w where "del_api cs i (world s) = (d, w)" and "a_err d = None"
      and "del_res cs i s = Ret (Inr True) (s\<lparr>world := w, trace := trace s @ [del_eff i]\<rparr>)"
  | (gone) d w where "del_api cs i (world s) = (d, w)" and "a_err d \<noteq> None"
      and "captured_status (a_trips d) = StatusNotFound"
      and "del_res cs i s = Ret (Inr False) (s\<lparr>world := w, trace := trace s @ [del_eff i]\<rparr>)"
  | (failed) d w err where "del_api cs i (world s) = (d, w)" and "a_err d \<noteq> None"
      and "captured_status (a_trips d) \<noteq> StatusNotFound"
      and "del_res cs i s = Ret (Inl err) (s\<lparr>world := w, trace := trace s @ [del_eff i]\<rparr>)"
proof -
  obtain d w where d: "del_api cs i (world s) = (d, w)" by fastforce
  consider "a_err d = None"
    | e where "a_err d = Some e" "captured_status (a_trips d) = StatusNotFound"
    | e where "a_err d = Some e" "captured_status (a_trips d) \<noteq> StatusNotFound"
    by blast
  then show ?thesis
  proof cases
    case 1
    then show ?thesis using that(1) [OF d 1] del_done [OF assms d 1] by blast
  next
    case 2
    then show ?thesis using gone [OF d] del_gone [OF assms d 2] by simp
  next
    case 3
    then show ?thesis using failed [OF d] del_failed [OF assms d 3] by auto
  qed
qed

text \<open>Only a 404 reads as missing: any other failure is reported as an error.\<close>

lemma get_res_NoneD:
  assumes "i \<noteq> []" and "get_res cs i s = Ret (Inr None) s'"
  shows "captured_status (a_trips (fst (get_api cs i (world s)))) = StatusNotFound"
  by (rule get_res_cases [OF assms(1), of cs s]) (use assms(2) in auto)

lemma get_res_returns: "returns (get_res cs i) s"
proof (cases "i = []")
  case True
  then show ?thesis by (simp add: returns_def get_empty)
next
  case False
  then show ?thesis by (rule get_res_cases [of i cs s]) (auto simp: returns_def)
qed

lemma del_res_returns: "returns (del_res cs i) s"
proof (cases "i = []")
  case True
  then show ?thesis using del_empty [of cs s] by (auto simp: returns_def)
next
  case False
  then show ?thesis by (rule del_res_cases [of i cs s]) (auto simp: returns_def)
qed

end

section \<open>A service with both\<close>

locale resource_service =
  tag_finder eff api owned options find_res +
  keyed_resource get_eff get_api get_res del_eff del_api del_res
  for eff :: "ListOptions \<Rightarrow> effect"
    and api :: "'w ClusterScope \<Rightarrow> ListOptions \<Rightarrow> 'w \<Rightarrow> 'i page \<times> 'w"
    and owned :: "'i \<Rightarrow> BuildTagParams \<Rightarrow> bool"
    and options :: "string \<Rightarrow> ListOptions"
    and find_res :: "'w ClusterScope \<Rightarrow> string \<Rightarrow> string \<Rightarrow> (('w, 'o) st, error + 'i option) comp"
    and get_eff :: "string \<Rightarrow> effect"
    and get_api :: "'w ClusterScope \<Rightarrow> string \<Rightarrow> 'w \<Rightarrow> 'i answer \<times> 'w"
    and get_res :: "'w ClusterScope \<Rightarrow> string \<Rightarrow> (('w, 'o) st, error + 'i option) comp"
    and del_eff :: "string \<Rightarrow> effect"
    and del_api :: "'w ClusterScope \<Rightarrow> string \<Rightarrow> 'w \<Rightarrow> unit answer \<times> 'w"
    and del_res :: "'w ClusterScope \<Rightarrow> string \<Rightarrow> (('w, 'o) st, error + bool) comp"
begin

lemma emits_get_res: "\<not> A (get_eff i) \<Longrightarrow> emits A n (get_res cs i)"
  unfolding emits_def
proof (intro allI)
  fix s assume no: "\<not> A (get_eff i)"
  show "wp (get_res cs i) (\<lambda>_. appends A n s) (appends A n s) s"
  proof (cases "i = []")
    case True
    then show ?thesis by (simp add: wp_def get_empty)
  next
    case False
    show ?thesis by (rule get_res_cases [OF False, of cs s]) (use no in \<open>auto simp: wp_def appends_def\<close>)
  qed
qed

end

end
