(* ===== verification/Cloud_Config.thy ===== *)
theory Cloud_Config
  imports Vultr_Env
begin

text \<open>
  User data (\<^verbatim>\<open>cloud/services/cloudconfig.go\<close> and \<^verbatim>\<open>appendToUserDataCloudConfig\<close>
  of \<^verbatim>\<open>instance.go\<close>): how the \<^verbatim>\<open>ufw disable\<close> command gets into the bootstrap data.
  Bare metal servers go through the YAML document (\<open>PrependCloudConfigRunCmds\<close>),
  instances through text insertion (\<open>appendToUserDataCloudConfig\<close>).
\<close>

definition newline :: char where "newline = CHR 10"

definition cloudConfigHeader :: string where "cloudConfigHeader = ''#cloud-config''"

section \<open>Inserting into the YAML document\<close>

function split_header_loop :: "string \<Rightarrow> string \<Rightarrow> string \<times> string" where
  "split_header_loop pre rest = (case strings_Cut rest [newline] of (line, tail, _) \<Rightarrow>
     let trimmed = strings_TrimSpace line in
     if strings_HasPrefix trimmed cloudConfigHeader then (pre, tail)
     else if trimmed = [] \<or> strings_HasPrefix trimmed ''## template:'' then
       (if tail = [] then ([], []) else split_header_loop (pre @ line @ [newline]) tail)
     else ([], []))"
  by pat_completeness auto
termination
  by (relation "measure (\<lambda>(pre, rest). length rest)") (auto dest!: strings_Cut_shorter [OF sym])

declare split_header_loop.simps [simp del]

definition splitCloudConfigHeader :: "string \<Rightarrow> string \<times> string" where
  "splitCloudConfigHeader userData = split_header_loop [] userData"

text \<open>
  The new \<open>runcmd\<close> list: the commands, then what the document had. \<open>None\<close> when the
  document's \<open>runcmd\<close> is not a list.
\<close>

definition prepend_runcmd :: "string list \<Rightarrow> yaml_doc \<Rightarrow> yaml_doc option" where
  "prepend_runcmd cmds doc =
    (let existing = (case doc ''runcmd'' of
            None \<Rightarrow> Some []
          | Some YNull \<Rightarrow> Some []
          | Some (YList xs) \<Rightarrow> Some xs
          | Some _ \<Rightarrow> None)
     in map_option (\<lambda>runcmd. doc(''runcmd'' \<mapsto> YList (map YStr cmds @ runcmd))) existing)"

definition PrependCloudConfigRunCmds :: "'w env \<Rightarrow> string \<Rightarrow> string list \<Rightarrow> error + string" where
  "PrependCloudConfigRunCmds E userData cmds =
    (if cmds = [] then Inr userData
     else case splitCloudConfigHeader userData of (pre, body) \<Rightarrow>
       if body = [] then Inr userData
       else case yaml_Unmarshal E body of
         Inl err \<Rightarrow> Inl (Wrap ''failed to parse cloud-config user data'' err)
       | Inr doc0 \<Rightarrow>
           let doc = (case doc0 of None \<Rightarrow> Map.empty | Some d \<Rightarrow> d) in
           (case prepend_runcmd cmds doc of
             None \<Rightarrow> Inl (Err ''cloud-config runcmd is not a list'')
           | Some doc' \<Rightarrow> (case yaml_Marshal E doc' of
               Inl err \<Rightarrow> Inl (Wrap ''failed to serialize cloud-config user data'' err)
             | Inr out \<Rightarrow> Inr (pre @ cloudConfigHeader @ [newline] @ out))))"

section \<open>Inserting into the text\<close>

definition runcmd_line :: "string \<Rightarrow> string" where
  "runcmd_line cmd = newline # ''  - '' @ cmd"

fun append_commands :: "string \<Rightarrow> int \<Rightarrow> string list \<Rightarrow> string option" where
  "append_commands userData runcmdIndex [] = Some userData"
| "append_commands userData runcmdIndex (cmd # cmds) =
     (case slice_to userData runcmdIndex of
        None \<Rightarrow> None
      | Some front \<Rightarrow> (case slice_from userData runcmdIndex of
          None \<Rightarrow> None
        | Some rear \<Rightarrow>
            append_commands (front @ runcmd_line cmd @ rear)
              (runcmdIndex + int (length (runcmd_line cmd))) cmds))"

text \<open>\<open>None\<close> is the panic of a slice bound out of range.\<close>

definition appendToUserDataCloudConfig :: "string \<Rightarrow> string list \<Rightarrow> string option" where
  "appendToUserDataCloudConfig userData commands =
     append_commands userData (strings_Index userData ''runcmd:'' + int (length ''runcmd:'')) commands"

section \<open>Facts\<close>

lemma append_commands_split:
  "append_commands (front @ rear) (int (length front)) cmds =
     Some (front @ concat (map runcmd_line cmds) @ rear)"
proof (induction cmds arbitrary: front)
  case Nil
  then show ?case by simp
next
  case (Cons cmd cmds)
  have "append_commands ((front @ runcmd_line cmd) @ rear)
      (int (length (front @ runcmd_line cmd))) cmds =
      Some ((front @ runcmd_line cmd) @ concat (map runcmd_line cmds) @ rear)"
    by (rule Cons.IH)
  then show ?case by (simp add: slice_to_def slice_from_def)
qed

lemma appendToUserDataCloudConfig_present:
  assumes "index_of ''runcmd:'' (front @ ''runcmd:'' @ rear) = Some (length front)"
  shows "appendToUserDataCloudConfig (front @ ''runcmd:'' @ rear) cmds =
    Some (front @ ''runcmd:'' @ concat (map runcmd_line cmds) @ rear)"
proof -
  have "strings_Index (front @ ''runcmd:'' @ rear) ''runcmd:'' + int (length ''runcmd:'') =
      int (length (front @ ''runcmd:''))"
    using assms by (simp add: strings_Index_def)
  then show ?thesis
    using append_commands_split [of "front @ ''runcmd:''" rear cmds]
    by (simp add: appendToUserDataCloudConfig_def add.commute)
qed

lemma appendToUserDataCloudConfig_runcmd:
  assumes "sublist ''runcmd:'' userData"
  shows "\<exists>out. appendToUserDataCloudConfig userData cmds = Some out"
proof -
  obtain i where i: "index_of ''runcmd:'' userData = Some i"
    using assms index_of_None_iff [of "''runcmd:''" userData] by auto
  let ?front = "take i userData" and ?rear = "drop (i + length ''runcmd:'') userData"
  from index_of_Some [OF i] have "userData = ?front @ ''runcmd:'' @ ?rear" and "length ?front = i" by simp_all
  with i appendToUserDataCloudConfig_present [of ?front ?rear cmds] show ?thesis by (metis option.inject)
qed

text \<open>Without a \<open>runcmd:\<close> the command lands behind the sixth byte, or the slice panics.\<close>

lemma appendToUserDataCloudConfig_absent:
  assumes "\<not> sublist ''runcmd:'' userData"
  shows "appendToUserDataCloudConfig userData cmds =
    (if length userData < 6 \<and> cmds \<noteq> [] then None
     else Some (take 6 userData @ concat (map runcmd_line cmds) @ drop 6 userData))"
proof -
  have idx: "strings_Index userData ''runcmd:'' = -1"
    using assms index_of_None_iff [of "''runcmd:''" userData] by (simp add: strings_Index_def)
  show ?thesis
  proof (cases "length userData < 6")
    case True
    then show ?thesis
      by (cases cmds) (simp_all add: appendToUserDataCloudConfig_def idx slice_to_def)
  next
    case False
    then have "int (length (take 6 userData)) = 6" by simp
    with append_commands_split [of "take 6 userData" "drop 6 userData" cmds] False show ?thesis
      by (simp add: appendToUserDataCloudConfig_def idx)
  qed
qed

lemma prepend_runcmd_lookup:
  assumes "prepend_runcmd cmds doc = Some doc'"
  shows "\<exists>old. doc' ''runcmd'' = Some (YList (map YStr cmds @ old)) \<and>
    (\<forall>k. k \<noteq> ''runcmd'' \<longrightarrow> doc' k = doc k)"
  using assms by (auto simp: prepend_runcmd_def)

text \<open>
  What the header search returns: the lines it skipped are blank or a template
  line, the header line follows, and the body is what is left.
\<close>

lemma split_header_loop_body:
  "split_header_loop pre rest = (pre', body) \<Longrightarrow> body \<noteq> [] \<Longrightarrow>
     \<exists>skipped line. pre' = pre @ skipped \<and> rest = skipped @ line @ [newline] @ body \<and>
       strings_HasPrefix (strings_TrimSpace line) cloudConfigHeader"
proof (induction pre rest rule: split_header_loop.induct)
  case (1 pre rest)
  obtain line tail found where cut: "strings_Cut rest [newline] = (line, tail, found)"
    by (cases "strings_Cut rest [newline]") auto
  let ?t = "strings_TrimSpace line"
  have join: "tail \<noteq> [] \<Longrightarrow> rest = line @ [newline] @ tail"
    using strings_Cut_join [OF cut] cut
    by (auto simp: strings_Cut_def split: option.splits if_splits)
  show ?case
  proof (cases "strings_HasPrefix ?t cloudConfigHeader")
    case True
    with "1.prems" cut have "pre' = pre" and "body = tail"
      by (auto simp: split_header_loop.simps [of pre rest] Let_def)
    with True join "1.prems" show ?thesis
      by (intro exI [of _ "[]"] exI [of _ line]) auto
  next
    case False
    with "1.prems" cut have skip: "?t = [] \<or> strings_HasPrefix ?t ''## template:''"
      and tail: "tail \<noteq> []"
      and rec: "split_header_loop (pre @ line @ [newline]) tail = (pre', body)"
      by (auto simp: split_header_loop.simps [of pre rest] Let_def split: if_splits)
    from "1.IH" [OF cut [symmetric] refl refl False skip tail rec "1.prems"(2)]
    obtain skipped line' where "pre' = (pre @ line @ [newline]) @ skipped"
      and "tail = skipped @ line' @ [newline] @ body"
      and "strings_HasPrefix (strings_TrimSpace line') cloudConfigHeader"
      by auto
    with join [OF tail] show ?thesis
      by (intro exI [of _ "line @ [newline] @ skipped"] exI [of _ line']) auto
  qed
qed

end
