(* ===== verification/Svc_Instance.thy ===== *)
theory Svc_Instance
  imports Svc_Common Cloud_Config
begin

text \<open>
  The instance service (\<^verbatim>\<open>cloud/services/instance.go\<close>): looking an instance up by ID,
  finding the instance of a machine by label and tags, creating, deleting, and reading
  its addresses. A Go pair of a value and an error is a sum, \<open>Inl\<close> for the error; a
  pointer that may be nil is an option.
\<close>

definition GetInstance :: "'w ClusterScope \<Rightarrow> string \<Rightarrow> (('w, 'o) st, error + Instance option) comp" where
  "GetInstance cs instanceID =
    (if instanceID = [] then ret (Inr None)
     else and_then
       (call (CallInstanceGet instanceID) (Instances_Get (Instances (cs_clients cs)) instanceID))
       (\<lambda>a. case a_err a of
           Some err \<Rightarrow>
             if captured_status (a_trips a) = StatusNotFound then ret (Inr None)
             else ret (Inl (Wrap (''failed to get instance with ID '' @ quote instanceID) err))
         | None \<Rightarrow> (case a_value a of
             None \<Rightarrow> ret (Inl (Err (''Vultr API returned HTTP '' @ itoa (responseCode (a_resp a)) @
                 '' without an instance for ID '' @ quote instanceID)))
           | Some i \<Rightarrow> ret (Inr (Some i)))))"

definition instanceOwnedByMachine :: "Instance \<Rightarrow> BuildTagParams \<Rightarrow> bool" where
  "instanceOwnedByMachine i params =
    (if in_Label i \<noteq> bt_Name params then False
     else if TagsOwnedByMachine (in_Tags i) params then True
     else length (in_Tags i) = 0 \<and> in_Hostname i = bt_Name params)"

definition instance_list_options :: "string \<Rightarrow> ListOptions" where
  "instance_list_options name = \<lparr>lo_PerPage = 0, lo_Cursor = [], lo_Label = name, lo_Tag = []\<rparr>"

definition FindInstanceForMachine ::
  "'w ClusterScope \<Rightarrow> string \<Rightarrow> string \<Rightarrow> (('w, 'o) st, error + Instance option) comp" where
  "FindInstanceForMachine cs name role =
    (let params = MachineTagParams cs name role in
     try_then
       (run_list CallInstanceList (Instances_List (Instances (cs_clients cs)))
          (\<lambda>i. instanceOwnedByMachine i params)
          (Wrap (''failed to list instances labelled '' @ quote name))
          (instance_list_options name))
       (\<lambda>err. ret (Inl err))
       (\<lambda>matches. case matches of
           [] \<Rightarrow> ret (Inr None)
         | [i] \<Rightarrow> ret (Inr (Some i))
         | _ \<Rightarrow> ret (Inl (Err (''found '' @ itoa (int (length matches)) @ '' instances for machine '' @
               quote name @ '', expected at most one: '' @ strings_Join (map in_ID matches) '', '')))))"

text \<open>The loop over the machine's SSH keys; a nil key with a nil error would be dereferenced.\<close>

primrec instance_ssh_keys ::
  "'w ClusterScope \<Rightarrow> string list \<Rightarrow> string list \<Rightarrow> (('w, 'o) st, error + string list) comp" where
  "instance_ssh_keys cs [] sshKeyIDs = ret (Inr sshKeyIDs)"
| "instance_ssh_keys cs (sshKeyID # rest) sshKeyIDs =
     try_then (GetSSHKey cs sshKeyID) (\<lambda>err. ret (Inl err))
       (\<lambda>key. case key of
           None \<Rightarrow> panic ''nil pointer dereference: keys.ID''
         | Some keyID \<Rightarrow> instance_ssh_keys cs rest (sshKeyIDs @ [keyID]))"

definition instance_create_req ::
  "VultrMachineSpec \<Rightarrow> string \<Rightarrow> string list \<Rightarrow> string \<Rightarrow> string list \<Rightarrow> InstanceCreateReq" where
  "instance_create_req spec instanceName sshKeyIDs encodedBootstrapData tags =
     \<lparr>icr_Label = instanceName, icr_Hostname = instanceName, icr_Region = vms_Region spec,
      icr_Plan = vms_PlanID spec, icr_SSHKeys = sshKeyIDs, icr_SnapshotID = vms_Snapshot spec,
      icr_UserData = encodedBootstrapData, icr_EnableIPv6 = Pointer True,
      icr_AttachVPC = (if vms_VPCID spec \<noteq> [] then [vms_VPCID spec] else []),
      icr_Tags = tags\<rparr>"

text \<open>The create call and the check of its answer.\<close>

definition submit_instance ::
  "'w ClusterScope \<Rightarrow> string \<Rightarrow> InstanceCreateReq \<Rightarrow> (('w, 'o) st, error + Instance) comp" where
  "submit_instance cs instanceName instanceReq =
     and_then (call (CallInstanceCreate instanceReq) (Instances_Create (Instances (cs_clients cs)) instanceReq))
       (\<lambda>a. case a_err a of
           Some err \<Rightarrow> ret (Inl (Wrap ''Failed to create new instance'' err))
         | None \<Rightarrow>
             let missing = ret (Inl (Err (''Vultr API returned HTTP '' @ itoa (responseCode (a_resp a)) @
                   '' without an instance for the create of '' @ quote instanceName)))
             in (case a_value a of
                 None \<Rightarrow> missing
               | Some i \<Rightarrow> if in_ID i = [] then missing else ret (Inr i)))"

definition CreateInstance ::
  "'w env \<Rightarrow> 'w ClusterScope \<Rightarrow> MachineScope \<Rightarrow> (('w, VultrMachine) st, error + Instance) comp" where
  "CreateInstance E cs ms = and_then get_obj (\<lambda>vm.
     try_then (MachineScope_GetBootstrapData E ms)
       (\<lambda>err. ret (Inl (Wrap ''failed to retrieve bootstrap data'' err)))
       (\<lambda>bootstrapData. case appendToUserDataCloudConfig bootstrapData [''ufw disable''] of
           None \<Rightarrow> panic ''slice bounds out of range''
         | Some updatedBootstrapData \<Rightarrow>
             try_then (instance_ssh_keys cs (vms_SSHKey (vm_Spec vm)) [])
               (\<lambda>err. ret (Inl err))
               (\<lambda>sshKeyIDs.
                 let instanceName = MachineScope_Name vm in
                 submit_instance cs instanceName
                   (instance_create_req (vm_Spec vm) instanceName sshKeyIDs
                     (base64_EncodeToString updatedBootstrapData)
                     (BuildTags (MachineTagParams cs instanceName (MachineScope_Role E ms)))))))"

definition DeleteInstance :: "'w ClusterScope \<Rightarrow> string \<Rightarrow> (('w, 'o) st, error + bool) comp" where
  "DeleteInstance cs instanceID =
    (if instanceID = [] then ret (Inl (Err ''cannot delete instance. instance does not have an instance id''))
     else and_then (call (CallInstanceDelete instanceID) (Instances_Delete (Instances (cs_clients cs)) instanceID))
       (\<lambda>a. case a_err a of
           Some err \<Rightarrow>
             if captured_status (a_trips a) = StatusNotFound then ret (Inr False)
             else ret (Inl (Wrap (''failed to delete instance with id '' @ quote instanceID) err))
         | None \<Rightarrow> ret (Inr True)))"

definition GetInstanceAddress :: "Instance \<Rightarrow> error + NodeAddress list" where
  "GetInstanceAddress i = Inr
     ((if in_InternalIP i \<noteq> [] then [\<lparr>na_Type = NodeInternalIP, na_Address = in_InternalIP i\<rparr>] else []) @
      (if in_MainIP i \<noteq> [] then [\<lparr>na_Type = NodeExternalIP, na_Address = in_MainIP i\<rparr>] else []))"

section \<open>The contracts the controllers rely on\<close>

interpretation instances: tag_finder CallInstanceList
  "\<lambda>cs. Instances_List (Instances (cs_clients cs))" instanceOwnedByMachine instance_list_options
  FindInstanceForMachine
  by unfold_locales
    (auto simp: FindInstanceForMachine_def find_by_matches find_loops two_or_more Let_def)

interpretation instance_by_id: keyed_resource CallInstanceGet
  "\<lambda>cs. Instances_Get (Instances (cs_clients cs))" GetInstance CallInstanceDelete
  "\<lambda>cs. Instances_Delete (Instances (cs_clients cs))" DeleteInstance
  by unfold_locales
    (auto simp: GetInstance_def DeleteInstance_def call_def and_then_def split: option.split)

interpretation instance_service: resource_service CallInstanceList
  "\<lambda>cs. Instances_List (Instances (cs_clients cs))" instanceOwnedByMachine instance_list_options
  FindInstanceForMachine CallInstanceGet "\<lambda>cs. Instances_Get (Instances (cs_clients cs))" GetInstance
  CallInstanceDelete "\<lambda>cs. Instances_Delete (Instances (cs_clients cs))" DeleteInstance
  by unfold_locales

lemma instance_create_req_sel [simp]:
  "icr_Label (instance_create_req spec name keys data tags) = name"
  "icr_Hostname (instance_create_req spec name keys data tags) = name"
  "icr_Tags (instance_create_req spec name keys data tags) = tags"
  by (simp_all add: instance_create_req_def)

section \<open>Effects\<close>

definition is_instance_create :: "effect \<Rightarrow> bool" where
  "is_instance_create e \<longleftrightarrow> (\<exists>req. e = CallInstanceCreate req)"

definition is_instance_delete :: "effect \<Rightarrow> bool" where
  "is_instance_delete e \<longleftrightarrow> (\<exists>i. e = CallInstanceDelete i)"

lemma is_instance_create_simps [simp]:
  "is_instance_create (CallInstanceCreate req)"
  "\<not> is_instance_create (CallInstanceGet i)" "\<not> is_instance_create (CallInstanceList opts)"
  "\<not> is_instance_create (CallInstanceDelete i)" "\<not> is_instance_create (CallSSHKeyGet k)"
  "\<not> is_instance_create (CallSecretGet key)" "\<not> is_instance_create (CallLBGet i)"
  "\<not> is_instance_create (CallLBUpdate i lreq)" "\<not> is_instance_create (PatchVultrMachine vm)"
  "\<not> is_instance_create (Eventf t r a nt args)"
  by (simp_all add: is_instance_create_def)

lemma is_instance_delete_simps [simp]:
  "is_instance_delete (CallInstanceDelete i)"
  "\<not> is_instance_delete (CallInstanceGet i)" "\<not> is_instance_delete (CallInstanceList opts)"
  "\<not> is_instance_delete (CallInstanceCreate req)" "\<not> is_instance_delete (CallSSHKeyGet k)"
  "\<not> is_instance_delete (CallSecretGet key)" "\<not> is_instance_delete (CallLBGet i)"
  "\<not> is_instance_delete (CallLBUpdate i lreq)" "\<not> is_instance_delete (PatchVultrMachine vm)"
  "\<not> is_instance_delete (Eventf t r a nt args)"
  by (simp_all add: is_instance_delete_def)

lemma emits_GetInstance [emit_rules]:
  "\<not> A (CallInstanceGet i) \<Longrightarrow> emits A n (GetInstance cs i)"
  unfolding GetInstance_def by (intro emit_rules) auto

lemma emits_FindInstanceForMachine [emit_rules]:
  "(\<And>opts. \<not> A (CallInstanceList opts)) \<Longrightarrow> emits A n (FindInstanceForMachine cs name role)"
  unfolding FindInstanceForMachine_def Let_def
  by (intro emit_rules) (auto split: list.split intro: emit_rules)

lemma emits_DeleteInstance [emit_rules]:
  "\<not> A (CallInstanceDelete i) \<Longrightarrow> emits A n (DeleteInstance cs i)"
  unfolding DeleteInstance_def by (intro emit_rules) auto

lemma emits_instance_ssh_keys [emit_rules]:
  "(\<And>k. \<not> A (CallSSHKeyGet k)) \<Longrightarrow> emits A n (instance_ssh_keys cs keys acc)"
  by (induction keys arbitrary: acc) (auto intro!: emit_rules)

lemma emits_MachineScope_GetBootstrapData [emit_rules]:
  "(\<And>key. \<not> A (CallSecretGet key)) \<Longrightarrow> emits A n (MachineScope_GetBootstrapData E ms)"
  unfolding MachineScope_GetBootstrapData_def by (intro emit_rules) auto

text \<open>\<open>CreateInstance\<close> asks for at most one instance, and only after its preparation succeeded.\<close>

lemma emits_submit_instance: "emits A 1 (submit_instance cs name req)"
  unfolding submit_instance_def Let_def by (intro emits_call_then_one emit_rules)

lemma emits_submit_instance_free: "\<not> A (CallInstanceCreate req) \<Longrightarrow> emits A n (submit_instance cs name req)"
  unfolding submit_instance_def Let_def by (intro emit_rules)

lemma emits_CreateInstance:
  assumes "\<And>key. \<not> A (CallSecretGet key)" and "\<And>k. \<not> A (CallSSHKeyGet k)"
  shows "emits A 1 (CreateInstance E cs ms)"
  unfolding CreateInstance_def Let_def
  by (intro emit_rules emits_submit_instance) (use assms in auto)

lemma emits_CreateInstance_free:
  assumes "\<And>key. \<not> A (CallSecretGet key)" and "\<And>k. \<not> A (CallSSHKeyGet k)"
    and "\<And>req. \<not> A (CallInstanceCreate req)"
  shows "emits A n (CreateInstance E cs ms)"
  unfolding CreateInstance_def Let_def
  by (intro emit_rules emits_submit_instance_free) (use assms in auto)

section \<open>The object is left alone\<close>

lemma keeps_obj_GetInstance [frame_rules]: "keeps_obj (GetInstance cs i)"
  unfolding GetInstance_def by (intro frame_rules)

lemma keeps_obj_FindInstanceForMachine [frame_rules]: "keeps_obj (FindInstanceForMachine cs name role)"
  unfolding FindInstanceForMachine_def Let_def
  by (intro frame_rules) (auto split: list.split intro: frame_rules)

lemma keeps_obj_DeleteInstance [frame_rules]: "keeps_obj (DeleteInstance cs i)"
  unfolding DeleteInstance_def by (intro frame_rules)

lemma keeps_obj_instance_ssh_keys [frame_rules]: "keeps_obj (instance_ssh_keys cs keys acc)"
  by (induction keys arbitrary: acc) (auto intro!: frame_rules)

lemma keeps_obj_CreateInstance [frame_rules]: "keeps_obj (CreateInstance E cs ms)"
  unfolding CreateInstance_def submit_instance_def MachineScope_GetBootstrapData_def Let_def
  by (intro frame_rules)

end
