(* ===== verification/Svc_LoadBalancer.thy ===== *)
theory Svc_LoadBalancer
  imports Svc_Common
begin

text \<open>
  The load balancer service (\<^verbatim>\<open>cloud/services/loadbalancer.go\<close>): reading, creating and
  deleting the API server's load balancer, and its members. A nil load balancer
  returned without an error is dereferenced by the source, so it is a panic here.

  After the operations come the lemmas on membership: what \<open>EnsureLoadBalancerMember\<close> and
  \<open>RemoveLoadBalancerMember\<close> answer and ask on every branch.
\<close>

definition tcpProtocol :: string where "tcpProtocol = ''tcp''"

definition GetLoadBalancer :: "'w ClusterScope \<Rightarrow> string \<Rightarrow> (('w, 'o) st, error + LoadBalancer option) comp" where
  "GetLoadBalancer cs lbID =
    (if lbID = [] then ret (Inr None)
     else and_then (call (CallLBGet lbID) (LoadBalancers_Get (LoadBalancers (cs_clients cs)) lbID))
       (\<lambda>a. case a_err a of Some err \<Rightarrow> ret (Inl err) | None \<Rightarrow> ret (Inr (a_value a))))"

definition lb_firewall_rules :: "LBFirewallRule list \<Rightarrow> LBRule list" where
  "lb_firewall_rules rules =
     map (\<lambda>r. \<lparr>lr_IPType = fw_IPType r, lr_Port = fw_Port r, lr_Source = fw_Source r\<rparr>) rules"

definition lb_create_req :: "'w ClusterScope \<Rightarrow> HealthCheck \<Rightarrow> GenericInfo \<Rightarrow> LBFirewallRule list \<Rightarrow> LoadBalancerReq" where
  "lb_create_req cs hc gi rules =
     \<lparr>lq_Label = ClusterScope_Name cs @ ''-'' @ ClusterScope_UID cs,
      lq_Region = ClusterScope_Region cs,
      lq_VPC = ClusterScope_VPC cs,
      lq_ForwardingRules =
        [\<lparr>lf_FrontendProtocol = tcpProtocol, lf_FrontendPort = hc_Port hc,
          lf_BackendProtocol = tcpProtocol, lf_BackendPort = hc_Port hc\<rparr>],
      lq_HealthCheck = Some
        \<lparr>lh_Protocol = tcpProtocol, lh_Port = hc_Port hc, lh_CheckInterval = hc_CheckInterval hc,
         lh_ResponseTimeout = hc_ResponseTimeout hc,
         lh_UnhealthyThreshold = hc_UnhealthyThreshold hc,
         lh_HealthyThreshold = hc_HealthyThreshold hc\<rparr>,
      lq_BalancingAlgorithm = gi_BalancingAlgorithm gi,
      lq_FirewallRules = (if length rules > 0 then lb_firewall_rules rules else []),
      lq_Instances = []\<rparr>"

definition CreateLoadBalancer ::
  "'w ClusterScope \<Rightarrow> VultrLoadBalancer \<Rightarrow> (('w, 'o) st, error + LoadBalancer option) comp" where
  "CreateLoadBalancer cs spec = (case lb_HealthCheck spec of
      None \<Rightarrow> panic ''nil pointer dereference: spec.HealthCheck''
    | Some hc \<Rightarrow> (case lb_GenericInfo spec of
        None \<Rightarrow> panic ''nil pointer dereference: spec.GenericInfo''
      | Some gi \<Rightarrow>
          let createReq = lb_create_req cs hc gi (lb_FirewallRules spec) in
          and_then (call (CallLBCreate createReq)
              (LoadBalancers_Create (LoadBalancers (cs_clients cs)) createReq))
            (\<lambda>a. case a_err a of Some err \<Rightarrow> ret (Inl err) | None \<Rightarrow> ret (Inr (a_value a)))))"

definition DeleteLoadBalancer :: "'w ClusterScope \<Rightarrow> string \<Rightarrow> (('w, 'o) st, error option) comp" where
  "DeleteLoadBalancer cs lbID =
     call (CallLBDelete lbID) (LoadBalancers_Delete (LoadBalancers (cs_clients cs)) lbID)"

definition members_req :: "string list \<Rightarrow> LoadBalancerReq" where
  "members_req ids = zero_LoadBalancerReq\<lparr>lq_Instances := ids\<rparr>"

definition EnsureLoadBalancerMember ::
  "'w ClusterScope \<Rightarrow> string \<Rightarrow> string \<Rightarrow> (('w, 'o) st, error + bool) comp" where
  "EnsureLoadBalancerMember cs lbID resourceID =
    (if lbID = [] then ret (Inl (Err ''load balancer id is empty''))
     else and_then (call (CallLBGet lbID) (LoadBalancers_Get (LoadBalancers (cs_clients cs)) lbID))
       (\<lambda>a. case a_err a of
           Some err \<Rightarrow> ret (Inl (Wrap (''failed to get load balancer '' @ quote lbID) err))
         | None \<Rightarrow> (case a_value a of
             None \<Rightarrow> panic ''nil pointer dereference: lb.Status''
           | Some lb \<Rightarrow>
               if gl_Status lb \<noteq> ''active'' then ret (Inr False)
               else if List.member (gl_Instances lb) resourceID then ret (Inr True)
               else
                 let req = members_req (gl_Instances lb @ [resourceID]) in
                 and_then (call (CallLBUpdate lbID req)
                     (LoadBalancers_Update (LoadBalancers (cs_clients cs)) lbID req))
                   (\<lambda>u. case a_err u of
                       Some err \<Rightarrow>
                         if captured_status (a_trips u) = StatusUnprocessableEntity then ret (Inr False)
                         else ret (Inl (Wrap (''failed to add '' @ quote resourceID @
                                '' to load balancer '' @ quote lbID) err))
                     | None \<Rightarrow> ret (Inr True)))))"

definition RemoveLoadBalancerMember ::
  "'w ClusterScope \<Rightarrow> string \<Rightarrow> string \<Rightarrow> (('w, 'o) st, error option) comp" where
  "RemoveLoadBalancerMember cs lbID resourceID =
    (if lbID = [] then ret None
     else and_then (call (CallLBGet lbID) (LoadBalancers_Get (LoadBalancers (cs_clients cs)) lbID))
       (\<lambda>a. case a_err a of
           Some err \<Rightarrow>
             if captured_status (a_trips a) = StatusNotFound then ret None
             else ret (Some (Wrap (''failed to get load balancer '' @ quote lbID) err))
         | None \<Rightarrow> (case a_value a of
             None \<Rightarrow> panic ''nil pointer dereference: lb.Instances''
           | Some lb \<Rightarrow>
               let remaining = filter (\<lambda>i. i \<noteq> resourceID) (gl_Instances lb) in
               if length remaining = length (gl_Instances lb) then ret None
               else if length remaining = 0 then ret None
               else
                 and_then (call (CallLBUpdate lbID (members_req remaining))
                     (LoadBalancers_Update (LoadBalancers (cs_clients cs)) lbID (members_req remaining)))
                   (\<lambda>u. case a_err u of
                       Some err \<Rightarrow> ret (Some (Wrap (''failed to remove '' @ quote resourceID @
                                '' from load balancer '' @ quote lbID) err))
                     | None \<Rightarrow> ret None))))"

section \<open>Effects\<close>

lemma lq_Instances_members_req [simp]: "lq_Instances (members_req ids) = ids"
  by (simp add: members_req_def)

lemma emits_GetLoadBalancer [emit_rules]:
  "\<not> A (CallLBGet i) \<Longrightarrow> emits A n (GetLoadBalancer cs i)"
  unfolding GetLoadBalancer_def by (intro emit_rules) auto

lemma emits_DeleteLoadBalancer [emit_rules]:
  "\<not> A (CallLBDelete i) \<Longrightarrow> emits A n (DeleteLoadBalancer cs i)"
  unfolding DeleteLoadBalancer_def by (intro emit_rules)

lemma emits_EnsureLoadBalancerMember [emit_rules]:
  "\<not> A (CallLBGet lbID) \<Longrightarrow> (\<And>req. \<not> A (CallLBUpdate lbID req)) \<Longrightarrow>
     emits A n (EnsureLoadBalancerMember cs lbID i)"
  unfolding EnsureLoadBalancerMember_def Let_def by (intro emit_rules) auto

lemma emits_RemoveLoadBalancerMember [emit_rules]:
  "\<not> A (CallLBGet lbID) \<Longrightarrow> (\<And>req. \<not> A (CallLBUpdate lbID req)) \<Longrightarrow>
     emits A n (RemoveLoadBalancerMember cs lbID i)"
  unfolding RemoveLoadBalancerMember_def Let_def by (intro emit_rules) auto

lemma keeps_obj_LoadBalancer [frame_rules]:
  "keeps_obj (GetLoadBalancer cs i)" "keeps_obj (DeleteLoadBalancer cs i)"
  "keeps_obj (CreateLoadBalancer cs spec)"
  "keeps_obj (EnsureLoadBalancerMember cs lbID i)" "keeps_obj (RemoveLoadBalancerMember cs lbID i)"
  unfolding GetLoadBalancer_def DeleteLoadBalancer_def CreateLoadBalancer_def
    EnsureLoadBalancerMember_def RemoveLoadBalancerMember_def Let_def
  by (intro frame_rules)+

text \<open>
  An answer of a load balancer read that the membership operations can use: no
  error, and a load balancer.
\<close>

definition lb_read :: "'w ClusterScope \<Rightarrow> string \<Rightarrow> 'w \<Rightarrow> (LoadBalancer \<times> 'w) option" where
  "lb_read cs lbID w = (case LoadBalancers_Get (LoadBalancers (cs_clients cs)) lbID w of
      (a, w') \<Rightarrow> (case (a_err a, a_value a) of (None, Some lb) \<Rightarrow> Some (lb, w') | _ \<Rightarrow> None))"

lemma lb_read_SomeE:
  assumes "lb_read cs lbID w = Some (lb, w')"
  obtains a where "LoadBalancers_Get (LoadBalancers (cs_clients cs)) lbID w = (a, w')"
    and "a_err a = None" and "a_value a = Some lb"
  using assms by (auto simp: lb_read_def split: prod.splits option.splits)

text \<open>
  \<open>EnsureLoadBalancerMember\<close> answers that the resource is a member only when the load
  balancer was active and either listed the resource or accepted the list with it.
\<close>

lemma EnsureLoadBalancerMember_TrueE:
  assumes "EnsureLoadBalancerMember cs lbID i s = Ret (Inr True) s'"
  obtains (listed) lb w where "lb_read cs lbID (world s) = Some (lb, w)"
      and "gl_Status lb = ''active''" and "i \<in> set (gl_Instances lb)"
      and "s' = s\<lparr>world := w, trace := trace s @ [CallLBGet lbID]\<rparr>"
  | (added) lb w u w' where "lb_read cs lbID (world s) = Some (lb, w)"
      and "gl_Status lb = ''active''" and "i \<notin> set (gl_Instances lb)"
      and "LoadBalancers_Update (LoadBalancers (cs_clients cs)) lbID
             (members_req (gl_Instances lb @ [i])) w = (u, w')"
      and "a_err u = None"
      and "s' = s\<lparr>world := w', trace := trace s @
             [CallLBGet lbID, CallLBUpdate lbID (members_req (gl_Instances lb @ [i]))]\<rparr>"
proof -
  obtain a w where a: "LoadBalancers_Get (LoadBalancers (cs_clients cs)) lbID (world s) = (a, w)"
    by fastforce
  from assms a obtain lb where ok: "a_err a = None" "a_value a = Some lb" "gl_Status lb = ''active''"
    by (auto simp: EnsureLoadBalancerMember_def and_then_def call_def
        split: if_splits option.splits)
  then have lb: "lb_read cs lbID (world s) = Some (lb, w)"
    using a by (simp add: lb_read_def)
  show ?thesis
  proof (cases "i \<in> set (gl_Instances lb)")
    case True
    with assms a ok have "s' = s\<lparr>world := w, trace := trace s @ [CallLBGet lbID]\<rparr>"
      by (auto simp: EnsureLoadBalancerMember_def and_then_def call_def split: if_splits)
    with lb ok(3) True show ?thesis by (rule listed)
  next
    case False
    obtain u w' where u: "LoadBalancers_Update (LoadBalancers (cs_clients cs)) lbID
        (members_req (gl_Instances lb @ [i])) w = (u, w')"
      by fastforce
    with assms a ok False have "a_err u = None" and
      "s' = s\<lparr>world := w', trace := trace s @
             [CallLBGet lbID, CallLBUpdate lbID (members_req (gl_Instances lb @ [i]))]\<rparr>"
      by (auto simp: EnsureLoadBalancerMember_def and_then_def call_def Let_def
          split: if_splits option.splits)
    with lb ok(3) False u show ?thesis by (rule added)
  qed
qed

text \<open>
  The load balancer confirmed the member: in some state of the world it was read active,
  and it listed the resource or accepted the list of its members with the resource.
\<close>

definition member_confirmed :: "'w ClusterScope \<Rightarrow> string \<Rightarrow> string \<Rightarrow> bool" where
  "member_confirmed cs lbID i \<longleftrightarrow>
     (\<exists>w lb w'. lb_read cs lbID w = Some (lb, w') \<and> gl_Status lb = ''active'' \<and>
        (i \<in> set (gl_Instances lb) \<or>
         (\<exists>u w''. LoadBalancers_Update (LoadBalancers (cs_clients cs)) lbID
             (members_req (gl_Instances lb @ [i])) w' = (u, w'') \<and> a_err u = None)))"

lemma EnsureLoadBalancerMember_confirms:
  "wp (EnsureLoadBalancerMember cs lbID i)
    (\<lambda>r s'. obj s' = obj s \<and> (r = Inr True \<longrightarrow> member_confirmed cs lbID i)) (\<lambda>_. True) s"
proof -
  have "member_confirmed cs lbID i" if "EnsureLoadBalancerMember cs lbID i s = Ret (Inr True) s'" for s'
    using that
  proof (cases rule: EnsureLoadBalancerMember_TrueE)
    case (added lb w u w')
    then show ?thesis unfolding member_confirmed_def by blast
  qed (auto simp: member_confirmed_def)
  then show ?thesis
    using keeps_obj_wp [OF keeps_obj_LoadBalancer(4), of cs lbID i s]
    by (auto simp: wp_def split: outcome.splits)
qed

text \<open>The members \<open>RemoveLoadBalancerMember\<close> sends are the others, and never an empty list.\<close>

lemma RemoveLoadBalancerMember_cases:
  fixes i :: string
  assumes lbID: "lbID \<noteq> []" and lb: "lb_read cs lbID (world s) = Some (lb, w)"
  defines "remaining \<equiv> removeAll i (gl_Instances lb)"
  obtains (quiet) "i \<notin> set (gl_Instances lb) \<or> remaining = []"
      and "RemoveLoadBalancerMember cs lbID i s =
        Ret None (s\<lparr>world := w, trace := trace s @ [CallLBGet lbID]\<rparr>)"
  | (sent) u w' where "i \<in> set (gl_Instances lb)" and "remaining \<noteq> []"
      and "LoadBalancers_Update (LoadBalancers (cs_clients cs)) lbID (members_req remaining) w = (u, w')"
      and "RemoveLoadBalancerMember cs lbID i s =
        Ret (map_option (Wrap (''failed to remove '' @ quote i @ '' from load balancer '' @ quote lbID)) (a_err u))
          (s\<lparr>world := w', trace := trace s @ [CallLBGet lbID, CallLBUpdate lbID (members_req remaining)]\<rparr>)"
proof -
  obtain a where a: "LoadBalancers_Get (LoadBalancers (cs_clients cs)) lbID (world s) = (a, w)"
      "a_err a = None" "a_value a = Some lb"
    using lb by (rule lb_read_SomeE)
  have rem: "filter (\<lambda>j. j \<noteq> i) (gl_Instances lb) = remaining"
    unfolding remaining_def by (simp add: removeAll_filter_not_eq eq_commute)
  have len: "length remaining = length (gl_Instances lb) \<longleftrightarrow> i \<notin> set (gl_Instances lb)"
    unfolding remaining_def by (metis length_removeAll_less less_irrefl removeAll_id)
  show ?thesis
  proof (cases "i \<notin> set (gl_Instances lb) \<or> remaining = []")
    case True
    with lbID a rem len have "RemoveLoadBalancerMember cs lbID i s =
        Ret None (s\<lparr>world := w, trace := trace s @ [CallLBGet lbID]\<rparr>)"
      by (auto simp: RemoveLoadBalancerMember_def call_def and_then_def Let_def)
    with True show ?thesis by (rule quiet)
  next
    case False
    obtain u w' where u: "LoadBalancers_Update (LoadBalancers (cs_clients cs)) lbID
        (members_req remaining) w = (u, w')"
      by fastforce
    from False len have "length remaining \<noteq> length (gl_Instances lb)" by blast
    with lbID a rem False u have "RemoveLoadBalancerMember cs lbID i s =
        Ret (map_option (Wrap (''failed to remove '' @ quote i @ '' from load balancer '' @ quote lbID)) (a_err u))
          (s\<lparr>world := w', trace := trace s @ [CallLBGet lbID, CallLBUpdate lbID (members_req remaining)]\<rparr>)"
      by (simp add: RemoveLoadBalancerMember_def call_def and_then_def Let_def split: option.split)
    with False u show ?thesis using sent by blast
  qed
qed

end
