(* ===== verification/Controller_Common.thy ===== *)
theory Controller_Common
  imports Svc_Common
begin

text \<open>
  What the three reconcilers share: events, calls to the Kubernetes API server and the
  Cluster API helpers, finalizers on the objects, and the map functions from a
  VultrCluster to the machines of its cluster. Calls to Kubernetes other than patches
  and secrets are not noted in the trace.
\<close>

definition EventTypeNormal :: string where "EventTypeNormal = ''Normal''"
definition EventTypeWarning :: string where "EventTypeWarning = ''Warning''"

definition eventf ::
  "string \<Rightarrow> string \<Rightarrow> string \<Rightarrow> string \<Rightarrow> event_arg list \<Rightarrow> (('w, 'o) st, unit) comp" where
  "eventf eventtype reason action note_format args =
     note_event (Eventf eventtype reason action note_format args)"

definition kube_call :: "('w \<Rightarrow> 'r \<times> 'w) \<Rightarrow> (('w, 'o) st, 'r) comp" where
  "kube_call f s = (case f (world s) of (r, w) \<Rightarrow> Ret r (s\<lparr>world := w\<rparr>))"

text \<open>\<^verbatim>\<open>paused.EnsurePausedCondition\<close>, which may change the object's conditions.\<close>

definition ensure_paused ::
  "(Cluster \<Rightarrow> 'o \<Rightarrow> 'w \<Rightarrow> ((bool \<times> bool \<times> error option) \<times> 'o) \<times> 'w) \<Rightarrow> Cluster \<Rightarrow>
     (('w, 'o) st, bool \<times> bool \<times> error option) comp" where
  "ensure_paused f cluster = and_then get_obj (\<lambda>v.
     and_then (kube_call (f cluster v))
       (\<lambda>(r, v'). and_then (modify_obj (\<lambda>_. v')) (\<lambda>_. ret r)))"

text \<open>The deferred close keeps the error the handler returned, if there is one.\<close>

definition keep_error :: "error option \<Rightarrow> error option \<Rightarrow> error option" where
  "keep_error reterr err = (if err \<noteq> None \<and> reterr = None then err else reterr)"

definition is_error :: "error + 'a \<Rightarrow> bool" where
  "is_error r = (case r of Inl _ \<Rightarrow> True | Inr _ \<Rightarrow> False)"

definition cluster_scope_params :: "Cluster \<Rightarrow> VultrCluster \<Rightarrow> 'w ClusterScopeParams" where
  "cluster_scope_params cluster vultrCluster =
     \<lparr>cp_Instances = None, cp_LoadBalancers = None, cp_SSHKeys = None, cp_BareMetal = None,
      cp_Cluster = Some cluster, cp_VultrCluster = Some vultrCluster\<rparr>"

section \<open>Finalizers\<close>

definition vm_AddFinalizer :: "'w env \<Rightarrow> string \<Rightarrow> VultrMachine \<Rightarrow> VultrMachine" where
  "vm_AddFinalizer E f m =
     m\<lparr>vm_meta := (vm_meta m)\<lparr>om_Finalizers := snd (AddFinalizer E f (om_Finalizers (vm_meta m)))\<rparr>\<rparr>"

definition vm_RemoveFinalizer :: "'w env \<Rightarrow> string \<Rightarrow> VultrMachine \<Rightarrow> VultrMachine" where
  "vm_RemoveFinalizer E f m =
     m\<lparr>vm_meta := (vm_meta m)\<lparr>om_Finalizers := snd (RemoveFinalizer E f (om_Finalizers (vm_meta m)))\<rparr>\<rparr>"

definition bm_AddFinalizer :: "'w env \<Rightarrow> string \<Rightarrow> VultrBareMetalMachine \<Rightarrow> VultrBareMetalMachine" where
  "bm_AddFinalizer E f m =
     m\<lparr>bm_meta := (bm_meta m)\<lparr>om_Finalizers := snd (AddFinalizer E f (om_Finalizers (bm_meta m)))\<rparr>\<rparr>"

definition bm_RemoveFinalizer :: "'w env \<Rightarrow> string \<Rightarrow> VultrBareMetalMachine \<Rightarrow> VultrBareMetalMachine" where
  "bm_RemoveFinalizer E f m =
     m\<lparr>bm_meta := (bm_meta m)\<lparr>om_Finalizers := snd (RemoveFinalizer E f (om_Finalizers (bm_meta m)))\<rparr>\<rparr>"

definition vc_AddFinalizer :: "'w env \<Rightarrow> string \<Rightarrow> VultrCluster \<Rightarrow> VultrCluster" where
  "vc_AddFinalizer E f c =
     c\<lparr>vc_meta := (vc_meta c)\<lparr>om_Finalizers := snd (AddFinalizer E f (om_Finalizers (vc_meta c)))\<rparr>\<rparr>"

definition vc_RemoveFinalizer :: "'w env \<Rightarrow> string \<Rightarrow> VultrCluster \<Rightarrow> VultrCluster" where
  "vc_RemoveFinalizer E f c =
     c\<lparr>vc_meta := (vc_meta c)\<lparr>om_Finalizers := snd (RemoveFinalizer E f (om_Finalizers (vc_meta c)))\<rparr>\<rparr>"

section \<open>From a VultrCluster to its machines\<close>

text \<open>The object a watch delivers: a VultrCluster or something else.\<close>

datatype watched = WVultrCluster VultrCluster | WOther

definition ClusterNameLabel :: string where "ClusterNameLabel = ''cluster.x-k8s.io/cluster-name''"

definition machine_request :: "Machine \<Rightarrow> NamespacedName" where
  "machine_request m = \<lparr>nn_Namespace = om_Namespace (mc_meta m), nn_Name = ir_Name (mc_InfrastructureRef m)\<rparr>"

text \<open>
  The map functions of the two machine reconcilers are the same code but for the
  machines the loop keeps (\<open>keep\<close>). \<open>None\<close> is Go's nil slice.
\<close>

definition cluster_to_requests ::
  "'w env \<Rightarrow> (Machine \<Rightarrow> bool) \<Rightarrow> watched \<Rightarrow> (('w, 'o) st, NamespacedName list option) comp" where
  "cluster_to_requests E keep w = (case w of
      WOther \<Rightarrow> ret None
    | WVultrCluster c \<Rightarrow>
        and_then (kube_call (GetOwnerCluster E (vc_meta c))) (\<lambda>owner. case owner of
            Inl err \<Rightarrow> ret (Some [])
          | Inr None \<Rightarrow> ret (Some [])
          | Inr (Some cluster) \<Rightarrow>
              try_then (kube_call (ListMachines E (om_Namespace (vc_meta c))
                  [(ClusterNameLabel, om_Name (cl_meta cluster))]))
                (\<lambda>err. ret None)
                (\<lambda>machines. ret (Some (map machine_request (filter keep machines))))))"

section \<open>Rules\<close>

lemma wp_eventf [wp_rules]:
  "wp (eventf t r a nt args) Q P s \<longleftrightarrow> Q () (s\<lparr>trace := trace s @ [Eventf t r a nt args]\<rparr>)"
  by (simp add: eventf_def wp_rules)

lemma eventf_apply [simp]:
  "eventf t r a nt args s = Ret () (s\<lparr>trace := trace s @ [Eventf t r a nt args]\<rparr>)"
  by (simp add: eventf_def)

lemma wp_kube_call [wp_rules]:
  "wp (kube_call f) Q P s \<longleftrightarrow> Q (fst (f (world s))) (s\<lparr>world := snd (f (world s))\<rparr>)"
  by (simp add: wp_def kube_call_def split: prod.split)

lemma emits_eventf [emit_rules]: "\<not> A (Eventf t r a nt args) \<Longrightarrow> emits A n (eventf t r a nt args)"
  unfolding eventf_def by (intro emit_rules)

lemma emits_kube_call [emit_rules]: "emits A n (kube_call f)"
  by (simp add: emits_def wp_rules appends_def)

lemma emits_ensure_paused [emit_rules]: "emits A n (ensure_paused f cluster)"
  unfolding ensure_paused_def by (intro emit_rules)

lemma keeps_obj_eventf [frame_rules]: "keeps_obj (eventf t r a nt args)"
  unfolding eventf_def by (intro frame_rules)

lemma finalizer_frame [simp]:
  "vm_Spec (vm_AddFinalizer E f m) = vm_Spec m" "vm_Status (vm_AddFinalizer E f m) = vm_Status m"
  "vm_Spec (vm_RemoveFinalizer E f m) = vm_Spec m" "vm_Status (vm_RemoveFinalizer E f m) = vm_Status m"
  "bm_Spec (bm_AddFinalizer E f b) = bm_Spec b" "bm_Status (bm_AddFinalizer E f b) = bm_Status b"
  "bm_Spec (bm_RemoveFinalizer E f b) = bm_Spec b" "bm_Status (bm_RemoveFinalizer E f b) = bm_Status b"
  "om_Name (vm_meta (vm_AddFinalizer E f m)) = om_Name (vm_meta m)"
  "om_Name (bm_meta (bm_AddFinalizer E f b)) = om_Name (bm_meta b)"
  by (simp_all add: vm_AddFinalizer_def vm_RemoveFinalizer_def bm_AddFinalizer_def bm_RemoveFinalizer_def)

lemma finalizers_changed [simp]:
  "finalizer_laws E \<Longrightarrow> set (om_Finalizers (vm_meta (vm_AddFinalizer E f m))) = insert f (set (om_Finalizers (vm_meta m)))"
  "finalizer_laws E \<Longrightarrow> set (om_Finalizers (vm_meta (vm_RemoveFinalizer E f m))) = set (om_Finalizers (vm_meta m)) - {f}"
  "finalizer_laws E \<Longrightarrow> set (om_Finalizers (bm_meta (bm_AddFinalizer E f b))) = insert f (set (om_Finalizers (bm_meta b)))"
  "finalizer_laws E \<Longrightarrow> set (om_Finalizers (bm_meta (bm_RemoveFinalizer E f b))) = set (om_Finalizers (bm_meta b)) - {f}"
  "finalizer_laws E \<Longrightarrow> set (om_Finalizers (vc_meta (vc_AddFinalizer E f c))) = insert f (set (om_Finalizers (vc_meta c)))"
  "finalizer_laws E \<Longrightarrow> set (om_Finalizers (vc_meta (vc_RemoveFinalizer E f c))) = set (om_Finalizers (vc_meta c)) - {f}"
  by (simp_all add: vm_AddFinalizer_def vm_RemoveFinalizer_def bm_AddFinalizer_def bm_RemoveFinalizer_def
      vc_AddFinalizer_def vc_RemoveFinalizer_def)

section \<open>Closing\<close>

text \<open>
  The deferred close of a reconcile, as a function of the handler's outcome: the object is
  patched, and the patch's error is reported when the handler had none.
\<close>

definition closed :: "('o \<Rightarrow> effect) \<Rightarrow> ('o \<Rightarrow> 'w \<Rightarrow> error option \<times> 'w) \<Rightarrow> ('w, 'o) st \<Rightarrow> ('w, 'o) st" where
  "closed eff patch s = s\<lparr>world := snd (patch (obj s) (world s)), trace := trace s @ [eff (obj s)]\<rparr>"

definition close_error :: "('o \<Rightarrow> 'w \<Rightarrow> error option \<times> 'w) \<Rightarrow> ('w, 'o) st \<Rightarrow> error option" where
  "close_error patch s = fst (patch (obj s) (world s))"

definition closing ::
  "('o \<Rightarrow> effect) \<Rightarrow> ('o \<Rightarrow> 'w \<Rightarrow> error option \<times> 'w) \<Rightarrow>
     (('w, 'o) st, Result \<times> error option) outcome \<Rightarrow> (('w, 'o) st, Result \<times> error option) outcome" where
  "closing eff patch x = (case x of
      Ret r s \<Rightarrow> Ret (fst r, if snd r = None then close_error patch s else snd r) (closed eff patch s)
    | Panic msg s \<Rightarrow> Panic msg (closed eff patch s)
    | Diverge \<Rightarrow> Diverge)"

lemma deferred_apply:
  assumes "\<And>r s. after r s = Ret (g r s) (c s)" and "\<And>s. on_panic s = Ret () (c s)"
  shows "deferred after on_panic m s = (case m s of
      Ret r s1 \<Rightarrow> Ret (g r s1) (c s1) | Panic msg s1 \<Rightarrow> Panic msg (c s1) | Diverge \<Rightarrow> Diverge)"
  by (simp add: deferred_def assms split: outcome.split)

end
