(* ===== verification/Drivers.thy ===== *)
theory Drivers
  imports Controller_Common
begin

text \<open>
  The contracts between the two machine controllers and the services below them, as
  locales, and what follows from the contracts alone. Below is \<open>resource_service\<close> of
  theory \<open>Svc_Common\<close>, a service with a search by tags and access by ID.
  \<open>find_or_create\<close> is a step that looks a resource up and creates it when there is none; \<open>delete_driver\<close> is a deletion that gives
  the finalizer up. Both controllers interpret both locales, so the facts proved here
  hold for virtual machines and for bare metal servers alike.
\<close>

section \<open>Find or create\<close>

text \<open>
  The run from \<open>s\<close> to \<open>s'\<close> created a resource only when no ID was known, and only
  after one complete listing, with the first calls it made, in which nothing was the
  machine's own.
\<close>

definition created_after_search ::
  "(effect \<Rightarrow> bool) \<Rightarrow> (ListOptions \<Rightarrow> effect) \<Rightarrow> (ListOptions \<Rightarrow> 'w \<Rightarrow> 'i page \<times> 'w) \<Rightarrow> ListOptions \<Rightarrow>
     ('i \<Rightarrow> bool) \<Rightarrow> bool \<Rightarrow> ('w, 'o) st \<Rightarrow> ('w, 'o) st \<Rightarrow> bool" where
  "created_after_search is_create eff api opts mine unknown s s' \<longleftrightarrow>
     (\<exists>ts. trace s' = trace s @ ts \<and>
       ((\<exists>e\<in>set ts. is_create e) \<longrightarrow> unknown \<and>
          (\<exists>items reqs w. listing api opts (world s) (Inr items) reqs w \<and>
             (\<forall>i\<in>set items. \<not> mine i) \<and> prefix (map eff reqs) ts)))"

lemma created_after_search_quiet:
  "appends is_create 0 s s' \<Longrightarrow> created_after_search is_create eff api opts mine unknown s s'"
  unfolding created_after_search_def appends_def by (auto simp: filter_empty_conv)

lemma created_after_search_trans:
  assumes "created_after_search is_create eff api opts mine unknown s s'" and "appends is_create 0 s' s''"
  shows "created_after_search is_create eff api opts mine unknown s s''"
proof -
  obtain ts where ts: "trace s'' = trace s' @ ts" "\<forall>e\<in>set ts. \<not> is_create e"
    using assms(2) by (auto simp: appends_def filter_empty_conv)
  from assms(1) show ?thesis
    unfolding created_after_search_def using ts by (fastforce simp: prefix_def)
qed

lemma created_after_search_set_obj [simp]:
  "created_after_search is_create eff api opts mine unknown (s\<lparr>obj := v\<rparr>) =
     created_after_search is_create eff api opts mine unknown s"
  by (simp add: created_after_search_def fun_eq_iff)

locale find_or_create =
  resource_service eff api owned options find_res get_eff get_api get_res del_eff del_api del_res
  for eff :: "ListOptions \<Rightarrow> effect"
    and api :: "'w ClusterScope \<Rightarrow> ListOptions \<Rightarrow> 'w \<Rightarrow> 'i page \<times> 'w"
    and owned :: "'i \<Rightarrow> BuildTagParams \<Rightarrow> bool"
    and options :: "string \<Rightarrow> ListOptions"
    and find_res :: "'w ClusterScope \<Rightarrow> string \<Rightarrow> string \<Rightarrow> (('w, 'o) st, error + 'i option) comp"
    and get_eff :: "string \<Rightarrow> effect"
    and get_api :: "'w ClusterScope \<Rightarrow> string \<Rightarrow> 'w \<Rightarrow> 'i answer \<times> 'w"
    and get_res :: "'w ClusterScope \<Rightarrow> string \<Rightarrow> (('w, 'o) st, error + 'i option) comp"
    and del_eff :: "string \<Rightarrow> effect"
    and del_api :: "'w ClusterScope \<Rightarrow> string \<Rightarrow> 'w \<Rightarrow> unit answer \<times> 'w"
    and del_res :: "'w ClusterScope \<Rightarrow> string \<Rightarrow> (('w, 'o) st, error + bool) comp" +
  fixes is_create :: "effect \<Rightarrow> bool"
    and known_id :: "'o \<Rightarrow> string"
    and res_name :: "'o \<Rightarrow> string"
    and cs :: "'w ClusterScope"
    and role :: string
    and missing :: "string \<Rightarrow> (('w, 'o) st, error + 'i option) comp"
    and adopt :: "'i \<Rightarrow> (('w, 'o) st, error + 'i option) comp"
    and create :: "(('w, 'o) st, error + 'i option) comp"
    and foc :: "(('w, 'o) st, error + 'i option) comp"
  assumes foc_known: "known_id (obj s) \<noteq> [] \<Longrightarrow>
      foc s = try_then (get_res cs (known_id (obj s))) (\<lambda>err. ret (Inl err))
        (case_option (missing (known_id (obj s))) (\<lambda>i. ret (Inr (Some i)))) s"
    and foc_unknown: "known_id (obj s) = [] \<Longrightarrow>
      foc s = try_then (find_res cs (res_name (obj s)) role) (\<lambda>err. ret (Inl err))
        (case_option create adopt) s"
    and reads_create_nothing: "\<not> is_create (eff opts)" "\<not> is_create (get_eff i)"
    and missing_creates_nothing: "emits is_create 0 (missing i)"
    and adopt_creates_nothing: "emits is_create 0 (adopt v)"
    and create_once: "emits is_create 1 create"
begin

text \<open>A resource with a known ID is never created again, whatever the API answers.\<close>

lemma foc_known_no_create:
  assumes "known_id (obj s) \<noteq> []"
  shows "wp foc (\<lambda>_. appends is_create 0 s) (appends is_create 0 s) s"
proof -
  have "emits is_create 0 (try_then (get_res cs (known_id (obj s))) (\<lambda>err. ret (Inl err))
        (case_option (missing (known_id (obj s))) (\<lambda>i. ret (Inr (Some i)))))"
    by (intro emit_rules emits_get_res reads_create_nothing missing_creates_nothing)
  from emits_wp [OF this, of s] show ?thesis
    using foc_known [OF assms] by (simp add: wp_def)
qed

text \<open>
  What a run without a known ID does: nothing is created before the search is
  over, and only when it found no owned resource.
\<close>

lemma foc_unknown_wp:
  assumes "known_id (obj s) = []"
  shows "wp foc
    (\<lambda>_ s'. \<exists>ts. trace s' = trace s @ ts \<and> length (filter is_create ts) \<le> 1 \<and>
       ((\<exists>e\<in>set ts. is_create e) \<longrightarrow>
          (\<exists>items reqs w. listing (api cs) (options (res_name (obj s))) (world s) (Inr items) reqs w \<and>
             (\<forall>i\<in>set items. \<not> owned i (MachineTagParams cs (res_name (obj s)) role)) \<and>
             prefix (map eff reqs) ts)))
    (\<lambda>s'. \<exists>ts. trace s' = trace s @ ts \<and> length (filter is_create ts) \<le> 1 \<and>
       ((\<exists>e\<in>set ts. is_create e) \<longrightarrow>
          (\<exists>items reqs w. listing (api cs) (options (res_name (obj s))) (world s) (Inr items) reqs w \<and>
             (\<forall>i\<in>set items. \<not> owned i (MachineTagParams cs (res_name (obj s)) role)) \<and>
             prefix (map eff reqs) ts))) s" (is "wp foc (\<lambda>_. ?Q) ?Q s")
proof -
  have quiet: "?Q s'" if "trace s' = trace s @ map eff reqs @ ts" "filter is_create ts = []" for s' reqs ts
    using that reads_create_nothing by (intro exI [of _ "map eff reqs @ ts"]) (auto simp: filter_empty_conv)
  show ?thesis
  proof (cases rule: find_res_cases [of cs "res_name (obj s)" s role])
    case (none items reqs w)
    let ?s = "s\<lparr>world := w, trace := trace s @ map eff reqs\<rparr>"
    have foc: "foc s = create ?s" using foc_unknown [OF assms] none(3) by simp
    have Q: "?Q s'" if "appends is_create 1 ?s s'" for s'
    proof -
      from that obtain ts where "trace s' = trace s @ map eff reqs @ ts" "length (filter is_create ts) \<le> 1"
        by (auto simp: appends_def)
      moreover have "filter is_create (map eff reqs) = []"
        using reads_create_nothing by (simp add: filter_empty_conv)
      moreover have "\<exists>items reqs' w. listing (api cs) (options (res_name (obj s))) (world s) (Inr items) reqs' w \<and>
          (\<forall>i\<in>set items. \<not> owned i (MachineTagParams cs (res_name (obj s)) role)) \<and>
          prefix (map eff reqs') (map eff reqs @ ts)"
        using none(1,2) by (intro exI conjI) auto
      ultimately show ?thesis
        by (intro exI [of _ "map eff reqs @ ts"]) (simp add: filter_append)
    qed
    have "wp create (\<lambda>_. ?Q) ?Q ?s"
      by (rule wp_mono [OF emits_wp [OF create_once]]) (erule Q)+
    then show ?thesis by (rule wp_run [of foc s create, OF foc])
  next
    case (one items reqs w i)
    let ?s = "s\<lparr>world := w, trace := trace s @ map eff reqs\<rparr>"
    have foc: "foc s = adopt i ?s" using foc_unknown [OF assms] one(3) by simp
    have Q: "?Q s'" if "appends is_create 0 ?s s'" for s'
      using that quiet by (auto simp: appends_def)
    have "wp (adopt i) (\<lambda>_. ?Q) ?Q ?s"
      by (rule wp_mono [OF emits_wp [OF adopt_creates_nothing]]) (erule Q)+
    then show ?thesis by (rule wp_run [of foc s "adopt i", OF foc])
  next
    case (failed err reqs w r)
    then have foc: "foc s = Ret (Inl err) (s\<lparr>world := w, trace := trace s @ map eff reqs\<rparr>)"
      using foc_unknown [OF assms] by simp
    show ?thesis
      unfolding wp_Ret [of foc s, OF foc] by (rule quiet [of _ reqs "[]"]) simp_all
  next
    case loops
    then show ?thesis using foc_unknown [OF assms] by (simp add: wp_def)
  qed
qed

lemma foc_created_after_search:
  "wp foc
    (\<lambda>_. created_after_search is_create eff (api cs) (options (res_name (obj s)))
       (\<lambda>i. owned i (MachineTagParams cs (res_name (obj s)) role)) (known_id (obj s) = []) s)
    (created_after_search is_create eff (api cs) (options (res_name (obj s)))
       (\<lambda>i. owned i (MachineTagParams cs (res_name (obj s)) role)) (known_id (obj s) = []) s) s"
proof (cases "known_id (obj s) = []")
  case True
  show ?thesis
    by (rule wp_mono [OF foc_unknown_wp [OF True]]) (use True in \<open>auto simp: created_after_search_def\<close>)
next
  case False
  show ?thesis
    by (rule wp_mono [OF foc_known_no_create [OF False]]) (erule created_after_search_quiet)+
qed

lemma foc_emits: "emits is_create 1 foc"
  unfolding emits_def
proof (intro allI)
  fix s
  show "wp foc (\<lambda>_. appends is_create 1 s) (appends is_create 1 s) s"
  proof (cases "known_id (obj s) = []")
    case True
    show ?thesis by (rule wp_mono [OF foc_unknown_wp [OF True]]) (auto simp: appends_def)
  next
    case False
    show ?thesis by (rule wp_mono [OF foc_known_no_create [OF False]]) (erule appends_mono, simp)+
  qed
qed

end

section \<open>Deletion\<close>

locale delete_driver =
  resource_service eff api owned options find_res get_eff get_api get_res del_eff del_api del_res
  for eff :: "ListOptions \<Rightarrow> effect"
    and api :: "'w ClusterScope \<Rightarrow> ListOptions \<Rightarrow> 'w \<Rightarrow> 'i page \<times> 'w"
    and owned :: "'i \<Rightarrow> BuildTagParams \<Rightarrow> bool"
    and options :: "string \<Rightarrow> ListOptions"
    and find_res :: "'w ClusterScope \<Rightarrow> string \<Rightarrow> string \<Rightarrow> (('w, 'o) st, error + 'i option) comp"
    and get_eff :: "string \<Rightarrow> effect"
    and get_api :: "'w ClusterScope \<Rightarrow> string \<Rightarrow> 'w \<Rightarrow> 'i answer \<times> 'w"
    and get_res :: "'w ClusterScope \<Rightarrow> string \<Rightarrow> (('w, 'o) st, error + 'i option) comp"
    and del_eff :: "string \<Rightarrow> effect"
    and del_api :: "'w ClusterScope \<Rightarrow> string \<Rightarrow> 'w \<Rightarrow> unit answer \<times> 'w"
    and del_res :: "'w ClusterScope \<Rightarrow> string \<Rightarrow> (('w, 'o) st, error + bool) comp" +
  fixes known_id :: "'o \<Rightarrow> string"
    and res_name :: "'o \<Rightarrow> string"
    and finalizers :: "'o \<Rightarrow> string list"
    and cs :: "'w ClusterScope"
    and role :: string
    and mark :: "'w \<Rightarrow> 'o \<Rightarrow> 'o"
    and delete_known :: "string \<Rightarrow> (('w, 'o) st, error + bool) comp"
    and retry :: "bool \<Rightarrow> string \<Rightarrow> 'i \<Rightarrow> (('w, 'o) st, Result \<times> error option) comp"
    and finish :: "bool \<Rightarrow> (('w, 'o) st, Result \<times> error option) comp"
    and driver :: "(('w, 'o) st, Result \<times> error option) comp"
  assumes driver_law:
      "driver s =
         (let v = mark (world s) (obj s) in
          try_then (delete_known (known_id v)) (\<lambda>err. ret (no_requeue, Some err))
            (\<lambda>deleted. try_then (find_res cs (res_name v) role) (\<lambda>err. ret (no_requeue, Some err))
              (case_option (finish deleted) (retry deleted (known_id v)))) (s\<lparr>obj := v\<rparr>))"
    and mark_keeps: "known_id (mark w v) = known_id v" "res_name (mark w v) = res_name v"
      "finalizers (mark w v) = finalizers v"
    and delete_known_keeps: "keeps_obj (delete_known i)"
    and retry_keeps: "keeps_obj (retry d i r)"
    and retry_asks_again: "wp (retry d i r) (\<lambda>(res, err) _. RequeueAfter res > 0 \<or> err \<noteq> None) (\<lambda>_. True) s"
    and finish_keeps_world: "wp (finish d) (\<lambda>r s'. world s' = world s \<and> r = (no_requeue, None)) (\<lambda>_. False) s"
begin

text \<open>
  A run that gives a finalizer up read, as its last call to the API, one complete
  listing in which the machine owned nothing.
\<close>

lemma driver_returns_done:
  assumes "driver s = Ret (r, None) s'" and "RequeueAfter r = 0"
  obtains d s1 where "finish d s1 = Ret (r, None) s'" and "obj s1 = mark (world s) (obj s)"
proof -
  let ?v = "mark (world s) (obj s)"
  from assms(1) obtain d s0 where d: "delete_known (known_id ?v) (s\<lparr>obj := ?v\<rparr>) = Ret (Inr d) s0"
    and rest: "try_then (find_res cs (res_name ?v) role) (\<lambda>err. ret (no_requeue, Some err))
        (case_option (finish d) (retry d (known_id ?v))) s0 = Ret (r, None) s'"
    by (auto simp: driver_law Let_def try_then_def elim!: and_then_eq_RetE split: sum.splits)
  have s0: "obj s0 = ?v" using keeps_obj_RetD [OF delete_known_keeps d] by simp
  from rest obtain x s1 where x: "find_res cs (res_name ?v) role s0 = Ret (Inr x) s1"
    and tail: "case_option (finish d) (retry d (known_id ?v)) x s1 = Ret (r, None) s'"
    by (auto simp: try_then_def elim!: and_then_eq_RetE split: sum.splits)
  have s1: "obj s1 = ?v" using keeps_obj_RetD [OF keeps_obj_find_res x] s0 by simp
  have "x = None"
  proof (rule ccontr)
    assume "x \<noteq> None"
    with tail obtain i where "retry d (known_id ?v) i s1 = Ret (r, None) s'" by auto
    with wp_RetD [OF retry_asks_again this] assms(2) show False by simp
  qed
  with tail s1 show ?thesis using that by simp
qed

lemma finalizer_needs_empty_listing:
  "wp driver
    (\<lambda>r s'. finalizers (obj s') \<noteq> finalizers (obj s) \<longrightarrow>
       (\<exists>w items reqs. listing (api cs) (options (res_name (obj s))) w (Inr items) reqs (world s') \<and>
          (\<forall>i\<in>set items. \<not> owned i (MachineTagParams cs (res_name (obj s)) role))))
    (\<lambda>s'. finalizers (obj s') = finalizers (obj s)) s" (is "wp driver ?Q ?P s")
proof -
  let ?v = "mark (world s) (obj s)"
  have find: "wp (find_res cs (res_name ?v) role)
      (\<lambda>r s'. case r of Inl err \<Rightarrow> wp (ret (no_requeue, Some err)) ?Q ?P s'
         | Inr x \<Rightarrow> wp (case_option (finish d) (retry d (known_id ?v)) x) ?Q ?P s') ?P s1"
    if s1: "obj s1 = ?v" for s1 d
  proof (cases rule: find_res_cases [of cs "res_name ?v" s1 role])
    case (none items reqs w)
    have "wp (finish d) ?Q ?P (s1\<lparr>world := w, trace := trace s1 @ map eff reqs\<rparr>)"
      by (rule wp_mono [OF finish_keeps_world]) (use none(1,2) in \<open>auto simp: mark_keeps\<close>)
    with none(3) show ?thesis by (simp add: wp_Ret)
  next
    case (one items reqs w i)
    have "wp (retry d (known_id ?v) i) ?Q ?P (s1\<lparr>world := w, trace := trace s1 @ map eff reqs\<rparr>)"
      by (rule wp_mono [OF keeps_obj_wp [OF retry_keeps]]) (simp_all add: s1 mark_keeps)
    with one(3) show ?thesis by (simp add: wp_Ret)
  next
    case (failed err reqs w r)
    then show ?thesis by (simp add: wp_Ret wp_ret s1 mark_keeps)
  next
    case loops
    then show ?thesis by (simp add: wp_def)
  qed
  have "wp (delete_known (known_id ?v))
      (\<lambda>r s'. case r of Inl err \<Rightarrow> wp (ret (no_requeue, Some err)) ?Q ?P s'
         | Inr d \<Rightarrow> wp (try_then (find_res cs (res_name ?v) role) (\<lambda>err. ret (no_requeue, Some err))
              (case_option (finish d) (retry d (known_id ?v)))) ?Q ?P s') ?P (s\<lparr>obj := ?v\<rparr>)"
  proof (rule wp_mono [OF keeps_obj_wp [OF delete_known_keeps]])
    fix r and s' :: "('w, 'o) st" assume s': "obj s' = obj (s\<lparr>obj := ?v\<rparr>)"
    show "case r of Inl err \<Rightarrow> wp (ret (no_requeue, Some err)) ?Q ?P s'
         | Inr d \<Rightarrow> wp (try_then (find_res cs (res_name ?v) role) (\<lambda>err. ret (no_requeue, Some err))
              (case_option (finish d) (retry d (known_id ?v)))) ?Q ?P s'"
    proof (cases r)
      case (Inl err)
      with s' show ?thesis by (simp add: wp_ret mark_keeps)
    next
      case (Inr d)
      from s' have "obj s' = ?v" by simp
      from find [OF this, of d] Inr show ?thesis by (simp only: wp_try_then sum.case)
    qed
  qed (simp add: mark_keeps)
  then have "wp (try_then (delete_known (known_id ?v)) (\<lambda>err. ret (no_requeue, Some err))
      (\<lambda>d. try_then (find_res cs (res_name ?v) role) (\<lambda>err. ret (no_requeue, Some err))
        (case_option (finish d) (retry d (known_id ?v))))) ?Q ?P (s\<lparr>obj := ?v\<rparr>)"
    by (simp only: wp_try_then)
  with driver_law [of s, unfolded Let_def] show ?thesis by (simp only: wp_def)
qed

end

end
