(* ===== verification/Machine_Controller.thy ===== *)
theory Machine_Controller
  imports Svc_Instance Svc_LoadBalancer Drivers
begin

text \<open>
  The VultrMachine controller (\<^verbatim>\<open>internal/controller/vultrmachine_controller.go\<close>).
  The handler \<^verbatim>\<open>reconcileNormal\<close> is one Go function; it is split here at its early
  returns into the steps it runs in order (guards, find or create, persist the ID,
  join the load balancer, read the addresses, report the status), and
  \<open>VultrMachine_reconcileNormal\<close> composes them.
\<close>

definition loadBalancerRequeue :: int where "loadBalancerRequeue = 15 * Second"
definition notFoundRequeue :: int where "notFoundRequeue = 30 * Second"

section \<open>Finding or creating the instance\<close>

definition instance_missing :: "'w env \<Rightarrow> string \<Rightarrow> (('w, VultrMachine) st, error + Instance option) comp" where
  "instance_missing E instanceID = and_then get_obj (\<lambda>vm.
     let msg = ''instance '' @ instanceID @ '' not found, checking again'' in
     and_then
       (if \<not> conditions_IsFalse E (VultrMachine_GetConditions vm) MachineReadyCondition \<or>
           conditions_GetReason E (VultrMachine_GetConditions vm) MachineReadyCondition \<noteq> InstanceNotFoundReason
        then eventf EventTypeWarning ''InstanceNotFound'' ''NotFound'' msg []
        else ret ())
       (\<lambda>_. and_then (MachineScope_SetReadyCondition E ConditionFalse InstanceNotFoundReason msg)
       (\<lambda>_. ret (Inr None))))"

definition create_failed :: "'w env \<Rightarrow> error \<Rightarrow> (('w, VultrMachine) st, error + Instance option) comp" where
  "create_failed E err = and_then get_obj (\<lambda>vm.
     and_then (eventf EventTypeWarning ''InstanceCreatingError'' ''CreateFailed''
         ''Failed to create instance for VultrMachine %s/%s: %v''
         [AStr (om_Namespace (vm_meta vm)), AStr (om_Name (vm_meta vm)), AErr err])
       (\<lambda>_. and_then (MachineScope_SetReadyCondition E ConditionFalse InstanceCreationFailedReason (ErrorText E err))
       (\<lambda>_. and_then (modify_obj (vm_set_Provisioned False))
       (\<lambda>_. ret (Inl err)))))"

definition create_instance_step ::
  "'w env \<Rightarrow> 'w ClusterScope \<Rightarrow> MachineScope \<Rightarrow> (('w, VultrMachine) st, error + Instance option) comp" where
  "create_instance_step E cs ms =
     and_then (eventf EventTypeNormal ''InstanceCreating'' ''Creating'' ''No instance found, attempting create'' [])
       (\<lambda>_. try_then (CreateInstance E cs ms) (create_failed E)
         (\<lambda>i. and_then (eventf EventTypeNormal ''InstanceCreated'' ''Created'' ''Created new instance %s (%s)''
                 [AStr (in_ID i), AStr (in_Label i)])
           (\<lambda>_. ret (Inr (Some i)))))"

definition adopt_instance :: "Instance \<Rightarrow> (('w, VultrMachine) st, error + Instance option) comp" where
  "adopt_instance i =
     and_then (eventf EventTypeNormal ''InstanceAdopted'' ''Adopted'' ''Adopted existing instance %s''
         [AStr (in_ID i)])
       (\<lambda>_. ret (Inr (Some i)))"

definition findOrCreateInstance ::
  "'w env \<Rightarrow> 'w ClusterScope \<Rightarrow> MachineScope \<Rightarrow> (('w, VultrMachine) st, error + Instance option) comp" where
  "findOrCreateInstance E cs ms = and_then get_obj (\<lambda>vm.
     let instanceID = GetInstanceID vm in
     if instanceID \<noteq> [] then
       try_then (GetInstance cs instanceID) (\<lambda>err. ret (Inl err))
         (\<lambda>i. case i of None \<Rightarrow> instance_missing E instanceID | Some i \<Rightarrow> ret (Inr (Some i)))
     else
       try_then (FindInstanceForMachine cs (MachineScope_Name vm) (MachineScope_Role E ms))
         (\<lambda>err. ret (Inl err))
         (\<lambda>i. case i of
             Some i \<Rightarrow> adopt_instance i
           | None \<Rightarrow> create_instance_step E cs ms))"

section \<open>Reconciling a machine\<close>

definition persist_provider_id ::
  "'w env \<Rightarrow> MachineScope \<Rightarrow> Instance \<Rightarrow> (('w, VultrMachine) st, error option) comp" where
  "persist_provider_id E ms i = and_then get_obj (\<lambda>vm.
     if GetInstanceID vm \<noteq> in_ID i then
       and_then (modify_obj (MachineScope_SetProviderID (in_ID i)))
         (\<lambda>_. and_then (MachineScope_PatchObject E ms)
         (\<lambda>e. ret (map_option (Wrap (''failed to persist provider ID for instance '' @ in_ID i)) e)))
     else ret None)"

definition set_instance_details :: "Instance \<Rightarrow> (('w, VultrMachine) st, unit) comp" where
  "set_instance_details i =
     and_then (modify_obj (SetInstanceStatus (in_Status i)))
       (\<lambda>_. and_then (modify_obj (SetCPU (in_VCPUCount i)))
       (\<lambda>_. and_then (modify_obj (SetRAM (in_RAM i)))
       (\<lambda>_. and_then (modify_obj (SetStorage (in_Disk i)))
       (\<lambda>_. eventf EventTypeNormal ''SetInstanceStatus'' ''Set'' ''Setting instance status %s''
              [AStr (in_Label i)]))))"

text \<open>The load balancer step; \<open>Some r\<close> is an early return of the handler.\<close>

definition join_load_balancer ::
  "'w env \<Rightarrow> 'w ClusterScope \<Rightarrow> MachineScope \<Rightarrow> Instance \<Rightarrow>
     (('w, VultrMachine) st, (Result \<times> error option) option) comp" where
  "join_load_balancer E cs ms i =
    (if IsControlPlaneMachine E (ms_Machine ms) then
       let lbID = ref_ResourceID (APIServerLoadbalancersRef cs) in
       if lbID = [] then
         and_then (MachineScope_SetReadyCondition E ConditionFalse InstanceWaitingForLoadBalancerReason
             ''Waiting for the load balancer to be created'')
           (\<lambda>_. ret (Some (requeue_after loadBalancerRequeue, None)))
       else
         try_then (EnsureLoadBalancerMember cs lbID (in_ID i))
           (\<lambda>err. and_then (eventf EventTypeWarning ''LoadBalancerMemberFailed'' ''Failed''
                 ''Failed to add instance %s to load balancer %s: %v'' [AStr (in_ID i), AStr lbID, AErr err])
             (\<lambda>_. ret (Some (no_requeue, Some err))))
           (\<lambda>member. if \<not> member then
                and_then (MachineScope_SetReadyCondition E ConditionFalse InstanceWaitingForLoadBalancerReason
                    ''Waiting for the load balancer to become active'')
                  (\<lambda>_. ret (Some (requeue_after loadBalancerRequeue, None)))
              else ret None)
     else ret None)"

text \<open>The addresses step; \<open>Some r\<close> is an early return of the handler.\<close>

definition set_instance_addresses ::
  "'w env \<Rightarrow> Instance \<Rightarrow> (('w, VultrMachine) st, (Result \<times> error option) option) comp" where
  "set_instance_addresses E i =
     and_then (eventf EventTypeNormal ''GetInstanceAddress'' ''Getting'' ''Getting address for instance %s''
         [AStr (in_ID i)])
       (\<lambda>_. case GetInstanceAddress i of
           Inl err \<Rightarrow>
             and_then (eventf EventTypeWarning ''GetInstanceAddressFailed'' ''GetFailed''
                 ''Failed to get address for instance %s: %v'' [AStr (in_ID i), AErr err])
               (\<lambda>_. and_then (MachineScope_SetReadyCondition E ConditionFalse InstanceAddressFailedReason (ErrorText E err))
               (\<lambda>_. ret (Some (no_requeue, Some err))))
         | Inr addrs \<Rightarrow>
             and_then (modify_obj (MachineScope_SetAddresses addrs))
               (\<lambda>_. and_then (eventf EventTypeNormal ''GetInstanceAddressSuccess'' ''Retrieved''
                   ''Successfully retrieved address for instance %s: %v'' [AStr (in_ID i), AAddrs addrs])
               (\<lambda>_. ret None)))"

definition report_instance_status ::
  "'w env \<Rightarrow> Instance \<Rightarrow> (('w, VultrMachine) st, Result \<times> error option) comp" where
  "report_instance_status E i =
    (if in_Status i = SubscriptionStatusPending then
       and_then (MachineScope_SetReadyCondition E ConditionUnknown InstancePendingReason ''Instance is provisioning'')
         (\<lambda>_. ret (requeue_after (10 * Second), None))
     else if in_Status i = SubscriptionStatusActive then
       and_then (MachineScope_SetReadyCondition E ConditionTrue InstanceActiveReason ''Instance is active'')
         (\<lambda>_. and_then (modify_obj MachineScope_SetReady)
         (\<lambda>_. and_then (modify_obj (vm_set_Provisioned True))
         (\<lambda>_. ret (no_requeue, None))))
     else
       and_then (MachineScope_SetTerminalFailure E InstanceUnexpectedStatusReason
           (''Instance status '' @ quote (in_Status i) @ '' is unexpected''))
         (\<lambda>_. ret (no_requeue, None)))"

definition reconcile_instance ::
  "'w env \<Rightarrow> 'w ClusterScope \<Rightarrow> MachineScope \<Rightarrow> Instance \<Rightarrow>
     (('w, VultrMachine) st, Result \<times> error option) comp" where
  "reconcile_instance E cs ms i =
     and_then (persist_provider_id E ms i) (\<lambda>e. case e of
         Some err \<Rightarrow> ret (no_requeue, Some err)
       | None \<Rightarrow>
     and_then (set_instance_details i) (\<lambda>_.
     and_then (join_load_balancer E cs ms i) (\<lambda>early. case early of
         Some r \<Rightarrow> ret r
       | None \<Rightarrow>
     and_then (set_instance_addresses E i) (\<lambda>early. case early of
         Some r \<Rightarrow> ret r
       | None \<Rightarrow> report_instance_status E i))))"

text \<open>From the instance on: what \<^verbatim>\<open>reconcileNormal\<close> does once its guards passed.\<close>

definition reconcile_bootstrapped ::
  "'w env \<Rightarrow> 'w ClusterScope \<Rightarrow> MachineScope \<Rightarrow> (('w, VultrMachine) st, Result \<times> error option) comp" where
  "reconcile_bootstrapped E cs ms =
     try_then (findOrCreateInstance E cs ms) (\<lambda>err. ret (no_requeue, Some err))
       (\<lambda>i. case i of
           None \<Rightarrow> ret (requeue_after notFoundRequeue, None)
         | Some i \<Rightarrow> reconcile_instance E cs ms i)"

definition VultrMachine_reconcileNormal ::
  "'w env \<Rightarrow> 'w ClusterScope \<Rightarrow> MachineScope \<Rightarrow> (('w, VultrMachine) st, Result \<times> error option) comp" where
  "VultrMachine_reconcileNormal E cs ms = and_then get_obj (\<lambda>vm0.
     if MachineScope_HasTerminalFailure E vm0 then ret (no_requeue, None)
     else and_then (modify_obj (vm_AddFinalizer E MachineFinalizer)) (\<lambda>_.
     if \<not> conditions_IsTrue E (cl_Conditions (ms_Cluster ms)) InfrastructureReadyCondition then
       and_then (MachineScope_SetReadyCondition E ConditionFalse
           InstanceWaitingForClusterInfrastructureReason ''Waiting for cluster infrastructure'')
         (\<lambda>_. ret (no_requeue, None))
     else if mc_DataSecretName (ms_Machine ms) = None then
       and_then (MachineScope_SetReadyCondition E ConditionFalse
           InstanceWaitingForBootstrapDataReason ''Waiting for bootstrap data'')
         (\<lambda>_. ret (no_requeue, None))
     else reconcile_bootstrapped E cs ms))"

section \<open>Deleting a machine\<close>

text \<open>The delete by ID; the answer tells whether Vultr deleted an instance.\<close>

definition delete_known_instance ::
  "'w ClusterScope \<Rightarrow> string \<Rightarrow> (('w, VultrMachine) st, error + bool) comp" where
  "delete_known_instance cs instanceID =
    (if instanceID \<noteq> [] then
       try_then (DeleteInstance cs instanceID)
         (\<lambda>err. and_then (eventf EventTypeWarning ''InstanceDeleteFailed'' ''DeleteFailed''
               ''Failed to delete instance %s: %v'' [AStr instanceID, AErr err])
           (\<lambda>_. ret (Inl err)))
         (\<lambda>deleted. and_then
             (if deleted then eventf EventTypeNormal ''InstanceDeleted'' ''Deleted'' ''Deleted instance %s''
                [AStr instanceID] else ret ())
           (\<lambda>_. ret (Inr deleted)))
     else ret (Inr False))"

text \<open>An instance the listing still has, and the end of the deletion.\<close>

definition delete_remaining_instance ::
  "'w ClusterScope \<Rightarrow> bool \<Rightarrow> string \<Rightarrow> Instance \<Rightarrow> (('w, VultrMachine) st, Result \<times> error option) comp" where
  "delete_remaining_instance cs deleted instanceID remaining =
    (if in_ID remaining = instanceID then
       (if deleted then ret (requeue_after notFoundRequeue, None)
        else ret (requeue_after notFoundRequeue, None))
     else
       try_then (DeleteInstance cs (in_ID remaining)) (\<lambda>err. ret (no_requeue, Some err))
         (\<lambda>_. and_then (eventf EventTypeNormal ''InstanceDeleted'' ''Deleted'' ''Deleted instance %s''
               [AStr (in_ID remaining)])
           (\<lambda>_. ret (requeue_after notFoundRequeue, None))))"

definition finish_instance_delete ::
  "'w env \<Rightarrow> bool \<Rightarrow> (('w, VultrMachine) st, Result \<times> error option) comp" where
  "finish_instance_delete E deleted =
     and_then (if \<not> deleted then eventf EventTypeNormal ''NoInstanceFound'' ''NotFound''
           ''No instance to delete'' [] else ret ())
       (\<lambda>_. and_then (modify_obj (vm_RemoveFinalizer E MachineFinalizer))
       (\<lambda>_. ret (no_requeue, None)))"

definition VultrMachine_reconcileDelete ::
  "'w env \<Rightarrow> 'w ClusterScope \<Rightarrow> MachineScope \<Rightarrow> (('w, VultrMachine) st, Result \<times> error option) comp" where
  "VultrMachine_reconcileDelete E cs ms =
     and_then (MachineScope_SetReadyCondition E ConditionFalse InstanceDeletingReason ''Deleting the instance'') (\<lambda>_.
     and_then get_obj (\<lambda>vm.
     let instanceID = GetInstanceID vm in
     try_then (delete_known_instance cs instanceID) (\<lambda>err. ret (no_requeue, Some err)) (\<lambda>deleted.
     try_then (FindInstanceForMachine cs (MachineScope_Name vm) (MachineScope_Role E ms))
       (\<lambda>err. ret (no_requeue, Some err))
       (\<lambda>remaining. case remaining of
           Some i \<Rightarrow> delete_remaining_instance cs deleted instanceID i
         | None \<Rightarrow> finish_instance_delete E deleted))))"

section \<open>The reconciler\<close>

text \<open>The deferred function of \<^verbatim>\<open>Reconcile\<close>: patch the object, keep an earlier error.\<close>

definition VultrMachine_close_after ::
  "'w env \<Rightarrow> MachineScope \<Rightarrow> Result \<times> error option \<Rightarrow> (('w, VultrMachine) st, Result \<times> error option) comp" where
  "VultrMachine_close_after E ms r =
     and_then (MachineScope_Close E ms) (\<lambda>e. ret (fst r, keep_error (snd r) e))"

definition VultrMachine_run_scopes ::
  "'w env \<Rightarrow> 'w ClusterScope \<Rightarrow> MachineScope \<Rightarrow> bool \<Rightarrow> (('w, VultrMachine) st, Result \<times> error option) comp" where
  "VultrMachine_run_scopes E cs ms deleting =
     deferred (VultrMachine_close_after E ms) (and_then (MachineScope_Close E ms) (\<lambda>_. ret ()))
       (if deleting then VultrMachine_reconcileDelete E cs ms else VultrMachine_reconcileNormal E cs ms)"

text \<open>From the pause check on: fetch the VultrCluster, make the scopes, run the handler.\<close>

definition VultrMachine_with_cluster ::
  "'w env \<Rightarrow> Machine \<Rightarrow> Cluster \<Rightarrow> bool \<Rightarrow> (('w, VultrMachine) st, Result \<times> error option) comp" where
  "VultrMachine_with_cluster E machine cluster deleting = and_then get_obj (\<lambda>vm.
     and_then (kube_call (GetVultrCluster E
         \<lparr>nn_Namespace = om_Namespace (vm_meta vm), nn_Name = ir_Name (cl_InfrastructureRef cluster)\<rparr>)) (\<lambda>got.
     if is_error got \<and> \<not> MachineOnly E \<and> \<not> deleting then ret (no_requeue, None)
     else
       let vultrCluster = (case got of Inl _ \<Rightarrow> zero_VultrCluster | Inr vc \<Rightarrow> vc) in
       (case NewClusterScope E (cluster_scope_params cluster vultrCluster) of
          Inl err \<Rightarrow> ret (no_requeue, Some (Err (''failed to create scope: '' @ ErrorText E err)))
        | Inr cs \<Rightarrow>
       (case NewMachineScope \<lparr>mp_Client = Some E, mp_Machine = Some machine, mp_Cluster = Some cluster,
            mp_VultrMachine = Some vm, mp_VultrCluster = Some vultrCluster\<rparr> of
          Inl err \<Rightarrow> ret (no_requeue, Some (Err (''failed to create machine scope: '' @ ErrorText E err)))
        | Inr ms \<Rightarrow> VultrMachine_run_scopes E cs ms deleting))))"

definition VultrMachine_Reconcile ::
  "'w env \<Rightarrow> NamespacedName \<Rightarrow> (('w, VultrMachine) st, Result \<times> error option) comp" where
  "VultrMachine_Reconcile E req =
     try_then (kube_call (GetVultrMachine E req))
       (\<lambda>err. if IsNotFound E err then ret (no_requeue, None) else ret (no_requeue, Some err))
       (\<lambda>vm0. and_then (modify_obj (\<lambda>_. vm0)) (\<lambda>_.
     let deleting = (om_DeletionTimestamp (vm_meta vm0) \<noteq> None) in
     try_then (kube_call (GetOwnerMachine E (vm_meta vm0)))
       (\<lambda>err. ret (no_requeue, Some err))
       (\<lambda>owner. case owner of
           None \<Rightarrow> ret (no_requeue, None)
         | Some machine \<Rightarrow>
     try_then (kube_call (GetClusterFromMetadata E (mc_meta machine)))
       (\<lambda>err. ret (no_requeue, None))
       (\<lambda>cluster.
     and_then (ensure_paused (EnsurePausedVM E) cluster)
       (\<lambda>(isPaused, requeue, err).
         if err \<noteq> None \<or> isPaused \<or> requeue then ret (no_requeue, err)
         else VultrMachine_with_cluster E machine cluster deleting)))))"

section \<open>Watches\<close>

definition VultrClusterToVultrMachines ::
  "'w env \<Rightarrow> watched \<Rightarrow> (('w, 'o) st, NamespacedName list option) comp" where
  "VultrClusterToVultrMachines E w = cluster_to_requests E (\<lambda>m. ir_Name (mc_InfrastructureRef m) \<noteq> []) w"

section \<open>The contracts\<close>

lemma emits_instance_missing [emit_rules]:
  "(\<And>t r a nt args. \<not> A (Eventf t r a nt args)) \<Longrightarrow> emits A n (instance_missing E i)"
  unfolding instance_missing_def Let_def by (intro emit_rules) auto

lemma emits_adopt_instance [emit_rules]:
  "(\<And>t r a nt args. \<not> A (Eventf t r a nt args)) \<Longrightarrow> emits A n (adopt_instance i)"
  unfolding adopt_instance_def by (intro emit_rules) auto

lemma emits_create_failed [emit_rules]:
  "(\<And>t r a nt args. \<not> A (Eventf t r a nt args)) \<Longrightarrow> emits A n (create_failed E err)"
  unfolding create_failed_def by (intro emit_rules) auto

lemma emits_create_instance_step:
  assumes "\<And>t r a nt args. \<not> A (Eventf t r a nt args)"
    and "\<And>key. \<not> A (CallSecretGet key)" and "\<And>k. \<not> A (CallSSHKeyGet k)"
  shows "emits A 1 (create_instance_step E cs ms)"
proof -
  have "emits A (0 + (1 + 0)) (create_instance_step E cs ms)"
    unfolding create_instance_step_def
    by (intro emits_and_then emits_try_then emits_CreateInstance emit_rules) (use assms in auto)
  then show ?thesis by simp
qed

interpretation vm_foc: find_or_create CallInstanceList
  "\<lambda>cs. Instances_List (Instances (cs_clients cs))" instanceOwnedByMachine instance_list_options
  FindInstanceForMachine CallInstanceGet "\<lambda>cs. Instances_Get (Instances (cs_clients cs))" GetInstance
  CallInstanceDelete "\<lambda>cs. Instances_Delete (Instances (cs_clients cs))" DeleteInstance
  is_instance_create GetInstanceID MachineScope_Name cs "MachineScope_Role E ms"
  "instance_missing E" adopt_instance "create_instance_step E cs ms" "findOrCreateInstance E cs ms"
  for E cs ms
proof (unfold_locales, goal_cases)
  case (7)
  show ?case by (rule emits_create_instance_step) simp_all
qed (auto simp: findOrCreateInstance_def Let_def intro!: emit_rules)

lemma keeps_obj_delete_known_instance [frame_rules]: "keeps_obj (delete_known_instance cs i)"
  unfolding delete_known_instance_def by (intro frame_rules)

lemma keeps_obj_delete_remaining_instance [frame_rules]:
  "keeps_obj (delete_remaining_instance cs deleted i r)"
  unfolding delete_remaining_instance_def by (intro frame_rules)

text \<open>An instance that is still listed is never the end: the run asks to be called again or fails.\<close>

lemma delete_remaining_instance_again:
  "wp (delete_remaining_instance cs deleted i r) (\<lambda>(res, err) _. RequeueAfter res > 0 \<or> err \<noteq> None) (\<lambda>_. True) s"
proof -
  have "wp (DeleteInstance cs (in_ID r)) (\<lambda>_ _. True) (\<lambda>_. True) s"
    by (simp add: wp_def split: outcome.split)
  then show ?thesis
    unfolding delete_remaining_instance_def
    by (auto simp: wp_rules notFoundRequeue_def Second_def elim!: wp_mono split: sum.splits)
qed

lemma finish_instance_delete_apply:
  "finish_instance_delete E deleted s = Ret (no_requeue, None)
     (s\<lparr>trace := trace s @ (if deleted then [] else
          [Eventf EventTypeNormal ''NoInstanceFound'' ''NotFound'' ''No instance to delete'' []]),
        obj := vm_RemoveFinalizer E MachineFinalizer (obj s)\<rparr>)"
  by (simp add: finish_instance_delete_def)

lemma vm_set_condition_frame [simp]:
  "vm_meta (vm_set_condition E status reason message now m) = vm_meta m"
  "vm_Spec (vm_set_condition E status reason message now m) = vm_Spec m"
  "GetInstanceID (vm_set_condition E status reason message now m) = GetInstanceID m"
  "MachineScope_Name (vm_set_condition E status reason message now m) = MachineScope_Name m"
  by (simp_all add: vm_set_condition_def GetInstanceID_def MachineScope_GetProviderID_def MachineScope_Name_def)

interpretation vm_delete: delete_driver CallInstanceList
  "\<lambda>cs. Instances_List (Instances (cs_clients cs))" instanceOwnedByMachine instance_list_options
  FindInstanceForMachine CallInstanceGet "\<lambda>cs. Instances_Get (Instances (cs_clients cs))" GetInstance
  CallInstanceDelete "\<lambda>cs. Instances_Delete (Instances (cs_clients cs))" DeleteInstance
  GetInstanceID MachineScope_Name "\<lambda>vm. om_Finalizers (vm_meta vm)" cs "MachineScope_Role E ms"
  "\<lambda>w. vm_set_condition E ConditionFalse InstanceDeletingReason ''Deleting the instance'' (Now E w)"
  "delete_known_instance cs" "delete_remaining_instance cs" "finish_instance_delete E"
  "VultrMachine_reconcileDelete E cs ms"
  for E cs ms
proof (unfold_locales, goal_cases)
  case 7
  show ?case by (rule delete_remaining_instance_again)
next
  case 8
  show ?case by (simp add: wp_Ret [OF finish_instance_delete_apply])
qed (auto simp: VultrMachine_reconcileDelete_def Let_def and_then_def [of "MachineScope_SetReadyCondition _ _ _ _"]
       and_then_def [of get_obj] intro: frame_rules)

end
