(* ===== verification/Machine_Safety.thy ===== *)
theory Machine_Safety
  imports Machine_Controller
begin

text \<open>
  What the VultrMachine controller does and never does: when it creates an instance, in
  which order it persists what it learned, when it reports a machine ready, and when it
  gives the finalizer up. The facts on the search and on the creation come from the
  interpretations \<open>vm_foc\<close> and \<open>vm_delete\<close>.
\<close>

section \<open>Effects of the steps\<close>

lemma emits_persist_provider_id [emit_rules]:
  "(\<And>vm. \<not> A (PatchVultrMachine vm)) \<Longrightarrow> emits A n (persist_provider_id E ms i)"
  unfolding persist_provider_id_def MachineScope_PatchObject_def by (intro emit_rules) auto

lemma emits_set_instance_details [emit_rules]:
  "(\<And>t r a nt args. \<not> A (Eventf t r a nt args)) \<Longrightarrow> emits A n (set_instance_details i)"
  unfolding set_instance_details_def by (intro emit_rules) auto

lemma emits_join_load_balancer [emit_rules]:
  "(\<And>t r a nt args. \<not> A (Eventf t r a nt args)) \<Longrightarrow> (\<And>l. \<not> A (CallLBGet l)) \<Longrightarrow>
     (\<And>l req. \<not> A (CallLBUpdate l req)) \<Longrightarrow> emits A n (join_load_balancer E cs ms i)"
  unfolding join_load_balancer_def Let_def by (intro emit_rules) auto

lemma emits_set_instance_addresses [emit_rules]:
  "(\<And>t r a nt args. \<not> A (Eventf t r a nt args)) \<Longrightarrow> emits A n (set_instance_addresses E i)"
  unfolding set_instance_addresses_def by (intro emit_rules) auto

lemma emits_report_instance_status [emit_rules]: "emits A n (report_instance_status E i)"
  unfolding report_instance_status_def by (intro emit_rules)

lemma emits_reconcile_instance [emit_rules]:
  assumes "\<And>t r a nt args. \<not> A (Eventf t r a nt args)" and "\<And>l. \<not> A (CallLBGet l)"
    and "\<And>l req. \<not> A (CallLBUpdate l req)" and "\<And>vm. \<not> A (PatchVultrMachine vm)"
  shows "emits A n (reconcile_instance E cs ms i)"
  unfolding reconcile_instance_def by (intro emit_rules) (use assms in auto)

lemma emits_MachineScope_Close [emit_rules]:
  "(\<And>vm. \<not> A (PatchVultrMachine vm)) \<Longrightarrow> emits A n (MachineScope_Close E ms)"
  unfolding MachineScope_Close_def by (intro emit_rules) auto

lemma emits_reconcile_bootstrapped_create:
  "emits is_instance_create 1 (reconcile_bootstrapped E cs ms)"
proof -
  have "emits is_instance_create (1 + 0) (reconcile_bootstrapped E cs ms)"
    unfolding reconcile_bootstrapped_def
    by (intro emits_try_then vm_foc.foc_emits emit_rules) simp_all
  then show ?thesis by simp
qed

lemma emits_reconcileNormal_create:
  "emits is_instance_create 1 (VultrMachine_reconcileNormal E cs ms)"
  unfolding VultrMachine_reconcileNormal_def
  by (intro emit_rules emits_reconcile_bootstrapped_create)

lemma emits_reconcileDelete_create:
  "emits is_instance_create 0 (VultrMachine_reconcileDelete E cs ms)"
  unfolding VultrMachine_reconcileDelete_def delete_known_instance_def delete_remaining_instance_def
    finish_instance_delete_def Let_def
  by (intro emit_rules) simp_all

lemma emits_VultrMachine_run_scopes_create:
  "emits is_instance_create 1 (VultrMachine_run_scopes E cs ms deleting)"
proof -
  have "emits is_instance_create (1 + 0) (VultrMachine_run_scopes E cs ms deleting)"
    unfolding VultrMachine_run_scopes_def VultrMachine_close_after_def
    by (intro emits_deferred emits_if emits_reconcileNormal_create
        emits_mono [OF emits_reconcileDelete_create] emit_rules) simp_all
  then show ?thesis by simp
qed

text \<open>
  Whatever the Vultr API and the Kubernetes API answer, one call of \<open>Reconcile\<close> asks
  Vultr to create at most one instance; this holds for runs that return and for runs
  that panic.
\<close>

lemma machine_reconcile_creates_at_most_one:
  "emits is_instance_create 1 (VultrMachine_Reconcile E req)"
  unfolding VultrMachine_Reconcile_def VultrMachine_with_cluster_def Let_def
  by (intro emit_rules emits_VultrMachine_run_scopes_create)

section \<open>Creation\<close>

lemma GetInstanceID_frame [simp]:
  "GetInstanceID (vm_AddFinalizer E f m) = GetInstanceID m"
  "MachineScope_Name (vm_AddFinalizer E f m) = MachineScope_Name m"
  by (simp_all add: GetInstanceID_def MachineScope_GetProviderID_def MachineScope_Name_def)

text \<open>
  A fact about runs of \<open>reconcile_bootstrapped\<close> from the object with the finalizer gives one
  about \<open>reconcileNormal\<close>: the other branches call nothing.
\<close>

lemma reconcileNormal_wp:
  assumes "wp (reconcile_bootstrapped E cs ms) (\<lambda>_. Q) Q (s\<lparr>obj := vm_AddFinalizer E MachineFinalizer (obj s)\<rparr>)"
    and "\<And>v. Q (s\<lparr>obj := v\<rparr>)"
  shows "wp (VultrMachine_reconcileNormal E cs ms) (\<lambda>_. Q) Q s"
  using assms assms(2) [of "obj s"] unfolding VultrMachine_reconcileNormal_def by (simp add: wp_rules)

lemma reconcile_bootstrapped_wp:
  assumes "wp (findOrCreateInstance E cs ms) (\<lambda>_. Q) Q s"
    and "\<And>i s'. Q s' \<Longrightarrow> wp (reconcile_instance E cs ms i) (\<lambda>_. Q) Q s'"
  shows "wp (reconcile_bootstrapped E cs ms) (\<lambda>_. Q) Q s"
  unfolding reconcile_bootstrapped_def wp_try_then
  by (rule wp_mono [OF assms(1)]) (auto simp: wp_rules assms(2) split: sum.split option.split)

lemma reconcile_instance_no_create:
  assumes "appends is_instance_create n s s'"
  shows "wp (reconcile_instance E cs ms i) (\<lambda>_. appends is_instance_create n s) (appends is_instance_create n s) s'"
proof -
  have "emits is_instance_create 0 (reconcile_instance E cs ms i)" by (intro emit_rules) simp_all
  then show ?thesis
    by (rule wp_mono [OF emits_wp [of _ 0]]) (use appends_trans [OF assms, of 0] in simp_all)
qed

text \<open>The notion of theory \<open>Drivers\<close> for a machine: its instances are listed by its name.\<close>

definition instance_created_after_search ::
  "'w env \<Rightarrow> 'w ClusterScope \<Rightarrow> MachineScope \<Rightarrow> ('w, VultrMachine) st \<Rightarrow> ('w, VultrMachine) st \<Rightarrow> bool" where
  "instance_created_after_search E cs ms s =
    (let name = MachineScope_Name (obj s) in
     created_after_search is_instance_create CallInstanceList (Instances_List (Instances (cs_clients cs)))
       (instance_list_options name)
       (\<lambda>i. instanceOwnedByMachine i (MachineTagParams cs name (MachineScope_Role E ms)))
       (GetInstanceID (obj s) = []) s)"

text \<open>
  An instance is created only when the machine has no provider ID and a complete
  listing by its name, all pages of it, held no instance that belongs to it; the
  listing comes before every other call. This holds on every path, panics included. In particular a
  machine with a provider ID never gets a second instance, whatever the API answers.
\<close>

lemma machine_created_only_after_search:
  "wp (VultrMachine_reconcileNormal E cs ms)
     (\<lambda>_. instance_created_after_search E cs ms s) (instance_created_after_search E cs ms s) s"
  unfolding instance_created_after_search_def Let_def
proof (rule reconcileNormal_wp, rule reconcile_bootstrapped_wp, goal_cases)
  case 1
  show ?case
    using vm_foc.foc_created_after_search [of E cs ms "s\<lparr>obj := vm_AddFinalizer E MachineFinalizer (obj s)\<rparr>"]
    by simp
next
  case (2 i s')
  show ?case
    by (rule wp_mono [OF reconcile_instance_no_create [OF appends_refl]])
      (erule created_after_search_trans [OF 2])+
qed (simp add: created_after_search_quiet)

section \<open>Order of the steps\<close>

lemma persist_provider_id_apply:
  assumes "GetInstanceID (obj s) \<noteq> in_ID i" and "vm = MachineScope_SetProviderID (in_ID i) (obj s)"
  shows "persist_provider_id E ms i s =
    Ret (map_option (Wrap (''failed to persist provider ID for instance '' @ in_ID i))
          (fst (PatchVM E (ms_patchHelper ms) vm (world s))))
      (s\<lparr>world := snd (PatchVM E (ms_patchHelper ms) vm (world s)),
         trace := trace s @ [PatchVultrMachine vm], obj := vm\<rparr>)"
  using assms
  by (simp add: persist_provider_id_def MachineScope_PatchObject_def call_def and_then_def split: prod.split)

text \<open>
  C13. The ID of an instance the machine does not know yet is written to Kubernetes before
  anything else is done with the instance: the first effect is the patch of the object
  with the new provider ID, and when the patch fails it is the only one and its error is
  returned.
\<close>

theorem machine_id_persisted_first:
  assumes "GetInstanceID (obj s) \<noteq> in_ID i"
  and vm: "vm = MachineScope_SetProviderID (in_ID i) (obj s)"
  shows "wp (reconcile_instance E cs ms i)
    (\<lambda>r s'. \<exists>ts. trace s' = trace s @ PatchVultrMachine vm # ts \<and>
       (case fst (PatchVM E (ms_patchHelper ms) vm (world s)) of
          Some err \<Rightarrow> ts = [] \<and> r = (no_requeue, Some (Wrap (''failed to persist provider ID for instance '' @ in_ID i) err))
        | None \<Rightarrow> True))
    (\<lambda>s'. \<exists>ts. trace s' = trace s @ PatchVultrMachine vm # ts \<and>
       fst (PatchVM E (ms_patchHelper ms) vm (world s)) = None) s"
proof -
  let ?patch = "PatchVM E (ms_patchHelper ms) vm (world s)"
  let ?s = "s\<lparr>world := snd ?patch, trace := trace s @ [PatchVultrMachine vm], obj := vm\<rparr>"
  note persist = persist_provider_id_apply [OF assms, of E ms]
  let ?rest = "and_then (set_instance_details i) (\<lambda>_.
     and_then (join_load_balancer E cs ms i) (\<lambda>early. case early of
         Some r \<Rightarrow> ret r
       | None \<Rightarrow>
     and_then (set_instance_addresses E i) (\<lambda>early. case early of
         Some r \<Rightarrow> ret r
       | None \<Rightarrow> report_instance_status E i)))"
  have "emits (\<lambda>_. False) 0 ?rest" by (intro emit_rules) simp_all
  from emits_wp [OF this, of ?s]
  have "wp ?rest (\<lambda>_ s'. \<exists>ts. trace s' = trace s @ PatchVultrMachine vm # ts)
      (\<lambda>s'. \<exists>ts. trace s' = trace s @ PatchVultrMachine vm # ts) ?s"
    by (rule wp_mono) (auto simp: appends_def)
  then show ?thesis
    by (cases "fst ?patch") (simp_all add: reconcile_instance_def wp_def [of "and_then (persist_provider_id _ _ _) _"]
        wp_def [of ?rest] persist)
qed

section \<open>Reporting a machine ready\<close>

lemma vm_report_setters [simp]:
  "vm_ready_report E (MachineScope_SetProviderID i m) = vm_ready_report E m"
  "vm_ready_report E (SetInstanceStatus v m) = vm_ready_report E m"
  "vm_ready_report E (SetCPU c m) = vm_ready_report E m"
  "vm_ready_report E (SetRAM c m) = vm_ready_report E m"
  "vm_ready_report E (SetStorage c m) = vm_ready_report E m"
  "vm_ready_report E (MachineScope_SetAddresses addrs m) = vm_ready_report E m"
  "vm_ready_report E (vm_AddFinalizer E f m) = vm_ready_report E m"
  "vm_ready_report E (vm_RemoveFinalizer E f m) = vm_ready_report E m"
  by (simp_all add: vm_ready_report_def vm_ready_condition_def VultrMachine_GetConditions_def vm_setter_defs)

lemma vm_subscription_setters [simp]:
  "vmst_SubscriptionStatus (vm_Status (vm_set_condition E st reason msg now m)) = vmst_SubscriptionStatus (vm_Status m)"
  "vmst_SubscriptionStatus (vm_Status (MachineScope_SetAddresses addrs m)) = vmst_SubscriptionStatus (vm_Status m)"
  "vmst_SubscriptionStatus (vm_Status (SetCPU c m)) = vmst_SubscriptionStatus (vm_Status m)"
  "vmst_SubscriptionStatus (vm_Status (SetRAM c m)) = vmst_SubscriptionStatus (vm_Status m)"
  "vmst_SubscriptionStatus (vm_Status (SetStorage c m)) = vmst_SubscriptionStatus (vm_Status m)"
  "vmst_SubscriptionStatus (vm_Status (SetInstanceStatus v m)) = Some v"
  "vmst_SubscriptionStatus (vm_Status (MachineScope_SetReady m)) = vmst_SubscriptionStatus (vm_Status m)"
  "vmst_SubscriptionStatus (vm_Status (vm_set_Provisioned b m)) = vmst_SubscriptionStatus (vm_Status m)"
  by (simp_all add: vm_setter_defs VultrMachine_SetConditions_def)

lemma vm_flag_setters [simp]:
  "vmst_Ready (vm_Status (vm_set_Provisioned b m)) = vmst_Ready (vm_Status m)"
  "vmst_Provisioned (vm_Status (vm_set_Provisioned b m)) = b"
  "vmst_Ready (vm_Status (MachineScope_SetReady m)) = True"
  by (simp_all add: vm_setter_defs)

lemma vm_Spec_setters [simp]:
  "vm_Spec (MachineScope_SetReady m) = vm_Spec m" "vm_Spec (vm_set_Provisioned b m) = vm_Spec m"
  "vm_Spec (SetInstanceStatus v m) = vm_Spec m" "vm_Spec (SetCPU c m) = vm_Spec m"
  "vm_Spec (SetRAM c m) = vm_Spec m" "vm_Spec (SetStorage c m) = vm_Spec m"
  "vm_Spec (MachineScope_SetAddresses addrs m) = vm_Spec m"
  by (simp_all add: vm_setter_defs)

definition reports_ready :: "'w env \<Rightarrow> VultrMachine \<Rightarrow> bool" where
  "reports_ready E m \<longleftrightarrow> map_option fst (vm_ready_report E m) = Some ConditionTrue"

lemma reports_ready_simps [simp]:
  "conditions_laws E \<Longrightarrow> reports_ready E (vm_set_condition E st reason msg now m) \<longleftrightarrow> st = ConditionTrue"
  "reports_ready E (vm_set_Provisioned b m) = reports_ready E m"
  "reports_ready E (MachineScope_SetReady m) = reports_ready E m"
  "reports_ready E (m\<lparr>vm_Status := (vm_Status m)\<lparr>vmst_Ready := r\<rparr>\<rparr>) = reports_ready E m"
  "reports_ready E (MachineScope_SetProviderID i m) = reports_ready E m"
  "reports_ready E (SetInstanceStatus v m) = reports_ready E m"
  "reports_ready E (SetCPU c m) = reports_ready E m"
  "reports_ready E (SetRAM c m) = reports_ready E m"
  "reports_ready E (SetStorage c m) = reports_ready E m"
  "reports_ready E (MachineScope_SetAddresses addrs m) = reports_ready E m"
  "reports_ready E (vm_AddFinalizer E f m) = reports_ready E m"
  by (simp_all add: reports_ready_def)

text \<open>The machine's provider ID names the instance.\<close>

definition names_instance :: "VultrMachineSpec \<Rightarrow> string \<Rightarrow> bool" where
  "names_instance spec i \<longleftrightarrow>
     (case vms_ProviderID spec of None \<Rightarrow> i = [] | Some p \<Rightarrow> ProviderIDToResourceID p = i \<or> p = ResourceIDToProviderID i)"

text \<open>A step of the load balancer lets the handler go on only with the membership.\<close>

lemma join_load_balancer_wp:
  assumes "conditions_laws E" and "\<not> reports_ready E (obj s)"
  shows "wp (join_load_balancer E cs ms i)
    (\<lambda>early s'. \<not> reports_ready E (obj s') \<and> vm_Spec (obj s') = vm_Spec (obj s) \<and>
       vmst_SubscriptionStatus (vm_Status (obj s')) = vmst_SubscriptionStatus (vm_Status (obj s)) \<and>
       (early = None \<longrightarrow> MachineScope_IsControlPlane E ms \<longrightarrow> member_confirmed cs (ref_ResourceID (APIServerLoadbalancersRef cs)) (in_ID i)))
    (\<lambda>_. True) s"
  using assms EnsureLoadBalancerMember_confirms [of cs "ref_ResourceID (APIServerLoadbalancersRef cs)" "in_ID i" s]
  unfolding join_load_balancer_def Let_def MachineScope_IsControlPlane_def
  by (auto simp: wp_rules elim!: wp_mono split: sum.splits)

text \<open>What a run that newly reports the machine ready established.\<close>

definition ready_established ::
  "'w env \<Rightarrow> 'w ClusterScope \<Rightarrow> MachineScope \<Rightarrow> Result \<times> error option \<Rightarrow> VultrMachine \<Rightarrow> bool" where
  "ready_established E cs ms r m \<longleftrightarrow>
     r = (no_requeue, None) \<and> vmst_Ready (vm_Status m) \<and> vmst_Provisioned (vm_Status m) \<and>
     vmst_SubscriptionStatus (vm_Status m) = Some SubscriptionStatusActive \<and>
     (\<exists>i. names_instance (vm_Spec m) i \<and> (MachineScope_IsControlPlane E ms \<longrightarrow> member_confirmed cs (ref_ResourceID (APIServerLoadbalancersRef cs)) i))"

lemma report_instance_status_wp:
  assumes "conditions_laws E" and "\<not> reports_ready E (obj s)"
    and "vmst_SubscriptionStatus (vm_Status (obj s)) = Some (in_Status i)"
    and "names_instance (vm_Spec (obj s)) (in_ID i)"
    and "MachineScope_IsControlPlane E ms \<longrightarrow> member_confirmed cs (ref_ResourceID (APIServerLoadbalancersRef cs)) (in_ID i)"
  shows "wp (report_instance_status E i)
    (\<lambda>r s'. reports_ready E (obj s') \<longrightarrow> ready_established E cs ms r (obj s')) (\<lambda>_. True) s"
  using assms unfolding report_instance_status_def
  by (auto simp: wp_rules ready_established_def MachineScope_SetTerminalFailure_def)

definition details_noted :: "'w env \<Rightarrow> Instance \<Rightarrow> VultrMachine \<Rightarrow> bool" where
  "details_noted E i m \<longleftrightarrow> \<not> reports_ready E m \<and> names_instance (vm_Spec m) (in_ID i) \<and>
     vmst_SubscriptionStatus (vm_Status m) = Some (in_Status i)"

lemma joined_ready:
  assumes "conditions_laws E" and "details_noted E i (obj s)"
  shows "wp (and_then (join_load_balancer E cs ms i) (\<lambda>early. case early of
        Some r \<Rightarrow> ret r
      | None \<Rightarrow> and_then (set_instance_addresses E i) (\<lambda>early. case early of
          Some r \<Rightarrow> ret r | None \<Rightarrow> report_instance_status E i)))
    (\<lambda>r s'. reports_ready E (obj s') \<longrightarrow> ready_established E cs ms r (obj s')) (\<lambda>_. True) s"
proof -
  have report: "wp (and_then (set_instance_addresses E i) (\<lambda>early. case early of
        Some r \<Rightarrow> ret r | None \<Rightarrow> report_instance_status E i))
      (\<lambda>r s'. reports_ready E (obj s') \<longrightarrow> ready_established E cs ms r (obj s')) (\<lambda>_. True) s1"
    if "details_noted E i (obj s1)" "MachineScope_IsControlPlane E ms \<longrightarrow> member_confirmed cs (ref_ResourceID (APIServerLoadbalancersRef cs)) (in_ID i)" for s1
    unfolding set_instance_addresses_def GetInstanceAddress_def
    using that by (simp add: wp_rules details_noted_def report_instance_status_wp [OF assms(1)])
  have "\<not> reports_ready E (obj s)" using assms(2) by (simp add: details_noted_def)
  then show ?thesis
    unfolding wp_and_then [of "join_load_balancer E cs ms i"]
    by (rule wp_mono [OF join_load_balancer_wp [OF assms(1)]])
      (use assms(2) report in \<open>auto simp: wp_ret details_noted_def split: option.split\<close>)
qed

lemma reconcile_instance_ready:
  assumes "conditions_laws E" and "\<not> reports_ready E (obj s)"
  shows "wp (reconcile_instance E cs ms i)
    (\<lambda>r s'. reports_ready E (obj s') \<longrightarrow> ready_established E cs ms r (obj s')) (\<lambda>_. True) s"
proof -
  have details: "wp (set_instance_details i) (\<lambda>_ s'. details_noted E i (obj s')) (\<lambda>_. True) s1"
    if "\<not> reports_ready E (obj s1)" "names_instance (vm_Spec (obj s1)) (in_ID i)" for s1 :: "('w, VultrMachine) st"
    unfolding set_instance_details_def using that by (simp add: wp_rules details_noted_def)
  have named: "names_instance (vm_Spec (obj s)) (in_ID i)" if "GetInstanceID (obj s) = in_ID i"
    using that by (auto simp: names_instance_def GetInstanceID_def MachineScope_GetProviderID_def
        ProviderIDToResourceID_def strings_Split_no_sep split: option.split)
  have "wp (persist_provider_id E ms i)
      (\<lambda>_ s'. \<not> reports_ready E (obj s') \<and> names_instance (vm_Spec (obj s')) (in_ID i)) (\<lambda>_. True) s"
    unfolding persist_provider_id_def MachineScope_PatchObject_def
    using assms(2) named by (simp add: wp_rules names_instance_def MachineScope_SetProviderID_def [of "in_ID i"]
        del: reports_ready_simps(5)) (simp add: MachineScope_SetProviderID_def [symmetric])
  then show ?thesis
    unfolding reconcile_instance_def wp_and_then [of "persist_provider_id E ms i"]
    by (rule wp_mono)
      (auto simp: wp_ret wp_and_then [of "set_instance_details i"] split: option.split
        intro!: wp_mono [OF details] joined_ready assms)
qed

lemma findOrCreateInstance_not_ready:
  assumes "conditions_laws E" and "\<not> reports_ready E (obj s)"
  shows "wp (findOrCreateInstance E cs ms) (\<lambda>_ s'. \<not> reports_ready E (obj s')) (\<lambda>_. True) s"
  unfolding findOrCreateInstance_def create_instance_step_def create_failed_def adopt_instance_def
    instance_missing_def Let_def
  using assms
  by (auto simp: wp_rules intro!: wp_keeps_obj [OF keeps_obj_GetInstance]
      wp_keeps_obj [OF keeps_obj_FindInstanceForMachine] wp_keeps_obj [OF keeps_obj_CreateInstance]
      split: sum.split option.split)

text \<open>
  C14. A reconcile that turns the machine's Ready condition to True has seen the instance
  active, has recorded that status and the provisioned flag, ends without error or
  requeue, and, for a control-plane machine, has got the load balancer's word that the
  instance is a member.
\<close>

theorem machine_ready_only_when_active:
  assumes "conditions_laws E" and "\<not> reports_ready E (obj s)"
  shows "wp (VultrMachine_reconcileNormal E cs ms)
    (\<lambda>r s'. reports_ready E (obj s') \<longrightarrow> ready_established E cs ms r (obj s')) (\<lambda>_. True) s"
proof -
  let ?s = "s\<lparr>obj := vm_AddFinalizer E MachineFinalizer (obj s)\<rparr>"
  have "wp (reconcile_bootstrapped E cs ms)
      (\<lambda>r s'. reports_ready E (obj s') \<longrightarrow> ready_established E cs ms r (obj s')) (\<lambda>_. True) ?s"
    unfolding reconcile_bootstrapped_def wp_try_then
    by (rule wp_mono [OF findOrCreateInstance_not_ready])
      (use assms in \<open>auto simp: wp_ret split: sum.split option.split intro!: reconcile_instance_ready\<close>)
  then show ?thesis
    unfolding VultrMachine_reconcileNormal_def using assms by (simp add: wp_rules)
qed

section \<open>Terminal failures\<close>

lemma reconcileNormal_terminal:
  "MachineScope_HasTerminalFailure E (obj s) \<Longrightarrow>
     VultrMachine_reconcileNormal E cs ms s = Ret (no_requeue, None) s"
  by (simp add: VultrMachine_reconcileNormal_def)

text \<open>
  C30. An instance status other than pending and active is a terminal failure: the machine
  is no longer ready or provisioned, and every later reconcile of it returns at once,
  with no effect and no change, until the object itself is changed.
\<close>

theorem machine_unexpected_status_is_final:
  assumes "conditions_laws E"
    and "in_Status i \<noteq> SubscriptionStatusPending" and "in_Status i \<noteq> SubscriptionStatusActive"
  shows "\<exists>m. report_instance_status E i s = Ret (no_requeue, None) (s\<lparr>obj := m\<rparr>) \<and>
    \<not> vmst_Ready (vm_Status m) \<and> \<not> vmst_Provisioned (vm_Status m) \<and>
    vm_ready_report E m = Some (ConditionFalse, InstanceUnexpectedStatusReason) \<and>
    VultrMachine_reconcileNormal E cs ms \<lparr>world = w, trace = tr, obj = m\<rparr>
      = Ret (no_requeue, None) \<lparr>world = w, trace = tr, obj = m\<rparr>"
proof -
  let ?c = "vm_set_condition E ConditionFalse InstanceUnexpectedStatusReason
    (''Instance status '' @ quote (in_Status i) @ '' is unexpected'') (Now E (world s)) (obj s)"
  let ?m = "vm_set_Provisioned False (?c\<lparr>vm_Status := (vm_Status ?c)\<lparr>vmst_Ready := False\<rparr>\<rparr>)"
  have run: "report_instance_status E i s = Ret (no_requeue, None) (s\<lparr>obj := ?m\<rparr>)"
    using assms(2,3) by (simp add: report_instance_status_def)
  have report: "vm_ready_report E ?m = Some (ConditionFalse, InstanceUnexpectedStatusReason)"
    using assms(1) by simp
  have "\<not> vmst_Ready (vm_Status ?m) \<and> \<not> vmst_Provisioned (vm_Status ?m)" by simp
  moreover have "VultrMachine_reconcileNormal E cs ms \<lparr>world = w, trace = tr, obj = ?m\<rparr>
      = Ret (no_requeue, None) \<lparr>world = w, trace = tr, obj = ?m\<rparr>"
    using report by (intro reconcileNormal_terminal) (simp add: MachineScope_HasTerminalFailure_iff)
  ultimately show ?thesis using run report by blast
qed

section \<open>An instance reported missing\<close>

text \<open>
  C29. When Vultr answers 404 for the instance of the machine's provider ID, nothing is
  created or deleted and the provider ID stays: the machine is marked
  \<open>InstanceNotFound\<close>, which is no terminal failure, and looked at again after 30 seconds.
\<close>

theorem machine_missing_is_retried:
  assumes "conditions_laws E" and "GetInstanceID (obj s) = i" and "i \<noteq> []"
    and "Instances_Get (Instances (cs_clients cs)) i (world s) = (a, w)"
    and "a_err a = Some e" and "captured_status (a_trips a) = StatusNotFound"
  shows "\<exists>s'. reconcile_bootstrapped E cs ms s = Ret (requeue_after (30 * Second), None) s' \<and>
    world s' = w \<and> GetInstanceID (obj s') = i \<and>
    vm_ready_report E (obj s') = Some (ConditionFalse, InstanceNotFoundReason) \<and>
    \<not> MachineScope_HasTerminalFailure E (obj s') \<and>
    (\<exists>events. trace s' = trace s @ CallInstanceGet i # events \<and> length events \<le> 1 \<and>
       (\<forall>ev\<in>set events. \<exists>t r n nt args. ev = Eventf t r n nt args))"
proof -
  have "GetInstance cs i s = Ret (Inr None) (s\<lparr>world := w, trace := trace s @ [CallInstanceGet i]\<rparr>)"
    by (rule instance_by_id.get_missing [OF assms(3-6)])
  then show ?thesis
    using assms(1-3)
    by (simp add: reconcile_bootstrapped_def findOrCreateInstance_def instance_missing_def Let_def try_then_def
        and_then_def [of get_obj] and_then_def [of "GetInstance _ _"] notFoundRequeue_def
        MachineScope_HasTerminalFailure_iff InstanceNotFoundReason_def InstanceUnexpectedStatusReason_def
        and_then_def [of "if _ then _ else _"] and_then_def [of "and_then _ _"])
qed

section \<open>Deletion\<close>

text \<open>
  A deletion that ends without an error and without asking to be called again has
  removed the finalizer, and only the finalizer, and reports the machine as deleting:
  a deleted machine never stays behind unattended.
\<close>

lemma machine_delete_ends_or_retries:
  assumes "conditions_laws E" and "finalizer_laws E"
    and "VultrMachine_reconcileDelete E cs ms s = Ret (r, None) s'" and "RequeueAfter r = 0"
  shows "set (om_Finalizers (vm_meta (obj s'))) = set (om_Finalizers (vm_meta (obj s))) - {MachineFinalizer} \<and>
    vm_ready_report E (obj s') = Some (ConditionFalse, InstanceDeletingReason) \<and>
    vm_Spec (obj s') = vm_Spec (obj s)"
proof -
  from assms(3,4) obtain d s1 where fin: "finish_instance_delete E d s1 = Ret (r, None) s'"
    and s1: "obj s1 = vm_set_condition E ConditionFalse InstanceDeletingReason ''Deleting the instance''
      (Now E (world s)) (obj s)"
    by (rule vm_delete.driver_returns_done)
  from fin have "obj s' = vm_RemoveFinalizer E MachineFinalizer (obj s1)"
    by (auto simp: finish_instance_delete_apply)
  then show ?thesis using assms(1,2) s1 by simp
qed

section \<open>Closing\<close>

lemma MachineScope_Close_apply:
  "MachineScope_Close E ms s =
     Ret (fst (PatchVM E (ms_patchHelper ms) (obj s) (world s)))
       (s\<lparr>world := snd (PatchVM E (ms_patchHelper ms) (obj s) (world s)),
          trace := trace s @ [PatchVultrMachine (obj s)]\<rparr>)"
  by (simp add: MachineScope_Close_def call_def and_then_def split: prod.split)

definition VultrMachine_handler ::
  "'w env \<Rightarrow> 'w ClusterScope \<Rightarrow> MachineScope \<Rightarrow> bool \<Rightarrow> (('w, VultrMachine) st, Result \<times> error option) comp" where
  "VultrMachine_handler E cs ms deleting =
     (if deleting then VultrMachine_reconcileDelete E cs ms else VultrMachine_reconcileNormal E cs ms)"

text \<open>
  Whatever the handler does, return, fail or panic, the object it leaves is patched
  to Kubernetes as the last effect of the run. The patch's error is reported when the
  handler had none; the handler's error and its requeue are kept.
\<close>

lemma machine_always_closed:
  "VultrMachine_run_scopes E cs ms deleting s =
     closing PatchVultrMachine (PatchVM E (ms_patchHelper ms)) (VultrMachine_handler E cs ms deleting s)"
  unfolding VultrMachine_run_scopes_def VultrMachine_handler_def [symmetric] closing_def
  by (rule deferred_apply)
    (simp_all add: VultrMachine_close_after_def MachineScope_Close_apply keep_error_def closed_def close_error_def)

end
