(* ===== verification/Counting.thy ===== *)
theory Counting
  imports Drivers Svc_LoadBalancer
begin

text \<open>
  Counting resources in a cloud. A view tells which resources exist in a world, and the
  rules \<open>grow_rules\<close> bound by how much a computation makes a count of them grow. The
  locale \<open>one_of_each\<close> extends the contract of \<open>find_or_create\<close> by what the cloud promises of the
  view (a listing is complete, a create makes at most one resource) and proves once, for
  both machine controllers, that a search before each create keeps every machine at one
  resource at most.
\<close>

section \<open>Calls that add nothing to a count\<close>

named_theorems grow_rules
  \<open>rules that bound by how much a computation makes a count of the world grow\<close>

definition grows :: "('w \<Rightarrow> nat) \<Rightarrow> nat \<Rightarrow> (('w, 'o) st, 'a) comp \<Rightarrow> bool" where
  "grows f n m \<longleftrightarrow>
     (\<forall>s. wp m (\<lambda>_ s'. f (world s') \<le> f (world s) + n) (\<lambda>s'. f (world s') \<le> f (world s) + n) s)"

lemma grows_wp:
  "grows f n m \<Longrightarrow> wp m (\<lambda>_ s'. f (world s') \<le> f (world s) + n) (\<lambda>s'. f (world s') \<le> f (world s) + n) s"
  by (simp add: grows_def)

lemma grows_basic [grow_rules]:
  "grows f n (ret a)" "grows f n (panic msg)" "grows f n get_obj" "grows f n (read_state g)"
  "grows f n (modify_obj h)" "grows f n (note_event e)" "grows f n (eventf t r a' nt args)"
  by (simp_all add: grows_def wp_rules)

lemma grows_call: "(\<And>w. f (snd (g w)) \<le> f w + n) \<Longrightarrow> grows f n (call e g)"
  by (simp add: grows_def wp_rules)

lemma grows_and_then:
  assumes "grows f i m" and "\<And>a. grows f j (k a)"
  shows "grows f (i + j) (and_then m k)"
proof -
  have "wp (and_then m k) (\<lambda>_ s'. f (world s') \<le> f (world s) + (i + j))
      (\<lambda>s'. f (world s') \<le> f (world s) + (i + j)) s" for s
    unfolding wp_and_then
  proof (rule wp_mono [OF grows_wp [OF assms(1), of s]])
    fix a and s' :: "('a, 'b) st" assume s': "f (world s') \<le> f (world s) + i"
    show "wp (k a) (\<lambda>_ s'. f (world s') \<le> f (world s) + (i + j)) (\<lambda>s'. f (world s') \<le> f (world s) + (i + j)) s'"
      by (rule wp_mono [OF grows_wp [OF assms(2) [of a], of s']]) (use s' in linarith)+
  qed simp
  then show ?thesis by (simp add: grows_def)
qed

lemma grows_and_then_0 [grow_rules]:
  "grows f 0 m \<Longrightarrow> (\<And>a. grows f n (k a)) \<Longrightarrow> grows f n (and_then m k)"
  using grows_and_then [of f 0 m n k] by simp

lemma grows_and_then_last:
  "grows f n m \<Longrightarrow> (\<And>a. grows f 0 (k a)) \<Longrightarrow> grows f n (and_then m k)"
  using grows_and_then [of f n m 0 k] by simp

lemma grows_try_then_0 [grow_rules]:
  assumes "grows f 0 m" and "\<And>e. grows f n (h e)" and "\<And>a. grows f n (k a)"
  shows "grows f n (try_then m h k)"
  unfolding try_then_def using assms by (intro grows_and_then_0) (auto split: sum.split)

lemma grows_cases [grow_rules]:
  "(b \<Longrightarrow> grows f n m) \<Longrightarrow> (\<not> b \<Longrightarrow> grows f n m') \<Longrightarrow> grows f n (if b then m else m')"
  "(x = None \<Longrightarrow> grows f n m) \<Longrightarrow> (\<And>y. x = Some y \<Longrightarrow> grows f n (k y)) \<Longrightarrow>
     grows f n (case x of None \<Rightarrow> m | Some y \<Rightarrow> k y)"
  "(\<And>y. u = Inl y \<Longrightarrow> grows f n (h y)) \<Longrightarrow> (\<And>y. u = Inr y \<Longrightarrow> grows f n (k3 y)) \<Longrightarrow>
     grows f n (case u of Inl y \<Rightarrow> h y | Inr y \<Rightarrow> k3 y)"
  by (simp_all split: option.split sum.split)

text \<open>What a step may add, when only its first part adds anything.\<close>

lemma wp_try_then_grows:
  assumes "wp m (\<lambda>_ s'. f (world s') \<le> k) (\<lambda>s'. f (world s') \<le> k) s"
    and "\<And>e. grows f 0 (h e)" and "\<And>a. grows f 0 (g a)"
  shows "wp (try_then m h g) (\<lambda>_ s'. f (world s') \<le> k) (\<lambda>s'. f (world s') \<le> k) s"
proof -
  have quiet: "wp c (\<lambda>_ s'. f (world s') \<le> k) (\<lambda>s'. f (world s') \<le> k) s'"
    if "grows f 0 c" and "f (world s') \<le> k" for c :: "(('a, 'b) st, 'e) comp" and s'
    by (rule wp_mono [OF grows_wp [OF that(1)]]) (use that(2) in linarith)+
  show ?thesis
    unfolding wp_try_then by (rule wp_mono [OF assms(1)]) (auto intro: quiet assms(2,3) split: sum.split)
qed

section \<open>Resources in view\<close>

definition count :: "('w \<Rightarrow> 'i list) \<Rightarrow> ('i \<Rightarrow> bool) \<Rightarrow> 'w \<Rightarrow> nat" where
  "count view P w = length (filter P (view w))"

definition adds_nothing :: "('w \<Rightarrow> 'i list) \<Rightarrow> ('w \<Rightarrow> 'r \<times> 'w) \<Rightarrow> bool" where
  "adds_nothing view g \<longleftrightarrow> (\<forall>P w. count view P (snd (g w)) \<le> count view P w)"

lemma adds_nothingD: "adds_nothing view g \<Longrightarrow> count view P (snd (g w)) \<le> count view P w + n"
  unfolding adds_nothing_def using trans_le_add1 by blast

lemma grows_quiet_call [grow_rules]: "adds_nothing view g \<Longrightarrow> grows (count view P) n (call e g)"
  by (rule grows_call) (rule adds_nothingD)

text \<open>The calls both machine controllers make besides those for their own resource.\<close>

definition shared_calls_law :: "'w env \<Rightarrow> 'w ClusterScope \<Rightarrow> ('w \<Rightarrow> 'i list) \<Rightarrow> bool" where
  "shared_calls_law E cs view \<longleftrightarrow>
     (\<forall>k. adds_nothing view (SSHKeys_Get (SSHKeys (cs_clients cs)) k)) \<and>
     (\<forall>i. adds_nothing view (LoadBalancers_Get (LoadBalancers (cs_clients cs)) i)) \<and>
     (\<forall>i req. adds_nothing view (LoadBalancers_Update (LoadBalancers (cs_clients cs)) i req)) \<and>
     (\<forall>key. adds_nothing view (GetSecret E key))"

text \<open>The reads of \<^verbatim>\<open>Reconcile\<close> before its handlers run.\<close>

definition kube_reads_law :: "'w env \<Rightarrow> ('w \<Rightarrow> 'i list) \<Rightarrow> bool" where
  "kube_reads_law E view \<longleftrightarrow>
     (\<forall>meta. adds_nothing view (GetOwnerMachine E meta)) \<and>
     (\<forall>meta. adds_nothing view (GetClusterFromMetadata E meta)) \<and>
     (\<forall>n. adds_nothing view (GetVultrCluster E n))"

lemma grows_shared_services:
  assumes "shared_calls_law E cs view"
  shows "grows (count view P) n (GetSSHKey cs key)"
    and "grows (count view P) n (EnsureLoadBalancerMember cs lbID i)"
    and "grows (count view P) n (RemoveLoadBalancerMember cs lbID i)"
    and "grows (count view P) n (GetBootstrapData E machine ns)"
  using assms
  unfolding GetSSHKey_def EnsureLoadBalancerMember_def RemoveLoadBalancerMember_def GetBootstrapData_def
    shared_calls_law_def Let_def
  by (auto intro!: grow_rules)

lemma listing_count:
  assumes "\<And>opts. adds_nothing view (api opts)" and "listing api opts w r reqs w'"
  shows "count view P w' \<le> count view P w"
  using assms(2)
proof (induction rule: listing.induct)
  case (listing_error options w page w' err)
  then show ?case using adds_nothingD [OF assms(1), of P options w 0] by simp
next
  case (listing_last options w page w')
  then show ?case using adds_nothingD [OF assms(1), of P options w 0] by simp
next
  case (listing_next options w page w' c r reqs w'')
  then show ?case using adds_nothingD [OF assms(1), of P options w 0] by simp
qed

text \<open>
  The resources that are a machine's, which ownership tells by the machine's name and the UID of
  its cluster.
\<close>

definition owner_key :: "string \<Rightarrow> string \<Rightarrow> BuildTagParams" where
  "owner_key uid name = \<lparr>bt_ClusterName = [], bt_ClusterUID = uid, bt_Name = name, bt_Role = []\<rparr>"

definition owned_count ::
  "('i \<Rightarrow> BuildTagParams \<Rightarrow> bool) \<Rightarrow> ('w \<Rightarrow> 'i list) \<Rightarrow> string \<Rightarrow> string \<Rightarrow> 'w \<Rightarrow> nat" where
  "owned_count owned view uid name = count view (\<lambda>i. owned i (owner_key uid name))"

section \<open>Orders\<close>

text \<open>
  A view may show each resource with the create request it came from, its order. The order is history that
  no program reads: the API may fail to apply the tags of a request, and then the resource itself no longer tells
  for which cluster it was made. \<open>ordered_for\<close> says for which machine an order was made: its label is the machine's
  name, which is also among its tags, and the first of its tags that names a cluster's UID names the machine's cluster
  (tags a user adds to a spec come last).
\<close>

definition ordered_for :: "string \<Rightarrow> string list \<Rightarrow> BuildTagParams \<Rightarrow> bool" where
  "ordered_for label tags p \<longleftrightarrow> label = bt_Name p \<and> NameTagFromName (bt_Name p) \<in> set tags \<and>
     find (prefix (ClusterUIDTag [])) tags = Some (ClusterUIDTag (bt_ClusterUID p))"

lemma ordered_for_itself:
  "ordered_for (bt_Name p) (BuildTags p @ extra) q \<longleftrightarrow> bt_Name q = bt_Name p \<and> bt_ClusterUID q = bt_ClusterUID p"
  by (auto simp: ordered_for_def BuildTags_def tag_defs)

lemma ordered_for_own_tags:
  assumes "ordered_for label (BuildTags p @ extra) q"
  shows "bt_Name q = label" and "bt_ClusterUID q = bt_ClusterUID p"
  using assms by (simp_all add: ordered_for_def BuildTags_def tag_defs)

lemma ordered_for_owned: "ordered_for label tags p \<Longrightarrow> set tags \<subseteq> set tags' \<Longrightarrow> TagsOwnedByMachine tags' p"
  by (auto simp: ordered_for_def TagsOwnedByMachine_def find_Some_iff)

definition made_count ::
  "('q \<Rightarrow> BuildTagParams \<Rightarrow> bool) \<Rightarrow> ('w \<Rightarrow> ('q \<times> 'i) list) \<Rightarrow> string \<Rightarrow> string \<Rightarrow> 'w \<Rightarrow> nat" where
  "made_count made view uid name = count view (\<lambda>(q, i). made q (owner_key uid name))"

definition unrecognised ::
  "('q \<Rightarrow> BuildTagParams \<Rightarrow> bool) \<Rightarrow> ('i \<Rightarrow> BuildTagParams \<Rightarrow> bool) \<Rightarrow> 'q \<times> 'i \<Rightarrow> bool" where
  "unrecognised made owned = (\<lambda>(q, i). \<exists>p. made q p \<and> \<not> owned i p)"

text \<open>
  The invariant: for no machine of any cluster there are two resources that were made for it, and a resource that was made
  for a machine is recognised as the machine's own.
\<close>

definition one_each ::
  "('q \<Rightarrow> BuildTagParams \<Rightarrow> bool) \<Rightarrow> ('i \<Rightarrow> BuildTagParams \<Rightarrow> bool) \<Rightarrow> ('w \<Rightarrow> ('q \<times> 'i) list) \<Rightarrow> 'w \<Rightarrow> bool" where
  "one_each made owned view w \<longleftrightarrow> (\<forall>uid name. made_count made view uid name w \<le> 1) \<and>
     (\<forall>(q, i)\<in>set (view w). \<forall>p. made q p \<longrightarrow> owned i p)"

lemma one_each_counts:
  "one_each made owned view w \<longleftrightarrow> (\<forall>uid name. made_count made view uid name w \<le> 1) \<and>
     count view (unrecognised made owned) w = 0"
  by (auto simp: one_each_def count_def filter_empty_conv unrecognised_def)

text \<open>A step of the world in which nothing is made for a machine, and nothing is made unrecognisable.\<close>

definition makes_none ::
  "('q \<Rightarrow> BuildTagParams \<Rightarrow> bool) \<Rightarrow> ('i \<Rightarrow> BuildTagParams \<Rightarrow> bool) \<Rightarrow> ('w \<Rightarrow> ('q \<times> 'i) list) \<Rightarrow> 'w \<Rightarrow> 'w \<Rightarrow> bool" where
  "makes_none made owned view w w' \<longleftrightarrow>
     (\<forall>uid name. made_count made view uid name w' \<le> made_count made view uid name w) \<and>
     count view (unrecognised made owned) w' \<le> count view (unrecognised made owned) w"

lemma makes_none_count: "(\<And>P. count view P w' \<le> count view P w) \<Longrightarrow> makes_none made owned view w w'"
  by (simp add: makes_none_def made_count_def)

lemma one_each_makes_none: "one_each made owned view w \<Longrightarrow> makes_none made owned view w w' \<Longrightarrow> one_each made owned view w'"
  unfolding one_each_counts makes_none_def by (metis le_trans le_zero_eq)

lemmas one_each_mono = one_each_makes_none [OF _ makes_none_count]

text \<open>Runs from a state that keep the invariant, however they end.\<close>

named_theorems one_rules
  \<open>rules that a computation keeps every machine at one resource\<close>

definition keeps_one ::
  "('q \<Rightarrow> BuildTagParams \<Rightarrow> bool) \<Rightarrow> ('i \<Rightarrow> BuildTagParams \<Rightarrow> bool) \<Rightarrow> ('w \<Rightarrow> ('q \<times> 'i) list) \<Rightarrow>
     (('w, 'o) st, 'a) comp \<Rightarrow> ('w, 'o) st \<Rightarrow> bool" where
  "keeps_one made owned view m s \<longleftrightarrow> (one_each made owned view (world s) \<longrightarrow>
     wp m (\<lambda>_ s'. one_each made owned view (world s')) (\<lambda>s'. one_each made owned view (world s')) s)"

lemma keeps_one_grows:
  assumes "\<And>P. grows (count view P) 0 m"
  shows "keeps_one made owned view m s"
proof -
  have le: "wp m (\<lambda>_ s'. count view P (world s') \<le> count view P (world s))
      (\<lambda>s'. count view P (world s') \<le> count view P (world s)) s" for P
    using grows_wp [OF assms, of P s] by simp
  show ?thesis
    unfolding keeps_one_def
    by (cases "m s") (use le in \<open>auto simp: wp_def intro: one_each_mono\<close>)
qed

lemma keeps_one_quiet [one_rules]:
  "keeps_one made owned view (ret a) s" "keeps_one made owned view (modify_obj f) s" "keeps_one made owned view get_obj s"
  by (rule keeps_one_grows, rule grow_rules)+

lemma keeps_one_kube_call [one_rules]: "adds_nothing view f \<Longrightarrow> keeps_one made owned view (kube_call f) s"
  by (rule keeps_one_grows) (simp add: grows_def wp_rules adds_nothing_def)

lemma keeps_one_and_then [one_rules]:
  assumes "keeps_one made owned view m s" and "\<And>a s'. m s = Ret a s' \<Longrightarrow> keeps_one made owned view (k a) s'"
  shows "keeps_one made owned view (and_then m k) s"
  using assms unfolding keeps_one_def wp_def and_then_def by (cases "m s") auto

lemma keeps_one_try_then [one_rules]:
  assumes "keeps_one made owned view m s" and "\<And>e s'. m s = Ret (Inl e) s' \<Longrightarrow> keeps_one made owned view (h e) s'"
    and "\<And>a s'. m s = Ret (Inr a) s' \<Longrightarrow> keeps_one made owned view (k a) s'"
  shows "keeps_one made owned view (try_then m h k) s"
  unfolding try_then_def using assms by (intro keeps_one_and_then) (auto split: sum.split)

text \<open>The second part may rely on what the first one kept.\<close>

lemma keeps_one_then_one:
  assumes "keeps_one made owned view m s" and "\<And>e s'. m s = Ret (Inl e) s' \<Longrightarrow> keeps_one made owned view (h e) s'"
    and "\<And>a s'. m s = Ret (Inr a) s' \<Longrightarrow> one_each made owned view (world s') \<Longrightarrow> keeps_one made owned view (k a) s'"
  shows "keeps_one made owned view (try_then m h k) s"
  using assms unfolding keeps_one_def wp_def try_then_def and_then_def by (cases "m s") (auto split: sum.splits)

lemma keeps_one_cases [one_rules]:
  "(b \<Longrightarrow> keeps_one made owned view m s) \<Longrightarrow> (\<not> b \<Longrightarrow> keeps_one made owned view m' s) \<Longrightarrow>
     keeps_one made owned view (if b then m else m') s"
  "(x = None \<Longrightarrow> keeps_one made owned view m s) \<Longrightarrow> (\<And>y. x = Some y \<Longrightarrow> keeps_one made owned view (k y) s) \<Longrightarrow>
     keeps_one made owned view (case x of None \<Rightarrow> m | Some y \<Rightarrow> k y) s"
  "(\<And>y. u = Inl y \<Longrightarrow> keeps_one made owned view (h y) s) \<Longrightarrow> (\<And>y. u = Inr y \<Longrightarrow> keeps_one made owned view (k3 y) s) \<Longrightarrow>
     keeps_one made owned view (case u of Inl y \<Rightarrow> h y | Inr y \<Rightarrow> k3 y) s"
  "(\<And>a b. p = (a, b) \<Longrightarrow> keeps_one made owned view (k4 a b) s) \<Longrightarrow> keeps_one made owned view (case p of (a, b) \<Rightarrow> k4 a b) s"
  by (simp_all split: option.split sum.split prod.split)

lemma keeps_one_deferred:
  assumes "keeps_one made owned view m s" and "\<And>a s'. keeps_one made owned view (after a) s'"
    and "\<And>s'. keeps_one made owned view on_panic s'"
  shows "keeps_one made owned view (deferred after on_panic m) s"
proof (cases "m s")
  case (Ret a s')
  then show ?thesis using assms(1) assms(2) [of a s'] by (simp add: keeps_one_def wp_def deferred_def)
next
  case (Panic msg s')
  then show ?thesis
    using assms(1) assms(3) [of s']
    by (cases "on_panic s'") (simp_all add: keeps_one_def wp_def deferred_def)
qed (simp add: keeps_one_def wp_def deferred_def)

section \<open>One resource for each machine\<close>

text \<open>
  The laws hold for the views that \<open>lawful\<close> accepts. A create adds at most one resource, and what it adds is \<open>fresh\<close>:
  made for the machine that asked for it, and recognised as that machine's own.
\<close>

locale one_of_each =
  find_or_create eff api owned options find_res get_eff get_api get_res del_eff del_api del_res
    is_create known_id res_name cs role missing adopt create foc
  for eff :: "ListOptions \<Rightarrow> effect"
    and api :: "'w ClusterScope \<Rightarrow> ListOptions \<Rightarrow> 'w \<Rightarrow> 'i page \<times> 'w"
    and owned :: "'i \<Rightarrow> BuildTagParams \<Rightarrow> bool"
    and options :: "string \<Rightarrow> ListOptions"
    and find_res :: "'w ClusterScope \<Rightarrow> string \<Rightarrow> string \<Rightarrow> (('w, 'o) st, error + 'i option) comp"
    and get_eff :: "string \<Rightarrow> effect"
    and get_api :: "'w ClusterScope \<Rightarrow> string \<Rightarrow> 'w \<Rightarrow> 'i answer \<times> 'w"
    and get_res :: "'w ClusterScope \<Rightarrow> string \<Rightarrow> (('w, 'o) st, error + 'i option) comp"
    and del_eff :: "string \<Rightarrow> effect"
    and del_api :: "'w ClusterScope \<Rightarrow> string \<Rightarrow> 'w \<Rightarrow> unit answer \<times> 'w"
    and del_res :: "'w ClusterScope \<Rightarrow> string \<Rightarrow> (('w, 'o) st, error + bool) comp"
    and is_create :: "effect \<Rightarrow> bool"
    and known_id :: "'o \<Rightarrow> string"
    and res_name :: "'o \<Rightarrow> string"
    and cs :: "'w ClusterScope"
    and role :: string
    and missing :: "string \<Rightarrow> (('w, 'o) st, error + 'i option) comp"
    and adopt :: "'i \<Rightarrow> (('w, 'o) st, error + 'i option) comp"
    and create :: "(('w, 'o) st, error + 'i option) comp"
    and foc :: "(('w, 'o) st, error + 'i option) comp" +
  fixes lawful :: "('w \<Rightarrow> ('q \<times> 'i) list) \<Rightarrow> bool"
    and made :: "'q \<Rightarrow> BuildTagParams \<Rightarrow> bool"
    and fresh :: "'o \<Rightarrow> 'q \<times> 'i \<Rightarrow> bool"
  assumes owned_key: "bt_Name p = bt_Name p' \<Longrightarrow> bt_ClusterUID p = bt_ClusterUID p' \<Longrightarrow> owned i p = owned i p'"
    and listed: "lawful view \<Longrightarrow> listing (api cs) (options n) w (Inr items) reqs w' \<Longrightarrow>
      (q, i) \<in> set (view w') \<Longrightarrow> owned i (MachineTagParams cs n r) \<Longrightarrow> i \<in> set items"
    and list_adds_nothing: "lawful view \<Longrightarrow> adds_nothing view (api cs opts)"
    and get_adds_nothing: "lawful view \<Longrightarrow> grows (count view P) 0 (get_res cs x)"
    and missing_adds_nothing: "grows (count view P) 0 (missing x)"
    and adopt_adds_nothing: "grows (count view P) 0 (adopt i)"
    and create_adds_fresh: "lawful view \<Longrightarrow> k = (if \<exists>v. fresh (obj s) v \<and> P v then 1 else 0) \<Longrightarrow>
      wp create (\<lambda>_ s'. count view P (world s') \<le> count view P (world s) + k)
        (\<lambda>s'. count view P (world s') \<le> count view P (world s) + k) s"
    and fresh_made: "fresh obj0 (q, i) \<Longrightarrow> made q p \<Longrightarrow> bt_Name p = res_name obj0 \<and> bt_ClusterUID p = ClusterScope_UID cs"
    and fresh_owned: "fresh obj0 (q, i) \<Longrightarrow> made q p \<Longrightarrow> owned i p"
begin

lemma find_adds_nothing:
  assumes "lawful view"
  shows "grows (count view P) n (find_res cs name role)"
  unfolding grows_def
proof (intro allI)
  fix s
  note le = listing_count [where api = "api cs" and view = view and P = P, OF list_adds_nothing [OF assms]]
  show "wp (find_res cs name role) (\<lambda>_ s'. count view P (world s') \<le> count view P (world s) + n)
      (\<lambda>s'. count view P (world s') \<le> count view P (world s) + n) s"
    by (rule find_res_cases [of cs name s role])
      (use le in \<open>auto simp: wp_def intro: order_trans [OF le]\<close>)
qed

lemma owned_iff_key: "owned i (owner_key (ClusterScope_UID cs) n) \<longleftrightarrow> owned i (MachineTagParams cs n role)"
  by (rule owned_key) (simp_all add: owner_key_def MachineTagParams_def)

lemma owned_count_none:
  "(\<And>i. i \<in> set (items w) \<Longrightarrow> \<not> owned i (MachineTagParams cs n role)) \<Longrightarrow>
     owned_count owned items (ClusterScope_UID cs) n w = 0"
  by (simp add: owned_count_def count_def filter_empty_conv owned_iff_key)

text \<open>A listing without a resource of the machine means that none was made for it, if what was made for it is recognised.\<close>

lemma empty_listing:
  assumes "lawful view" and "listing (api cs) (options n) w (Inr items) reqs w'"
    and "\<forall>i\<in>set items. \<not> owned i (MachineTagParams cs n role)" and "one_each made owned view w'"
  shows "made_count made view (ClusterScope_UID cs) n w' = 0"
proof -
  have "\<not> made q (owner_key (ClusterScope_UID cs) n)" if v: "(q, i) \<in> set (view w')" for q i
  proof
    assume "made q (owner_key (ClusterScope_UID cs) n)"
    with assms(4) v have "owned i (MachineTagParams cs n role)" unfolding owned_iff_key [symmetric] one_each_def by blast
    with listed [OF assms(1,2) v] assms(3) show False by blast
  qed
  then show ?thesis by (auto simp: made_count_def count_def filter_empty_conv)
qed

lemma create_one_each:
  assumes "lawful view" and "made_count made view (ClusterScope_UID cs) (res_name (obj s)) (world s) = 0"
  shows "keeps_one made owned view create s"
proof -
  have count: "wp create (\<lambda>_ s'. made_count made view uid n (world s') \<le> 1)
      (\<lambda>s'. made_count made view uid n (world s') \<le> 1) s" if "one_each made owned view (world s)" for uid n
  proof -
    let ?P = "\<lambda>(q, i). made q (owner_key uid n)"
    have "made_count made view uid n (world s) \<le> 1" using that by (simp add: one_each_def)
    moreover have "n = res_name (obj s) \<and> uid = ClusterScope_UID cs" if "fresh (obj s) v" and "?P v" for v
      using fresh_made [of "obj s" "fst v" "snd v" "owner_key uid n"] that
      by (simp add: owner_key_def split_beta)
    ultimately have "made_count made view uid n (world s) + (if \<exists>v. fresh (obj s) v \<and> ?P v then 1 else 0) \<le> 1"
      using assms(2) by auto
    then show ?thesis
      unfolding made_count_def
      by (intro wp_mono [OF create_adds_fresh [OF assms(1) refl, where P = ?P]]) linarith+
  qed
  have "\<not> (\<exists>v. fresh (obj s) v \<and> unrecognised made owned v)"
    using fresh_owned by (auto simp: unrecognised_def)
  then have recognised: "wp create (\<lambda>_ s'. count view (unrecognised made owned) (world s') = 0)
      (\<lambda>s'. count view (unrecognised made owned) (world s') = 0) s" if "one_each made owned view (world s)"
    using that
    by (intro wp_mono [OF create_adds_fresh [OF assms(1) refl, where P = "unrecognised made owned"]])
      (auto simp: one_each_counts split: if_splits)
  from count recognised show ?thesis
    unfolding keeps_one_def one_each_counts wp_def by (auto split: outcome.splits)
qed

lemma foc_one_each:
  assumes "lawful view"
  shows "keeps_one made owned view foc s"
proof (cases "known_id (obj s) = []")
  case False
  have "grows (count view P) 0 (try_then (get_res cs i) (\<lambda>err. ret (Inl err))
      (case_option (missing i) (\<lambda>i. ret (Inr (Some i)))))" for P i
    by (intro grow_rules get_adds_nothing [OF assms] missing_adds_nothing)
  from keeps_one_grows [OF this] show ?thesis
    using foc_known [OF False] by (simp add: keeps_one_def wp_def)
next
  case True
  let ?name = "res_name (obj s)"
  have "keeps_one made owned view (try_then (find_res cs ?name role) (\<lambda>err. ret (Inl err)) (case_option create adopt)) s"
  proof (rule keeps_one_then_one)
    show "keeps_one made owned view (find_res cs ?name role) s"
      by (rule keeps_one_grows) (rule find_adds_nothing [OF assms])
  next
    fix x s' assume found: "find_res cs ?name role s = Ret (Inr x) s'" and one: "one_each made owned view (world s')"
    show "keeps_one made owned view (case_option create adopt x) s'"
    proof (cases rule: find_res_cases [of cs ?name s role])
      case (none items reqs w)
      with found have "x = None" and "s' = s\<lparr>world := w, trace := trace s @ map eff reqs\<rparr>" by simp_all
      with empty_listing [OF assms none(1,2)] one create_one_each [OF assms, of s'] show ?thesis by simp
    next
      case (one items reqs w i)
      with found have "x = Some i" by simp
      then show ?thesis using keeps_one_grows [OF adopt_adds_nothing] by simp
    qed (use found in simp_all)
  qed (rule one_rules)
  then show ?thesis using foc_unknown [OF True] by (simp add: keeps_one_def wp_def)
qed

end

end
