(* ===== verification/Cloud_View.thy ===== *)
theory Cloud_View
  imports Machine_Safety Counting
begin

text \<open>
  The VultrMachine controller against a cloud: \<open>view\<close> tells which instances exist in a world, each with the create
  request it was made from, and \<open>cloud_laws\<close> states what the provider relies on the Vultr API for: a listing by label is
  complete; a create makes at most one instance, with the label and hostname it was asked for, and with the tags it was
  asked for or, when the tag step failed, with none; no other call makes an instance. Under these laws no machine
  ever gets a second instance, over any sequence of runs of \<^verbatim>\<open>Reconcile\<close>, failed ones and panics included
  (\<open>machine_never_duplicated\<close>), and a finalizer that goes leaves no instance behind (\<open>machine_finalizer_leaves_nothing\<close>).

  An instance whose tag step failed does not say for which cluster it was made. Machines of the same name in
  other clusters recognise it too, so ownership as the code tests it does not count instances per machine; what is
  counted is what was made for a machine, by the request.
\<close>

section \<open>The laws of the cloud\<close>

type_synonym 'w instance_view = "'w \<Rightarrow> (InstanceCreateReq \<times> Instance) list"

text \<open>For which machine a request was made, and what the instance made from it looks like.\<close>

definition instance_made_for :: "InstanceCreateReq \<Rightarrow> BuildTagParams \<Rightarrow> bool" where
  "instance_made_for req p \<longleftrightarrow> icr_Hostname req = icr_Label req \<and> ordered_for (icr_Label req) (icr_Tags req) p"

definition made_as_ordered :: "InstanceCreateReq \<Rightarrow> Instance \<Rightarrow> bool" where
  "made_as_ordered req i \<longleftrightarrow> in_Label i = icr_Label req \<and> in_Hostname i = icr_Hostname req \<and>
     (set (in_Tags i) = set (icr_Tags req) \<or> in_Tags i = [])"

text \<open>The request the controller sends for a machine is made for that machine, and for no other one of any cluster.\<close>

lemma instance_create_req_made_for:
  "instance_made_for (instance_create_req spec (bt_Name p) keys u (BuildTags p)) q \<longleftrightarrow>
     bt_Name q = bt_Name p \<and> bt_ClusterUID q = bt_ClusterUID p"
  using ordered_for_itself [where extra = "[]"] by (auto simp: instance_made_for_def instance_create_req_def)

text \<open>Such an instance is recognised as the machine's own, tagged or not.\<close>

lemma made_as_ordered_owned: "made_as_ordered req i \<Longrightarrow> instance_made_for req p \<Longrightarrow> instanceOwnedByMachine i p"
  using ordered_for_owned [of "icr_Label req" "icr_Tags req" p "in_Tags i"]
  by (auto simp: made_as_ordered_def instance_made_for_def instanceOwnedByMachine_def ordered_for_def)

abbreviation one_instance_each :: "'w instance_view \<Rightarrow> 'w \<Rightarrow> bool" where
  "one_instance_each view w \<equiv> one_each instance_made_for instanceOwnedByMachine view w"

definition calls_law :: "'w env \<Rightarrow> 'w ClusterScope \<Rightarrow> 'w instance_view \<Rightarrow> bool" where
  "calls_law E cs view \<longleftrightarrow>
     (\<forall>i. adds_nothing view (Instances_Get (Instances (cs_clients cs)) i)) \<and>
     (\<forall>opts. adds_nothing view (Instances_List (Instances (cs_clients cs)) opts)) \<and>
     (\<forall>i. adds_nothing view (Instances_Delete (Instances (cs_clients cs)) i)) \<and>
     (\<forall>old new. adds_nothing view (PatchVM E old new)) \<and>
     shared_calls_law E cs view"

definition create_law :: "'w ClusterScope \<Rightarrow> 'w instance_view \<Rightarrow> bool" where
  "create_law cs view \<longleftrightarrow>
     (\<forall>req w P. count view P (snd (Instances_Create (Instances (cs_clients cs)) req w)) \<le>
        count view P w + (if \<exists>i. made_as_ordered req i \<and> P (req, i) then 1 else 0))"

definition listing_law :: "'w ClusterScope \<Rightarrow> ('w \<Rightarrow> Instance list) \<Rightarrow> bool" where
  "listing_law cs view \<longleftrightarrow>
     (\<forall>name w items reqs w'.
        listing (Instances_List (Instances (cs_clients cs))) (instance_list_options name) w (Inr items) reqs w' \<longrightarrow>
        (\<forall>i\<in>set (view w'). in_Label i = name \<longrightarrow> i \<in> set items))"

definition cloud_laws :: "'w env \<Rightarrow> 'w ClusterScope \<Rightarrow> 'w instance_view \<Rightarrow> bool" where
  "cloud_laws E cs view \<longleftrightarrow>
     calls_law E cs view \<and> create_law cs view \<and> listing_law cs (\<lambda>w. map snd (view w))"

lemma cloud_laws_calls:
  assumes "cloud_laws E cs view"
  shows "adds_nothing view (Instances_Get (Instances (cs_clients cs)) i)"
    and "adds_nothing view (Instances_List (Instances (cs_clients cs)) opts)"
    and "adds_nothing view (Instances_Delete (Instances (cs_clients cs)) i)"
    and "adds_nothing view (PatchVM E old new)"
    and "shared_calls_law E cs view"
  using assms by (simp_all add: cloud_laws_def calls_law_def)

lemma cloud_laws_create:
  assumes "cloud_laws E cs view"
  shows "count view P (snd (Instances_Create (Instances (cs_clients cs)) req w)) \<le>
    count view P w + (if \<exists>i. made_as_ordered req i \<and> P (req, i) then 1 else 0)"
  using assms unfolding cloud_laws_def create_law_def by blast

section \<open>The services\<close>

lemma grows_services:
  assumes "cloud_laws E cs view"
  shows "grows (count view P) n (GetInstance cs i)" and "grows (count view P) n (DeleteInstance cs i)"
  unfolding GetInstance_def DeleteInstance_def Let_def
  by (intro grow_rules cloud_laws_calls [OF assms])+

lemma grows_instance_ssh_keys:
  assumes "cloud_laws E cs view"
  shows "grows (count view P) n (instance_ssh_keys cs keys acc)"
  by (induction keys arbitrary: acc)
    (auto intro!: grow_rules grows_shared_services(1) [OF cloud_laws_calls(5) [OF assms]])

text \<open>A create adds at most one instance, from a request with the machine's name and tags.\<close>

definition new_instance :: "'w ClusterScope \<Rightarrow> string \<Rightarrow> VultrMachine \<Rightarrow> InstanceCreateReq \<times> Instance \<Rightarrow> bool" where
  "new_instance cs role vm = (\<lambda>(req, i). made_as_ordered req i \<and> icr_Label req = MachineScope_Name vm \<and>
     icr_Tags req = BuildTags (MachineTagParams cs (MachineScope_Name vm) role))"

lemma new_instance_made:
  assumes "new_instance cs role vm (req, i)" and "instance_made_for req p"
  shows "bt_Name p = MachineScope_Name vm \<and> bt_ClusterUID p = ClusterScope_UID cs"
  using assms ordered_for_own_tags [where extra = "[]"]
  by (auto simp: new_instance_def instance_made_for_def MachineTagParams_def)

lemma CreateInstance_count:
  assumes "cloud_laws E cs view"
    and n: "n = (if \<exists>v. new_instance cs (MachineScope_Role E ms) (obj s) v \<and> P v then 1 else 0)"
  shows "wp (CreateInstance E cs ms)
    (\<lambda>_ s'. count view P (world s') \<le> count view P (world s) + n)
    (\<lambda>s'. count view P (world s') \<le> count view P (world s) + n) s"
proof -
  have submit: "grows (count view P) n (submit_instance cs name req)"
    if "icr_Label req = MachineScope_Name (obj s)"
      and "icr_Tags req = BuildTags (MachineTagParams cs (MachineScope_Name (obj s)) (MachineScope_Role E ms))"
    for name req
    unfolding submit_instance_def Let_def
  proof (rule grows_and_then_last)
    have "(if \<exists>i. made_as_ordered req i \<and> P (req, i) then 1 else 0) \<le> n"
      using that unfolding n new_instance_def by auto
    then have "count view P (snd (Instances_Create (Instances (cs_clients cs)) req w)) \<le> count view P w + n" for w
      using cloud_laws_create [OF assms(1), of P req w] by linarith
    then show "grows (count view P) n (call (CallInstanceCreate req) (Instances_Create (Instances (cs_clients cs)) req))"
      by (rule grows_call)
  qed (intro grow_rules)
  show ?thesis
    unfolding CreateInstance_def MachineScope_GetBootstrapData_def Let_def wp_and_then [of get_obj] wp_get_obj
    by (intro grows_wp grow_rules grows_shared_services(4) [OF cloud_laws_calls(5) [OF assms(1)]]
        grows_instance_ssh_keys [OF assms(1)] submit) simp_all
qed

section \<open>The controller's steps\<close>

lemma grows_found_steps [grow_rules]:
  "grows f n (create_failed E err)" "grows f n (instance_missing E i)" "grows f n (adopt_instance v)"
  unfolding create_failed_def instance_missing_def adopt_instance_def MachineScope_SetReadyCondition_def Let_def
  by (intro grow_rules)+

lemma create_instance_step_count:
  assumes "cloud_laws E cs view"
    and "n = (if \<exists>v. new_instance cs (MachineScope_Role E ms) (obj s) v \<and> P v then 1 else 0)"
  shows "wp (create_instance_step E cs ms)
    (\<lambda>_ s'. count view P (world s') \<le> count view P (world s) + n)
    (\<lambda>s'. count view P (world s') \<le> count view P (world s) + n) s"
  unfolding create_instance_step_def wp_and_then [of "eventf _ _ _ _ _"] wp_eventf
  by (rule wp_try_then_grows, rule wp_mono [OF CreateInstance_count [OF assms(1) refl, where P = P]])
    (simp_all only: assms(2) grow_rules, simp_all)

lemma grows_reconcile_instance:
  assumes "cloud_laws E cs view"
  shows "grows (count view P) 0 (reconcile_instance E cs ms i)"
  unfolding reconcile_instance_def persist_provider_id_def MachineScope_PatchObject_def set_instance_details_def
    join_load_balancer_def set_instance_addresses_def report_instance_status_def
    MachineScope_SetTerminalFailure_def MachineScope_SetReadyCondition_def Let_def
  by (intro grow_rules grows_shared_services(2) [OF cloud_laws_calls(5) [OF assms]] cloud_laws_calls [OF assms])

section \<open>At most one instance for each machine\<close>

lemma instanceOwnedByMachine_label: "instanceOwnedByMachine i (MachineTagParams cs name role) \<Longrightarrow> in_Label i = name"
  by (auto simp: instanceOwnedByMachine_def MachineTagParams_def split: if_splits)

interpretation vm_one: one_of_each CallInstanceList
  "\<lambda>cs. Instances_List (Instances (cs_clients cs))" instanceOwnedByMachine instance_list_options
  FindInstanceForMachine CallInstanceGet "\<lambda>cs. Instances_Get (Instances (cs_clients cs))" GetInstance
  CallInstanceDelete "\<lambda>cs. Instances_Delete (Instances (cs_clients cs))" DeleteInstance
  is_instance_create GetInstanceID MachineScope_Name cs "MachineScope_Role E ms"
  "instance_missing E" adopt_instance "create_instance_step E cs ms" "findOrCreateInstance E cs ms"
  "cloud_laws E cs" instance_made_for "new_instance cs (MachineScope_Role E ms)"
  for E cs ms
proof (unfold_locales, goal_cases)
  case (1 p p' i)
  then show ?case by (simp add: instanceOwnedByMachine_def TagsOwnedByMachine_def)
next
  case (2 view n w items reqs w' q i r)
  then have "i \<in> set (map snd (view w'))" "in_Label i = n" using instanceOwnedByMachine_label by force+
  with 2(1,2) show ?case unfolding cloud_laws_def listing_law_def by blast
next
  case (7 view k s P)
  show ?case by (rule create_instance_step_count [OF 7])
next
  case (8 vm req i p)
  then show ?case by (rule new_instance_made)
next
  case (9 vm req i p)
  then show ?case by (auto simp: new_instance_def intro: made_as_ordered_owned)
qed (simp_all add: cloud_laws_calls grows_services grow_rules)

lemma grows_reconcileDelete:
  assumes "cloud_laws E cs view"
  shows "grows (count view P) 0 (VultrMachine_reconcileDelete E cs ms)"
  unfolding VultrMachine_reconcileDelete_def delete_known_instance_def delete_remaining_instance_def
    finish_instance_delete_def MachineScope_SetReadyCondition_def Let_def
  by (intro grow_rules grows_services(2) [OF assms] vm_one.find_adds_nothing [OF assms])

lemma reconcileNormal_one_each:
  assumes "cloud_laws E cs view"
  shows "keeps_one instance_made_for instanceOwnedByMachine view (VultrMachine_reconcileNormal E cs ms) s"
  unfolding keeps_one_def
proof (intro impI reconcileNormal_wp reconcile_bootstrapped_wp)
  assume one: "one_instance_each view (world s)"
  show "wp (findOrCreateInstance E cs ms) (\<lambda>_ s'. one_instance_each view (world s'))
      (\<lambda>s'. one_instance_each view (world s')) (s\<lparr>obj := vm_AddFinalizer E MachineFinalizer (obj s)\<rparr>)"
    using vm_one.foc_one_each [OF assms] one unfolding keeps_one_def by simp
next
  fix i and s' :: "('a, VultrMachine) st" assume "one_instance_each view (world s')"
  then show "wp (reconcile_instance E cs ms i) (\<lambda>_ s'. one_instance_each view (world s'))
      (\<lambda>s'. one_instance_each view (world s')) s'"
    using keeps_one_grows [OF grows_reconcile_instance [OF assms]] unfolding keeps_one_def by blast
qed simp

lemma run_scopes_one_each:
  assumes "cloud_laws E cs view"
  shows "keeps_one instance_made_for instanceOwnedByMachine view (VultrMachine_run_scopes E cs ms deleting) s"
proof -
  have close: "grows (count view P) 0 (MachineScope_Close E ms)" for P
    unfolding MachineScope_Close_def by (intro grow_rules cloud_laws_calls [OF assms])
  then show ?thesis
    unfolding VultrMachine_run_scopes_def VultrMachine_close_after_def
    by (intro keeps_one_deferred one_rules reconcileNormal_one_each [OF assms]
        keeps_one_grows [OF grows_reconcileDelete [OF assms]] keeps_one_grows [OF close])
qed

section \<open>The reconciler\<close>

text \<open>
  The laws for a whole \<^verbatim>\<open>Reconcile\<close>: the client it makes keeps those of the cloud, whatever the
  cluster, and what it asks Kubernetes makes no instance.
\<close>

definition reconcile_laws :: "'w env \<Rightarrow> 'w instance_view \<Rightarrow> bool" where
  "reconcile_laws E view \<longleftrightarrow>
     (\<forall>cluster vc cs. NewClusterScope E (cluster_scope_params cluster vc) = Inr cs \<longrightarrow> cloud_laws E cs view) \<and>
     (\<forall>n. adds_nothing view (GetVultrMachine E n)) \<and>
     (\<forall>cluster vm. adds_nothing view (EnsurePausedVM E cluster vm)) \<and>
     kube_reads_law E view"

lemma Reconcile_one_each:
  assumes "reconcile_laws E view"
  shows "keeps_one instance_made_for instanceOwnedByMachine view (VultrMachine_Reconcile E req) s"
  unfolding VultrMachine_Reconcile_def VultrMachine_with_cluster_def ensure_paused_def Let_def
  by (intro one_rules run_scopes_one_each)
    (use assms in \<open>auto simp: reconcile_laws_def kube_reads_law_def\<close>)

text \<open>
  What can happen to the world, one step after the other: some VultrMachine of some cluster is
  reconciled, with whatever Kubernetes holds of it at that time (an outdated object, or one
  that lost its provider ID), and the run returns or panics; or something else happens that makes no instance for a
  machine and takes no machine's instance its label, hostname or tags (it may change its status, or delete it).
\<close>

inductive evolves :: "'w env \<Rightarrow> 'w instance_view \<Rightarrow> 'w \<Rightarrow> 'w \<Rightarrow> bool"
  for E view where
  start: "evolves E view w w"
| reconciled: "evolves E view w0 (world s) \<Longrightarrow>
    VultrMachine_Reconcile E req s = Ret r s' \<Longrightarrow> evolves E view w0 (world s')"
| panicked: "evolves E view w0 (world s) \<Longrightarrow>
    VultrMachine_Reconcile E req s = Panic msg s' \<Longrightarrow> evolves E view w0 (world s')"
| other: "evolves E view w0 w \<Longrightarrow> makes_none instance_made_for instanceOwnedByMachine view w w' \<Longrightarrow> evolves E view w0 w'"

text \<open>Each of these steps keeps every machine at one instance.\<close>

lemma evolves_one_each:
  assumes "reconcile_laws E view" and "evolves E view w0 w" and "one_instance_each view w0"
  shows "one_instance_each view w"
  using assms(2,3)
proof (induction rule: evolves.induct)
  case (reconciled w0 s req r s')
  then show ?case using Reconcile_one_each [OF assms(1), of req s] by (simp add: keeps_one_def wp_def)
next
  case (panicked w0 s req msg s')
  then show ?case using Reconcile_one_each [OF assms(1), of req s] by (simp add: keeps_one_def wp_def)
next
  case (other w0 w w')
  show ?case by (rule one_each_makes_none [OF other.IH [OF other.prems] other.hyps(2)])
qed

text \<open>
  C2. Over any sequence of reconciles of VultrMachines, of any clusters, same names included, with deletions, failed and
  panicking runs and lost provider IDs, and with creates that fail after the instance was made or leave it without tags,
  there are never two instances that were made for the same machine of the same cluster; and an instance that was made for a
  machine is one that the machine's search recognises. What an instance was made for is read off the request it came from,
  since an instance without tags does not tell its cluster. Supposed are the laws of the cloud (no call but a create makes or
  changes an instance, a listing by label is complete, an instance is either tagged as asked or not at all), no duplicate at the
  start, and that what happens between the runs makes no instance for a machine and leaves labels, hostnames and tags alone.
\<close>

theorem machine_never_duplicated:
  assumes "reconcile_laws E view" and "evolves E view w0 w" and "one_instance_each view w0"
  shows "(\<forall>uid name. made_count instance_made_for view uid name w \<le> 1) \<and>
    (\<forall>(req, i)\<in>set (view w). \<forall>p. instance_made_for req p \<longrightarrow> instanceOwnedByMachine i p)"
  using evolves_one_each [OF assms] by (simp add: one_each_def)

text \<open>
  When the finalizer of a deleted machine goes, there is no instance left that
  belongs to the machine.
\<close>

lemma machine_finalizer_leaves_nothing:
  assumes "listing_law cs view"
    and "VultrMachine_reconcileDelete E cs ms s = Ret r s'"
    and "om_Finalizers (vm_meta (obj s')) \<noteq> om_Finalizers (vm_meta (obj s))"
  shows "owned_count instanceOwnedByMachine view (ClusterScope_UID cs) (MachineScope_Name (obj s)) (world s') = 0"
proof -
  let ?name = "MachineScope_Name (obj s)"
  obtain w items reqs where l: "listing (Instances_List (Instances (cs_clients cs)))
        (instance_list_options ?name) w (Inr items) reqs (world s')"
    and none: "\<forall>i\<in>set items. \<not> instanceOwnedByMachine i (MachineTagParams cs ?name (MachineScope_Role E ms))"
    using wp_RetD [OF vm_delete.finalizer_needs_empty_listing assms(2)] assms(3) by auto
  have "i \<in> set items" if "i \<in> set (view (world s'))" "in_Label i = ?name" for i
    using assms(1) l that unfolding listing_law_def by blast
  with instanceOwnedByMachine_label none
  have "\<not> instanceOwnedByMachine i (MachineTagParams cs ?name (MachineScope_Role E ms))" if "i \<in> set (view (world s'))" for i
    using that by blast
  then show ?thesis by (rule vm_one.owned_count_none)
qed

end
