(* ===== verification/Svc_BareMetal.thy ===== *)
theory Svc_BareMetal
  imports Svc_Common Cloud_Config
begin

text \<open>
  The bare metal service (\<^verbatim>\<open>cloud/services/baremetal.go\<close>): looking a server up by ID or by
  tags, creating and deleting it, attaching its VPC, and reading its addresses.
\<close>

definition bareMetalListPageSize :: int where "bareMetalListPageSize = 100"

definition GetBareMetalServer ::
  "'w ClusterScope \<Rightarrow> string \<Rightarrow> (('w, 'o) st, error + BareMetalServer option) comp" where
  "GetBareMetalServer cs serverID =
    (if serverID = [] then ret (Inr None)
     else and_then
       (call (CallBareMetalGet serverID) (BareMetal_Get (BareMetal (cs_clients cs)) serverID))
       (\<lambda>a. case a_err a of
           Some err \<Rightarrow>
             if captured_status (a_trips a) = StatusNotFound then ret (Inr None)
             else ret (Inl (Wrap (''failed to get bare metal server with ID '' @ quote serverID) err))
         | None \<Rightarrow> (case a_value a of
             None \<Rightarrow> ret (Inl (Err (''Vultr API returned HTTP '' @ itoa (responseCode (a_resp a)) @
                 '' without a server for ID '' @ quote serverID)))
           | Some server \<Rightarrow> ret (Inr (Some server)))))"

definition bare_metal_list_options :: "string \<Rightarrow> ListOptions" where
  "bare_metal_list_options name =
     \<lparr>lo_PerPage = bareMetalListPageSize, lo_Cursor = [], lo_Label = [], lo_Tag = NameTagFromName name\<rparr>"

definition FindBareMetalServerByTags ::
  "'w ClusterScope \<Rightarrow> string \<Rightarrow> string \<Rightarrow> (('w, 'o) st, error + BareMetalServer option) comp" where
  "FindBareMetalServerByTags cs name role =
    (let params = MachineTagParams cs name role in
     try_then
       (run_list CallBareMetalList (BareMetal_List (BareMetal (cs_clients cs)))
          (\<lambda>server. TagsOwnedByMachine (bs_Tags server) params)
          (Wrap ''failed to list bare metal servers'')
          (bare_metal_list_options name))
       (\<lambda>err. ret (Inl err))
       (\<lambda>matches. case matches of
           [] \<Rightarrow> ret (Inr None)
         | [server] \<Rightarrow> ret (Inr (Some server))
         | _ \<Rightarrow> ret (Inl (Err (''found '' @ itoa (int (length matches)) @
               '' bare metal servers tagged for machine '' @ quote name @ '', expected at most one'')))))"

definition hasTags :: "string list \<Rightarrow> string list \<Rightarrow> bool" where
  "hasTags tags wanted = list_all (\<lambda>w. list_ex (\<lambda>t. t = w) tags) wanted"

text \<open>The loop over the machine's SSH keys; unlike the instance's, it skips empty entries.\<close>

primrec bare_metal_ssh_keys ::
  "'w ClusterScope \<Rightarrow> string list \<Rightarrow> string list \<Rightarrow> (('w, 'o) st, error + string list) comp" where
  "bare_metal_ssh_keys cs [] sshKeyIDs = ret (Inr sshKeyIDs)"
| "bare_metal_ssh_keys cs (sshKeyID # rest) sshKeyIDs =
    (if sshKeyID = [] then bare_metal_ssh_keys cs rest sshKeyIDs
     else try_then (GetSSHKey cs sshKeyID) (\<lambda>err. ret (Inl err))
       (\<lambda>key. case key of
           None \<Rightarrow> panic ''nil pointer dereference: key.ID''
         | Some keyID \<Rightarrow> bare_metal_ssh_keys cs rest (sshKeyIDs @ [keyID])))"

definition buildBareMetalCreateRequest ::
  "VultrBareMetalMachineSpec \<Rightarrow> string \<Rightarrow> string list \<Rightarrow> string \<Rightarrow> string list \<Rightarrow> BareMetalCreate" where
  "buildBareMetalCreateRequest spec name sshKeyIDs encodedUserData tags =
     \<lparr>bcr_Region = bms_Region spec, bcr_Plan = bms_PlanID spec, bcr_OsID = bms_OSID spec,
      bcr_Label = name, bcr_Hostname = name, bcr_SSHKeyIDs = sshKeyIDs,
      bcr_UserData = encodedUserData, bcr_MdiskMode = bms_MdiskMode spec,
      bcr_EnableIPv6 = Pointer (case bms_EnableIPv6 spec of None \<Rightarrow> True | Some b \<Rightarrow> b),
      bcr_ActivationEmail = Pointer False,
      bcr_Tags = tags @ bms_AdditionalTags spec\<rparr>"

text \<open>The create call and the check of its answer.\<close>

definition submit_server ::
  "'w ClusterScope \<Rightarrow> string \<Rightarrow> BareMetalCreate \<Rightarrow> (('w, 'o) st, error + BareMetalServer) comp" where
  "submit_server cs name req =
     and_then (call (CallBareMetalCreate req) (BareMetal_Create (BareMetal (cs_clients cs)) req))
       (\<lambda>a. case a_err a of
           Some err \<Rightarrow> ret (Inl (Wrap ''failed to create bare metal server'' err))
         | None \<Rightarrow>
             let missing = ret (Inl (Err (''Vultr API returned HTTP '' @ itoa (responseCode (a_resp a)) @
                   '' without a server for the create of '' @ quote name)))
             in (case a_value a of
                 None \<Rightarrow> missing
               | Some server \<Rightarrow> if bs_ID server = [] then missing else ret (Inr server)))"

definition CreateBareMetalServer ::
  "'w env \<Rightarrow> 'w ClusterScope \<Rightarrow> BareMetalMachineScope \<Rightarrow>
     (('w, VultrBareMetalMachine) st, error + BareMetalServer) comp" where
  "CreateBareMetalServer E cs bsc = and_then get_obj (\<lambda>bm.
     try_then (BareMetalMachineScope_GetBootstrapData E bsc)
       (\<lambda>err. ret (Inl (Wrap ''failed to retrieve bootstrap data'' err)))
       (\<lambda>bootstrapData. case PrependCloudConfigRunCmds E bootstrapData [''ufw disable''] of
           Inl err \<Rightarrow> ret (Inl err)
         | Inr userData \<Rightarrow>
             try_then (bare_metal_ssh_keys cs (bms_SSHKey (bm_Spec bm)) [])
               (\<lambda>err. ret (Inl err))
               (\<lambda>sshKeyIDs.
                 let name = BareMetalMachineScope_Name bm in
                 submit_server cs name
                   (buildBareMetalCreateRequest (bm_Spec bm) name sshKeyIDs
                     (base64_EncodeToString userData)
                     (BuildTags (MachineTagParams cs name (BareMetalMachineScope_Role E bsc)))))))"

definition DeleteBareMetalServer :: "'w ClusterScope \<Rightarrow> string \<Rightarrow> (('w, 'o) st, error + bool) comp" where
  "DeleteBareMetalServer cs serverID =
    (if serverID = [] then ret (Inl (Err ''cannot delete bare metal server: missing server id''))
     else and_then
       (call (CallBareMetalDelete serverID) (BareMetal_Delete (BareMetal (cs_clients cs)) serverID))
       (\<lambda>a. case a_err a of
           Some err \<Rightarrow>
             if captured_status (a_trips a) = StatusNotFound then ret (Inr False)
             else ret (Inl (Wrap (''failed to delete bare metal server with id '' @ quote serverID) err))
         | None \<Rightarrow> ret (Inr True)))"

definition EnsureBareMetalVPC ::
  "'w ClusterScope \<Rightarrow> string \<Rightarrow> string \<Rightarrow> (('w, 'o) st, error + bool \<times> VPCInfo option) comp" where
  "EnsureBareMetalVPC cs serverID vpcID =
     try_then (call (CallListVPCInfo serverID) (BareMetal_ListVPCInfo (BareMetal (cs_clients cs)) serverID))
       (\<lambda>err. ret (Inl (Wrap (''failed to list VPCs of bare metal server '' @ quote serverID) err)))
       (\<lambda>infos. case find (\<lambda>info. vpc_ID info = vpcID) infos of
           Some info \<Rightarrow> ret (Inr (True, Some info))
         | None \<Rightarrow>
             and_then (call (CallAttachVPC serverID vpcID)
                 (BareMetal_AttachVPC (BareMetal (cs_clients cs)) serverID vpcID))
               (\<lambda>e. case e of
                   Some err \<Rightarrow> ret (Inl (Wrap (''failed to attach VPC '' @ quote vpcID @
                          '' to bare metal server '' @ quote serverID) err))
                 | None \<Rightarrow> ret (Inr (False, None))))"

definition IsTerminalVPCAttachError :: "'w env \<Rightarrow> error option \<Rightarrow> bool" where
  "IsTerminalVPCAttachError E err = (case err of
      None \<Rightarrow> False
    | Some e \<Rightarrow>
        let msg = strings_ToLower (ErrorText E e) in
        strings_Contains msg ''does not support vpc'' \<or> strings_Contains msg ''not support vpc networking'')"

definition GetBareMetalServerAddresses :: "BareMetalServer \<Rightarrow> VPCInfo option \<Rightarrow> NodeAddress list" where
  "GetBareMetalServerAddresses server vpc =
     (case vpc of
        Some info \<Rightarrow>
          if vpc_IPAddress info \<noteq> [] then [\<lparr>na_Type = NodeInternalIP, na_Address = vpc_IPAddress info\<rparr>] else []
      | None \<Rightarrow> []) @
     (if bs_MainIP server \<noteq> [] then [\<lparr>na_Type = NodeExternalIP, na_Address = bs_MainIP server\<rparr>] else [])"

section \<open>The contracts the controllers rely on\<close>

interpretation servers: tag_finder CallBareMetalList
  "\<lambda>cs. BareMetal_List (BareMetal (cs_clients cs))" "\<lambda>server. TagsOwnedByMachine (bs_Tags server)"
  bare_metal_list_options FindBareMetalServerByTags
  by unfold_locales
    (auto simp: FindBareMetalServerByTags_def find_by_matches find_loops two_or_more Let_def)

interpretation server_by_id: keyed_resource CallBareMetalGet
  "\<lambda>cs. BareMetal_Get (BareMetal (cs_clients cs))" GetBareMetalServer CallBareMetalDelete
  "\<lambda>cs. BareMetal_Delete (BareMetal (cs_clients cs))" DeleteBareMetalServer
  by unfold_locales
    (auto simp: GetBareMetalServer_def DeleteBareMetalServer_def call_def and_then_def split: option.split)

interpretation server_service: resource_service CallBareMetalList
  "\<lambda>cs. BareMetal_List (BareMetal (cs_clients cs))" "\<lambda>server. TagsOwnedByMachine (bs_Tags server)"
  bare_metal_list_options FindBareMetalServerByTags CallBareMetalGet
  "\<lambda>cs. BareMetal_Get (BareMetal (cs_clients cs))" GetBareMetalServer CallBareMetalDelete
  "\<lambda>cs. BareMetal_Delete (BareMetal (cs_clients cs))" DeleteBareMetalServer
  by unfold_locales

section \<open>Effects\<close>

definition is_bare_metal_create :: "effect \<Rightarrow> bool" where
  "is_bare_metal_create e \<longleftrightarrow> (\<exists>req. e = CallBareMetalCreate req)"

definition is_bare_metal_delete :: "effect \<Rightarrow> bool" where
  "is_bare_metal_delete e \<longleftrightarrow> (\<exists>i. e = CallBareMetalDelete i)"

lemma emits_GetBareMetalServer [emit_rules]:
  "\<not> A (CallBareMetalGet i) \<Longrightarrow> emits A n (GetBareMetalServer cs i)"
  unfolding GetBareMetalServer_def by (intro emit_rules) auto

lemma emits_FindBareMetalServerByTags [emit_rules]:
  "(\<And>opts. \<not> A (CallBareMetalList opts)) \<Longrightarrow> emits A n (FindBareMetalServerByTags cs name role)"
  unfolding FindBareMetalServerByTags_def Let_def
  by (intro emit_rules) (auto split: list.split intro: emit_rules)

lemma emits_DeleteBareMetalServer [emit_rules]:
  "\<not> A (CallBareMetalDelete i) \<Longrightarrow> emits A n (DeleteBareMetalServer cs i)"
  unfolding DeleteBareMetalServer_def by (intro emit_rules) auto

lemma emits_EnsureBareMetalVPC [emit_rules]:
  "\<not> A (CallListVPCInfo i) \<Longrightarrow> \<not> A (CallAttachVPC i v) \<Longrightarrow> emits A n (EnsureBareMetalVPC cs i v)"
  unfolding EnsureBareMetalVPC_def by (intro emit_rules) auto

lemma emits_bare_metal_ssh_keys [emit_rules]:
  "(\<And>k. \<not> A (CallSSHKeyGet k)) \<Longrightarrow> emits A n (bare_metal_ssh_keys cs keys acc)"
  by (induction keys arbitrary: acc) (auto intro!: emit_rules)

lemma emits_BareMetalMachineScope_GetBootstrapData [emit_rules]:
  "(\<And>key. \<not> A (CallSecretGet key)) \<Longrightarrow> emits A n (BareMetalMachineScope_GetBootstrapData E bsc)"
  unfolding BareMetalMachineScope_GetBootstrapData_def by (intro emit_rules) auto

lemma emits_submit_server: "emits A 1 (submit_server cs name req)"
  unfolding submit_server_def Let_def by (intro emits_call_then_one emit_rules)

lemma emits_submit_server_free: "\<not> A (CallBareMetalCreate req) \<Longrightarrow> emits A n (submit_server cs name req)"
  unfolding submit_server_def Let_def by (intro emit_rules)

lemma emits_CreateBareMetalServer:
  assumes "\<And>key. \<not> A (CallSecretGet key)" and "\<And>k. \<not> A (CallSSHKeyGet k)"
  shows "emits A 1 (CreateBareMetalServer E cs bsc)"
  unfolding CreateBareMetalServer_def Let_def
  by (intro emit_rules emits_submit_server) (use assms in auto)

lemma emits_CreateBareMetalServer_free:
  assumes "\<And>key. \<not> A (CallSecretGet key)" and "\<And>k. \<not> A (CallSSHKeyGet k)"
    and "\<And>req. \<not> A (CallBareMetalCreate req)"
  shows "emits A n (CreateBareMetalServer E cs bsc)"
  unfolding CreateBareMetalServer_def Let_def
  by (intro emit_rules emits_submit_server_free) (use assms in auto)

lemma keeps_obj_bare_metal_ssh_keys [frame_rules]: "keeps_obj (bare_metal_ssh_keys cs keys acc)"
  by (induction keys arbitrary: acc) (auto intro!: frame_rules)

lemma keeps_obj_FindBareMetalServerByTags [frame_rules]:
  "keeps_obj (FindBareMetalServerByTags cs name role)"
  unfolding FindBareMetalServerByTags_def Let_def
  by (intro frame_rules) (auto split: list.split intro: frame_rules)

lemma keeps_obj_bare_metal [frame_rules]:
  "keeps_obj (GetBareMetalServer cs i)" "keeps_obj (DeleteBareMetalServer cs i)"
  "keeps_obj (EnsureBareMetalVPC cs i v)"
  unfolding GetBareMetalServer_def DeleteBareMetalServer_def EnsureBareMetalVPC_def
  by (intro frame_rules)+

lemma keeps_obj_CreateBareMetalServer [frame_rules]: "keeps_obj (CreateBareMetalServer E cs bsc)"
  unfolding CreateBareMetalServer_def submit_server_def BareMetalMachineScope_GetBootstrapData_def Let_def
  by (intro frame_rules)

section \<open>The VPC attach error\<close>

text \<open>
  A terminal attach error stays terminal however often it is wrapped, since the text
  of a wrapped error holds that of its cause.
\<close>

lemma sublist_ToLower: "sublist xs ys \<Longrightarrow> sublist (strings_ToLower xs) (strings_ToLower ys)"
  unfolding sublist_def by (metis strings_ToLower_append)

lemma IsTerminalVPCAttachError_Wrap:
  assumes "wrap_laws E" and "IsTerminalVPCAttachError E (Some e)"
  shows "IsTerminalVPCAttachError E (Some (Wrap msg e))"
proof -
  have "sublist (strings_ToLower (ErrorText E e)) (strings_ToLower (ErrorText E (Wrap msg e)))"
    by (rule sublist_ToLower [OF ErrorText_Wrap_sublist [OF assms(1)]])
  with assms(2) show ?thesis
    unfolding IsTerminalVPCAttachError_def
    by (auto simp: strings_Contains_iff Let_def simp del: ErrorText.simps
        intro: sublist_order.order_trans)
qed

end
