(* ===== verification/BareMetal_Controller.thy ===== *)
theory BareMetal_Controller
  imports Svc_BareMetal Svc_LoadBalancer Drivers
begin

text \<open>
  The VultrBareMetalMachine controller
  (\<^verbatim>\<open>internal/controller/vultrbaremetalmachine_controller.go\<close>), split at the early returns
  of its handlers like the machine controller. Unlike that one it persists the provider
  ID with the closing patch only, attaches the VPC, falls back to the load balancer
  ID in the VultrCluster's spec, and takes a deleted control-plane server out of the load
  balancer.
\<close>

definition bareMetalPendingRequeue :: int where "bareMetalPendingRequeue = 30 * Second"
definition bareMetalVPCRequeue :: int where "bareMetalVPCRequeue = 15 * Second"
definition bareMetalNotFoundRequeue :: int where "bareMetalNotFoundRequeue = 30 * Second"
definition bareMetalLoadBalancerRequeue :: int where "bareMetalLoadBalancerRequeue = 15 * Second"

section \<open>Finding or creating the server\<close>

definition server_missing ::
  "'w env \<Rightarrow> string \<Rightarrow> (('w, VultrBareMetalMachine) st, error + BareMetalServer option) comp" where
  "server_missing E serverID = and_then get_obj (\<lambda>bm.
     let msg = ''bare metal server '' @ serverID @ '' not found, checking again'' in
     and_then
       (if \<not> conditions_IsFalse E (VultrBareMetalMachine_GetConditions bm) BareMetalMachineReadyCondition \<or>
           conditions_GetReason E (VultrBareMetalMachine_GetConditions bm) BareMetalMachineReadyCondition
             \<noteq> BareMetalServerNotFoundReason
        then eventf EventTypeWarning ''ServerNotFound'' ''NotFound'' msg []
        else ret ())
       (\<lambda>_. and_then (BareMetalMachineScope_SetReadyCondition E ConditionFalse BareMetalServerNotFoundReason msg)
       (\<lambda>_. ret (Inr None))))"

definition server_create_failed ::
  "'w env \<Rightarrow> error \<Rightarrow> (('w, VultrBareMetalMachine) st, error + BareMetalServer option) comp" where
  "server_create_failed E err =
     and_then (eventf EventTypeWarning ''ServerCreationFailed'' ''Failed''
         ''Failed to create bare metal server: %v'' [AErr err])
       (\<lambda>_. and_then (BareMetalMachineScope_SetReadyCondition E ConditionFalse
              BareMetalServerCreationFailedReason (ErrorText E err))
       (\<lambda>_. ret (Inl err)))"

definition create_server_step ::
  "'w env \<Rightarrow> 'w ClusterScope \<Rightarrow> BareMetalMachineScope \<Rightarrow>
     (('w, VultrBareMetalMachine) st, error + BareMetalServer option) comp" where
  "create_server_step E cs bsc =
     try_then (CreateBareMetalServer E cs bsc) (server_create_failed E)
       (\<lambda>server. and_then (eventf EventTypeNormal ''ServerCreated'' ''Created'' ''Created bare metal server %s (%s)''
               [AStr (bs_ID server), AStr (bs_Plan server)])
         (\<lambda>_. ret (Inr (Some server))))"

definition adopt_server ::
  "BareMetalServer \<Rightarrow> (('w, VultrBareMetalMachine) st, error + BareMetalServer option) comp" where
  "adopt_server server =
     and_then (eventf EventTypeNormal ''ServerAdopted'' ''Adopted''
         ''Adopted existing bare metal server %s'' [AStr (bs_ID server)])
       (\<lambda>_. ret (Inr (Some server)))"

definition findOrCreateServer ::
  "'w env \<Rightarrow> 'w ClusterScope \<Rightarrow> BareMetalMachineScope \<Rightarrow>
     (('w, VultrBareMetalMachine) st, error + BareMetalServer option) comp" where
  "findOrCreateServer E cs bsc = and_then get_obj (\<lambda>bm.
     let serverID = GetServerID bm in
     if serverID \<noteq> [] then
       try_then (GetBareMetalServer cs serverID) (\<lambda>err. ret (Inl err))
         (\<lambda>server. case server of None \<Rightarrow> server_missing E serverID | Some server \<Rightarrow> ret (Inr (Some server)))
     else
       try_then (FindBareMetalServerByTags cs (BareMetalMachineScope_Name bm) (BareMetalMachineScope_Role E bsc))
         (\<lambda>err. ret (Inl err))
         (\<lambda>server. case server of
             Some server \<Rightarrow> adopt_server server
           | None \<Rightarrow> create_server_step E cs bsc))"

section \<open>Reconciling a bare metal machine\<close>

definition set_server_details :: "BareMetalServer \<Rightarrow> (('w, VultrBareMetalMachine) st, unit) comp" where
  "set_server_details server =
     and_then (modify_obj (BareMetalMachineScope_SetProviderID (bs_ID server)))
       (\<lambda>_. and_then (modify_obj (SetServerStatus (bs_Status server)))
       (\<lambda>_. modify_obj (SetHardware (bs_CPUCount server) (bs_RAM server) (bs_Disk server))))"

text \<open>The switch on the server's status; \<open>Some r\<close> is an early return of the handler.\<close>

definition check_server_status ::
  "'w env \<Rightarrow> BareMetalServer \<Rightarrow> (('w, VultrBareMetalMachine) st, (Result \<times> error option) option) comp" where
  "check_server_status E server =
    (if bs_Status server = SubscriptionStatusPending then
       and_then (BareMetalMachineScope_SetReadyCondition E ConditionFalse BareMetalServerPendingReason
           ''Bare metal server is provisioning'')
         (\<lambda>_. ret (Some (requeue_after bareMetalPendingRequeue, None)))
     else if bs_Status server = SubscriptionStatusActive then ret None
     else
       let msg = ''bare metal server status '' @ quote (bs_Status server) @ '' is unexpected'' in
       and_then (eventf EventTypeWarning ''UnexpectedStatus'' ''Failed'' msg [])
         (\<lambda>_. and_then (BareMetalMachineScope_SetTerminalFailure E BareMetalUnexpectedStatusReason msg)
         (\<lambda>_. ret (Some (no_requeue, None)))))"

text \<open>
  The VPC step: an early return (\<open>Inl\<close>), or the attachment when the machine asks for
  one. An attachment reported without its details would be dereferenced.
\<close>

definition attach_vpc ::
  "'w env \<Rightarrow> 'w ClusterScope \<Rightarrow> BareMetalServer \<Rightarrow>
     (('w, VultrBareMetalMachine) st, (Result \<times> error option) + VPCInfo option) comp" where
  "attach_vpc E cs server = and_then get_obj (\<lambda>bm.
     let vpcID = bms_VPCID (bm_Spec bm) in
     if vpcID \<noteq> [] then
       try_then (EnsureBareMetalVPC cs (bs_ID server) vpcID)
         (\<lambda>err. if IsTerminalVPCAttachError E (Some err) then
              and_then (eventf EventTypeWarning ''VPCAttachFailed'' ''Failed'' (ErrorText E err) [])
                (\<lambda>_. and_then (BareMetalMachineScope_SetTerminalFailure E BareMetalVPCAttachFailedReason (ErrorText E err))
                (\<lambda>_. ret (Inl (no_requeue, None))))
            else ret (Inl (no_requeue, Some err)))
         (\<lambda>(attached, info). if \<not> attached then
              and_then (BareMetalMachineScope_SetReadyCondition E ConditionFalse
                  BareMetalVPCAttachRequestedReason ''Waiting for VPC attachment'')
                (\<lambda>_. ret (Inl (requeue_after bareMetalVPCRequeue, None)))
            else (case info of
                None \<Rightarrow> panic ''nil pointer dereference: info.ID''
              | Some v \<Rightarrow>
                  and_then (modify_obj (SetVPC (Some \<lparr>bv_ID = vpc_ID v, bv_IPAddress = vpc_IPAddress v,
                      bv_MACAddress = vpc_MacAddress v\<rparr>)))
                    (\<lambda>_. ret (Inr (Some v)))))
     else ret (Inr None))"

definition server_join_load_balancer ::
  "'w env \<Rightarrow> 'w ClusterScope \<Rightarrow> BareMetalMachineScope \<Rightarrow> BareMetalServer \<Rightarrow>
     (('w, VultrBareMetalMachine) st, (Result \<times> error option) option) comp" where
  "server_join_load_balancer E cs bsc server =
    (if BareMetalMachineScope_IsControlPlane E bsc then
       let lbID = APIServerLoadBalancerID cs in
       if lbID = [] then
         and_then (BareMetalMachineScope_SetReadyCondition E ConditionFalse
             BareMetalWaitingForLoadBalancerReason ''Waiting for the load balancer to be created'')
           (\<lambda>_. ret (Some (requeue_after bareMetalLoadBalancerRequeue, None)))
       else
         try_then (EnsureLoadBalancerMember cs lbID (bs_ID server))
           (\<lambda>err. and_then (eventf EventTypeWarning ''LoadBalancerMemberFailed'' ''Failed''
                 ''Failed to add bare metal server %s to load balancer %s: %v''
                 [AStr (bs_ID server), AStr lbID, AErr err])
             (\<lambda>_. ret (Some (no_requeue, Some err))))
           (\<lambda>member. if \<not> member then
                and_then (BareMetalMachineScope_SetReadyCondition E ConditionFalse
                    BareMetalWaitingForLoadBalancerReason ''Waiting for the load balancer to become active'')
                  (\<lambda>_. ret (Some (requeue_after bareMetalLoadBalancerRequeue, None)))
              else ret None)
     else ret None)"

definition report_server_active ::
  "'w env \<Rightarrow> BareMetalServer \<Rightarrow> VPCInfo option \<Rightarrow>
     (('w, VultrBareMetalMachine) st, Result \<times> error option) comp" where
  "report_server_active E server vpcInfo =
     and_then (modify_obj (BareMetalMachineScope_SetAddresses (GetBareMetalServerAddresses server vpcInfo)))
       (\<lambda>_. and_then (BareMetalMachineScope_SetReadyCondition E ConditionTrue BareMetalServerActiveReason
              ''Bare metal server is active'')
       (\<lambda>_. and_then (modify_obj BareMetalMachineScope_SetReady)
       (\<lambda>_. and_then (modify_obj SetProvisioned)
       (\<lambda>_. ret (no_requeue, None)))))"

definition reconcile_server ::
  "'w env \<Rightarrow> 'w ClusterScope \<Rightarrow> BareMetalMachineScope \<Rightarrow> BareMetalServer \<Rightarrow>
     (('w, VultrBareMetalMachine) st, Result \<times> error option) comp" where
  "reconcile_server E cs bsc server =
     and_then (set_server_details server) (\<lambda>_.
     and_then (check_server_status E server) (\<lambda>early. case early of
         Some r \<Rightarrow> ret r
       | None \<Rightarrow>
     try_then (attach_vpc E cs server) ret (\<lambda>vpcInfo.
     and_then (server_join_load_balancer E cs bsc server) (\<lambda>early. case early of
         Some r \<Rightarrow> ret r
       | None \<Rightarrow> report_server_active E server vpcInfo))))"

text \<open>From the server on: what \<^verbatim>\<open>reconcileNormal\<close> does once its guards passed.\<close>

definition reconcile_bootstrapped_server ::
  "'w env \<Rightarrow> 'w ClusterScope \<Rightarrow> BareMetalMachineScope \<Rightarrow>
     (('w, VultrBareMetalMachine) st, Result \<times> error option) comp" where
  "reconcile_bootstrapped_server E cs bsc =
     try_then (findOrCreateServer E cs bsc) (\<lambda>err. ret (no_requeue, Some err))
       (\<lambda>server. case server of
           None \<Rightarrow> ret (requeue_after bareMetalNotFoundRequeue, None)
         | Some server \<Rightarrow> reconcile_server E cs bsc server)"

definition VultrBareMetalMachine_reconcileNormal ::
  "'w env \<Rightarrow> 'w ClusterScope \<Rightarrow> BareMetalMachineScope \<Rightarrow>
     (('w, VultrBareMetalMachine) st, Result \<times> error option) comp" where
  "VultrBareMetalMachine_reconcileNormal E cs bsc = and_then get_obj (\<lambda>bm0.
     if BareMetalMachineScope_HasTerminalFailure E bm0 then ret (no_requeue, None)
     else and_then (modify_obj (bm_AddFinalizer E BareMetalMachineFinalizer)) (\<lambda>_.
     if \<not> or_default (cl_InfrastructureProvisioned (bsc_Cluster bsc)) False then
       and_then (BareMetalMachineScope_SetReadyCondition E ConditionFalse
           BareMetalWaitingForClusterInfrastructureReason ''Waiting for the cluster infrastructure to be provisioned'')
         (\<lambda>_. ret (no_requeue, None))
     else if mc_DataSecretName (bsc_Machine bsc) = None then
       and_then (BareMetalMachineScope_SetReadyCondition E ConditionFalse
           BareMetalWaitingForBootstrapDataReason ''Waiting for the bootstrap data secret'')
         (\<lambda>_. ret (no_requeue, None))
     else reconcile_bootstrapped_server E cs bsc))"

section \<open>Deleting a bare metal machine\<close>

definition delete_known_server ::
  "'w env \<Rightarrow> 'w ClusterScope \<Rightarrow> BareMetalMachineScope \<Rightarrow> string \<Rightarrow>
     (('w, VultrBareMetalMachine) st, error + bool) comp" where
  "delete_known_server E cs bsc serverID =
    (if serverID \<noteq> [] then
       and_then (if BareMetalMachineScope_IsControlPlane E bsc
           then RemoveLoadBalancerMember cs (APIServerLoadBalancerID cs) serverID else ret None)
         (\<lambda>e. case e of
             Some err \<Rightarrow> ret (Inl err)
           | None \<Rightarrow>
               try_then (DeleteBareMetalServer cs serverID) (\<lambda>err. ret (Inl err))
                 (\<lambda>deleted. and_then
                     (if deleted then eventf EventTypeNormal ''ServerDeleted'' ''Deleted''
                        ''Deleted bare metal server %s'' [AStr serverID] else ret ())
                   (\<lambda>_. ret (Inr deleted))))
     else ret (Inr False))"

definition delete_remaining_server ::
  "'w ClusterScope \<Rightarrow> string \<Rightarrow> BareMetalServer \<Rightarrow>
     (('w, VultrBareMetalMachine) st, Result \<times> error option) comp" where
  "delete_remaining_server cs serverID remaining =
    (if bs_ID remaining = serverID then ret (requeue_after bareMetalNotFoundRequeue, None)
     else
       try_then (DeleteBareMetalServer cs (bs_ID remaining)) (\<lambda>err. ret (no_requeue, Some err))
         (\<lambda>_. and_then (eventf EventTypeNormal ''ServerDeleted'' ''Deleted''
               ''Deleted bare metal server %s'' [AStr (bs_ID remaining)])
           (\<lambda>_. ret (requeue_after bareMetalNotFoundRequeue, None))))"

definition finish_server_delete ::
  "'w env \<Rightarrow> bool \<Rightarrow> (('w, VultrBareMetalMachine) st, Result \<times> error option) comp" where
  "finish_server_delete E deleted =
     and_then (if \<not> deleted then eventf EventTypeNormal ''NoServerFound'' ''NotFound''
           ''No bare metal server to delete'' [] else ret ())
       (\<lambda>_. and_then (modify_obj (bm_RemoveFinalizer E BareMetalMachineFinalizer))
       (\<lambda>_. ret (no_requeue, None)))"

definition VultrBareMetalMachine_reconcileDelete ::
  "'w env \<Rightarrow> 'w ClusterScope \<Rightarrow> BareMetalMachineScope \<Rightarrow>
     (('w, VultrBareMetalMachine) st, Result \<times> error option) comp" where
  "VultrBareMetalMachine_reconcileDelete E cs bsc =
     and_then (BareMetalMachineScope_SetReadyCondition E ConditionFalse BareMetalDeletingReason
         ''Deleting the bare metal server'') (\<lambda>_.
     and_then get_obj (\<lambda>bm.
     let serverID = GetServerID bm in
     try_then (delete_known_server E cs bsc serverID) (\<lambda>err. ret (no_requeue, Some err)) (\<lambda>deleted.
     try_then (FindBareMetalServerByTags cs (BareMetalMachineScope_Name bm) (BareMetalMachineScope_Role E bsc))
       (\<lambda>err. ret (no_requeue, Some err))
       (\<lambda>remaining. case remaining of
           Some server \<Rightarrow> delete_remaining_server cs serverID server
         | None \<Rightarrow> finish_server_delete E deleted))))"

section \<open>The reconciler\<close>

definition VultrBareMetalMachine_close_after ::
  "'w env \<Rightarrow> BareMetalMachineScope \<Rightarrow> Result \<times> error option \<Rightarrow>
     (('w, VultrBareMetalMachine) st, Result \<times> error option) comp" where
  "VultrBareMetalMachine_close_after E bsc r =
     and_then (BareMetalMachineScope_Close E bsc) (\<lambda>e. ret (fst r, keep_error (snd r) e))"

definition VultrBareMetalMachine_run_scopes ::
  "'w env \<Rightarrow> 'w ClusterScope \<Rightarrow> BareMetalMachineScope \<Rightarrow> bool \<Rightarrow>
     (('w, VultrBareMetalMachine) st, Result \<times> error option) comp" where
  "VultrBareMetalMachine_run_scopes E cs bsc deleting =
     deferred (VultrBareMetalMachine_close_after E bsc)
       (and_then (BareMetalMachineScope_Close E bsc) (\<lambda>_. ret ()))
       (if deleting then VultrBareMetalMachine_reconcileDelete E cs bsc
        else VultrBareMetalMachine_reconcileNormal E cs bsc)"

definition VultrBareMetalMachine_with_cluster ::
  "'w env \<Rightarrow> Machine \<Rightarrow> Cluster \<Rightarrow> bool \<Rightarrow> (('w, VultrBareMetalMachine) st, Result \<times> error option) comp" where
  "VultrBareMetalMachine_with_cluster E machine cluster deleting = and_then get_obj (\<lambda>bm.
     and_then (kube_call (GetVultrCluster E
         \<lparr>nn_Namespace = om_Namespace (bm_meta bm), nn_Name = ir_Name (cl_InfrastructureRef cluster)\<rparr>)) (\<lambda>got.
     if is_error got \<and> \<not> MachineOnly E \<and> \<not> deleting then ret (no_requeue, None)
     else
       let vultrCluster = (case got of Inl _ \<Rightarrow> zero_VultrCluster | Inr vc \<Rightarrow> vc) in
       (case NewClusterScope E (cluster_scope_params cluster vultrCluster) of
          Inl err \<Rightarrow> ret (no_requeue, Some (Err (''failed to create scope: '' @ ErrorText E err)))
        | Inr cs \<Rightarrow>
       (case NewBareMetalMachineScope \<lparr>bp_Client = Some E, bp_Machine = Some machine, bp_Cluster = Some cluster,
            bp_VultrBareMetalMachine = Some bm, bp_VultrCluster = Some vultrCluster\<rparr> of
          Inl err \<Rightarrow> ret (no_requeue, Some (Err (''failed to create bare metal machine scope: '' @ ErrorText E err)))
        | Inr bsc \<Rightarrow> VultrBareMetalMachine_run_scopes E cs bsc deleting))))"

definition VultrBareMetalMachine_Reconcile ::
  "'w env \<Rightarrow> NamespacedName \<Rightarrow> (('w, VultrBareMetalMachine) st, Result \<times> error option) comp" where
  "VultrBareMetalMachine_Reconcile E req =
     try_then (kube_call (GetVultrBareMetalMachine E req))
       (\<lambda>err. if IsNotFound E err then ret (no_requeue, None) else ret (no_requeue, Some err))
       (\<lambda>bm0. and_then (modify_obj (\<lambda>_. bm0)) (\<lambda>_.
     let deleting = (om_DeletionTimestamp (bm_meta bm0) \<noteq> None) in
     try_then (kube_call (GetOwnerMachine E (bm_meta bm0)))
       (\<lambda>err. ret (no_requeue, Some err))
       (\<lambda>owner. case owner of
           None \<Rightarrow> ret (no_requeue, None)
         | Some machine \<Rightarrow>
     try_then (kube_call (GetClusterFromMetadata E (mc_meta machine)))
       (\<lambda>err. ret (no_requeue, None))
       (\<lambda>cluster.
     and_then (ensure_paused (EnsurePausedBM E) cluster)
       (\<lambda>(isPaused, requeue, err).
         if err \<noteq> None \<or> isPaused \<or> requeue then ret (no_requeue, err)
         else VultrBareMetalMachine_with_cluster E machine cluster deleting)))))"

section \<open>Watches\<close>

definition VultrClusterToVultrBareMetalMachines ::
  "'w env \<Rightarrow> watched \<Rightarrow> (('w, 'o) st, NamespacedName list option) comp" where
  "VultrClusterToVultrBareMetalMachines E w = cluster_to_requests E
     (\<lambda>m. \<not> (ir_Name (mc_InfrastructureRef m) = [] \<or>
              ir_Kind (mc_InfrastructureRef m) \<noteq> ''VultrBareMetalMachine'')) w"

section \<open>The contracts\<close>

lemma is_bare_metal_create_simps [simp]:
  "is_bare_metal_create (CallBareMetalCreate req)"
  "\<not> is_bare_metal_create (CallBareMetalGet i)" "\<not> is_bare_metal_create (CallBareMetalList opts)"
  "\<not> is_bare_metal_create (CallBareMetalDelete i)" "\<not> is_bare_metal_create (CallSSHKeyGet k)"
  "\<not> is_bare_metal_create (CallSecretGet key)" "\<not> is_bare_metal_create (CallLBGet i)"
  "\<not> is_bare_metal_create (CallLBUpdate i lreq)" "\<not> is_bare_metal_create (PatchVultrBareMetalMachine bm)"
  "\<not> is_bare_metal_create (CallListVPCInfo i)" "\<not> is_bare_metal_create (CallAttachVPC i v)"
  "\<not> is_bare_metal_create (Eventf t r a nt args)"
  by (simp_all add: is_bare_metal_create_def)

lemma emits_server_missing [emit_rules]:
  "(\<And>t r a nt args. \<not> A (Eventf t r a nt args)) \<Longrightarrow> emits A n (server_missing E i)"
  unfolding server_missing_def Let_def by (intro emit_rules) auto

lemma emits_adopt_server [emit_rules]:
  "(\<And>t r a nt args. \<not> A (Eventf t r a nt args)) \<Longrightarrow> emits A n (adopt_server server)"
  unfolding adopt_server_def by (intro emit_rules) auto

lemma emits_server_create_failed [emit_rules]:
  "(\<And>t r a nt args. \<not> A (Eventf t r a nt args)) \<Longrightarrow> emits A n (server_create_failed E err)"
  unfolding server_create_failed_def by (intro emit_rules) auto

lemma emits_create_server_step:
  assumes "\<And>t r a nt args. \<not> A (Eventf t r a nt args)"
    and "\<And>key. \<not> A (CallSecretGet key)" and "\<And>k. \<not> A (CallSSHKeyGet k)"
  shows "emits A 1 (create_server_step E cs bsc)"
proof -
  have "emits A (1 + 0) (create_server_step E cs bsc)"
    unfolding create_server_step_def
    by (intro emits_try_then emits_CreateBareMetalServer emit_rules) (use assms in auto)
  then show ?thesis by simp
qed

interpretation bm_foc: find_or_create CallBareMetalList
  "\<lambda>cs. BareMetal_List (BareMetal (cs_clients cs))" "\<lambda>server. TagsOwnedByMachine (bs_Tags server)"
  bare_metal_list_options FindBareMetalServerByTags CallBareMetalGet
  "\<lambda>cs. BareMetal_Get (BareMetal (cs_clients cs))" GetBareMetalServer CallBareMetalDelete
  "\<lambda>cs. BareMetal_Delete (BareMetal (cs_clients cs))" DeleteBareMetalServer
  is_bare_metal_create GetServerID BareMetalMachineScope_Name cs "BareMetalMachineScope_Role E bsc"
  "server_missing E" adopt_server "create_server_step E cs bsc" "findOrCreateServer E cs bsc"
  for E cs bsc
proof (unfold_locales, goal_cases)
  case 7
  show ?case by (rule emits_create_server_step) simp_all
qed (auto simp: findOrCreateServer_def Let_def intro!: emit_rules)

lemma keeps_obj_delete_known_server [frame_rules]: "keeps_obj (delete_known_server E cs bsc i)"
  unfolding delete_known_server_def by (intro frame_rules)

lemma keeps_obj_delete_remaining_server [frame_rules]: "keeps_obj (delete_remaining_server cs i r)"
  unfolding delete_remaining_server_def by (intro frame_rules)

lemma delete_remaining_server_again:
  "wp (delete_remaining_server cs i r) (\<lambda>(res, err) _. RequeueAfter res > 0 \<or> err \<noteq> None) (\<lambda>_. True) s"
proof -
  have "wp (DeleteBareMetalServer cs (bs_ID r)) (\<lambda>_ _. True) (\<lambda>_. True) s"
    by (simp add: wp_def split: outcome.split)
  then show ?thesis
    unfolding delete_remaining_server_def
    by (auto simp: wp_rules bareMetalNotFoundRequeue_def Second_def elim!: wp_mono split: sum.splits)
qed

lemma finish_server_delete_apply:
  "finish_server_delete E deleted s = Ret (no_requeue, None)
     (s\<lparr>trace := trace s @ (if deleted then [] else
          [Eventf EventTypeNormal ''NoServerFound'' ''NotFound'' ''No bare metal server to delete'' []]),
        obj := bm_RemoveFinalizer E BareMetalMachineFinalizer (obj s)\<rparr>)"
  by (simp add: finish_server_delete_def)

lemma bm_set_condition_frame [simp]:
  "bm_meta (bm_set_condition E status reason message now m) = bm_meta m"
  "bm_Spec (bm_set_condition E status reason message now m) = bm_Spec m"
  "GetServerID (bm_set_condition E status reason message now m) = GetServerID m"
  "BareMetalMachineScope_Name (bm_set_condition E status reason message now m) = BareMetalMachineScope_Name m"
  by (simp_all add: bm_set_condition_def GetServerID_def BareMetalMachineScope_GetProviderID_def
      BareMetalMachineScope_Name_def)

interpretation bm_delete: delete_driver CallBareMetalList
  "\<lambda>cs. BareMetal_List (BareMetal (cs_clients cs))" "\<lambda>server. TagsOwnedByMachine (bs_Tags server)"
  bare_metal_list_options FindBareMetalServerByTags CallBareMetalGet
  "\<lambda>cs. BareMetal_Get (BareMetal (cs_clients cs))" GetBareMetalServer CallBareMetalDelete
  "\<lambda>cs. BareMetal_Delete (BareMetal (cs_clients cs))" DeleteBareMetalServer
  GetServerID BareMetalMachineScope_Name "\<lambda>bm. om_Finalizers (bm_meta bm)" cs
  "BareMetalMachineScope_Role E bsc"
  "\<lambda>w. bm_set_condition E ConditionFalse BareMetalDeletingReason ''Deleting the bare metal server'' (Now E w)"
  "delete_known_server E cs bsc" "\<lambda>_. delete_remaining_server cs" "finish_server_delete E"
  "VultrBareMetalMachine_reconcileDelete E cs bsc"
  for E cs bsc
proof (unfold_locales, goal_cases)
  case 7
  show ?case by (rule delete_remaining_server_again)
next
  case 8
  show ?case by (simp add: wp_Ret [OF finish_server_delete_apply])
qed (auto simp: VultrBareMetalMachine_reconcileDelete_def Let_def
       and_then_def [of "BareMetalMachineScope_SetReadyCondition _ _ _ _"] and_then_def [of get_obj]
       intro: frame_rules)

end
