(* ===== verification/BareMetal_Safety.thy ===== *)
theory BareMetal_Safety
  imports BareMetal_Controller
begin

text \<open>
  What the VultrBareMetalMachine controller does and never does: when it creates a server,
  when it reports a machine ready, which failures are final, how it leaves the load balancer,
  and when it gives the finalizer up. The facts on the search, the creation and the
  deletion come from the interpretations \<open>bm_foc\<close> and \<open>bm_delete\<close>.
\<close>

section \<open>Effects of the steps\<close>

lemma emits_set_server_details [emit_rules]: "emits A n (set_server_details server)"
  unfolding set_server_details_def by (intro emit_rules)

lemma emits_check_server_status [emit_rules]:
  "(\<And>t r a nt args. \<not> A (Eventf t r a nt args)) \<Longrightarrow> emits A n (check_server_status E server)"
  unfolding check_server_status_def Let_def by (intro emit_rules) auto

lemma emits_attach_vpc [emit_rules]:
  "(\<And>t r a nt args. \<not> A (Eventf t r a nt args)) \<Longrightarrow> (\<And>i. \<not> A (CallListVPCInfo i)) \<Longrightarrow>
     (\<And>i v. \<not> A (CallAttachVPC i v)) \<Longrightarrow> emits A n (attach_vpc E cs server)"
  unfolding attach_vpc_def Let_def case_prod_beta by (intro emit_rules) auto

lemma emits_server_join_load_balancer [emit_rules]:
  "(\<And>t r a nt args. \<not> A (Eventf t r a nt args)) \<Longrightarrow> (\<And>l. \<not> A (CallLBGet l)) \<Longrightarrow>
     (\<And>l req. \<not> A (CallLBUpdate l req)) \<Longrightarrow> emits A n (server_join_load_balancer E cs bsc server)"
  unfolding server_join_load_balancer_def Let_def by (intro emit_rules) auto

lemma emits_report_server_active [emit_rules]: "emits A n (report_server_active E server info)"
  unfolding report_server_active_def by (intro emit_rules)

lemma emits_reconcile_server [emit_rules]:
  assumes "\<And>t r a nt args. \<not> A (Eventf t r a nt args)" and "\<And>l. \<not> A (CallLBGet l)"
    and "\<And>l req. \<not> A (CallLBUpdate l req)" and "\<And>i. \<not> A (CallListVPCInfo i)"
    and "\<And>i v. \<not> A (CallAttachVPC i v)"
  shows "emits A n (reconcile_server E cs bsc server)"
  unfolding reconcile_server_def by (intro emit_rules) (use assms in auto)

lemma emits_BareMetalMachineScope_Close [emit_rules]:
  "(\<And>bm. \<not> A (PatchVultrBareMetalMachine bm)) \<Longrightarrow> emits A n (BareMetalMachineScope_Close E bsc)"
  unfolding BareMetalMachineScope_Close_def by (intro emit_rules) auto

lemma emits_reconcile_bootstrapped_server_create:
  "emits is_bare_metal_create 1 (reconcile_bootstrapped_server E cs bsc)"
proof -
  have "emits is_bare_metal_create (1 + 0) (reconcile_bootstrapped_server E cs bsc)"
    unfolding reconcile_bootstrapped_server_def
    by (intro emits_try_then bm_foc.foc_emits emit_rules) simp_all
  then show ?thesis by simp
qed

lemma emits_bm_reconcileNormal_create:
  "emits is_bare_metal_create 1 (VultrBareMetalMachine_reconcileNormal E cs bsc)"
  unfolding VultrBareMetalMachine_reconcileNormal_def
  by (intro emit_rules emits_reconcile_bootstrapped_server_create)

lemma emits_bm_reconcileDelete_create:
  "emits is_bare_metal_create 0 (VultrBareMetalMachine_reconcileDelete E cs bsc)"
  unfolding VultrBareMetalMachine_reconcileDelete_def delete_known_server_def delete_remaining_server_def
    finish_server_delete_def Let_def
  by (intro emit_rules) simp_all

lemma emits_VultrBareMetalMachine_run_scopes_create:
  "emits is_bare_metal_create 1 (VultrBareMetalMachine_run_scopes E cs bsc deleting)"
proof -
  have "emits is_bare_metal_create (1 + 0) (VultrBareMetalMachine_run_scopes E cs bsc deleting)"
    unfolding VultrBareMetalMachine_run_scopes_def VultrBareMetalMachine_close_after_def
    by (intro emits_deferred emits_if emits_bm_reconcileNormal_create
        emits_mono [OF emits_bm_reconcileDelete_create] emit_rules) simp_all
  then show ?thesis by simp
qed

text \<open>
  Whatever the Vultr API and the Kubernetes API answer, one call of \<open>Reconcile\<close> orders at
  most one bare metal server; this holds for runs that return and for runs that panic.
\<close>

lemma bare_metal_reconcile_creates_at_most_one:
  "emits is_bare_metal_create 1 (VultrBareMetalMachine_Reconcile E req)"
  unfolding VultrBareMetalMachine_Reconcile_def VultrBareMetalMachine_with_cluster_def Let_def case_prod_beta
  by (intro emit_rules emits_VultrBareMetalMachine_run_scopes_create)

section \<open>Creation\<close>

lemma GetServerID_frame [simp]:
  "GetServerID (bm_AddFinalizer E f m) = GetServerID m"
  "BareMetalMachineScope_Name (bm_AddFinalizer E f m) = BareMetalMachineScope_Name m"
  by (simp_all add: GetServerID_def BareMetalMachineScope_GetProviderID_def BareMetalMachineScope_Name_def)

lemma bm_reconcileNormal_wp:
  assumes "wp (reconcile_bootstrapped_server E cs bsc) (\<lambda>_. Q) Q
      (s\<lparr>obj := bm_AddFinalizer E BareMetalMachineFinalizer (obj s)\<rparr>)"
    and "\<And>v. Q (s\<lparr>obj := v\<rparr>)"
  shows "wp (VultrBareMetalMachine_reconcileNormal E cs bsc) (\<lambda>_. Q) Q s"
  using assms assms(2) [of "obj s"] unfolding VultrBareMetalMachine_reconcileNormal_def
  by (simp add: wp_rules)

lemma reconcile_bootstrapped_server_wp:
  assumes "wp (findOrCreateServer E cs bsc) (\<lambda>_. Q) Q s"
    and "\<And>server s'. Q s' \<Longrightarrow> wp (reconcile_server E cs bsc server) (\<lambda>_. Q) Q s'"
  shows "wp (reconcile_bootstrapped_server E cs bsc) (\<lambda>_. Q) Q s"
  unfolding reconcile_bootstrapped_server_def wp_try_then
  by (rule wp_mono [OF assms(1)]) (auto simp: wp_rules assms(2) split: sum.split option.split)

lemma reconcile_server_no_create:
  "wp (reconcile_server E cs bsc server) (\<lambda>_. appends is_bare_metal_create 0 s')
     (appends is_bare_metal_create 0 s') s'"
  by (rule emits_wp) (intro emit_rules; simp)

text \<open>The notion of theory \<open>Drivers\<close> for a bare metal machine: its servers are listed by its name tag.\<close>

definition server_created_after_search ::
  "'w env \<Rightarrow> 'w ClusterScope \<Rightarrow> BareMetalMachineScope \<Rightarrow> ('w, VultrBareMetalMachine) st \<Rightarrow>
     ('w, VultrBareMetalMachine) st \<Rightarrow> bool" where
  "server_created_after_search E cs bsc s =
    (let name = BareMetalMachineScope_Name (obj s) in
     created_after_search is_bare_metal_create CallBareMetalList (BareMetal_List (BareMetal (cs_clients cs)))
       (bare_metal_list_options name)
       (\<lambda>server. TagsOwnedByMachine (bs_Tags server)
          (MachineTagParams cs name (BareMetalMachineScope_Role E bsc)))
       (GetServerID (obj s) = []) s)"

text \<open>
  A server is ordered only when the machine has no provider ID and a complete listing by
  its name tag, all pages of it, held no server that belongs to it; the listing comes
  before every other call. This holds on every path, panics included. In particular a
  machine with a provider ID never gets a second server, whatever the API answers.
\<close>

lemma bare_metal_created_only_after_search:
  "wp (VultrBareMetalMachine_reconcileNormal E cs bsc)
     (\<lambda>_. server_created_after_search E cs bsc s) (server_created_after_search E cs bsc s) s"
  unfolding server_created_after_search_def Let_def
proof (rule bm_reconcileNormal_wp, rule reconcile_bootstrapped_server_wp, goal_cases)
  case 1
  show ?case
    using bm_foc.foc_created_after_search
      [of E cs bsc "s\<lparr>obj := bm_AddFinalizer E BareMetalMachineFinalizer (obj s)\<rparr>"]
    by simp
next
  case (2 server s')
  show ?case
    by (rule wp_mono [OF reconcile_server_no_create]) (erule created_after_search_trans [OF 2])+
qed (simp add: created_after_search_quiet)

section \<open>Reporting a machine ready\<close>

definition bm_reports_ready :: "'w env \<Rightarrow> VultrBareMetalMachine \<Rightarrow> bool" where
  "bm_reports_ready E m \<longleftrightarrow> map_option fst (bm_ready_report E m) = Some ConditionTrue"

lemma bm_report_setters [simp]:
  "bm_ready_report E (BareMetalMachineScope_SetProviderID i m) = bm_ready_report E m"
  "bm_ready_report E (SetServerStatus v m) = bm_ready_report E m"
  "bm_ready_report E (SetHardware c r d m) = bm_ready_report E m"
  "bm_ready_report E (SetVPC vpc m) = bm_ready_report E m"
  "bm_ready_report E (BareMetalMachineScope_SetAddresses addrs m) = bm_ready_report E m"
  "bm_ready_report E (BareMetalMachineScope_SetReady m) = bm_ready_report E m"
  "bm_ready_report E (SetProvisioned m) = bm_ready_report E m"
  "bm_ready_report E (m\<lparr>bm_Status := (bm_Status m)\<lparr>bmst_Ready := b\<rparr>\<rparr>) = bm_ready_report E m"
  "bm_ready_report E (bm_AddFinalizer E f m) = bm_ready_report E m"
  "bm_ready_report E (bm_RemoveFinalizer E f m) = bm_ready_report E m"
  by (simp_all add: bm_ready_report_def bm_ready_condition_def VultrBareMetalMachine_GetConditions_def
      bm_setter_defs)

lemma bm_reports_ready_setters [simp]:
  "bm_reports_ready E (BareMetalMachineScope_SetProviderID i m) = bm_reports_ready E m"
  "bm_reports_ready E (SetServerStatus v m) = bm_reports_ready E m"
  "bm_reports_ready E (SetHardware c r d m) = bm_reports_ready E m"
  "bm_reports_ready E (SetVPC vpc m) = bm_reports_ready E m"
  "bm_reports_ready E (BareMetalMachineScope_SetAddresses addrs m) = bm_reports_ready E m"
  "bm_reports_ready E (BareMetalMachineScope_SetReady m) = bm_reports_ready E m"
  "bm_reports_ready E (SetProvisioned m) = bm_reports_ready E m"
  "bm_reports_ready E (m\<lparr>bm_Status := (bm_Status m)\<lparr>bmst_Ready := b\<rparr>\<rparr>) = bm_reports_ready E m"
  "bm_reports_ready E (bm_AddFinalizer E f m) = bm_reports_ready E m"
  "conditions_laws E \<Longrightarrow> bm_reports_ready E (bm_set_condition E st reason msg now m) \<longleftrightarrow> st = ConditionTrue"
  by (simp_all add: bm_reports_ready_def)

lemma wp_bm_SetTerminalFailure [wp_rules]:
  "wp (BareMetalMachineScope_SetTerminalFailure E reason msg) Q P s \<longleftrightarrow>
     (let m = bm_set_condition E ConditionFalse reason msg (Now E (world s)) (obj s) in
      Q () (s\<lparr>obj := m\<lparr>bm_Status := (bm_Status m)\<lparr>bmst_Ready := False\<rparr>\<rparr>\<rparr>))"
  by (simp add: BareMetalMachineScope_SetTerminalFailure_def wp_rules Let_def)

text \<open>
  What the steps before the report have noted: the provider ID and the status of the server,
  and the attachment of the VPC the machine asks for.
\<close>

definition server_noted :: "BareMetalServer \<Rightarrow> VultrBareMetalMachine \<Rightarrow> bool" where
  "server_noted server m \<longleftrightarrow>
     bms_ProviderID (bm_Spec m) = Some (ResourceIDToProviderID (bs_ID server)) \<and>
     bmst_SubscriptionStatus (bm_Status m) = Some (bs_Status server)"

definition vpc_noted :: "VultrBareMetalMachine \<Rightarrow> bool" where
  "vpc_noted m \<longleftrightarrow> bms_VPCID (bm_Spec m) = [] \<or>
     map_option bv_ID (bmst_VPC (bm_Status m)) = Some (bms_VPCID (bm_Spec m))"

lemma noted_setters [simp]:
  "server_noted server (bm_set_condition E st reason msg now m) = server_noted server m"
  "server_noted server (SetVPC vpc m) = server_noted server m"
  "server_noted server (BareMetalMachineScope_SetAddresses addrs m) = server_noted server m"
  "server_noted server (BareMetalMachineScope_SetReady m) = server_noted server m"
  "server_noted server (SetProvisioned m) = server_noted server m"
  "vpc_noted (bm_set_condition E st reason msg now m) = vpc_noted m"
  "vpc_noted (BareMetalMachineScope_SetAddresses addrs m) = vpc_noted m"
  "vpc_noted (BareMetalMachineScope_SetReady m) = vpc_noted m"
  "vpc_noted (SetProvisioned m) = vpc_noted m"
  "vpc_noted (SetVPC (Some v) m) \<longleftrightarrow> bms_VPCID (bm_Spec m) = [] \<or> bv_ID v = bms_VPCID (bm_Spec m)"
  by (simp_all add: server_noted_def vpc_noted_def bm_setter_defs VultrBareMetalMachine_SetConditions_def)

lemma check_server_status_wp:
  assumes "conditions_laws E" and "\<not> bm_reports_ready E (obj s)"
  shows "wp (check_server_status E server)
    (\<lambda>early s'. case early of
        Some r \<Rightarrow> \<not> bm_reports_ready E (obj s')
      | None \<Rightarrow> obj s' = obj s \<and> bs_Status server = SubscriptionStatusActive) (\<lambda>_. True) s"
  using assms unfolding check_server_status_def Let_def by (auto simp: wp_rules Let_def)

lemma attach_vpc_wp:
  assumes "conditions_laws E" and "\<not> bm_reports_ready E (obj s)" and "server_noted server (obj s)"
  shows "wp (attach_vpc E cs server)
    (\<lambda>r s'. \<not> bm_reports_ready E (obj s') \<and>
       (case r of Inl early \<Rightarrow> True | Inr info \<Rightarrow> server_noted server (obj s') \<and> vpc_noted (obj s')))
    (\<lambda>_. True) s"
proof -
  let ?vpc = "bms_VPCID (bm_Spec (obj s))"
  have "wp (EnsureBareMetalVPC cs (bs_ID server) ?vpc)
      (\<lambda>r s'. obj s' = obj s \<and> (\<forall>v. r = Inr (True, Some v) \<longrightarrow> vpc_ID v = ?vpc)) (\<lambda>_. True) s"
    unfolding EnsureBareMetalVPC_def
    by (auto simp: wp_rules find_Some_iff split: sum.split option.split)
  then show ?thesis
    using assms unfolding attach_vpc_def Let_def
    by (auto simp: wp_rules Let_def vpc_noted_def [of "obj s"] elim!: wp_mono
        split: sum.splits option.splits prod.splits)
qed

lemma server_join_load_balancer_wp:
  assumes "conditions_laws E" and "\<not> bm_reports_ready E (obj s)"
  shows "wp (server_join_load_balancer E cs bsc server)
    (\<lambda>early s'. case early of
        Some r \<Rightarrow> \<not> bm_reports_ready E (obj s')
      | None \<Rightarrow> obj s' = obj s \<and> (BareMetalMachineScope_IsControlPlane E bsc \<longrightarrow>
          member_confirmed cs (APIServerLoadBalancerID cs) (bs_ID server))) (\<lambda>_. True) s"
  using assms EnsureLoadBalancerMember_confirms [of cs "APIServerLoadBalancerID cs" "bs_ID server" s]
  unfolding server_join_load_balancer_def Let_def
  by (auto simp: wp_rules elim!: wp_mono split: sum.splits)

text \<open>What a run that newly reports the bare metal machine ready established.\<close>

definition server_ready_established ::
  "'w env \<Rightarrow> 'w ClusterScope \<Rightarrow> BareMetalMachineScope \<Rightarrow> Result \<times> error option \<Rightarrow>
     VultrBareMetalMachine \<Rightarrow> bool" where
  "server_ready_established E cs bsc r m \<longleftrightarrow>
     r = (no_requeue, None) \<and> bmst_Ready (bm_Status m) \<and> bmst_Provisioned (bm_Status m) = Some True \<and>
     bmst_SubscriptionStatus (bm_Status m) = Some SubscriptionStatusActive \<and> vpc_noted m \<and>
     (\<exists>i. bms_ProviderID (bm_Spec m) = Some (ResourceIDToProviderID i) \<and>
        (BareMetalMachineScope_IsControlPlane E bsc \<longrightarrow>
           member_confirmed cs (APIServerLoadBalancerID cs) i))"

lemma report_server_active_ready:
  assumes "server_noted server (obj s)" and "bs_Status server = SubscriptionStatusActive"
    and "vpc_noted (obj s)"
    and "BareMetalMachineScope_IsControlPlane E bsc \<longrightarrow>
      member_confirmed cs (APIServerLoadBalancerID cs) (bs_ID server)"
  shows "wp (report_server_active E server info)
    (\<lambda>r s'. server_ready_established E cs bsc r (obj s')) (\<lambda>_. True) s"
proof -
  have flags: "bmst_Ready (bm_Status (SetProvisioned (BareMetalMachineScope_SetReady m)))"
    "bmst_Provisioned (bm_Status (SetProvisioned m)) = Some True" for m
    by (simp_all add: bm_setter_defs)
  have "server_ready_established E cs bsc (no_requeue, None) m"
    if "server_noted server m" "vpc_noted m" "bmst_Ready (bm_Status m)"
      "bmst_Provisioned (bm_Status m) = Some True" for m
    using that assms(2,4) unfolding server_ready_established_def server_noted_def by auto
  with assms(1,3) flags show ?thesis
    unfolding report_server_active_def by (simp add: wp_rules)
qed

lemma reconcile_server_ready:
  assumes E: "conditions_laws E" and s: "\<not> bm_reports_ready E (obj s)"
  shows "wp (reconcile_server E cs bsc server)
    (\<lambda>r s'. bm_reports_ready E (obj s') \<longrightarrow> server_ready_established E cs bsc r (obj s')) (\<lambda>_. True) s"
    (is "wp _ ?Q _ s")
proof -
  have join: "wp (and_then (server_join_load_balancer E cs bsc server) (\<lambda>early. case early of
        Some r \<Rightarrow> ret r | None \<Rightarrow> report_server_active E server info)) ?Q (\<lambda>_. True) s1"
    if "\<not> bm_reports_ready E (obj s1)" "server_noted server (obj s1)" "vpc_noted (obj s1)"
      "bs_Status server = SubscriptionStatusActive" for s1 info
    unfolding wp_and_then [of "server_join_load_balancer E cs bsc server"]
    by (rule wp_mono [OF server_join_load_balancer_wp [OF E that(1)]])
      (use that in \<open>auto simp: wp_ret split: option.splits
         intro!: wp_mono [OF report_server_active_ready [of server _ E bsc cs]]\<close>)
  have attach: "wp (try_then (attach_vpc E cs server) ret (\<lambda>info.
      and_then (server_join_load_balancer E cs bsc server) (\<lambda>early. case early of
        Some r \<Rightarrow> ret r | None \<Rightarrow> report_server_active E server info))) ?Q (\<lambda>_. True) s1"
    if "\<not> bm_reports_ready E (obj s1)" "server_noted server (obj s1)"
      "bs_Status server = SubscriptionStatusActive" for s1
    unfolding wp_try_then [of "attach_vpc E cs server"]
    by (rule wp_mono [OF attach_vpc_wp [OF E that(1,2)]])
      (use that(3) join in \<open>auto simp: wp_ret split: sum.splits\<close>)
  let ?s = "s\<lparr>obj := SetHardware (bs_CPUCount server) (bs_RAM server) (bs_Disk server)
     (SetServerStatus (bs_Status server) (BareMetalMachineScope_SetProviderID (bs_ID server) (obj s)))\<rparr>"
  have noted: "server_noted server (obj ?s)" by (simp add: server_noted_def bm_setter_defs)
  from s have "\<not> bm_reports_ready E (obj ?s)" by simp
  then have "wp (check_server_status E server) (\<lambda>early s'. case early of
        Some r \<Rightarrow> \<not> bm_reports_ready E (obj s')
      | None \<Rightarrow> obj s' = obj ?s \<and> bs_Status server = SubscriptionStatusActive) (\<lambda>_. True) ?s"
    by (intro check_server_status_wp E)
  then show ?thesis
    unfolding reconcile_server_def set_server_details_def
    using noted \<open>\<not> bm_reports_ready E (obj ?s)\<close> attach
    by (auto simp: wp_and_then wp_modify_obj wp_ret elim!: wp_mono split: option.splits)
qed

lemma findOrCreateServer_not_ready:
  assumes "conditions_laws E" and "\<not> bm_reports_ready E (obj s)"
  shows "wp (findOrCreateServer E cs bsc) (\<lambda>_ s'. \<not> bm_reports_ready E (obj s')) (\<lambda>_. True) s"
  unfolding findOrCreateServer_def create_server_step_def server_create_failed_def adopt_server_def
    server_missing_def Let_def
  using assms
  by (auto simp: wp_rules intro!: wp_keeps_obj [OF keeps_obj_bare_metal(1)]
      wp_keeps_obj [OF keeps_obj_FindBareMetalServerByTags] wp_keeps_obj [OF keeps_obj_CreateBareMetalServer]
      split: sum.split option.split)

text \<open>
  C9. A reconcile that turns the Ready condition of a bare metal machine to True ends without
  error or requeue, has recorded the server's provider ID and its active status, has seen
  the VPC of the spec attached and noted it, and, for a control-plane machine, has got the
  load balancer's word that the server is a member.
\<close>

theorem bare_metal_ready_only_when_joined:
  assumes "conditions_laws E" and "\<not> bm_reports_ready E (obj s)"
  shows "wp (VultrBareMetalMachine_reconcileNormal E cs bsc)
    (\<lambda>r s'. bm_reports_ready E (obj s') \<longrightarrow> server_ready_established E cs bsc r (obj s')) (\<lambda>_. True) s"
proof -
  let ?s = "s\<lparr>obj := bm_AddFinalizer E BareMetalMachineFinalizer (obj s)\<rparr>"
  have "wp (reconcile_bootstrapped_server E cs bsc)
      (\<lambda>r s'. bm_reports_ready E (obj s') \<longrightarrow> server_ready_established E cs bsc r (obj s')) (\<lambda>_. True) ?s"
    unfolding reconcile_bootstrapped_server_def wp_try_then
    by (rule wp_mono [OF findOrCreateServer_not_ready])
      (use assms in \<open>auto simp: wp_ret split: sum.split option.split intro!: reconcile_server_ready\<close>)
  then show ?thesis
    unfolding VultrBareMetalMachine_reconcileNormal_def using assms by (simp add: wp_rules)
qed

section \<open>Terminal failures\<close>

lemma bm_reconcileNormal_terminal:
  "BareMetalMachineScope_HasTerminalFailure E (obj s) \<Longrightarrow>
     VultrBareMetalMachine_reconcileNormal E cs bsc s = Ret (no_requeue, None) s"
  by (simp add: VultrBareMetalMachine_reconcileNormal_def)

lemma bm_SetTerminalFailure_apply:
  "BareMetalMachineScope_SetTerminalFailure E reason msg s =
     Ret () (s\<lparr>obj := (bm_set_condition E ConditionFalse reason msg (Now E (world s)) (obj s))
        \<lparr>bm_Status := (bm_Status (bm_set_condition E ConditionFalse reason msg (Now E (world s)) (obj s)))
           \<lparr>bmst_Ready := False\<rparr>\<rparr>\<rparr>)"
  by (simp add: BareMetalMachineScope_SetTerminalFailure_def)

text \<open>
  C31. A VPC that the server's plan does not support is a terminal failure, seen through the
  wrapping of the attach error: the run ends without retry, the machine is not ready and
  says why, and every later reconcile of it returns at once, in whatever world and with whatever scopes of the cluster and the
  machine, with no effect and no change, until the object itself is changed.
\<close>

theorem bare_metal_vpc_failure_is_final:
  assumes "conditions_laws E" and "wrap_laws E" and "bms_VPCID (bm_Spec (obj s)) = vpc" and "vpc \<noteq> []"
    and "BareMetal_ListVPCInfo (BareMetal (cs_clients cs)) (bs_ID server) (world s) = (Inr infos, w1)"
    and "\<forall>info\<in>set infos. vpc_ID info \<noteq> vpc"
    and "BareMetal_AttachVPC (BareMetal (cs_clients cs)) (bs_ID server) vpc w1 = (Some e, w2)"
    and "IsTerminalVPCAttachError E (Some e)"
  shows "\<exists>s'. attach_vpc E cs server s = Ret (Inl (no_requeue, None)) s' \<and> \<not> bmst_Ready (bm_Status (obj s')) \<and>
    bm_ready_report E (obj s') = Some (ConditionFalse, BareMetalVPCAttachFailedReason) \<and>
    (\<forall>cs' bsc w tr. VultrBareMetalMachine_reconcileNormal E cs' bsc \<lparr>world = w, trace = tr, obj = obj s'\<rparr> =
       Ret (no_requeue, None) \<lparr>world = w, trace = tr, obj = obj s'\<rparr>)"
proof -
  let ?err = "Wrap (''failed to attach VPC '' @ quote vpc @ '' to bare metal server '' @ quote (bs_ID server)) e"
  let ?s1 = "s\<lparr>world := w2, trace := trace s @ [CallListVPCInfo (bs_ID server), CallAttachVPC (bs_ID server) vpc]\<rparr>"
  let ?s2 = "?s1\<lparr>trace := trace ?s1 @ [Eventf EventTypeWarning ''VPCAttachFailed'' ''Failed'' (ErrorText E ?err) []]\<rparr>"
  let ?m = "bm_set_condition E ConditionFalse BareMetalVPCAttachFailedReason (ErrorText E ?err) (Now E w2) (obj s)"
  let ?s3 = "?s2\<lparr>obj := ?m\<lparr>bm_Status := (bm_Status ?m)\<lparr>bmst_Ready := False\<rparr>\<rparr>\<rparr>"
  have "find (\<lambda>info. vpc_ID info = vpc) infos = None" using assms(6) by (simp add: find_None_iff)
  then have ensure: "EnsureBareMetalVPC cs (bs_ID server) vpc s = Ret (Inl ?err) ?s1"
    using assms(5,7) by (simp add: EnsureBareMetalVPC_def call_def try_then_def and_then_def)
  have terminal: "IsTerminalVPCAttachError E (Some ?err)"
    by (rule IsTerminalVPCAttachError_Wrap [OF assms(2,8)])
  have run: "attach_vpc E cs server s = Ret (Inl (no_requeue, None)) ?s3"
    using assms(3,4) ensure terminal
    by (simp add: attach_vpc_def and_then_def try_then_def bm_SetTerminalFailure_apply del: ErrorText.simps)
  have report: "bm_ready_report E (obj ?s3) = Some (ConditionFalse, BareMetalVPCAttachFailedReason)"
    using assms(1) by simp
  then have "BareMetalMachineScope_HasTerminalFailure E (obj ?s3)"
    by (simp only: BareMetalMachineScope_HasTerminalFailure_iff) blast
  then have later: "VultrBareMetalMachine_reconcileNormal E cs' bsc \<lparr>world = w, trace = tr, obj = obj ?s3\<rparr> =
       Ret (no_requeue, None) \<lparr>world = w, trace = tr, obj = obj ?s3\<rparr>" for cs' bsc w tr
    by (intro bm_reconcileNormal_terminal) simp
  have "\<not> bmst_Ready (bm_Status (obj ?s3))" by simp
  with run report later show ?thesis by blast
qed

section \<open>Deletion\<close>

text \<open>
  A deletion that ends without an error and without asking to be called again has removed
  the finalizer, and only the finalizer, and reports the machine as deleting: a deleted
  bare metal machine never stays behind unattended.
\<close>

lemma bare_metal_delete_ends_or_retries:
  assumes "conditions_laws E" and "finalizer_laws E"
    and "VultrBareMetalMachine_reconcileDelete E cs bsc s = Ret (r, None) s'" and "RequeueAfter r = 0"
  shows "set (om_Finalizers (bm_meta (obj s'))) =
      set (om_Finalizers (bm_meta (obj s))) - {BareMetalMachineFinalizer} \<and>
    bm_ready_report E (obj s') = Some (ConditionFalse, BareMetalDeletingReason) \<and>
    bm_Spec (obj s') = bm_Spec (obj s)"
proof -
  from assms(3,4) obtain d s1 where fin: "finish_server_delete E d s1 = Ret (r, None) s'"
    and s1: "obj s1 = bm_set_condition E ConditionFalse BareMetalDeletingReason
      ''Deleting the bare metal server'' (Now E (world s)) (obj s)"
    by (rule bm_delete.driver_returns_done)
  from fin have "obj s' = bm_RemoveFinalizer E BareMetalMachineFinalizer (obj s1)"
    by (auto simp: finish_server_delete_apply)
  then show ?thesis using assms(1,2) s1 by simp
qed


lemma is_bare_metal_delete_simps [simp]:
  "\<not> is_bare_metal_delete (CallLBGet l)" "\<not> is_bare_metal_delete (CallLBUpdate l req)"
  by (simp_all add: is_bare_metal_delete_def)





section \<open>Closing\<close>

lemma BareMetalMachineScope_Close_apply:
  "BareMetalMachineScope_Close E bsc s =
     Ret (fst (PatchBM E (bsc_patchHelper bsc) (obj s) (world s)))
       (s\<lparr>world := snd (PatchBM E (bsc_patchHelper bsc) (obj s) (world s)),
          trace := trace s @ [PatchVultrBareMetalMachine (obj s)]\<rparr>)"
  by (simp add: BareMetalMachineScope_Close_def call_def and_then_def split: prod.split)

definition VultrBareMetalMachine_handler ::
  "'w env \<Rightarrow> 'w ClusterScope \<Rightarrow> BareMetalMachineScope \<Rightarrow> bool \<Rightarrow>
     (('w, VultrBareMetalMachine) st, Result \<times> error option) comp" where
  "VultrBareMetalMachine_handler E cs bsc deleting =
     (if deleting then VultrBareMetalMachine_reconcileDelete E cs bsc
      else VultrBareMetalMachine_reconcileNormal E cs bsc)"

text \<open>
  Whatever the handler does, return, fail or panic, the bare metal machine it leaves is
  patched to Kubernetes as the last effect of the run: the provider ID of a new server is
  written on every path. The handler's error and its requeue are kept.
\<close>

lemma bare_metal_always_closed:
  "VultrBareMetalMachine_run_scopes E cs bsc deleting s =
     closing PatchVultrBareMetalMachine (PatchBM E (bsc_patchHelper bsc))
       (VultrBareMetalMachine_handler E cs bsc deleting s)"
  unfolding VultrBareMetalMachine_run_scopes_def VultrBareMetalMachine_handler_def [symmetric] closing_def
  by (rule deferred_apply)
    (simp_all add: VultrBareMetalMachine_close_after_def BareMetalMachineScope_Close_apply keep_error_def
      closed_def close_error_def)

end
