(* ===== verification/Server_View.thy ===== *)
theory Server_View
  imports BareMetal_Safety Counting
begin

text \<open>
  The VultrBareMetalMachine controller against a cloud, like theory \<open>Cloud_View\<close> for virtual machines. Servers are found and
  owned by tags alone, and the additional tags of a spec go into the create request unchecked: a spec with another
  machine's name tag makes a server that the other machine recognises too. So again what is counted is what was
  made for a machine, by its request, and no machine gets two, whatever tags the specs carry. Unlike an instance, a
  server whose tags were not applied could not be found again; that the API applies the tags of a request is part of
  the laws, since the sources say nothing of a server without them. The ID of a new server is kept by the
  closing patch only, so a run that fails there leaves the machine without an ID: the search by tags is what keeps the
  next run from a second server.
\<close>

section \<open>The laws of the cloud\<close>

type_synonym 'w server_view = "'w \<Rightarrow> (BareMetalCreate \<times> BareMetalServer) list"

definition server_made_for :: "BareMetalCreate \<Rightarrow> BuildTagParams \<Rightarrow> bool" where
  "server_made_for req p \<longleftrightarrow> ordered_for (bcr_Label req) (bcr_Tags req) p"

text \<open>The request the controller sends for a machine is made for that machine alone, whatever tags the spec adds.\<close>

lemma bare_metal_request_made_for:
  "server_made_for (buildBareMetalCreateRequest spec (bt_Name p) keys u (BuildTags p)) q \<longleftrightarrow>
     bt_Name q = bt_Name p \<and> bt_ClusterUID q = bt_ClusterUID p"
  by (simp add: server_made_for_def buildBareMetalCreateRequest_def ordered_for_itself)

abbreviation server_owned :: "BareMetalServer \<Rightarrow> BuildTagParams \<Rightarrow> bool" where
  "server_owned \<equiv> \<lambda>server. TagsOwnedByMachine (bs_Tags server)"

abbreviation one_server_each :: "'w server_view \<Rightarrow> 'w \<Rightarrow> bool" where
  "one_server_each view w \<equiv> one_each server_made_for server_owned view w"

definition server_calls_law :: "'w env \<Rightarrow> 'w ClusterScope \<Rightarrow> 'w server_view \<Rightarrow> bool" where
  "server_calls_law E cs view \<longleftrightarrow>
     (\<forall>i. adds_nothing view (BareMetal_Get (BareMetal (cs_clients cs)) i)) \<and>
     (\<forall>opts. adds_nothing view (BareMetal_List (BareMetal (cs_clients cs)) opts)) \<and>
     (\<forall>i. adds_nothing view (BareMetal_Delete (BareMetal (cs_clients cs)) i)) \<and>
     (\<forall>i. adds_nothing view (BareMetal_ListVPCInfo (BareMetal (cs_clients cs)) i)) \<and>
     (\<forall>i v. adds_nothing view (BareMetal_AttachVPC (BareMetal (cs_clients cs)) i v)) \<and>
     shared_calls_law E cs view"

definition server_create_law :: "'w ClusterScope \<Rightarrow> 'w server_view \<Rightarrow> bool" where
  "server_create_law cs view \<longleftrightarrow>
     (\<forall>req w P. count view P (snd (BareMetal_Create (BareMetal (cs_clients cs)) req w)) \<le>
        count view P w + (if \<exists>v. set (bs_Tags v) = set (bcr_Tags req) \<and> P (req, v) then 1 else 0))"

definition server_listing_law :: "'w ClusterScope \<Rightarrow> ('w \<Rightarrow> BareMetalServer list) \<Rightarrow> bool" where
  "server_listing_law cs view \<longleftrightarrow>
     (\<forall>name w items reqs w'.
        listing (BareMetal_List (BareMetal (cs_clients cs))) (bare_metal_list_options name) w (Inr items) reqs w' \<longrightarrow>
        (\<forall>v\<in>set (view w'). NameTagFromName name \<in> set (bs_Tags v) \<longrightarrow> v \<in> set items))"

definition server_cloud_laws :: "'w env \<Rightarrow> 'w ClusterScope \<Rightarrow> 'w server_view \<Rightarrow> bool" where
  "server_cloud_laws E cs view \<longleftrightarrow>
     server_calls_law E cs view \<and> server_create_law cs view \<and> server_listing_law cs (\<lambda>w. map snd (view w))"

lemma server_cloud_laws_calls:
  assumes "server_cloud_laws E cs view"
  shows "adds_nothing view (BareMetal_Get (BareMetal (cs_clients cs)) i)"
    and "adds_nothing view (BareMetal_List (BareMetal (cs_clients cs)) opts)"
    and "adds_nothing view (BareMetal_Delete (BareMetal (cs_clients cs)) i)"
    and "adds_nothing view (BareMetal_ListVPCInfo (BareMetal (cs_clients cs)) i)"
    and "adds_nothing view (BareMetal_AttachVPC (BareMetal (cs_clients cs)) i v)"
    and "shared_calls_law E cs view"
  using assms by (simp_all add: server_cloud_laws_def server_calls_law_def)

lemma server_cloud_laws_create:
  assumes "server_cloud_laws E cs view"
  shows "count view P (snd (BareMetal_Create (BareMetal (cs_clients cs)) req w)) \<le>
    count view P w + (if \<exists>v. set (bs_Tags v) = set (bcr_Tags req) \<and> P (req, v) then 1 else 0)"
  using assms unfolding server_cloud_laws_def server_create_law_def by blast

section \<open>The services\<close>

lemma grows_server_services:
  assumes "server_cloud_laws E cs view"
  shows "grows (count view P) n (GetBareMetalServer cs i)"
    and "grows (count view P) n (DeleteBareMetalServer cs i)"
    and "grows (count view P) n (EnsureBareMetalVPC cs i v)"
  unfolding GetBareMetalServer_def DeleteBareMetalServer_def EnsureBareMetalVPC_def Let_def
  by (intro grow_rules server_cloud_laws_calls [OF assms])+

lemma grows_bare_metal_ssh_keys:
  assumes "server_cloud_laws E cs view"
  shows "grows (count view P) n (bare_metal_ssh_keys cs keys acc)"
  by (induction keys arbitrary: acc)
    (auto intro!: grow_rules grows_shared_services(1) [OF server_cloud_laws_calls(6) [OF assms]])

text \<open>A create adds at most one server, from a request with the machine's name and tags, and whatever tags the spec adds.\<close>

definition new_server ::
  "'w ClusterScope \<Rightarrow> string \<Rightarrow> VultrBareMetalMachine \<Rightarrow> BareMetalCreate \<times> BareMetalServer \<Rightarrow> bool" where
  "new_server cs role bm = (\<lambda>(req, v). set (bs_Tags v) = set (bcr_Tags req) \<and> bcr_Label req = BareMetalMachineScope_Name bm \<and>
     bcr_Tags req = BuildTags (MachineTagParams cs (BareMetalMachineScope_Name bm) role) @ bms_AdditionalTags (bm_Spec bm))"

lemma new_server_made:
  assumes "new_server cs role bm (req, v)" and "server_made_for req p"
  shows "bt_Name p = BareMetalMachineScope_Name bm \<and> bt_ClusterUID p = ClusterScope_UID cs"
  using assms ordered_for_own_tags [where extra = "bms_AdditionalTags (bm_Spec bm)"]
  by (auto simp: new_server_def server_made_for_def MachineTagParams_def)

lemma new_server_owned: "new_server cs role bm (req, v) \<Longrightarrow> server_made_for req p \<Longrightarrow> server_owned v p"
  by (auto simp: new_server_def server_made_for_def intro: ordered_for_owned)

lemma CreateBareMetalServer_count:
  assumes "server_cloud_laws E cs view"
    and n: "n = (if \<exists>v. new_server cs (BareMetalMachineScope_Role E bsc) (obj s) v \<and> P v then 1 else 0)"
  shows "wp (CreateBareMetalServer E cs bsc)
    (\<lambda>_ s'. count view P (world s') \<le> count view P (world s) + n)
    (\<lambda>s'. count view P (world s') \<le> count view P (world s) + n) s"
proof -
  have submit: "grows (count view P) n (submit_server cs name req)"
    if "bcr_Label req = BareMetalMachineScope_Name (obj s)"
      and "bcr_Tags req = BuildTags (MachineTagParams cs (BareMetalMachineScope_Name (obj s)) (BareMetalMachineScope_Role E bsc)) @
        bms_AdditionalTags (bm_Spec (obj s))" for name req
    unfolding submit_server_def Let_def
  proof (rule grows_and_then_last)
    have "(if \<exists>v. set (bs_Tags v) = set (bcr_Tags req) \<and> P (req, v) then 1 else 0) \<le> n"
      using that unfolding n new_server_def by auto
    then have "count view P (snd (BareMetal_Create (BareMetal (cs_clients cs)) req w)) \<le> count view P w + n" for w
      using server_cloud_laws_create [OF assms(1), of P req w] by linarith
    then show "grows (count view P) n (call (CallBareMetalCreate req) (BareMetal_Create (BareMetal (cs_clients cs)) req))"
      by (rule grows_call)
  qed (intro grow_rules)
  show ?thesis
    unfolding CreateBareMetalServer_def BareMetalMachineScope_GetBootstrapData_def Let_def
      wp_and_then [of get_obj] wp_get_obj
    by (intro grows_wp grow_rules grows_shared_services(4) [OF server_cloud_laws_calls(6) [OF assms(1)]]
        grows_bare_metal_ssh_keys [OF assms(1)] submit)
      (simp_all add: buildBareMetalCreateRequest_def)
qed

section \<open>The controller's steps\<close>

lemma grows_found_server_steps [grow_rules]:
  "grows f n (server_create_failed E err)" "grows f n (server_missing E i)" "grows f n (adopt_server v)"
  unfolding server_create_failed_def server_missing_def adopt_server_def
    BareMetalMachineScope_SetReadyCondition_def Let_def
  by (intro grow_rules)+

lemma create_server_step_count:
  assumes "server_cloud_laws E cs view"
    and "n = (if \<exists>v. new_server cs (BareMetalMachineScope_Role E bsc) (obj s) v \<and> P v then 1 else 0)"
  shows "wp (create_server_step E cs bsc)
    (\<lambda>_ s'. count view P (world s') \<le> count view P (world s) + n)
    (\<lambda>s'. count view P (world s') \<le> count view P (world s) + n) s"
  unfolding create_server_step_def
  by (rule wp_try_then_grows [OF CreateBareMetalServer_count [OF assms]]) (intro grow_rules)+

lemma grows_reconcile_server:
  assumes "server_cloud_laws E cs view"
  shows "grows (count view P) 0 (reconcile_server E cs bsc server)"
proof -
  have "grows (count view P) 0 (attach_vpc E cs server)"
    unfolding attach_vpc_def BareMetalMachineScope_SetTerminalFailure_def
      BareMetalMachineScope_SetReadyCondition_def Let_def
    by (intro grow_rules grows_server_services(3) [OF assms])
      (auto intro!: grow_rules split: prod.split)
  then show ?thesis
    unfolding reconcile_server_def set_server_details_def check_server_status_def server_join_load_balancer_def
      report_server_active_def BareMetalMachineScope_SetTerminalFailure_def
      BareMetalMachineScope_SetReadyCondition_def Let_def
    by (intro grow_rules grows_shared_services(2) [OF server_cloud_laws_calls(6) [OF assms]])
qed

section \<open>At most one server for each machine\<close>

interpretation bm_one: one_of_each CallBareMetalList
  "\<lambda>cs. BareMetal_List (BareMetal (cs_clients cs))" "\<lambda>server. TagsOwnedByMachine (bs_Tags server)"
  bare_metal_list_options FindBareMetalServerByTags CallBareMetalGet
  "\<lambda>cs. BareMetal_Get (BareMetal (cs_clients cs))" GetBareMetalServer CallBareMetalDelete
  "\<lambda>cs. BareMetal_Delete (BareMetal (cs_clients cs))" DeleteBareMetalServer
  is_bare_metal_create GetServerID BareMetalMachineScope_Name cs "BareMetalMachineScope_Role E bsc"
  "server_missing E" adopt_server "create_server_step E cs bsc" "findOrCreateServer E cs bsc"
  "server_cloud_laws E cs" server_made_for "new_server cs (BareMetalMachineScope_Role E bsc)"
  for E cs bsc
proof (unfold_locales, goal_cases)
  case (1 p p' i)
  then show ?case by (simp add: TagsOwnedByMachine_def)
next
  case (2 view n w items reqs w' q v r)
  then have "v \<in> set (map snd (view w'))" "NameTagFromName n \<in> set (bs_Tags v)"
    by (force, simp add: TagsOwnedByMachine_def MachineTagParams_def)
  with 2(1,2) show ?case unfolding server_cloud_laws_def server_listing_law_def by blast
next
  case (7 view k s P)
  show ?case by (rule create_server_step_count [OF 7])
next
  case (8 bm req v p)
  then show ?case by (rule new_server_made)
next
  case (9 bm req v p)
  then show ?case by (rule new_server_owned)
qed (simp_all add: server_cloud_laws_calls grows_server_services grow_rules)

lemma grows_bm_reconcileDelete:
  assumes "server_cloud_laws E cs view"
  shows "grows (count view P) 0 (VultrBareMetalMachine_reconcileDelete E cs bsc)"
  unfolding VultrBareMetalMachine_reconcileDelete_def delete_known_server_def delete_remaining_server_def
    finish_server_delete_def BareMetalMachineScope_SetReadyCondition_def Let_def
  by (intro grow_rules grows_server_services(2) [OF assms] bm_one.find_adds_nothing [OF assms]
      grows_shared_services(3) [OF server_cloud_laws_calls(6) [OF assms]])

lemma bm_reconcileNormal_one_each:
  assumes "server_cloud_laws E cs view"
  shows "keeps_one server_made_for server_owned view (VultrBareMetalMachine_reconcileNormal E cs bsc) s"
  unfolding keeps_one_def
proof (intro impI bm_reconcileNormal_wp reconcile_bootstrapped_server_wp)
  assume one: "one_server_each view (world s)"
  show "wp (findOrCreateServer E cs bsc) (\<lambda>_ s'. one_server_each view (world s'))
      (\<lambda>s'. one_server_each view (world s')) (s\<lparr>obj := bm_AddFinalizer E BareMetalMachineFinalizer (obj s)\<rparr>)"
    using bm_one.foc_one_each [OF assms] one unfolding keeps_one_def by simp
next
  fix i and s' :: "('a, VultrBareMetalMachine) st" assume "one_server_each view (world s')"
  then show "wp (reconcile_server E cs bsc i) (\<lambda>_ s'. one_server_each view (world s'))
      (\<lambda>s'. one_server_each view (world s')) s'"
    using keeps_one_grows [OF grows_reconcile_server [OF assms]] unfolding keeps_one_def by blast
qed simp

lemma bm_run_scopes_one_each:
  assumes "server_cloud_laws E cs view" and "\<And>old new. adds_nothing view (PatchBM E old new)"
  shows "keeps_one server_made_for server_owned view (VultrBareMetalMachine_run_scopes E cs bsc deleting) s"
proof -
  have close: "grows (count view P) 0 (BareMetalMachineScope_Close E bsc)" for P
    unfolding BareMetalMachineScope_Close_def by (intro grow_rules assms(2))
  show ?thesis
    unfolding VultrBareMetalMachine_run_scopes_def VultrBareMetalMachine_close_after_def
    by (intro keeps_one_deferred one_rules bm_reconcileNormal_one_each [OF assms(1)]
        keeps_one_grows [OF grows_bm_reconcileDelete [OF assms(1)]] keeps_one_grows [OF close])
qed

section \<open>The reconciler\<close>

text \<open>
  The laws for a whole \<^verbatim>\<open>Reconcile\<close>: the client it makes keeps those of the cloud, whatever the
  cluster, and what it asks Kubernetes makes no server.
\<close>

definition server_reconcile_laws :: "'w env \<Rightarrow> 'w server_view \<Rightarrow> bool" where
  "server_reconcile_laws E view \<longleftrightarrow>
     (\<forall>cluster vc cs. NewClusterScope E (cluster_scope_params cluster vc) = Inr cs \<longrightarrow> server_cloud_laws E cs view) \<and>
     (\<forall>n. adds_nothing view (GetVultrBareMetalMachine E n)) \<and>
     (\<forall>old new. adds_nothing view (PatchBM E old new)) \<and>
     (\<forall>cluster bm. adds_nothing view (EnsurePausedBM E cluster bm)) \<and>
     kube_reads_law E view"

lemma bm_Reconcile_one_each:
  assumes "server_reconcile_laws E view"
  shows "keeps_one server_made_for server_owned view (VultrBareMetalMachine_Reconcile E req) s"
  unfolding VultrBareMetalMachine_Reconcile_def VultrBareMetalMachine_with_cluster_def ensure_paused_def Let_def
  by (intro one_rules bm_run_scopes_one_each)
    (use assms in \<open>auto simp: server_reconcile_laws_def kube_reads_law_def\<close>)

text \<open>
  What can happen to the world, one step after the other: some VultrBareMetalMachine of some
  cluster is reconciled, with whatever Kubernetes holds of it at that time and whatever tags its spec adds, and the run
  returns or panics; or something else happens that makes no server for a machine and takes no machine's server its tags.
\<close>

inductive bm_evolves :: "'w env \<Rightarrow> 'w server_view \<Rightarrow> 'w \<Rightarrow> 'w \<Rightarrow> bool"
  for E view where
  bm_start: "bm_evolves E view w w"
| bm_reconciled: "bm_evolves E view w0 (world s) \<Longrightarrow>
    VultrBareMetalMachine_Reconcile E req s = Ret r s' \<Longrightarrow> bm_evolves E view w0 (world s')"
| bm_panicked: "bm_evolves E view w0 (world s) \<Longrightarrow>
    VultrBareMetalMachine_Reconcile E req s = Panic msg s' \<Longrightarrow> bm_evolves E view w0 (world s')"
| bm_other: "bm_evolves E view w0 w \<Longrightarrow> makes_none server_made_for server_owned view w w' \<Longrightarrow> bm_evolves E view w0 w'"

text \<open>
  Over any sequence of reconciles of VultrBareMetalMachines, of any clusters, deletions,
  failed and panicking runs and lost provider IDs included, there are never two servers that were made for the same
  machine, provided the cloud keeps its laws and there was no duplicate at the start.
\<close>

lemma bare_metal_never_duplicated:
  assumes "server_reconcile_laws E view" and "bm_evolves E view w0 w" and "one_server_each view w0"
  shows "one_server_each view w"
  using assms(2,3)
proof (induction rule: bm_evolves.induct)
  case (bm_reconciled w0 s req r s')
  then show ?case using bm_Reconcile_one_each [OF assms(1), of req s] by (simp add: keeps_one_def wp_def)
next
  case (bm_panicked w0 s req msg s')
  then show ?case using bm_Reconcile_one_each [OF assms(1), of req s] by (simp add: keeps_one_def wp_def)
next
  case (bm_other w0 w w')
  show ?case by (rule one_each_makes_none [OF bm_other.IH [OF bm_other.prems] bm_other.hyps(2)])
qed

text \<open>
  When the finalizer of a deleted bare metal machine goes, there is no server left that
  belongs to the machine.
\<close>

lemma bare_metal_finalizer_leaves_nothing:
  assumes "server_listing_law cs view"
    and "VultrBareMetalMachine_reconcileDelete E cs bsc s = Ret r s'"
    and "om_Finalizers (bm_meta (obj s')) \<noteq> om_Finalizers (bm_meta (obj s))"
  shows "owned_count (\<lambda>server. TagsOwnedByMachine (bs_Tags server)) view (ClusterScope_UID cs)
    (BareMetalMachineScope_Name (obj s)) (world s') = 0"
proof -
  let ?name = "BareMetalMachineScope_Name (obj s)"
  obtain w items reqs where l: "listing (BareMetal_List (BareMetal (cs_clients cs)))
        (bare_metal_list_options ?name) w (Inr items) reqs (world s')"
    and none: "\<forall>v\<in>set items. \<not> server_owned v (MachineTagParams cs ?name (BareMetalMachineScope_Role E bsc))"
    using wp_RetD [OF bm_delete.finalizer_needs_empty_listing assms(2)] assms(3) by auto
  have "v \<in> set items" if "v \<in> set (view (world s'))" "NameTagFromName ?name \<in> set (bs_Tags v)" for v
    using assms(1) l that unfolding server_listing_law_def by blast
  with none have "\<not> server_owned v (MachineTagParams cs ?name (BareMetalMachineScope_Role E bsc))"
    if "v \<in> set (view (world s'))" for v
    using that by (auto simp: TagsOwnedByMachine_def MachineTagParams_def)
  then show ?thesis by (rule bm_one.owned_count_none)
qed

end
