(* ===== verification/Cluster_Controller.thy ===== *)
theory Cluster_Controller
  imports Svc_LoadBalancer Controller_Common
begin

text \<open>
  The VultrCluster controller (\<^verbatim>\<open>internal/controller/vultrcluster_controller.go\<close>). The
  reconciled object is the VultrCluster, which the cluster scope holds by pointer: the
  scope's fields come from the scope record, the VultrCluster from the state.
\<close>

definition scope_now :: "'w ClusterScope \<Rightarrow> VultrCluster \<Rightarrow> 'w ClusterScope" where
  "scope_now cs vc = cs\<lparr>cs_VultrCluster := vc\<rparr>"

text \<open>\<^verbatim>\<open>conditions.Set\<close> on the VultrCluster, with the time of the call.\<close>

definition vc_set_condition ::
  "'w env \<Rightarrow> string \<Rightarrow> string \<Rightarrow> string \<Rightarrow> string \<Rightarrow> int \<Rightarrow> VultrCluster \<Rightarrow> VultrCluster" where
  "vc_set_condition E ctype status reason message now c =
     VultrCluster_SetConditions
       (conditions_Set E \<lparr>c_Type = ctype, c_Status = status, c_Reason = reason,
          c_Message = message, c_LastTransitionTime = now\<rparr> (VultrCluster_GetConditions c)) c"

definition set_cluster_condition ::
  "'w env \<Rightarrow> string \<Rightarrow> string \<Rightarrow> string \<Rightarrow> string \<Rightarrow> (('w, VultrCluster) st, unit) comp" where
  "set_cluster_condition E ctype status reason message =
     and_then (read_state (\<lambda>s. Now E (world s)))
       (\<lambda>now. modify_obj (vc_set_condition E ctype status reason message now))"

text \<open>Writes through the pointers to the load balancer's spec and to its reference in the status.\<close>

definition vc_update_lb :: "(VultrLoadBalancer \<Rightarrow> VultrLoadBalancer) \<Rightarrow> VultrCluster \<Rightarrow> VultrCluster" where
  "vc_update_lb f vc = vc\<lparr>vc_Spec := (vc_Spec vc)\<lparr>vcs_Network :=
     (vcs_Network (vc_Spec vc))\<lparr>ns_APIServerLoadbalancers :=
        f (ns_APIServerLoadbalancers (vcs_Network (vc_Spec vc)))\<rparr>\<rparr>\<rparr>"

definition vc_update_ref ::
  "(VultrResourceReference \<Rightarrow> VultrResourceReference) \<Rightarrow> VultrCluster \<Rightarrow> VultrCluster" where
  "vc_update_ref f vc = vc\<lparr>vc_Status := (vc_Status vc)\<lparr>vcst_Network :=
     (vcst_Network (vc_Status vc))\<lparr>nr_APIServerLoadbalancersRef :=
        f (nr_APIServerLoadbalancersRef (vcst_Network (vc_Status vc)))\<rparr>\<rparr>\<rparr>"

definition vc_set_Provisioned :: "bool \<Rightarrow> VultrCluster \<Rightarrow> VultrCluster" where
  "vc_set_Provisioned b vc = vc\<lparr>vc_Status := (vc_Status vc)\<lparr>vcst_Provisioned := Some b\<rparr>\<rparr>"

section \<open>Reconciling a cluster\<close>

text \<open>
  The load balancer of the cluster, created, or read or created; \<open>Inl r\<close> is an early
  return. A create that answers neither a load balancer nor an error is dereferenced.
\<close>

definition create_lb ::
  "'w env \<Rightarrow> 'w ClusterScope \<Rightarrow> VultrCluster \<Rightarrow>
     (('w, VultrCluster) st, (Result \<times> error option) + LoadBalancer) comp" where
  "create_lb E cs vc =
    (let apiServerLoadbalancer = APIServerLoadbalancers (scope_now cs vc) in
     try_then (CreateLoadBalancer (scope_now cs vc) apiServerLoadbalancer)
       (\<lambda>err. and_then (set_cluster_condition E LoadBalancerReadyCondition ConditionFalse
             ErrorCreatingLBReason
             (''Failed to create load balancer, Payload: '' @ json_Marshal E apiServerLoadbalancer))
         (\<lambda>_. ret (Inl (no_requeue, Some (Wrap (''failed to create load balancer for VultrCluster '' @
                om_Namespace (vc_meta vc) @ ''/'' @ om_Name (vc_meta vc)) err)))))
       (\<lambda>created. case created of
           None \<Rightarrow> panic ''nil pointer dereference: loadBalancer.Label''
         | Some loadBalancer \<Rightarrow>
             and_then (eventf EventTypeNormal ''LoadBalancerCreated'' ''Created''
                 ''Created new load balancer - %s'' [AStr (gl_Label loadBalancer)])
               (\<lambda>_. ret (Inr loadBalancer))))"

definition find_or_create_lb ::
  "'w env \<Rightarrow> 'w ClusterScope \<Rightarrow>
     (('w, VultrCluster) st, (Result \<times> error option) + LoadBalancer) comp" where
  "find_or_create_lb E cs = and_then get_obj (\<lambda>vc.
     let apiServerLoadbalancer = APIServerLoadbalancers (scope_now cs vc);
         vlbID = (if lb_ID apiServerLoadbalancer \<noteq> [] then lb_ID apiServerLoadbalancer
                  else ref_ResourceID (APIServerLoadbalancersRef (scope_now cs vc))) in
     try_then (GetLoadBalancer (scope_now cs vc) vlbID)
       (\<lambda>err. and_then (set_cluster_condition E LoadBalancerReadyCondition ConditionFalse
             ErrorFetchingLBReason (ErrorText E err))
         (\<lambda>_. ret (Inl (no_requeue, Some err))))
       (\<lambda>lb. case lb of
           Some loadBalancer \<Rightarrow> ret (Inr loadBalancer)
         | None \<Rightarrow> create_lb E cs vc))"

definition note_lb :: "LoadBalancer \<Rightarrow> (('w, VultrCluster) st, unit) comp" where
  "note_lb loadBalancer =
     and_then (modify_obj (vc_update_ref (\<lambda>r. r\<lparr>ref_ResourceID := gl_ID loadBalancer\<rparr>)))
       (\<lambda>_. and_then (modify_obj (vc_update_ref
              (\<lambda>r. r\<lparr>ref_ResourceSubscriptionStatus := gl_Status loadBalancer\<rparr>)))
       (\<lambda>_. modify_obj (vc_update_lb (\<lambda>l. l\<lparr>lb_ID := gl_ID loadBalancer\<rparr>))))"

text \<open>The cluster is ready; a health check cleared in between would be dereferenced.\<close>

definition report_cluster_ready ::
  "'w env \<Rightarrow> 'w ClusterScope \<Rightarrow> LoadBalancer \<Rightarrow> (('w, VultrCluster) st, Result \<times> error option) comp" where
  "report_cluster_ready E cs loadBalancer =
     and_then (set_cluster_condition E LoadBalancerReadyCondition ConditionTrue ''LoadBalancerReady''
         (''LoadBalancer got an IP Address - '' @ gl_IPV4 loadBalancer)) (\<lambda>_.
     and_then (eventf EventTypeNormal ''LoadBalancerReady'' ''Ready'' ''LoadBalancer got an IP Address - %s''
         [AStr (gl_IPV4 loadBalancer)]) (\<lambda>_.
     and_then get_obj (\<lambda>vc. case lb_HealthCheck (APIServerLoadbalancers (scope_now cs vc)) of
         None \<Rightarrow> panic ''nil pointer dereference: apiServerLoadbalancer.HealthCheck''
       | Some hc \<Rightarrow>
     and_then (modify_obj (SetControlPlaneEndpoint
         \<lparr>ep_Host = gl_IPV4 loadBalancer, ep_Port = int32 (hc_Port hc)\<rparr>)) (\<lambda>_.
     and_then (set_cluster_condition E VultrClusterReadyCondition ConditionTrue ''ClusterReady''
         ''VultrCluster has ready status'') (\<lambda>_.
     and_then (modify_obj ClusterScope_SetReady) (\<lambda>_.
     and_then (modify_obj (\<lambda>vc. vc\<lparr>vc_Status := (vc_Status vc)\<lparr>vcst_Ready := True\<rparr>\<rparr>)) (\<lambda>_.
     and_then (modify_obj (vc_set_Provisioned True)) (\<lambda>_.
     and_then (eventf EventTypeNormal ''VultrClusterReady'' ''Ready'' ''VultrCluster %s has ready status''
         [AStr (ClusterScope_Name cs)]) (\<lambda>_.
     ret (no_requeue, None))))))))))"

text \<open>From the load balancer on: what \<^verbatim>\<open>reconcileNormal\<close> does once there is one.\<close>

definition reconcile_lb ::
  "'w env \<Rightarrow> 'w ClusterScope \<Rightarrow> LoadBalancer \<Rightarrow> (('w, VultrCluster) st, Result \<times> error option) comp" where
  "reconcile_lb E cs loadBalancer =
     and_then (note_lb loadBalancer) (\<lambda>_.
     and_then get_obj (\<lambda>vc.
       if ref_ResourcePowerStatus (APIServerLoadbalancersRef (scope_now cs vc)) \<noteq> PowerStatusRunning \<and>
          gl_IPV4 loadBalancer = []
       then
         and_then (modify_obj (vc_set_Provisioned False)) (\<lambda>_.
         and_then (set_cluster_condition E LoadBalancerReadyCondition ConditionFalse WaitingForIPReason
             ''Waiting for Global IP Address'') (\<lambda>_.
         ret (requeue_after (15 * Second), None)))
       else report_cluster_ready E cs loadBalancer))"

definition VultrCluster_reconcileNormal ::
  "'w env \<Rightarrow> 'w ClusterScope \<Rightarrow> (('w, VultrCluster) st, Result \<times> error option) comp" where
  "VultrCluster_reconcileNormal E cs =
     and_then (modify_obj (vc_AddFinalizer E ClusterFinalizer)) (\<lambda>_.
     and_then (modify_obj (vc_update_lb ApplyDefaults)) (\<lambda>_.
     try_then (find_or_create_lb E cs) ret (reconcile_lb E cs)))"

section \<open>Deleting a cluster\<close>

definition VultrCluster_reconcileDelete ::
  "'w env \<Rightarrow> 'w ClusterScope \<Rightarrow> (('w, VultrCluster) st, Result \<times> error option) comp" where
  "VultrCluster_reconcileDelete E cs = and_then get_obj (\<lambda>vc.
     let vlbID = ref_ResourceID (APIServerLoadbalancersRef (scope_now cs vc)) in
     try_then (GetLoadBalancer (scope_now cs vc) vlbID) (\<lambda>err. ret (no_requeue, Some err))
       (\<lambda>lb. case lb of
           None \<Rightarrow>
             and_then (eventf EventTypeWarning ''NoLoadBalancerFound'' ''NotFound''
                 ''Unable to find matching load balancer'' [])
               (\<lambda>_. and_then (modify_obj (vc_RemoveFinalizer E ClusterFinalizer))
               (\<lambda>_. ret (no_requeue, None)))
         | Some loadbalancer \<Rightarrow>
             and_then (DeleteLoadBalancer (scope_now cs vc) (gl_ID loadbalancer)) (\<lambda>e. case e of
                 Some err \<Rightarrow> ret (no_requeue, Some (Wrap (''error deleting load balancer for VultrCluster '' @
                     om_Namespace (vc_meta vc) @ ''/'' @ om_Name (vc_meta vc)) err))
               | None \<Rightarrow>
                   and_then (eventf EventTypeNormal ''LoadBalancerDeleted'' ''Deleted'' ''Deleted LoadBalancer - %s''
                       [AStr (gl_Label loadbalancer)])
                     (\<lambda>_. and_then (modify_obj (vc_RemoveFinalizer E ClusterFinalizer))
                     (\<lambda>_. ret (no_requeue, None))))))"

section \<open>The reconciler\<close>

definition VultrCluster_close_after ::
  "'w env \<Rightarrow> 'w ClusterScope \<Rightarrow> Result \<times> error option \<Rightarrow> (('w, VultrCluster) st, Result \<times> error option) comp" where
  "VultrCluster_close_after E cs r =
     and_then (ClusterScope_Close E cs) (\<lambda>e. ret (fst r, keep_error (snd r) e))"

definition VultrCluster_run_scope ::
  "'w env \<Rightarrow> 'w ClusterScope \<Rightarrow> (('w, VultrCluster) st, Result \<times> error option) comp" where
  "VultrCluster_run_scope E cs =
     deferred (VultrCluster_close_after E cs) (and_then (ClusterScope_Close E cs) (\<lambda>_. ret ()))
       (and_then get_obj (\<lambda>vc.
          if om_DeletionTimestamp (vc_meta vc) \<noteq> None then VultrCluster_reconcileDelete E cs
          else VultrCluster_reconcileNormal E cs))"

definition VultrCluster_Reconcile ::
  "'w env \<Rightarrow> NamespacedName \<Rightarrow> (('w, VultrCluster) st, Result \<times> error option) comp" where
  "VultrCluster_Reconcile E req =
     try_then (kube_call (GetVultrCluster E req))
       (\<lambda>err. if IsNotFound E err then ret (no_requeue, None) else ret (no_requeue, Some err))
       (\<lambda>vc. and_then (modify_obj (\<lambda>_. vc)) (\<lambda>_.
     try_then (kube_call (GetOwnerCluster E (vc_meta vc)))
       (\<lambda>err. ret (no_requeue, Some (Wrap ''failed to get owner cluster'' err)))
       (\<lambda>owner. case owner of
           None \<Rightarrow> ret (no_requeue, None)
         | Some cluster \<Rightarrow>
             if IsPaused E cluster vc then ret (no_requeue, None)
             else (case NewClusterScope E (cluster_scope_params cluster vc) of
                 Inl err \<Rightarrow> ret (no_requeue, Some (Err (''failed to create scope: '' @ ErrorText E err)))
               | Inr cs \<Rightarrow> VultrCluster_run_scope E cs))))"

end
