(* ===== verification/Fake_Cloud.thy ===== *)
theory Fake_Cloud
  imports Cloud_View Server_View Cluster_Controller
begin

text \<open>
  A small cloud and a small cluster, as one concrete instance of the parameters: it shows
  that the named hypotheses (\<open>conditions_laws\<close>, \<open>finalizer_laws\<close>, \<open>wrap_laws\<close>,
  \<open>reconcile_laws\<close>, \<open>server_reconcile_laws\<close>) can hold together, and the witnesses of the properties run on it. It plays the part of
  the test doubles beside the sources and models no source file.

  The cloud remembers the request each resource was made from. While it is \<open>flaky\<close> the tag step of every instance create
  fails: the instance is there, without tags, and the create answers with an error. Kubernetes removes a deleted object with
  its last finalizer.
\<close>

section \<open>The cloud\<close>

record fake =
  fk_made :: "(InstanceCreateReq \<times> Instance) list"
  fk_racked :: "(BareMetalCreate \<times> BareMetalServer) list"
  fk_lb :: "LoadBalancer option"
  fk_vpcs :: "VPCInfo list"
  fk_vm :: VultrMachine
  fk_bm :: VultrBareMetalMachine
  fk_vc :: VultrCluster
  fk_removed :: "string list"
  fk_flaky :: bool

definition fk_instances :: "fake \<Rightarrow> Instance list" where
  "fk_instances w = map snd (fk_made w)"

definition fk_servers :: "fake \<Rightarrow> BareMetalServer list" where
  "fk_servers w = map snd (fk_racked w)"

lemma fk_instances_simps [simp]:
  "fk_instances (w\<lparr>fk_made := xs\<rparr>) = map snd xs" "fk_instances (w\<lparr>fk_racked := ys\<rparr>) = fk_instances w"
  "fk_instances (w\<lparr>fk_lb := l\<rparr>) = fk_instances w" "fk_instances (w\<lparr>fk_vpcs := vs\<rparr>) = fk_instances w"
  "fk_instances (w\<lparr>fk_vm := vm\<rparr>) = fk_instances w" "fk_instances (w\<lparr>fk_bm := bm\<rparr>) = fk_instances w"
  "fk_instances (w\<lparr>fk_vc := vc\<rparr>) = fk_instances w" "fk_instances (w\<lparr>fk_removed := rs\<rparr>) = fk_instances w"
  "fk_instances (w\<lparr>fk_flaky := b\<rparr>) = fk_instances w"
  by (simp_all add: fk_instances_def)

lemma fk_servers_simps [simp]:
  "fk_servers (w\<lparr>fk_racked := ys\<rparr>) = map snd ys" "fk_servers (w\<lparr>fk_made := xs\<rparr>) = fk_servers w"
  "fk_servers (w\<lparr>fk_lb := l\<rparr>) = fk_servers w" "fk_servers (w\<lparr>fk_vpcs := vs\<rparr>) = fk_servers w"
  "fk_servers (w\<lparr>fk_vm := vm\<rparr>) = fk_servers w" "fk_servers (w\<lparr>fk_bm := bm\<rparr>) = fk_servers w"
  "fk_servers (w\<lparr>fk_vc := vc\<rparr>) = fk_servers w" "fk_servers (w\<lparr>fk_removed := rs\<rparr>) = fk_servers w"
  "fk_servers (w\<lparr>fk_flaky := b\<rparr>) = fk_servers w"
  by (simp_all add: fk_servers_def)

lemma fk_deleted [simp]:
  "map snd (filter (\<lambda>v. in_ID (snd v) \<noteq> k) (fk_made w)) = filter (\<lambda>i. in_ID i \<noteq> k) (fk_instances w)"
  "map snd (filter (\<lambda>v. bs_ID (snd v) \<noteq> k) (fk_racked w)) = filter (\<lambda>v. bs_ID v \<noteq> k) (fk_servers w)"
  by (simp_all add: fk_instances_def fk_servers_def filter_map comp_def)

definition answer_ok :: "'a \<Rightarrow> 'a answer" where
  "answer_ok v = \<lparr>a_value = Some v, a_resp = Some \<lparr>StatusCode = 200\<rparr>, a_err = None,
     a_trips = [(Some \<lparr>StatusCode = 200\<rparr>, None)]\<rparr>"

definition answer_missing :: "'a answer" where
  "answer_missing = \<lparr>a_value = None, a_resp = Some \<lparr>StatusCode = 404\<rparr>, a_err = Some (Err ''not found''),
     a_trips = [(Some \<lparr>StatusCode = 404\<rparr>, None)]\<rparr>"

text \<open>There is room for one load balancer.\<close>

definition answer_full :: "'a answer" where
  "answer_full = \<lparr>a_value = None, a_resp = Some \<lparr>StatusCode = 422\<rparr>, a_err = Some (Err ''limit reached''),
     a_trips = [(Some \<lparr>StatusCode = 422\<rparr>, None)]\<rparr>"

definition answer_untagged :: "'a answer" where
  "answer_untagged = \<lparr>a_value = None, a_resp = Some \<lparr>StatusCode = 500\<rparr>, a_err = Some (Err ''tags failed''),
     a_trips = [(Some \<lparr>StatusCode = 500\<rparr>, None)]\<rparr>"

definition fake_answer :: "'a option \<Rightarrow> 'a answer" where
  "fake_answer x = (case x of None \<Rightarrow> answer_missing | Some v \<Rightarrow> answer_ok v)"

definition fake_instance :: "InstanceCreateReq \<Rightarrow> Instance" where
  "fake_instance req = \<lparr>in_ID = ''i-'' @ icr_Label req, in_Label = icr_Label req, in_Hostname = icr_Hostname req,
     in_Status = ''pending'', in_Tags = icr_Tags req, in_MainIP = ''1.2.3.4'', in_InternalIP = ''10.0.0.4'',
     in_VCPUCount = 2, in_RAM = 4, in_Disk = 80\<rparr>"

definition fake_Instances :: "fake InstanceService" where
  "fake_Instances =
     \<lparr>Instances_Get = (\<lambda>i w. (fake_answer (find (\<lambda>v. in_ID v = i) (fk_instances w)), w)),
      Instances_List = (\<lambda>opts w. (\<lparr>p_items = filter (\<lambda>v. in_Label v = lo_Label opts) (fk_instances w),
         p_meta = None, p_err = None\<rparr>, w)),
      Instances_Create = (\<lambda>req w. if fk_flaky w
         then (answer_untagged, w\<lparr>fk_made := fk_made w @ [(req, fake_instance req\<lparr>in_Tags := []\<rparr>)]\<rparr>)
         else (answer_ok (fake_instance req), w\<lparr>fk_made := fk_made w @ [(req, fake_instance req)]\<rparr>)),
      Instances_Delete = (\<lambda>i w. (fake_answer (map_option (\<lambda>_. ()) (find (\<lambda>v. in_ID v = i) (fk_instances w))),
         w\<lparr>fk_made := filter (\<lambda>v. in_ID (snd v) \<noteq> i) (fk_made w)\<rparr>))\<rparr>"

definition fake_server :: "BareMetalCreate \<Rightarrow> BareMetalServer" where
  "fake_server req = \<lparr>bs_ID = ''b-'' @ bcr_Label req, bs_Plan = bcr_Plan req, bs_Status = ''pending'',
     bs_Tags = bcr_Tags req, bs_MainIP = ''1.2.3.5'', bs_CPUCount = 8, bs_RAM = ''32'', bs_Disk = ''2x 480GB''\<rparr>"

definition fake_BareMetal :: "fake BareMetalServerService" where
  "fake_BareMetal =
     \<lparr>BareMetal_Get = (\<lambda>i w. (fake_answer (find (\<lambda>v. bs_ID v = i) (fk_servers w)), w)),
      BareMetal_List = (\<lambda>opts w. (\<lparr>p_items = filter (\<lambda>v. List.member (bs_Tags v) (lo_Tag opts)) (fk_servers w),
         p_meta = None, p_err = None\<rparr>, w)),
      BareMetal_Create = (\<lambda>req w. (answer_ok (fake_server req),
         w\<lparr>fk_racked := fk_racked w @ [(req, fake_server req)]\<rparr>)),
      BareMetal_Delete = (\<lambda>i w. (fake_answer (map_option (\<lambda>_. ()) (find (\<lambda>v. bs_ID v = i) (fk_servers w))),
         w\<lparr>fk_racked := filter (\<lambda>v. bs_ID (snd v) \<noteq> i) (fk_racked w)\<rparr>)),
      BareMetal_ListVPCInfo = (\<lambda>i w. (Inr (fk_vpcs w), w)),
      BareMetal_AttachVPC = (\<lambda>i v w. (None,
         w\<lparr>fk_vpcs := fk_vpcs w @ [\<lparr>vpc_ID = v, vpc_IPAddress = ''10.0.0.5'', vpc_MacAddress = ''aa''\<rparr>]\<rparr>))\<rparr>"

definition fake_lb_by_id :: "string \<Rightarrow> fake \<Rightarrow> LoadBalancer option" where
  "fake_lb_by_id i w = (case fk_lb w of None \<Rightarrow> None | Some l \<Rightarrow> if gl_ID l = i then Some l else None)"

definition fake_LoadBalancers :: "fake LoadBalancerService" where
  "fake_LoadBalancers =
     \<lparr>LoadBalancers_Get = (\<lambda>i w. (fake_answer (fake_lb_by_id i w), w)),
      LoadBalancers_Create = (\<lambda>req w. case fk_lb w of
           Some _ \<Rightarrow> (answer_full, w)
         | None \<Rightarrow> let l = \<lparr>gl_ID = ''lb-2'', gl_Label = lq_Label req, gl_Status = ''pending'', gl_IPV4 = [],
                  gl_Instances = lq_Instances req\<rparr> in (answer_ok l, w\<lparr>fk_lb := Some l\<rparr>)),
      LoadBalancers_Update = (\<lambda>i req w. (fake_answer (map_option (\<lambda>_. ()) (fake_lb_by_id i w)),
         w\<lparr>fk_lb := map_option (\<lambda>l. if gl_ID l = i then l\<lparr>gl_Instances := lq_Instances req\<rparr> else l) (fk_lb w)\<rparr>)),
      LoadBalancers_Delete = (\<lambda>i w. (None, if fake_lb_by_id i w = None then w else w\<lparr>fk_lb := None\<rparr>))\<rparr>"

definition fake_clients :: "fake VultrAPIClients" where
  "fake_clients = \<lparr>Instances = fake_Instances, LoadBalancers = fake_LoadBalancers,
     SSHKeys = \<lparr>SSHKeys_Get = (\<lambda>k w. (answer_ok k, w))\<rparr>, BareMetal = fake_BareMetal\<rparr>"

section \<open>The cluster\<close>

definition fake_cluster :: Cluster where
  "fake_cluster = \<lparr>cl_meta = zero_ObjectMeta\<lparr>om_Name := ''c'', om_UID := ''u''\<rparr>, cl_Paused = False,
     cl_InfrastructureRef = \<lparr>ir_Kind = ''VultrCluster'', ir_Name = ''c''\<rparr>,
     cl_Conditions = [\<lparr>c_Type = InfrastructureReadyCondition, c_Status = ConditionTrue, c_Reason = ''Ready'',
       c_Message = [], c_LastTransitionTime = 0\<rparr>],
     cl_InfrastructureProvisioned = Some True\<rparr>"

definition fake_machine :: Machine where
  "fake_machine = \<lparr>mc_meta = zero_ObjectMeta\<lparr>om_Name := ''m'', om_Labels := [(''cp'', [])]\<rparr>,
     mc_DataSecretName = Some ''boot'', mc_InfrastructureRef = \<lparr>ir_Kind = ''VultrMachine'', ir_Name = ''m''\<rparr>\<rparr>"

definition fake_set_condition :: "Condition \<Rightarrow> Condition list \<Rightarrow> Condition list" where
  "fake_set_condition c cs = c # filter (\<lambda>d. c_Type d \<noteq> c_Type c) cs"

definition fake_get_condition :: "Condition list \<Rightarrow> string \<Rightarrow> Condition option" where
  "fake_get_condition cs t = find (\<lambda>c. c_Type c = t) cs"

text \<open>Kubernetes: objects are found until they are removed, and removed when they are deleted and nobody holds them.\<close>

definition fake_get :: "string \<Rightarrow> (fake \<Rightarrow> 'o) \<Rightarrow> fake \<Rightarrow> (error + 'o) \<times> fake" where
  "fake_get kind stored w = (if kind \<in> set (fk_removed w) then Inl (Err ''not found'') else Inr (stored w), w)"

definition fake_patch :: "string \<Rightarrow> ObjectMeta \<Rightarrow> (fake \<Rightarrow> fake) \<Rightarrow> fake \<Rightarrow> error option \<times> fake" where
  "fake_patch kind meta store w = (if kind \<in> set (fk_removed w) then (Some (Err ''not found''), w)
     else (None, if object_kept meta then store w else w\<lparr>fk_removed := kind # fk_removed w\<rparr>))"

lemmas fake_kube_defs = fake_get_def fake_patch_def

definition fake_env :: "fake env" where
  "fake_env =
     \<lparr>IsPaused = (\<lambda>c v. cl_Paused c),
      IsControlPlaneMachine = (\<lambda>m. om_Labels (mc_meta m) \<noteq> []),
      IsNotFound = (\<lambda>e. e = Err ''not found''),
      WrapText = (\<lambda>msg cause. msg @ '': '' @ cause),
      AddFinalizer = (\<lambda>f fs. (\<not> List.member fs f, if List.member fs f then fs else fs @ [f])),
      RemoveFinalizer = (\<lambda>f fs. (List.member fs f, filter (\<lambda>g. g \<noteq> f) fs)),
      conditions_Set = fake_set_condition,
      conditions_Get = fake_get_condition,
      conditions_IsTrue = (\<lambda>cs t. case fake_get_condition cs t of None \<Rightarrow> False | Some c \<Rightarrow> c_Status c = ConditionTrue),
      conditions_IsFalse = (\<lambda>cs t. case fake_get_condition cs t of None \<Rightarrow> False | Some c \<Rightarrow> c_Status c = ConditionFalse),
      conditions_GetReason = (\<lambda>cs t. case fake_get_condition cs t of None \<Rightarrow> [] | Some c \<Rightarrow> c_Reason c),
      yaml_Unmarshal = (\<lambda>s. Inr (if s = ''x'' then Some Map.empty else None)),
      yaml_Marshal = (\<lambda>d. Inr ''runcmd: [ufw disable]''),
      json_Marshal = (\<lambda>lb. lb_ID lb),
      GetVultrMachine = (\<lambda>n. fake_get ''vm'' fk_vm),
      GetVultrBareMetalMachine = (\<lambda>n. fake_get ''bm'' fk_bm),
      GetVultrCluster = (\<lambda>n. fake_get ''vc'' fk_vc),
      GetSecret = (\<lambda>k w. (Inr (Map.empty(''value'' \<mapsto> ''#cloud-config runcmd:'')), w)),
      ListMachines = (\<lambda>ns ls w. (Inr [fake_machine], w)),
      GetOwnerMachine = (\<lambda>m w. (Inr (Some fake_machine), w)),
      GetOwnerCluster = (\<lambda>m w. (Inr (Some fake_cluster), w)),
      GetClusterFromMetadata = (\<lambda>m w. (Inr fake_cluster, w)),
      EnsurePausedVM = (\<lambda>c v w. (((cl_Paused c, False, None), v), w)),
      EnsurePausedBM = (\<lambda>c v w. (((cl_Paused c, False, None), v), w)),
      NewHelperVM = (\<lambda>_. None), NewHelperBM = (\<lambda>_. None), NewHelperVC = (\<lambda>_. None),
      PatchVM = (\<lambda>old new. fake_patch ''vm'' (vm_meta new) (\<lambda>w. w\<lparr>fk_vm := new\<rparr>)),
      PatchBM = (\<lambda>old new. fake_patch ''bm'' (bm_meta new) (\<lambda>w. w\<lparr>fk_bm := new\<rparr>)),
      PatchVC = (\<lambda>old new. fake_patch ''vc'' (vc_meta new) (\<lambda>w. w\<lparr>fk_vc := new\<rparr>)),
      Getenv = (\<lambda>v. if v = ''VULTR_API_KEY'' then ''key'' else []),
      Now = (\<lambda>w. 0),
      NewClient = (\<lambda>k. fake_clients)\<rparr>"

definition fake_vm :: VultrMachine where
  "fake_vm = \<lparr>vm_meta = zero_ObjectMeta\<lparr>om_Name := ''m'', om_Namespace := ''n''\<rparr>,
     vm_Spec = \<lparr>vms_ProviderID = None, vms_Snapshot = ''snap'', vms_PlanID = ''plan'', vms_Region = ''ewr'',
       vms_SSHKey = [''k1''], vms_VPCID = ''vpc'', vms_VPCOnly = False, vms_FirewallGroupID = [], vms_VPC2ID = []\<rparr>,
     vm_Status = \<lparr>vmst_Ready = False, vmst_CPU = 0, vmst_RAM = 0, vmst_Storage = 0, vmst_Provisioned = False,
       vmst_Addresses = [], vmst_SubscriptionStatus = None, vmst_PowerStatus = None, vmst_ServerState = None,
       vmst_Conditions = []\<rparr>\<rparr>"

definition fake_bm :: VultrBareMetalMachine where
  "fake_bm = \<lparr>bm_meta = zero_ObjectMeta\<lparr>om_Name := ''m'', om_Namespace := ''n''\<rparr>,
     bm_Spec = \<lparr>bms_ProviderID = None, bms_Region = ''ewr'', bms_PlanID = ''vbm'', bms_OSID = 2136,
       bms_SSHKey = [], bms_VPCID = ''vpc'', bms_MdiskMode = BareMetalDiskModeRAID1, bms_EnableIPv6 = None,
       bms_AdditionalTags = [''extra'']\<rparr>,
     bm_Status = \<lparr>bmst_Ready = False, bmst_Provisioned = None, bmst_Addresses = [], bmst_CPU = 0, bmst_RAM = [],
       bmst_Disk = [], bmst_SubscriptionStatus = None, bmst_VPC = None, bmst_Conditions = []\<rparr>\<rparr>"

definition fake_vc :: VultrCluster where
  "fake_vc = zero_VultrCluster\<lparr>vc_meta := zero_ObjectMeta\<lparr>om_Name := ''c'', om_Namespace := ''n''\<rparr>\<rparr>"

definition fake_lb :: LoadBalancer where
  "fake_lb = \<lparr>gl_ID = ''lb-1'', gl_Label = ''c-u'', gl_Status = ''active'', gl_IPV4 = ''5.6.7.8'', gl_Instances = []\<rparr>"

definition fake_world :: fake where
  "fake_world = \<lparr>fk_made = [], fk_racked = [], fk_lb = Some fake_lb, fk_vpcs = [], fk_vm = fake_vm,
     fk_bm = fake_bm, fk_vc = fake_vc, fk_removed = [], fk_flaky = False\<rparr>"

lemma fake_world_empty [simp]: "fk_instances fake_world = []" "fk_servers fake_world = []"
  by (simp_all add: fk_instances_def fk_servers_def fake_world_def)

text \<open>The VultrCluster knows its load balancer.\<close>

definition fake_vc_ready :: VultrCluster where
  "fake_vc_ready = vc_update_ref (\<lambda>r. r\<lparr>ref_ResourceID := ''lb-1''\<rparr>) fake_vc"

definition fake_cs :: "fake ClusterScope" where
  "fake_cs = \<lparr>cs_clients = fake_clients, cs_Cluster = fake_cluster, cs_VultrCluster = fake_vc_ready,
     cs_patchHelper = fake_vc_ready\<rparr>"

definition fake_ms :: MachineScope where
  "fake_ms = \<lparr>ms_Machine = fake_machine, ms_Cluster = fake_cluster, ms_VultrCluster = fake_vc_ready,
     ms_patchHelper = fake_vm\<rparr>"

definition fake_bsc :: BareMetalMachineScope where
  "fake_bsc = \<lparr>bsc_Machine = fake_machine, bsc_Cluster = fake_cluster, bsc_VultrCluster = fake_vc_ready,
     bsc_patchHelper = fake_bm\<rparr>"

definition fake_known :: "VultrMachine" where
  "fake_known = MachineScope_SetProviderID ''i-m'' fake_vm"

definition start_state :: "'o \<Rightarrow> (fake, 'o) st" where
  "start_state v = \<lparr>world = fake_world, trace = [], obj = v\<rparr>"

section \<open>The laws hold\<close>

lemma fake_conditions_laws: "conditions_laws fake_env"
proof -
  have same: "fake_get_condition (fake_set_condition c cs) (c_Type c) = Some c" for c cs
    by (simp add: fake_get_condition_def fake_set_condition_def)
  have other: "fake_get_condition (fake_set_condition c cs) t = fake_get_condition cs t" if "t \<noteq> c_Type c" for c cs t
    using that by (induction cs) (auto simp: fake_get_condition_def fake_set_condition_def)
  show ?thesis
    unfolding conditions_laws_def
    by (auto simp: fake_env_def same other same_report_def split: option.splits)
qed

lemma fake_finalizer_laws: "finalizer_laws fake_env"
  by (auto simp: finalizer_laws_def fake_env_def)

lemma fake_wrap_laws: "wrap_laws fake_env"
  unfolding wrap_laws_def
proof (intro allI)
  fix msg cause
  show "sublist cause (WrapText fake_env msg cause)"
    by (simp add: fake_env_def sublist_def) (metis append.right_neutral append_Cons append_Nil append_assoc)
qed

lemma fake_listing_iff:
  "listing (Instances_List fake_Instances) opts w r reqs w' \<longleftrightarrow>
     r = Inr (filter (\<lambda>v. in_Label v = lo_Label opts) (fk_instances w)) \<and> reqs = [opts] \<and> w' = w"
  by (subst listing.simps) (auto simp: fake_Instances_def next_cursor_def)

lemma fake_server_listing_iff:
  "listing (BareMetal_List fake_BareMetal) opts w r reqs w' \<longleftrightarrow>
     r = Inr (filter (\<lambda>v. List.member (bs_Tags v) (lo_Tag opts)) (fk_servers w)) \<and> reqs = [opts] \<and> w' = w"
  by (subst listing.simps) (auto simp: fake_BareMetal_def next_cursor_def)

lemma length_filter_conj_le: "length (filter (\<lambda>x. Q x \<and> P x) xs) \<le> length (filter P xs)"
  by (induction xs) auto

text \<open>The laws of the cloud, for every scope that uses the clients of the small cloud.\<close>

lemma fake_shared_calls_law:
  assumes "cs_clients cs = fake_clients"
  shows "shared_calls_law fake_env cs fk_made" and "shared_calls_law fake_env cs fk_racked"
  using assms
  by (auto simp: shared_calls_law_def adds_nothing_def count_def fake_clients_def fake_LoadBalancers_def fake_env_def)

lemma fake_listing_laws:
  assumes "cs_clients cs = fake_clients"
  shows "listing_law cs fk_instances" and "server_listing_law cs fk_servers"
  using assms
  by (simp_all add: listing_law_def server_listing_law_def fake_clients_def fake_listing_iff fake_server_listing_iff
      instance_list_options_def bare_metal_list_options_def)

lemma fake_cloud_laws:
  assumes "cs_clients cs = fake_clients"
  shows "cloud_laws fake_env cs fk_made"
proof -
  have "calls_law fake_env cs fk_made"
    using assms fake_shared_calls_law(1) [OF assms]
    by (auto simp: calls_law_def adds_nothing_def count_def fake_clients_def fake_Instances_def
        fake_env_def fake_kube_defs length_filter_conj_le)
  moreover have "made_as_ordered req (fake_instance req)" "made_as_ordered req (fake_instance req\<lparr>in_Tags := []\<rparr>)" for req
    by (simp_all add: made_as_ordered_def fake_instance_def)
  then have "create_law cs fk_made"
    using assms by (auto simp: create_law_def count_def fake_clients_def fake_Instances_def)
  ultimately show ?thesis
    using fake_listing_laws(1) [OF assms] by (simp add: cloud_laws_def fk_instances_def [abs_def])
qed

lemma fake_server_cloud_laws:
  assumes "cs_clients cs = fake_clients"
  shows "server_cloud_laws fake_env cs fk_racked"
proof -
  have "server_calls_law fake_env cs fk_racked"
    using assms fake_shared_calls_law(2) [OF assms]
    by (auto simp: server_calls_law_def adds_nothing_def count_def fake_clients_def fake_BareMetal_def
        length_filter_conj_le)
  moreover have "server_create_law cs fk_racked"
    using assms by (auto simp: server_create_law_def count_def fake_clients_def fake_BareMetal_def fake_server_def)
  ultimately show ?thesis
    using fake_listing_laws(2) [OF assms] by (simp add: server_cloud_laws_def fk_servers_def [abs_def])
qed

lemma fake_cs_clients: "cs_clients fake_cs = fake_clients"
  by (simp add: fake_cs_def)

lemma fake_NewClusterScope:
  "NewClusterScope fake_env (cluster_scope_params cluster vc) = Inr cs \<Longrightarrow> cs_clients cs = fake_clients"
  by (auto simp: NewClusterScope_def cluster_scope_params_def CreateVultrClient_def or_default_def Let_def
      fake_env_def fake_clients_def split: option.splits sum.splits if_splits)

lemma fake_reconcile_laws: "reconcile_laws fake_env fk_made" "server_reconcile_laws fake_env fk_racked"
proof -
  have "\<forall>cluster vc cs. NewClusterScope fake_env (cluster_scope_params cluster vc) = Inr cs \<longrightarrow>
      cloud_laws fake_env cs fk_made \<and> server_cloud_laws fake_env cs fk_racked"
    using fake_NewClusterScope fake_cloud_laws fake_server_cloud_laws by blast
  then show "reconcile_laws fake_env fk_made" and "server_reconcile_laws fake_env fk_racked"
    unfolding reconcile_laws_def server_reconcile_laws_def
    by (simp_all add: kube_reads_law_def adds_nothing_def count_def fake_env_def fake_kube_defs)
qed

lemma fake_one_each: "one_instance_each fk_made fake_world" "one_server_each fk_racked fake_world"
  by (simp_all add: one_each_def made_count_def count_def fake_world_def)

end
