(* ===== verification/Witnesses.thy ===== *)
theory Witnesses
  imports Fake_Cloud
begin

text \<open>
  The properties applied at concrete inputs, on the small cloud of theory \<open>Fake_Cloud\<close>: each
  theorem discharges the hypotheses of one property there.
\<close>

definition final_state :: "('s, 'a) comp \<Rightarrow> 's \<Rightarrow> 's" where
  "final_state m s = (case m s of Ret _ s' \<Rightarrow> s' | Panic _ s' \<Rightarrow> s' | Diverge \<Rightarrow> s)"

definition run_gives :: "('a \<Rightarrow> bool) \<Rightarrow> ('s, 'a) comp \<Rightarrow> 's \<Rightarrow> bool" where
  "run_gives P m s = (case m s of Ret a _ \<Rightarrow> P a | _ \<Rightarrow> False)"

lemma run_givesD: "run_gives P m s \<Longrightarrow> \<exists>a. m s = Ret a (final_state m s) \<and> P a"
  by (auto simp: run_gives_def final_state_def split: outcome.splits)

lemma run_gives_value: "run_gives (\<lambda>a. a = v) m s \<Longrightarrow> m s = Ret v (final_state m s)"
  using run_givesD by fastforce

section \<open>The machine controller\<close>

definition fake_order_m :: InstanceCreateReq where
  "fake_order_m = instance_create_req (vm_Spec fake_vm) ''m'' [] [] (BuildTags (MachineTagParams fake_cs ''m'' ''control-plane''))"

definition fake_instance_m :: Instance where
  "fake_instance_m = fake_instance fake_order_m"

theorem machine_id_persisted_first_witness:
  "GetInstanceID fake_vm \<noteq> in_ID fake_instance_m \<and>
   wp (reconcile_instance fake_env fake_cs fake_ms fake_instance_m)
    (\<lambda>r s'. \<exists>ts. trace s' = PatchVultrMachine fake_known # ts)
    (\<lambda>s'. \<exists>ts. trace s' = PatchVultrMachine fake_known # ts) (start_state fake_vm)"
proof -
  have ne: "GetInstanceID fake_vm \<noteq> in_ID fake_instance_m" by code_simp
  have vm: "fake_known = MachineScope_SetProviderID (in_ID fake_instance_m) (obj (start_state fake_vm))"
    by code_simp
  have ne': "GetInstanceID (obj (start_state fake_vm)) \<noteq> in_ID fake_instance_m"
    using ne by (simp add: start_state_def)
  have "wp (reconcile_instance fake_env fake_cs fake_ms fake_instance_m)
    (\<lambda>r s'. \<exists>ts. trace s' = PatchVultrMachine fake_known # ts)
    (\<lambda>s'. \<exists>ts. trace s' = PatchVultrMachine fake_known # ts) (start_state fake_vm)"
    by (rule wp_mono [OF machine_id_persisted_first [OF ne' vm]]) (auto simp: start_state_def)
  with ne show ?thesis by blast
qed

theorem machine_ready_only_when_active_witness:
  "conditions_laws fake_env \<and> \<not> reports_ready fake_env fake_vm \<and>
   wp (VultrMachine_reconcileNormal fake_env fake_cs fake_ms)
    (\<lambda>r s'. reports_ready fake_env (obj s') \<longrightarrow> ready_established fake_env fake_cs fake_ms r (obj s'))
    (\<lambda>_. True) (start_state fake_vm)"
proof -
  have "\<not> reports_ready fake_env fake_vm" by code_simp
  then show ?thesis
    using machine_ready_only_when_active [of fake_env "start_state fake_vm" fake_cs fake_ms] fake_conditions_laws
    by (simp add: start_state_def)
qed

theorem machine_unexpected_status_is_final_witness:
  "\<exists>m. report_instance_status fake_env (fake_instance_m\<lparr>in_Status := ''suspended''\<rparr>) (start_state fake_vm) =
      Ret (no_requeue, None) ((start_state fake_vm)\<lparr>obj := m\<rparr>) \<and> \<not> vmst_Ready (vm_Status m) \<and>
    vm_ready_report fake_env m = Some (ConditionFalse, InstanceUnexpectedStatusReason) \<and>
    VultrMachine_reconcileNormal fake_env fake_cs fake_ms (start_state m) = Ret (no_requeue, None) (start_state m)"
  using machine_unexpected_status_is_final [OF fake_conditions_laws, of "fake_instance_m\<lparr>in_Status := ''suspended''\<rparr>"
      "start_state fake_vm" fake_cs fake_ms fake_world "[]"]
  unfolding start_state_def by (auto simp: status_defs)

theorem machine_missing_is_retried_witness:
  "GetInstanceID fake_known = ''i-m'' \<and>
   (\<exists>s'. reconcile_bootstrapped fake_env fake_cs fake_ms (start_state fake_known)
      = Ret (requeue_after (30 * Second), None) s' \<and> GetInstanceID (obj s') = ''i-m'')"
proof -
  have i: "GetInstanceID (obj (start_state fake_known)) = ''i-m''" by code_simp
  have get: "Instances_Get (Instances (cs_clients fake_cs)) ''i-m'' (world (start_state fake_known))
      = (answer_missing, fake_world)"
    by (simp add: fake_cs_def fake_clients_def fake_Instances_def start_state_def fake_answer_def)
  have err: "a_err (answer_missing :: Instance answer) = Some (Err ''not found'')"
    and nf: "captured_status (a_trips (answer_missing :: Instance answer)) = StatusNotFound"
    by (simp_all add: answer_missing_def captured_status_def Capture_def RoundTrip_def Record_def StatusNotFound_def)
  show ?thesis
    using machine_missing_is_retried [OF fake_conditions_laws i _ get err nf, of fake_ms] i
    by (auto simp: start_state_def)
qed

text \<open>A machine that is deleted once its instance is gone.\<close>

definition fake_deleted_vm :: VultrMachine where
  "fake_deleted_vm = vm_AddFinalizer fake_env MachineFinalizer fake_known"

lemma fake_delete_run:
  "VultrMachine_reconcileDelete fake_env fake_cs fake_ms (start_state fake_deleted_vm) =
     Ret (no_requeue, None) (final_state (VultrMachine_reconcileDelete fake_env fake_cs fake_ms) (start_state fake_deleted_vm))"
  by (rule run_gives_value) code_simp

lemma fake_delete_changes:
  "om_Finalizers (vm_meta (obj (final_state (VultrMachine_reconcileDelete fake_env fake_cs fake_ms) (start_state fake_deleted_vm))))
     \<noteq> om_Finalizers (vm_meta (obj (start_state fake_deleted_vm)))"
  by code_simp

text \<open>
  The machine of the request, reconciled twice while the tag step of creates fails: the first run ends with an error and leaves an
  instance without tags, the second one finds it by label and hostname and keeps it.
\<close>

definition fake_req :: NamespacedName where
  "fake_req = \<lparr>nn_Namespace = ''n'', nn_Name = ''m''\<rparr>"

definition flaky_state :: "(fake, VultrMachine) st" where
  "flaky_state = \<lparr>world = fake_world\<lparr>fk_flaky := True\<rparr>, trace = [], obj = fake_vm\<rparr>"

abbreviation reconcile_m :: "((fake, VultrMachine) st, Result \<times> error option) comp" where
  "reconcile_m \<equiv> VultrMachine_Reconcile fake_env fake_req"

lemma flaky_runs:
  "run_gives (\<lambda>(r, err). err \<noteq> None) reconcile_m flaky_state"
  "map (\<lambda>i. (in_ID i, in_Tags i)) (fk_instances (world (final_state reconcile_m flaky_state))) = [(''i-m'', [])]"
  "GetInstanceID (fk_vm (world (final_state reconcile_m flaky_state))) = []"
  "run_gives (\<lambda>(r, err). err = None) reconcile_m (final_state reconcile_m flaky_state)"
  "GetInstanceID (fk_vm (world (final_state reconcile_m (final_state reconcile_m flaky_state)))) = ''i-m''"
  by code_simp+

theorem machine_never_duplicated_witness:
  "\<exists>w. evolves fake_env fk_made (world flaky_state) w \<and>
     map (\<lambda>i. (in_ID i, in_Tags i)) (fk_instances w) = [(''i-m'', [])] \<and> GetInstanceID (fk_vm w) = ''i-m'' \<and>
     (\<forall>uid name. made_count instance_made_for fk_made uid name w \<le> 1)"
proof -
  let ?s = "final_state reconcile_m flaky_state"
  let ?w = "world (final_state reconcile_m ?s)"
  obtain r r' where run: "reconcile_m flaky_state = Ret r ?s" "reconcile_m ?s = Ret r' (final_state reconcile_m ?s)"
    using flaky_runs(1,4) by (blast dest: run_givesD)
  from evolves.reconciled [OF evolves.reconciled [OF evolves.start run(1)] run(2)]
  have ev: "evolves fake_env fk_made (world flaky_state) ?w" .
  have one: "one_instance_each fk_made (world flaky_state)"
    by (simp add: one_each_def made_count_def count_def flaky_state_def fake_world_def)
  have ids: "map (\<lambda>i. (in_ID i, in_Tags i)) (fk_instances ?w) = [(''i-m'', [])]" by code_simp
  show ?thesis
    by (intro exI conjI) (rule ev, rule ids, rule flaky_runs(5),
      rule conjunct1 [OF machine_never_duplicated [OF fake_reconcile_laws(1) ev one]])
qed

text \<open>
  An instance without tags does not tell its cluster: the machine of the same name in another cluster recognises it as its own,
  while it does not recognise the tagged one, and would take it over, or delete it with itself.
\<close>

definition other_cs :: "fake ClusterScope" where
  "other_cs = fake_cs\<lparr>cs_Cluster := fake_cluster\<lparr>cl_meta := zero_ObjectMeta\<lparr>om_Name := ''d'', om_UID := ''v''\<rparr>\<rparr>\<rparr>"

lemma untagged_instance_adopted_by_other_cluster:
  "instance_made_for fake_order_m (MachineTagParams fake_cs ''m'' ''control-plane'')"
  "\<not> instance_made_for fake_order_m (MachineTagParams other_cs ''m'' ''control-plane'')"
  "run_gives (\<lambda>r. r = Inr (Some (fake_instance_m\<lparr>in_Tags := []\<rparr>))) (FindInstanceForMachine other_cs ''m'' ''control-plane'')
     ((start_state fake_vm)\<lparr>world := fake_world\<lparr>fk_made := [(fake_order_m, fake_instance_m\<lparr>in_Tags := []\<rparr>)]\<rparr>\<rparr>)"
  "run_gives (\<lambda>r. r = Inr None) (FindInstanceForMachine other_cs ''m'' ''control-plane'')
     ((start_state fake_vm)\<lparr>world := fake_world\<lparr>fk_made := [(fake_order_m, fake_instance_m)]\<rparr>\<rparr>)"
  by code_simp+

end
