(* ===== verification/Cluster_Safety.thy ===== *)
theory Cluster_Safety
  imports Cluster_Controller
begin

text \<open>
  What the VultrCluster controller does: when it creates the API server's load balancer, what it
  writes into the VultrCluster on every branch, stated as a refinement of a small
  specification, and when it gives the finalizer up. Two theorems at the end show
  where the deletion does not do what it means to.
\<close>

section \<open>What the handlers read and write\<close>

text \<open>The load balancer's ID as \<open>reconcileNormal\<close> reads it: the spec goes before the status.\<close>

definition known_lb_id :: "VultrCluster \<Rightarrow> string" where
  "known_lb_id vc =
    (let spec = lb_ID (ns_APIServerLoadbalancers (vcs_Network (vc_Spec vc))) in
     if spec \<noteq> [] then spec
     else ref_ResourceID (nr_APIServerLoadbalancersRef (vcst_Network (vc_Status vc))))"

definition api_lb :: "VultrCluster \<Rightarrow> VultrLoadBalancer" where
  "api_lb vc = ns_APIServerLoadbalancers (vcs_Network (vc_Spec vc))"

definition api_lb_ref :: "VultrCluster \<Rightarrow> VultrResourceReference" where
  "api_lb_ref vc = nr_APIServerLoadbalancersRef (vcst_Network (vc_Status vc))"

lemma scope_now_sel [simp]:
  "cs_clients (scope_now cs vc) = cs_clients cs" "cs_Cluster (scope_now cs vc) = cs_Cluster cs"
  "APIServerLoadbalancers (scope_now cs vc) = api_lb vc"
  "APIServerLoadbalancersRef (scope_now cs vc) = api_lb_ref vc"
  by (simp_all add: scope_now_def APIServerLoadbalancers_def APIServerLoadbalancersRef_def
      api_lb_def api_lb_ref_def)

lemma api_lb_update [simp]:
  "api_lb (vc_update_lb f vc) = f (api_lb vc)" "api_lb (vc_update_ref g vc) = api_lb vc"
  "api_lb_ref (vc_update_lb f vc) = api_lb_ref vc" "api_lb_ref (vc_update_ref g vc) = g (api_lb_ref vc)"
  "api_lb (vc_AddFinalizer E fin vc) = api_lb vc" "api_lb_ref (vc_AddFinalizer E fin vc) = api_lb_ref vc"
  "api_lb (vc_RemoveFinalizer E fin vc) = api_lb vc" "api_lb_ref (vc_RemoveFinalizer E fin vc) = api_lb_ref vc"
  "api_lb (vc_set_condition E t st r m now vc) = api_lb vc"
  "api_lb_ref (vc_set_condition E t st r m now vc) = api_lb_ref vc"
  "api_lb (vc_set_Provisioned b vc) = api_lb vc" "api_lb_ref (vc_set_Provisioned b vc) = api_lb_ref vc"
  by (simp_all add: api_lb_def api_lb_ref_def vc_update_lb_def vc_update_ref_def vc_AddFinalizer_def
      vc_RemoveFinalizer_def vc_set_condition_def vc_set_Provisioned_def VultrCluster_SetConditions_def)

lemma known_lb_id_alt:
  "known_lb_id vc = (if lb_ID (api_lb vc) \<noteq> [] then lb_ID (api_lb vc) else ref_ResourceID (api_lb_ref vc))"
  by (simp add: known_lb_id_def api_lb_def api_lb_ref_def Let_def)

lemma set_cluster_condition_apply [simp]:
  "set_cluster_condition E t st r m s =
     Ret () (s\<lparr>obj := vc_set_condition E t st r m (Now E (world s)) (obj s)\<rparr>)"
  by (simp add: set_cluster_condition_def)

lemma wp_set_cluster_condition [wp_rules]:
  "wp (set_cluster_condition E t st r m) Q P s \<longleftrightarrow>
     Q () (s\<lparr>obj := vc_set_condition E t st r m (Now E (world s)) (obj s)\<rparr>)"
  by (simp add: wp_def)

lemma emits_set_cluster_condition [emit_rules]: "emits A n (set_cluster_condition E t st r m)"
  by (simp add: emits_def wp_rules appends_def)

section \<open>Creating the load balancer\<close>

definition is_lb_create :: "effect \<Rightarrow> bool" where
  "is_lb_create e \<longleftrightarrow> (\<exists>req. e = CallLBCreate req)"

lemma is_lb_create_simps [simp]:
  "is_lb_create (CallLBCreate req)" "\<not> is_lb_create (CallLBGet i)" "\<not> is_lb_create (CallLBDelete i)"
  "\<not> is_lb_create (Eventf t r a nt args)" "\<not> is_lb_create (PatchVultrCluster vc)"
  by (simp_all add: is_lb_create_def)

lemma emits_CreateLoadBalancer: "emits A 1 (CreateLoadBalancer cs spec)"
  unfolding CreateLoadBalancer_def Let_def by (intro emit_rules emits_call_then_one)

lemma emits_create_lb:
  "(\<And>t r a nt args. \<not> A (Eventf t r a nt args)) \<Longrightarrow> emits A 1 (create_lb E cs vc)"
  unfolding create_lb_def Let_def
  by (rule emits_try_then_first [OF emits_CreateLoadBalancer]; intro emit_rules; simp)

lemma emits_find_or_create_lb:
  assumes "\<And>t r a nt args. \<not> A (Eventf t r a nt args)" and "\<And>i. \<not> A (CallLBGet i)"
  shows "emits A 1 (find_or_create_lb E cs)"
  unfolding find_or_create_lb_def Let_def
  by (intro emit_rules emits_create_lb) (simp_all add: assms)

lemma emits_note_lb [emit_rules]: "emits A n (note_lb lb)"
  unfolding note_lb_def by (intro emit_rules)

lemma emits_report_cluster_ready [emit_rules]:
  "(\<And>t r a nt args. \<not> A (Eventf t r a nt args)) \<Longrightarrow> emits A n (report_cluster_ready E cs lb)"
  unfolding report_cluster_ready_def by (intro emit_rules) auto

lemma emits_reconcile_lb [emit_rules]:
  "(\<And>t r a nt args. \<not> A (Eventf t r a nt args)) \<Longrightarrow> emits A n (reconcile_lb E cs lb)"
  unfolding reconcile_lb_def by (intro emit_rules) auto

lemma emits_cluster_reconcileNormal:
  assumes "\<And>t r a nt args. \<not> A (Eventf t r a nt args)" and "\<And>i. \<not> A (CallLBGet i)"
  shows "emits A 1 (VultrCluster_reconcileNormal E cs)"
  unfolding VultrCluster_reconcileNormal_def
  by (rule emits_and_then_0 [OF emits_modify_obj], rule emits_and_then_0 [OF emits_modify_obj],
      rule emits_try_then_first [OF emits_find_or_create_lb]; (intro emit_rules)?; simp add: assms)

lemma emits_cluster_reconcileDelete [emit_rules]:
  assumes "\<And>t r a nt args. \<not> A (Eventf t r a nt args)" and "\<And>i. \<not> A (CallLBGet i)"
    and "\<And>i. \<not> A (CallLBDelete i)"
  shows "emits A n (VultrCluster_reconcileDelete E cs)"
  unfolding VultrCluster_reconcileDelete_def Let_def by (intro emit_rules) (use assms in auto)

text \<open>
  Whatever the APIs answer, one call of \<open>Reconcile\<close> on a VultrCluster orders at most one
  load balancer; this holds for runs that return and for runs that panic.
\<close>

lemma cluster_reconcile_creates_at_most_one:
  "emits is_lb_create 1 (VultrCluster_Reconcile E req)"
proof -
  have "emits is_lb_create (1 + 0) (VultrCluster_run_scope E cs)" for cs
    unfolding VultrCluster_run_scope_def VultrCluster_close_after_def ClusterScope_Close_def
    by (intro emits_deferred emit_rules emits_cluster_reconcileNormal) simp_all
  then have "emits is_lb_create 1 (VultrCluster_run_scope E cs)" for cs by simp
  then show ?thesis
    unfolding VultrCluster_Reconcile_def by (intro emit_rules)
qed

section \<open>The specification of a reconcile\<close>

text \<open>
  What a reader of the VultrCluster sees of the load balancer: the ID in spec and status, the
  endpoint, the two flags, and what the two conditions report.
\<close>

record cluster_view =
  cv_spec_lb :: string
  cv_status_lb :: string
  cv_endpoint :: APIEndpoint
  cv_ready :: bool
  cv_provisioned :: "bool option"
  cv_lb_report :: "(string \<times> string) option"
  cv_cluster_report :: "(string \<times> string) option"

definition vc_report :: "'w env \<Rightarrow> string \<Rightarrow> VultrCluster \<Rightarrow> (string \<times> string) option" where
  "vc_report E t vc = map_option (\<lambda>c. (c_Status c, c_Reason c)) (conditions_Get E (VultrCluster_GetConditions vc) t)"

definition view_of :: "'w env \<Rightarrow> VultrCluster \<Rightarrow> cluster_view" where
  "view_of E vc = \<lparr>cv_spec_lb = lb_ID (api_lb vc), cv_status_lb = ref_ResourceID (api_lb_ref vc),
     cv_endpoint = vcs_ControlPlaneEndpoint (vc_Spec vc), cv_ready = vcst_Ready (vc_Status vc),
     cv_provisioned = vcst_Provisioned (vc_Status vc),
     cv_lb_report = vc_report E LoadBalancerReadyCondition vc,
     cv_cluster_report = vc_report E VultrClusterReadyCondition vc\<rparr>"

text \<open>What the Vultr API has to say about the load balancer of a VultrCluster.\<close>

datatype lb_answer = FetchFailed error | CreateFailed error | Found LoadBalancer | Created LoadBalancer

abbreviation lb_req_for :: "'w ClusterScope \<Rightarrow> VultrCluster \<Rightarrow> LoadBalancerReq" where
  "lb_req_for cs vc \<equiv> lb_create_req (scope_now cs vc) (default_HealthCheck (lb_HealthCheck (api_lb vc)))
     (default_GenericInfo (lb_GenericInfo (api_lb vc))) (lb_FirewallRules (api_lb vc))"

definition create_answer :: "'w ClusterScope \<Rightarrow> VultrCluster \<Rightarrow> 'w \<Rightarrow> (lb_answer \<times> 'w) option" where
  "create_answer cs vc w =
    (let req = lb_req_for cs vc in
     case LoadBalancers_Create (LoadBalancers (cs_clients cs)) req w of (a, w') \<Rightarrow>
       (case (a_err a, a_value a) of
          (Some err, _) \<Rightarrow> Some (CreateFailed err, w')
        | (None, Some l) \<Rightarrow> Some (Created l, w')
        | (None, None) \<Rightarrow> None))"

definition lb_answer_for :: "'w ClusterScope \<Rightarrow> VultrCluster \<Rightarrow> 'w \<Rightarrow> (lb_answer \<times> 'w) option" where
  "lb_answer_for cs vc w =
    (if known_lb_id vc = [] then create_answer cs vc w
     else case LoadBalancers_Get (LoadBalancers (cs_clients cs)) (known_lb_id vc) w of (a, w') \<Rightarrow>
       (case (a_err a, a_value a) of
          (Some err, _) \<Rightarrow> Some (FetchFailed err, w')
        | (None, Some l) \<Rightarrow> Some (Found l, w')
        | (None, None) \<Rightarrow> create_answer cs vc w'))"

text \<open>
  The specification: a failure is reported and changes nothing else; a load balancer is
  recorded in spec and status, and is the endpoint once it has an address. \<open>running\<close> is
  the power status in the status, which lets an empty address pass.
\<close>

definition cluster_spec :: "int \<Rightarrow> bool \<Rightarrow> lb_answer \<Rightarrow> cluster_view \<Rightarrow> cluster_view" where
  "cluster_spec port running ans v =
    (let noted = (\<lambda>l. v\<lparr>cv_spec_lb := gl_ID l, cv_status_lb := gl_ID l\<rparr>);
         seen = (\<lambda>l. if running \<or> gl_IPV4 l \<noteq> []
           then (noted l)\<lparr>cv_endpoint := \<lparr>ep_Host = gl_IPV4 l, ep_Port = int32 port\<rparr>, cv_ready := True,
             cv_provisioned := Some True, cv_lb_report := Some (ConditionTrue, ''LoadBalancerReady''),
             cv_cluster_report := Some (ConditionTrue, ''ClusterReady'')\<rparr>
           else (noted l)\<lparr>cv_provisioned := Some False,
             cv_lb_report := Some (ConditionFalse, WaitingForIPReason)\<rparr>)
     in case ans of
        FetchFailed err \<Rightarrow> v\<lparr>cv_lb_report := Some (ConditionFalse, ErrorFetchingLBReason)\<rparr>
      | CreateFailed err \<Rightarrow> v\<lparr>cv_lb_report := Some (ConditionFalse, ErrorCreatingLBReason)\<rparr>
      | Found l \<Rightarrow> seen l
      | Created l \<Rightarrow> seen l)"

definition cluster_result :: "ObjectMeta \<Rightarrow> bool \<Rightarrow> lb_answer \<Rightarrow> Result \<times> error option" where
  "cluster_result meta running ans =
    (let seen = (\<lambda>l. if running \<or> gl_IPV4 l \<noteq> [] then (no_requeue, None) else (requeue_after (15 * Second), None))
     in case ans of
        FetchFailed err \<Rightarrow> (no_requeue, Some err)
      | CreateFailed err \<Rightarrow> (no_requeue, Some (Wrap (''failed to create load balancer for VultrCluster '' @
            om_Namespace meta @ ''/'' @ om_Name meta) err))
      | Found l \<Rightarrow> seen l
      | Created l \<Rightarrow> seen l)"

subsection \<open>The code refines it\<close>

lemma vc_report_set_condition:
  assumes "conditions_laws E"
  shows "vc_report E t (vc_set_condition E u st r m now vc) = (if t = u then Some (st, r) else vc_report E t vc)"
proof -
  let ?c = "\<lparr>c_Type = u, c_Status = st, c_Reason = r, c_Message = m, c_LastTransitionTime = now\<rparr>"
  have "vc_report E u (vc_set_condition E u st r m now vc) = Some (st, r)"
    using conditions_Get_Set_same [OF assms, of ?c "VultrCluster_GetConditions vc"]
    by (auto simp: vc_report_def vc_set_condition_def same_report_def)
  then show ?thesis
    using conditions_Get_Set_other [OF assms, of t ?c "VultrCluster_GetConditions vc"]
    by (auto simp: vc_report_def vc_set_condition_def)
qed

lemma view_of_set_condition:
  "conditions_laws E \<Longrightarrow> view_of E (vc_set_condition E LoadBalancerReadyCondition st r m now vc) =
     (view_of E vc)\<lparr>cv_lb_report := Some (st, r)\<rparr>"
  "conditions_laws E \<Longrightarrow> view_of E (vc_set_condition E VultrClusterReadyCondition st r m now vc) =
     (view_of E vc)\<lparr>cv_cluster_report := Some (st, r)\<rparr>"
  by (simp_all add: view_of_def vc_report_set_condition)
    (simp_all add: vc_set_condition_def VultrCluster_SetConditions_def LoadBalancerReadyCondition_def
      VultrClusterReadyCondition_def)

lemma view_of_setters:
  "view_of E (vc_AddFinalizer E f vc) = view_of E vc"
  "view_of E (vc_update_lb ApplyDefaults vc) = view_of E vc"
  "view_of E (vc_update_lb (\<lambda>l. l\<lparr>lb_ID := i\<rparr>) vc) = (view_of E vc)\<lparr>cv_spec_lb := i\<rparr>"
  "view_of E (vc_update_ref (\<lambda>r. r\<lparr>ref_ResourceID := i\<rparr>) vc) = (view_of E vc)\<lparr>cv_status_lb := i\<rparr>"
  "view_of E (vc_update_ref (\<lambda>r. r\<lparr>ref_ResourceSubscriptionStatus := v\<rparr>) vc) = view_of E vc"
  "view_of E (vc_set_Provisioned b vc) = (view_of E vc)\<lparr>cv_provisioned := Some b\<rparr>"
  "view_of E (SetControlPlaneEndpoint ep vc) = (view_of E vc)\<lparr>cv_endpoint := ep\<rparr>"
  "view_of E (ClusterScope_SetReady vc) = (view_of E vc)\<lparr>cv_ready := True\<rparr>"
  "view_of E (vc\<lparr>vc_Status := (vc_Status vc)\<lparr>vcst_Ready := True\<rparr>\<rparr>) = (view_of E vc)\<lparr>cv_ready := True\<rparr>"
  by (simp_all add: view_of_def vc_report_def VultrCluster_GetConditions_def api_lb_def api_lb_ref_def
      vc_update_lb_def vc_update_ref_def vc_AddFinalizer_def vc_set_Provisioned_def
      SetControlPlaneEndpoint_def ClusterScope_SetReady_def)

lemma lb_create_req_prepared [simp]:
  "lb_create_req (scope_now cs (vc_update_lb f vc)) = lb_create_req (scope_now cs vc)"
  "lb_create_req (scope_now cs (vc_AddFinalizer E fin vc)) = lb_create_req (scope_now cs vc)"
  by (simp_all add: fun_eq_iff lb_create_req_def ClusterScope_Name_def ClusterScope_UID_def ClusterScope_Region_def
      ClusterScope_VPC_def scope_now_def vc_update_lb_def vc_AddFinalizer_def)

text \<open>The VultrCluster with the finalizer and the defaults, on which the rest of the handler runs.\<close>

definition prepared :: "'w env \<Rightarrow> VultrCluster \<Rightarrow> VultrCluster" where
  "prepared E vc = vc_update_lb ApplyDefaults (vc_AddFinalizer E ClusterFinalizer vc)"

lemma prepared_sel [simp]:
  "api_lb (prepared E vc) = ApplyDefaults (api_lb vc)" "api_lb_ref (prepared E vc) = api_lb_ref vc"
  "known_lb_id (prepared E vc) = known_lb_id vc" "view_of E (prepared E vc) = view_of E vc"
  "om_Namespace (vc_meta (prepared E vc)) = om_Namespace (vc_meta vc)"
  "om_Name (vc_meta (prepared E vc)) = om_Name (vc_meta vc)"
  "lb_create_req (scope_now cs (prepared E vc)) = lb_create_req (scope_now cs vc)"
  by (simp_all add: prepared_def known_lb_id_alt view_of_setters)
    (simp_all add: vc_update_lb_def vc_AddFinalizer_def)

lemma CreateLoadBalancer_apply:
  "CreateLoadBalancer (scope_now cs (prepared E vc)) (ApplyDefaults (api_lb vc)) s =
     (let req = lb_req_for cs vc
      in case LoadBalancers_Create (LoadBalancers (cs_clients cs)) req (world s) of (a, w) \<Rightarrow>
        Ret (case a_err a of Some err \<Rightarrow> Inl err | None \<Rightarrow> Inr (a_value a))
          (s\<lparr>world := w, trace := trace s @ [CallLBCreate req]\<rparr>))"
  by (simp add: CreateLoadBalancer_def call_def and_then_def Let_def ret_def split: prod.split option.split)

lemma GetLoadBalancer_apply:
  "GetLoadBalancer cs i s = (if i = [] then Ret (Inr None) s
     else case LoadBalancers_Get (LoadBalancers (cs_clients cs)) i (world s) of (a, w) \<Rightarrow>
       Ret (case a_err a of Some err \<Rightarrow> Inl err | None \<Rightarrow> Inr (a_value a))
         (s\<lparr>world := w, trace := trace s @ [CallLBGet i]\<rparr>))"
  by (simp add: GetLoadBalancer_def call_def and_then_def ret_def split: prod.split option.split)

text \<open>How a search for the load balancer ends, as a function of the API's answer.\<close>

definition lb_search_ends ::
  "'w env \<Rightarrow> VultrCluster \<Rightarrow> lb_answer \<Rightarrow> 'w \<Rightarrow>
     (('w, VultrCluster) st, (Result \<times> error option) + LoadBalancer) outcome \<Rightarrow> bool" where
  "lb_search_ends E vc ans w x \<longleftrightarrow> (\<exists>r s'. x = Ret r s' \<and> world s' = w \<and>
     (case ans of
        Found l \<Rightarrow> r = Inr l \<and> obj s' = prepared E vc
      | Created l \<Rightarrow> r = Inr l \<and> obj s' = prepared E vc
      | FetchFailed err \<Rightarrow> r = Inl (cluster_result (vc_meta vc) False ans) \<and>
          (\<exists>m now. obj s' = vc_set_condition E LoadBalancerReadyCondition ConditionFalse
             ErrorFetchingLBReason m now (prepared E vc))
      | CreateFailed err \<Rightarrow> r = Inl (cluster_result (vc_meta vc) False ans) \<and>
          (\<exists>m now. obj s' = vc_set_condition E LoadBalancerReadyCondition ConditionFalse
             ErrorCreatingLBReason m now (prepared E vc))))"

lemma create_lb_eval:
  assumes "obj s = prepared E vc"
  shows "case create_answer cs vc (world s) of
      None \<Rightarrow> \<exists>msg s'. create_lb E cs (prepared E vc) s = Panic msg s'
    | Some (ans, w) \<Rightarrow> lb_search_ends E vc ans w (create_lb E cs (prepared E vc) s)"
  using assms
  by (auto simp: create_lb_def create_answer_def lb_search_ends_def cluster_result_def CreateLoadBalancer_apply
      Let_def try_then_def and_then_def panic_def ret_def split: prod.splits option.splits)

lemma find_or_create_lb_search:
  assumes "obj s = prepared E vc"
  shows "find_or_create_lb E cs s =
      try_then (GetLoadBalancer (scope_now cs (prepared E vc)) (known_lb_id vc))
        (\<lambda>err. and_then (set_cluster_condition E LoadBalancerReadyCondition ConditionFalse
             ErrorFetchingLBReason (ErrorText E err)) (\<lambda>_. ret (Inl (no_requeue, Some err))))
        (case_option (create_lb E cs (prepared E vc)) (\<lambda>l. ret (Inr l))) s"
  using assms by (simp add: find_or_create_lb_def known_lb_id_alt Let_def)

lemma cluster_reconcileNormal_run:
  "VultrCluster_reconcileNormal E cs s =
     try_then (find_or_create_lb E cs) ret (reconcile_lb E cs) (s\<lparr>obj := prepared E (obj s)\<rparr>)"
  by (simp add: VultrCluster_reconcileNormal_def prepared_def)

lemma find_or_create_lb_eval:
  assumes "obj s = prepared E vc"
  shows "case lb_answer_for cs vc (world s) of
      None \<Rightarrow> \<exists>msg s'. find_or_create_lb E cs s = Panic msg s'
    | Some (ans, w) \<Rightarrow> lb_search_ends E vc ans w (find_or_create_lb E cs s)"
proof -
  let ?i = "known_lb_id vc"
  note search = find_or_create_lb_search [OF assms, of cs]
  show ?thesis
  proof (cases "?i = []")
    case True
    then have "find_or_create_lb E cs s = create_lb E cs (prepared E vc) s"
      by (simp add: search GetLoadBalancer_apply)
    then show ?thesis
      using create_lb_eval [OF assms, of cs] True by (auto simp: lb_answer_for_def split: option.splits)
  next
    case False
    obtain a w where get: "LoadBalancers_Get (LoadBalancers (cs_clients cs)) ?i (world s) = (a, w)"
      by fastforce
    let ?s = "s\<lparr>world := w, trace := trace s @ [CallLBGet ?i]\<rparr>"
    have "GetLoadBalancer (scope_now cs (prepared E vc)) ?i s =
        Ret (case a_err a of Some err \<Rightarrow> Inl err | None \<Rightarrow> Inr (a_value a)) ?s"
      using False get by (simp add: GetLoadBalancer_apply)
    with create_lb_eval [of ?s E vc cs] False get assms show ?thesis
      by (cases "a_err a"; cases "a_value a")
        (auto simp: search lb_answer_for_def lb_search_ends_def cluster_result_def split: option.splits)
  qed
qed

lemma report_cluster_ready_eval:
  assumes E: "conditions_laws E" and hc: "lb_HealthCheck (api_lb (obj s)) = Some hc"
  shows "\<exists>s'. report_cluster_ready E cs l s = Ret (no_requeue, None) s' \<and> world s' = world s \<and>
    view_of E (obj s') = (view_of E (obj s))\<lparr>cv_endpoint := \<lparr>ep_Host = gl_IPV4 l, ep_Port = int32 (hc_Port hc)\<rparr>,
      cv_ready := True, cv_provisioned := Some True, cv_lb_report := Some (ConditionTrue, ''LoadBalancerReady''),
      cv_cluster_report := Some (ConditionTrue, ''ClusterReady'')\<rparr>"
  using hc by (simp add: report_cluster_ready_def view_of_setters view_of_set_condition [OF E])

lemma reconcile_lb_eval:
  assumes E: "conditions_laws E" and s: "obj s = prepared E vc"
    and running: "running \<longleftrightarrow> ref_ResourcePowerStatus (api_lb_ref vc) = PowerStatusRunning"
    and port: "port = hc_Port (default_HealthCheck (lb_HealthCheck (api_lb vc)))"
  shows "\<exists>s'. reconcile_lb E cs l s = Ret (cluster_result (vc_meta vc) running (Found l)) s' \<and>
    world s' = world s \<and> view_of E (obj s') = cluster_spec port running (Found l) (view_of E vc)"
proof -
  let ?vc = "vc_update_lb (\<lambda>b. b\<lparr>lb_ID := gl_ID l\<rparr>) (vc_update_ref (\<lambda>r. r\<lparr>ref_ResourceSubscriptionStatus := gl_Status l\<rparr>)
     (vc_update_ref (\<lambda>r. r\<lparr>ref_ResourceID := gl_ID l\<rparr>) (prepared E vc)))"
  have view: "view_of E ?vc = (view_of E vc)\<lparr>cv_spec_lb := gl_ID l, cv_status_lb := gl_ID l\<rparr>"
    by (simp add: view_of_setters)
  show ?thesis
  proof (cases "running \<or> gl_IPV4 l \<noteq> []")
    case True
    with s running show ?thesis
      using report_cluster_ready_eval [OF E, of "s\<lparr>obj := ?vc\<rparr>" _ cs l]
      by (auto simp: reconcile_lb_def note_lb_def cluster_result_def cluster_spec_def Let_def view port)
  next
    case False
    with s running show ?thesis
      by (simp add: reconcile_lb_def note_lb_def cluster_result_def cluster_spec_def Let_def view view_of_setters
          view_of_set_condition [OF E])
  qed
qed

lemma cluster_reconcileNormal_eval:
  assumes "conditions_laws E"
    and "running \<longleftrightarrow> ref_ResourcePowerStatus (api_lb_ref (obj s)) = PowerStatusRunning"
    and "port = hc_Port (default_HealthCheck (lb_HealthCheck (api_lb (obj s))))"
  shows "case lb_answer_for cs (obj s) (world s) of
      None \<Rightarrow> \<exists>msg s'. VultrCluster_reconcileNormal E cs s = Panic msg s'
    | Some (ans, w) \<Rightarrow> \<exists>s'.
        VultrCluster_reconcileNormal E cs s = Ret (cluster_result (vc_meta (obj s)) running ans) s' \<and>
        world s' = w \<and> view_of E (obj s') = cluster_spec port running ans (view_of E (obj s))"
proof -
  let ?s = "s\<lparr>obj := prepared E (obj s)\<rparr>"
  note run = cluster_reconcileNormal_run [of E cs s]
  have search: "case lb_answer_for cs (obj s) (world s) of
      None \<Rightarrow> \<exists>msg s'. find_or_create_lb E cs ?s = Panic msg s'
    | Some (ans, w) \<Rightarrow> lb_search_ends E (obj s) ans w (find_or_create_lb E cs ?s)"
    using find_or_create_lb_eval [of ?s E "obj s" cs] by simp
  show ?thesis
  proof (cases "lb_answer_for cs (obj s) (world s)")
    case None
    with search show ?thesis by (auto simp: run try_then_def and_then_def)
  next
    case (Some aw)
    obtain ans w where aw: "aw = (ans, w)" by fastforce
    from search Some aw have ends: "lb_search_ends E (obj s) ans w (find_or_create_lb E cs ?s)" by simp
    have "\<exists>s'. VultrCluster_reconcileNormal E cs s = Ret (cluster_result (vc_meta (obj s)) running ans) s' \<and>
        world s' = w \<and> view_of E (obj s') = cluster_spec port running ans (view_of E (obj s))"
    proof (cases "\<exists>l. ans = Found l \<or> ans = Created l")
      case True
      then obtain l s1 where l: "ans = Found l \<or> ans = Created l"
        and s1: "find_or_create_lb E cs ?s = Ret (Inr l) s1" "world s1 = w" "obj s1 = prepared E (obj s)"
        using ends by (auto simp: lb_search_ends_def)
      from l have "cluster_result (vc_meta (obj s)) running ans = cluster_result (vc_meta (obj s)) running (Found l)"
        "cluster_spec port running ans v = cluster_spec port running (Found l) v" for v
        by (auto simp: cluster_result_def cluster_spec_def)
      with reconcile_lb_eval [OF assms(1) s1(3) assms(2,3), of cs l] s1 show ?thesis by (simp add: run)
    next
      case False
      with ends assms(1) show ?thesis
        by (cases ans) (auto simp: lb_search_ends_def run cluster_result_def cluster_spec_def Let_def view_of_set_condition)
    qed
    with Some aw show ?thesis by simp
  qed
qed

text \<open>
  C8. One reconcile of a VultrCluster implements the specification: for every answer of the
  Vultr API it returns the specified result, and what a reader sees of the VultrCluster
  afterwards is the specified change of what he saw before. The endpoint's port is the
  one of the defaulted health check. The only runs that do not return are those in which a
  create answers neither a load balancer nor an error; they panic.
\<close>

theorem cluster_reconcile_refines_spec:
  assumes "conditions_laws E"
    and "running \<longleftrightarrow> ref_ResourcePowerStatus (api_lb_ref (obj s)) = PowerStatusRunning"
    and "port = hc_Port (default_HealthCheck (lb_HealthCheck (api_lb (obj s))))"
  shows "case lb_answer_for cs (obj s) (world s) of
      None \<Rightarrow> \<exists>msg s'. VultrCluster_reconcileNormal E cs s = Panic msg s'
    | Some (ans, w) \<Rightarrow> \<exists>s'.
        VultrCluster_reconcileNormal E cs s = Ret (cluster_result (vc_meta (obj s)) running ans) s' \<and>
        world s' = w \<and> view_of E (obj s') = cluster_spec port running ans (view_of E (obj s))"
  using assms by (rule cluster_reconcileNormal_eval)

text \<open>
  C27. The endpoint of a ready cluster: after a reconcile that ends without error or requeue the
  endpoint's port is the defaulted health-check port, cut to 32 bits as Go converts it, so
  it always fits the field's type and is the port itself for every port of TCP; its host
  is empty only if the status says that the load balancer is running.
\<close>

theorem cluster_endpoint_port:
  assumes "conditions_laws E" and "VultrCluster_reconcileNormal E cs s = Ret (no_requeue, None) s'"
    and "port = hc_Port (default_HealthCheck (lb_HealthCheck (api_lb (obj s))))"
    and "ep = vcs_ControlPlaneEndpoint (vc_Spec (obj s'))"
  shows "ep_Port ep = int32 port \<and> - (2 ^ 31) \<le> ep_Port ep \<and> ep_Port ep < 2 ^ 31 \<and>
    (0 < port \<and> port < 65536 \<longrightarrow> ep_Port ep = port) \<and>
    (ep_Host ep = [] \<longrightarrow> ref_ResourcePowerStatus (api_lb_ref (obj s)) = PowerStatusRunning)"
proof -
  let ?running = "ref_ResourcePowerStatus (api_lb_ref (obj s)) = PowerStatusRunning"
  from cluster_reconcileNormal_eval [OF assms(1) refl assms(3), of cs] assms(2)
  obtain ans w where res: "cluster_result (vc_meta (obj s)) ?running ans = (no_requeue, None)"
    and view: "view_of E (obj s') = cluster_spec port ?running ans (view_of E (obj s))"
    by (auto split: option.splits)
  from res obtain l where "ans = Found l \<or> ans = Created l" and "?running \<or> gl_IPV4 l \<noteq> []"
    by (cases ans) (auto simp: cluster_result_def no_requeue_def requeue_after_def Second_def split: if_splits)
  with view have "cv_endpoint (view_of E (obj s')) = \<lparr>ep_Host = gl_IPV4 l, ep_Port = int32 port\<rparr>"
    by (auto simp: cluster_spec_def Let_def)
  then have "ep = \<lparr>ep_Host = gl_IPV4 l, ep_Port = int32 port\<rparr>" by (simp add: view_of_def assms(4))
  with \<open>?running \<or> gl_IPV4 l \<noteq> []\<close> show ?thesis
    using int32_range [of port] by (auto intro: int32_id)
qed

text \<open>
  The defaults of the load balancer's spec: afterwards the health check and the
  generic information are there, no number the create request copies is zero and the
  balancing algorithm is not empty; a port that was given is kept; and applying the defaults
  again, as every reconcile does, changes nothing.
\<close>

lemma lb_defaults_complete:
  "\<exists>hc gi. lb_HealthCheck (ApplyDefaults lb) = Some hc \<and> lb_GenericInfo (ApplyDefaults lb) = Some gi \<and>
     0 \<notin> {hc_Port hc, hc_CheckInterval hc, hc_ResponseTimeout hc, hc_UnhealthyThreshold hc, hc_HealthyThreshold hc} \<and>
     gi_BalancingAlgorithm gi \<noteq> [] \<and>
     hc_Port hc = (case lb_HealthCheck lb of
        None \<Rightarrow> DefaultLBPort | Some c \<Rightarrow> if hc_Port c = 0 then DefaultLBPort else hc_Port c) \<and>
     ApplyDefaults (ApplyDefaults lb) = ApplyDefaults lb"
proof -
  have "gi_BalancingAlgorithm (default_GenericInfo g) \<noteq> []" for g
    by (simp add: default_GenericInfo_def DefaultLBAlgorithm_def Let_def)
  moreover have "ApplyDefaults (ApplyDefaults lb) = ApplyDefaults lb"
    by (simp add: ApplyDefaults_def default_HealthCheck_idem default_GenericInfo_idem)
  ultimately show ?thesis
    using default_HealthCheck_nonzero [of "lb_HealthCheck lb"] default_HealthCheck_Port [of "lb_HealthCheck lb"]
    by (simp add: eq_commute [of 0])
qed

section \<open>When a load balancer is created\<close>

definition lb_create_decided :: "'w ClusterScope \<Rightarrow> ('w, VultrCluster) st \<Rightarrow> ('w, VultrCluster) st \<Rightarrow> bool" where
  "lb_create_decided cs s s' \<longleftrightarrow>
    (let i = known_lb_id (obj s) in
     \<exists>rest. length (filter is_lb_create rest) = 0 \<and>
       (if i = [] then \<exists>req. trace s' = trace s @ CallLBCreate req # rest \<and>
            lq_Label req = ClusterScope_Name cs @ ''-'' @ ClusterScope_UID cs
        else trace s' = trace s @ CallLBGet i # rest \<or>
          (\<exists>req a w. trace s' = trace s @ CallLBGet i # CallLBCreate req # rest \<and>
             LoadBalancers_Get (LoadBalancers (cs_clients cs)) i (world s) = (a, w) \<and>
             a_err a = None \<and> a_value a = None)))"

lemma create_lb_first:
  assumes "trace s' = trace s @ [CallLBCreate (lb_req_for cs vc)]"
  shows "wp (create_lb E cs (prepared E vc)) (\<lambda>_. appends is_lb_create 0 s') (appends is_lb_create 0 s') s"
proof -
  have "wp (CreateLoadBalancer (scope_now cs (prepared E vc)) (ApplyDefaults (api_lb vc)))
      (\<lambda>_. appends is_lb_create 0 s') (appends is_lb_create 0 s') s"
    using assms by (simp add: wp_def CreateLoadBalancer_apply appends_def Let_def split: prod.split)
  then show ?thesis
    unfolding create_lb_def Let_def scope_now_sel prepared_sel
    by (rule wp_try_then_emits) (intro emit_rules; simp)+
qed

text \<open>What the search for the load balancer did, the rest of the handler leaves as it is.\<close>

lemma wp_after_lb_search:
  assumes "wp (find_or_create_lb E cs) (\<lambda>_. appends is_lb_create 0 s1) (appends is_lb_create 0 s1) (s\<lparr>obj := prepared E (obj s)\<rparr>)"
    and "\<And>s'. appends is_lb_create 0 s1 s' \<Longrightarrow> lb_create_decided cs s s'"
  shows "wp (VultrCluster_reconcileNormal E cs) (\<lambda>_. lb_create_decided cs s) (lb_create_decided cs s) s"
proof -
  have "wp (try_then (find_or_create_lb E cs) ret (reconcile_lb E cs))
      (\<lambda>_. appends is_lb_create 0 s1) (appends is_lb_create 0 s1) (s\<lparr>obj := prepared E (obj s)\<rparr>)"
    using assms(1) by (rule wp_try_then_emits) (intro emit_rules; simp)+
  then have "wp (VultrCluster_reconcileNormal E cs) (\<lambda>_. appends is_lb_create 0 s1) (appends is_lb_create 0 s1) s"
    by (simp only: wp_def cluster_reconcileNormal_run)
  then show ?thesis by (rule wp_mono) (use assms(2) in auto)
qed

text \<open>The three ways the search goes: no ID, a read that answers neither way, and any other read.\<close>

lemma wp_lb_search_unknown:
  assumes "known_lb_id (obj s) = []" and "s1 = s\<lparr>trace := trace s @ [CallLBCreate (lb_req_for cs (obj s))]\<rparr>"
  shows "wp (find_or_create_lb E cs) (\<lambda>_. appends is_lb_create 0 s1) (appends is_lb_create 0 s1) (s\<lparr>obj := prepared E (obj s)\<rparr>)"
proof -
  let ?s = "s\<lparr>obj := prepared E (obj s)\<rparr>"
  have "find_or_create_lb E cs ?s = create_lb E cs (prepared E (obj s)) ?s"
    using assms(1) find_or_create_lb_search [of ?s E "obj s" cs] by (simp add: GetLoadBalancer_apply)
  then show ?thesis using create_lb_first [of s1 ?s cs "obj s" E] assms(2) by (simp add: wp_def)
qed

lemma wp_lb_search_known:
  assumes "known_lb_id (obj s) = i" and "i \<noteq> []"
    and "LoadBalancers_Get (LoadBalancers (cs_clients cs)) i (world s) = (a, w)"
    and "s1 = s\<lparr>trace := trace s @ (if a_err a = None \<and> a_value a = None
        then [CallLBGet i, CallLBCreate (lb_req_for cs (obj s))] else [CallLBGet i])\<rparr>"
  shows "wp (find_or_create_lb E cs) (\<lambda>_. appends is_lb_create 0 s1) (appends is_lb_create 0 s1) (s\<lparr>obj := prepared E (obj s)\<rparr>)"
proof -
  let ?s = "s\<lparr>obj := prepared E (obj s)\<rparr>"
  let ?t = "?s\<lparr>world := w, trace := trace s @ [CallLBGet i]\<rparr>"
  have got: "GetLoadBalancer (scope_now cs (prepared E (obj s))) i ?s =
      Ret (case a_err a of Some err \<Rightarrow> Inl err | None \<Rightarrow> Inr (a_value a)) ?t"
    using assms(2,3) by (simp add: GetLoadBalancer_apply)
  note search = find_or_create_lb_search [of ?s E "obj s" cs, unfolded assms(1)]
  show ?thesis
  proof (cases "a_err a = None \<and> a_value a = None")
    case True
    then have "find_or_create_lb E cs ?s = create_lb E cs (prepared E (obj s)) ?t" using got by (simp add: search)
    then show ?thesis using create_lb_first [of s1 ?t cs "obj s" E] assms(4) True by (simp add: wp_def)
  next
    case False
    with got assms(4) show ?thesis
      by (cases "a_err a"; cases "a_value a") (auto simp: wp_def search appends_def)
  qed
qed

text \<open>
  C26. Whether a load balancer is created is decided by the IDs in spec and status alone. With
  no ID the first call is the create, with a known ID it is the read of that load balancer,
  and a create follows only if the API answers the read with neither a load balancer nor
  an error. Unlike in the machines' controllers no search comes first: an ID that was not
  persisted leads to a second load balancer.
\<close>

theorem cluster_create_decided_by_id:
  "wp (VultrCluster_reconcileNormal E cs) (\<lambda>_. lb_create_decided cs s) (lb_create_decided cs s) s"
proof (cases "known_lb_id (obj s) = []")
  case True
  have "lq_Label (lb_req_for cs (obj s)) = ClusterScope_Name cs @ ''-'' @ ClusterScope_UID cs"
    by (simp add: lb_create_req_def ClusterScope_Name_def ClusterScope_UID_def)
  with True show ?thesis
    by (intro wp_after_lb_search [OF wp_lb_search_unknown [OF True refl]]) (auto simp: lb_create_decided_def appends_def)
next
  case False
  obtain a w where get: "LoadBalancers_Get (LoadBalancers (cs_clients cs)) (known_lb_id (obj s)) (world s) = (a, w)"
    by fastforce
  then show ?thesis
    by (intro wp_after_lb_search [OF wp_lb_search_known [OF refl False get refl]])
      (use False in \<open>auto simp: lb_create_decided_def appends_def split: if_splits\<close>)
qed

section \<open>Deletion\<close>

text \<open>
  C33. The finalizers of a VultrCluster change only when its status names no load balancer, when
  the API answers the read with neither a load balancer nor an error, or when the delete call
  of the load balancer that was read succeeded.
\<close>

theorem cluster_finalizer_only_when_deleted:
  assumes "VultrCluster_reconcileDelete E cs s = Ret r s'"
    and "om_Finalizers (vc_meta (obj s')) \<noteq> om_Finalizers (vc_meta (obj s))"
  shows "ref_ResourceID (api_lb_ref (obj s)) = [] \<or>
    (\<exists>a w. LoadBalancers_Get (LoadBalancers (cs_clients cs)) (ref_ResourceID (api_lb_ref (obj s))) (world s) = (a, w) \<and>
       a_err a = None \<and>
       (case a_value a of
          None \<Rightarrow> True
        | Some l \<Rightarrow> LoadBalancers_Delete (LoadBalancers (cs_clients cs)) (gl_ID l) w = (None, world s')))"
  using assms
  by (auto simp: VultrCluster_reconcileDelete_def GetLoadBalancer_apply DeleteLoadBalancer_def call_def Let_def
      try_then_def and_then_def ret_def split: prod.splits option.splits if_splits)

text \<open>
  C39. A load balancer that is already gone blocks the deletion: every error of the read, a 404
  included, is returned and the VultrCluster keeps its finalizer. As long as the API
  answers so, no number of reconciles removes it.
\<close>

theorem cluster_delete_stuck_when_lb_gone:
  assumes "ref_ResourceID (api_lb_ref (obj s)) = i" and "i \<noteq> []"
    and "LoadBalancers_Get (LoadBalancers (cs_clients cs)) i (world s) = (a, w)"
    and "a_err a = Some err" and "captured_status (a_trips a) = StatusNotFound"
  shows "VultrCluster_reconcileDelete E cs s =
    Ret (no_requeue, Some err) (s\<lparr>world := w, trace := trace s @ [CallLBGet i]\<rparr>)"
  using assms by (simp add: VultrCluster_reconcileDelete_def GetLoadBalancer_apply Let_def)

text \<open>
  C40. The deletion does not look at the load balancer ID in the spec: with the status empty,
  as after a restore of the object, the finalizer goes without any call to the Vultr API, and
  the load balancer the spec names stays.
\<close>

theorem cluster_delete_ignores_spec_id:
  assumes "ref_ResourceID (api_lb_ref (obj s)) = []" and "known_lb_id (obj s) = i"
  shows "\<exists>s'. VultrCluster_reconcileDelete E cs s = Ret (no_requeue, None) s' \<and> world s' = world s \<and>
    known_lb_id (obj s') = i \<and> obj s' = vc_RemoveFinalizer E ClusterFinalizer (obj s) \<and>
    (\<forall>j. CallLBDelete j \<in> set (trace s') \<longrightarrow> CallLBDelete j \<in> set (trace s))"
  using assms
  by (simp add: VultrCluster_reconcileDelete_def GetLoadBalancer_apply Let_def known_lb_id_alt split: if_splits)

section \<open>Closing\<close>

definition VultrCluster_handler ::
  "'w env \<Rightarrow> 'w ClusterScope \<Rightarrow> (('w, VultrCluster) st, Result \<times> error option) comp" where
  "VultrCluster_handler E cs = and_then get_obj (\<lambda>vc.
     if om_DeletionTimestamp (vc_meta vc) \<noteq> None then VultrCluster_reconcileDelete E cs
     else VultrCluster_reconcileNormal E cs)"

text \<open>
  Whatever the handler does, return, fail or panic, the VultrCluster it leaves is patched
  to Kubernetes as the last effect of the run, so that the ID of a new load balancer is
  written on every path. The handler's error and its requeue are kept.
\<close>

lemma cluster_always_closed:
  "VultrCluster_run_scope E cs s =
     closing PatchVultrCluster (PatchVC E (cs_patchHelper cs)) (VultrCluster_handler E cs s)"
proof -
  have close: "ClusterScope_Close E cs s = Ret (fst (PatchVC E (cs_patchHelper cs) (obj s) (world s)))
      (s\<lparr>world := snd (PatchVC E (cs_patchHelper cs) (obj s) (world s)), trace := trace s @ [PatchVultrCluster (obj s)]\<rparr>)"
    for s
    by (simp add: ClusterScope_Close_def call_def and_then_def split: prod.split)
  show ?thesis
    unfolding VultrCluster_run_scope_def VultrCluster_handler_def [symmetric] closing_def
    by (rule deferred_apply)
      (simp_all add: VultrCluster_close_after_def close keep_error_def closed_def close_error_def)
qed

end
