(* ===== verification/Controllers_Safety.thy ===== *)
theory Controllers_Safety
  imports Machine_Safety BareMetal_Safety Cluster_Safety
begin

text \<open>
  What the controllers have in common, for each of them: how much one reconcile creates, what comes
  before a create, how a deletion ends, and what the watches on a VultrCluster ask for.
\<close>

section \<open>Creation\<close>

text \<open>
  C32. Whatever the Vultr API and the Kubernetes API answer, one call of \<open>Reconcile\<close> makes at most one create
  call: for an instance, a bare metal server or a load balancer. This holds for runs that
  return and for runs that panic.
\<close>

theorem reconciles_create_at_most_one:
  "emits is_instance_create 1 (VultrMachine_Reconcile E req) \<and>
   emits is_bare_metal_create 1 (VultrBareMetalMachine_Reconcile E req) \<and>
   emits is_lb_create 1 (VultrCluster_Reconcile E req)"
  by (intro conjI machine_reconcile_creates_at_most_one bare_metal_reconcile_creates_at_most_one
      cluster_reconcile_creates_at_most_one)

text \<open>
  C7. An instance or a bare metal server is created only when the machine has no provider ID and a complete
  listing, all pages of it, held none that belongs to the machine; the listing comes
  before every other call. This holds on every path, panics included. In particular a machine with
  a provider ID never gets a second one, whatever the API answers.
\<close>

theorem created_only_after_search:
  "wp (VultrMachine_reconcileNormal E cs ms)
     (\<lambda>_. instance_created_after_search E cs ms s) (instance_created_after_search E cs ms s) s \<and>
   wp (VultrBareMetalMachine_reconcileNormal E cs bsc)
     (\<lambda>_. server_created_after_search E cs bsc s') (server_created_after_search E cs bsc s') s'"
  by (rule conjI [OF machine_created_only_after_search bare_metal_created_only_after_search])

section \<open>Deletion\<close>

text \<open>
  A deletion of a machine of either kind that ends without an error and without asking to be called
  again has removed the finalizer, and only the finalizer, and reports the machine as
  deleting: a deleted machine never stays behind unattended.
\<close>

lemma deletions_end_or_retry:
  assumes "conditions_laws E" and "finalizer_laws E" and "RequeueAfter r = 0"
  shows "(VultrMachine_reconcileDelete E cs ms s = Ret (r, None) s' \<longrightarrow>
      set (om_Finalizers (vm_meta (obj s'))) = set (om_Finalizers (vm_meta (obj s))) - {MachineFinalizer} \<and>
      vm_ready_report E (obj s') = Some (ConditionFalse, InstanceDeletingReason) \<and>
      vm_Spec (obj s') = vm_Spec (obj s)) \<and>
    (VultrBareMetalMachine_reconcileDelete E cs bsc t = Ret (r, None) t' \<longrightarrow>
      set (om_Finalizers (bm_meta (obj t'))) = set (om_Finalizers (bm_meta (obj t))) - {BareMetalMachineFinalizer} \<and>
      bm_ready_report E (obj t') = Some (ConditionFalse, BareMetalDeletingReason) \<and>
      bm_Spec (obj t') = bm_Spec (obj t))"
  using machine_delete_ends_or_retries [OF assms(1,2) _ assms(3)]
    bare_metal_delete_ends_or_retries [OF assms(1,2) _ assms(3)] by blast

section \<open>Watches\<close>

text \<open>The machine is built on an object of the kind.\<close>

definition built_on :: "string \<Rightarrow> Machine \<Rightarrow> bool" where
  "built_on kind m \<longleftrightarrow> ir_Kind (mc_InfrastructureRef m) = kind \<and> ir_Name (mc_InfrastructureRef m) \<noteq> []"

lemma cluster_to_requests_apply:
  assumes "GetOwnerCluster E (vc_meta c) (world s) = (Inr (Some cluster), w)"
    and "ListMachines E (om_Namespace (vc_meta c)) [(ClusterNameLabel, om_Name (cl_meta cluster))] w = (Inr machines, w')"
  shows "cluster_to_requests E keep (WVultrCluster c) s =
    Ret (Some (map machine_request (filter keep machines))) (s\<lparr>world := w'\<rparr>)"
  using assms by (simp add: cluster_to_requests_def kube_call_def and_then_def try_then_def)

text \<open>
  C22. A change of a VultrCluster asks for a reconcile of every machine of its cluster, with the namespace of the
  machine and the name of its infrastructure object: the requests of the bare metal
  controller are exactly those of the machines built on a VultrBareMetalMachine; those of the other
  controller hold every machine built on a VultrMachine, and beyond them only names of
  objects of other kinds, for which a reconcile that finds no VultrMachine does nothing.
\<close>

theorem watches_reach_all_machines:
  assumes "GetOwnerCluster E (vc_meta c) (world s) = (Inr (Some cluster), w)"
    and "ListMachines E (om_Namespace (vc_meta c)) [(ClusterNameLabel, om_Name (cl_meta cluster))] w = (Inr machines, w')"
  shows "\<exists>rs rs'.
    VultrClusterToVultrMachines E (WVultrCluster c) s = Ret (Some rs) (s\<lparr>world := w'\<rparr>) \<and>
    VultrClusterToVultrBareMetalMachines E (WVultrCluster c) s = Ret (Some rs') (s\<lparr>world := w'\<rparr>) \<and>
    set rs' = machine_request ` {m \<in> set machines. built_on ''VultrBareMetalMachine'' m} \<and>
    machine_request ` {m \<in> set machines. built_on ''VultrMachine'' m} \<subseteq> set rs \<and>
    (\<forall>req\<in>set rs. \<exists>m\<in>set machines. req = machine_request m \<and> nn_Name req \<noteq> [] \<and>
       (\<forall>t err w1. GetVultrMachine E req (world t) = (Inl err, w1) \<longrightarrow> IsNotFound E err \<longrightarrow>
          VultrMachine_Reconcile E req t = Ret (no_requeue, None) (t\<lparr>world := w1\<rparr>)))"
proof -
  let ?rs = "map machine_request (filter (\<lambda>m. ir_Name (mc_InfrastructureRef m) \<noteq> []) machines)"
  let ?rs' = "map machine_request (filter (\<lambda>m. \<not> (ir_Name (mc_InfrastructureRef m) = [] \<or>
      ir_Kind (mc_InfrastructureRef m) \<noteq> ''VultrBareMetalMachine'')) machines)"
  have idle: "VultrMachine_Reconcile E req t = Ret (no_requeue, None) (t\<lparr>world := w1\<rparr>)"
    if "GetVultrMachine E req (world t) = (Inl err, w1)" "IsNotFound E err" for req t err w1
    using that by (simp add: VultrMachine_Reconcile_def kube_call_def and_then_def try_then_def)
  have "\<forall>req\<in>set ?rs. \<exists>m\<in>set machines. req = machine_request m \<and> nn_Name req \<noteq> []"
    by (auto simp: machine_request_def)
  then show ?thesis
    unfolding VultrClusterToVultrMachines_def VultrClusterToVultrBareMetalMachines_def
      cluster_to_requests_apply [OF assms] outcome.inject option.inject
    using idle by (intro exI [of _ ?rs] exI [of _ ?rs']) (auto simp: built_on_def)
qed

section \<open>Closing\<close>

text \<open>
  C34. Whatever a handler of the three controllers does, return, fail or panic, the object it leaves is patched to
  Kubernetes as the last effect of the run. The patch's error is reported when the handler had none; the handler's
  error and its requeue are kept.
\<close>

theorem controllers_always_close:
  "VultrMachine_run_scopes E cs ms deleting s =
     closing PatchVultrMachine (PatchVM E (ms_patchHelper ms)) (VultrMachine_handler E cs ms deleting s) \<and>
   VultrBareMetalMachine_run_scopes E cs bsc deleting t =
     closing PatchVultrBareMetalMachine (PatchBM E (bsc_patchHelper bsc)) (VultrBareMetalMachine_handler E cs bsc deleting t) \<and>
   VultrCluster_run_scope E cs u =
     closing PatchVultrCluster (PatchVC E (cs_patchHelper cs)) (VultrCluster_handler E cs u)"
  by (intro conjI machine_always_closed bare_metal_always_closed cluster_always_closed)

end
