(* ===== verification/Encodings.thy ===== *)
theory Encodings
  imports Svc_Instance Svc_BareMetal
begin

text \<open>
  What the sources encode into text and what others read back from it: user data in Base64,
  cloud-config documents, provider IDs, tags, and the status of the last HTTP response.
  Each property says what a reader gets. The readers (\<open>base64_decode\<close>, \<open>last_status\<close>) are
  reference definitions, not code of the repository.
\<close>

section \<open>Base64\<close>

definition base64_value :: "char \<Rightarrow> nat option" where
  "base64_value c = map_of (zip base64_alphabet [0..<64]) c"

definition pad :: char where "pad = CHR ''=''"

text \<open>A decoder for padded Base64: four characters at a time.\<close>

fun base64_decode :: "string \<Rightarrow> nat list option" where
  "base64_decode [] = Some []"
| "base64_decode (w # x # y # z # rest) =
    (case (base64_value w, base64_value x) of
       (Some a, Some b) \<Rightarrow>
         if y = pad \<and> z = pad \<and> rest = [] then Some [a * 4 + b div 16]
         else (case base64_value y of
             None \<Rightarrow> None
           | Some c \<Rightarrow>
               if z = pad \<and> rest = [] then Some [a * 4 + b div 16, b mod 16 * 16 + c div 4]
               else (case base64_value z of
                   None \<Rightarrow> None
                 | Some d \<Rightarrow> map_option
                     (\<lambda>bs. (a * 4 + b div 16) # (b mod 16 * 16 + c div 4) # (c mod 4 * 64 + d) # bs)
                     (base64_decode rest)))
     | _ \<Rightarrow> None)"
| "base64_decode _ = None"

lemma base64_alphabet_facts:
  "length base64_alphabet = 64" "distinct base64_alphabet" "pad \<notin> set base64_alphabet"
  by code_simp+

lemma base64_value_char [simp]: "n < 64 \<Longrightarrow> base64_value (base64_char n) = Some n"
  using base64_alphabet_facts
  by (simp add: base64_value_def base64_char_def map_of_zip_nth)

lemma base64_char_not_pad [simp]: "n < 64 \<Longrightarrow> base64_char n \<noteq> pad"
  using base64_alphabet_facts by (metis base64_char_def nth_mem)

lemma base64_decode_encode:
  "\<forall>b\<in>set bs. b < 256 \<Longrightarrow> base64_decode (base64_encode bs) = Some bs"
proof (induction bs rule: base64_encode.induct)
  case (2 a)
  then show ?case by (simp add: pad_def [symmetric])
next
  case (3 a b)
  then have "b div 16 < 16" "b mod 16 * 4 < 64" "a mod 4 * 16 + b div 16 < 64" "a div 4 < 64" by auto
  then show ?case using 3 by (simp add: pad_def [symmetric])
next
  case (4 a b c rest)
  then have "b div 16 < 16" "c div 64 < 4" "b mod 16 * 4 + c div 64 < 64" "a mod 4 * 16 + b div 16 < 64" "a div 4 < 64" by auto
  then show ?case using 4 by simp
qed simp

lemma bytes_bound: "\<forall>b\<in>set (bytes s). b < 256"
  by (auto simp: bytes_def)

lemma base64_roundtrip: "base64_decode (base64_EncodeToString s) = Some (bytes s)"
  by (simp add: base64_EncodeToString_def base64_decode_encode bytes_bound)

section \<open>Create requests\<close>

text \<open>
  The bootstrap data of a machine in a world: what the secret that the Machine names, in the namespace of the machine, holds
  under its key.
\<close>

definition bootstrap_value :: "'w env \<Rightarrow> Machine \<Rightarrow> string \<Rightarrow> 'w \<Rightarrow> string option" where
  "bootstrap_value E machine namespace w = (case mc_DataSecretName machine of
      None \<Rightarrow> None
    | Some secretName \<Rightarrow> (case fst (GetSecret E \<lparr>nn_Namespace = namespace, nn_Name = secretName\<rparr> w) of
          Inl _ \<Rightarrow> None
        | Inr data \<Rightarrow> data ''value''))"

text \<open>
  The request for a machine's instance is the machine's: it carries its name and its plan, the
  instance it describes is recognised as the machine's own, and the user data decodes
  to the machine's bootstrap data in the world \<open>w\<close> with the command inserted.
\<close>

definition instance_request_ok ::
  "'w env \<Rightarrow> 'w ClusterScope \<Rightarrow> MachineScope \<Rightarrow> VultrMachine \<Rightarrow> 'w \<Rightarrow> InstanceCreateReq \<Rightarrow> bool" where
  "instance_request_ok E cs ms vm w req \<longleftrightarrow>
     icr_Label req = MachineScope_Name vm \<and> icr_Hostname req = MachineScope_Name vm \<and>
     icr_Region req = vms_Region (vm_Spec vm) \<and> icr_Plan req = vms_PlanID (vm_Spec vm) \<and>
     icr_SnapshotID req = vms_Snapshot (vm_Spec vm) \<and>
     (\<forall>i. in_Label i = icr_Label req \<and> in_Tags i = icr_Tags req \<longrightarrow>
        instanceOwnedByMachine i (MachineTagParams cs (MachineScope_Name vm) (MachineScope_Role E ms))) \<and>
     (\<exists>boot userData. bootstrap_value E (ms_Machine ms) (MachineScope_Namespace vm) w = Some boot \<and>
        appendToUserDataCloudConfig boot [''ufw disable''] = Some userData \<and>
        base64_decode (icr_UserData req) = Some (bytes userData))"

definition server_request_ok ::
  "'w env \<Rightarrow> 'w ClusterScope \<Rightarrow> BareMetalMachineScope \<Rightarrow> VultrBareMetalMachine \<Rightarrow> 'w \<Rightarrow> BareMetalCreate \<Rightarrow> bool" where
  "server_request_ok E cs bsc bm w req \<longleftrightarrow>
     bcr_Label req = BareMetalMachineScope_Name bm \<and> bcr_Hostname req = BareMetalMachineScope_Name bm \<and>
     bcr_Region req = bms_Region (bm_Spec bm) \<and> bcr_Plan req = bms_PlanID (bm_Spec bm) \<and>
     bcr_OsID req = bms_OSID (bm_Spec bm) \<and>
     TagsOwnedByMachine (bcr_Tags req)
       (MachineTagParams cs (BareMetalMachineScope_Name bm) (BareMetalMachineScope_Role E bsc)) \<and>
     (\<exists>boot userData. bootstrap_value E (bsc_Machine bsc) (BareMetalMachineScope_Namespace bm) w = Some boot \<and>
        PrependCloudConfigRunCmds E boot [''ufw disable''] = Inr userData \<and>
        base64_decode (bcr_UserData req) = Some (bytes userData))"

definition bad_instance_create ::
  "'w env \<Rightarrow> 'w ClusterScope \<Rightarrow> MachineScope \<Rightarrow> VultrMachine \<Rightarrow> 'w \<Rightarrow> effect \<Rightarrow> bool" where
  "bad_instance_create E cs ms vm w e \<longleftrightarrow>
     (\<exists>req. e = CallInstanceCreate req \<and> \<not> instance_request_ok E cs ms vm w req)"

definition bad_server_create ::
  "'w env \<Rightarrow> 'w ClusterScope \<Rightarrow> BareMetalMachineScope \<Rightarrow> VultrBareMetalMachine \<Rightarrow> 'w \<Rightarrow> effect \<Rightarrow> bool" where
  "bad_server_create E cs bsc bm w e \<longleftrightarrow>
     (\<exists>req. e = CallBareMetalCreate req \<and> \<not> server_request_ok E cs bsc bm w req)"

lemma GetBootstrapData_value:
  assumes "GetBootstrapData E machine namespace s = Ret (Inr boot) s'"
  shows "bootstrap_value E machine namespace (world s) = Some boot"
  using assms
  by (auto simp: GetBootstrapData_def bootstrap_value_def Let_def try_then_def and_then_def call_def
      split: option.splits sum.splits prod.splits)

lemma try_then_get_obj: "try_then (and_then get_obj f) h k s = try_then (f (obj s)) h k s"
  by (simp add: try_then_def and_then_def)

text \<open>What follows the read of the bootstrap data may rely on it.\<close>

lemma wp_bootstrapped:
  fixes k :: "string \<Rightarrow> (('w, 'o) st, error + 'a) comp"
  assumes "\<And>key. \<not> A (CallSecretGet key)"
    and "\<And>boot. bootstrap_value E machine namespace (world s) = Some boot \<Longrightarrow> emits A 0 (k boot)"
  shows "wp (try_then (GetBootstrapData E machine namespace) (\<lambda>err. ret (Inl (f err))) k)
    (\<lambda>_. appends A 0 s) (appends A 0 s) s"
proof -
  have read: "emits A 0 (GetBootstrapData E machine namespace :: (('w, 'o) st, _) comp)"
    by (intro emit_rules assms(1))
  show ?thesis
  proof (cases "GetBootstrapData E machine namespace s")
    case (Ret r s')
    then have s': "appends A 0 s s'" by (rule emits_RetD [OF read])
    show ?thesis
    proof (cases r)
      case (Inl err)
      then show ?thesis using Ret s' by (simp add: wp_def try_then_def)
    next
      case (Inr boot)
      have "wp (k boot) (\<lambda>_. appends A 0 s') (appends A 0 s') s'"
        by (rule emits_wp, rule assms(2), rule GetBootstrapData_value, rule Ret [unfolded Inr])
      then have "wp (k boot) (\<lambda>_. appends A 0 s) (appends A 0 s) s'"
        by (rule wp_mono) (use s' in \<open>auto simp: appends_def\<close>)
      then show ?thesis using Ret Inr by (simp add: wp_def try_then_def)
    qed
  qed (use emits_wp [OF read, of s] in \<open>auto simp: wp_def try_then_def\<close>)
qed

text \<open>
  Every create request \<open>CreateInstance\<close> sends is well formed: name, region, plan and
  snapshot are those of the machine, an instance with its label and tags is recognised as
  the machine's own by a later search, and its user data decodes to the machine's bootstrap data with
  the command inserted.
\<close>

lemma instance_requests_well_formed:
  "wp (CreateInstance E cs ms)
     (\<lambda>_. appends (bad_instance_create E cs ms (obj s) (world s)) 0 s)
     (appends (bad_instance_create E cs ms (obj s) (world s)) 0 s) s"
proof -
  let ?vm = "obj s" and ?A = "bad_instance_create E cs ms (obj s) (world s)"
  have ok: "instance_request_ok E cs ms ?vm (world s) (instance_create_req (vm_Spec ?vm) (MachineScope_Name ?vm) keys
      (base64_EncodeToString u) (BuildTags (MachineTagParams cs (MachineScope_Name ?vm) (MachineScope_Role E ms))))"
    if "bootstrap_value E (ms_Machine ms) (MachineScope_Namespace ?vm) (world s) = Some boot"
      and "appendToUserDataCloudConfig boot [''ufw disable''] = Some u" for keys u boot
    using that by (auto simp: instance_request_ok_def instance_create_req_def instanceOwnedByMachine_def
        TagsOwnedByMachine_BuildTags MachineTagParams_def base64_roundtrip)
  have boot: "emits ?A 0 (case appendToUserDataCloudConfig boot [''ufw disable''] of
       None \<Rightarrow> panic ''slice bounds out of range''
     | Some u \<Rightarrow> try_then (instance_ssh_keys cs (vms_SSHKey (vm_Spec ?vm)) []) (\<lambda>err. ret (Inl err))
        (\<lambda>keys. submit_instance cs (MachineScope_Name ?vm) (instance_create_req (vm_Spec ?vm) (MachineScope_Name ?vm)
           keys (base64_EncodeToString u)
           (BuildTags (MachineTagParams cs (MachineScope_Name ?vm) (MachineScope_Role E ms))))))"
    if "bootstrap_value E (ms_Machine ms) (MachineScope_Namespace ?vm) (world s) = Some boot" for boot
    by (cases "appendToUserDataCloudConfig boot [''ufw disable'']")
      (auto simp: bad_instance_create_def ok [OF that] intro!: emit_rules emits_submit_instance_free)
  show ?thesis
    unfolding CreateInstance_def MachineScope_GetBootstrapData_def Let_def wp_and_then [of get_obj] wp_get_obj
    by (rule wp_run [OF try_then_get_obj], rule wp_bootstrapped [OF _ boot]) (simp_all add: bad_instance_create_def)
qed

text \<open>
  Every create request \<open>CreateBareMetalServer\<close> sends is well formed: name, region, plan and
  operating system are those of the machine, its tags are recognised as the machine's own,
  and its user data decodes to the machine's bootstrap data with the command put first.
\<close>

lemma server_requests_well_formed:
  "wp (CreateBareMetalServer E cs bsc)
     (\<lambda>_. appends (bad_server_create E cs bsc (obj s) (world s)) 0 s)
     (appends (bad_server_create E cs bsc (obj s) (world s)) 0 s) s"
proof -
  let ?bm = "obj s" and ?A = "bad_server_create E cs bsc (obj s) (world s)"
  let ?tags = "BuildTags (MachineTagParams cs (BareMetalMachineScope_Name ?bm) (BareMetalMachineScope_Role E bsc))"
  have ok: "server_request_ok E cs bsc ?bm (world s) (buildBareMetalCreateRequest (bm_Spec ?bm)
      (BareMetalMachineScope_Name ?bm) keys (base64_EncodeToString u) ?tags)"
    if "bootstrap_value E (bsc_Machine bsc) (BareMetalMachineScope_Namespace ?bm) (world s) = Some boot"
      and "PrependCloudConfigRunCmds E boot [''ufw disable''] = Inr u" for keys u boot
    using that TagsOwnedByMachine_mono [of ?tags "?tags @ bms_AdditionalTags (bm_Spec ?bm)"]
    by (auto simp: server_request_ok_def buildBareMetalCreateRequest_def TagsOwnedByMachine_BuildTags base64_roundtrip)
  have boot: "emits ?A 0 (case PrependCloudConfigRunCmds E boot [''ufw disable''] of
       Inl err \<Rightarrow> ret (Inl err)
     | Inr u \<Rightarrow> try_then (bare_metal_ssh_keys cs (bms_SSHKey (bm_Spec ?bm)) []) (\<lambda>err. ret (Inl err))
        (\<lambda>keys. submit_server cs (BareMetalMachineScope_Name ?bm) (buildBareMetalCreateRequest (bm_Spec ?bm)
           (BareMetalMachineScope_Name ?bm) keys (base64_EncodeToString u) ?tags)))"
    if "bootstrap_value E (bsc_Machine bsc) (BareMetalMachineScope_Namespace ?bm) (world s) = Some boot" for boot
    by (cases "PrependCloudConfigRunCmds E boot [''ufw disable'']")
      (auto simp: bad_server_create_def ok [OF that] intro!: emit_rules emits_submit_server_free)
  show ?thesis
    unfolding CreateBareMetalServer_def BareMetalMachineScope_GetBootstrapData_def Let_def wp_and_then [of get_obj] wp_get_obj
    by (rule wp_run [OF try_then_get_obj], rule wp_bootstrapped [OF _ boot]) (simp_all add: bad_server_create_def)
qed

text \<open>
  Whose server it is: a server with the tags of a create request belongs to a machine
  exactly if the name and the cluster UID are the requesting machine's own or stand among the
  additional tags of its spec. So a spec whose additional tags hold another machine's name
  tag hands its server to that machine too.
\<close>

lemma server_request_owners:
  "TagsOwnedByMachine (bcr_Tags (buildBareMetalCreateRequest spec name keys u (BuildTags p))) q \<longleftrightarrow>
     (bt_Name q = bt_Name p \<or> NameTagFromName (bt_Name q) \<in> set (bms_AdditionalTags spec)) \<and>
     (bt_ClusterUID q = bt_ClusterUID p \<or> ClusterUIDTag (bt_ClusterUID q) \<in> set (bms_AdditionalTags spec))"
  by (auto simp: TagsOwnedByMachine_def buildBareMetalCreateRequest_def BuildTags_def)

text \<open>
  C25. Every create request of either kind is well formed: name, region, plan and image are those of the machine, what is
  created with its label and tags is recognised as the machine's own by a later search, and its user data decodes to the
  bootstrap data with the command inserted: what the secret that the machine's Machine names holds in the world in which the
  create begins. This holds for runs that return and for runs that panic. A server belongs to a
  machine exactly if the name and the cluster UID are those of the request or stand among the additional tags of the
  spec: a spec with the name tag of another machine hands its server to that machine too.
\<close>

theorem requests_well_formed:
  "wp (CreateInstance E cs ms)
     (\<lambda>_. appends (bad_instance_create E cs ms (obj s) (world s)) 0 s)
     (appends (bad_instance_create E cs ms (obj s) (world s)) 0 s) s \<and>
   wp (CreateBareMetalServer E cs bsc)
     (\<lambda>_. appends (bad_server_create E cs bsc (obj t) (world t)) 0 t)
     (appends (bad_server_create E cs bsc (obj t) (world t)) 0 t) t \<and>
   (TagsOwnedByMachine (bcr_Tags (buildBareMetalCreateRequest spec name keys u (BuildTags p))) q \<longleftrightarrow>
     (bt_Name q = bt_Name p \<or> NameTagFromName (bt_Name q) \<in> set (bms_AdditionalTags spec)) \<and>
     (bt_ClusterUID q = bt_ClusterUID p \<or> ClusterUIDTag (bt_ClusterUID q) \<in> set (bms_AdditionalTags spec)))"
  by (intro conjI instance_requests_well_formed server_requests_well_formed server_request_owners)

section \<open>Provider IDs\<close>

text \<open>
  C35. A provider ID read back is the resource ID it was made from, unless that holds a scheme
  separator, which no provider ID of this form can carry; and every provider ID that
  reads as a resource is the one made from that resource.
\<close>

theorem provider_id_roundtrip:
  "ProviderIDToResourceID (ResourceIDToProviderID r) = (if strings_Contains r ''://'' then [] else r) \<and>
   (ProviderIDToResourceID p = [] \<or> ResourceIDToProviderID (ProviderIDToResourceID p) = p)"
proof (rule conjI)
  have inj: "ResourceIDToProviderID a = ResourceIDToProviderID b \<Longrightarrow> a = b" for a b
    by (simp add: ResourceIDToProviderID_def)
  have "ProviderIDToResourceID (ResourceIDToProviderID r) = []" if "sublist ''://'' r"
  proof (rule ccontr)
    assume "\<not> ?thesis"
    then obtain x where "ProviderIDToResourceID (ResourceIDToProviderID r) = x \<and> x \<noteq> []" by blast
    then have "ResourceIDToProviderID r = ResourceIDToProviderID x" and "\<not> sublist ''://'' x"
      unfolding ProviderID_roundtrip_iff by blast+
    with inj that show False by blast
  qed
  then show "ProviderIDToResourceID (ResourceIDToProviderID r) = (if strings_Contains r ''://'' then [] else r)"
    by (simp add: strings_Contains_iff ProviderID_roundtrip)
  show "ProviderIDToResourceID p = [] \<or> ResourceIDToProviderID (ProviderIDToResourceID p) = p"
  proof (cases "ProviderIDToResourceID p = []")
    case False
    then obtain x where x: "ProviderIDToResourceID p = x \<and> x \<noteq> []" by blast
    then have "p = ResourceIDToProviderID x" unfolding ProviderID_roundtrip_iff by blast
    with x show ?thesis by simp
  qed simp
qed

section \<open>The captured status\<close>

text \<open>The status of the last response among the round trips, or 0 when there was none.\<close>

definition last_status :: "round_trip list \<Rightarrow> int" where
  "last_status trips = (case List.find (\<lambda>t. fst t \<noteq> None) (rev trips) of
      Some (Some res, _) \<Rightarrow> StatusCode res | _ \<Rightarrow> 0)"

text \<open>
  What the capturing transport reports for a call is the status of its last response,
  retries and failed round trips in between included, or 0 when no response came.
\<close>

lemma captured_status_is_last: "captured_status trips = last_status trips"
proof (induction trips rule: rev_induct)
  case (snoc t trips)
  then show ?case
    by (cases t) (simp add: captured_status_append last_status_def split: option.split)
qed (simp add: last_status_def)

section \<open>Cloud config\<close>

text \<open>
  The YAML library reads what it wrote, and writes no empty text. This is the hypothesis on
  the library under which the rewritten user data is read.
\<close>

definition yaml_laws :: "'w env \<Rightarrow> bool" where
  "yaml_laws E \<longleftrightarrow>
     (\<forall>doc out. yaml_Marshal E doc = Inr out \<longrightarrow> out \<noteq> [] \<and> yaml_Unmarshal E out = Inr (Some doc))"

lemma strings_Cut_line:
  assumes "newline \<notin> set line"
  shows "strings_Cut (line @ newline # tail) [newline] = (line, tail, True)"
proof -
  have "index_of (newline # []) (line @ newline # [] @ tail) = Some (length line)"
    by (rule index_of_append_distinct_first) (use assms in auto)
  then show ?thesis by (simp add: strings_Cut_def)
qed

lemma strings_Cut_line_free:
  assumes "strings_Cut s [newline] = (line, tail, found)"
  shows "newline \<notin> set line"
proof
  assume "newline \<in> set line"
  then obtain a b where ab: "line = a @ newline # b" "newline \<notin> set a" by (meson split_list_first)
  have "line = s \<or> (\<exists>rest. s = line @ newline # rest)"
    using assms strings_Cut_join [OF assms] by (auto simp: strings_Cut_def split: option.splits if_splits)
  then obtain rest where "s = a @ newline # rest" using ab(1) by auto
  with strings_Cut_line [OF ab(2), of rest] assms ab(1) show False by simp
qed

text \<open>The header search finds the same header again, whatever body follows it.\<close>

lemma split_header_loop_again:
  "split_header_loop pre rest = (pre @ skipped, body) \<Longrightarrow> body \<noteq> [] \<Longrightarrow>
     split_header_loop pre' (skipped @ cloudConfigHeader @ newline # out) = (pre' @ skipped, out)"
proof (induction pre rest arbitrary: skipped pre' rule: split_header_loop.induct)
  case (1 pre rest)
  obtain line tail found where cut: "strings_Cut rest [newline] = (line, tail, found)"
    by (cases "strings_Cut rest [newline]") auto
  let ?t = "strings_TrimSpace line"
  show ?case
  proof (cases "strings_HasPrefix ?t cloudConfigHeader")
    case True
    with "1.prems" cut have "skipped = []" by (auto simp: split_header_loop.simps [of pre rest] Let_def)
    moreover have "newline \<notin> set cloudConfigHeader" by code_simp
    moreover have "strings_HasPrefix (strings_TrimSpace cloudConfigHeader) cloudConfigHeader" by code_simp
    ultimately show ?thesis
      by (simp add: split_header_loop.simps [of pre'] strings_Cut_line)
  next
    case False
    with "1.prems" cut have skip: "?t = [] \<or> strings_HasPrefix ?t ''## template:''"
      and tail: "tail \<noteq> []"
      and rec: "split_header_loop (pre @ line @ [newline]) tail = (pre @ skipped, body)"
      by (auto simp: split_header_loop.simps [of pre rest] Let_def split: if_splits)
    from split_header_loop_body [OF rec "1.prems"(2)] obtain skipped' where
      skipped: "skipped = line @ newline # skipped'" by auto
    from rec skipped have "split_header_loop (pre @ line @ [newline]) tail = ((pre @ line @ [newline]) @ skipped', body)"
      by simp
    from "1.IH" [OF cut [symmetric] refl refl False skip tail this "1.prems"(2), of "pre' @ line @ [newline]"]
    have "split_header_loop (pre' @ line @ [newline]) (skipped' @ cloudConfigHeader @ newline # out) =
        (pre' @ skipped, out)" by (simp add: skipped)
    with False skip show ?thesis
      by (subst split_header_loop.simps)
        (simp add: skipped strings_Cut_line [OF strings_Cut_line_free [OF cut], simplified])
  qed
qed

definition old_runcmd :: "yaml_doc \<Rightarrow> yaml list" where
  "old_runcmd doc = (case doc ''runcmd'' of Some (YList xs) \<Rightarrow> xs | _ \<Rightarrow> [])"

lemma prepend_runcmd_eq:
  "prepend_runcmd cmds doc = Some doc' \<Longrightarrow> doc' = doc(''runcmd'' \<mapsto> YList (map YStr cmds @ old_runcmd doc))"
  by (auto simp: prepend_runcmd_def old_runcmd_def split: option.splits yaml.splits)

text \<open>
  C24. The rewritten user data of a cloud-config document is again a cloud-config document, with
  the same lines in front of the header; read back, its \<open>runcmd\<close> list is the commands and then
  what the list held before, and every other key is as it was.
\<close>

theorem prepended_commands_read_back:
  assumes "yaml_laws E" and "cmds \<noteq> []" and "PrependCloudConfigRunCmds E userData cmds = Inr out"
    and "splitCloudConfigHeader userData = (pre, body)" and "body \<noteq> []" and "yaml_Unmarshal E body = Inr doc"
  shows "\<exists>body'. splitCloudConfigHeader out = (pre, body') \<and> yaml_Unmarshal E body' =
    Inr (Some ((or_default doc Map.empty)(''runcmd'' \<mapsto> YList (map YStr cmds @ old_runcmd (or_default doc Map.empty)))))"
proof -
  let ?doc = "or_default doc Map.empty"
  from assms(2-6) obtain doc' body' where doc': "prepend_runcmd cmds ?doc = Some doc'"
    and body': "yaml_Marshal E doc' = Inr body'" and out: "out = pre @ cloudConfigHeader @ newline # body'"
    by (auto simp: PrependCloudConfigRunCmds_def or_default_def Let_def split: option.splits sum.splits if_splits)
  from assms(4) have "split_header_loop [] userData = ([] @ pre, body)" by (simp add: splitCloudConfigHeader_def)
  from split_header_loop_again [OF this assms(5), of "[]" body']
  have "splitCloudConfigHeader out = (pre, body')" by (simp add: out splitCloudConfigHeader_def)
  moreover have "yaml_Unmarshal E body' = Inr (Some doc')" using assms(1) body' by (auto simp: yaml_laws_def)
  ultimately show ?thesis using prepend_runcmd_eq [OF doc'] by blast
qed

text \<open>
  C36. The text insertion for instances, in closed form. With a \<open>runcmd:\<close> in the user data the
  commands come right behind its first occurrence, in their order. Without one they land
  behind the sixth byte of the user data, and shorter data panics: only documents with
  a \<open>runcmd:\<close> are rewritten as meant.
\<close>

theorem instance_user_data_insertion:
  "appendToUserDataCloudConfig userData cmds =
    (case index_of ''runcmd:'' userData of
       Some i \<Rightarrow> Some (take (i + 7) userData @ concat (map runcmd_line cmds) @ drop (i + 7) userData)
     | None \<Rightarrow> if length userData < 6 \<and> cmds \<noteq> [] then None
         else Some (take 6 userData @ concat (map runcmd_line cmds) @ drop 6 userData))"
proof (cases "index_of ''runcmd:'' userData")
  case None
  then have "\<not> sublist ''runcmd:'' userData" by (simp add: index_of_None_iff)
  with None show ?thesis by (simp add: appendToUserDataCloudConfig_absent)
next
  case (Some i)
  let ?front = "take (i + 7) userData"
  have "i + 7 \<le> length userData" using index_of_Some [OF Some] by simp
  then have "int (length ?front) = int i + 7" by simp
  with append_commands_split [of ?front "drop (i + 7) userData" cmds] Some show ?thesis
    by (simp add: appendToUserDataCloudConfig_def strings_Index_def)
qed

end
