(* ===== verification/Service_Contracts.thy ===== *)
theory Service_Contracts
  imports Svc_Instance Svc_BareMetal Svc_LoadBalancer Controller_Common
begin

text \<open>
  What the services promise the controllers, against reference definitions: the paged searches
  against a filter of the whole listing, the loop's termination, and the load balancer's
  members against a list that is extended and filtered. \<open>search_reference\<close> and the
  member list are specifications, not code of the repository.
\<close>

section \<open>Searches\<close>

text \<open>A search over the whole listing at once.\<close>

definition search_reference ::
  "(error \<Rightarrow> error) \<Rightarrow> ('i list \<Rightarrow> error) \<Rightarrow> ('i \<Rightarrow> bool) \<Rightarrow> error + 'i list \<Rightarrow> error + 'i option" where
  "search_reference failed ambiguous mine r = (case r of
      Inl e \<Rightarrow> Inl (failed e)
    | Inr items \<Rightarrow>
        (let matches = filter mine items in
         if matches = [] then Inr None
         else if length matches = 1 then Inr (Some (hd matches))
         else Inl (ambiguous matches)))"

definition instance_search_failed :: "string \<Rightarrow> error \<Rightarrow> error" where
  "instance_search_failed name = Wrap (''failed to list instances labelled '' @ quote name)"

definition instance_search_ambiguous :: "string \<Rightarrow> Instance list \<Rightarrow> error" where
  "instance_search_ambiguous name matches =
     Err (''found '' @ itoa (int (length matches)) @ '' instances for machine '' @
       quote name @ '', expected at most one: '' @ strings_Join (map in_ID matches) '', '')"

definition server_search_failed :: "error \<Rightarrow> error" where
  "server_search_failed = Wrap ''failed to list bare metal servers''"

definition server_search_ambiguous :: "string \<Rightarrow> BareMetalServer list \<Rightarrow> error" where
  "server_search_ambiguous name matches =
     Err (''found '' @ itoa (int (length matches)) @ '' bare metal servers tagged for machine '' @
       quote name @ '', expected at most one'')"

lemma search_by_reference:
  "(case matches of [] \<Rightarrow> ret (Inr None) | [i] \<Rightarrow> ret (Inr (Some i)) | _ \<Rightarrow> ret (Inl e)) s =
     Ret (if matches = [] then Inr None else if length matches = 1 then Inr (Some (hd matches)) else Inl e) s"
  by (simp split: list.split)

text \<open>
  The paged search for the instance of a machine is the search over the whole listing:
  however the listing is cut into pages, and whichever page fails, the answer is that of the
  reference, the calls are one list call per page, and nothing else happens.
\<close>

lemma instance_search_is_reference:
  assumes "listing (Instances_List (Instances (cs_clients cs))) (instance_list_options name) (world s) r reqs w"
  shows "FindInstanceForMachine cs name role s =
    Ret (search_reference (instance_search_failed name) (instance_search_ambiguous name)
          (\<lambda>i. instanceOwnedByMachine i (MachineTagParams cs name role)) r)
      (s\<lparr>world := w, trace := trace s @ map CallInstanceList reqs\<rparr>)"
  unfolding FindInstanceForMachine_def Let_def find_by_matches [OF assms]
  by (auto simp: search_reference_def search_by_reference instance_search_failed_def
      instance_search_ambiguous_def Let_def split: sum.split list.split)

text \<open>
  The paged search for the server of a bare metal machine is the search over the whole
  listing, with one list call per page.
\<close>

lemma server_search_is_reference:
  assumes "listing (BareMetal_List (BareMetal (cs_clients cs))) (bare_metal_list_options name) (world s) r reqs w"
  shows "FindBareMetalServerByTags cs name role s =
    Ret (search_reference server_search_failed (server_search_ambiguous name)
          (\<lambda>server. TagsOwnedByMachine (bs_Tags server) (MachineTagParams cs name role)) r)
      (s\<lparr>world := w, trace := trace s @ map CallBareMetalList reqs\<rparr>)"
  unfolding FindBareMetalServerByTags_def Let_def find_by_matches [OF assms]
  by (auto simp: search_reference_def search_by_reference server_search_failed_def
      server_search_ambiguous_def Let_def split: sum.split list.split)

text \<open>
  C20. The paged searches for the instance and for the server of a machine are searches over the whole
  listing: however the listing is cut into pages, and whichever page fails, the answer is that
  of the reference, two matches included, the calls are one list call per page, and nothing
  else happens.
\<close>

theorem searches_are_reference:
  assumes "listing (Instances_List (Instances (cs_clients cs))) (instance_list_options name) (world s) r reqs w"
    and "listing (BareMetal_List (BareMetal (cs_clients cs))) (bare_metal_list_options name) (world s') r' reqs' w'"
  shows "FindInstanceForMachine cs name role s =
      Ret (search_reference (instance_search_failed name) (instance_search_ambiguous name)
            (\<lambda>i. instanceOwnedByMachine i (MachineTagParams cs name role)) r)
        (s\<lparr>world := w, trace := trace s @ map CallInstanceList reqs\<rparr>) \<and>
    FindBareMetalServerByTags cs name role s' =
      Ret (search_reference server_search_failed (server_search_ambiguous name)
            (\<lambda>server. TagsOwnedByMachine (bs_Tags server) (MachineTagParams cs name role)) r')
        (s'\<lparr>world := w', trace := trace s' @ map CallBareMetalList reqs'\<rparr>)"
  by (rule conjI [OF instance_search_is_reference [OF assms(1)] server_search_is_reference [OF assms(2)]])

text \<open>
  The answers of a list call make progress: each page with a next cursor brings some measure of
  the cursor and the world down. This is what a finite listing gives.
\<close>

definition pages_end :: "(ListOptions \<Rightarrow> 'w \<Rightarrow> nat) \<Rightarrow> (ListOptions \<Rightarrow> 'w \<Rightarrow> 'i page \<times> 'w) \<Rightarrow> bool" where
  "pages_end rank api \<longleftrightarrow> (\<forall>options w page w' c. api options w = (page, w') \<longrightarrow> p_err page = None \<longrightarrow>
     next_cursor (p_meta page) = Some c \<longrightarrow> rank (options\<lparr>lo_Cursor := c\<rparr>) w' < rank options w)"

lemma pages_end_listing:
  assumes "pages_end rank api"
  obtains r reqs w' where "listing api options w r reqs w'"
  using listing_exists [of api rank options w] assms unfolding pages_end_def by blast

text \<open>
  C23. Both searches return, without panic, whenever the pages of the listing come to an end.
  They have no bound of their own: an API that answers the same cursor for ever would keep
  them running.
\<close>

theorem searches_terminate:
  assumes "pages_end rank (Instances_List (Instances (cs_clients cs)))"
    and "pages_end rank' (BareMetal_List (BareMetal (cs_clients cs)))"
  shows "(\<exists>r s'. FindInstanceForMachine cs name role s = Ret r s') \<and>
    (\<exists>r s'. FindBareMetalServerByTags cs name role s = Ret r s')"
proof -
  obtain r reqs w where "listing (Instances_List (Instances (cs_clients cs)))
      (instance_list_options name) (world s) r reqs w"
    using assms(1) by (rule pages_end_listing)
  then have "\<exists>r s'. FindInstanceForMachine cs name role s = Ret r s'"
    by (cases rule: instances.find_res_cases [of cs name s role]) blast+
  moreover obtain r reqs w where "listing (BareMetal_List (BareMetal (cs_clients cs)))
      (bare_metal_list_options name) (world s) r reqs w"
    using assms(2) by (rule pages_end_listing)
  then have "\<exists>r s'. FindBareMetalServerByTags cs name role s = Ret r s'"
    by (cases rule: servers.find_res_cases [of cs name s role]) blast+
  ultimately show ?thesis by blast
qed

section \<open>Members of the load balancer\<close>

text \<open>
  The Vultr API keeps the members of one load balancer: a read answers them, an accepted
  update replaces them, and nothing else in the two calls changes them.
\<close>

definition member_store :: "'w ClusterScope \<Rightarrow> string \<Rightarrow> ('w \<Rightarrow> string list) \<Rightarrow> bool" where
  "member_store cs lbID members \<longleftrightarrow>
     (\<forall>w a w'. LoadBalancers_Get (LoadBalancers (cs_clients cs)) lbID w = (a, w') \<longrightarrow>
        members w' = members w \<and>
        (\<forall>lb. a_err a = None \<and> a_value a = Some lb \<longrightarrow> gl_Instances lb = members w)) \<and>
     (\<forall>req w u w'. LoadBalancers_Update (LoadBalancers (cs_clients cs)) lbID req w = (u, w') \<longrightarrow>
        members w' = (if a_err u = None then lq_Instances req else members w))"

lemma member_storeD:
  assumes "member_store cs lbID members"
  shows "LoadBalancers_Get (LoadBalancers (cs_clients cs)) lbID w = (a, w') \<Longrightarrow> members w' = members w"
    and "LoadBalancers_Get (LoadBalancers (cs_clients cs)) lbID w = (a, w') \<Longrightarrow> a_err a = None \<Longrightarrow>
      a_value a = Some lb \<Longrightarrow> gl_Instances lb = members w"
    and "LoadBalancers_Update (LoadBalancers (cs_clients cs)) lbID req w = (u, w') \<Longrightarrow>
      members w' = (if a_err u = None then lq_Instances req else members w)"
  using assms unfolding member_store_def by blast+

lemma ensure_member_inserts:
  assumes store: "member_store cs lbID members" and run: "EnsureLoadBalancerMember cs lbID i s = Ret r s'"
  shows "members (world s') =
    (if r = Inr True \<and> i \<notin> set (members (world s)) then members (world s) @ [i] else members (world s))"
proof (cases "r = Inr True")
  case True
  note get = member_storeD(1,2) [OF store]
  from run True have "EnsureLoadBalancerMember cs lbID i s = Ret (Inr True) s'" by simp
  then show ?thesis
  proof (cases rule: EnsureLoadBalancerMember_TrueE)
    case (listed lb w)
    from listed(1) obtain a where a: "LoadBalancers_Get (LoadBalancers (cs_clients cs)) lbID (world s) = (a, w)"
      "a_err a = None" "a_value a = Some lb" by (rule lb_read_SomeE)
    with listed get [of "world s" a w] True show ?thesis by simp
  next
    case (added lb w u w')
    from added(1) obtain a where a: "LoadBalancers_Get (LoadBalancers (cs_clients cs)) lbID (world s) = (a, w)"
      "a_err a = None" "a_value a = Some lb" by (rule lb_read_SomeE)
    from added(3) get(2) [OF a] member_storeD(3) [OF store added(4)] added(5,6) True show ?thesis by simp
  qed
next
  case False
  obtain a w where a: "LoadBalancers_Get (LoadBalancers (cs_clients cs)) lbID (world s) = (a, w)" by fastforce
  from run False show ?thesis
    using member_storeD [OF store] a
    by (auto simp: EnsureLoadBalancerMember_def call_def and_then_def Let_def ret_def
        split: if_splits option.splits prod.splits)
qed

text \<open>
  C16. \<open>EnsureLoadBalancerMember\<close> refines the insertion into the list of members: if it
  answers that the resource is a member, the list is the old one, with the resource
  appended unless it was there; on every other answer the list is the old one. No
  other member is lost and none is doubled, and asking again changes nothing.
\<close>

theorem ensure_member_refines_insert:
  assumes "member_store cs lbID members" and "EnsureLoadBalancerMember cs lbID i s = Ret r s'"
  shows "members (world s') =
    (if r = Inr True \<and> i \<notin> set (members (world s)) then members (world s) @ [i] else members (world s))"
  using assms by (rule ensure_member_inserts)

text \<open>
  C28. \<open>RemoveLoadBalancerMember\<close> refines the deletion from the list of members, but for the
  last member: on success the other members stay in their order and the resource is gone, unless it
  was the only one, which stays; on an error nothing changes.
\<close>

theorem remove_member_refines_filter:
  assumes store: "member_store cs lbID members" and lbID: "lbID \<noteq> []"
    and lb: "lb_read cs lbID (world s) = Some (lb, w)"
  shows "\<exists>r s'. RemoveLoadBalancerMember cs lbID i s = Ret r s' \<and>
    members (world s') =
      (if r = None \<and> removeAll i (members (world s)) \<noteq> [] then removeAll i (members (world s))
       else members (world s))"
proof -
  obtain a where a: "LoadBalancers_Get (LoadBalancers (cs_clients cs)) lbID (world s) = (a, w)"
    "a_err a = None" "a_value a = Some lb" using lb by (rule lb_read_SomeE)
  note old = member_storeD(1) [OF store a(1)] member_storeD(2) [OF store a]
  show ?thesis
  proof (rule RemoveLoadBalancerMember_cases [OF lbID lb, of i], goal_cases)
    case 1
    with old show ?thesis by auto
  next
    case (2 u w')
    from member_storeD(3) [OF store 2(3)] 2(2,4) old show ?thesis
      by (cases "a_err u") (auto intro!: exI)
  qed
qed

end
