(* ===== verification/Interleaving.thy ===== *)
theory Interleaving
  imports Service_Contracts
begin

text \<open>
  Calls of other runs between the calls of one run. The controllers of the manager run at the same
  time, and leader election is off unless a flag turns it on, so there may be two managers;
  a load balancer's members are read and written back without a check that they are
  still what was read. \<open>interrupted f cs\<close> is the scope \<open>cs\<close> as a run sees it when, right after it
  reads a load balancer, the rest of the world goes through \<open>f\<close>.
\<close>

definition interrupted :: "('w \<Rightarrow> 'w) \<Rightarrow> 'w ClusterScope \<Rightarrow> 'w ClusterScope" where
  "interrupted f cs = cs\<lparr>cs_clients := (cs_clients cs)\<lparr>LoadBalancers := (LoadBalancers (cs_clients cs))
     \<lparr>LoadBalancers_Get := \<lambda>lbID w. case LoadBalancers_Get (LoadBalancers (cs_clients cs)) lbID w of
        (a, w') \<Rightarrow> (a, f w')\<rparr>\<rparr>\<rparr>"

lemma interrupted_calls [simp]:
  "LoadBalancers_Get (LoadBalancers (cs_clients (interrupted f cs))) lbID w =
     (case LoadBalancers_Get (LoadBalancers (cs_clients cs)) lbID w of (a, w') \<Rightarrow> (a, f w'))"
  "LoadBalancers_Update (LoadBalancers (cs_clients (interrupted f cs))) =
     LoadBalancers_Update (LoadBalancers (cs_clients cs))"
  by (simp_all add: interrupted_def)

text \<open>Without interference nothing changes.\<close>

lemma interrupted_id [simp]: "interrupted id cs = cs"
  by (simp add: interrupted_def)

text \<open>
  C38. Two runs that add members to a load balancer lose one of them: when the run for \<open>j\<close> happens between the
  read and the update of the run for \<open>i\<close>, both answer that their resource is a member, but only \<open>i\<close>
  is. The next run for \<open>j\<close> that succeeds puts it back.
\<close>

theorem concurrent_joins_lose_a_member:
  fixes s :: "('w, 'o) st" and t t' :: "('w, 'p) st"
  assumes store: "member_store cs lbID members" and lb: "lbID \<noteq> []"
    and get: "LoadBalancers_Get (LoadBalancers (cs_clients cs)) lbID (world s) = (a, w)"
      "a_err a = None" "a_value a = Some l" "gl_Status l = ''active''"
    and new: "i \<notin> set (members (world s))" "j \<notin> set (members (world s))" "i \<noteq> j"
    and other: "EnsureLoadBalancerMember cs lbID j t = Ret (Inr True) t'" "world t = w"
    and update: "LoadBalancers_Update (LoadBalancers (cs_clients cs)) lbID
      (members_req (members (world s) @ [i])) (world t') = (u, w')" "a_err u = None"
  shows "j \<in> set (members (world t')) \<and>
    (\<exists>s'. EnsureLoadBalancerMember (interrupted (\<lambda>_. world t') cs) lbID i s = Ret (Inr True) s' \<and>
       members (world s') = members (world s) @ [i] \<and>
       (\<forall>(t1 :: ('w, 'p) st) t2. world t1 = world s' \<longrightarrow> EnsureLoadBalancerMember cs lbID j t1 = Ret (Inr True) t2 \<longrightarrow>
          members (world t2) = members (world s) @ [i, j]))"
proof -
  have l: "gl_Instances l = members (world s)" using member_storeD(2) [OF store get(1-3)] by simp
  have w': "members w' = members (world s) @ [i]"
    using member_storeD(3) [OF store update(1)] update(2) by (simp add: members_req_def)
  let ?s = "s\<lparr>world := w', trace := trace s @ [CallLBGet lbID, CallLBUpdate lbID (members_req (members (world s) @ [i]))]\<rparr>"
  have run: "EnsureLoadBalancerMember (interrupted (\<lambda>_. world t') cs) lbID i s = Ret (Inr True) ?s"
    using lb get new(1) update by (simp add: EnsureLoadBalancerMember_def call_def and_then_def Let_def l)
  have "j \<in> set (members (world t'))"
    using ensure_member_inserts [OF store other(1)] by auto
  moreover have "members (world t2) = members (world s) @ [i, j]"
    if "world t1 = w'" and "EnsureLoadBalancerMember cs lbID j t1 = Ret (Inr True) t2"
    for t1 t2 :: "('w, 'p) st"
    using ensure_member_inserts [OF store that(2)] that(1) w' new by simp
  ultimately show ?thesis using run w' by (intro conjI exI [of _ ?s]) auto
qed

end
