(* ===== verification/Lifecycle.thy ===== *)
theory Lifecycle
  imports Machine_Safety BareMetal_Safety
begin

text \<open>
  The objects over many reconciles: a step relation for each kind of machine, whose steps are the
  runs of the two handlers against any world, scope and answer, and the invariant that ties
  the Ready condition to the status flags. A handler preserves the invariant because each of
  its steps does; the rules for that are collected in \<open>inv_rules\<close>.
\<close>

named_theorems inv_rules

section \<open>Invariants of the object\<close>

text \<open>Every run from an object with \<open>I\<close> ends, or panics, with an object with \<open>I\<close>.\<close>

definition obj_inv :: "('o \<Rightarrow> bool) \<Rightarrow> (('w, 'o) st, 'a) comp \<Rightarrow> bool" where
  "obj_inv I m \<longleftrightarrow> (\<forall>s. I (obj s) \<longrightarrow> wp m (\<lambda>_ s'. I (obj s')) (\<lambda>s'. I (obj s')) s)"

lemma obj_inv_basic [inv_rules]:
  "obj_inv I (ret a)" "obj_inv I (panic msg)" "obj_inv I get_obj" "obj_inv I (eventf t r a' nt args)"
  by (simp_all add: obj_inv_def wp_rules)

lemma obj_inv_keeps: "keeps_obj m \<Longrightarrow> obj_inv I m"
  unfolding obj_inv_def by (auto intro: wp_keeps_obj)

lemma obj_inv_modify [inv_rules]: "(\<And>v. I v \<Longrightarrow> I (f v)) \<Longrightarrow> obj_inv I (modify_obj f)"
  by (simp add: obj_inv_def wp_rules)

lemma obj_inv_and_then [inv_rules]:
  fixes m :: "(('w, 'o) st, 'a) comp"
  assumes "obj_inv I m" and "\<And>a. obj_inv I (k a)"
  shows "obj_inv I (and_then m k)"
  unfolding obj_inv_def wp_and_then
proof (intro allI impI)
  fix s :: "('w, 'o) st" assume "I (obj s)"
  with assms(1) have "wp m (\<lambda>_ s'. I (obj s')) (\<lambda>s'. I (obj s')) s" by (simp add: obj_inv_def)
  then show "wp m (\<lambda>a. wp (k a) (\<lambda>_ s'. I (obj s')) (\<lambda>s'. I (obj s'))) (\<lambda>s'. I (obj s')) s"
    by (rule wp_mono) (use assms(2) in \<open>auto simp: obj_inv_def\<close>)
qed

lemma obj_inv_try_then [inv_rules]:
  "obj_inv I m \<Longrightarrow> (\<And>e. obj_inv I (h e)) \<Longrightarrow> (\<And>a. obj_inv I (k a)) \<Longrightarrow> obj_inv I (try_then m h k)"
  unfolding try_then_def by (intro obj_inv_and_then) (auto split: sum.split)

lemma obj_inv_if [inv_rules]:
  "(b \<Longrightarrow> obj_inv I m) \<Longrightarrow> (\<not> b \<Longrightarrow> obj_inv I m') \<Longrightarrow> obj_inv I (if b then m else m')"
  by simp

lemma obj_inv_case_option [inv_rules]:
  "obj_inv I m \<Longrightarrow> (\<And>x. obj_inv I (k x)) \<Longrightarrow> obj_inv I (case_option m k v)"
  by (cases v) simp_all

lemma obj_inv_case_sum [inv_rules]:
  "(\<And>x. obj_inv I (h x)) \<Longrightarrow> (\<And>x. obj_inv I (k x)) \<Longrightarrow> obj_inv I (case_sum h k v)"
  by (cases v) simp_all

lemma obj_inv_case_prod [inv_rules]: "(\<And>a b. obj_inv I (k a b)) \<Longrightarrow> obj_inv I (case_prod k v)"
  by (cases v) simp

section \<open>Virtual machines\<close>

text \<open>
  What the Ready condition says agrees with the flags at its two ends: True goes with \<open>ready\<close> and \<open>provisioned\<close>,
  a terminal failure with neither. With any other condition the flags are free.
\<close>

definition vm_consistent :: "'w env \<Rightarrow> VultrMachine \<Rightarrow> bool" where
  "vm_consistent E m \<longleftrightarrow>
     (reports_ready E m \<longrightarrow> vmst_Ready (vm_Status m) \<and> vmst_Provisioned (vm_Status m)) \<and>
     (MachineScope_HasTerminalFailure E m \<longrightarrow> \<not> vmst_Ready (vm_Status m) \<and> \<not> vmst_Provisioned (vm_Status m))"

lemma vm_consistent_setters:
  "vm_consistent E m \<Longrightarrow> vm_consistent E (vm_AddFinalizer E f m)"
  "vm_consistent E m \<Longrightarrow> vm_consistent E (vm_RemoveFinalizer E f m)"
  "vm_consistent E m \<Longrightarrow> vm_consistent E (MachineScope_SetProviderID i m)"
  "vm_consistent E m \<Longrightarrow> vm_consistent E (SetInstanceStatus v m)"
  "vm_consistent E m \<Longrightarrow> vm_consistent E (SetCPU c m)"
  "vm_consistent E m \<Longrightarrow> vm_consistent E (SetRAM c m)"
  "vm_consistent E m \<Longrightarrow> vm_consistent E (SetStorage c m)"
  "vm_consistent E m \<Longrightarrow> vm_consistent E (MachineScope_SetAddresses addrs m)"
  by (simp_all add: vm_consistent_def reports_ready_def MachineScope_HasTerminalFailure_iff)
    (simp_all add: vm_setter_defs)

lemma vm_consistent_condition:
  "conditions_laws E \<Longrightarrow> st \<noteq> ConditionTrue \<Longrightarrow> (st, reason) \<noteq> (ConditionFalse, InstanceUnexpectedStatusReason) \<Longrightarrow>
     vm_consistent E (vm_set_condition E st reason msg now m)"
  by (auto simp: vm_consistent_def reports_ready_def MachineScope_HasTerminalFailure_iff)

lemma obj_inv_SetReadyCondition [inv_rules]:
  "conditions_laws E \<Longrightarrow> st \<noteq> ConditionTrue \<Longrightarrow> (st, reason) \<noteq> (ConditionFalse, InstanceUnexpectedStatusReason) \<Longrightarrow>
     obj_inv (vm_consistent E) (MachineScope_SetReadyCondition E st reason msg)"
  by (simp add: obj_inv_def wp_rules vm_consistent_condition)

lemma obj_inv_report_instance_status [inv_rules]:
  assumes "conditions_laws E"
  shows "obj_inv (vm_consistent E) (report_instance_status E i)"
  using assms
  by (auto simp: obj_inv_def report_instance_status_def wp_rules vm_consistent_def reports_ready_def
      MachineScope_HasTerminalFailure_iff MachineScope_SetTerminalFailure_def reason_defs)

lemma obj_inv_create_failed [inv_rules]:
  assumes "conditions_laws E"
  shows "obj_inv (vm_consistent E) (create_failed E err)"
  using assms
  by (auto simp: obj_inv_def create_failed_def wp_rules vm_consistent_def reports_ready_def
      MachineScope_HasTerminalFailure_iff reason_defs)

lemma obj_inv_persist_provider_id [inv_rules]: "obj_inv (vm_consistent E) (persist_provider_id E ms i)"
  unfolding persist_provider_id_def MachineScope_PatchObject_def
  by (intro inv_rules obj_inv_keeps frame_rules vm_consistent_setters)

lemma obj_inv_vm_reconcileNormal:
  assumes E: "conditions_laws E"
  shows "obj_inv (vm_consistent E) (VultrMachine_reconcileNormal E cs ms)"
  unfolding VultrMachine_reconcileNormal_def reconcile_bootstrapped_def reconcile_instance_def
    findOrCreateInstance_def instance_missing_def create_instance_step_def adopt_instance_def
    join_load_balancer_def set_instance_addresses_def set_instance_details_def Let_def
  by (intro inv_rules E vm_consistent_setters obj_inv_keeps [OF keeps_obj_GetInstance]
      obj_inv_keeps [OF keeps_obj_FindInstanceForMachine] obj_inv_keeps [OF keeps_obj_CreateInstance]
      obj_inv_keeps [OF keeps_obj_LoadBalancer(4)]) (simp_all add: reason_defs status_defs)

lemma obj_inv_vm_reconcileDelete:
  assumes E: "conditions_laws E"
  shows "obj_inv (vm_consistent E) (VultrMachine_reconcileDelete E cs ms)"
  unfolding VultrMachine_reconcileDelete_def finish_instance_delete_def Let_def
  by (intro inv_rules E vm_consistent_setters obj_inv_keeps [OF keeps_obj_delete_known_instance]
      obj_inv_keeps [OF keeps_obj_delete_remaining_instance]
      obj_inv_keeps [OF keeps_obj_FindInstanceForMachine]) (simp_all add: reason_defs status_defs)

text \<open>
  One step in the life of a VultrMachine: a run of one of the handlers, against any world and
  with any scopes, that returned or panicked. A run starts from the object as it was
  left, since the closing patch writes it.
\<close>

inductive vm_step :: "'w env \<Rightarrow> VultrMachine \<Rightarrow> VultrMachine \<Rightarrow> bool" for E where
  normal: "VultrMachine_reconcileNormal E cs ms s = Ret r s' \<Longrightarrow> vm_step E (obj s) (obj s')"
| normal_panic: "VultrMachine_reconcileNormal E cs ms s = Panic msg s' \<Longrightarrow> vm_step E (obj s) (obj s')"
| delete: "VultrMachine_reconcileDelete E cs ms s = Ret r s' \<Longrightarrow> vm_step E (obj s) (obj s')"
| delete_panic: "VultrMachine_reconcileDelete E cs ms s = Panic msg s' \<Longrightarrow> vm_step E (obj s) (obj s')"

lemma obj_inv_RetD: "obj_inv I m \<Longrightarrow> m s = Ret a s' \<Longrightarrow> I (obj s) \<Longrightarrow> I (obj s')"
  unfolding obj_inv_def by (fastforce dest: wp_RetD)

lemma obj_inv_PanicD: "obj_inv I m \<Longrightarrow> m s = Panic msg s' \<Longrightarrow> I (obj s) \<Longrightarrow> I (obj s')"
  unfolding obj_inv_def by (fastforce dest: wp_PanicD)

lemma vm_step_consistent:
  assumes "conditions_laws E" and "vm_step E m m'" and "vm_consistent E m"
  shows "vm_consistent E m'"
  using assms(2,3)
  by (induction rule: vm_step.induct)
    (auto dest: obj_inv_RetD [OF obj_inv_vm_reconcileNormal [OF assms(1)]]
      obj_inv_PanicD [OF obj_inv_vm_reconcileNormal [OF assms(1)]]
      obj_inv_RetD [OF obj_inv_vm_reconcileDelete [OF assms(1)]]
      obj_inv_PanicD [OF obj_inv_vm_reconcileDelete [OF assms(1)]])

text \<open>
  Over any sequence of reconciles and deletions, panics included, a VultrMachine whose Ready condition is True is
  ready and provisioned, and one with a terminal failure is neither.
\<close>

lemma machine_status_consistent:
  assumes "conditions_laws E" and "(vm_step E)\<^sup>*\<^sup>* m m'" and "vm_consistent E m"
  shows "vm_consistent E m'"
  using assms(2,3) by (induction rule: rtranclp_induct) (auto intro: vm_step_consistent [OF assms(1)])

section \<open>Bare metal machines\<close>

definition bm_consistent :: "'w env \<Rightarrow> VultrBareMetalMachine \<Rightarrow> bool" where
  "bm_consistent E m \<longleftrightarrow>
     (bm_reports_ready E m \<longrightarrow> bmst_Ready (bm_Status m) \<and> bmst_Provisioned (bm_Status m) = Some True \<and> vpc_noted m) \<and>
     (BareMetalMachineScope_HasTerminalFailure E m \<longrightarrow> \<not> bmst_Ready (bm_Status m))"

lemma bm_consistent_setters:
  "bm_consistent E m \<Longrightarrow> bm_consistent E (bm_AddFinalizer E f m)"
  "bm_consistent E m \<Longrightarrow> bm_consistent E (bm_RemoveFinalizer E f m)"
  "bm_consistent E m \<Longrightarrow> bm_consistent E (BareMetalMachineScope_SetProviderID i m)"
  "bm_consistent E m \<Longrightarrow> bm_consistent E (SetServerStatus v m)"
  "bm_consistent E m \<Longrightarrow> bm_consistent E (SetHardware c r d m)"
  by (simp_all add: bm_consistent_def bm_reports_ready_def BareMetalMachineScope_HasTerminalFailure_iff)
    (simp_all add: bm_setter_defs vpc_noted_def)

definition bm_terminal_reason :: "string \<Rightarrow> bool" where
  "bm_terminal_reason r \<longleftrightarrow> r = BareMetalUnexpectedStatusReason \<or> r = BareMetalVPCAttachFailedReason"

lemma bm_terminal_reason_simps [simp]:
  "bm_terminal_reason BareMetalUnexpectedStatusReason" "bm_terminal_reason BareMetalVPCAttachFailedReason"
  "\<not> bm_terminal_reason BareMetalServerNotFoundReason" "\<not> bm_terminal_reason BareMetalServerCreationFailedReason"
  "\<not> bm_terminal_reason BareMetalServerPendingReason" "\<not> bm_terminal_reason BareMetalVPCAttachRequestedReason"
  "\<not> bm_terminal_reason BareMetalWaitingForLoadBalancerReason"
  "\<not> bm_terminal_reason BareMetalWaitingForClusterInfrastructureReason"
  "\<not> bm_terminal_reason BareMetalWaitingForBootstrapDataReason" "\<not> bm_terminal_reason BareMetalDeletingReason"
  by (simp_all add: bm_terminal_reason_def reason_defs)

lemma bm_consistent_condition:
  "conditions_laws E \<Longrightarrow> \<not> bm_terminal_reason reason \<Longrightarrow>
     bm_consistent E (bm_set_condition E ConditionFalse reason msg now m)"
  by (auto simp: bm_consistent_def bm_reports_ready_def bm_terminal_reason_def
      BareMetalMachineScope_HasTerminalFailure_iff status_defs)

lemma bm_consistent_terminal:
  "conditions_laws E \<Longrightarrow>
     bm_consistent E ((bm_set_condition E ConditionFalse reason msg now m)
       \<lparr>bm_Status := (bm_Status (bm_set_condition E ConditionFalse reason msg now m))\<lparr>bmst_Ready := False\<rparr>\<rparr>)"
  by (auto simp: bm_consistent_def bm_reports_ready_def status_defs)

lemma obj_inv_bm_conditions [inv_rules]:
  "conditions_laws E \<Longrightarrow> \<not> bm_terminal_reason reason \<Longrightarrow>
     obj_inv (bm_consistent E) (BareMetalMachineScope_SetReadyCondition E ConditionFalse reason msg)"
  "conditions_laws E \<Longrightarrow> obj_inv (bm_consistent E) (BareMetalMachineScope_SetTerminalFailure E reason' msg')"
  by (simp_all add: obj_inv_def wp_rules Let_def bm_consistent_condition bm_consistent_terminal)

text \<open>
  The steps from the VPC on, as one block: a machine that asks for a VPC reaches the report with
  the attachment noted.
\<close>

lemma attach_vpc_consistent:
  assumes E: "conditions_laws E" and "bm_consistent E (obj s)"
  shows "wp (attach_vpc E cs server)
    (\<lambda>r s'. bm_consistent E (obj s') \<and> (\<forall>info. r = Inr info \<longrightarrow> vpc_noted (obj s')))
    (\<lambda>s'. bm_consistent E (obj s')) s"
proof -
  let ?vpc = "bms_VPCID (bm_Spec (obj s))"
  have "wp (EnsureBareMetalVPC cs (bs_ID server) ?vpc)
      (\<lambda>r s'. obj s' = obj s \<and> (\<forall>v. r = Inr (True, Some v) \<longrightarrow> vpc_ID v = ?vpc)) (\<lambda>s'. obj s' = obj s) s"
    unfolding EnsureBareMetalVPC_def
    by (auto simp: wp_rules find_Some_iff split: sum.split option.split)
  moreover have "bm_consistent E (SetVPC (Some v) m)" if "bm_consistent E m" "bv_ID v = bms_VPCID (bm_Spec m)" for v m
    using that by (simp add: bm_consistent_def BareMetalMachineScope_HasTerminalFailure_iff) (simp add: bm_setter_defs)
  ultimately show ?thesis
    using assms unfolding attach_vpc_def Let_def
    by (auto simp: wp_rules Let_def vpc_noted_def [of "obj s"] bm_consistent_condition bm_consistent_terminal
        elim!: wp_mono split: sum.splits option.splits prod.splits)
qed

lemma report_server_active_consistent:
  assumes "conditions_laws E" and "vpc_noted (obj s)"
  shows "wp (report_server_active E server info) (\<lambda>_ s'. bm_consistent E (obj s')) (\<lambda>s'. bm_consistent E (obj s')) s"
  using assms unfolding report_server_active_def
  by (simp add: wp_rules bm_consistent_def BareMetalMachineScope_HasTerminalFailure_iff)
    (simp add: bm_setter_defs status_defs)

lemma server_join_load_balancer_consistent:
  assumes "conditions_laws E" and "bm_consistent E (obj s)"
  shows "wp (server_join_load_balancer E cs bsc server)
    (\<lambda>early s'. bm_consistent E (obj s') \<and> (early = None \<longrightarrow> obj s' = obj s)) (\<lambda>s'. bm_consistent E (obj s')) s"
  using assms unfolding server_join_load_balancer_def Let_def
  by (auto simp: wp_rules bm_consistent_condition split: sum.split
      intro!: wp_keeps_obj [OF keeps_obj_LoadBalancer(4)])

lemma attached_server_consistent:
  assumes E: "conditions_laws E"
  shows "obj_inv (bm_consistent E) (try_then (attach_vpc E cs server) ret (\<lambda>vpcInfo.
     and_then (server_join_load_balancer E cs bsc server) (\<lambda>early. case early of
         Some r \<Rightarrow> ret r | None \<Rightarrow> report_server_active E server vpcInfo)))"
proof -
  have join: "wp (and_then (server_join_load_balancer E cs bsc server) (\<lambda>early. case early of
         Some r \<Rightarrow> ret r | None \<Rightarrow> report_server_active E server info))
      (\<lambda>_ s'. bm_consistent E (obj s')) (\<lambda>s'. bm_consistent E (obj s')) s"
    if "bm_consistent E (obj s)" "vpc_noted (obj s)" for s info
    unfolding wp_and_then [of "server_join_load_balancer E cs bsc server"]
    by (rule wp_mono [OF server_join_load_balancer_consistent [OF E that(1)]])
      (use that(2) in \<open>auto simp: wp_ret split: option.split intro: report_server_active_consistent [OF E]\<close>)
  show ?thesis
    unfolding obj_inv_def wp_try_then
    by (intro allI impI, rule wp_mono [OF attach_vpc_consistent [OF E]])
      (auto simp: wp_ret split: sum.split intro: join)
qed

lemma obj_inv_bm_reconcileNormal:
  assumes E: "conditions_laws E"
  shows "obj_inv (bm_consistent E) (VultrBareMetalMachine_reconcileNormal E cs bsc)"
  unfolding VultrBareMetalMachine_reconcileNormal_def reconcile_bootstrapped_server_def reconcile_server_def
    findOrCreateServer_def server_missing_def create_server_step_def server_create_failed_def adopt_server_def
    check_server_status_def set_server_details_def Let_def
  by (intro attached_server_consistent inv_rules E bm_consistent_setters obj_inv_keeps [OF keeps_obj_bare_metal(1)]
      obj_inv_keeps [OF keeps_obj_FindBareMetalServerByTags] obj_inv_keeps [OF keeps_obj_CreateBareMetalServer])
    simp_all

lemma obj_inv_bm_reconcileDelete:
  assumes E: "conditions_laws E"
  shows "obj_inv (bm_consistent E) (VultrBareMetalMachine_reconcileDelete E cs bsc)"
  unfolding VultrBareMetalMachine_reconcileDelete_def finish_server_delete_def Let_def
  by (intro inv_rules E bm_consistent_setters obj_inv_keeps [OF keeps_obj_delete_known_server]
      obj_inv_keeps [OF keeps_obj_delete_remaining_server]
      obj_inv_keeps [OF keeps_obj_FindBareMetalServerByTags]) simp_all

inductive bm_step :: "'w env \<Rightarrow> VultrBareMetalMachine \<Rightarrow> VultrBareMetalMachine \<Rightarrow> bool" for E where
  normal: "VultrBareMetalMachine_reconcileNormal E cs bsc s = Ret r s' \<Longrightarrow> bm_step E (obj s) (obj s')"
| normal_panic: "VultrBareMetalMachine_reconcileNormal E cs bsc s = Panic msg s' \<Longrightarrow> bm_step E (obj s) (obj s')"
| delete: "VultrBareMetalMachine_reconcileDelete E cs bsc s = Ret r s' \<Longrightarrow> bm_step E (obj s) (obj s')"
| delete_panic: "VultrBareMetalMachine_reconcileDelete E cs bsc s = Panic msg s' \<Longrightarrow> bm_step E (obj s) (obj s')"

lemma bm_step_consistent:
  assumes "conditions_laws E" and "bm_step E m m'" and "bm_consistent E m"
  shows "bm_consistent E m'"
  using assms(2,3)
  by (induction rule: bm_step.induct)
    (auto dest: obj_inv_RetD [OF obj_inv_bm_reconcileNormal [OF assms(1)]]
      obj_inv_PanicD [OF obj_inv_bm_reconcileNormal [OF assms(1)]]
      obj_inv_RetD [OF obj_inv_bm_reconcileDelete [OF assms(1)]]
      obj_inv_PanicD [OF obj_inv_bm_reconcileDelete [OF assms(1)]])

text \<open>
  Over any sequence of reconciles and deletions, panics included, a VultrBareMetalMachine whose Ready condition is True
  is ready and provisioned and has the VPC of its spec noted, and one with a terminal failure is not ready.
\<close>

lemma bare_metal_status_consistent:
  assumes "conditions_laws E" and "(bm_step E)\<^sup>*\<^sup>* m m'" and "bm_consistent E m"
  shows "bm_consistent E m'"
  using assms(2,3) by (induction rule: rtranclp_induct) (auto intro: bm_step_consistent [OF assms(1)])

text \<open>
  C15. The two ends of the Ready condition bind the status: over any life of a VultrMachine or a VultrBareMetalMachine that
  begins consistent, a sequence of reconciles and deletions with panics included, a machine whose condition is True has the
  ready and the provisioned flag (and the VPC of its spec noted, on bare metal), and one with a terminal failure is not
  ready (nor provisioned, if it is virtual). Nothing is claimed for the other conditions: a machine that was Ready and
  whose instance is missing, or which is being deleted or waits for the load balancer again, reports False and keeps its
  flags (\<open>flags_outlive_condition\<close> in theory \<open>Witnesses_Other\<close>).
\<close>

theorem status_consistent:
  assumes "conditions_laws E"
  shows "((vm_step E)\<^sup>*\<^sup>* m m' \<longrightarrow> vm_consistent E m \<longrightarrow>
      (reports_ready E m' \<longrightarrow> vmst_Ready (vm_Status m') \<and> vmst_Provisioned (vm_Status m')) \<and>
      (MachineScope_HasTerminalFailure E m' \<longrightarrow> \<not> vmst_Ready (vm_Status m') \<and> \<not> vmst_Provisioned (vm_Status m'))) \<and>
    ((bm_step E)\<^sup>*\<^sup>* b b' \<longrightarrow> bm_consistent E b \<longrightarrow>
      (bm_reports_ready E b' \<longrightarrow>
        bmst_Ready (bm_Status b') \<and> bmst_Provisioned (bm_Status b') = Some True \<and> vpc_noted b') \<and>
      (BareMetalMachineScope_HasTerminalFailure E b' \<longrightarrow> \<not> bmst_Ready (bm_Status b')))"
  using machine_status_consistent [OF assms, of m m'] bare_metal_status_consistent [OF assms, of b b']
  unfolding vm_consistent_def bm_consistent_def by blast

end
