(* ===== verification/Witnesses_Other.thy ===== *)
theory Witnesses_Other
  imports Witnesses Controllers_Safety Encodings Interleaving Lifecycle
begin

text \<open>
  The properties of the bare metal and cluster controllers and of the services applied at concrete
  inputs, on the small cloud of theory \<open>Fake_Cloud\<close> and on variations of it.
\<close>

section \<open>Bare metal machines\<close>

definition fake_bm_known :: VultrBareMetalMachine where
  "fake_bm_known = bm_AddFinalizer fake_env BareMetalMachineFinalizer
     (BareMetalMachineScope_SetProviderID ''b-m'' fake_bm)"

definition fake_server_m :: BareMetalServer where
  "fake_server_m = fake_server (buildBareMetalCreateRequest (bm_Spec fake_bm) ''m'' [] []
     (BuildTags (MachineTagParams fake_cs ''m'' ''control-plane'')))"

theorem bare_metal_ready_only_when_joined_witness:
  "conditions_laws fake_env \<and> \<not> bm_reports_ready fake_env fake_bm \<and>
   wp (VultrBareMetalMachine_reconcileNormal fake_env fake_cs fake_bsc)
    (\<lambda>r s'. bm_reports_ready fake_env (obj s') \<longrightarrow> server_ready_established fake_env fake_cs fake_bsc r (obj s'))
    (\<lambda>_. True) (start_state fake_bm)"
proof -
  have "\<not> bm_reports_ready fake_env fake_bm" by code_simp
  then show ?thesis
    using bare_metal_ready_only_when_joined [of fake_env "start_state fake_bm" fake_cs fake_bsc] fake_conditions_laws
    by (simp add: start_state_def)
qed

text \<open>A cloud whose servers do not support the VPC.\<close>

definition no_vpc_cs :: "fake ClusterScope" where
  "no_vpc_cs = fake_cs\<lparr>cs_clients := fake_clients\<lparr>BareMetal := fake_BareMetal
     \<lparr>BareMetal_AttachVPC := \<lambda>i v w. (Some (Err ''This plan does not support VPC''), w)\<rparr>\<rparr>\<rparr>"

theorem bare_metal_vpc_failure_is_final_witness:
  "\<exists>s'. attach_vpc fake_env no_vpc_cs fake_server_m (start_state fake_bm) = Ret (Inl (no_requeue, None)) s' \<and>
    bm_ready_report fake_env (obj s') = Some (ConditionFalse, BareMetalVPCAttachFailedReason) \<and>
    (\<forall>w. VultrBareMetalMachine_reconcileNormal fake_env fake_cs fake_bsc \<lparr>world = w, trace = [], obj = obj s'\<rparr> =
       Ret (no_requeue, None) \<lparr>world = w, trace = [], obj = obj s'\<rparr>)"
proof -
  have vpc: "bms_VPCID (bm_Spec (obj (start_state fake_bm))) = ''vpc''" by (simp add: start_state_def fake_bm_def)
  have list: "BareMetal_ListVPCInfo (BareMetal (cs_clients no_vpc_cs)) (bs_ID fake_server_m) (world (start_state fake_bm))
      = (Inr [], fake_world)"
    by (simp add: no_vpc_cs_def fake_BareMetal_def start_state_def fake_world_def)
  have attach: "BareMetal_AttachVPC (BareMetal (cs_clients no_vpc_cs)) (bs_ID fake_server_m) ''vpc'' fake_world
      = (Some (Err ''This plan does not support VPC''), fake_world)"
    by (simp add: no_vpc_cs_def)
  have "IsTerminalVPCAttachError fake_env (Some (Err ''This plan does not support VPC''))" by code_simp
  from bare_metal_vpc_failure_is_final [OF fake_conditions_laws fake_wrap_laws vpc _ list _ attach this]
  show ?thesis by auto
qed

lemma fake_bm_delete_run:
  "VultrBareMetalMachine_reconcileDelete fake_env fake_cs fake_bsc (start_state fake_bm_known) =
     Ret (no_requeue, None)
       (final_state (VultrBareMetalMachine_reconcileDelete fake_env fake_cs fake_bsc) (start_state fake_bm_known))"
  by (rule run_gives_value) code_simp

lemma fake_bm_delete_changes:
  "om_Finalizers (bm_meta (obj (final_state (VultrBareMetalMachine_reconcileDelete fake_env fake_cs fake_bsc)
     (start_state fake_bm_known)))) \<noteq> om_Finalizers (bm_meta (obj (start_state fake_bm_known)))"
  by code_simp


text \<open>
  A control-plane machine that lost its provider ID is deleted: the run that finds its server by the tags deletes the
  server, the next one removes the finalizer, and the server is a member of the load balancer still.
\<close>

definition lost_id_bm :: VultrBareMetalMachine where
  "lost_id_bm = bm_AddFinalizer fake_env BareMetalMachineFinalizer fake_bm"

definition lost_id_state :: "(fake, VultrBareMetalMachine) st" where
  "lost_id_state = \<lparr>world = fake_world\<lparr>fk_racked := [(buildBareMetalCreateRequest (bm_Spec fake_bm) ''m'' [] [] [], fake_server_m)],
       fk_lb := Some (fake_lb\<lparr>gl_Instances := [''b-m'', ''b-0'']\<rparr>)\<rparr>, trace = [], obj = lost_id_bm\<rparr>"

lemma lost_id_leaves_member:
  "BareMetalMachineScope_IsControlPlane fake_env fake_bsc" "GetServerID lost_id_bm = []"
  "map bs_ID (fk_servers (world lost_id_state)) = [''b-m'']"
  "(let del = VultrBareMetalMachine_reconcileDelete fake_env fake_cs fake_bsc; s = final_state del (final_state del lost_id_state)
    in fk_servers (world s) = [] \<and> om_Finalizers (bm_meta (obj s)) = [] \<and>
       map_option gl_Instances (fk_lb (world s)) = Some [''b-m'', ''b-0''])"
  by code_simp+

text \<open>A machine that is Ready, and whose instance is gone at the next run, reports False and keeps its flags.\<close>

definition ready_vm :: VultrMachine where
  "ready_vm = obj (final_state (reconcile_instance fake_env fake_cs fake_ms
     (fake_instance_m\<lparr>in_Status := SubscriptionStatusActive\<rparr>)) (start_state fake_vm))"

lemma flags_outlive_condition:
  "reports_ready fake_env ready_vm"
  "(let m = obj (final_state (VultrMachine_reconcileNormal fake_env fake_cs fake_ms) (start_state ready_vm))
    in \<not> reports_ready fake_env m \<and> vmst_Ready (vm_Status m) \<and> vmst_Provisioned (vm_Status m))"
  by code_simp+

section \<open>Clusters\<close>

lemma fake_cluster_run:
  "VultrCluster_reconcileNormal fake_env fake_cs (start_state fake_vc_ready) =
     Ret (no_requeue, None)
       (final_state (VultrCluster_reconcileNormal fake_env fake_cs) (start_state fake_vc_ready))"
  by (rule run_gives_value) code_simp

theorem cluster_reconcile_refines_spec_witness:
  "lb_answer_for fake_cs fake_vc_ready fake_world = Some (Found fake_lb, fake_world) \<and>
   (\<exists>s'. VultrCluster_reconcileNormal fake_env fake_cs (start_state fake_vc_ready) = Ret (no_requeue, None) s' \<and>
      view_of fake_env (obj s') = cluster_spec 6443 False (Found fake_lb) (view_of fake_env fake_vc_ready))"
proof -
  have ans: "lb_answer_for fake_cs fake_vc_ready fake_world = Some (Found fake_lb, fake_world)"
    by (simp add: lb_answer_for_def known_lb_id_def fake_vc_ready_def fake_vc_def vc_update_ref_def zero_VultrCluster_def
        zero_VultrResourceReference_def zero_VultrLoadBalancer_def fake_cs_def fake_clients_def fake_LoadBalancers_def
        fake_lb_by_id_def fake_world_def fake_lb_def fake_answer_def answer_ok_def)
  have running: "False \<longleftrightarrow> ref_ResourcePowerStatus (api_lb_ref (obj (start_state fake_vc_ready))) = PowerStatusRunning"
    by code_simp
  have port: "6443 = hc_Port (default_HealthCheck (lb_HealthCheck (api_lb (obj (start_state fake_vc_ready)))))"
    by code_simp
  have "cluster_result (vc_meta fake_vc_ready) False (Found fake_lb) = (no_requeue, None)" by code_simp
  with cluster_reconcile_refines_spec [OF fake_conditions_laws running port, of fake_cs] ans show ?thesis
    by (auto simp: start_state_def)
qed

theorem cluster_endpoint_port_witness:
  "\<exists>s'. VultrCluster_reconcileNormal fake_env fake_cs (start_state fake_vc_ready) = Ret (no_requeue, None) s' \<and>
     ep_Port (vcs_ControlPlaneEndpoint (vc_Spec (obj s'))) = 6443"
proof -
  have port: "6443 = hc_Port (default_HealthCheck (lb_HealthCheck (api_lb (obj (start_state fake_vc_ready)))))"
    by code_simp
  from cluster_endpoint_port [OF fake_conditions_laws fake_cluster_run port refl] fake_cluster_run
  show ?thesis by (intro exI conjI) (assumption, simp)
qed

definition fake_vc_deleted :: VultrCluster where
  "fake_vc_deleted = vc_AddFinalizer fake_env ClusterFinalizer fake_vc_ready"

theorem cluster_finalizer_only_when_deleted_witness:
  "\<exists>r s'. VultrCluster_reconcileDelete fake_env fake_cs (start_state fake_vc_deleted) = Ret r s' \<and>
     (ref_ResourceID (api_lb_ref fake_vc_deleted) = [] \<or>
      (\<exists>a w. LoadBalancers_Get (LoadBalancers (cs_clients fake_cs)) ''lb-1'' fake_world = (a, w) \<and> a_err a = None))"
proof -
  let ?m = "VultrCluster_reconcileDelete fake_env fake_cs"
  have run: "?m (start_state fake_vc_deleted) = Ret (no_requeue, None) (final_state ?m (start_state fake_vc_deleted))"
    by (rule run_gives_value) code_simp
  have "om_Finalizers (vc_meta (obj (final_state ?m (start_state fake_vc_deleted)))) \<noteq>
      om_Finalizers (vc_meta (obj (start_state fake_vc_deleted)))" by code_simp
  from cluster_finalizer_only_when_deleted [OF run this]
  have "ref_ResourceID (api_lb_ref fake_vc_deleted) = [] \<or>
      (\<exists>a w. LoadBalancers_Get (LoadBalancers (cs_clients fake_cs)) (ref_ResourceID (api_lb_ref fake_vc_deleted))
         fake_world = (a, w) \<and> a_err a = None)" by (auto simp: start_state_def)
  moreover have "ref_ResourceID (api_lb_ref fake_vc_deleted) = ''lb-1''" by code_simp
  ultimately show ?thesis using run by auto
qed

text \<open>A cloud whose load balancer is gone.\<close>

definition no_lb_state :: "(fake, VultrCluster) st" where
  "no_lb_state = \<lparr>world = fake_world\<lparr>fk_lb := None\<rparr>, trace = [], obj = fake_vc_deleted\<rparr>"

theorem cluster_delete_stuck_when_lb_gone_witness:
  "\<exists>err. VultrCluster_reconcileDelete fake_env fake_cs no_lb_state =
     Ret (no_requeue, Some err) (no_lb_state\<lparr>trace := [CallLBGet ''lb-1'']\<rparr>)"
proof -
  have i: "ref_ResourceID (api_lb_ref (obj no_lb_state)) = ''lb-1''" by code_simp
  have get: "LoadBalancers_Get (LoadBalancers (cs_clients fake_cs)) ''lb-1'' (world no_lb_state)
      = (answer_missing, fake_world\<lparr>fk_lb := None\<rparr>)"
    by (simp add: fake_cs_def fake_clients_def fake_LoadBalancers_def fake_lb_by_id_def no_lb_state_def fake_answer_def)
  have err: "a_err (answer_missing :: LoadBalancer answer) = Some (Err ''not found'')"
    and nf: "captured_status (a_trips (answer_missing :: LoadBalancer answer)) = StatusNotFound"
    by (simp_all add: answer_missing_def captured_status_def Capture_def RoundTrip_def Record_def StatusNotFound_def)
  show ?thesis
    using cluster_delete_stuck_when_lb_gone [OF i _ get err nf, of fake_env] by (auto simp: no_lb_state_def)
qed

theorem cluster_delete_ignores_spec_id_witness:
  "\<exists>s'. VultrCluster_reconcileDelete fake_env fake_cs (start_state (vc_update_lb (\<lambda>l. l\<lparr>lb_ID := ''lb-1''\<rparr>) fake_vc)) =
     Ret (no_requeue, None) s' \<and> world s' = fake_world \<and> known_lb_id (obj s') = ''lb-1''"
proof -
  let ?vc = "vc_update_lb (\<lambda>l. l\<lparr>lb_ID := ''lb-1''\<rparr>) fake_vc"
  have "ref_ResourceID (api_lb_ref (obj (start_state ?vc))) = []" and "known_lb_id (obj (start_state ?vc)) = ''lb-1''"
    by code_simp+
  from cluster_delete_ignores_spec_id [OF this, of fake_env fake_cs] show ?thesis by (auto simp: start_state_def)
qed

section \<open>Services\<close>

definition fake_doc :: yaml_doc where
  "fake_doc = [''runcmd'' \<mapsto> YList [YStr ''ufw disable'']]"

definition yaml_env :: "fake env" where
  "yaml_env = fake_env\<lparr>yaml_Unmarshal := \<lambda>s. Inr (if s = ''y'' then Some fake_doc else None),
     yaml_Marshal := \<lambda>d. if d = fake_doc then Inr ''y'' else Inl (Err ''unknown document'')\<rparr>"

theorem prepended_commands_read_back_witness:
  "\<exists>out body'. PrependCloudConfigRunCmds yaml_env (cloudConfigHeader @ newline # ''x'') [''ufw disable''] = Inr out \<and>
     splitCloudConfigHeader out = ([], body') \<and> yaml_Unmarshal yaml_env body' = Inr (Some fake_doc)"
proof -
  let ?u = "cloudConfigHeader @ newline # ''x''"
  have laws: "yaml_laws yaml_env" by (simp add: yaml_laws_def yaml_env_def)
  have split: "splitCloudConfigHeader ?u = ([], ''x'')" by code_simp
  have doc: "yaml_Unmarshal yaml_env ''x'' = Inr None" by (simp add: yaml_env_def)
  have "prepend_runcmd [''ufw disable''] Map.empty = Some fake_doc"
    by (simp add: prepend_runcmd_def fake_doc_def)
  then have out: "PrependCloudConfigRunCmds yaml_env ?u [''ufw disable''] = Inr (cloudConfigHeader @ newline # ''y'')"
    using doc unfolding PrependCloudConfigRunCmds_def split by (simp add: yaml_env_def)
  have "(or_default None Map.empty)(''runcmd'' \<mapsto> YList (map YStr [''ufw disable''] @ old_runcmd (or_default None Map.empty)))
      = fake_doc" by (simp add: or_default_def old_runcmd_def fake_doc_def)
  with prepended_commands_read_back [OF laws _ out split _ doc] out show ?thesis by auto
qed

lemma fake_server_listing:
  "listing (BareMetal_List fake_BareMetal) opts w
     (Inr (filter (\<lambda>v. List.member (bs_Tags v) (lo_Tag opts)) (fk_servers w))) [opts] w"
  using listing_last [of "BareMetal_List fake_BareMetal" opts w] by (simp add: fake_BareMetal_def next_cursor_def)

theorem searches_are_reference_witness:
  "(\<exists>s'. FindInstanceForMachine fake_cs ''m'' ''worker'' (start_state fake_vm) = Ret (Inr None) s') \<and>
   (\<exists>s'. FindBareMetalServerByTags fake_cs ''m'' ''worker'' (start_state fake_bm) = Ret (Inr None) s')"
proof -
  have "listing (Instances_List (Instances (cs_clients fake_cs))) (instance_list_options ''m'')
      (world (start_state fake_vm)) (Inr []) [instance_list_options ''m''] fake_world"
    by (simp add: fake_cs_def fake_clients_def fake_listing_iff start_state_def)
  moreover have "listing (BareMetal_List (BareMetal (cs_clients fake_cs))) (bare_metal_list_options ''m'')
      (world (start_state fake_bm)) (Inr []) [bare_metal_list_options ''m''] fake_world"
    using fake_server_listing [of "bare_metal_list_options ''m''" fake_world]
    by (simp add: fake_cs_def fake_clients_def start_state_def)
  ultimately show ?thesis
    using searches_are_reference [of fake_cs "''m''" "start_state fake_vm" "Inr []" _ _ "start_state fake_bm" "Inr []"]
    by (fastforce simp: search_reference_def)
qed

theorem searches_terminate_witness:
  "(\<exists>r s'. FindInstanceForMachine fake_cs ''m'' ''worker'' (start_state fake_vm) = Ret r s') \<and>
   (\<exists>r s'. FindBareMetalServerByTags fake_cs ''m'' ''worker'' (start_state fake_vm) = Ret r s')"
proof -
  have "pages_end (\<lambda>_ _. 0) (Instances_List (Instances (cs_clients fake_cs)))"
    and "pages_end (\<lambda>_ _. 0) (BareMetal_List (BareMetal (cs_clients fake_cs)))"
    by (auto simp: pages_end_def fake_cs_def fake_clients_def fake_Instances_def fake_BareMetal_def next_cursor_def)
  then show ?thesis by (rule searches_terminate)
qed

definition fake_members :: "fake \<Rightarrow> string list" where
  "fake_members w = (case fake_lb_by_id ''lb-1'' w of None \<Rightarrow> [] | Some l \<Rightarrow> gl_Instances l)"

lemma fake_member_store: "member_store fake_cs ''lb-1'' fake_members"
  by (auto simp: member_store_def fake_cs_def fake_clients_def fake_LoadBalancers_def fake_members_def
      fake_lb_by_id_def fake_answer_def answer_ok_def answer_missing_def split: option.splits)

theorem ensure_member_refines_insert_witness:
  "\<exists>s'. EnsureLoadBalancerMember fake_cs ''lb-1'' ''i-m'' (start_state fake_vm) = Ret (Inr True) s' \<and>
     fake_members (world s') = fake_members fake_world @ [''i-m'']"
proof -
  let ?m = "EnsureLoadBalancerMember fake_cs ''lb-1'' ''i-m''"
  have run: "?m (start_state fake_vm) = Ret (Inr True) (final_state ?m (start_state fake_vm))"
    by (rule run_gives_value) code_simp
  moreover have "''i-m'' \<notin> set (fake_members (world (start_state fake_vm)))" by code_simp
  ultimately show ?thesis
    using ensure_member_refines_insert [OF fake_member_store run] by (auto simp: start_state_def)
qed

theorem remove_member_refines_filter_witness:
  "\<exists>r s'. RemoveLoadBalancerMember fake_cs ''lb-1'' ''i-m'' (start_state fake_vm) = Ret r s' \<and>
     fake_members (world s') = []"
proof -
  have lb: "lb_read fake_cs ''lb-1'' (world (start_state fake_vm)) = Some (fake_lb, fake_world)"
    by (simp add: lb_read_def fake_cs_def fake_clients_def fake_LoadBalancers_def fake_lb_by_id_def start_state_def
        fake_world_def fake_lb_def fake_answer_def answer_ok_def)
  have "fake_members (world (start_state fake_vm)) = []" by code_simp
  with remove_member_refines_filter [OF fake_member_store _ lb, of "''i-m''"] show ?thesis by simp
qed

section \<open>Lives\<close>

text \<open>A machine whose instance is active, and one whose server is active and attached, become Ready in one run.\<close>

definition active_vm_state :: "(fake, VultrMachine) st" where
  "active_vm_state = \<lparr>world = fake_world\<lparr>fk_made := [(fake_order_m, fake_instance_m\<lparr>in_Status := SubscriptionStatusActive\<rparr>)]\<rparr>,
     trace = [], obj = fake_vm\<rparr>"

definition active_bm_state :: "(fake, VultrBareMetalMachine) st" where
  "active_bm_state = \<lparr>world = fake_world\<lparr>fk_racked := [(buildBareMetalCreateRequest (bm_Spec fake_bm) ''m'' [] [] [],
       fake_server_m\<lparr>bs_Status := SubscriptionStatusActive\<rparr>)],
     fk_vpcs := [\<lparr>vpc_ID = ''vpc'', vpc_IPAddress = ''10.0.0.5'', vpc_MacAddress = ''aa''\<rparr>]\<rparr>, trace = [], obj = fake_bm\<rparr>"

lemma fake_vm_life: "\<exists>m. (vm_step fake_env)\<^sup>*\<^sup>* fake_vm m \<and> reports_ready fake_env m"
proof -
  let ?m = "VultrMachine_reconcileNormal fake_env fake_cs fake_ms"
  have "run_gives (\<lambda>_. True) ?m active_vm_state" by code_simp
  from run_givesD [OF this] obtain r where "?m active_vm_state = Ret r (final_state ?m active_vm_state)" by auto
  from vm_step.normal [OF this] have "(vm_step fake_env)\<^sup>*\<^sup>* fake_vm (obj (final_state ?m active_vm_state))"
    by (simp add: active_vm_state_def r_into_rtranclp)
  moreover have "reports_ready fake_env (obj (final_state ?m active_vm_state))" by code_simp
  ultimately show ?thesis by blast
qed

lemma fake_bm_life: "\<exists>m. (bm_step fake_env)\<^sup>*\<^sup>* fake_bm m \<and> bm_reports_ready fake_env m"
proof -
  let ?m = "VultrBareMetalMachine_reconcileNormal fake_env fake_cs fake_bsc"
  have "run_gives (\<lambda>_. True) ?m active_bm_state" by code_simp
  from run_givesD [OF this] obtain r where "?m active_bm_state = Ret r (final_state ?m active_bm_state)" by auto
  from bm_step.normal [OF this] have "(bm_step fake_env)\<^sup>*\<^sup>* fake_bm (obj (final_state ?m active_bm_state))"
    by (simp add: active_bm_state_def r_into_rtranclp)
  moreover have "bm_reports_ready fake_env (obj (final_state ?m active_bm_state))" by code_simp
  ultimately show ?thesis by blast
qed

theorem status_consistent_witness:
  "(\<exists>m. reports_ready fake_env m \<and> vmst_Ready (vm_Status m) \<and> vmst_Provisioned (vm_Status m)) \<and>
   (\<exists>b. bm_reports_ready fake_env b \<and> bmst_Ready (bm_Status b) \<and> bmst_Provisioned (bm_Status b) = Some True \<and> vpc_noted b)"
proof -
  have start: "vm_consistent fake_env fake_vm" "bm_consistent fake_env fake_bm" by code_simp+
  from fake_vm_life fake_bm_life obtain m b where "(vm_step fake_env)\<^sup>*\<^sup>* fake_vm m" "reports_ready fake_env m"
      "(bm_step fake_env)\<^sup>*\<^sup>* fake_bm b" "bm_reports_ready fake_env b" by blast
  with status_consistent [OF fake_conditions_laws, of fake_vm m fake_bm b] start show ?thesis by blast
qed

section \<open>Watches and interleaving\<close>

theorem watches_reach_all_machines_witness:
  "\<exists>rs rs'.
     VultrClusterToVultrMachines fake_env (WVultrCluster fake_vc) (start_state fake_vm) = Ret (Some rs) (start_state fake_vm) \<and>
     VultrClusterToVultrBareMetalMachines fake_env (WVultrCluster fake_vc) (start_state fake_vm) =
       Ret (Some rs') (start_state fake_vm) \<and>
     machine_request fake_machine \<in> set rs \<and> rs' = []"
proof -
  have get: "GetOwnerCluster fake_env (vc_meta fake_vc) (world (start_state fake_vm)) = (Inr (Some fake_cluster), fake_world)"
    by (simp add: fake_env_def start_state_def)
  have ls: "ListMachines fake_env (om_Namespace (vc_meta fake_vc)) [(ClusterNameLabel, om_Name (cl_meta fake_cluster))]
      fake_world = (Inr [fake_machine], fake_world)"
    by (simp add: fake_env_def)
  have machines: "{m \<in> set [fake_machine]. built_on ''VultrMachine'' m} = {fake_machine}"
    "{m \<in> set [fake_machine]. built_on ''VultrBareMetalMachine'' m} = {}"
    by (auto simp: built_on_def fake_machine_def)
  have same: "(start_state fake_vm)\<lparr>world := fake_world\<rparr> = start_state fake_vm"
    by (simp add: start_state_def)
  from watches_reach_all_machines [OF get ls, unfolded machines same image_empty set_empty]
  obtain rs rs' where "VultrClusterToVultrMachines fake_env (WVultrCluster fake_vc) (start_state fake_vm) =
      Ret (Some rs) (start_state fake_vm)"
    "VultrClusterToVultrBareMetalMachines fake_env (WVultrCluster fake_vc) (start_state fake_vm) =
      Ret (Some rs') (start_state fake_vm)"
    "machine_request ` {fake_machine} \<subseteq> set rs" "rs' = []"
    by (elim exE conjE)
  then show ?thesis by (intro exI conjI) simp_all
qed

text \<open>A bare metal server joins the load balancer while an instance does.\<close>

definition joined_by_server :: "(fake, VultrBareMetalMachine) st" where
  "joined_by_server = final_state (EnsureLoadBalancerMember fake_cs ''lb-1'' ''b-m'') (start_state fake_bm)"

theorem concurrent_joins_lose_a_member_witness:
  "''b-m'' \<in> set (fake_members (world joined_by_server)) \<and>
   (\<exists>s'. EnsureLoadBalancerMember (interrupted (\<lambda>_. world joined_by_server) fake_cs) ''lb-1'' ''i-m'' (start_state fake_vm) =
       Ret (Inr True) s' \<and> fake_members (world s') = [''i-m''])"
proof -
  have get: "LoadBalancers_Get (LoadBalancers (cs_clients fake_cs)) ''lb-1'' (world (start_state fake_vm)) =
      (answer_ok fake_lb, fake_world)"
    by (simp add: fake_cs_def fake_clients_def fake_LoadBalancers_def fake_lb_by_id_def start_state_def fake_world_def
        fake_lb_def fake_answer_def)
  have none: "fake_members (world (start_state fake_vm)) = []"
    by (simp add: fake_members_def start_state_def fake_world_def fake_lb_by_id_def fake_lb_def)
  have other: "EnsureLoadBalancerMember fake_cs ''lb-1'' ''b-m'' (start_state fake_bm) = Ret (Inr True) joined_by_server"
    unfolding joined_by_server_def by (rule run_gives_value) code_simp
  have w: "world (start_state fake_bm) = fake_world" by (simp add: start_state_def)
  have accepted: "a_err (fst (LoadBalancers_Update (LoadBalancers (cs_clients fake_cs)) ''lb-1''
      (members_req (fake_members (world (start_state fake_vm)) @ [''i-m''])) (world joined_by_server))) = None"
    by code_simp
  obtain u w' where u: "LoadBalancers_Update (LoadBalancers (cs_clients fake_cs)) ''lb-1''
      (members_req (fake_members (world (start_state fake_vm)) @ [''i-m''])) (world joined_by_server) = (u, w')"
    by fastforce
  with accepted have update: "a_err u = None" by simp
  have "a_err (answer_ok fake_lb) = None" "a_value (answer_ok fake_lb) = Some fake_lb" "gl_Status fake_lb = ''active''"
    "''lb-1'' \<noteq> []" "''i-m'' \<noteq> ''b-m''" "''i-m'' \<notin> set (fake_members (world (start_state fake_vm)))"
    "''b-m'' \<notin> set (fake_members (world (start_state fake_vm)))"
    by (simp_all add: answer_ok_def fake_lb_def none)
  note run = concurrent_joins_lose_a_member [OF fake_member_store this(4) get this(1-3,6,7,5) other w u update,
      unfolded none append_Nil]
  from conjunct2 [OF run] obtain s' where "EnsureLoadBalancerMember (interrupted (\<lambda>_. world joined_by_server) fake_cs)
      ''lb-1'' ''i-m'' (start_state fake_vm) = Ret (Inr True) s'" "fake_members (world s') = [''i-m'']"
    by (elim exE conjE)
  with conjunct1 [OF run] show ?thesis by (intro conjI exI)
qed

end
