(* ===== verification/Go_Memory.thy ===== *)
theory Go_Memory
  imports Api_Tags
begin

text \<open>
  Go's memory, as far as copying structs goes: a list of cells, an address is a position in it,
  and an allocation appends a cell, so that memory that was there before is a prefix of the memory
  after. A pointer is an option of an address (\<open>None\<close> for nil); a slice points to the cell of its
  elements, nil slices included.

  A \<open>copier\<close> is a function that copies one value: it gives the copy and the memory with what the copy
  needs. The combinators are the statements the generated code is made of: a pointer field
  (\<^verbatim>\<open>*out = new(T)\<close>), a slice (\<^verbatim>\<open>make\<close> and \<^verbatim>\<open>copy\<close>, or a loop over its elements), and the fields of a
  struct one after the other. A copier fails (\<open>None\<close>) only on a dangling pointer or a cell of another
  type, which Go's type system excludes; a value that can be read is always copied.

  The locale \<open>deep_copier\<close> is the contract of a deep copy, and the lemmas \<open>copier_rules\<close> build
  it up along the combinators.
\<close>

type_synonym addr = nat

definition load :: "('c \<Rightarrow> 'v option) \<Rightarrow> addr \<Rightarrow> 'c list \<Rightarrow> 'v option" where
  "load proj a m = (if a < length m then proj (m ! a) else None)"

type_synonym ('c, 'a) copier = "'a \<Rightarrow> 'c list \<Rightarrow> ('a \<times> 'c list) option"

section \<open>Copying\<close>

definition copy_flat :: "('c, 'a) copier" where
  "copy_flat x m = Some (x, m)"

text \<open>
  A new cell with a copy of what a pointer points to. The cell is appended when its contents are
  there; Go allocates it first and fills it in, which nobody can tell apart.
\<close>

definition copy_ptr :: "('v \<Rightarrow> 'c) \<Rightarrow> ('c \<Rightarrow> 'v option) \<Rightarrow> ('c, 'v) copier \<Rightarrow> ('c, addr option) copier" where
  "copy_ptr mk proj c p m = (case p of
      None \<Rightarrow> Some (None, m)
    | Some a \<Rightarrow> (case load proj a m of
        None \<Rightarrow> None
      | Some v \<Rightarrow> (case c v m of
          None \<Rightarrow> None
        | Some (v', m') \<Rightarrow> Some (Some (length m'), m' @ [mk v']))))"

primrec copy_list :: "('c, 'a) copier \<Rightarrow> ('c, 'a list) copier" where
  "copy_list c [] m = Some ([], m)"
| "copy_list c (x # xs) m = (case c x m of
      None \<Rightarrow> None
    | Some (y, m') \<Rightarrow> (case copy_list c xs m' of
        None \<Rightarrow> None
      | Some (ys, m'') \<Rightarrow> Some (y # ys, m'')))"

definition copy_both :: "('c, 'a) copier \<Rightarrow> ('c, 'b) copier \<Rightarrow> ('c, 'a \<times> 'b) copier" where
  "copy_both c d p m = (case c (fst p) m of
      None \<Rightarrow> None
    | Some (x, m') \<Rightarrow> (case d (snd p) m' of
        None \<Rightarrow> None
      | Some (y, m'') \<Rightarrow> Some ((x, y), m'')))"

text \<open>The fields \<open>get\<close> of a struct are copied and put into \<^verbatim>\<open>*out = *in\<close>.\<close>

definition copy_fields :: "('s \<Rightarrow> 'p) \<Rightarrow> ('p \<Rightarrow> 's \<Rightarrow> 's) \<Rightarrow> ('c, 'p) copier \<Rightarrow> ('c, 's) copier" where
  "copy_fields get put c s m = (case c (get s) m of
      None \<Rightarrow> None
    | Some (p, m') \<Rightarrow> Some (put p s, m'))"

section \<open>Reading\<close>

text \<open>The value that lies at a place: pointers followed, a nil slice read as an empty list.\<close>

definition read_flat :: "'c list \<Rightarrow> 'a \<Rightarrow> 'a option" where
  "read_flat m x = Some x"

definition read_ptr :: "('c \<Rightarrow> 'v option) \<Rightarrow> ('c list \<Rightarrow> 'v \<Rightarrow> 'w option) \<Rightarrow> 'c list \<Rightarrow> addr option \<Rightarrow> 'w option option" where
  "read_ptr proj r m p = (case p of
      None \<Rightarrow> Some None
    | Some a \<Rightarrow> (case load proj a m of None \<Rightarrow> None | Some v \<Rightarrow> map_option Some (r m v)))"

primrec read_list :: "('c list \<Rightarrow> 'v \<Rightarrow> 'w option) \<Rightarrow> 'c list \<Rightarrow> 'v list \<Rightarrow> 'w list option" where
  "read_list r m [] = Some []"
| "read_list r m (x # xs) = (case r m x of
      None \<Rightarrow> None
    | Some v \<Rightarrow> map_option ((#) v) (read_list r m xs))"

definition read_slice ::
  "('c \<Rightarrow> 'v list option) \<Rightarrow> ('c list \<Rightarrow> 'v \<Rightarrow> 'w option) \<Rightarrow> 'c list \<Rightarrow> addr option \<Rightarrow> 'w list option" where
  "read_slice proj r m p = map_option (\<lambda>x. case x of None \<Rightarrow> [] | Some xs \<Rightarrow> xs) (read_ptr proj (read_list r) m p)"

definition read_both ::
  "('c list \<Rightarrow> 'a \<Rightarrow> 'v option) \<Rightarrow> ('c list \<Rightarrow> 'b \<Rightarrow> 'w option) \<Rightarrow> 'c list \<Rightarrow> 'a \<times> 'b \<Rightarrow> ('v \<times> 'w) option" where
  "read_both r q m p = (case r m (fst p) of
      None \<Rightarrow> None
    | Some v \<Rightarrow> map_option (Pair v) (q m (snd p)))"

definition read_fields ::
  "('s \<Rightarrow> 'p) \<Rightarrow> ('s \<Rightarrow> 'q \<Rightarrow> 'v) \<Rightarrow> ('c list \<Rightarrow> 'p \<Rightarrow> 'q option) \<Rightarrow> 'c list \<Rightarrow> 's \<Rightarrow> 'v option" where
  "read_fields get build r m s = map_option (build s) (r m (get s))"

section \<open>Reaching\<close>

text \<open>The addresses a value leads to.\<close>

definition reach_flat :: "'c list \<Rightarrow> 'a \<Rightarrow> addr set" where
  "reach_flat m x = {}"

definition reach_ptr ::
  "('c \<Rightarrow> 'v option) \<Rightarrow> ('c list \<Rightarrow> 'v \<Rightarrow> addr set) \<Rightarrow> 'c list \<Rightarrow> addr option \<Rightarrow> addr set" where
  "reach_ptr proj f m p = (case p of
      None \<Rightarrow> {}
    | Some a \<Rightarrow> insert a (case load proj a m of None \<Rightarrow> {} | Some v \<Rightarrow> f m v))"

primrec reach_list :: "('c list \<Rightarrow> 'v \<Rightarrow> addr set) \<Rightarrow> 'c list \<Rightarrow> 'v list \<Rightarrow> addr set" where
  "reach_list f m [] = {}"
| "reach_list f m (x # xs) = f m x \<union> reach_list f m xs"

definition reach_both ::
  "('c list \<Rightarrow> 'a \<Rightarrow> addr set) \<Rightarrow> ('c list \<Rightarrow> 'b \<Rightarrow> addr set) \<Rightarrow> 'c list \<Rightarrow> 'a \<times> 'b \<Rightarrow> addr set" where
  "reach_both f g m p = f m (fst p) \<union> g m (snd p)"

definition reach_fields :: "('s \<Rightarrow> 'p) \<Rightarrow> ('c list \<Rightarrow> 'p \<Rightarrow> addr set) \<Rightarrow> 'c list \<Rightarrow> 's \<Rightarrow> addr set" where
  "reach_fields get f m s = f m (get s)"

section \<open>The contract of a deep copy\<close>

text \<open>The two memories have the same cells at the addresses of a set.\<close>

definition agree :: "addr set \<Rightarrow> 'c list \<Rightarrow> 'c list \<Rightarrow> bool" where
  "agree A m m' \<longleftrightarrow> (\<forall>a\<in>A. a < length m \<longrightarrow> a < length m' \<and> m' ! a = m ! a)"

lemma agree_prefix: "prefix m m' \<Longrightarrow> agree A m m'"
  by (auto simp: agree_def prefix_def nth_append)

lemma agree_subset: "agree A m m' \<Longrightarrow> B \<subseteq> A \<Longrightarrow> agree B m m'"
  by (auto simp: agree_def)

lemma agree_Un [simp]: "agree (A \<union> B) m m' \<longleftrightarrow> agree A m m' \<and> agree B m m'"
  by (auto simp: agree_def)

lemma agree_load: "agree A m m' \<Longrightarrow> a \<in> A \<Longrightarrow> load proj a m = Some v \<Longrightarrow> load proj a m' = Some v"
  by (auto simp: agree_def load_def split: if_splits)

lemma load_less: "load proj a m = Some v \<Longrightarrow> a < length m"
  by (auto simp: load_def split: if_splits)

locale deep_copier =
  fixes r :: "'c list \<Rightarrow> 'a \<Rightarrow> 'v option"
    and f :: "'c list \<Rightarrow> 'a \<Rightarrow> addr set"
    and c :: "('c, 'a) copier"
  assumes frame: "r m x = Some v \<Longrightarrow> agree (f m x) m m' \<Longrightarrow> r m' x = Some v \<and> f m' x = f m x"
    and allocated: "r m x = Some v \<Longrightarrow> f m x \<subseteq> {..<length m}"
    and copied: "r m x = Some v \<Longrightarrow>
      \<exists>y m'. c x m = Some (y, m') \<and> prefix m m' \<and> r m' y = Some v \<and> f m' y \<subseteq> {length m..<length m'}"
begin

lemma later: "r m x = Some v \<Longrightarrow> prefix m m' \<Longrightarrow> r m' x = Some v \<and> f m' x = f m x"
  by (intro frame agree_prefix)

text \<open>
  What is written behind the copy does not show in the original, and the other way round: a
  memory that differs from the one after the copy at addresses of one of them only still
  holds the value of the other.
\<close>

lemma independent:
  assumes "r m x = Some v" and "c x m = Some (y, m')"
  shows "f m' x \<inter> f m' y = {}"
    and "agree (- f m' y) m' m'' \<Longrightarrow> r m'' x = Some v"
    and "agree (- f m' x) m' m'' \<Longrightarrow> r m'' y = Some v"
proof -
  from copied [OF assms(1)] assms(2)
  have pre: "prefix m m'" and y: "r m' y = Some v" "f m' y \<subseteq> {length m..<length m'}" by auto
  have x: "r m' x = Some v" "f m' x = f m x" using later [OF assms(1) pre] by simp_all
  show disjoint: "f m' x \<inter> f m' y = {}"
    using allocated [OF assms(1)] x(2) y(2) by fastforce
  show "agree (- f m' y) m' m'' \<Longrightarrow> r m'' x = Some v"
    using frame [OF x(1)] agree_subset disjoint by blast
  show "agree (- f m' x) m' m'' \<Longrightarrow> r m'' y = Some v"
    using frame [OF y(1)] agree_subset disjoint by blast
qed

end

section \<open>Rules for the combinators\<close>

text \<open>Two copies one after the other: what both need is new.\<close>

lemma fresh_union:
  assumes "A \<subseteq> {length m..<length m'}" and "prefix m m'"
    and "B \<subseteq> {length m'..<length m''}" and "prefix m' m''"
  shows "A \<union> B \<subseteq> {length m..<length m''}"
  using assms(1,3) prefix_length_le [OF assms(2)] prefix_length_le [OF assms(4)] by auto

named_theorems copier_rules
  \<open>rules that a copier built by the combinators is a deep copier\<close>

lemma deep_copier_flat [copier_rules]: "deep_copier read_flat reach_flat copy_flat"
  by unfold_locales (simp_all add: read_flat_def reach_flat_def copy_flat_def)

lemma load_append_new: "proj (mk v) = Some v \<Longrightarrow> load proj (length m) (m @ [mk v]) = Some v"
  by (simp add: load_def)

lemma deep_copier_ptr [copier_rules]:
  assumes mk: "\<And>v. proj (mk v) = Some v" and d: "deep_copier r f c"
  shows "deep_copier (read_ptr proj r) (reach_ptr proj f) (copy_ptr mk proj c)"
proof (unfold_locales, goal_cases)
  case (1 m p v m')
  show ?case
  proof (cases p)
    case (Some a)
    with 1(1) obtain x w where x: "load proj a m = Some x" "r m x = Some w" "v = Some w"
      by (auto simp: read_ptr_def split: option.splits)
    with 1(2) Some have "agree (insert a (f m x)) m m'" by (simp add: reach_ptr_def)
    then have "load proj a m' = Some x" and "r m' x = Some w \<and> f m' x = f m x"
      using agree_load [OF _ _ x(1)] deep_copier.frame [OF d x(2)] agree_subset by blast+
    with Some x show ?thesis by (simp add: read_ptr_def reach_ptr_def)
  qed (use 1 in \<open>simp add: read_ptr_def reach_ptr_def\<close>)
next
  case (2 m p v)
  show ?case
  proof (cases p)
    case (Some a)
    with 2 obtain x w where x: "load proj a m = Some x" "r m x = Some w"
      by (auto simp: read_ptr_def split: option.splits)
    then show ?thesis
      using Some load_less [OF x(1)] deep_copier.allocated [OF d x(2)] by (simp add: reach_ptr_def)
  qed (simp add: reach_ptr_def)
next
  case (3 m p v)
  show ?case
  proof (cases p)
    case (Some a)
    with 3 obtain x w where x: "load proj a m = Some x" "r m x = Some w" "v = Some w"
      by (auto simp: read_ptr_def split: option.splits)
    from deep_copier.copied [OF d x(2)] obtain y m' where y: "c x m = Some (y, m')" "prefix m m'"
        "r m' y = Some w" "f m' y \<subseteq> {length m..<length m'}"
      by blast
    let ?m = "m' @ [mk y]"
    have l: "load proj (length m') ?m = Some y" by (rule load_append_new) (rule mk)
    have "r ?m y = Some w \<and> f ?m y = f m' y" by (rule deep_copier.later [OF d y(3)]) simp
    moreover have "length m \<le> length m'" using y(2) by (rule prefix_length_le)
    ultimately show ?thesis
      using Some x y l by (auto simp: copy_ptr_def read_ptr_def reach_ptr_def)
  qed (use 3 in \<open>simp add: copy_ptr_def read_ptr_def reach_ptr_def\<close>)
qed

lemma deep_copier_both [copier_rules]:
  assumes c: "deep_copier r f c" and d: "deep_copier q g d"
  shows "deep_copier (read_both r q) (reach_both f g) (copy_both c d)"
proof (unfold_locales, goal_cases)
  case (1 m p v m')
  then obtain a b where v: "r m (fst p) = Some a" "q m (snd p) = Some b" "v = (a, b)"
    by (auto simp: read_both_def split: option.splits)
  then show ?case
    using 1(2) deep_copier.frame [OF c v(1)] deep_copier.frame [OF d v(2)]
    by (simp add: read_both_def reach_both_def)
next
  case (2 m p v)
  then obtain a b where v: "r m (fst p) = Some a" "q m (snd p) = Some b"
    by (auto simp: read_both_def split: option.splits)
  then show ?case
    using deep_copier.allocated [OF c v(1)] deep_copier.allocated [OF d v(2)] by (simp add: reach_both_def)
next
  case (3 m p v)
  then obtain a b where v: "r m (fst p) = Some a" "q m (snd p) = Some b" "v = (a, b)"
    by (auto simp: read_both_def split: option.splits)
  from deep_copier.copied [OF c v(1)] obtain x m' where x: "c (fst p) m = Some (x, m')" "prefix m m'"
      "r m' x = Some a" "f m' x \<subseteq> {length m..<length m'}" by blast
  have "q m' (snd p) = Some b" using deep_copier.later [OF d v(2) x(2)] by simp
  from deep_copier.copied [OF d this] obtain y m'' where y: "d (snd p) m' = Some (y, m'')" "prefix m' m''"
      "q m'' y = Some b" "g m'' y \<subseteq> {length m'..<length m''}" by blast
  have "r m'' x = Some a \<and> f m'' x = f m' x" by (rule deep_copier.later [OF c x(3) y(2)])
  with fresh_union [OF x(4,2) y(4,2)] show ?case
    using v x(1) y(1,3) by (simp add: copy_both_def read_both_def reach_both_def prefix_order.trans [OF x(2) y(2)])
qed

lemma deep_copier_list [copier_rules]:
  assumes d: "deep_copier r f c"
  shows "deep_copier (read_list r) (reach_list f) (copy_list c)"
proof -
  have framed: "read_list r m xs = Some v \<Longrightarrow> agree (reach_list f m xs) m m' \<Longrightarrow>
      read_list r m' xs = Some v \<and> reach_list f m' xs = reach_list f m xs" for m xs v m'
  proof (induction xs arbitrary: v)
    case (Cons x xs)
    from Cons.prems(1) obtain a b where v: "r m x = Some a" "read_list r m xs = Some b" "v = a # b"
      by (auto split: option.splits)
    then show ?case using Cons.IH [OF v(2)] Cons.prems(2) deep_copier.frame [OF d v(1)] by simp
  qed simp
  have alloc: "read_list r m xs = Some v \<Longrightarrow> reach_list f m xs \<subseteq> {..<length m}" for m xs v
  proof (induction xs arbitrary: v)
    case (Cons x xs)
    from Cons.prems(1) obtain a b where v: "r m x = Some a" "read_list r m xs = Some b"
      by (auto split: option.splits)
    then show ?case using Cons.IH [OF v(2)] deep_copier.allocated [OF d v(1)] by simp
  qed simp
  have copied: "read_list r m xs = Some v \<Longrightarrow>
      \<exists>ys m'. copy_list c xs m = Some (ys, m') \<and> prefix m m' \<and> read_list r m' ys = Some v \<and>
        reach_list f m' ys \<subseteq> {length m..<length m'}" for m xs v
  proof (induction xs arbitrary: m v)
    case (Cons x xs)
    from Cons.prems obtain a b where v: "r m x = Some a" "read_list r m xs = Some b" "v = a # b"
      by (auto split: option.splits)
    from deep_copier.copied [OF d v(1)] obtain y m' where x: "c x m = Some (y, m')" "prefix m m'"
        "r m' y = Some a" "f m' y \<subseteq> {length m..<length m'}" by blast
    have "read_list r m' xs = Some b" using framed [OF v(2) agree_prefix [OF x(2)]] by simp
    from Cons.IH [OF this] obtain ys m'' where y: "copy_list c xs m' = Some (ys, m'')" "prefix m' m''"
        "read_list r m'' ys = Some b" "reach_list f m'' ys \<subseteq> {length m'..<length m''}" by blast
    have "r m'' y = Some a \<and> f m'' y = f m' y" by (rule deep_copier.later [OF d x(3) y(2)])
    with fresh_union [OF x(4,2) y(4,2)] show ?case
      using v x(1) y(1,3) by (simp add: prefix_order.trans [OF x(2) y(2)])
  qed simp
  show ?thesis by unfold_locales (fact framed, fact alloc, fact copied)
qed

lemma deep_copier_slice [copier_rules]:
  assumes "\<And>v. proj (mk v) = Some v" and "deep_copier r f c"
  shows "deep_copier (read_slice proj r) (reach_ptr proj (reach_list f)) (copy_ptr mk proj (copy_list c))"
proof -
  note d = deep_copier_ptr [of proj mk, OF assms(1) deep_copier_list [OF assms(2)]]
  show ?thesis
  proof (unfold_locales, goal_cases)
    case (1 m x v m')
    then obtain w where w: "read_ptr proj (read_list r) m x = Some w" "v = (case w of None \<Rightarrow> [] | Some xs \<Rightarrow> xs)"
      by (auto simp: read_slice_def)
    then show ?case using deep_copier.frame [OF d w(1) 1(2)] by (simp add: read_slice_def)
  next
    case (2 m x v)
    then show ?case using deep_copier.allocated [OF d] by (auto simp: read_slice_def)
  next
    case (3 m x v)
    then obtain w where w: "read_ptr proj (read_list r) m x = Some w" "v = (case w of None \<Rightarrow> [] | Some xs \<Rightarrow> xs)"
      by (auto simp: read_slice_def)
    from deep_copier.copied [OF d w(1)] w(2) show ?case by (auto simp: read_slice_def)
  qed
qed

text \<open>Putting the copied fields back changes nothing else of the struct.\<close>

lemma deep_copier_fields:
  assumes d: "deep_copier r f c" and "\<And>p s. get (put p s) = p" and "\<And>p s. build (put p s) = build s"
  shows "deep_copier (read_fields get build r) (reach_fields get f) (copy_fields get put c)"
proof (unfold_locales, goal_cases)
  case (1 m x v m')
  then obtain w where w: "r m (get x) = Some w" "v = build x w" by (auto simp: read_fields_def)
  then show ?case
    using deep_copier.frame [OF d w(1)] 1(2) by (simp add: read_fields_def reach_fields_def)
next
  case (2 m x v)
  then obtain w where "r m (get x) = Some w" by (auto simp: read_fields_def)
  then show ?case using deep_copier.allocated [OF d] by (simp add: reach_fields_def)
next
  case (3 m x v)
  then obtain w where w: "r m (get x) = Some w" "v = build x w" by (auto simp: read_fields_def)
  from deep_copier.copied [OF d w(1)] w(2) show ?case
    by (auto simp: read_fields_def reach_fields_def copy_fields_def assms(2,3))
qed

end
