(* ===== verification/Api_Memory.thy ===== *)
theory Api_Memory
  imports Go_Memory
begin

text \<open>
  The API types once more, for the functions that copy them: first the list and template types
  (\<^verbatim>\<open>vultr*template_types.go\<close> and the \<^verbatim>\<open>List\<close> types) as values, then every struct that holds a pointer
  or a slice as it lies in memory (suffix \<open>_m\<close>), with addresses for them, and the cells of the
  memory, one constructor for each type that is pointed to.

  The structs of libraries (object, list and template metadata, conditions) are of an arbitrary
  type \<open>'x\<close>, and so are the cells only they lead to. Their deep copies, and what can be read of
  them, are the parameter \<open>golib\<close>; \<open>golib_laws\<close> says that they are deep copies.
\<close>

section \<open>Lists and templates\<close>

record TypeMeta =
  tm_Kind :: string
  tm_APIVersion :: string

record ListMeta =
  lm_ResourceVersion :: string
  lm_Continue :: string

text \<open>\<^verbatim>\<open>clusterv1.ObjectMeta\<close>.\<close>

record TemplateMeta =
  tpm_Labels :: "(string \<times> string) list"
  tpm_Annotations :: "(string \<times> string) list"

text \<open>An object with its type metadata is a pair; the other theories leave the type metadata out.\<close>

record VultrMachineList =
  vml_TypeMeta :: TypeMeta
  vml_ListMeta :: ListMeta
  vml_Items :: "(TypeMeta \<times> VultrMachine) list"

record VultrMachineTemplateResource =
  vmtr_Spec :: VultrMachineSpec

record VultrMachineTemplateSpec =
  vmts_Template :: VultrMachineTemplateResource

record VultrMachineTemplate =
  vmt_TypeMeta :: TypeMeta
  vmt_meta :: ObjectMeta
  vmt_Spec :: VultrMachineTemplateSpec

record VultrMachineTemplateList =
  vmtl_TypeMeta :: TypeMeta
  vmtl_ListMeta :: ListMeta
  vmtl_Items :: "VultrMachineTemplate list"

record VultrBareMetalMachineList =
  bml_TypeMeta :: TypeMeta
  bml_ListMeta :: ListMeta
  bml_Items :: "(TypeMeta \<times> VultrBareMetalMachine) list"

record VultrBareMetalMachineTemplateResource =
  bmtr_ObjectMeta :: TemplateMeta
  bmtr_Spec :: VultrBareMetalMachineSpec

record VultrBareMetalMachineTemplateSpec =
  bmts_Template :: VultrBareMetalMachineTemplateResource

record VultrBareMetalMachineTemplate =
  bmt_TypeMeta :: TypeMeta
  bmt_meta :: ObjectMeta
  bmt_Spec :: VultrBareMetalMachineTemplateSpec

record VultrBareMetalMachineTemplateList =
  bmtl_TypeMeta :: TypeMeta
  bmtl_ListMeta :: ListMeta
  bmtl_Items :: "VultrBareMetalMachineTemplate list"

record VultrClusterList =
  vcl_TypeMeta :: TypeMeta
  vcl_ListMeta :: ListMeta
  vcl_Items :: "(TypeMeta \<times> VultrCluster) list"

record VultrClusterTemplateResource =
  vctr_Spec :: VultrClusterSpec

record VultrClusterTemplateSpec =
  vcts_Template :: VultrClusterTemplateResource

record VultrClusterTemplate =
  vct_TypeMeta :: TypeMeta
  vct_meta :: ObjectMeta
  vct_Spec :: VultrClusterTemplateSpec

record VultrClusterTemplateList =
  vctl_TypeMeta :: TypeMeta
  vctl_ListMeta :: ListMeta
  vctl_Items :: "VultrClusterTemplate list"

section \<open>Structs in memory\<close>

text \<open>A struct without pointers lies in memory as it is.\<close>

record MachineInitializationStatus =
  mis_Provisioned :: bool

record GenericInfo_m =
  gim_BalancingAlgorithm :: string
  gim_SSLRedirect :: "addr option"
  gim_StickySessions :: "addr option"
  gim_ProxyProtocol :: "addr option"
  gim_PrivateNetwork :: string
  gim_VPC :: string

record VultrLoadBalancer_m =
  lbm_ID :: string
  lbm_DateCreated :: string
  lbm_Region :: string
  lbm_Label :: string
  lbm_Status :: string
  lbm_IPV4 :: string
  lbm_IPV6 :: string
  lbm_Instances :: "addr option"
  lbm_Nodes :: int
  lbm_HealthCheck :: "addr option"
  lbm_GenericInfo :: "addr option"
  lbm_SSLInfo :: "addr option"
  lbm_ForwardingRules :: "addr option"
  lbm_FirewallRules :: "addr option"

record NetworkSpec_m =
  nsm_APIServerLoadbalancers :: VultrLoadBalancer_m

record BareMetalMachineInitializationStatus_m =
  bmi_Provisioned :: "addr option"

record ClusterInitializationStatus_m =
  cin_Provisioned :: "addr option"

record VultrMachineSpec_m =
  vmsm_ProviderID :: "addr option"
  vmsm_Snapshot :: string
  vmsm_PlanID :: string
  vmsm_Region :: string
  vmsm_SSHKey :: "addr option"
  vmsm_VPCID :: string
  vmsm_VPCOnly :: bool
  vmsm_FirewallGroupID :: string
  vmsm_VPC2ID :: string

record VultrMachineStatus_m =
  vmstm_Ready :: bool
  vmstm_CPU :: int
  vmstm_RAM :: int
  vmstm_Storage :: int
  vmstm_Initialization :: MachineInitializationStatus
  vmstm_Addresses :: "addr option"
  vmstm_SubscriptionStatus :: "addr option"
  vmstm_PowerStatus :: "addr option"
  vmstm_ServerState :: "addr option"
  vmstm_Conditions :: "addr option"

record 'x VultrMachine_m =
  vmm_TypeMeta :: TypeMeta
  vmm_meta :: "'x"
  vmm_Spec :: VultrMachineSpec_m
  vmm_Status :: VultrMachineStatus_m

record 'x VultrMachineList_m =
  vmlm_TypeMeta :: TypeMeta
  vmlm_ListMeta :: "'x"
  vmlm_Items :: "addr option"

record VultrMachineTemplateResource_m =
  vmtrm_Spec :: VultrMachineSpec_m

record VultrMachineTemplateSpec_m =
  vmtsm_Template :: VultrMachineTemplateResource_m

record 'x VultrMachineTemplate_m =
  vmtm_TypeMeta :: TypeMeta
  vmtm_meta :: "'x"
  vmtm_Spec :: VultrMachineTemplateSpec_m

record 'x VultrMachineTemplateList_m =
  vmtlm_TypeMeta :: TypeMeta
  vmtlm_ListMeta :: "'x"
  vmtlm_Items :: "addr option"

record VultrBareMetalMachineSpec_m =
  bmsm_ProviderID :: "addr option"
  bmsm_Region :: string
  bmsm_PlanID :: string
  bmsm_OSID :: int
  bmsm_SSHKey :: "addr option"
  bmsm_VPCID :: string
  bmsm_MdiskMode :: BareMetalDiskMode
  bmsm_EnableIPv6 :: "addr option"
  bmsm_AdditionalTags :: "addr option"

record VultrBareMetalMachineStatus_m =
  bmstm_Ready :: bool
  bmstm_Initialization :: BareMetalMachineInitializationStatus_m
  bmstm_Addresses :: "addr option"
  bmstm_CPU :: int
  bmstm_RAM :: string
  bmstm_Disk :: string
  bmstm_SubscriptionStatus :: "addr option"
  bmstm_VPC :: "addr option"
  bmstm_Conditions :: "addr option"

record 'x VultrBareMetalMachine_m =
  bmm_TypeMeta :: TypeMeta
  bmm_meta :: "'x"
  bmm_Spec :: VultrBareMetalMachineSpec_m
  bmm_Status :: VultrBareMetalMachineStatus_m

record 'x VultrBareMetalMachineList_m =
  bmlm_TypeMeta :: TypeMeta
  bmlm_ListMeta :: "'x"
  bmlm_Items :: "addr option"

record 'x VultrBareMetalMachineTemplateResource_m =
  bmtrm_ObjectMeta :: "'x"
  bmtrm_Spec :: VultrBareMetalMachineSpec_m

record 'x VultrBareMetalMachineTemplateSpec_m =
  bmtsm_Template :: "'x VultrBareMetalMachineTemplateResource_m"

record 'x VultrBareMetalMachineTemplate_m =
  bmtm_TypeMeta :: TypeMeta
  bmtm_meta :: "'x"
  bmtm_Spec :: "'x VultrBareMetalMachineTemplateSpec_m"

record 'x VultrBareMetalMachineTemplateList_m =
  bmtlm_TypeMeta :: TypeMeta
  bmtlm_ListMeta :: "'x"
  bmtlm_Items :: "addr option"

record VultrClusterSpec_m =
  vcsm_Region :: string
  vcsm_Network :: NetworkSpec_m
  vcsm_ControlPlaneEndpoint :: APIEndpoint
  vcsm_VPCID :: string

record VultrClusterStatus_m =
  vcstm_Ready :: bool
  vcstm_Initialization :: ClusterInitializationStatus_m
  vcstm_Conditions :: "addr option"
  vcstm_Network :: VultrNetworkResource

record 'x VultrCluster_m =
  vcm_TypeMeta :: TypeMeta
  vcm_meta :: "'x"
  vcm_Spec :: VultrClusterSpec_m
  vcm_Status :: VultrClusterStatus_m

record 'x VultrClusterList_m =
  vclm_TypeMeta :: TypeMeta
  vclm_ListMeta :: "'x"
  vclm_Items :: "addr option"

record VultrClusterTemplateResource_m =
  vctrm_Spec :: VultrClusterSpec_m

record VultrClusterTemplateSpec_m =
  vctsm_Template :: VultrClusterTemplateResource_m

record 'x VultrClusterTemplate_m =
  vctm_TypeMeta :: TypeMeta
  vctm_meta :: "'x"
  vctm_Spec :: VultrClusterTemplateSpec_m

record 'x VultrClusterTemplateList_m =
  vctlm_TypeMeta :: TypeMeta
  vctlm_ListMeta :: "'x"
  vctlm_Items :: "addr option"

section \<open>Cells\<close>

text \<open>What a pointer of a library or a slice of a basic type leads to, the plain structs, the structs with
  pointers, and the objects.\<close>

datatype flat_cell =
    CString string
  | CBool bool
  | CStrings "string list"
  | CNodeAddresses "NodeAddress list"
  | CForwardingRules "ForwardingRule list"
  | CLBFirewallRules "LBFirewallRule list"
  | CBuildTagParams BuildTagParams
  | CForwardingRule ForwardingRule
  | CHealthCheck HealthCheck
  | CLBFirewallRule LBFirewallRule
  | CMachineInitializationStatus MachineInitializationStatus
  | CStickySessions StickySessions
  | CVultrBareMetalVPCStatus VultrBareMetalVPCStatus
  | CVultrNetworkResource VultrNetworkResource
  | CVultrResourceReference VultrResourceReference

datatype api_cell =
    CGenericInfo GenericInfo_m
  | CVultrLoadBalancer VultrLoadBalancer_m
  | CNetworkSpec NetworkSpec_m
  | CBareMetalMachineInitializationStatus BareMetalMachineInitializationStatus_m
  | CClusterInitializationStatus ClusterInitializationStatus_m
  | CVultrMachineSpec VultrMachineSpec_m
  | CVultrMachineStatus VultrMachineStatus_m
  | CVultrMachineTemplateResource VultrMachineTemplateResource_m
  | CVultrMachineTemplateSpec VultrMachineTemplateSpec_m
  | CVultrBareMetalMachineSpec VultrBareMetalMachineSpec_m
  | CVultrBareMetalMachineStatus VultrBareMetalMachineStatus_m
  | CVultrClusterSpec VultrClusterSpec_m
  | CVultrClusterStatus VultrClusterStatus_m
  | CVultrClusterTemplateResource VultrClusterTemplateResource_m
  | CVultrClusterTemplateSpec VultrClusterTemplateSpec_m

datatype 'x object_cell =
    OVultrMachine "'x VultrMachine_m"
  | OVultrMachineList "'x VultrMachineList_m"
  | OVultrMachineTemplate "'x VultrMachineTemplate_m"
  | OVultrMachineTemplateList "'x VultrMachineTemplateList_m"
  | OVultrBareMetalMachine "'x VultrBareMetalMachine_m"
  | OVultrBareMetalMachineList "'x VultrBareMetalMachineList_m"
  | OVultrBareMetalMachineTemplateResource "'x VultrBareMetalMachineTemplateResource_m"
  | OVultrBareMetalMachineTemplateSpec "'x VultrBareMetalMachineTemplateSpec_m"
  | OVultrBareMetalMachineTemplate "'x VultrBareMetalMachineTemplate_m"
  | OVultrBareMetalMachineTemplateList "'x VultrBareMetalMachineTemplateList_m"
  | OVultrCluster "'x VultrCluster_m"
  | OVultrClusterList "'x VultrClusterList_m"
  | OVultrClusterTemplate "'x VultrClusterTemplate_m"
  | OVultrClusterTemplateList "'x VultrClusterTemplateList_m"
  | OVultrMachines "'x VultrMachine_m list"
  | OVultrBareMetalMachines "'x VultrBareMetalMachine_m list"
  | OVultrClusters "'x VultrCluster_m list"
  | OVultrMachineTemplates "'x VultrMachineTemplate_m list"
  | OVultrBareMetalMachineTemplates "'x VultrBareMetalMachineTemplate_m list"
  | OVultrClusterTemplates "'x VultrClusterTemplate_m list"
  | OConditions "'x list"
  | OForeign 'x

datatype 'x cell = Flat flat_cell | Api api_cell | Object "'x object_cell"

type_synonym 'x mem = "'x cell list"

text \<open>Making a cell of a value, and taking the value out again.\<close>

definition new_String :: "string \<Rightarrow> 'x cell" where
  "new_String v = Flat (CString v)"

definition as_String :: "'x cell \<Rightarrow> string option" where
  "as_String c = (case c of Flat (CString v) \<Rightarrow> Some v | _ \<Rightarrow> None)"

definition new_Bool :: "bool \<Rightarrow> 'x cell" where
  "new_Bool v = Flat (CBool v)"

definition as_Bool :: "'x cell \<Rightarrow> bool option" where
  "as_Bool c = (case c of Flat (CBool v) \<Rightarrow> Some v | _ \<Rightarrow> None)"

definition new_Strings :: "string list \<Rightarrow> 'x cell" where
  "new_Strings v = Flat (CStrings v)"

definition as_Strings :: "'x cell \<Rightarrow> (string list) option" where
  "as_Strings c = (case c of Flat (CStrings v) \<Rightarrow> Some v | _ \<Rightarrow> None)"

definition new_NodeAddresses :: "NodeAddress list \<Rightarrow> 'x cell" where
  "new_NodeAddresses v = Flat (CNodeAddresses v)"

definition as_NodeAddresses :: "'x cell \<Rightarrow> (NodeAddress list) option" where
  "as_NodeAddresses c = (case c of Flat (CNodeAddresses v) \<Rightarrow> Some v | _ \<Rightarrow> None)"

definition new_ForwardingRules :: "ForwardingRule list \<Rightarrow> 'x cell" where
  "new_ForwardingRules v = Flat (CForwardingRules v)"

definition as_ForwardingRules :: "'x cell \<Rightarrow> (ForwardingRule list) option" where
  "as_ForwardingRules c = (case c of Flat (CForwardingRules v) \<Rightarrow> Some v | _ \<Rightarrow> None)"

definition new_LBFirewallRules :: "LBFirewallRule list \<Rightarrow> 'x cell" where
  "new_LBFirewallRules v = Flat (CLBFirewallRules v)"

definition as_LBFirewallRules :: "'x cell \<Rightarrow> (LBFirewallRule list) option" where
  "as_LBFirewallRules c = (case c of Flat (CLBFirewallRules v) \<Rightarrow> Some v | _ \<Rightarrow> None)"

definition new_BuildTagParams :: "BuildTagParams \<Rightarrow> 'x cell" where
  "new_BuildTagParams v = Flat (CBuildTagParams v)"

definition as_BuildTagParams :: "'x cell \<Rightarrow> BuildTagParams option" where
  "as_BuildTagParams c = (case c of Flat (CBuildTagParams v) \<Rightarrow> Some v | _ \<Rightarrow> None)"

definition new_ForwardingRule :: "ForwardingRule \<Rightarrow> 'x cell" where
  "new_ForwardingRule v = Flat (CForwardingRule v)"

definition as_ForwardingRule :: "'x cell \<Rightarrow> ForwardingRule option" where
  "as_ForwardingRule c = (case c of Flat (CForwardingRule v) \<Rightarrow> Some v | _ \<Rightarrow> None)"

definition new_HealthCheck :: "HealthCheck \<Rightarrow> 'x cell" where
  "new_HealthCheck v = Flat (CHealthCheck v)"

definition as_HealthCheck :: "'x cell \<Rightarrow> HealthCheck option" where
  "as_HealthCheck c = (case c of Flat (CHealthCheck v) \<Rightarrow> Some v | _ \<Rightarrow> None)"

definition new_LBFirewallRule :: "LBFirewallRule \<Rightarrow> 'x cell" where
  "new_LBFirewallRule v = Flat (CLBFirewallRule v)"

definition as_LBFirewallRule :: "'x cell \<Rightarrow> LBFirewallRule option" where
  "as_LBFirewallRule c = (case c of Flat (CLBFirewallRule v) \<Rightarrow> Some v | _ \<Rightarrow> None)"

definition new_MachineInitializationStatus :: "MachineInitializationStatus \<Rightarrow> 'x cell" where
  "new_MachineInitializationStatus v = Flat (CMachineInitializationStatus v)"

definition as_MachineInitializationStatus :: "'x cell \<Rightarrow> MachineInitializationStatus option" where
  "as_MachineInitializationStatus c = (case c of Flat (CMachineInitializationStatus v) \<Rightarrow> Some v | _ \<Rightarrow> None)"

definition new_StickySessions :: "StickySessions \<Rightarrow> 'x cell" where
  "new_StickySessions v = Flat (CStickySessions v)"

definition as_StickySessions :: "'x cell \<Rightarrow> StickySessions option" where
  "as_StickySessions c = (case c of Flat (CStickySessions v) \<Rightarrow> Some v | _ \<Rightarrow> None)"

definition new_VultrBareMetalVPCStatus :: "VultrBareMetalVPCStatus \<Rightarrow> 'x cell" where
  "new_VultrBareMetalVPCStatus v = Flat (CVultrBareMetalVPCStatus v)"

definition as_VultrBareMetalVPCStatus :: "'x cell \<Rightarrow> VultrBareMetalVPCStatus option" where
  "as_VultrBareMetalVPCStatus c = (case c of Flat (CVultrBareMetalVPCStatus v) \<Rightarrow> Some v | _ \<Rightarrow> None)"

definition new_VultrNetworkResource :: "VultrNetworkResource \<Rightarrow> 'x cell" where
  "new_VultrNetworkResource v = Flat (CVultrNetworkResource v)"

definition as_VultrNetworkResource :: "'x cell \<Rightarrow> VultrNetworkResource option" where
  "as_VultrNetworkResource c = (case c of Flat (CVultrNetworkResource v) \<Rightarrow> Some v | _ \<Rightarrow> None)"

definition new_VultrResourceReference :: "VultrResourceReference \<Rightarrow> 'x cell" where
  "new_VultrResourceReference v = Flat (CVultrResourceReference v)"

definition as_VultrResourceReference :: "'x cell \<Rightarrow> VultrResourceReference option" where
  "as_VultrResourceReference c = (case c of Flat (CVultrResourceReference v) \<Rightarrow> Some v | _ \<Rightarrow> None)"

definition new_GenericInfo :: "GenericInfo_m \<Rightarrow> 'x cell" where
  "new_GenericInfo v = Api (CGenericInfo v)"

definition as_GenericInfo :: "'x cell \<Rightarrow> GenericInfo_m option" where
  "as_GenericInfo c = (case c of Api (CGenericInfo v) \<Rightarrow> Some v | _ \<Rightarrow> None)"

definition new_VultrLoadBalancer :: "VultrLoadBalancer_m \<Rightarrow> 'x cell" where
  "new_VultrLoadBalancer v = Api (CVultrLoadBalancer v)"

definition as_VultrLoadBalancer :: "'x cell \<Rightarrow> VultrLoadBalancer_m option" where
  "as_VultrLoadBalancer c = (case c of Api (CVultrLoadBalancer v) \<Rightarrow> Some v | _ \<Rightarrow> None)"

definition new_NetworkSpec :: "NetworkSpec_m \<Rightarrow> 'x cell" where
  "new_NetworkSpec v = Api (CNetworkSpec v)"

definition as_NetworkSpec :: "'x cell \<Rightarrow> NetworkSpec_m option" where
  "as_NetworkSpec c = (case c of Api (CNetworkSpec v) \<Rightarrow> Some v | _ \<Rightarrow> None)"

definition new_BareMetalMachineInitializationStatus :: "BareMetalMachineInitializationStatus_m \<Rightarrow> 'x cell" where
  "new_BareMetalMachineInitializationStatus v = Api (CBareMetalMachineInitializationStatus v)"

definition as_BareMetalMachineInitializationStatus :: "'x cell \<Rightarrow> BareMetalMachineInitializationStatus_m option" where
  "as_BareMetalMachineInitializationStatus c = (case c of Api (CBareMetalMachineInitializationStatus v) \<Rightarrow> Some v | _ \<Rightarrow> None)"

definition new_ClusterInitializationStatus :: "ClusterInitializationStatus_m \<Rightarrow> 'x cell" where
  "new_ClusterInitializationStatus v = Api (CClusterInitializationStatus v)"

definition as_ClusterInitializationStatus :: "'x cell \<Rightarrow> ClusterInitializationStatus_m option" where
  "as_ClusterInitializationStatus c = (case c of Api (CClusterInitializationStatus v) \<Rightarrow> Some v | _ \<Rightarrow> None)"

definition new_VultrMachineSpec :: "VultrMachineSpec_m \<Rightarrow> 'x cell" where
  "new_VultrMachineSpec v = Api (CVultrMachineSpec v)"

definition as_VultrMachineSpec :: "'x cell \<Rightarrow> VultrMachineSpec_m option" where
  "as_VultrMachineSpec c = (case c of Api (CVultrMachineSpec v) \<Rightarrow> Some v | _ \<Rightarrow> None)"

definition new_VultrMachineStatus :: "VultrMachineStatus_m \<Rightarrow> 'x cell" where
  "new_VultrMachineStatus v = Api (CVultrMachineStatus v)"

definition as_VultrMachineStatus :: "'x cell \<Rightarrow> VultrMachineStatus_m option" where
  "as_VultrMachineStatus c = (case c of Api (CVultrMachineStatus v) \<Rightarrow> Some v | _ \<Rightarrow> None)"

definition new_VultrMachineTemplateResource :: "VultrMachineTemplateResource_m \<Rightarrow> 'x cell" where
  "new_VultrMachineTemplateResource v = Api (CVultrMachineTemplateResource v)"

definition as_VultrMachineTemplateResource :: "'x cell \<Rightarrow> VultrMachineTemplateResource_m option" where
  "as_VultrMachineTemplateResource c = (case c of Api (CVultrMachineTemplateResource v) \<Rightarrow> Some v | _ \<Rightarrow> None)"

definition new_VultrMachineTemplateSpec :: "VultrMachineTemplateSpec_m \<Rightarrow> 'x cell" where
  "new_VultrMachineTemplateSpec v = Api (CVultrMachineTemplateSpec v)"

definition as_VultrMachineTemplateSpec :: "'x cell \<Rightarrow> VultrMachineTemplateSpec_m option" where
  "as_VultrMachineTemplateSpec c = (case c of Api (CVultrMachineTemplateSpec v) \<Rightarrow> Some v | _ \<Rightarrow> None)"

definition new_VultrBareMetalMachineSpec :: "VultrBareMetalMachineSpec_m \<Rightarrow> 'x cell" where
  "new_VultrBareMetalMachineSpec v = Api (CVultrBareMetalMachineSpec v)"

definition as_VultrBareMetalMachineSpec :: "'x cell \<Rightarrow> VultrBareMetalMachineSpec_m option" where
  "as_VultrBareMetalMachineSpec c = (case c of Api (CVultrBareMetalMachineSpec v) \<Rightarrow> Some v | _ \<Rightarrow> None)"

definition new_VultrBareMetalMachineStatus :: "VultrBareMetalMachineStatus_m \<Rightarrow> 'x cell" where
  "new_VultrBareMetalMachineStatus v = Api (CVultrBareMetalMachineStatus v)"

definition as_VultrBareMetalMachineStatus :: "'x cell \<Rightarrow> VultrBareMetalMachineStatus_m option" where
  "as_VultrBareMetalMachineStatus c = (case c of Api (CVultrBareMetalMachineStatus v) \<Rightarrow> Some v | _ \<Rightarrow> None)"

definition new_VultrClusterSpec :: "VultrClusterSpec_m \<Rightarrow> 'x cell" where
  "new_VultrClusterSpec v = Api (CVultrClusterSpec v)"

definition as_VultrClusterSpec :: "'x cell \<Rightarrow> VultrClusterSpec_m option" where
  "as_VultrClusterSpec c = (case c of Api (CVultrClusterSpec v) \<Rightarrow> Some v | _ \<Rightarrow> None)"

definition new_VultrClusterStatus :: "VultrClusterStatus_m \<Rightarrow> 'x cell" where
  "new_VultrClusterStatus v = Api (CVultrClusterStatus v)"

definition as_VultrClusterStatus :: "'x cell \<Rightarrow> VultrClusterStatus_m option" where
  "as_VultrClusterStatus c = (case c of Api (CVultrClusterStatus v) \<Rightarrow> Some v | _ \<Rightarrow> None)"

definition new_VultrClusterTemplateResource :: "VultrClusterTemplateResource_m \<Rightarrow> 'x cell" where
  "new_VultrClusterTemplateResource v = Api (CVultrClusterTemplateResource v)"

definition as_VultrClusterTemplateResource :: "'x cell \<Rightarrow> VultrClusterTemplateResource_m option" where
  "as_VultrClusterTemplateResource c = (case c of Api (CVultrClusterTemplateResource v) \<Rightarrow> Some v | _ \<Rightarrow> None)"

definition new_VultrClusterTemplateSpec :: "VultrClusterTemplateSpec_m \<Rightarrow> 'x cell" where
  "new_VultrClusterTemplateSpec v = Api (CVultrClusterTemplateSpec v)"

definition as_VultrClusterTemplateSpec :: "'x cell \<Rightarrow> VultrClusterTemplateSpec_m option" where
  "as_VultrClusterTemplateSpec c = (case c of Api (CVultrClusterTemplateSpec v) \<Rightarrow> Some v | _ \<Rightarrow> None)"

definition new_VultrMachine :: "'x VultrMachine_m \<Rightarrow> 'x cell" where
  "new_VultrMachine v = Object (OVultrMachine v)"

definition as_VultrMachine :: "'x cell \<Rightarrow> ('x VultrMachine_m) option" where
  "as_VultrMachine c = (case c of Object (OVultrMachine v) \<Rightarrow> Some v | _ \<Rightarrow> None)"

definition new_VultrMachineList :: "'x VultrMachineList_m \<Rightarrow> 'x cell" where
  "new_VultrMachineList v = Object (OVultrMachineList v)"

definition as_VultrMachineList :: "'x cell \<Rightarrow> ('x VultrMachineList_m) option" where
  "as_VultrMachineList c = (case c of Object (OVultrMachineList v) \<Rightarrow> Some v | _ \<Rightarrow> None)"

definition new_VultrMachineTemplate :: "'x VultrMachineTemplate_m \<Rightarrow> 'x cell" where
  "new_VultrMachineTemplate v = Object (OVultrMachineTemplate v)"

definition as_VultrMachineTemplate :: "'x cell \<Rightarrow> ('x VultrMachineTemplate_m) option" where
  "as_VultrMachineTemplate c = (case c of Object (OVultrMachineTemplate v) \<Rightarrow> Some v | _ \<Rightarrow> None)"

definition new_VultrMachineTemplateList :: "'x VultrMachineTemplateList_m \<Rightarrow> 'x cell" where
  "new_VultrMachineTemplateList v = Object (OVultrMachineTemplateList v)"

definition as_VultrMachineTemplateList :: "'x cell \<Rightarrow> ('x VultrMachineTemplateList_m) option" where
  "as_VultrMachineTemplateList c = (case c of Object (OVultrMachineTemplateList v) \<Rightarrow> Some v | _ \<Rightarrow> None)"

definition new_VultrBareMetalMachine :: "'x VultrBareMetalMachine_m \<Rightarrow> 'x cell" where
  "new_VultrBareMetalMachine v = Object (OVultrBareMetalMachine v)"

definition as_VultrBareMetalMachine :: "'x cell \<Rightarrow> ('x VultrBareMetalMachine_m) option" where
  "as_VultrBareMetalMachine c = (case c of Object (OVultrBareMetalMachine v) \<Rightarrow> Some v | _ \<Rightarrow> None)"

definition new_VultrBareMetalMachineList :: "'x VultrBareMetalMachineList_m \<Rightarrow> 'x cell" where
  "new_VultrBareMetalMachineList v = Object (OVultrBareMetalMachineList v)"

definition as_VultrBareMetalMachineList :: "'x cell \<Rightarrow> ('x VultrBareMetalMachineList_m) option" where
  "as_VultrBareMetalMachineList c = (case c of Object (OVultrBareMetalMachineList v) \<Rightarrow> Some v | _ \<Rightarrow> None)"

definition new_VultrBareMetalMachineTemplateResource :: "'x VultrBareMetalMachineTemplateResource_m \<Rightarrow> 'x cell" where
  "new_VultrBareMetalMachineTemplateResource v = Object (OVultrBareMetalMachineTemplateResource v)"

definition as_VultrBareMetalMachineTemplateResource :: "'x cell \<Rightarrow> ('x VultrBareMetalMachineTemplateResource_m) option" where
  "as_VultrBareMetalMachineTemplateResource c = (case c of Object (OVultrBareMetalMachineTemplateResource v) \<Rightarrow> Some v | _ \<Rightarrow> None)"

definition new_VultrBareMetalMachineTemplateSpec :: "'x VultrBareMetalMachineTemplateSpec_m \<Rightarrow> 'x cell" where
  "new_VultrBareMetalMachineTemplateSpec v = Object (OVultrBareMetalMachineTemplateSpec v)"

definition as_VultrBareMetalMachineTemplateSpec :: "'x cell \<Rightarrow> ('x VultrBareMetalMachineTemplateSpec_m) option" where
  "as_VultrBareMetalMachineTemplateSpec c = (case c of Object (OVultrBareMetalMachineTemplateSpec v) \<Rightarrow> Some v | _ \<Rightarrow> None)"

definition new_VultrBareMetalMachineTemplate :: "'x VultrBareMetalMachineTemplate_m \<Rightarrow> 'x cell" where
  "new_VultrBareMetalMachineTemplate v = Object (OVultrBareMetalMachineTemplate v)"

definition as_VultrBareMetalMachineTemplate :: "'x cell \<Rightarrow> ('x VultrBareMetalMachineTemplate_m) option" where
  "as_VultrBareMetalMachineTemplate c = (case c of Object (OVultrBareMetalMachineTemplate v) \<Rightarrow> Some v | _ \<Rightarrow> None)"

definition new_VultrBareMetalMachineTemplateList :: "'x VultrBareMetalMachineTemplateList_m \<Rightarrow> 'x cell" where
  "new_VultrBareMetalMachineTemplateList v = Object (OVultrBareMetalMachineTemplateList v)"

definition as_VultrBareMetalMachineTemplateList :: "'x cell \<Rightarrow> ('x VultrBareMetalMachineTemplateList_m) option" where
  "as_VultrBareMetalMachineTemplateList c = (case c of Object (OVultrBareMetalMachineTemplateList v) \<Rightarrow> Some v | _ \<Rightarrow> None)"

definition new_VultrCluster :: "'x VultrCluster_m \<Rightarrow> 'x cell" where
  "new_VultrCluster v = Object (OVultrCluster v)"

definition as_VultrCluster :: "'x cell \<Rightarrow> ('x VultrCluster_m) option" where
  "as_VultrCluster c = (case c of Object (OVultrCluster v) \<Rightarrow> Some v | _ \<Rightarrow> None)"

definition new_VultrClusterList :: "'x VultrClusterList_m \<Rightarrow> 'x cell" where
  "new_VultrClusterList v = Object (OVultrClusterList v)"

definition as_VultrClusterList :: "'x cell \<Rightarrow> ('x VultrClusterList_m) option" where
  "as_VultrClusterList c = (case c of Object (OVultrClusterList v) \<Rightarrow> Some v | _ \<Rightarrow> None)"

definition new_VultrClusterTemplate :: "'x VultrClusterTemplate_m \<Rightarrow> 'x cell" where
  "new_VultrClusterTemplate v = Object (OVultrClusterTemplate v)"

definition as_VultrClusterTemplate :: "'x cell \<Rightarrow> ('x VultrClusterTemplate_m) option" where
  "as_VultrClusterTemplate c = (case c of Object (OVultrClusterTemplate v) \<Rightarrow> Some v | _ \<Rightarrow> None)"

definition new_VultrClusterTemplateList :: "'x VultrClusterTemplateList_m \<Rightarrow> 'x cell" where
  "new_VultrClusterTemplateList v = Object (OVultrClusterTemplateList v)"

definition as_VultrClusterTemplateList :: "'x cell \<Rightarrow> ('x VultrClusterTemplateList_m) option" where
  "as_VultrClusterTemplateList c = (case c of Object (OVultrClusterTemplateList v) \<Rightarrow> Some v | _ \<Rightarrow> None)"

definition new_VultrMachines :: "'x VultrMachine_m list \<Rightarrow> 'x cell" where
  "new_VultrMachines v = Object (OVultrMachines v)"

definition as_VultrMachines :: "'x cell \<Rightarrow> ('x VultrMachine_m list) option" where
  "as_VultrMachines c = (case c of Object (OVultrMachines v) \<Rightarrow> Some v | _ \<Rightarrow> None)"

definition new_VultrBareMetalMachines :: "'x VultrBareMetalMachine_m list \<Rightarrow> 'x cell" where
  "new_VultrBareMetalMachines v = Object (OVultrBareMetalMachines v)"

definition as_VultrBareMetalMachines :: "'x cell \<Rightarrow> ('x VultrBareMetalMachine_m list) option" where
  "as_VultrBareMetalMachines c = (case c of Object (OVultrBareMetalMachines v) \<Rightarrow> Some v | _ \<Rightarrow> None)"

definition new_VultrClusters :: "'x VultrCluster_m list \<Rightarrow> 'x cell" where
  "new_VultrClusters v = Object (OVultrClusters v)"

definition as_VultrClusters :: "'x cell \<Rightarrow> ('x VultrCluster_m list) option" where
  "as_VultrClusters c = (case c of Object (OVultrClusters v) \<Rightarrow> Some v | _ \<Rightarrow> None)"

definition new_VultrMachineTemplates :: "'x VultrMachineTemplate_m list \<Rightarrow> 'x cell" where
  "new_VultrMachineTemplates v = Object (OVultrMachineTemplates v)"

definition as_VultrMachineTemplates :: "'x cell \<Rightarrow> ('x VultrMachineTemplate_m list) option" where
  "as_VultrMachineTemplates c = (case c of Object (OVultrMachineTemplates v) \<Rightarrow> Some v | _ \<Rightarrow> None)"

definition new_VultrBareMetalMachineTemplates :: "'x VultrBareMetalMachineTemplate_m list \<Rightarrow> 'x cell" where
  "new_VultrBareMetalMachineTemplates v = Object (OVultrBareMetalMachineTemplates v)"

definition as_VultrBareMetalMachineTemplates :: "'x cell \<Rightarrow> ('x VultrBareMetalMachineTemplate_m list) option" where
  "as_VultrBareMetalMachineTemplates c = (case c of Object (OVultrBareMetalMachineTemplates v) \<Rightarrow> Some v | _ \<Rightarrow> None)"

definition new_VultrClusterTemplates :: "'x VultrClusterTemplate_m list \<Rightarrow> 'x cell" where
  "new_VultrClusterTemplates v = Object (OVultrClusterTemplates v)"

definition as_VultrClusterTemplates :: "'x cell \<Rightarrow> ('x VultrClusterTemplate_m list) option" where
  "as_VultrClusterTemplates c = (case c of Object (OVultrClusterTemplates v) \<Rightarrow> Some v | _ \<Rightarrow> None)"

definition new_Conditions :: "'x list \<Rightarrow> 'x cell" where
  "new_Conditions v = Object (OConditions v)"

definition as_Conditions :: "'x cell \<Rightarrow> ('x list) option" where
  "as_Conditions c = (case c of Object (OConditions v) \<Rightarrow> Some v | _ \<Rightarrow> None)"

definition new_Foreign :: "'x \<Rightarrow> 'x cell" where
  "new_Foreign v = Object (OForeign v)"

definition as_Foreign :: "'x cell \<Rightarrow> 'x option" where
  "as_Foreign c = (case c of Object (OForeign v) \<Rightarrow> Some v | _ \<Rightarrow> None)"

lemma as_new [simp]:
  "as_String (new_String v0) = Some v0"
  "as_Bool (new_Bool v1) = Some v1"
  "as_Strings (new_Strings v2) = Some v2"
  "as_NodeAddresses (new_NodeAddresses v3) = Some v3"
  "as_ForwardingRules (new_ForwardingRules v4) = Some v4"
  "as_LBFirewallRules (new_LBFirewallRules v5) = Some v5"
  "as_BuildTagParams (new_BuildTagParams v6) = Some v6"
  "as_ForwardingRule (new_ForwardingRule v7) = Some v7"
  "as_HealthCheck (new_HealthCheck v8) = Some v8"
  "as_LBFirewallRule (new_LBFirewallRule v9) = Some v9"
  "as_MachineInitializationStatus (new_MachineInitializationStatus v10) = Some v10"
  "as_StickySessions (new_StickySessions v11) = Some v11"
  "as_VultrBareMetalVPCStatus (new_VultrBareMetalVPCStatus v12) = Some v12"
  "as_VultrNetworkResource (new_VultrNetworkResource v13) = Some v13"
  "as_VultrResourceReference (new_VultrResourceReference v14) = Some v14"
  "as_GenericInfo (new_GenericInfo v15) = Some v15"
  "as_VultrLoadBalancer (new_VultrLoadBalancer v16) = Some v16"
  "as_NetworkSpec (new_NetworkSpec v17) = Some v17"
  "as_BareMetalMachineInitializationStatus (new_BareMetalMachineInitializationStatus v18) = Some v18"
  "as_ClusterInitializationStatus (new_ClusterInitializationStatus v19) = Some v19"
  "as_VultrMachineSpec (new_VultrMachineSpec v20) = Some v20"
  "as_VultrMachineStatus (new_VultrMachineStatus v21) = Some v21"
  "as_VultrMachineTemplateResource (new_VultrMachineTemplateResource v22) = Some v22"
  "as_VultrMachineTemplateSpec (new_VultrMachineTemplateSpec v23) = Some v23"
  "as_VultrBareMetalMachineSpec (new_VultrBareMetalMachineSpec v24) = Some v24"
  "as_VultrBareMetalMachineStatus (new_VultrBareMetalMachineStatus v25) = Some v25"
  "as_VultrClusterSpec (new_VultrClusterSpec v26) = Some v26"
  "as_VultrClusterStatus (new_VultrClusterStatus v27) = Some v27"
  "as_VultrClusterTemplateResource (new_VultrClusterTemplateResource v28) = Some v28"
  "as_VultrClusterTemplateSpec (new_VultrClusterTemplateSpec v29) = Some v29"
  "as_VultrMachine (new_VultrMachine v30) = Some v30"
  "as_VultrMachineList (new_VultrMachineList v31) = Some v31"
  "as_VultrMachineTemplate (new_VultrMachineTemplate v32) = Some v32"
  "as_VultrMachineTemplateList (new_VultrMachineTemplateList v33) = Some v33"
  "as_VultrBareMetalMachine (new_VultrBareMetalMachine v34) = Some v34"
  "as_VultrBareMetalMachineList (new_VultrBareMetalMachineList v35) = Some v35"
  "as_VultrBareMetalMachineTemplateResource (new_VultrBareMetalMachineTemplateResource v36) = Some v36"
  "as_VultrBareMetalMachineTemplateSpec (new_VultrBareMetalMachineTemplateSpec v37) = Some v37"
  "as_VultrBareMetalMachineTemplate (new_VultrBareMetalMachineTemplate v38) = Some v38"
  "as_VultrBareMetalMachineTemplateList (new_VultrBareMetalMachineTemplateList v39) = Some v39"
  "as_VultrCluster (new_VultrCluster v40) = Some v40"
  "as_VultrClusterList (new_VultrClusterList v41) = Some v41"
  "as_VultrClusterTemplate (new_VultrClusterTemplate v42) = Some v42"
  "as_VultrClusterTemplateList (new_VultrClusterTemplateList v43) = Some v43"
  "as_VultrMachines (new_VultrMachines v44) = Some v44"
  "as_VultrBareMetalMachines (new_VultrBareMetalMachines v45) = Some v45"
  "as_VultrClusters (new_VultrClusters v46) = Some v46"
  "as_VultrMachineTemplates (new_VultrMachineTemplates v47) = Some v47"
  "as_VultrBareMetalMachineTemplates (new_VultrBareMetalMachineTemplates v48) = Some v48"
  "as_VultrClusterTemplates (new_VultrClusterTemplates v49) = Some v49"
  "as_Conditions (new_Conditions v50) = Some v50"
  "as_Foreign (new_Foreign v51) = Some v51"
  by (simp_all add: as_String_def new_String_def as_Bool_def new_Bool_def
    as_Strings_def new_Strings_def as_NodeAddresses_def new_NodeAddresses_def
    as_ForwardingRules_def new_ForwardingRules_def
    as_LBFirewallRules_def new_LBFirewallRules_def
    as_BuildTagParams_def new_BuildTagParams_def
    as_ForwardingRule_def new_ForwardingRule_def
    as_HealthCheck_def new_HealthCheck_def
    as_LBFirewallRule_def new_LBFirewallRule_def
    as_MachineInitializationStatus_def new_MachineInitializationStatus_def
    as_StickySessions_def new_StickySessions_def
    as_VultrBareMetalVPCStatus_def new_VultrBareMetalVPCStatus_def
    as_VultrNetworkResource_def new_VultrNetworkResource_def
    as_VultrResourceReference_def new_VultrResourceReference_def
    as_GenericInfo_def new_GenericInfo_def
    as_VultrLoadBalancer_def new_VultrLoadBalancer_def
    as_NetworkSpec_def new_NetworkSpec_def
    as_BareMetalMachineInitializationStatus_def new_BareMetalMachineInitializationStatus_def
    as_ClusterInitializationStatus_def new_ClusterInitializationStatus_def
    as_VultrMachineSpec_def new_VultrMachineSpec_def
    as_VultrMachineStatus_def new_VultrMachineStatus_def
    as_VultrMachineTemplateResource_def new_VultrMachineTemplateResource_def
    as_VultrMachineTemplateSpec_def new_VultrMachineTemplateSpec_def
    as_VultrBareMetalMachineSpec_def new_VultrBareMetalMachineSpec_def
    as_VultrBareMetalMachineStatus_def new_VultrBareMetalMachineStatus_def
    as_VultrClusterSpec_def new_VultrClusterSpec_def
    as_VultrClusterStatus_def new_VultrClusterStatus_def
    as_VultrClusterTemplateResource_def new_VultrClusterTemplateResource_def
    as_VultrClusterTemplateSpec_def new_VultrClusterTemplateSpec_def
    as_VultrMachine_def new_VultrMachine_def
    as_VultrMachineList_def new_VultrMachineList_def
    as_VultrMachineTemplate_def new_VultrMachineTemplate_def
    as_VultrMachineTemplateList_def new_VultrMachineTemplateList_def
    as_VultrBareMetalMachine_def new_VultrBareMetalMachine_def
    as_VultrBareMetalMachineList_def new_VultrBareMetalMachineList_def
    as_VultrBareMetalMachineTemplateResource_def new_VultrBareMetalMachineTemplateResource_def
    as_VultrBareMetalMachineTemplateSpec_def new_VultrBareMetalMachineTemplateSpec_def
    as_VultrBareMetalMachineTemplate_def new_VultrBareMetalMachineTemplate_def
    as_VultrBareMetalMachineTemplateList_def new_VultrBareMetalMachineTemplateList_def
    as_VultrCluster_def new_VultrCluster_def
    as_VultrClusterList_def new_VultrClusterList_def
    as_VultrClusterTemplate_def new_VultrClusterTemplate_def
    as_VultrClusterTemplateList_def new_VultrClusterTemplateList_def
    as_VultrMachines_def new_VultrMachines_def
    as_VultrBareMetalMachines_def new_VultrBareMetalMachines_def
    as_VultrClusters_def new_VultrClusters_def
    as_VultrMachineTemplates_def new_VultrMachineTemplates_def
    as_VultrBareMetalMachineTemplates_def new_VultrBareMetalMachineTemplates_def
    as_VultrClusterTemplates_def new_VultrClusterTemplates_def
    as_Conditions_def new_Conditions_def as_Foreign_def new_Foreign_def)

section \<open>The libraries\<close>

record 'x golib =
  ObjectMeta_DeepCopyInto :: "('x cell, 'x) copier"
  ListMeta_DeepCopyInto :: "('x cell, 'x) copier"
  Condition_DeepCopyInto :: "('x cell, 'x) copier"
  TemplateMeta_DeepCopyInto :: "('x cell, 'x) copier"
  ObjectMeta_value :: "'x mem \<Rightarrow> 'x \<Rightarrow> ObjectMeta option"
  ListMeta_value :: "'x mem \<Rightarrow> 'x \<Rightarrow> ListMeta option"
  Condition_value :: "'x mem \<Rightarrow> 'x \<Rightarrow> Condition option"
  TemplateMeta_value :: "'x mem \<Rightarrow> 'x \<Rightarrow> TemplateMeta option"
  ObjectMeta_reach :: "'x mem \<Rightarrow> 'x \<Rightarrow> addr set"
  ListMeta_reach :: "'x mem \<Rightarrow> 'x \<Rightarrow> addr set"
  Condition_reach :: "'x mem \<Rightarrow> 'x \<Rightarrow> addr set"
  TemplateMeta_reach :: "'x mem \<Rightarrow> 'x \<Rightarrow> addr set"

definition golib_laws :: "'x golib \<Rightarrow> bool" where
  "golib_laws G \<longleftrightarrow>
     deep_copier (ObjectMeta_value G) (ObjectMeta_reach G) (ObjectMeta_DeepCopyInto G) \<and>
     deep_copier (ListMeta_value G) (ListMeta_reach G) (ListMeta_DeepCopyInto G) \<and>
     deep_copier (Condition_value G) (Condition_reach G) (Condition_DeepCopyInto G) \<and>
     deep_copier (TemplateMeta_value G) (TemplateMeta_reach G) (TemplateMeta_DeepCopyInto G)"

lemma golib_copiers [copier_rules]:
  assumes "golib_laws G"
  shows "deep_copier (ObjectMeta_value G) (ObjectMeta_reach G) (ObjectMeta_DeepCopyInto G)"
    and "deep_copier (ListMeta_value G) (ListMeta_reach G) (ListMeta_DeepCopyInto G)"
    and "deep_copier (Condition_value G) (Condition_reach G) (Condition_DeepCopyInto G)"
    and "deep_copier (TemplateMeta_value G) (TemplateMeta_reach G) (TemplateMeta_DeepCopyInto G)"
  using assms by (simp_all add: golib_laws_def)

end
