(* ===== verification/Deep_Copy.thy ===== *)
theory Deep_Copy
  imports Api_Memory
begin

text \<open>
  The generated deep copies (\<^verbatim>\<open>api/v1beta2/zz_generated.deepcopy.go\<close>). \<^verbatim>\<open>DeepCopyInto\<close> of a struct starts
  from \<^verbatim>\<open>*out = *in\<close> and replaces the fields that hold pointers or slices, one after the other;
  \<^verbatim>\<open>DeepCopy\<close> copies what a pointer points to into a new cell and keeps nil, and
  \<^verbatim>\<open>DeepCopyObject\<close> gives the result as a \<^verbatim>\<open>runtime.Object\<close>, without wrapping a nil pointer.
\<close>

section \<open>Copying structs\<close>

text \<open>Structs without pointers: \<^verbatim>\<open>*out = *in\<close>.\<close>

definition BuildTagParams_DeepCopyInto :: "('x cell, BuildTagParams) copier" where
  "BuildTagParams_DeepCopyInto = copy_flat"

definition ForwardingRule_DeepCopyInto :: "('x cell, ForwardingRule) copier" where
  "ForwardingRule_DeepCopyInto = copy_flat"

definition HealthCheck_DeepCopyInto :: "('x cell, HealthCheck) copier" where
  "HealthCheck_DeepCopyInto = copy_flat"

definition LBFirewallRule_DeepCopyInto :: "('x cell, LBFirewallRule) copier" where
  "LBFirewallRule_DeepCopyInto = copy_flat"

definition MachineInitializationStatus_DeepCopyInto :: "('x cell, MachineInitializationStatus) copier" where
  "MachineInitializationStatus_DeepCopyInto = copy_flat"

definition StickySessions_DeepCopyInto :: "('x cell, StickySessions) copier" where
  "StickySessions_DeepCopyInto = copy_flat"

definition VultrBareMetalVPCStatus_DeepCopyInto :: "('x cell, VultrBareMetalVPCStatus) copier" where
  "VultrBareMetalVPCStatus_DeepCopyInto = copy_flat"

definition VultrNetworkResource_DeepCopyInto :: "('x cell, VultrNetworkResource) copier" where
  "VultrNetworkResource_DeepCopyInto = copy_flat"

definition VultrResourceReference_DeepCopyInto :: "('x cell, VultrResourceReference) copier" where
  "VultrResourceReference_DeepCopyInto = copy_flat"

text \<open>The named slice type \<^verbatim>\<open>Tags\<close>: its copy is a new array, also for a nil slice, which
  only \<^verbatim>\<open>DeepCopy\<close> keeps nil.\<close>

definition Tags_DeepCopyInto :: "addr option \<Rightarrow> 'x mem \<Rightarrow> (addr option \<times> 'x mem) option" where
  "Tags_DeepCopyInto p m = (case p of
      None \<Rightarrow> Some (Some (length m), m @ [new_Strings []])
    | Some a \<Rightarrow> copy_ptr new_Strings as_Strings (copy_list copy_flat) (Some a) m)"

definition Tags_DeepCopy :: "addr option \<Rightarrow> 'x mem \<Rightarrow> (addr option \<times> 'x mem) option" where
  "Tags_DeepCopy p m = (case p of None \<Rightarrow> Some (None, m) | Some a \<Rightarrow> Tags_DeepCopyInto (Some a) m)"

text \<open>Structs with pointers.\<close>

definition GenericInfo_DeepCopyInto :: "('x cell, GenericInfo_m) copier" where
  "GenericInfo_DeepCopyInto = copy_fields
    (\<lambda>s. (gim_SSLRedirect s, gim_StickySessions s, gim_ProxyProtocol s))
    (\<lambda>(a, b, c) s. s\<lparr>gim_SSLRedirect := a, gim_StickySessions := b, gim_ProxyProtocol := c\<rparr>)
    (copy_both (copy_ptr new_Bool as_Bool copy_flat)
     (copy_both (copy_ptr new_StickySessions as_StickySessions copy_flat)
     (copy_ptr new_Bool as_Bool copy_flat)))"

definition VultrLoadBalancer_DeepCopyInto :: "('x cell, VultrLoadBalancer_m) copier" where
  "VultrLoadBalancer_DeepCopyInto = copy_fields
    (\<lambda>s. (lbm_Instances s, lbm_HealthCheck s, lbm_GenericInfo s, lbm_SSLInfo s,
      lbm_ForwardingRules s, lbm_FirewallRules s))
    (\<lambda>(a, b, c, d, e, f) s. s\<lparr>lbm_Instances := a, lbm_HealthCheck := b, lbm_GenericInfo := c, lbm_SSLInfo := d,
      lbm_ForwardingRules := e, lbm_FirewallRules := f\<rparr>)
    (copy_both (copy_ptr new_Strings as_Strings (copy_list copy_flat))
     (copy_both (copy_ptr new_HealthCheck as_HealthCheck copy_flat)
     (copy_both (copy_ptr new_GenericInfo as_GenericInfo GenericInfo_DeepCopyInto)
     (copy_both (copy_ptr new_Bool as_Bool copy_flat)
     (copy_both (copy_ptr new_ForwardingRules as_ForwardingRules (copy_list copy_flat))
     (copy_ptr new_LBFirewallRules as_LBFirewallRules (copy_list copy_flat)))))))"

definition NetworkSpec_DeepCopyInto :: "('x cell, NetworkSpec_m) copier" where
  "NetworkSpec_DeepCopyInto = copy_fields
    nsm_APIServerLoadbalancers
    (\<lambda>a s. s\<lparr>nsm_APIServerLoadbalancers := a\<rparr>)
    VultrLoadBalancer_DeepCopyInto"

definition BareMetalMachineInitializationStatus_DeepCopyInto ::
  "('x cell, BareMetalMachineInitializationStatus_m) copier" where
  "BareMetalMachineInitializationStatus_DeepCopyInto = copy_fields
    bmi_Provisioned
    (\<lambda>a s. s\<lparr>bmi_Provisioned := a\<rparr>)
    (copy_ptr new_Bool as_Bool copy_flat)"

definition ClusterInitializationStatus_DeepCopyInto :: "('x cell, ClusterInitializationStatus_m) copier" where
  "ClusterInitializationStatus_DeepCopyInto = copy_fields
    cin_Provisioned
    (\<lambda>a s. s\<lparr>cin_Provisioned := a\<rparr>)
    (copy_ptr new_Bool as_Bool copy_flat)"

definition VultrMachineSpec_DeepCopyInto :: "('x cell, VultrMachineSpec_m) copier" where
  "VultrMachineSpec_DeepCopyInto = copy_fields
    (\<lambda>s. (vmsm_ProviderID s, vmsm_SSHKey s))
    (\<lambda>(a, b) s. s\<lparr>vmsm_ProviderID := a, vmsm_SSHKey := b\<rparr>)
    (copy_both (copy_ptr new_String as_String copy_flat)
     (copy_ptr new_Strings as_Strings (copy_list copy_flat)))"

definition VultrMachineStatus_DeepCopyInto :: "'x golib \<Rightarrow> ('x cell, VultrMachineStatus_m) copier" where
  "VultrMachineStatus_DeepCopyInto G = copy_fields
    (\<lambda>s. (vmstm_Addresses s, vmstm_SubscriptionStatus s, vmstm_PowerStatus s,
      vmstm_ServerState s, vmstm_Conditions s))
    (\<lambda>(a, b, c, d, e) s. s\<lparr>vmstm_Addresses := a, vmstm_SubscriptionStatus := b, vmstm_PowerStatus := c,
      vmstm_ServerState := d, vmstm_Conditions := e\<rparr>)
    (copy_both (copy_ptr new_NodeAddresses as_NodeAddresses (copy_list copy_flat))
     (copy_both (copy_ptr new_String as_String copy_flat)
     (copy_both (copy_ptr new_String as_String copy_flat)
     (copy_both (copy_ptr new_String as_String copy_flat)
     (copy_ptr new_Conditions as_Conditions (copy_list (Condition_DeepCopyInto G)))))))"

definition VultrMachine_DeepCopyInto :: "'x golib \<Rightarrow> ('x cell, 'x VultrMachine_m) copier" where
  "VultrMachine_DeepCopyInto G = copy_fields
    (\<lambda>s. (vmm_meta s, vmm_Spec s, vmm_Status s))
    (\<lambda>(a, b, c) s. s\<lparr>vmm_meta := a, vmm_Spec := b, vmm_Status := c\<rparr>)
    (copy_both (ObjectMeta_DeepCopyInto G)
     (copy_both VultrMachineSpec_DeepCopyInto
     (VultrMachineStatus_DeepCopyInto G)))"

definition VultrMachineList_DeepCopyInto :: "'x golib \<Rightarrow> ('x cell, 'x VultrMachineList_m) copier" where
  "VultrMachineList_DeepCopyInto G = copy_fields
    (\<lambda>s. (vmlm_ListMeta s, vmlm_Items s))
    (\<lambda>(a, b) s. s\<lparr>vmlm_ListMeta := a, vmlm_Items := b\<rparr>)
    (copy_both (ListMeta_DeepCopyInto G)
     (copy_ptr new_VultrMachines as_VultrMachines (copy_list (VultrMachine_DeepCopyInto G))))"

definition VultrMachineTemplateResource_DeepCopyInto :: "('x cell, VultrMachineTemplateResource_m) copier" where
  "VultrMachineTemplateResource_DeepCopyInto = copy_fields
    vmtrm_Spec
    (\<lambda>a s. s\<lparr>vmtrm_Spec := a\<rparr>)
    VultrMachineSpec_DeepCopyInto"

definition VultrMachineTemplateSpec_DeepCopyInto :: "('x cell, VultrMachineTemplateSpec_m) copier" where
  "VultrMachineTemplateSpec_DeepCopyInto = copy_fields
    vmtsm_Template
    (\<lambda>a s. s\<lparr>vmtsm_Template := a\<rparr>)
    VultrMachineTemplateResource_DeepCopyInto"

definition VultrMachineTemplate_DeepCopyInto ::
  "'x golib \<Rightarrow> ('x cell, 'x VultrMachineTemplate_m) copier" where
  "VultrMachineTemplate_DeepCopyInto G = copy_fields
    (\<lambda>s. (vmtm_meta s, vmtm_Spec s))
    (\<lambda>(a, b) s. s\<lparr>vmtm_meta := a, vmtm_Spec := b\<rparr>)
    (copy_both (ObjectMeta_DeepCopyInto G)
     VultrMachineTemplateSpec_DeepCopyInto)"

definition VultrMachineTemplateList_DeepCopyInto ::
  "'x golib \<Rightarrow> ('x cell, 'x VultrMachineTemplateList_m) copier" where
  "VultrMachineTemplateList_DeepCopyInto G = copy_fields
    (\<lambda>s. (vmtlm_ListMeta s, vmtlm_Items s))
    (\<lambda>(a, b) s. s\<lparr>vmtlm_ListMeta := a, vmtlm_Items := b\<rparr>)
    (copy_both (ListMeta_DeepCopyInto G)
     (copy_ptr new_VultrMachineTemplates as_VultrMachineTemplates (copy_list (VultrMachineTemplate_DeepCopyInto G))))"

definition VultrBareMetalMachineSpec_DeepCopyInto :: "('x cell, VultrBareMetalMachineSpec_m) copier" where
  "VultrBareMetalMachineSpec_DeepCopyInto = copy_fields
    (\<lambda>s. (bmsm_ProviderID s, bmsm_SSHKey s, bmsm_EnableIPv6 s, bmsm_AdditionalTags s))
    (\<lambda>(a, b, c, d) s. s\<lparr>bmsm_ProviderID := a, bmsm_SSHKey := b, bmsm_EnableIPv6 := c,
      bmsm_AdditionalTags := d\<rparr>)
    (copy_both (copy_ptr new_String as_String copy_flat)
     (copy_both (copy_ptr new_Strings as_Strings (copy_list copy_flat))
     (copy_both (copy_ptr new_Bool as_Bool copy_flat)
     (copy_ptr new_Strings as_Strings (copy_list copy_flat)))))"

definition VultrBareMetalMachineStatus_DeepCopyInto ::
  "'x golib \<Rightarrow> ('x cell, VultrBareMetalMachineStatus_m) copier" where
  "VultrBareMetalMachineStatus_DeepCopyInto G = copy_fields
    (\<lambda>s. (bmstm_Initialization s, bmstm_Addresses s, bmstm_SubscriptionStatus s, bmstm_VPC s,
      bmstm_Conditions s))
    (\<lambda>(a, b, c, d, e) s. s\<lparr>bmstm_Initialization := a, bmstm_Addresses := b, bmstm_SubscriptionStatus := c,
      bmstm_VPC := d, bmstm_Conditions := e\<rparr>)
    (copy_both BareMetalMachineInitializationStatus_DeepCopyInto
     (copy_both (copy_ptr new_NodeAddresses as_NodeAddresses (copy_list copy_flat))
     (copy_both (copy_ptr new_String as_String copy_flat)
     (copy_both (copy_ptr new_VultrBareMetalVPCStatus as_VultrBareMetalVPCStatus copy_flat)
     (copy_ptr new_Conditions as_Conditions (copy_list (Condition_DeepCopyInto G)))))))"

definition VultrBareMetalMachine_DeepCopyInto ::
  "'x golib \<Rightarrow> ('x cell, 'x VultrBareMetalMachine_m) copier" where
  "VultrBareMetalMachine_DeepCopyInto G = copy_fields
    (\<lambda>s. (bmm_meta s, bmm_Spec s, bmm_Status s))
    (\<lambda>(a, b, c) s. s\<lparr>bmm_meta := a, bmm_Spec := b, bmm_Status := c\<rparr>)
    (copy_both (ObjectMeta_DeepCopyInto G)
     (copy_both VultrBareMetalMachineSpec_DeepCopyInto
     (VultrBareMetalMachineStatus_DeepCopyInto G)))"

definition VultrBareMetalMachineList_DeepCopyInto ::
  "'x golib \<Rightarrow> ('x cell, 'x VultrBareMetalMachineList_m) copier" where
  "VultrBareMetalMachineList_DeepCopyInto G = copy_fields
    (\<lambda>s. (bmlm_ListMeta s, bmlm_Items s))
    (\<lambda>(a, b) s. s\<lparr>bmlm_ListMeta := a, bmlm_Items := b\<rparr>)
    (copy_both (ListMeta_DeepCopyInto G)
     (copy_ptr new_VultrBareMetalMachines as_VultrBareMetalMachines (copy_list (VultrBareMetalMachine_DeepCopyInto G))))"

definition VultrBareMetalMachineTemplateResource_DeepCopyInto ::
  "'x golib \<Rightarrow> ('x cell, 'x VultrBareMetalMachineTemplateResource_m) copier" where
  "VultrBareMetalMachineTemplateResource_DeepCopyInto G = copy_fields
    (\<lambda>s. (bmtrm_ObjectMeta s, bmtrm_Spec s))
    (\<lambda>(a, b) s. s\<lparr>bmtrm_ObjectMeta := a, bmtrm_Spec := b\<rparr>)
    (copy_both (TemplateMeta_DeepCopyInto G)
     VultrBareMetalMachineSpec_DeepCopyInto)"

definition VultrBareMetalMachineTemplateSpec_DeepCopyInto ::
  "'x golib \<Rightarrow> ('x cell, 'x VultrBareMetalMachineTemplateSpec_m) copier" where
  "VultrBareMetalMachineTemplateSpec_DeepCopyInto G = copy_fields
    bmtsm_Template
    (\<lambda>a s. s\<lparr>bmtsm_Template := a\<rparr>)
    (VultrBareMetalMachineTemplateResource_DeepCopyInto G)"

definition VultrBareMetalMachineTemplate_DeepCopyInto ::
  "'x golib \<Rightarrow> ('x cell, 'x VultrBareMetalMachineTemplate_m) copier" where
  "VultrBareMetalMachineTemplate_DeepCopyInto G = copy_fields
    (\<lambda>s. (bmtm_meta s, bmtm_Spec s))
    (\<lambda>(a, b) s. s\<lparr>bmtm_meta := a, bmtm_Spec := b\<rparr>)
    (copy_both (ObjectMeta_DeepCopyInto G)
     (VultrBareMetalMachineTemplateSpec_DeepCopyInto G))"

definition VultrBareMetalMachineTemplateList_DeepCopyInto ::
  "'x golib \<Rightarrow> ('x cell, 'x VultrBareMetalMachineTemplateList_m) copier" where
  "VultrBareMetalMachineTemplateList_DeepCopyInto G = copy_fields
    (\<lambda>s. (bmtlm_ListMeta s, bmtlm_Items s))
    (\<lambda>(a, b) s. s\<lparr>bmtlm_ListMeta := a, bmtlm_Items := b\<rparr>)
    (copy_both (ListMeta_DeepCopyInto G)
     (copy_ptr new_VultrBareMetalMachineTemplates as_VultrBareMetalMachineTemplates (copy_list (VultrBareMetalMachineTemplate_DeepCopyInto G))))"

definition VultrClusterSpec_DeepCopyInto :: "('x cell, VultrClusterSpec_m) copier" where
  "VultrClusterSpec_DeepCopyInto = copy_fields
    vcsm_Network
    (\<lambda>a s. s\<lparr>vcsm_Network := a\<rparr>)
    NetworkSpec_DeepCopyInto"

definition VultrClusterStatus_DeepCopyInto :: "'x golib \<Rightarrow> ('x cell, VultrClusterStatus_m) copier" where
  "VultrClusterStatus_DeepCopyInto G = copy_fields
    (\<lambda>s. (vcstm_Initialization s, vcstm_Conditions s))
    (\<lambda>(a, b) s. s\<lparr>vcstm_Initialization := a, vcstm_Conditions := b\<rparr>)
    (copy_both ClusterInitializationStatus_DeepCopyInto
     (copy_ptr new_Conditions as_Conditions (copy_list (Condition_DeepCopyInto G))))"

definition VultrCluster_DeepCopyInto :: "'x golib \<Rightarrow> ('x cell, 'x VultrCluster_m) copier" where
  "VultrCluster_DeepCopyInto G = copy_fields
    (\<lambda>s. (vcm_meta s, vcm_Spec s, vcm_Status s))
    (\<lambda>(a, b, c) s. s\<lparr>vcm_meta := a, vcm_Spec := b, vcm_Status := c\<rparr>)
    (copy_both (ObjectMeta_DeepCopyInto G)
     (copy_both VultrClusterSpec_DeepCopyInto
     (VultrClusterStatus_DeepCopyInto G)))"

definition VultrClusterList_DeepCopyInto :: "'x golib \<Rightarrow> ('x cell, 'x VultrClusterList_m) copier" where
  "VultrClusterList_DeepCopyInto G = copy_fields
    (\<lambda>s. (vclm_ListMeta s, vclm_Items s))
    (\<lambda>(a, b) s. s\<lparr>vclm_ListMeta := a, vclm_Items := b\<rparr>)
    (copy_both (ListMeta_DeepCopyInto G)
     (copy_ptr new_VultrClusters as_VultrClusters (copy_list (VultrCluster_DeepCopyInto G))))"

definition VultrClusterTemplateResource_DeepCopyInto :: "('x cell, VultrClusterTemplateResource_m) copier" where
  "VultrClusterTemplateResource_DeepCopyInto = copy_fields
    vctrm_Spec
    (\<lambda>a s. s\<lparr>vctrm_Spec := a\<rparr>)
    VultrClusterSpec_DeepCopyInto"

definition VultrClusterTemplateSpec_DeepCopyInto :: "('x cell, VultrClusterTemplateSpec_m) copier" where
  "VultrClusterTemplateSpec_DeepCopyInto = copy_fields
    vctsm_Template
    (\<lambda>a s. s\<lparr>vctsm_Template := a\<rparr>)
    VultrClusterTemplateResource_DeepCopyInto"

definition VultrClusterTemplate_DeepCopyInto ::
  "'x golib \<Rightarrow> ('x cell, 'x VultrClusterTemplate_m) copier" where
  "VultrClusterTemplate_DeepCopyInto G = copy_fields
    (\<lambda>s. (vctm_meta s, vctm_Spec s))
    (\<lambda>(a, b) s. s\<lparr>vctm_meta := a, vctm_Spec := b\<rparr>)
    (copy_both (ObjectMeta_DeepCopyInto G)
     VultrClusterTemplateSpec_DeepCopyInto)"

definition VultrClusterTemplateList_DeepCopyInto ::
  "'x golib \<Rightarrow> ('x cell, 'x VultrClusterTemplateList_m) copier" where
  "VultrClusterTemplateList_DeepCopyInto G = copy_fields
    (\<lambda>s. (vctlm_ListMeta s, vctlm_Items s))
    (\<lambda>(a, b) s. s\<lparr>vctlm_ListMeta := a, vctlm_Items := b\<rparr>)
    (copy_both (ListMeta_DeepCopyInto G)
     (copy_ptr new_VultrClusterTemplates as_VultrClusterTemplates (copy_list (VultrClusterTemplate_DeepCopyInto G))))"

section \<open>Copying what a pointer points to\<close>

definition BuildTagParams_DeepCopy :: "('x cell, addr option) copier" where
  "BuildTagParams_DeepCopy =
     copy_ptr new_BuildTagParams as_BuildTagParams BuildTagParams_DeepCopyInto"

definition ForwardingRule_DeepCopy :: "('x cell, addr option) copier" where
  "ForwardingRule_DeepCopy =
     copy_ptr new_ForwardingRule as_ForwardingRule ForwardingRule_DeepCopyInto"

definition HealthCheck_DeepCopy :: "('x cell, addr option) copier" where
  "HealthCheck_DeepCopy =
     copy_ptr new_HealthCheck as_HealthCheck HealthCheck_DeepCopyInto"

definition LBFirewallRule_DeepCopy :: "('x cell, addr option) copier" where
  "LBFirewallRule_DeepCopy =
     copy_ptr new_LBFirewallRule as_LBFirewallRule LBFirewallRule_DeepCopyInto"

definition MachineInitializationStatus_DeepCopy :: "('x cell, addr option) copier" where
  "MachineInitializationStatus_DeepCopy =
     copy_ptr new_MachineInitializationStatus as_MachineInitializationStatus MachineInitializationStatus_DeepCopyInto"

definition StickySessions_DeepCopy :: "('x cell, addr option) copier" where
  "StickySessions_DeepCopy =
     copy_ptr new_StickySessions as_StickySessions StickySessions_DeepCopyInto"

definition VultrBareMetalVPCStatus_DeepCopy :: "('x cell, addr option) copier" where
  "VultrBareMetalVPCStatus_DeepCopy =
     copy_ptr new_VultrBareMetalVPCStatus as_VultrBareMetalVPCStatus VultrBareMetalVPCStatus_DeepCopyInto"

definition VultrNetworkResource_DeepCopy :: "('x cell, addr option) copier" where
  "VultrNetworkResource_DeepCopy =
     copy_ptr new_VultrNetworkResource as_VultrNetworkResource VultrNetworkResource_DeepCopyInto"

definition VultrResourceReference_DeepCopy :: "('x cell, addr option) copier" where
  "VultrResourceReference_DeepCopy =
     copy_ptr new_VultrResourceReference as_VultrResourceReference VultrResourceReference_DeepCopyInto"

definition GenericInfo_DeepCopy :: "('x cell, addr option) copier" where
  "GenericInfo_DeepCopy =
     copy_ptr new_GenericInfo as_GenericInfo GenericInfo_DeepCopyInto"

definition VultrLoadBalancer_DeepCopy :: "('x cell, addr option) copier" where
  "VultrLoadBalancer_DeepCopy =
     copy_ptr new_VultrLoadBalancer as_VultrLoadBalancer VultrLoadBalancer_DeepCopyInto"

definition NetworkSpec_DeepCopy :: "('x cell, addr option) copier" where
  "NetworkSpec_DeepCopy =
     copy_ptr new_NetworkSpec as_NetworkSpec NetworkSpec_DeepCopyInto"

definition BareMetalMachineInitializationStatus_DeepCopy :: "('x cell, addr option) copier" where
  "BareMetalMachineInitializationStatus_DeepCopy =
     copy_ptr new_BareMetalMachineInitializationStatus as_BareMetalMachineInitializationStatus BareMetalMachineInitializationStatus_DeepCopyInto"

definition ClusterInitializationStatus_DeepCopy :: "('x cell, addr option) copier" where
  "ClusterInitializationStatus_DeepCopy =
     copy_ptr new_ClusterInitializationStatus as_ClusterInitializationStatus ClusterInitializationStatus_DeepCopyInto"

definition VultrMachineSpec_DeepCopy :: "('x cell, addr option) copier" where
  "VultrMachineSpec_DeepCopy =
     copy_ptr new_VultrMachineSpec as_VultrMachineSpec VultrMachineSpec_DeepCopyInto"

definition VultrMachineStatus_DeepCopy :: "'x golib \<Rightarrow> ('x cell, addr option) copier" where
  "VultrMachineStatus_DeepCopy G =
     copy_ptr new_VultrMachineStatus as_VultrMachineStatus (VultrMachineStatus_DeepCopyInto G)"

definition VultrMachine_DeepCopy :: "'x golib \<Rightarrow> ('x cell, addr option) copier" where
  "VultrMachine_DeepCopy G =
     copy_ptr new_VultrMachine as_VultrMachine (VultrMachine_DeepCopyInto G)"

definition VultrMachineList_DeepCopy :: "'x golib \<Rightarrow> ('x cell, addr option) copier" where
  "VultrMachineList_DeepCopy G =
     copy_ptr new_VultrMachineList as_VultrMachineList (VultrMachineList_DeepCopyInto G)"

definition VultrMachineTemplateResource_DeepCopy :: "('x cell, addr option) copier" where
  "VultrMachineTemplateResource_DeepCopy =
     copy_ptr new_VultrMachineTemplateResource as_VultrMachineTemplateResource VultrMachineTemplateResource_DeepCopyInto"

definition VultrMachineTemplateSpec_DeepCopy :: "('x cell, addr option) copier" where
  "VultrMachineTemplateSpec_DeepCopy =
     copy_ptr new_VultrMachineTemplateSpec as_VultrMachineTemplateSpec VultrMachineTemplateSpec_DeepCopyInto"

definition VultrMachineTemplate_DeepCopy :: "'x golib \<Rightarrow> ('x cell, addr option) copier" where
  "VultrMachineTemplate_DeepCopy G =
     copy_ptr new_VultrMachineTemplate as_VultrMachineTemplate (VultrMachineTemplate_DeepCopyInto G)"

definition VultrMachineTemplateList_DeepCopy :: "'x golib \<Rightarrow> ('x cell, addr option) copier" where
  "VultrMachineTemplateList_DeepCopy G =
     copy_ptr new_VultrMachineTemplateList as_VultrMachineTemplateList (VultrMachineTemplateList_DeepCopyInto G)"

definition VultrBareMetalMachineSpec_DeepCopy :: "('x cell, addr option) copier" where
  "VultrBareMetalMachineSpec_DeepCopy =
     copy_ptr new_VultrBareMetalMachineSpec as_VultrBareMetalMachineSpec VultrBareMetalMachineSpec_DeepCopyInto"

definition VultrBareMetalMachineStatus_DeepCopy :: "'x golib \<Rightarrow> ('x cell, addr option) copier" where
  "VultrBareMetalMachineStatus_DeepCopy G =
     copy_ptr new_VultrBareMetalMachineStatus as_VultrBareMetalMachineStatus (VultrBareMetalMachineStatus_DeepCopyInto G)"

definition VultrBareMetalMachine_DeepCopy :: "'x golib \<Rightarrow> ('x cell, addr option) copier" where
  "VultrBareMetalMachine_DeepCopy G =
     copy_ptr new_VultrBareMetalMachine as_VultrBareMetalMachine (VultrBareMetalMachine_DeepCopyInto G)"

definition VultrBareMetalMachineList_DeepCopy :: "'x golib \<Rightarrow> ('x cell, addr option) copier" where
  "VultrBareMetalMachineList_DeepCopy G =
     copy_ptr new_VultrBareMetalMachineList as_VultrBareMetalMachineList (VultrBareMetalMachineList_DeepCopyInto G)"

definition VultrBareMetalMachineTemplateResource_DeepCopy ::
  "'x golib \<Rightarrow> ('x cell, addr option) copier" where
  "VultrBareMetalMachineTemplateResource_DeepCopy G =
     copy_ptr new_VultrBareMetalMachineTemplateResource as_VultrBareMetalMachineTemplateResource (VultrBareMetalMachineTemplateResource_DeepCopyInto G)"

definition VultrBareMetalMachineTemplateSpec_DeepCopy ::
  "'x golib \<Rightarrow> ('x cell, addr option) copier" where
  "VultrBareMetalMachineTemplateSpec_DeepCopy G =
     copy_ptr new_VultrBareMetalMachineTemplateSpec as_VultrBareMetalMachineTemplateSpec (VultrBareMetalMachineTemplateSpec_DeepCopyInto G)"

definition VultrBareMetalMachineTemplate_DeepCopy :: "'x golib \<Rightarrow> ('x cell, addr option) copier" where
  "VultrBareMetalMachineTemplate_DeepCopy G =
     copy_ptr new_VultrBareMetalMachineTemplate as_VultrBareMetalMachineTemplate (VultrBareMetalMachineTemplate_DeepCopyInto G)"

definition VultrBareMetalMachineTemplateList_DeepCopy ::
  "'x golib \<Rightarrow> ('x cell, addr option) copier" where
  "VultrBareMetalMachineTemplateList_DeepCopy G =
     copy_ptr new_VultrBareMetalMachineTemplateList as_VultrBareMetalMachineTemplateList (VultrBareMetalMachineTemplateList_DeepCopyInto G)"

definition VultrClusterSpec_DeepCopy :: "('x cell, addr option) copier" where
  "VultrClusterSpec_DeepCopy =
     copy_ptr new_VultrClusterSpec as_VultrClusterSpec VultrClusterSpec_DeepCopyInto"

definition VultrClusterStatus_DeepCopy :: "'x golib \<Rightarrow> ('x cell, addr option) copier" where
  "VultrClusterStatus_DeepCopy G =
     copy_ptr new_VultrClusterStatus as_VultrClusterStatus (VultrClusterStatus_DeepCopyInto G)"

definition VultrCluster_DeepCopy :: "'x golib \<Rightarrow> ('x cell, addr option) copier" where
  "VultrCluster_DeepCopy G =
     copy_ptr new_VultrCluster as_VultrCluster (VultrCluster_DeepCopyInto G)"

definition VultrClusterList_DeepCopy :: "'x golib \<Rightarrow> ('x cell, addr option) copier" where
  "VultrClusterList_DeepCopy G =
     copy_ptr new_VultrClusterList as_VultrClusterList (VultrClusterList_DeepCopyInto G)"

definition VultrClusterTemplateResource_DeepCopy :: "('x cell, addr option) copier" where
  "VultrClusterTemplateResource_DeepCopy =
     copy_ptr new_VultrClusterTemplateResource as_VultrClusterTemplateResource VultrClusterTemplateResource_DeepCopyInto"

definition VultrClusterTemplateSpec_DeepCopy :: "('x cell, addr option) copier" where
  "VultrClusterTemplateSpec_DeepCopy =
     copy_ptr new_VultrClusterTemplateSpec as_VultrClusterTemplateSpec VultrClusterTemplateSpec_DeepCopyInto"

definition VultrClusterTemplate_DeepCopy :: "'x golib \<Rightarrow> ('x cell, addr option) copier" where
  "VultrClusterTemplate_DeepCopy G =
     copy_ptr new_VultrClusterTemplate as_VultrClusterTemplate (VultrClusterTemplate_DeepCopyInto G)"

definition VultrClusterTemplateList_DeepCopy :: "'x golib \<Rightarrow> ('x cell, addr option) copier" where
  "VultrClusterTemplateList_DeepCopy G =
     copy_ptr new_VultrClusterTemplateList as_VultrClusterTemplateList (VultrClusterTemplateList_DeepCopyInto G)"

text \<open>\<^verbatim>\<open>runtime.Object\<close>: a pointer to one of the registered types.\<close>

datatype runtime_object =
    ObjVultrBareMetalMachine addr
  | ObjVultrBareMetalMachineList addr
  | ObjVultrBareMetalMachineTemplate addr
  | ObjVultrBareMetalMachineTemplateList addr
  | ObjVultrCluster addr
  | ObjVultrClusterList addr
  | ObjVultrClusterTemplate addr
  | ObjVultrClusterTemplateList addr
  | ObjVultrMachine addr
  | ObjVultrMachineList addr
  | ObjVultrMachineTemplate addr
  | ObjVultrMachineTemplateList addr

definition as_object ::
  "(addr \<Rightarrow> runtime_object) \<Rightarrow> (addr option \<times> 'x mem) option \<Rightarrow> (runtime_object option \<times> 'x mem) option" where
  "as_object wrap c = (case c of
      None \<Rightarrow> None
    | Some (p, m) \<Rightarrow> (case p of Some a \<Rightarrow> Some (Some (wrap a), m) | None \<Rightarrow> Some (None, m)))"

definition VultrBareMetalMachine_DeepCopyObject ::
  "'x golib \<Rightarrow> addr option \<Rightarrow> 'x mem \<Rightarrow> (runtime_object option \<times> 'x mem) option" where
  "VultrBareMetalMachine_DeepCopyObject G p m = as_object ObjVultrBareMetalMachine (VultrBareMetalMachine_DeepCopy G p m)"

definition VultrBareMetalMachineList_DeepCopyObject ::
  "'x golib \<Rightarrow> addr option \<Rightarrow> 'x mem \<Rightarrow> (runtime_object option \<times> 'x mem) option" where
  "VultrBareMetalMachineList_DeepCopyObject G p m = as_object ObjVultrBareMetalMachineList (VultrBareMetalMachineList_DeepCopy G p m)"

definition VultrBareMetalMachineTemplate_DeepCopyObject ::
  "'x golib \<Rightarrow> addr option \<Rightarrow> 'x mem \<Rightarrow> (runtime_object option \<times> 'x mem) option" where
  "VultrBareMetalMachineTemplate_DeepCopyObject G p m = as_object ObjVultrBareMetalMachineTemplate (VultrBareMetalMachineTemplate_DeepCopy G p m)"

definition VultrBareMetalMachineTemplateList_DeepCopyObject ::
  "'x golib \<Rightarrow> addr option \<Rightarrow> 'x mem \<Rightarrow> (runtime_object option \<times> 'x mem) option" where
  "VultrBareMetalMachineTemplateList_DeepCopyObject G p m = as_object ObjVultrBareMetalMachineTemplateList (VultrBareMetalMachineTemplateList_DeepCopy G p m)"

definition VultrCluster_DeepCopyObject ::
  "'x golib \<Rightarrow> addr option \<Rightarrow> 'x mem \<Rightarrow> (runtime_object option \<times> 'x mem) option" where
  "VultrCluster_DeepCopyObject G p m = as_object ObjVultrCluster (VultrCluster_DeepCopy G p m)"

definition VultrClusterList_DeepCopyObject ::
  "'x golib \<Rightarrow> addr option \<Rightarrow> 'x mem \<Rightarrow> (runtime_object option \<times> 'x mem) option" where
  "VultrClusterList_DeepCopyObject G p m = as_object ObjVultrClusterList (VultrClusterList_DeepCopy G p m)"

definition VultrClusterTemplate_DeepCopyObject ::
  "'x golib \<Rightarrow> addr option \<Rightarrow> 'x mem \<Rightarrow> (runtime_object option \<times> 'x mem) option" where
  "VultrClusterTemplate_DeepCopyObject G p m = as_object ObjVultrClusterTemplate (VultrClusterTemplate_DeepCopy G p m)"

definition VultrClusterTemplateList_DeepCopyObject ::
  "'x golib \<Rightarrow> addr option \<Rightarrow> 'x mem \<Rightarrow> (runtime_object option \<times> 'x mem) option" where
  "VultrClusterTemplateList_DeepCopyObject G p m = as_object ObjVultrClusterTemplateList (VultrClusterTemplateList_DeepCopy G p m)"

definition VultrMachine_DeepCopyObject ::
  "'x golib \<Rightarrow> addr option \<Rightarrow> 'x mem \<Rightarrow> (runtime_object option \<times> 'x mem) option" where
  "VultrMachine_DeepCopyObject G p m = as_object ObjVultrMachine (VultrMachine_DeepCopy G p m)"

definition VultrMachineList_DeepCopyObject ::
  "'x golib \<Rightarrow> addr option \<Rightarrow> 'x mem \<Rightarrow> (runtime_object option \<times> 'x mem) option" where
  "VultrMachineList_DeepCopyObject G p m = as_object ObjVultrMachineList (VultrMachineList_DeepCopy G p m)"

definition VultrMachineTemplate_DeepCopyObject ::
  "'x golib \<Rightarrow> addr option \<Rightarrow> 'x mem \<Rightarrow> (runtime_object option \<times> 'x mem) option" where
  "VultrMachineTemplate_DeepCopyObject G p m = as_object ObjVultrMachineTemplate (VultrMachineTemplate_DeepCopy G p m)"

definition VultrMachineTemplateList_DeepCopyObject ::
  "'x golib \<Rightarrow> addr option \<Rightarrow> 'x mem \<Rightarrow> (runtime_object option \<times> 'x mem) option" where
  "VultrMachineTemplateList_DeepCopyObject G p m = as_object ObjVultrMachineTemplateList (VultrMachineTemplateList_DeepCopy G p m)"

end
