(* ===== verification/Deep_Copy_Safety.thy ===== *)
theory Deep_Copy_Safety
  imports Deep_Copy
begin

text \<open>
  The generated deep copies are deep. The functions \<open>value\<close> and \<open>reach\<close> of a type are the
  specification: what lies at a place, as the value the other theories work with, and which
  addresses it leads to. Every copier is a \<open>deep_copier\<close>: the copy has the same value, everything it
  leads to is new, and what was there stays as it was. So the object a controller changes and the
  copy the libraries keep of it (for the patch at the end of a reconcile) never share memory,
  and a model in which objects are values loses nothing.
\<close>

section \<open>What lies in memory\<close>

definition GenericInfo_value ::
  "'x mem \<Rightarrow> GenericInfo_m \<Rightarrow> GenericInfo option" where
  "GenericInfo_value = read_fields
    (\<lambda>s. (gim_SSLRedirect s, gim_StickySessions s, gim_ProxyProtocol s))
    (\<lambda>s (a, b, c). \<lparr>gi_BalancingAlgorithm = gim_BalancingAlgorithm s, gi_SSLRedirect = a,
      gi_StickySessions = b, gi_ProxyProtocol = c,
      gi_PrivateNetwork = gim_PrivateNetwork s, gi_VPC = gim_VPC s\<rparr>)
    (read_both (read_ptr as_Bool read_flat)
     (read_both (read_ptr as_StickySessions read_flat)
     (read_ptr as_Bool read_flat)))"

definition GenericInfo_reach ::
  "'x mem \<Rightarrow> GenericInfo_m \<Rightarrow> addr set" where
  "GenericInfo_reach = reach_fields
    (\<lambda>s. (gim_SSLRedirect s, gim_StickySessions s, gim_ProxyProtocol s))
    (reach_both (reach_ptr as_Bool reach_flat)
     (reach_both (reach_ptr as_StickySessions reach_flat)
     (reach_ptr as_Bool reach_flat)))"

definition VultrLoadBalancer_value ::
  "'x mem \<Rightarrow> VultrLoadBalancer_m \<Rightarrow> VultrLoadBalancer option" where
  "VultrLoadBalancer_value = read_fields
    (\<lambda>s. (lbm_Instances s, lbm_HealthCheck s, lbm_GenericInfo s, lbm_SSLInfo s,
      lbm_ForwardingRules s, lbm_FirewallRules s))
    (\<lambda>s (a, b, c, d, e, f). \<lparr>lb_ID = lbm_ID s, lb_DateCreated = lbm_DateCreated s, lb_Region = lbm_Region s,
      lb_Label = lbm_Label s, lb_Status = lbm_Status s, lb_IPV4 = lbm_IPV4 s,
      lb_IPV6 = lbm_IPV6 s, lb_Instances = a, lb_Nodes = lbm_Nodes s, lb_HealthCheck = b,
      lb_GenericInfo = c, lb_SSLInfo = d, lb_ForwardingRules = e, lb_FirewallRules = f\<rparr>)
    (read_both (read_slice as_Strings read_flat)
     (read_both (read_ptr as_HealthCheck read_flat)
     (read_both (read_ptr as_GenericInfo GenericInfo_value)
     (read_both (read_ptr as_Bool read_flat)
     (read_both (read_slice as_ForwardingRules read_flat)
     (read_slice as_LBFirewallRules read_flat))))))"

definition VultrLoadBalancer_reach ::
  "'x mem \<Rightarrow> VultrLoadBalancer_m \<Rightarrow> addr set" where
  "VultrLoadBalancer_reach = reach_fields
    (\<lambda>s. (lbm_Instances s, lbm_HealthCheck s, lbm_GenericInfo s, lbm_SSLInfo s,
      lbm_ForwardingRules s, lbm_FirewallRules s))
    (reach_both (reach_ptr as_Strings (reach_list reach_flat))
     (reach_both (reach_ptr as_HealthCheck reach_flat)
     (reach_both (reach_ptr as_GenericInfo GenericInfo_reach)
     (reach_both (reach_ptr as_Bool reach_flat)
     (reach_both (reach_ptr as_ForwardingRules (reach_list reach_flat))
     (reach_ptr as_LBFirewallRules (reach_list reach_flat)))))))"

definition NetworkSpec_value ::
  "'x mem \<Rightarrow> NetworkSpec_m \<Rightarrow> NetworkSpec option" where
  "NetworkSpec_value = read_fields
    nsm_APIServerLoadbalancers
    (\<lambda>s a. \<lparr>ns_APIServerLoadbalancers = a\<rparr>)
    VultrLoadBalancer_value"

definition NetworkSpec_reach ::
  "'x mem \<Rightarrow> NetworkSpec_m \<Rightarrow> addr set" where
  "NetworkSpec_reach = reach_fields
    nsm_APIServerLoadbalancers
    VultrLoadBalancer_reach"

definition BareMetalMachineInitializationStatus_value ::
  "'x mem \<Rightarrow> BareMetalMachineInitializationStatus_m \<Rightarrow> bool option option" where
  "BareMetalMachineInitializationStatus_value = read_fields
    bmi_Provisioned
    (\<lambda>s a. a)
    (read_ptr as_Bool read_flat)"

definition BareMetalMachineInitializationStatus_reach ::
  "'x mem \<Rightarrow> BareMetalMachineInitializationStatus_m \<Rightarrow> addr set" where
  "BareMetalMachineInitializationStatus_reach = reach_fields
    bmi_Provisioned
    (reach_ptr as_Bool reach_flat)"

definition ClusterInitializationStatus_value ::
  "'x mem \<Rightarrow> ClusterInitializationStatus_m \<Rightarrow> bool option option" where
  "ClusterInitializationStatus_value = read_fields
    cin_Provisioned
    (\<lambda>s a. a)
    (read_ptr as_Bool read_flat)"

definition ClusterInitializationStatus_reach ::
  "'x mem \<Rightarrow> ClusterInitializationStatus_m \<Rightarrow> addr set" where
  "ClusterInitializationStatus_reach = reach_fields
    cin_Provisioned
    (reach_ptr as_Bool reach_flat)"

definition VultrMachineSpec_value ::
  "'x mem \<Rightarrow> VultrMachineSpec_m \<Rightarrow> VultrMachineSpec option" where
  "VultrMachineSpec_value = read_fields
    (\<lambda>s. (vmsm_ProviderID s, vmsm_SSHKey s))
    (\<lambda>s (a, b). \<lparr>vms_ProviderID = a, vms_Snapshot = vmsm_Snapshot s, vms_PlanID = vmsm_PlanID s,
      vms_Region = vmsm_Region s, vms_SSHKey = b, vms_VPCID = vmsm_VPCID s,
      vms_VPCOnly = vmsm_VPCOnly s, vms_FirewallGroupID = vmsm_FirewallGroupID s,
      vms_VPC2ID = vmsm_VPC2ID s\<rparr>)
    (read_both (read_ptr as_String read_flat)
     (read_slice as_Strings read_flat))"

definition VultrMachineSpec_reach ::
  "'x mem \<Rightarrow> VultrMachineSpec_m \<Rightarrow> addr set" where
  "VultrMachineSpec_reach = reach_fields
    (\<lambda>s. (vmsm_ProviderID s, vmsm_SSHKey s))
    (reach_both (reach_ptr as_String reach_flat)
     (reach_ptr as_Strings (reach_list reach_flat)))"

definition VultrMachineStatus_value ::
  "'x golib \<Rightarrow> 'x mem \<Rightarrow> VultrMachineStatus_m \<Rightarrow> VultrMachineStatus option" where
  "VultrMachineStatus_value G = read_fields
    (\<lambda>s. (vmstm_Addresses s, vmstm_SubscriptionStatus s, vmstm_PowerStatus s,
      vmstm_ServerState s, vmstm_Conditions s))
    (\<lambda>s (a, b, c, d, e). \<lparr>vmst_Ready = vmstm_Ready s, vmst_CPU = vmstm_CPU s, vmst_RAM = vmstm_RAM s,
      vmst_Storage = vmstm_Storage s,
      vmst_Provisioned = mis_Provisioned (vmstm_Initialization s), vmst_Addresses = a,
      vmst_SubscriptionStatus = b, vmst_PowerStatus = c, vmst_ServerState = d,
      vmst_Conditions = e\<rparr>)
    (read_both (read_slice as_NodeAddresses read_flat)
     (read_both (read_ptr as_String read_flat)
     (read_both (read_ptr as_String read_flat)
     (read_both (read_ptr as_String read_flat)
     (read_slice as_Conditions (Condition_value G))))))"

definition VultrMachineStatus_reach ::
  "'x golib \<Rightarrow> 'x mem \<Rightarrow> VultrMachineStatus_m \<Rightarrow> addr set" where
  "VultrMachineStatus_reach G = reach_fields
    (\<lambda>s. (vmstm_Addresses s, vmstm_SubscriptionStatus s, vmstm_PowerStatus s,
      vmstm_ServerState s, vmstm_Conditions s))
    (reach_both (reach_ptr as_NodeAddresses (reach_list reach_flat))
     (reach_both (reach_ptr as_String reach_flat)
     (reach_both (reach_ptr as_String reach_flat)
     (reach_both (reach_ptr as_String reach_flat)
     (reach_ptr as_Conditions (reach_list (Condition_reach G)))))))"

definition VultrMachine_value ::
  "'x golib \<Rightarrow> 'x mem \<Rightarrow> 'x VultrMachine_m \<Rightarrow> (TypeMeta \<times> VultrMachine) option" where
  "VultrMachine_value G = read_fields
    (\<lambda>s. (vmm_meta s, vmm_Spec s, vmm_Status s))
    (\<lambda>s (a, b, c). (vmm_TypeMeta s, \<lparr>vm_meta = a, vm_Spec = b, vm_Status = c\<rparr>))
    (read_both (ObjectMeta_value G)
     (read_both VultrMachineSpec_value
     (VultrMachineStatus_value G)))"

definition VultrMachine_reach ::
  "'x golib \<Rightarrow> 'x mem \<Rightarrow> 'x VultrMachine_m \<Rightarrow> addr set" where
  "VultrMachine_reach G = reach_fields
    (\<lambda>s. (vmm_meta s, vmm_Spec s, vmm_Status s))
    (reach_both (ObjectMeta_reach G)
     (reach_both VultrMachineSpec_reach
     (VultrMachineStatus_reach G)))"

definition VultrMachineList_value ::
  "'x golib \<Rightarrow> 'x mem \<Rightarrow> 'x VultrMachineList_m \<Rightarrow> VultrMachineList option" where
  "VultrMachineList_value G = read_fields
    (\<lambda>s. (vmlm_ListMeta s, vmlm_Items s))
    (\<lambda>s (a, b). \<lparr>vml_TypeMeta = vmlm_TypeMeta s, vml_ListMeta = a, vml_Items = b\<rparr>)
    (read_both (ListMeta_value G)
     (read_slice as_VultrMachines (VultrMachine_value G)))"

definition VultrMachineList_reach ::
  "'x golib \<Rightarrow> 'x mem \<Rightarrow> 'x VultrMachineList_m \<Rightarrow> addr set" where
  "VultrMachineList_reach G = reach_fields
    (\<lambda>s. (vmlm_ListMeta s, vmlm_Items s))
    (reach_both (ListMeta_reach G)
     (reach_ptr as_VultrMachines (reach_list (VultrMachine_reach G))))"

definition VultrMachineTemplateResource_value ::
  "'x mem \<Rightarrow> VultrMachineTemplateResource_m \<Rightarrow> VultrMachineTemplateResource option" where
  "VultrMachineTemplateResource_value = read_fields
    vmtrm_Spec
    (\<lambda>s a. \<lparr>vmtr_Spec = a\<rparr>)
    VultrMachineSpec_value"

definition VultrMachineTemplateResource_reach ::
  "'x mem \<Rightarrow> VultrMachineTemplateResource_m \<Rightarrow> addr set" where
  "VultrMachineTemplateResource_reach = reach_fields
    vmtrm_Spec
    VultrMachineSpec_reach"

definition VultrMachineTemplateSpec_value ::
  "'x mem \<Rightarrow> VultrMachineTemplateSpec_m \<Rightarrow> VultrMachineTemplateSpec option" where
  "VultrMachineTemplateSpec_value = read_fields
    vmtsm_Template
    (\<lambda>s a. \<lparr>vmts_Template = a\<rparr>)
    VultrMachineTemplateResource_value"

definition VultrMachineTemplateSpec_reach ::
  "'x mem \<Rightarrow> VultrMachineTemplateSpec_m \<Rightarrow> addr set" where
  "VultrMachineTemplateSpec_reach = reach_fields
    vmtsm_Template
    VultrMachineTemplateResource_reach"

definition VultrMachineTemplate_value ::
  "'x golib \<Rightarrow> 'x mem \<Rightarrow> 'x VultrMachineTemplate_m \<Rightarrow> VultrMachineTemplate option" where
  "VultrMachineTemplate_value G = read_fields
    (\<lambda>s. (vmtm_meta s, vmtm_Spec s))
    (\<lambda>s (a, b). \<lparr>vmt_TypeMeta = vmtm_TypeMeta s, vmt_meta = a, vmt_Spec = b\<rparr>)
    (read_both (ObjectMeta_value G)
     VultrMachineTemplateSpec_value)"

definition VultrMachineTemplate_reach ::
  "'x golib \<Rightarrow> 'x mem \<Rightarrow> 'x VultrMachineTemplate_m \<Rightarrow> addr set" where
  "VultrMachineTemplate_reach G = reach_fields
    (\<lambda>s. (vmtm_meta s, vmtm_Spec s))
    (reach_both (ObjectMeta_reach G)
     VultrMachineTemplateSpec_reach)"

definition VultrMachineTemplateList_value ::
  "'x golib \<Rightarrow> 'x mem \<Rightarrow> 'x VultrMachineTemplateList_m \<Rightarrow> VultrMachineTemplateList option" where
  "VultrMachineTemplateList_value G = read_fields
    (\<lambda>s. (vmtlm_ListMeta s, vmtlm_Items s))
    (\<lambda>s (a, b). \<lparr>vmtl_TypeMeta = vmtlm_TypeMeta s, vmtl_ListMeta = a, vmtl_Items = b\<rparr>)
    (read_both (ListMeta_value G)
     (read_slice as_VultrMachineTemplates (VultrMachineTemplate_value G)))"

definition VultrMachineTemplateList_reach ::
  "'x golib \<Rightarrow> 'x mem \<Rightarrow> 'x VultrMachineTemplateList_m \<Rightarrow> addr set" where
  "VultrMachineTemplateList_reach G = reach_fields
    (\<lambda>s. (vmtlm_ListMeta s, vmtlm_Items s))
    (reach_both (ListMeta_reach G)
     (reach_ptr as_VultrMachineTemplates (reach_list (VultrMachineTemplate_reach G))))"

definition VultrBareMetalMachineSpec_value ::
  "'x mem \<Rightarrow> VultrBareMetalMachineSpec_m \<Rightarrow> VultrBareMetalMachineSpec option" where
  "VultrBareMetalMachineSpec_value = read_fields
    (\<lambda>s. (bmsm_ProviderID s, bmsm_SSHKey s, bmsm_EnableIPv6 s, bmsm_AdditionalTags s))
    (\<lambda>s (a, b, c, d). \<lparr>bms_ProviderID = a, bms_Region = bmsm_Region s, bms_PlanID = bmsm_PlanID s,
      bms_OSID = bmsm_OSID s, bms_SSHKey = b, bms_VPCID = bmsm_VPCID s,
      bms_MdiskMode = bmsm_MdiskMode s, bms_EnableIPv6 = c, bms_AdditionalTags = d\<rparr>)
    (read_both (read_ptr as_String read_flat)
     (read_both (read_slice as_Strings read_flat)
     (read_both (read_ptr as_Bool read_flat)
     (read_slice as_Strings read_flat))))"

definition VultrBareMetalMachineSpec_reach ::
  "'x mem \<Rightarrow> VultrBareMetalMachineSpec_m \<Rightarrow> addr set" where
  "VultrBareMetalMachineSpec_reach = reach_fields
    (\<lambda>s. (bmsm_ProviderID s, bmsm_SSHKey s, bmsm_EnableIPv6 s, bmsm_AdditionalTags s))
    (reach_both (reach_ptr as_String reach_flat)
     (reach_both (reach_ptr as_Strings (reach_list reach_flat))
     (reach_both (reach_ptr as_Bool reach_flat)
     (reach_ptr as_Strings (reach_list reach_flat)))))"

definition VultrBareMetalMachineStatus_value ::
  "'x golib \<Rightarrow> 'x mem \<Rightarrow> VultrBareMetalMachineStatus_m \<Rightarrow> VultrBareMetalMachineStatus option" where
  "VultrBareMetalMachineStatus_value G = read_fields
    (\<lambda>s. (bmstm_Initialization s, bmstm_Addresses s, bmstm_SubscriptionStatus s, bmstm_VPC s,
      bmstm_Conditions s))
    (\<lambda>s (a, b, c, d, e). \<lparr>bmst_Ready = bmstm_Ready s, bmst_Provisioned = a, bmst_Addresses = b,
      bmst_CPU = bmstm_CPU s, bmst_RAM = bmstm_RAM s, bmst_Disk = bmstm_Disk s,
      bmst_SubscriptionStatus = c, bmst_VPC = d, bmst_Conditions = e\<rparr>)
    (read_both BareMetalMachineInitializationStatus_value
     (read_both (read_slice as_NodeAddresses read_flat)
     (read_both (read_ptr as_String read_flat)
     (read_both (read_ptr as_VultrBareMetalVPCStatus read_flat)
     (read_slice as_Conditions (Condition_value G))))))"

definition VultrBareMetalMachineStatus_reach ::
  "'x golib \<Rightarrow> 'x mem \<Rightarrow> VultrBareMetalMachineStatus_m \<Rightarrow> addr set" where
  "VultrBareMetalMachineStatus_reach G = reach_fields
    (\<lambda>s. (bmstm_Initialization s, bmstm_Addresses s, bmstm_SubscriptionStatus s, bmstm_VPC s,
      bmstm_Conditions s))
    (reach_both BareMetalMachineInitializationStatus_reach
     (reach_both (reach_ptr as_NodeAddresses (reach_list reach_flat))
     (reach_both (reach_ptr as_String reach_flat)
     (reach_both (reach_ptr as_VultrBareMetalVPCStatus reach_flat)
     (reach_ptr as_Conditions (reach_list (Condition_reach G)))))))"

definition VultrBareMetalMachine_value ::
  "'x golib \<Rightarrow> 'x mem \<Rightarrow> 'x VultrBareMetalMachine_m \<Rightarrow> (TypeMeta \<times> VultrBareMetalMachine) option" where
  "VultrBareMetalMachine_value G = read_fields
    (\<lambda>s. (bmm_meta s, bmm_Spec s, bmm_Status s))
    (\<lambda>s (a, b, c). (bmm_TypeMeta s, \<lparr>bm_meta = a, bm_Spec = b, bm_Status = c\<rparr>))
    (read_both (ObjectMeta_value G)
     (read_both VultrBareMetalMachineSpec_value
     (VultrBareMetalMachineStatus_value G)))"

definition VultrBareMetalMachine_reach ::
  "'x golib \<Rightarrow> 'x mem \<Rightarrow> 'x VultrBareMetalMachine_m \<Rightarrow> addr set" where
  "VultrBareMetalMachine_reach G = reach_fields
    (\<lambda>s. (bmm_meta s, bmm_Spec s, bmm_Status s))
    (reach_both (ObjectMeta_reach G)
     (reach_both VultrBareMetalMachineSpec_reach
     (VultrBareMetalMachineStatus_reach G)))"

definition VultrBareMetalMachineList_value ::
  "'x golib \<Rightarrow> 'x mem \<Rightarrow> 'x VultrBareMetalMachineList_m \<Rightarrow> VultrBareMetalMachineList option" where
  "VultrBareMetalMachineList_value G = read_fields
    (\<lambda>s. (bmlm_ListMeta s, bmlm_Items s))
    (\<lambda>s (a, b). \<lparr>bml_TypeMeta = bmlm_TypeMeta s, bml_ListMeta = a, bml_Items = b\<rparr>)
    (read_both (ListMeta_value G)
     (read_slice as_VultrBareMetalMachines (VultrBareMetalMachine_value G)))"

definition VultrBareMetalMachineList_reach ::
  "'x golib \<Rightarrow> 'x mem \<Rightarrow> 'x VultrBareMetalMachineList_m \<Rightarrow> addr set" where
  "VultrBareMetalMachineList_reach G = reach_fields
    (\<lambda>s. (bmlm_ListMeta s, bmlm_Items s))
    (reach_both (ListMeta_reach G)
     (reach_ptr as_VultrBareMetalMachines (reach_list (VultrBareMetalMachine_reach G))))"

definition VultrBareMetalMachineTemplateResource_value ::
  "'x golib \<Rightarrow> 'x mem \<Rightarrow> 'x VultrBareMetalMachineTemplateResource_m \<Rightarrow> VultrBareMetalMachineTemplateResource option" where
  "VultrBareMetalMachineTemplateResource_value G = read_fields
    (\<lambda>s. (bmtrm_ObjectMeta s, bmtrm_Spec s))
    (\<lambda>s (a, b). \<lparr>bmtr_ObjectMeta = a, bmtr_Spec = b\<rparr>)
    (read_both (TemplateMeta_value G)
     VultrBareMetalMachineSpec_value)"

definition VultrBareMetalMachineTemplateResource_reach ::
  "'x golib \<Rightarrow> 'x mem \<Rightarrow> 'x VultrBareMetalMachineTemplateResource_m \<Rightarrow> addr set" where
  "VultrBareMetalMachineTemplateResource_reach G = reach_fields
    (\<lambda>s. (bmtrm_ObjectMeta s, bmtrm_Spec s))
    (reach_both (TemplateMeta_reach G)
     VultrBareMetalMachineSpec_reach)"

definition VultrBareMetalMachineTemplateSpec_value ::
  "'x golib \<Rightarrow> 'x mem \<Rightarrow> 'x VultrBareMetalMachineTemplateSpec_m \<Rightarrow> VultrBareMetalMachineTemplateSpec option" where
  "VultrBareMetalMachineTemplateSpec_value G = read_fields
    bmtsm_Template
    (\<lambda>s a. \<lparr>bmts_Template = a\<rparr>)
    (VultrBareMetalMachineTemplateResource_value G)"

definition VultrBareMetalMachineTemplateSpec_reach ::
  "'x golib \<Rightarrow> 'x mem \<Rightarrow> 'x VultrBareMetalMachineTemplateSpec_m \<Rightarrow> addr set" where
  "VultrBareMetalMachineTemplateSpec_reach G = reach_fields
    bmtsm_Template
    (VultrBareMetalMachineTemplateResource_reach G)"

definition VultrBareMetalMachineTemplate_value ::
  "'x golib \<Rightarrow> 'x mem \<Rightarrow> 'x VultrBareMetalMachineTemplate_m \<Rightarrow> VultrBareMetalMachineTemplate option" where
  "VultrBareMetalMachineTemplate_value G = read_fields
    (\<lambda>s. (bmtm_meta s, bmtm_Spec s))
    (\<lambda>s (a, b). \<lparr>bmt_TypeMeta = bmtm_TypeMeta s, bmt_meta = a, bmt_Spec = b\<rparr>)
    (read_both (ObjectMeta_value G)
     (VultrBareMetalMachineTemplateSpec_value G))"

definition VultrBareMetalMachineTemplate_reach ::
  "'x golib \<Rightarrow> 'x mem \<Rightarrow> 'x VultrBareMetalMachineTemplate_m \<Rightarrow> addr set" where
  "VultrBareMetalMachineTemplate_reach G = reach_fields
    (\<lambda>s. (bmtm_meta s, bmtm_Spec s))
    (reach_both (ObjectMeta_reach G)
     (VultrBareMetalMachineTemplateSpec_reach G))"

definition VultrBareMetalMachineTemplateList_value ::
  "'x golib \<Rightarrow> 'x mem \<Rightarrow> 'x VultrBareMetalMachineTemplateList_m \<Rightarrow> VultrBareMetalMachineTemplateList option" where
  "VultrBareMetalMachineTemplateList_value G = read_fields
    (\<lambda>s. (bmtlm_ListMeta s, bmtlm_Items s))
    (\<lambda>s (a, b). \<lparr>bmtl_TypeMeta = bmtlm_TypeMeta s, bmtl_ListMeta = a, bmtl_Items = b\<rparr>)
    (read_both (ListMeta_value G)
     (read_slice as_VultrBareMetalMachineTemplates (VultrBareMetalMachineTemplate_value G)))"

definition VultrBareMetalMachineTemplateList_reach ::
  "'x golib \<Rightarrow> 'x mem \<Rightarrow> 'x VultrBareMetalMachineTemplateList_m \<Rightarrow> addr set" where
  "VultrBareMetalMachineTemplateList_reach G = reach_fields
    (\<lambda>s. (bmtlm_ListMeta s, bmtlm_Items s))
    (reach_both (ListMeta_reach G)
     (reach_ptr as_VultrBareMetalMachineTemplates (reach_list (VultrBareMetalMachineTemplate_reach G))))"

definition VultrClusterSpec_value ::
  "'x mem \<Rightarrow> VultrClusterSpec_m \<Rightarrow> VultrClusterSpec option" where
  "VultrClusterSpec_value = read_fields
    vcsm_Network
    (\<lambda>s a. \<lparr>vcs_Region = vcsm_Region s, vcs_Network = a,
      vcs_ControlPlaneEndpoint = vcsm_ControlPlaneEndpoint s, vcs_VPCID = vcsm_VPCID s\<rparr>)
    NetworkSpec_value"

definition VultrClusterSpec_reach ::
  "'x mem \<Rightarrow> VultrClusterSpec_m \<Rightarrow> addr set" where
  "VultrClusterSpec_reach = reach_fields
    vcsm_Network
    NetworkSpec_reach"

definition VultrClusterStatus_value ::
  "'x golib \<Rightarrow> 'x mem \<Rightarrow> VultrClusterStatus_m \<Rightarrow> VultrClusterStatus option" where
  "VultrClusterStatus_value G = read_fields
    (\<lambda>s. (vcstm_Initialization s, vcstm_Conditions s))
    (\<lambda>s (a, b). \<lparr>vcst_Ready = vcstm_Ready s, vcst_Provisioned = a, vcst_Conditions = b,
      vcst_Network = vcstm_Network s\<rparr>)
    (read_both ClusterInitializationStatus_value
     (read_slice as_Conditions (Condition_value G)))"

definition VultrClusterStatus_reach ::
  "'x golib \<Rightarrow> 'x mem \<Rightarrow> VultrClusterStatus_m \<Rightarrow> addr set" where
  "VultrClusterStatus_reach G = reach_fields
    (\<lambda>s. (vcstm_Initialization s, vcstm_Conditions s))
    (reach_both ClusterInitializationStatus_reach
     (reach_ptr as_Conditions (reach_list (Condition_reach G))))"

definition VultrCluster_value ::
  "'x golib \<Rightarrow> 'x mem \<Rightarrow> 'x VultrCluster_m \<Rightarrow> (TypeMeta \<times> VultrCluster) option" where
  "VultrCluster_value G = read_fields
    (\<lambda>s. (vcm_meta s, vcm_Spec s, vcm_Status s))
    (\<lambda>s (a, b, c). (vcm_TypeMeta s, \<lparr>vc_meta = a, vc_Spec = b, vc_Status = c\<rparr>))
    (read_both (ObjectMeta_value G)
     (read_both VultrClusterSpec_value
     (VultrClusterStatus_value G)))"

definition VultrCluster_reach ::
  "'x golib \<Rightarrow> 'x mem \<Rightarrow> 'x VultrCluster_m \<Rightarrow> addr set" where
  "VultrCluster_reach G = reach_fields
    (\<lambda>s. (vcm_meta s, vcm_Spec s, vcm_Status s))
    (reach_both (ObjectMeta_reach G)
     (reach_both VultrClusterSpec_reach
     (VultrClusterStatus_reach G)))"

definition VultrClusterList_value ::
  "'x golib \<Rightarrow> 'x mem \<Rightarrow> 'x VultrClusterList_m \<Rightarrow> VultrClusterList option" where
  "VultrClusterList_value G = read_fields
    (\<lambda>s. (vclm_ListMeta s, vclm_Items s))
    (\<lambda>s (a, b). \<lparr>vcl_TypeMeta = vclm_TypeMeta s, vcl_ListMeta = a, vcl_Items = b\<rparr>)
    (read_both (ListMeta_value G)
     (read_slice as_VultrClusters (VultrCluster_value G)))"

definition VultrClusterList_reach ::
  "'x golib \<Rightarrow> 'x mem \<Rightarrow> 'x VultrClusterList_m \<Rightarrow> addr set" where
  "VultrClusterList_reach G = reach_fields
    (\<lambda>s. (vclm_ListMeta s, vclm_Items s))
    (reach_both (ListMeta_reach G)
     (reach_ptr as_VultrClusters (reach_list (VultrCluster_reach G))))"

definition VultrClusterTemplateResource_value ::
  "'x mem \<Rightarrow> VultrClusterTemplateResource_m \<Rightarrow> VultrClusterTemplateResource option" where
  "VultrClusterTemplateResource_value = read_fields
    vctrm_Spec
    (\<lambda>s a. \<lparr>vctr_Spec = a\<rparr>)
    VultrClusterSpec_value"

definition VultrClusterTemplateResource_reach ::
  "'x mem \<Rightarrow> VultrClusterTemplateResource_m \<Rightarrow> addr set" where
  "VultrClusterTemplateResource_reach = reach_fields
    vctrm_Spec
    VultrClusterSpec_reach"

definition VultrClusterTemplateSpec_value ::
  "'x mem \<Rightarrow> VultrClusterTemplateSpec_m \<Rightarrow> VultrClusterTemplateSpec option" where
  "VultrClusterTemplateSpec_value = read_fields
    vctsm_Template
    (\<lambda>s a. \<lparr>vcts_Template = a\<rparr>)
    VultrClusterTemplateResource_value"

definition VultrClusterTemplateSpec_reach ::
  "'x mem \<Rightarrow> VultrClusterTemplateSpec_m \<Rightarrow> addr set" where
  "VultrClusterTemplateSpec_reach = reach_fields
    vctsm_Template
    VultrClusterTemplateResource_reach"

definition VultrClusterTemplate_value ::
  "'x golib \<Rightarrow> 'x mem \<Rightarrow> 'x VultrClusterTemplate_m \<Rightarrow> VultrClusterTemplate option" where
  "VultrClusterTemplate_value G = read_fields
    (\<lambda>s. (vctm_meta s, vctm_Spec s))
    (\<lambda>s (a, b). \<lparr>vct_TypeMeta = vctm_TypeMeta s, vct_meta = a, vct_Spec = b\<rparr>)
    (read_both (ObjectMeta_value G)
     VultrClusterTemplateSpec_value)"

definition VultrClusterTemplate_reach ::
  "'x golib \<Rightarrow> 'x mem \<Rightarrow> 'x VultrClusterTemplate_m \<Rightarrow> addr set" where
  "VultrClusterTemplate_reach G = reach_fields
    (\<lambda>s. (vctm_meta s, vctm_Spec s))
    (reach_both (ObjectMeta_reach G)
     VultrClusterTemplateSpec_reach)"

definition VultrClusterTemplateList_value ::
  "'x golib \<Rightarrow> 'x mem \<Rightarrow> 'x VultrClusterTemplateList_m \<Rightarrow> VultrClusterTemplateList option" where
  "VultrClusterTemplateList_value G = read_fields
    (\<lambda>s. (vctlm_ListMeta s, vctlm_Items s))
    (\<lambda>s (a, b). \<lparr>vctl_TypeMeta = vctlm_TypeMeta s, vctl_ListMeta = a, vctl_Items = b\<rparr>)
    (read_both (ListMeta_value G)
     (read_slice as_VultrClusterTemplates (VultrClusterTemplate_value G)))"

definition VultrClusterTemplateList_reach ::
  "'x golib \<Rightarrow> 'x mem \<Rightarrow> 'x VultrClusterTemplateList_m \<Rightarrow> addr set" where
  "VultrClusterTemplateList_reach G = reach_fields
    (\<lambda>s. (vctlm_ListMeta s, vctlm_Items s))
    (reach_both (ListMeta_reach G)
     (reach_ptr as_VultrClusterTemplates (reach_list (VultrClusterTemplate_reach G))))"

section \<open>Every copy is deep\<close>

text \<open>
  For each struct the rule of its fields; what is left to show is that putting the copied
  fields back changes nothing else.
\<close>

lemma GenericInfo_deep [copier_rules]:
  "deep_copier GenericInfo_value GenericInfo_reach GenericInfo_DeepCopyInto"
  unfolding GenericInfo_value_def GenericInfo_reach_def GenericInfo_DeepCopyInto_def
  by (rule deep_copier_fields) (auto intro!: copier_rules simp: fun_eq_iff)

lemma VultrLoadBalancer_deep [copier_rules]:
  "deep_copier VultrLoadBalancer_value VultrLoadBalancer_reach VultrLoadBalancer_DeepCopyInto"
  unfolding VultrLoadBalancer_value_def VultrLoadBalancer_reach_def VultrLoadBalancer_DeepCopyInto_def
  by (rule deep_copier_fields) (auto intro!: copier_rules simp: fun_eq_iff)

lemma NetworkSpec_deep [copier_rules]:
  "deep_copier NetworkSpec_value NetworkSpec_reach NetworkSpec_DeepCopyInto"
  unfolding NetworkSpec_value_def NetworkSpec_reach_def NetworkSpec_DeepCopyInto_def
  by (rule deep_copier_fields) (auto intro!: copier_rules simp: fun_eq_iff)

lemma BareMetalMachineInitializationStatus_deep [copier_rules]:
  "deep_copier BareMetalMachineInitializationStatus_value BareMetalMachineInitializationStatus_reach BareMetalMachineInitializationStatus_DeepCopyInto"
  unfolding BareMetalMachineInitializationStatus_value_def BareMetalMachineInitializationStatus_reach_def BareMetalMachineInitializationStatus_DeepCopyInto_def
  by (rule deep_copier_fields) (auto intro!: copier_rules simp: fun_eq_iff)

lemma ClusterInitializationStatus_deep [copier_rules]:
  "deep_copier ClusterInitializationStatus_value ClusterInitializationStatus_reach ClusterInitializationStatus_DeepCopyInto"
  unfolding ClusterInitializationStatus_value_def ClusterInitializationStatus_reach_def ClusterInitializationStatus_DeepCopyInto_def
  by (rule deep_copier_fields) (auto intro!: copier_rules simp: fun_eq_iff)

lemma VultrMachineSpec_deep [copier_rules]:
  "deep_copier VultrMachineSpec_value VultrMachineSpec_reach VultrMachineSpec_DeepCopyInto"
  unfolding VultrMachineSpec_value_def VultrMachineSpec_reach_def VultrMachineSpec_DeepCopyInto_def
  by (rule deep_copier_fields) (auto intro!: copier_rules simp: fun_eq_iff)

lemma VultrMachineStatus_deep [copier_rules]:
  "golib_laws G \<Longrightarrow> deep_copier (VultrMachineStatus_value G) (VultrMachineStatus_reach G) (VultrMachineStatus_DeepCopyInto G)"
  unfolding VultrMachineStatus_value_def VultrMachineStatus_reach_def VultrMachineStatus_DeepCopyInto_def
  by (rule deep_copier_fields) (auto intro!: copier_rules simp: fun_eq_iff)

lemma VultrMachine_deep [copier_rules]:
  "golib_laws G \<Longrightarrow> deep_copier (VultrMachine_value G) (VultrMachine_reach G) (VultrMachine_DeepCopyInto G)"
  unfolding VultrMachine_value_def VultrMachine_reach_def VultrMachine_DeepCopyInto_def
  by (rule deep_copier_fields) (auto intro!: copier_rules simp: fun_eq_iff)

lemma VultrMachineList_deep [copier_rules]:
  "golib_laws G \<Longrightarrow> deep_copier (VultrMachineList_value G) (VultrMachineList_reach G) (VultrMachineList_DeepCopyInto G)"
  unfolding VultrMachineList_value_def VultrMachineList_reach_def VultrMachineList_DeepCopyInto_def
  by (rule deep_copier_fields) (auto intro!: copier_rules simp: fun_eq_iff)

lemma VultrMachineTemplateResource_deep [copier_rules]:
  "deep_copier VultrMachineTemplateResource_value VultrMachineTemplateResource_reach VultrMachineTemplateResource_DeepCopyInto"
  unfolding VultrMachineTemplateResource_value_def VultrMachineTemplateResource_reach_def VultrMachineTemplateResource_DeepCopyInto_def
  by (rule deep_copier_fields) (auto intro!: copier_rules simp: fun_eq_iff)

lemma VultrMachineTemplateSpec_deep [copier_rules]:
  "deep_copier VultrMachineTemplateSpec_value VultrMachineTemplateSpec_reach VultrMachineTemplateSpec_DeepCopyInto"
  unfolding VultrMachineTemplateSpec_value_def VultrMachineTemplateSpec_reach_def VultrMachineTemplateSpec_DeepCopyInto_def
  by (rule deep_copier_fields) (auto intro!: copier_rules simp: fun_eq_iff)

lemma VultrMachineTemplate_deep [copier_rules]:
  "golib_laws G \<Longrightarrow> deep_copier (VultrMachineTemplate_value G) (VultrMachineTemplate_reach G) (VultrMachineTemplate_DeepCopyInto G)"
  unfolding VultrMachineTemplate_value_def VultrMachineTemplate_reach_def VultrMachineTemplate_DeepCopyInto_def
  by (rule deep_copier_fields) (auto intro!: copier_rules simp: fun_eq_iff)

lemma VultrMachineTemplateList_deep [copier_rules]:
  "golib_laws G \<Longrightarrow> deep_copier (VultrMachineTemplateList_value G) (VultrMachineTemplateList_reach G) (VultrMachineTemplateList_DeepCopyInto G)"
  unfolding VultrMachineTemplateList_value_def VultrMachineTemplateList_reach_def VultrMachineTemplateList_DeepCopyInto_def
  by (rule deep_copier_fields) (auto intro!: copier_rules simp: fun_eq_iff)

lemma VultrBareMetalMachineSpec_deep [copier_rules]:
  "deep_copier VultrBareMetalMachineSpec_value VultrBareMetalMachineSpec_reach VultrBareMetalMachineSpec_DeepCopyInto"
  unfolding VultrBareMetalMachineSpec_value_def VultrBareMetalMachineSpec_reach_def VultrBareMetalMachineSpec_DeepCopyInto_def
  by (rule deep_copier_fields) (auto intro!: copier_rules simp: fun_eq_iff)

lemma VultrBareMetalMachineStatus_deep [copier_rules]:
  "golib_laws G \<Longrightarrow> deep_copier (VultrBareMetalMachineStatus_value G) (VultrBareMetalMachineStatus_reach G) (VultrBareMetalMachineStatus_DeepCopyInto G)"
  unfolding VultrBareMetalMachineStatus_value_def VultrBareMetalMachineStatus_reach_def VultrBareMetalMachineStatus_DeepCopyInto_def
  by (rule deep_copier_fields) (auto intro!: copier_rules simp: fun_eq_iff)

lemma VultrBareMetalMachine_deep [copier_rules]:
  "golib_laws G \<Longrightarrow> deep_copier (VultrBareMetalMachine_value G) (VultrBareMetalMachine_reach G) (VultrBareMetalMachine_DeepCopyInto G)"
  unfolding VultrBareMetalMachine_value_def VultrBareMetalMachine_reach_def VultrBareMetalMachine_DeepCopyInto_def
  by (rule deep_copier_fields) (auto intro!: copier_rules simp: fun_eq_iff)

lemma VultrBareMetalMachineList_deep [copier_rules]:
  "golib_laws G \<Longrightarrow> deep_copier (VultrBareMetalMachineList_value G) (VultrBareMetalMachineList_reach G) (VultrBareMetalMachineList_DeepCopyInto G)"
  unfolding VultrBareMetalMachineList_value_def VultrBareMetalMachineList_reach_def VultrBareMetalMachineList_DeepCopyInto_def
  by (rule deep_copier_fields) (auto intro!: copier_rules simp: fun_eq_iff)

lemma VultrBareMetalMachineTemplateResource_deep [copier_rules]:
  "golib_laws G \<Longrightarrow> deep_copier (VultrBareMetalMachineTemplateResource_value G) (VultrBareMetalMachineTemplateResource_reach G) (VultrBareMetalMachineTemplateResource_DeepCopyInto G)"
  unfolding VultrBareMetalMachineTemplateResource_value_def VultrBareMetalMachineTemplateResource_reach_def VultrBareMetalMachineTemplateResource_DeepCopyInto_def
  by (rule deep_copier_fields) (auto intro!: copier_rules simp: fun_eq_iff)

lemma VultrBareMetalMachineTemplateSpec_deep [copier_rules]:
  "golib_laws G \<Longrightarrow> deep_copier (VultrBareMetalMachineTemplateSpec_value G) (VultrBareMetalMachineTemplateSpec_reach G) (VultrBareMetalMachineTemplateSpec_DeepCopyInto G)"
  unfolding VultrBareMetalMachineTemplateSpec_value_def VultrBareMetalMachineTemplateSpec_reach_def VultrBareMetalMachineTemplateSpec_DeepCopyInto_def
  by (rule deep_copier_fields) (auto intro!: copier_rules simp: fun_eq_iff)

lemma VultrBareMetalMachineTemplate_deep [copier_rules]:
  "golib_laws G \<Longrightarrow> deep_copier (VultrBareMetalMachineTemplate_value G) (VultrBareMetalMachineTemplate_reach G) (VultrBareMetalMachineTemplate_DeepCopyInto G)"
  unfolding VultrBareMetalMachineTemplate_value_def VultrBareMetalMachineTemplate_reach_def VultrBareMetalMachineTemplate_DeepCopyInto_def
  by (rule deep_copier_fields) (auto intro!: copier_rules simp: fun_eq_iff)

lemma VultrBareMetalMachineTemplateList_deep [copier_rules]:
  "golib_laws G \<Longrightarrow> deep_copier (VultrBareMetalMachineTemplateList_value G) (VultrBareMetalMachineTemplateList_reach G) (VultrBareMetalMachineTemplateList_DeepCopyInto G)"
  unfolding VultrBareMetalMachineTemplateList_value_def VultrBareMetalMachineTemplateList_reach_def VultrBareMetalMachineTemplateList_DeepCopyInto_def
  by (rule deep_copier_fields) (auto intro!: copier_rules simp: fun_eq_iff)

lemma VultrClusterSpec_deep [copier_rules]:
  "deep_copier VultrClusterSpec_value VultrClusterSpec_reach VultrClusterSpec_DeepCopyInto"
  unfolding VultrClusterSpec_value_def VultrClusterSpec_reach_def VultrClusterSpec_DeepCopyInto_def
  by (rule deep_copier_fields) (auto intro!: copier_rules simp: fun_eq_iff)

lemma VultrClusterStatus_deep [copier_rules]:
  "golib_laws G \<Longrightarrow> deep_copier (VultrClusterStatus_value G) (VultrClusterStatus_reach G) (VultrClusterStatus_DeepCopyInto G)"
  unfolding VultrClusterStatus_value_def VultrClusterStatus_reach_def VultrClusterStatus_DeepCopyInto_def
  by (rule deep_copier_fields) (auto intro!: copier_rules simp: fun_eq_iff)

lemma VultrCluster_deep [copier_rules]:
  "golib_laws G \<Longrightarrow> deep_copier (VultrCluster_value G) (VultrCluster_reach G) (VultrCluster_DeepCopyInto G)"
  unfolding VultrCluster_value_def VultrCluster_reach_def VultrCluster_DeepCopyInto_def
  by (rule deep_copier_fields) (auto intro!: copier_rules simp: fun_eq_iff)

lemma VultrClusterList_deep [copier_rules]:
  "golib_laws G \<Longrightarrow> deep_copier (VultrClusterList_value G) (VultrClusterList_reach G) (VultrClusterList_DeepCopyInto G)"
  unfolding VultrClusterList_value_def VultrClusterList_reach_def VultrClusterList_DeepCopyInto_def
  by (rule deep_copier_fields) (auto intro!: copier_rules simp: fun_eq_iff)

lemma VultrClusterTemplateResource_deep [copier_rules]:
  "deep_copier VultrClusterTemplateResource_value VultrClusterTemplateResource_reach VultrClusterTemplateResource_DeepCopyInto"
  unfolding VultrClusterTemplateResource_value_def VultrClusterTemplateResource_reach_def VultrClusterTemplateResource_DeepCopyInto_def
  by (rule deep_copier_fields) (auto intro!: copier_rules simp: fun_eq_iff)

lemma VultrClusterTemplateSpec_deep [copier_rules]:
  "deep_copier VultrClusterTemplateSpec_value VultrClusterTemplateSpec_reach VultrClusterTemplateSpec_DeepCopyInto"
  unfolding VultrClusterTemplateSpec_value_def VultrClusterTemplateSpec_reach_def VultrClusterTemplateSpec_DeepCopyInto_def
  by (rule deep_copier_fields) (auto intro!: copier_rules simp: fun_eq_iff)

lemma VultrClusterTemplate_deep [copier_rules]:
  "golib_laws G \<Longrightarrow> deep_copier (VultrClusterTemplate_value G) (VultrClusterTemplate_reach G) (VultrClusterTemplate_DeepCopyInto G)"
  unfolding VultrClusterTemplate_value_def VultrClusterTemplate_reach_def VultrClusterTemplate_DeepCopyInto_def
  by (rule deep_copier_fields) (auto intro!: copier_rules simp: fun_eq_iff)

lemma VultrClusterTemplateList_deep [copier_rules]:
  "golib_laws G \<Longrightarrow> deep_copier (VultrClusterTemplateList_value G) (VultrClusterTemplateList_reach G) (VultrClusterTemplateList_DeepCopyInto G)"
  unfolding VultrClusterTemplateList_value_def VultrClusterTemplateList_reach_def VultrClusterTemplateList_DeepCopyInto_def
  by (rule deep_copier_fields) (auto intro!: copier_rules simp: fun_eq_iff)

text \<open>The parts without structs of libraries need no hypothesis.\<close>

interpretation lb_copy: deep_copier VultrLoadBalancer_value VultrLoadBalancer_reach VultrLoadBalancer_DeepCopyInto
  by (rule VultrLoadBalancer_deep)

interpretation vm_spec_copy: deep_copier VultrMachineSpec_value VultrMachineSpec_reach VultrMachineSpec_DeepCopyInto
  by (rule VultrMachineSpec_deep)

interpretation bm_spec_copy: deep_copier VultrBareMetalMachineSpec_value VultrBareMetalMachineSpec_reach
  VultrBareMetalMachineSpec_DeepCopyInto
  by (rule VultrBareMetalMachineSpec_deep)

interpretation vc_spec_copy: deep_copier VultrClusterSpec_value VultrClusterSpec_reach VultrClusterSpec_DeepCopyInto
  by (rule VultrClusterSpec_deep)

section \<open>Objects and their copies\<close>

text \<open>
  The place \<open>y\<close> in the memory \<open>m'\<close> holds an independent copy of what \<open>x\<close> holds in \<open>m\<close>: nothing that
  was there changed, both hold the same value, they share no cell, and whatever is written to the
  cells of one of them afterwards, the other one keeps its value.
\<close>

definition independent_copy ::
  "('c list \<Rightarrow> 'a \<Rightarrow> 'v option) \<Rightarrow> ('c list \<Rightarrow> 'a \<Rightarrow> addr set) \<Rightarrow>
     'c list \<Rightarrow> 'a \<Rightarrow> 'c list \<Rightarrow> 'a \<Rightarrow> bool" where
  "independent_copy r f m x m' y \<longleftrightarrow>
     prefix m m' \<and> r m' y = r m x \<and> f m' x \<inter> f m' y = {} \<and>
     (\<forall>m''. agree (- f m' y) m' m'' \<longrightarrow> r m'' x = r m x) \<and>
     (\<forall>m''. agree (- f m' x) m' m'' \<longrightarrow> r m'' y = r m x)"

lemma deep_copier_independent:
  assumes "deep_copier r f c" and "r m x = Some v"
  shows "\<exists>y m'. c x m = Some (y, m') \<and> independent_copy r f m x m' y"
proof -
  from deep_copier.copied [OF assms] obtain y m' where y: "c x m = Some (y, m')" "prefix m m'" "r m' y = Some v"
    by blast
  show ?thesis
    using y assms(2) deep_copier.independent [OF assms y(1)]
    by (intro exI conjI) (auto simp: independent_copy_def)
qed

lemma copy_ptr_not_nil: "copy_ptr mk proj c (Some a) m = Some (q, m') \<Longrightarrow> \<exists>b. q = Some b"
  by (auto simp: copy_ptr_def split: option.splits prod.splits)

lemma object_copy:
  assumes "deep_copier r f c" and "\<And>v. proj (mk v) = Some v" and "read_ptr proj r m (Some a) = Some v"
  shows "\<exists>b m'. as_object wrap (copy_ptr mk proj c (Some a) m) = Some (Some (wrap b), m') \<and>
    independent_copy (read_ptr proj r) (reach_ptr proj f) m (Some a) m' (Some b)"
proof -
  from deep_copier_independent [OF deep_copier_ptr [of proj mk, OF assms(2,1)] assms(3)]
  obtain q m' where q: "copy_ptr mk proj c (Some a) m = Some (q, m')"
      "independent_copy (read_ptr proj r) (reach_ptr proj f) m (Some a) m' q" by blast
  obtain b where "q = Some b" using copy_ptr_not_nil [OF q(1)] by blast
  with q show ?thesis by (auto simp: as_object_def)
qed

text \<open>
  A copy function for pointers to objects: whatever object can be read behind a pointer, the copy
  succeeds, is an object of the same kind and is independent of the original; and a nil
  pointer gives no object.
\<close>

definition copies_objects ::
  "('x mem \<Rightarrow> addr option \<Rightarrow> 'v option) \<Rightarrow> ('x mem \<Rightarrow> addr option \<Rightarrow> addr set) \<Rightarrow> (addr \<Rightarrow> runtime_object) \<Rightarrow>
     (addr option \<Rightarrow> 'x mem \<Rightarrow> (runtime_object option \<times> 'x mem) option) \<Rightarrow> bool" where
  "copies_objects r f wrap copy \<longleftrightarrow>
     (\<forall>m. copy None m = Some (None, m)) \<and>
     (\<forall>m a v. r m (Some a) = Some v \<longrightarrow>
        (\<exists>b m'. copy (Some a) m = Some (Some (wrap b), m') \<and> independent_copy r f m (Some a) m' (Some b)))"

lemma copies_objectsD:
  "copies_objects r f wrap copy \<Longrightarrow> r m (Some a) = Some v \<Longrightarrow>
     \<exists>b m'. copy (Some a) m = Some (Some (wrap b), m') \<and> independent_copy r f m (Some a) m' (Some b)"
  by (simp add: copies_objects_def)

lemma deep_copies_objects:
  assumes "deep_copier r f c" and "\<And>v. proj (mk v) = Some v"
    and "\<And>p m. copy p m = as_object wrap (copy_ptr mk proj c p m)"
  shows "copies_objects (read_ptr proj r) (reach_ptr proj f) wrap copy"
  unfolding copies_objects_def assms(3)
  by (intro conjI allI impI object_copy [of _ _ _ proj mk, OF assms(1,2)])
    (simp_all add: copy_ptr_def as_object_def)

text \<open>What a pointer to an object leads to.\<close>

definition VultrBareMetalMachine_at :: "'x golib \<Rightarrow> 'x mem \<Rightarrow> addr option \<Rightarrow> (TypeMeta \<times> VultrBareMetalMachine) option option" where
  "VultrBareMetalMachine_at G = read_ptr as_VultrBareMetalMachine (VultrBareMetalMachine_value G)"

definition VultrBareMetalMachine_cells :: "'x golib \<Rightarrow> 'x mem \<Rightarrow> addr option \<Rightarrow> addr set" where
  "VultrBareMetalMachine_cells G = reach_ptr as_VultrBareMetalMachine (VultrBareMetalMachine_reach G)"

definition VultrBareMetalMachineList_at :: "'x golib \<Rightarrow> 'x mem \<Rightarrow> addr option \<Rightarrow> VultrBareMetalMachineList option option" where
  "VultrBareMetalMachineList_at G = read_ptr as_VultrBareMetalMachineList (VultrBareMetalMachineList_value G)"

definition VultrBareMetalMachineList_cells :: "'x golib \<Rightarrow> 'x mem \<Rightarrow> addr option \<Rightarrow> addr set" where
  "VultrBareMetalMachineList_cells G = reach_ptr as_VultrBareMetalMachineList (VultrBareMetalMachineList_reach G)"

definition VultrBareMetalMachineTemplate_at :: "'x golib \<Rightarrow> 'x mem \<Rightarrow> addr option \<Rightarrow> VultrBareMetalMachineTemplate option option" where
  "VultrBareMetalMachineTemplate_at G = read_ptr as_VultrBareMetalMachineTemplate (VultrBareMetalMachineTemplate_value G)"

definition VultrBareMetalMachineTemplate_cells :: "'x golib \<Rightarrow> 'x mem \<Rightarrow> addr option \<Rightarrow> addr set" where
  "VultrBareMetalMachineTemplate_cells G = reach_ptr as_VultrBareMetalMachineTemplate (VultrBareMetalMachineTemplate_reach G)"

definition VultrBareMetalMachineTemplateList_at :: "'x golib \<Rightarrow> 'x mem \<Rightarrow> addr option \<Rightarrow> VultrBareMetalMachineTemplateList option option" where
  "VultrBareMetalMachineTemplateList_at G = read_ptr as_VultrBareMetalMachineTemplateList (VultrBareMetalMachineTemplateList_value G)"

definition VultrBareMetalMachineTemplateList_cells :: "'x golib \<Rightarrow> 'x mem \<Rightarrow> addr option \<Rightarrow> addr set" where
  "VultrBareMetalMachineTemplateList_cells G = reach_ptr as_VultrBareMetalMachineTemplateList (VultrBareMetalMachineTemplateList_reach G)"

definition VultrCluster_at :: "'x golib \<Rightarrow> 'x mem \<Rightarrow> addr option \<Rightarrow> (TypeMeta \<times> VultrCluster) option option" where
  "VultrCluster_at G = read_ptr as_VultrCluster (VultrCluster_value G)"

definition VultrCluster_cells :: "'x golib \<Rightarrow> 'x mem \<Rightarrow> addr option \<Rightarrow> addr set" where
  "VultrCluster_cells G = reach_ptr as_VultrCluster (VultrCluster_reach G)"

definition VultrClusterList_at :: "'x golib \<Rightarrow> 'x mem \<Rightarrow> addr option \<Rightarrow> VultrClusterList option option" where
  "VultrClusterList_at G = read_ptr as_VultrClusterList (VultrClusterList_value G)"

definition VultrClusterList_cells :: "'x golib \<Rightarrow> 'x mem \<Rightarrow> addr option \<Rightarrow> addr set" where
  "VultrClusterList_cells G = reach_ptr as_VultrClusterList (VultrClusterList_reach G)"

definition VultrClusterTemplate_at :: "'x golib \<Rightarrow> 'x mem \<Rightarrow> addr option \<Rightarrow> VultrClusterTemplate option option" where
  "VultrClusterTemplate_at G = read_ptr as_VultrClusterTemplate (VultrClusterTemplate_value G)"

definition VultrClusterTemplate_cells :: "'x golib \<Rightarrow> 'x mem \<Rightarrow> addr option \<Rightarrow> addr set" where
  "VultrClusterTemplate_cells G = reach_ptr as_VultrClusterTemplate (VultrClusterTemplate_reach G)"

definition VultrClusterTemplateList_at :: "'x golib \<Rightarrow> 'x mem \<Rightarrow> addr option \<Rightarrow> VultrClusterTemplateList option option" where
  "VultrClusterTemplateList_at G = read_ptr as_VultrClusterTemplateList (VultrClusterTemplateList_value G)"

definition VultrClusterTemplateList_cells :: "'x golib \<Rightarrow> 'x mem \<Rightarrow> addr option \<Rightarrow> addr set" where
  "VultrClusterTemplateList_cells G = reach_ptr as_VultrClusterTemplateList (VultrClusterTemplateList_reach G)"

definition VultrMachine_at :: "'x golib \<Rightarrow> 'x mem \<Rightarrow> addr option \<Rightarrow> (TypeMeta \<times> VultrMachine) option option" where
  "VultrMachine_at G = read_ptr as_VultrMachine (VultrMachine_value G)"

definition VultrMachine_cells :: "'x golib \<Rightarrow> 'x mem \<Rightarrow> addr option \<Rightarrow> addr set" where
  "VultrMachine_cells G = reach_ptr as_VultrMachine (VultrMachine_reach G)"

definition VultrMachineList_at :: "'x golib \<Rightarrow> 'x mem \<Rightarrow> addr option \<Rightarrow> VultrMachineList option option" where
  "VultrMachineList_at G = read_ptr as_VultrMachineList (VultrMachineList_value G)"

definition VultrMachineList_cells :: "'x golib \<Rightarrow> 'x mem \<Rightarrow> addr option \<Rightarrow> addr set" where
  "VultrMachineList_cells G = reach_ptr as_VultrMachineList (VultrMachineList_reach G)"

definition VultrMachineTemplate_at :: "'x golib \<Rightarrow> 'x mem \<Rightarrow> addr option \<Rightarrow> VultrMachineTemplate option option" where
  "VultrMachineTemplate_at G = read_ptr as_VultrMachineTemplate (VultrMachineTemplate_value G)"

definition VultrMachineTemplate_cells :: "'x golib \<Rightarrow> 'x mem \<Rightarrow> addr option \<Rightarrow> addr set" where
  "VultrMachineTemplate_cells G = reach_ptr as_VultrMachineTemplate (VultrMachineTemplate_reach G)"

definition VultrMachineTemplateList_at :: "'x golib \<Rightarrow> 'x mem \<Rightarrow> addr option \<Rightarrow> VultrMachineTemplateList option option" where
  "VultrMachineTemplateList_at G = read_ptr as_VultrMachineTemplateList (VultrMachineTemplateList_value G)"

definition VultrMachineTemplateList_cells :: "'x golib \<Rightarrow> 'x mem \<Rightarrow> addr option \<Rightarrow> addr set" where
  "VultrMachineTemplateList_cells G = reach_ptr as_VultrMachineTemplateList (VultrMachineTemplateList_reach G)"

lemmas object_places = VultrBareMetalMachine_at_def VultrBareMetalMachine_cells_def
  VultrBareMetalMachineList_at_def VultrBareMetalMachineList_cells_def
  VultrBareMetalMachineTemplate_at_def VultrBareMetalMachineTemplate_cells_def
  VultrBareMetalMachineTemplateList_at_def VultrBareMetalMachineTemplateList_cells_def
  VultrCluster_at_def VultrCluster_cells_def
  VultrClusterList_at_def VultrClusterList_cells_def
  VultrClusterTemplate_at_def VultrClusterTemplate_cells_def
  VultrClusterTemplateList_at_def VultrClusterTemplateList_cells_def
  VultrMachine_at_def VultrMachine_cells_def
  VultrMachineList_at_def VultrMachineList_cells_def
  VultrMachineTemplate_at_def VultrMachineTemplate_cells_def
  VultrMachineTemplateList_at_def VultrMachineTemplateList_cells_def

text \<open>
  C18. The deep copy of an object of each registered kind (the three kinds, their lists, their
  templates and the lists of these), taken through \<^verbatim>\<open>runtime.Object\<close> as the libraries do, is an
  independent copy: it always succeeds, has the same value, shares no memory with the original,
  and later changes to one of them do not show in the other.
\<close>

theorem object_copies_independent:
  assumes "golib_laws G"
  shows "copies_objects (VultrBareMetalMachine_at G) (VultrBareMetalMachine_cells G) ObjVultrBareMetalMachine
      (VultrBareMetalMachine_DeepCopyObject G) \<and>
    copies_objects (VultrBareMetalMachineList_at G) (VultrBareMetalMachineList_cells G) ObjVultrBareMetalMachineList
      (VultrBareMetalMachineList_DeepCopyObject G) \<and>
    copies_objects (VultrBareMetalMachineTemplate_at G) (VultrBareMetalMachineTemplate_cells G) ObjVultrBareMetalMachineTemplate
      (VultrBareMetalMachineTemplate_DeepCopyObject G) \<and>
    copies_objects (VultrBareMetalMachineTemplateList_at G) (VultrBareMetalMachineTemplateList_cells G) ObjVultrBareMetalMachineTemplateList
      (VultrBareMetalMachineTemplateList_DeepCopyObject G) \<and>
    copies_objects (VultrCluster_at G) (VultrCluster_cells G) ObjVultrCluster
      (VultrCluster_DeepCopyObject G) \<and>
    copies_objects (VultrClusterList_at G) (VultrClusterList_cells G) ObjVultrClusterList
      (VultrClusterList_DeepCopyObject G) \<and>
    copies_objects (VultrClusterTemplate_at G) (VultrClusterTemplate_cells G) ObjVultrClusterTemplate
      (VultrClusterTemplate_DeepCopyObject G) \<and>
    copies_objects (VultrClusterTemplateList_at G) (VultrClusterTemplateList_cells G) ObjVultrClusterTemplateList
      (VultrClusterTemplateList_DeepCopyObject G) \<and>
    copies_objects (VultrMachine_at G) (VultrMachine_cells G) ObjVultrMachine
      (VultrMachine_DeepCopyObject G) \<and>
    copies_objects (VultrMachineList_at G) (VultrMachineList_cells G) ObjVultrMachineList
      (VultrMachineList_DeepCopyObject G) \<and>
    copies_objects (VultrMachineTemplate_at G) (VultrMachineTemplate_cells G) ObjVultrMachineTemplate
      (VultrMachineTemplate_DeepCopyObject G) \<and>
    copies_objects (VultrMachineTemplateList_at G) (VultrMachineTemplateList_cells G) ObjVultrMachineTemplateList
      (VultrMachineTemplateList_DeepCopyObject G)"
  unfolding object_places
  by (intro conjI deep_copies_objects as_new,
    simp_all add: VultrBareMetalMachine_DeepCopyObject_def VultrBareMetalMachine_DeepCopy_def
      VultrBareMetalMachineList_DeepCopyObject_def VultrBareMetalMachineList_DeepCopy_def
      VultrBareMetalMachineTemplate_DeepCopyObject_def VultrBareMetalMachineTemplate_DeepCopy_def
      VultrBareMetalMachineTemplateList_DeepCopyObject_def VultrBareMetalMachineTemplateList_DeepCopy_def
      VultrCluster_DeepCopyObject_def VultrCluster_DeepCopy_def
      VultrClusterList_DeepCopyObject_def VultrClusterList_DeepCopy_def
      VultrClusterTemplate_DeepCopyObject_def VultrClusterTemplate_DeepCopy_def
      VultrClusterTemplateList_DeepCopyObject_def VultrClusterTemplateList_DeepCopy_def
      VultrMachine_DeepCopyObject_def VultrMachine_DeepCopy_def
      VultrMachineList_DeepCopyObject_def VultrMachineList_DeepCopy_def
      VultrMachineTemplate_DeepCopyObject_def VultrMachineTemplate_DeepCopy_def
      VultrMachineTemplateList_DeepCopyObject_def VultrMachineTemplateList_DeepCopy_def)
    (intro VultrBareMetalMachine_deep VultrBareMetalMachineList_deep
      VultrBareMetalMachineTemplate_deep VultrBareMetalMachineTemplateList_deep
      VultrCluster_deep VultrClusterList_deep
      VultrClusterTemplate_deep VultrClusterTemplateList_deep
      VultrMachine_deep VultrMachineList_deep
      VultrMachineTemplate_deep VultrMachineTemplateList_deep assms)+

end
