(* ===== verification/Witnesses_Memory.thy ===== *)
theory Witnesses_Memory
  imports Deep_Copy_Safety
begin

text \<open>
  The property of the deep copies at a concrete memory. The structs of the libraries are a pointer
  to a name, so that their copies have to allocate too.
\<close>

definition name_lib :: "addr option golib" where
  "name_lib = \<lparr>
     ObjectMeta_DeepCopyInto = copy_ptr new_String as_String copy_flat,
     ListMeta_DeepCopyInto = copy_ptr new_String as_String copy_flat,
     Condition_DeepCopyInto = copy_ptr new_String as_String copy_flat,
     TemplateMeta_DeepCopyInto = copy_ptr new_String as_String copy_flat,
     ObjectMeta_value = (\<lambda>m p. map_option (\<lambda>n. zero_ObjectMeta\<lparr>om_Name := case n of None \<Rightarrow> [] | Some n \<Rightarrow> n\<rparr>)
       (read_ptr as_String read_flat m p)),
     ListMeta_value = (\<lambda>m p. map_option (\<lambda>n. \<lparr>lm_ResourceVersion = case n of None \<Rightarrow> [] | Some n \<Rightarrow> n, lm_Continue = []\<rparr>)
       (read_ptr as_String read_flat m p)),
     Condition_value = (\<lambda>m p. map_option (\<lambda>n. \<lparr>c_Type = case n of None \<Rightarrow> [] | Some n \<Rightarrow> n, c_Status = ConditionTrue,
       c_Reason = [], c_Message = [], c_LastTransitionTime = 0\<rparr>) (read_ptr as_String read_flat m p)),
     TemplateMeta_value = (\<lambda>m p. map_option (\<lambda>n. \<lparr>tpm_Labels = [(case n of None \<Rightarrow> [] | Some n \<Rightarrow> n, [])],
       tpm_Annotations = []\<rparr>) (read_ptr as_String read_flat m p)),
     ObjectMeta_reach = reach_ptr as_String reach_flat,
     ListMeta_reach = reach_ptr as_String reach_flat,
     Condition_reach = reach_ptr as_String reach_flat,
     TemplateMeta_reach = reach_ptr as_String reach_flat\<rparr>"

lemma deep_copier_map:
  assumes "deep_copier r f c"
  shows "deep_copier (\<lambda>m x. map_option h (r m x)) f c"
proof (unfold_locales, goal_cases)
  case (1 m x v m')
  then obtain w where "r m x = Some w" "v = h w" by auto
  then show ?case using deep_copier.frame [OF assms _ 1(2)] by simp
next
  case (2 m x v)
  then obtain w where "r m x = Some w" by auto
  then show ?case by (rule deep_copier.allocated [OF assms])
next
  case (3 m x v)
  then obtain w where "r m x = Some w" "v = h w" by auto
  then show ?case using deep_copier.copied [OF assms, of m x w] by auto
qed

lemma name_lib_laws: "golib_laws name_lib"
  by (auto simp: golib_laws_def name_lib_def intro!: deep_copier_map copier_rules)

text \<open>
  A machine at address 4: its name, its provider ID, its SSH keys and one condition are behind
  pointers.
\<close>

definition named_memory :: "addr option mem" where
  "named_memory =
    [new_String ''m'', new_String ''vultr://i-1'', new_Strings [''k1'', ''k2''], new_Conditions [Some 0],
     new_VultrMachine \<lparr>vmm_TypeMeta = \<lparr>tm_Kind = ''VultrMachine'', tm_APIVersion = ''v1beta2''\<rparr>, vmm_meta = Some 0,
       vmm_Spec = \<lparr>vmsm_ProviderID = Some 1, vmsm_Snapshot = [], vmsm_PlanID = ''p'', vmsm_Region = ''ewr'',
         vmsm_SSHKey = Some 2, vmsm_VPCID = [], vmsm_VPCOnly = False, vmsm_FirewallGroupID = [], vmsm_VPC2ID = []\<rparr>,
       vmm_Status = \<lparr>vmstm_Ready = True, vmstm_CPU = 1, vmstm_RAM = 2, vmstm_Storage = 3,
         vmstm_Initialization = \<lparr>mis_Provisioned = True\<rparr>, vmstm_Addresses = None, vmstm_SubscriptionStatus = None,
         vmstm_PowerStatus = None, vmstm_ServerState = None, vmstm_Conditions = Some 3\<rparr>\<rparr>]"

lemma named_memory_machine:
  "VultrMachine_at name_lib named_memory (Some 4) =
     Some (Some (the (the (VultrMachine_at name_lib named_memory (Some 4)))))"
  by code_simp

theorem object_copies_independent_witness:
  "golib_laws name_lib \<and>
   (\<exists>b m'. VultrMachine_DeepCopyObject name_lib (Some 4) named_memory = Some (Some (ObjVultrMachine b), m') \<and>
      independent_copy (VultrMachine_at name_lib) (VultrMachine_cells name_lib) named_memory (Some 4) m' (Some b))"
proof -
  have "copies_objects (VultrMachine_at name_lib) (VultrMachine_cells name_lib) ObjVultrMachine
      (VultrMachine_DeepCopyObject name_lib)"
    using object_copies_independent [OF name_lib_laws] by (elim conjE)
  from copies_objectsD [OF this named_memory_machine] show ?thesis by (simp add: name_lib_laws)
qed

end
