(* ===== verification/Go_Flags.thy ===== *)
theory Go_Flags
  imports Kube_Types
begin

text \<open>
  Go's command-line flags (package \<^verbatim>\<open>flag\<close>), as far as the manager uses them: string, boolean and
  duration flags, and flags that libraries register, of which only what they accept is known. The
  parser follows \<^verbatim>\<open>FlagSet.Parse\<close> with \<^verbatim>\<open>ExitOnError\<close>: a request for help ends the process with code 0,
  every other error with code 2, and the first argument that is no flag ends the flags.
  \<^verbatim>\<open>time.ParseDuration\<close> is an argument.
\<close>

datatype flag_kind = StringFlag | BoolFlag | DurationFlag | LibraryFlag bool "string \<Rightarrow> bool"

datatype flag_value = VString string | VBool bool | VDuration int

type_synonym flag_values = "string \<Rightarrow> flag_value option"

fun is_bool_flag :: "flag_kind \<Rightarrow> bool" where
  "is_bool_flag BoolFlag = True"
| "is_bool_flag (LibraryFlag b accepts) = b"
| "is_bool_flag _ = False"

definition ParseBool :: "string \<Rightarrow> bool option" where
  "ParseBool s =
     (if s \<in> {''1'', ''t'', ''T'', ''TRUE'', ''true'', ''True''} then Some True
      else if s \<in> {''0'', ''f'', ''F'', ''FALSE'', ''false'', ''False''} then Some False
      else None)"

text \<open>Setting a flag: \<open>None\<close> when the text is not a value of the flag.\<close>

fun set_flag ::
  "(string \<Rightarrow> int option) \<Rightarrow> flag_kind \<Rightarrow> string \<Rightarrow> string \<Rightarrow> flag_values \<Rightarrow> flag_values option" where
  "set_flag pd StringFlag name x v = Some (v(name \<mapsto> VString x))"
| "set_flag pd BoolFlag name x v = map_option (\<lambda>b. v(name \<mapsto> VBool b)) (ParseBool x)"
| "set_flag pd DurationFlag name x v = map_option (\<lambda>d. v(name \<mapsto> VDuration d)) (pd x)"
| "set_flag pd (LibraryFlag b accepts) name x v = (if accepts x then Some v else None)"

datatype argument = NoFlag | BadFlag | Flag string "string option"

text \<open>The name is at least one byte, so an equals sign ends it from its second byte on.\<close>

definition name_and_value :: "string \<Rightarrow> string \<times> string option" where
  "name_and_value s = (case dropWhile (\<lambda>c. c \<noteq> CHR ''='') (tl s) of
      [] \<Rightarrow> (s, None)
    | _ # x \<Rightarrow> (hd s # takeWhile (\<lambda>c. c \<noteq> CHR ''='') (tl s), Some x))"

definition flag_name :: "string \<Rightarrow> argument" where
  "flag_name s = (if s = [] \<or> hd s = CHR ''-'' \<or> hd s = CHR ''='' then BadFlag
     else case name_and_value s of (n, x) \<Rightarrow> Flag n x)"

fun parse_argument :: "string \<Rightarrow> argument" where
  "parse_argument (a # b # s) =
     (if a \<noteq> CHR ''-'' then NoFlag
      else if b = CHR ''-'' then (if s = [] then NoFlag else flag_name s)
      else flag_name (b # s))"
| "parse_argument _ = NoFlag"

text \<open>
  The text a flag is set to and the arguments that are left: the text behind the equals sign, true
  for a boolean flag without one, the next argument otherwise.
\<close>

definition take_value :: "flag_kind \<Rightarrow> string option \<Rightarrow> string list \<Rightarrow> (string \<times> string list) option" where
  "take_value kind x args = (case x of
      Some y \<Rightarrow> Some (y, args)
    | None \<Rightarrow> if is_bool_flag kind then Some (''true'', args)
        else (case args of [] \<Rightarrow> None | y # rest \<Rightarrow> Some (y, rest)))"

lemma take_value_length: "take_value kind x args = Some (y, rest) \<Longrightarrow> length rest \<le> length args"
  by (auto simp: take_value_def split: option.splits if_splits list.splits)

function parse_flags ::
  "(string \<Rightarrow> int option) \<Rightarrow> (string \<Rightarrow> flag_kind option) \<Rightarrow> string list \<Rightarrow> flag_values \<Rightarrow> nat + flag_values" where
  "parse_flags pd formal [] v = Inr v"
| "parse_flags pd formal (s # args) v = (case parse_argument s of
      NoFlag \<Rightarrow> Inr v
    | BadFlag \<Rightarrow> Inl 2
    | Flag name x \<Rightarrow> (case formal name of
        None \<Rightarrow> Inl (if name = ''help'' \<or> name = ''h'' then 0 else 2)
      | Some kind \<Rightarrow> (case take_value kind x args of
          None \<Rightarrow> Inl 2
        | Some (y, rest) \<Rightarrow> (case set_flag pd kind name y v of
            None \<Rightarrow> Inl 2
          | Some v' \<Rightarrow> parse_flags pd formal rest v'))))"
  by pat_completeness auto
termination
  by (relation "measure (\<lambda>(_, _, args, _). length args)") (auto dest: take_value_length)

text \<open>
  Every flag keeps the type it has: a flag that held a value of its kind holds one after the
  parse, and names without a flag keep what they hold.
\<close>

fun value_of_kind :: "flag_kind \<Rightarrow> flag_value \<Rightarrow> bool" where
  "value_of_kind StringFlag (VString _) = True"
| "value_of_kind BoolFlag (VBool _) = True"
| "value_of_kind DurationFlag (VDuration _) = True"
| "value_of_kind _ _ = False"

definition well_typed :: "(string \<Rightarrow> flag_kind option) \<Rightarrow> flag_values \<Rightarrow> bool" where
  "well_typed formal v \<longleftrightarrow> (\<forall>name x k. v name = Some x \<longrightarrow> formal name = Some k \<longrightarrow> value_of_kind k x)"

lemma set_flag_well_typed:
  assumes "well_typed formal v" and "formal name = Some k" and "set_flag pd k name x v = Some v'"
  shows "well_typed formal v' \<and> dom v \<subseteq> dom v'"
  using assms by (cases k) (auto simp: well_typed_def split: if_splits)

lemma parse_flags_well_typed:
  "parse_flags pd formal args v = Inr v' \<Longrightarrow> well_typed formal v \<Longrightarrow> well_typed formal v' \<and> dom v \<subseteq> dom v'"
proof (induction pd formal args v rule: parse_flags.induct)
  case (2 pd formal s args v)
  from "2.prems"(1) consider "v' = v"
    | name x kind y rest w where "parse_argument s = Flag name x" "formal name = Some kind"
        "take_value kind x args = Some (y, rest)" "set_flag pd kind name y v = Some w"
        "parse_flags pd formal rest w = Inr v'"
    by (auto split: argument.splits option.splits)
  then show ?case
  proof cases
    case 2
    from set_flag_well_typed [OF "2.prems"(2) 2(2,4)] have "well_typed formal w" "dom v \<subseteq> dom w" by simp_all
    with "2.IH" [OF 2(1-3) _ 2(4,5)] show ?thesis by auto
  qed (use "2.prems" in simp)
qed simp

text \<open>The process ends only with code 0, for help, or 2.\<close>

lemma parse_flags_codes: "parse_flags pd formal args v = Inl c \<Longrightarrow> c = 0 \<or> c = 2"
  by (induction pd formal args v rule: parse_flags.induct)
    (auto split: argument.splits option.splits if_splits)

end
