(* ===== verification/Startup.thy ===== *)
theory Startup
  imports Go_Flags Scopes
begin

text \<open>
  The process (\<^verbatim>\<open>cmd/main.go\<close>), the registration of the types (\<^verbatim>\<open>api/v1beta2/groupversion_info.go\<close> and the
  \<^verbatim>\<open>init\<close> functions of the types) and the \<^verbatim>\<open>SetupWithManager\<close> functions of the three reconcilers.

  The controller runtime is the parameter \<open>kruntime\<close>: the scheme, the manager and what can be asked
  of them. Managers, clients, recorders and mappers are handles, numbers that stand for them. The
  calls that set something up are noted with whether they succeeded; loggers are left out. The
  process gives its exit code. \<^verbatim>\<open>mgr.Start\<close> is a call that returns when the manager stops.
\<close>

section \<open>The controller runtime\<close>

text \<open>Go types of this API group and of Cluster API, by their names.\<close>

datatype go_type = Infra string | CAPI string

type_synonym client = nat
type_synonym recorder = nat
type_synonym mapper = nat
type_synonym manager = nat

datatype map_func =
    MachineToInfrastructureMapFunc go_type
  | ClusterToInfrastructureMapFunc go_type client
  | ClusterToObjects mapper
  | VultrClusterToMachines client
  | VultrClusterToBareMetalMachines client

datatype 's predicate =
    ResourceNotPaused 's
  | ClusterUnpaused 's
  | ClusterPausedTransitionsOrInfrastructureProvisioned 's

record 's watch =
  w_object :: go_type
  w_handler :: map_func
  w_predicates :: "'s predicate list"

record VultrClusterReconciler =
  vcr_Client :: client
  vcr_ReconcileTimeout :: int
  vcr_Recorder :: recorder
  vcr_WatchFilterValue :: string

record VultrMachineReconciler =
  vmr_Client :: client
  vmr_Recorder :: recorder
  vmr_ReconcileTimeout :: int

record VultrBareMetalMachineReconciler =
  bmr_Client :: client
  bmr_Recorder :: recorder
  bmr_ReconcileTimeout :: int

datatype reconciler =
    ClusterReconciler VultrClusterReconciler
  | MachineReconciler VultrMachineReconciler
  | BareMetalReconciler VultrBareMetalMachineReconciler

text \<open>What \<^verbatim>\<open>ctrl.NewControllerManagedBy(mgr)\<close> collects until \<^verbatim>\<open>Complete\<close>.\<close>

record 's controller =
  ct_For :: go_type
  ct_EventFilters :: "'s predicate list"
  ct_Watches :: "'s watch list"
  ct_Reconciler :: reconciler

record 's manager_options =
  mo_Scheme :: 's
  mo_MetricsBindAddress :: string
  mo_MetricsSecureServing :: bool
  mo_HealthProbeBindAddress :: string
  mo_LeaderElection :: bool
  mo_LeaderElectionID :: string

datatype 's setup_call =
    NewManagerCall "'s manager_options"
  | NewMapperCall client go_type 's
  | CompleteCall "'s controller"
  | HealthzCall string
  | ReadyzCall string
  | StartCall

record ('w, 's) kruntime =
  ParseDuration :: "string \<Rightarrow> int option"
  library_flags :: "string \<Rightarrow> (bool \<times> (string \<Rightarrow> bool)) option"
  NewScheme :: 's
  clientgo_AddToScheme :: "'s \<Rightarrow> error option \<times> 's"
  capi_AddToScheme :: "'s \<Rightarrow> error option \<times> 's"
  AddKnownTypes :: "string \<Rightarrow> string list \<Rightarrow> 's \<Rightarrow> string + 's"
  AddToGroupVersion :: "string \<Rightarrow> 's \<Rightarrow> 's"
  Recognizes :: "'s \<Rightarrow> string \<Rightarrow> string \<Rightarrow> bool"
  GetConfig :: "'w \<Rightarrow> error option \<times> 'w"
  NewManager :: "'s manager_options \<Rightarrow> 'w \<Rightarrow> (error + manager) \<times> 'w"
  GetClient :: "manager \<Rightarrow> client"
  GetScheme :: "manager \<Rightarrow> 's"
  GetEventRecorder :: "manager \<Rightarrow> string \<Rightarrow> recorder"
  ClusterToTypedObjectsMapper :: "client \<Rightarrow> go_type \<Rightarrow> 's \<Rightarrow> 'w \<Rightarrow> (error + mapper) \<times> 'w"
  Complete :: "manager \<Rightarrow> 's controller \<Rightarrow> 'w \<Rightarrow> error option \<times> 'w"
  AddHealthzCheck :: "manager \<Rightarrow> string \<Rightarrow> 'w \<Rightarrow> error option \<times> 'w"
  AddReadyzCheck :: "manager \<Rightarrow> string \<Rightarrow> 'w \<Rightarrow> error option \<times> 'w"
  Start :: "manager \<Rightarrow> 'w \<Rightarrow> error option \<times> 'w"

record ('w, 's) process =
  pr_world :: 'w
  pr_calls :: "('s setup_call \<times> bool) list"

text \<open>A call to the runtime, noted with whether it succeeded.\<close>

definition setup_do ::
  "'s setup_call \<Rightarrow> ('r \<Rightarrow> bool) \<Rightarrow> ('w \<Rightarrow> 'r \<times> 'w) \<Rightarrow> (('w, 's) process, 'r) comp" where
  "setup_do c ok f s = (case f (pr_world s) of (r, w) \<Rightarrow>
     Ret r (s\<lparr>pr_world := w, pr_calls := pr_calls s @ [(c, ok r)]\<rparr>))"

definition no_error :: "error option \<Rightarrow> bool" where
  "no_error e \<longleftrightarrow> e = None"

definition is_value :: "error + 'a \<Rightarrow> bool" where
  "is_value r \<longleftrightarrow> (case r of Inl _ \<Rightarrow> False | Inr _ \<Rightarrow> True)"

section \<open>The types\<close>

text \<open>
  The \<^verbatim>\<open>init\<close> functions append to \<^verbatim>\<open>objectTypes\<close>, in the order of the files. A type is registered under
  its name.
\<close>

definition init_VultrBareMetalMachine :: "string list \<Rightarrow> string list" where
  "init_VultrBareMetalMachine types = types @ [''VultrBareMetalMachine'', ''VultrBareMetalMachineList'']"

definition init_VultrBareMetalMachineTemplate :: "string list \<Rightarrow> string list" where
  "init_VultrBareMetalMachineTemplate types =
     types @ [''VultrBareMetalMachineTemplate'', ''VultrBareMetalMachineTemplateList'']"

definition init_VultrCluster :: "string list \<Rightarrow> string list" where
  "init_VultrCluster types = types @ [''VultrCluster'', ''VultrClusterList'']"

definition init_VultrClusterTemplate :: "string list \<Rightarrow> string list" where
  "init_VultrClusterTemplate types = types @ [''VultrClusterTemplate'', ''VultrClusterTemplateList'']"

definition init_VultrMachine :: "string list \<Rightarrow> string list" where
  "init_VultrMachine types = types @ [''VultrMachine'', ''VultrMachineList'']"

definition init_VultrMachineTemplate :: "string list \<Rightarrow> string list" where
  "init_VultrMachineTemplate types = types @ [''VultrMachineTemplate'', ''VultrMachineTemplateList'']"

definition objectTypes :: "string list" where
  "objectTypes = init_VultrMachineTemplate (init_VultrMachine (init_VultrClusterTemplate (init_VultrCluster
     (init_VultrBareMetalMachineTemplate (init_VultrBareMetalMachine [])))))"

text \<open>\<open>Inl\<close> is the panic of \<^verbatim>\<open>AddKnownTypes\<close> on a conflicting registration.\<close>

definition addKnownTypes :: "('w, 's) kruntime \<Rightarrow> 's \<Rightarrow> string + 's" where
  "addKnownTypes R scheme = (case AddKnownTypes R GroupVersion_String objectTypes scheme of
      Inl msg \<Rightarrow> Inl msg
    | Inr scheme \<Rightarrow> Inr (AddToGroupVersion R GroupVersion_String scheme))"

text \<open>\<^verbatim>\<open>init\<close> of the main package; \<^verbatim>\<open>utilruntime.Must\<close> panics on an error.\<close>

definition init_main :: "('w, 's) kruntime \<Rightarrow> string + 's" where
  "init_main R = (case clientgo_AddToScheme R (NewScheme R) of
      (Some _, _) \<Rightarrow> Inl ''clientgoscheme.AddToScheme''
    | (None, scheme) \<Rightarrow> (case capi_AddToScheme R scheme of
        (Some _, _) \<Rightarrow> Inl ''capi.AddToScheme''
      | (None, scheme) \<Rightarrow> addKnownTypes R scheme))"

section \<open>Setting up the controllers\<close>

definition VultrCluster_SetupWithManager ::
  "('w, 's) kruntime \<Rightarrow> VultrClusterReconciler \<Rightarrow> manager \<Rightarrow> (('w, 's) process, error option) comp" where
  "VultrCluster_SetupWithManager R r mgr =
     (let c = \<lparr>ct_For = Infra ''VultrCluster'',
        ct_EventFilters = [ResourceNotPaused (GetScheme R mgr)],
        ct_Watches = [\<lparr>w_object = CAPI ''Cluster'',
          w_handler = ClusterToInfrastructureMapFunc (Infra ''VultrCluster'') (GetClient R mgr),
          w_predicates = [ClusterUnpaused (GetScheme R mgr)]\<rparr>],
        ct_Reconciler = ClusterReconciler r\<rparr> in
      and_then (setup_do (CompleteCall c) no_error (Complete R mgr c))
        (\<lambda>err. ret (map_option (Wrap ''failed to build controller'') err)))"

definition VultrMachine_SetupWithManager ::
  "('w, 's) kruntime \<Rightarrow> VultrMachineReconciler \<Rightarrow> manager \<Rightarrow> (('w, 's) process, error option) comp" where
  "VultrMachine_SetupWithManager R r mgr =
     try_then (setup_do (NewMapperCall (vmr_Client r) (Infra ''VultrMachineList'') (GetScheme R mgr)) is_value
         (ClusterToTypedObjectsMapper R (vmr_Client r) (Infra ''VultrMachineList'') (GetScheme R mgr)))
       (\<lambda>err. ret (Some (Wrap ''failed to create mapper for Cluster to VultrMachines'' err)))
       (\<lambda>clusterToObjectFunc.
         let c = \<lparr>ct_For = Infra ''VultrMachine'',
           ct_EventFilters = [],
           ct_Watches =
             [\<lparr>w_object = CAPI ''Machine'',
               w_handler = MachineToInfrastructureMapFunc (Infra ''VultrMachine''),
               w_predicates = []\<rparr>,
              \<lparr>w_object = Infra ''VultrCluster'',
               w_handler = VultrClusterToMachines (vmr_Client r),
               w_predicates = []\<rparr>,
              \<lparr>w_object = CAPI ''Cluster'',
               w_handler = ClusterToObjects clusterToObjectFunc,
               w_predicates = [ClusterPausedTransitionsOrInfrastructureProvisioned (GetScheme R mgr)]\<rparr>],
           ct_Reconciler = MachineReconciler r\<rparr> in
         setup_do (CompleteCall c) no_error (Complete R mgr c))"

definition VultrBareMetalMachine_SetupWithManager ::
  "('w, 's) kruntime \<Rightarrow> VultrBareMetalMachineReconciler \<Rightarrow> manager \<Rightarrow> (('w, 's) process, error option) comp" where
  "VultrBareMetalMachine_SetupWithManager R r mgr =
     try_then (setup_do (NewMapperCall (bmr_Client r) (Infra ''VultrBareMetalMachineList'') (GetScheme R mgr)) is_value
         (ClusterToTypedObjectsMapper R (bmr_Client r) (Infra ''VultrBareMetalMachineList'') (GetScheme R mgr)))
       (\<lambda>err. ret (Some (Wrap ''failed to create mapper for Cluster to VultrBareMetalMachines'' err)))
       (\<lambda>clusterToObjectFunc.
         let c = \<lparr>ct_For = Infra ''VultrBareMetalMachine'',
           ct_EventFilters = [],
           ct_Watches =
             [\<lparr>w_object = CAPI ''Machine'',
               w_handler = MachineToInfrastructureMapFunc (Infra ''VultrBareMetalMachine''),
               w_predicates = []\<rparr>,
              \<lparr>w_object = Infra ''VultrCluster'',
               w_handler = VultrClusterToBareMetalMachines (bmr_Client r),
               w_predicates = []\<rparr>,
              \<lparr>w_object = CAPI ''Cluster'',
               w_handler = ClusterToObjects clusterToObjectFunc,
               w_predicates = [ClusterPausedTransitionsOrInfrastructureProvisioned (GetScheme R mgr)]\<rparr>],
           ct_Reconciler = BareMetalReconciler r\<rparr> in
         setup_do (CompleteCall c) no_error (Complete R mgr c))"

section \<open>The process\<close>

record flags =
  fl_metricsAddr :: string
  fl_probeAddr :: string
  fl_enableLeaderElection :: bool
  fl_secureMetrics :: bool
  fl_enableHTTP2 :: bool
  fl_reconcileTimeout :: int

definition main_flags :: "string \<Rightarrow> (flag_kind \<times> flag_value) option" where
  "main_flags name =
     (if name = ''metrics-bind-address'' then Some (StringFlag, VString '':8080'')
      else if name = ''health-probe-bind-address'' then Some (StringFlag, VString '':9440'')
      else if name = ''leader-elect'' then Some (BoolFlag, VBool False)
      else if name = ''metrics-secure'' then Some (BoolFlag, VBool False)
      else if name = ''enable-http2'' then Some (BoolFlag, VBool False)
      else if name = ''reconcile-timeout'' then Some (DurationFlag, VDuration DefaultLoopTimeout)
      else None)"

definition formal_flags :: "('w, 's) kruntime \<Rightarrow> string \<Rightarrow> flag_kind option" where
  "formal_flags R name = (case main_flags name of
      Some (k, _) \<Rightarrow> Some k
    | None \<Rightarrow> map_option (\<lambda>(b, accepts). LibraryFlag b accepts) (library_flags R name))"

definition default_values :: flag_values where
  "default_values name = map_option snd (main_flags name)"

text \<open>The variables the flags are bound to.\<close>

definition string_of :: "flag_value option \<Rightarrow> string" where
  "string_of v = (case v of Some (VString s) \<Rightarrow> s | _ \<Rightarrow> [])"

definition bool_of :: "flag_value option \<Rightarrow> bool" where
  "bool_of v = (case v of Some (VBool b) \<Rightarrow> b | _ \<Rightarrow> False)"

definition duration_of :: "flag_value option \<Rightarrow> int" where
  "duration_of v = (case v of Some (VDuration d) \<Rightarrow> d | _ \<Rightarrow> 0)"

definition flags_of :: "flag_values \<Rightarrow> flags" where
  "flags_of v = \<lparr>fl_metricsAddr = string_of (v ''metrics-bind-address''),
     fl_probeAddr = string_of (v ''health-probe-bind-address''),
     fl_enableLeaderElection = bool_of (v ''leader-elect''),
     fl_secureMetrics = bool_of (v ''metrics-secure''),
     fl_enableHTTP2 = bool_of (v ''enable-http2''),
     fl_reconcileTimeout = duration_of (v ''reconcile-timeout'')\<rparr>"

definition flag_Parse :: "('w, 's) kruntime \<Rightarrow> string list \<Rightarrow> nat + flags" where
  "flag_Parse R args = (case parse_flags (ParseDuration R) (formal_flags R) args default_values of
      Inl code \<Rightarrow> Inl code
    | Inr v \<Rightarrow> Inr (flags_of v))"

definition manager_options_of :: "'s \<Rightarrow> flags \<Rightarrow> 's manager_options" where
  "manager_options_of scheme fl = \<lparr>mo_Scheme = scheme,
     mo_MetricsBindAddress = fl_metricsAddr fl,
     mo_MetricsSecureServing = fl_secureMetrics fl,
     mo_HealthProbeBindAddress = fl_probeAddr fl,
     mo_LeaderElection = fl_enableLeaderElection fl,
     mo_LeaderElectionID = ''836d4a75.cluster.x-k8s.io''\<rparr>"

text \<open>\<^verbatim>\<open>if err != nil { os.Exit(1) }\<close>.\<close>

definition or_exit :: "(('w, 's) process, error option) comp \<Rightarrow> (('w, 's) process, nat) comp \<Rightarrow> (('w, 's) process, nat) comp" where
  "or_exit step rest = and_then step (\<lambda>err. if err \<noteq> None then ret 1 else rest)"

definition run_manager :: "('w, 's) kruntime \<Rightarrow> flags \<Rightarrow> manager \<Rightarrow> (('w, 's) process, nat) comp" where
  "run_manager R fl mgr =
     or_exit (VultrCluster_SetupWithManager R
       \<lparr>vcr_Client = GetClient R mgr, vcr_ReconcileTimeout = fl_reconcileTimeout fl,
        vcr_Recorder = GetEventRecorder R mgr ''vultrcluster-controller'', vcr_WatchFilterValue = []\<rparr> mgr)
     (or_exit (VultrMachine_SetupWithManager R
       \<lparr>vmr_Client = GetClient R mgr,
        vmr_Recorder = GetEventRecorder R mgr ''vultrmachine-controller'',
        vmr_ReconcileTimeout = fl_reconcileTimeout fl\<rparr> mgr)
     (or_exit (VultrBareMetalMachine_SetupWithManager R
       \<lparr>bmr_Client = GetClient R mgr,
        bmr_Recorder = GetEventRecorder R mgr ''vultrbaremetalmachine-controller'',
        bmr_ReconcileTimeout = fl_reconcileTimeout fl\<rparr> mgr)
     (or_exit (setup_do (HealthzCall ''healthz'') no_error (AddHealthzCheck R mgr ''healthz''))
     (or_exit (setup_do (ReadyzCall ''readyz'') no_error (AddReadyzCheck R mgr ''readyz''))
     (or_exit (setup_do StartCall no_error (Start R mgr))
     (ret 0))))))"

definition main :: "('w, 's) kruntime \<Rightarrow> string list \<Rightarrow> (('w, 's) process, nat) comp" where
  "main R args = (case init_main R of
      Inl msg \<Rightarrow> panic msg
    | Inr scheme \<Rightarrow> (case flag_Parse R args of
        Inl code \<Rightarrow> ret code
      | Inr fl \<Rightarrow>
          and_then (\<lambda>s. case GetConfig R (pr_world s) of (err, w) \<Rightarrow> Ret err (s\<lparr>pr_world := w\<rparr>)) (\<lambda>err.
          if err \<noteq> None then ret 1
          else
            try_then (setup_do (NewManagerCall (manager_options_of scheme fl)) is_value
                (NewManager R (manager_options_of scheme fl)))
              (\<lambda>_. ret 1)
              (run_manager R fl))))"

end
