(* ===== verification/Startup_Safety.thy ===== *)
theory Startup_Safety
  imports Startup
begin

text \<open>
  What holds of a start of the process: the calls follow a plan that the flags determine, up to the
  first failure, and every type of this API group that a controller names was registered.
\<close>

section \<open>The plan of a start\<close>

datatype 's stage =
    MakeManager "'s manager_options"
  | MakeMapper go_type
  | RunController go_type int
  | AddHealthz string
  | AddReadyz string
  | StartManager

fun timeout_of :: "reconciler \<Rightarrow> int" where
  "timeout_of (ClusterReconciler r) = vcr_ReconcileTimeout r"
| "timeout_of (MachineReconciler r) = vmr_ReconcileTimeout r"
| "timeout_of (BareMetalReconciler r) = bmr_ReconcileTimeout r"

fun stage_of :: "'s setup_call \<Rightarrow> 's stage" where
  "stage_of (NewManagerCall opts) = MakeManager opts"
| "stage_of (NewMapperCall _ t _) = MakeMapper t"
| "stage_of (CompleteCall c) = RunController (ct_For c) (timeout_of (ct_Reconciler c))"
| "stage_of (HealthzCall n) = AddHealthz n"
| "stage_of (ReadyzCall n) = AddReadyz n"
| "stage_of StartCall = StartManager"

definition manager_plan :: "flags \<Rightarrow> 's stage list" where
  "manager_plan fl =
     [RunController (Infra ''VultrCluster'') (fl_reconcileTimeout fl),
      MakeMapper (Infra ''VultrMachineList''),
      RunController (Infra ''VultrMachine'') (fl_reconcileTimeout fl),
      MakeMapper (Infra ''VultrBareMetalMachineList''),
      RunController (Infra ''VultrBareMetalMachine'') (fl_reconcileTimeout fl),
      AddHealthz ''healthz'', AddReadyz ''readyz'', StartManager]"

definition startup_plan :: "'s \<Rightarrow> flags \<Rightarrow> 's stage list" where
  "startup_plan scheme fl = MakeManager (manager_options_of scheme fl) # manager_plan fl"

text \<open>
  The calls follow a plan: stage by stage, until one fails, which is the last call and gives
  exit code 1; the code is 0 when none failed and all were made.
\<close>

fun follows :: "'s stage list \<Rightarrow> ('s setup_call \<times> bool) list \<Rightarrow> nat \<Rightarrow> bool" where
  "follows [] calls code \<longleftrightarrow> calls = [] \<and> code = 0"
| "follows (st # plan) [] code \<longleftrightarrow> False"
| "follows (st # plan) ((c, ok) # calls) code \<longleftrightarrow> stage_of c = st \<and>
     (if ok then follows plan calls code else calls = [] \<and> code = 1)"

lemma follows_stages: "follows plan calls code \<Longrightarrow> \<exists>rest. plan = map (stage_of \<circ> fst) calls @ rest"
  by (induction plan calls code rule: follows.induct) (auto split: if_splits)

lemma follows_before: "follows plan (before @ x # after) code \<Longrightarrow> y \<in> set before \<Longrightarrow> snd y"
proof (induction before arbitrary: plan)
  case (Cons b before)
  then show ?case by (cases plan; cases b) (auto split: if_splits)
qed simp

lemma follows_code: "follows plan calls code \<Longrightarrow>
  code = (if length calls = length plan \<and> (\<forall>x\<in>set calls. snd x) then 0 else 1)"
  by (induction plan calls code rule: follows.induct) (auto split: if_splits)

lemma follows_last_stage:
  assumes "follows (plan @ [st]) calls code" and "st \<notin> set plan" and "st \<in> set (map (stage_of \<circ> fst) calls)"
  shows "length calls = length (plan @ [st]) \<and> (\<forall>c\<in>set (butlast calls). snd c)"
proof -
  from follows_stages [OF assms(1)] obtain rest where plan: "plan @ [st] = map (stage_of \<circ> fst) calls @ rest" by blast
  from assms(2,3) plan have "rest = []" by (cases rest rule: rev_cases) auto
  with plan have len: "length calls = length (plan @ [st])" by (metis append_Nil2 length_map)
  then have "calls = butlast calls @ last calls # []" by (cases calls) auto
  then show ?thesis using len follows_before assms(1) by metis
qed

section \<open>Rules\<close>

text \<open>
  A run that makes calls along a plan, each of them satisfying \<open>P\<close>. The rule for a call covers both of
  the source's checks of its error.
\<close>

definition runs_plan ::
  "('s setup_call \<Rightarrow> bool) \<Rightarrow> 's stage list \<Rightarrow> (('w, 's) process, nat) comp \<Rightarrow> ('w, 's) process \<Rightarrow> bool" where
  "runs_plan P plan m s \<longleftrightarrow> (\<exists>code s' calls. m s = Ret code s' \<and> pr_calls s' = pr_calls s @ calls \<and>
     follows plan calls code \<and> (\<forall>c\<in>set calls. P (fst c)))"

lemma runs_plan_done: "runs_plan P [] (ret 0) s"
  by (auto simp: runs_plan_def intro!: exI [of _ "[]"])

lemma runs_plan_call:
  assumes "stage_of c = st" and "P c"
    and "\<And>w r w' s. f w = (r, w') \<Longrightarrow> ok r \<Longrightarrow> runs_plan P plan (k r) s" and "\<And>r s. \<not> ok r \<Longrightarrow> k r s = Ret 1 s"
  shows "runs_plan P (st # plan) (and_then (setup_do c ok f) k) s"
proof -
  obtain r w where f: "f (pr_world s) = (r, w)" by fastforce
  define s1 where "s1 = s\<lparr>pr_world := w, pr_calls := pr_calls s @ [(c, ok r)]\<rparr>"
  have call: "setup_do c ok f s = Ret r s1" by (simp add: setup_do_def f s1_def)
  show ?thesis
  proof (cases "ok r")
    case True
    from assms(3) [OF f this, of s1] obtain code s' calls where "k r s1 = Ret code s'"
        "pr_calls s' = pr_calls s1 @ calls" "follows plan calls code" "\<forall>c\<in>set calls. P (fst c)"
      unfolding runs_plan_def by blast
    with call True assms(1,2) show ?thesis
      unfolding runs_plan_def
      by (intro exI [of _ code] exI [of _ s'] exI [of _ "(c, True) # calls"]) (auto simp: s1_def)
  next
    case False
    with call assms(1,2,4) show ?thesis
      unfolding runs_plan_def
      by (intro exI [of _ 1] exI [of _ s1] exI [of _ "[(c, False)]"]) (auto simp: s1_def)
  qed
qed

lemmas setup_defs = or_exit_def try_then_def and_then_assoc VultrCluster_SetupWithManager_def
  VultrMachine_SetupWithManager_def VultrBareMetalMachine_SetupWithManager_def Let_def

lemma and_then_ret [simp]: "and_then (ret a) k = k a"
  by (rule ext) simp

text \<open>The types and the schemes a call names.\<close>

fun handler_types :: "map_func \<Rightarrow> go_type set" where
  "handler_types (MachineToInfrastructureMapFunc t) = {t}"
| "handler_types (ClusterToInfrastructureMapFunc t _) = {t}"
| "handler_types _ = {}"

fun predicate_scheme :: "'s predicate \<Rightarrow> 's" where
  "predicate_scheme (ResourceNotPaused s) = s"
| "predicate_scheme (ClusterUnpaused s) = s"
| "predicate_scheme (ClusterPausedTransitionsOrInfrastructureProvisioned s) = s"

fun call_types :: "'s setup_call \<Rightarrow> go_type set" where
  "call_types (NewMapperCall _ t _) = {t}"
| "call_types (CompleteCall c) =
     insert (ct_For c) (\<Union>w\<in>set (ct_Watches c). insert (w_object w) (handler_types (w_handler w)))"
| "call_types _ = {}"

fun call_schemes :: "'s setup_call \<Rightarrow> 's set" where
  "call_schemes (NewManagerCall opts) = {mo_Scheme opts}"
| "call_schemes (NewMapperCall _ _ s) = {s}"
| "call_schemes (CompleteCall c) = predicate_scheme ` (set (ct_EventFilters c) \<union>
     (\<Union>w\<in>set (ct_Watches c). set (w_predicates w)))"
| "call_schemes _ = {}"

definition manager_types :: "go_type set" where
  "manager_types = {CAPI ''Cluster'', CAPI ''Machine'', Infra ''VultrCluster'', Infra ''VultrMachine'',
     Infra ''VultrMachineList'', Infra ''VultrBareMetalMachine'', Infra ''VultrBareMetalMachineList''}"

lemma run_manager_runs_plan:
  assumes "\<And>c. call_types c \<subseteq> manager_types \<Longrightarrow> call_schemes c \<subseteq> {GetScheme R mgr} \<Longrightarrow> P c"
  shows "runs_plan P (manager_plan fl) (run_manager R fl mgr) s"
  unfolding manager_plan_def run_manager_def setup_defs
  by (intro runs_plan_call runs_plan_done assms)
    (auto simp: no_error_def is_value_def manager_types_def intro!: runs_plan_call runs_plan_done assms split: sum.splits)

section \<open>The start\<close>

lemma startup_plan_split:
  "\<exists>plan. startup_plan scheme fl = plan @ [StartManager] \<and> StartManager \<notin> set plan"
  by (rule exI [of _ "butlast (startup_plan scheme fl)"]) (simp add: startup_plan_def manager_plan_def)

lemma main_runs_plan:
  assumes init: "init_main R = Inr scheme" and "flag_Parse R args = Inr fl"
    and "fst (GetConfig R (pr_world s)) = None"
    and "P (NewManagerCall (manager_options_of scheme fl))"
    and "\<And>w mgr w' s. NewManager R (manager_options_of scheme fl) w = (Inr mgr, w') \<Longrightarrow>
      runs_plan P (manager_plan fl) (run_manager R fl mgr) s"
  shows "runs_plan P (startup_plan scheme fl) (main R args) s"
proof -
  obtain w where w: "GetConfig R (pr_world s) = (None, w)" using assms(3) by (cases "GetConfig R (pr_world s)") simp
  let ?m = "try_then (setup_do (NewManagerCall (manager_options_of scheme fl)) is_value
      (NewManager R (manager_options_of scheme fl))) (\<lambda>_. ret 1) (run_manager R fl)"
  have "runs_plan P (startup_plan scheme fl) ?m (s\<lparr>pr_world := w\<rparr>)"
    unfolding startup_plan_def try_then_def
    by (rule runs_plan_call) (auto simp: is_value_def assms(4) split: sum.splits intro!: assms(5))
  moreover have "main R args s = ?m (s\<lparr>pr_world := w\<rparr>)"
    by (simp add: main_def init assms(2) and_then_def w)
  ultimately show ?thesis by (simp add: runs_plan_def)
qed

text \<open>
  C19. Once the types are registered, the process always comes to an end of its start: wrong flags end it
  before any call, with code 2 (0 when help is asked for), and a missing configuration with
  code 1. Otherwise the calls follow the plan of the flags up to the first failure, so
  that the manager starts only after it was made with the options of the flags and all
  three controllers, with the timeout of the flags, and both probes were set up without an error;
  the exit code is 0 exactly when all of it succeeded and the manager stopped without an error.
\<close>

theorem startup_follows_plan:
  assumes "init_main R = Inr scheme"
  shows "\<exists>code s' calls. main R args s = Ret code s' \<and> pr_calls s' = pr_calls s @ calls \<and>
    (case flag_Parse R args of
       Inl c \<Rightarrow> calls = [] \<and> code = c \<and> c \<in> {0, 2}
     | Inr fl \<Rightarrow> if fst (GetConfig R (pr_world s)) \<noteq> None then calls = [] \<and> code = 1
         else follows (startup_plan scheme fl) calls code \<and>
           (StartCall \<in> fst ` set calls \<longrightarrow>
              length calls = length (startup_plan scheme fl) \<and> (\<forall>c\<in>set (butlast calls). snd c)) \<and>
           code = (if length calls = length (startup_plan scheme fl) \<and> (\<forall>c\<in>set calls. snd c) then 0 else 1))"
proof (cases "flag_Parse R args")
  case (Inl c)
  then have "c \<in> {0, 2}" by (auto simp: flag_Parse_def dest: parse_flags_codes split: sum.splits)
  with Inl show ?thesis by (simp add: main_def assms)
next
  case (Inr fl)
  show ?thesis
  proof (cases "fst (GetConfig R (pr_world s)) = None")
    case True
    have "runs_plan (\<lambda>_. True) (startup_plan scheme fl) (main R args) s"
      by (rule main_runs_plan [OF assms Inr True]) (auto intro: run_manager_runs_plan)
    then obtain code s' calls where run: "main R args s = Ret code s'" "pr_calls s' = pr_calls s @ calls"
        "follows (startup_plan scheme fl) calls code" unfolding runs_plan_def by blast
    obtain plan where plan: "startup_plan scheme fl = plan @ [StartManager]" "StartManager \<notin> set plan"
      using startup_plan_split [of scheme fl] by (elim exE conjE)
    have "StartCall \<in> fst ` set calls \<Longrightarrow> StartManager \<in> set (map (stage_of \<circ> fst) calls)" by force
    with follows_last_stage [OF run(3) [unfolded plan(1)] plan(2)]
    have started: "StartCall \<in> fst ` set calls \<longrightarrow>
        length calls = length (startup_plan scheme fl) \<and> (\<forall>c\<in>set (butlast calls). snd c)"
      unfolding plan(1) by blast
    show ?thesis
      unfolding Inr sum.case
      using run(1,2) run(3) started follows_code [OF run(3)] True by metis
  next
    case False
    then obtain e w where "GetConfig R (pr_world s) = (Some e, w)" by (cases "GetConfig R (pr_world s)") auto
    with Inr show ?thesis by (simp add: main_def assms and_then_def)
  qed
qed

section \<open>The types are registered\<close>

text \<open>
  What the scheme and the manager promise: registered types are recognised, registering the
  common types of a group version loses none, and a manager works with the scheme it was given.
\<close>

definition scheme_laws :: "('w, 's) kruntime \<Rightarrow> bool" where
  "scheme_laws R \<longleftrightarrow>
     (\<forall>gv types s s' k. AddKnownTypes R gv types s = Inr s' \<longrightarrow> k \<in> set types \<longrightarrow> Recognizes R s' gv k) \<and>
     (\<forall>gv gv' s k. Recognizes R s gv k \<longrightarrow> Recognizes R (AddToGroupVersion R gv' s) gv k) \<and>
     (\<forall>opts w mgr w'. NewManager R opts w = (Inr mgr, w') \<longrightarrow> GetScheme R mgr = mo_Scheme opts)"

lemma init_main_registers:
  assumes "scheme_laws R" and "init_main R = Inr scheme" and "k \<in> set objectTypes"
  shows "Recognizes R scheme GroupVersion_String k"
  using assms by (auto simp: scheme_laws_def init_main_def addKnownTypes_def split: prod.splits option.splits sum.splits)

lemmas objectTypes_defs = objectTypes_def init_VultrMachineTemplate_def init_VultrMachine_def
  init_VultrClusterTemplate_def init_VultrCluster_def init_VultrBareMetalMachineTemplate_def
  init_VultrBareMetalMachine_def

lemma manager_types_registered: "Infra k \<in> manager_types \<Longrightarrow> k \<in> set objectTypes"
  by (auto simp: manager_types_def objectTypes_defs)

text \<open>
  C21. Every call of a start is made with the scheme the types were registered in, and
  this scheme recognises every type of this API group that the call names: what the controllers
  reconcile, watch, list, and map to.
\<close>

theorem startup_types_registered:
  assumes "scheme_laws R" and "init_main R = Inr scheme" and "main R args s = Ret code s'"
    and "pr_calls s' = pr_calls s @ calls" and "c \<in> fst ` set calls"
  shows "call_schemes c \<subseteq> {scheme} \<and>
    (\<forall>k. Infra k \<in> call_types c \<longrightarrow> Recognizes R scheme GroupVersion_String k)"
proof (cases "\<exists>fl. flag_Parse R args = Inr fl \<and> fst (GetConfig R (pr_world s)) = None")
  case True
  then obtain fl where fl: "flag_Parse R args = Inr fl" "fst (GetConfig R (pr_world s)) = None" by blast
  let ?P = "\<lambda>c. call_schemes c \<subseteq> {scheme} \<and> call_types c \<subseteq> manager_types"
  have "runs_plan ?P (startup_plan scheme fl) (main R args) s"
  proof (rule main_runs_plan [OF assms(2) fl])
    fix w mgr w' s
    assume "NewManager R (manager_options_of scheme fl) w = (Inr mgr, w')"
    with assms(1) have "GetScheme R mgr = mo_Scheme (manager_options_of scheme fl)"
      unfolding scheme_laws_def by blast
    then have "GetScheme R mgr = scheme" by (simp add: manager_options_of_def)
    then show "runs_plan ?P (manager_plan fl) (run_manager R fl mgr) s" by (intro run_manager_runs_plan) simp
  qed (simp add: manager_options_of_def)
  with assms(3-5) have "?P c" by (auto simp: runs_plan_def)
  then show ?thesis
    using init_main_registers [OF assms(1,2)] manager_types_registered by blast
next
  case False
  then have "calls = []"
    using assms(2-4) by (auto simp: main_def and_then_def split: sum.splits prod.splits option.splits if_splits)
  with assms(5) show ?thesis by simp
qed

end
