(* ===== verification/Witnesses_Startup.thy ===== *)
theory Witnesses_Startup
  imports Startup_Safety
begin

text \<open>
  The properties of the start at concrete inputs: a runtime whose scheme is a list of names, whose
  manager keeps its scheme behind its handle, and whose readiness probe cannot be added.
\<close>

definition list_runtime :: "(unit, (string \<times> string) list) kruntime" where
  "list_runtime = \<lparr>
     ParseDuration = (\<lambda>s. if s = ''5m'' then Some (5 * Minute) else None),
     library_flags = (\<lambda>name. if name = ''zap-devel'' then Some (True, \<lambda>x. ParseBool x \<noteq> None) else None),
     NewScheme = [],
     clientgo_AddToScheme = (\<lambda>s. (None, (''v1'', ''Secret'') # s)),
     capi_AddToScheme = (\<lambda>s. (None, (''cluster.x-k8s.io/v1beta2'', ''Cluster'') # s)),
     AddKnownTypes = (\<lambda>gv types s. Inr (map (Pair gv) types @ s)),
     AddToGroupVersion = (\<lambda>gv s. (gv, ''WatchEvent'') # s),
     Recognizes = (\<lambda>s gv k. (gv, k) \<in> set s),
     GetConfig = (\<lambda>w. (None, w)),
     NewManager = (\<lambda>opts w. if mo_Scheme opts = ((GroupVersion_String, ''WatchEvent'') #
         map (Pair GroupVersion_String) objectTypes @
         [(''cluster.x-k8s.io/v1beta2'', ''Cluster''), (''v1'', ''Secret'')]) then (Inr 7, w) else (Inl (Err ''scheme''), w)),
     GetClient = (\<lambda>mgr. mgr + 1),
     GetScheme = (\<lambda>mgr. (GroupVersion_String, ''WatchEvent'') # map (Pair GroupVersion_String) objectTypes @
         [(''cluster.x-k8s.io/v1beta2'', ''Cluster''), (''v1'', ''Secret'')]),
     GetEventRecorder = (\<lambda>mgr name. mgr + length name),
     ClusterToTypedObjectsMapper = (\<lambda>c t s w. (Inr 3, w)),
     Complete = (\<lambda>mgr c w. (None, w)),
     AddHealthzCheck = (\<lambda>mgr n w. (None, w)),
     AddReadyzCheck = (\<lambda>mgr n w. (Some (Err ''already started''), w)),
     Start = (\<lambda>mgr w. (None, w))\<rparr>"

definition list_scheme :: "(string \<times> string) list" where
  "list_scheme = (GroupVersion_String, ''WatchEvent'') # map (Pair GroupVersion_String) objectTypes @
     [(''cluster.x-k8s.io/v1beta2'', ''Cluster''), (''v1'', ''Secret'')]"

definition first_process :: "(unit, (string \<times> string) list) process" where
  "first_process = \<lparr>pr_world = (), pr_calls = []\<rparr>"

definition list_args :: "string list" where
  "list_args = [''--leader-elect'', ''-zap-devel=false'', ''--reconcile-timeout'', ''5m'']"

definition list_flags :: flags where
  "list_flags = \<lparr>fl_metricsAddr = '':8080'', fl_probeAddr = '':9440'', fl_enableLeaderElection = True,
     fl_secureMetrics = False, fl_enableHTTP2 = False, fl_reconcileTimeout = 5 * Minute\<rparr>"

lemma list_init: "init_main list_runtime = Inr list_scheme"
  by (simp add: init_main_def addKnownTypes_def list_runtime_def list_scheme_def)

lemma list_scheme_laws: "scheme_laws list_runtime"
  by (auto simp: scheme_laws_def list_runtime_def split: if_splits)

lemma list_parsed: "flag_Parse list_runtime list_args = Inr list_flags"
  by code_simp

lemma list_config: "GetConfig list_runtime w = (None, w)"
  by (simp add: list_runtime_def)

lemma list_main:
  "\<exists>s' c. main list_runtime list_args first_process = Ret 1 s' \<and> length (pr_calls s') = 8 \<and>
     c \<in> fst ` set (pr_calls s') \<and> Infra ''VultrMachineList'' \<in> call_types c"
proof -
  have "(case main list_runtime list_args first_process of
      Ret code s' \<Rightarrow> code = 1 \<and> length (pr_calls s') = 8 \<and>
        (case fst (pr_calls s' ! 2) of NewMapperCall _ t _ \<Rightarrow> t = Infra ''VultrMachineList'' | _ \<Rightarrow> False)
    | _ \<Rightarrow> False)"
    by code_simp
  then obtain s' where s': "main list_runtime list_args first_process = Ret 1 s'" "length (pr_calls s') = 8"
      "Infra ''VultrMachineList'' \<in> call_types (fst (pr_calls s' ! 2))"
    by (auto split: outcome.splits setup_call.splits)
  then have "fst (pr_calls s' ! 2) \<in> fst ` set (pr_calls s')" by simp
  with s' show ?thesis by blast
qed

theorem startup_follows_plan_witness:
  "\<exists>s'. main list_runtime list_args first_process = Ret 1 s' \<and> length (pr_calls s') = 8 \<and>
     follows (startup_plan list_scheme list_flags) (pr_calls s') 1"
proof -
  obtain code s' calls where "main list_runtime list_args first_process = Ret code s'"
      "pr_calls s' = pr_calls first_process @ calls" "follows (startup_plan list_scheme list_flags) calls code"
    using startup_follows_plan [OF list_init, of list_args first_process]
    unfolding list_parsed list_config sum.case fst_conv by auto
  then show ?thesis using list_main by (auto simp: first_process_def)
qed

theorem startup_types_registered_witness:
  "\<exists>s' c. main list_runtime list_args first_process = Ret 1 s' \<and> c \<in> fst ` set (pr_calls s') \<and>
     call_schemes c \<subseteq> {list_scheme} \<and> Infra ''VultrMachineList'' \<in> call_types c \<and>
     Recognizes list_runtime list_scheme GroupVersion_String ''VultrMachineList''"
proof -
  obtain s' c where run: "main list_runtime list_args first_process = Ret 1 s'"
      "c \<in> fst ` set (pr_calls s')" "Infra ''VultrMachineList'' \<in> call_types c"
    using list_main by blast
  have "pr_calls s' = pr_calls first_process @ pr_calls s'" by (simp add: first_process_def)
  from startup_types_registered [OF list_scheme_laws list_init run(1) this run(2)] run show ?thesis by blast
qed

end
