(* ===== verification/Steady.thy ===== *)
theory Steady
  imports Cloud_View Server_View Cluster_Controller
begin

text \<open>
  What none of the controllers changes. A measure of the world that no call of a controller raises
  is not raised by a whole run of its \<^verbatim>\<open>Reconcile\<close>: the laws \<open>vm_steady\<close>, \<open>bm_steady\<close> and \<open>vc_steady\<close> name the
  calls each controller makes, and the lemmas \<open>Reconcile_steady\<close> conclude for the runs, panics
  included. An invariant of the world is such a measure too (\<open>violated\<close>). Updates of a load balancer's
  members are judged together with the read before them.
\<close>

section \<open>Measures and calls\<close>

definition steady :: "('w \<Rightarrow> nat) \<Rightarrow> ('w \<Rightarrow> 'r \<times> 'w) \<Rightarrow> bool" where
  "steady f g \<longleftrightarrow> (\<forall>w. f (snd (g w)) \<le> f w)"

named_theorems steady_rules
  \<open>rules that a computation does not raise a measure\<close>

lemma grows_steady_call [steady_rules]: "steady f g \<Longrightarrow> grows f 0 (call e g)"
  by (rule grows_call) (simp add: steady_def)

lemma grows_steady_kube_call [steady_rules]: "steady f g \<Longrightarrow> grows f 0 (kube_call g)"
  by (simp add: grows_def wp_rules steady_def)

lemma grows_case_prod [steady_rules]: "(\<And>a b. p = (a, b) \<Longrightarrow> grows f n (k a b)) \<Longrightarrow> grows f n (case p of (a, b) \<Rightarrow> k a b)"
  by (simp split: prod.split)

lemma grows_deferred:
  assumes "grows f 0 m" and "\<And>a. grows f 0 (after a)" and "grows f 0 on_panic"
  shows "grows f 0 (deferred after on_panic m)"
  unfolding grows_def
proof (intro allI)
  fix s
  have m: "wp m (\<lambda>_ s'. f (world s') \<le> f (world s)) (\<lambda>s'. f (world s') \<le> f (world s)) s"
    using grows_wp [OF assms(1), of s] by simp
  show "wp (deferred after on_panic m) (\<lambda>_ s'. f (world s') \<le> f (world s) + 0) (\<lambda>s'. f (world s') \<le> f (world s) + 0) s"
  proof (cases "m s")
    case (Ret a s')
    then show ?thesis
      using m grows_wp [OF assms(2) [of a], of s'] by (cases "after a s'") (simp_all add: wp_def deferred_def)
  next
    case (Panic msg s')
    then show ?thesis
      using m grows_wp [OF assms(3), of s'] by (cases "on_panic s'") (simp_all add: wp_def deferred_def)
  qed (simp add: wp_def deferred_def)
qed

text \<open>An invariant is a measure that is 0 where it holds.\<close>

definition violated :: "('w \<Rightarrow> bool) \<Rightarrow> 'w \<Rightarrow> nat" where
  "violated I w = (if I w then 0 else 1)"

lemma violated_le: "violated I w' \<le> violated I w \<longleftrightarrow> (I w \<longrightarrow> I w')"
  by (simp add: violated_def)

lemma steady_violated: "steady (violated I) g \<longleftrightarrow> (\<forall>w. I w \<longrightarrow> I (snd (g w)))"
  by (simp add: steady_def violated_le)

lemma adds_nothing_steady: "adds_nothing view g \<longleftrightarrow> (\<forall>P. steady (count view P) g)"
  by (auto simp: adds_nothing_def steady_def)

lemma listing_steady:
  assumes "\<And>opts. steady f (api opts)" and "listing api opts w r reqs w'"
  shows "f w' \<le> f w"
  using assms(2)
proof (induction rule: listing.induct)
  case (listing_error options w page w' err)
  then show ?case using assms(1) [of options] by (metis snd_conv steady_def)
next
  case (listing_last options w page w')
  then show ?case using assms(1) [of options] by (metis snd_conv steady_def)
next
  case (listing_next options w page w' c r reqs w'')
  then show ?case using assms(1) [of options] by (metis le_trans snd_conv steady_def)
qed

lemma find_instance_steady:
  assumes "\<And>opts. steady f (Instances_List (Instances (cs_clients cs)) opts)"
  shows "grows f 0 (FindInstanceForMachine cs name role)"
  unfolding grows_def
proof (intro allI)
  fix s
  note le = listing_steady [where f = f, OF assms]
  show "wp (FindInstanceForMachine cs name role) (\<lambda>_ s'. f (world s') \<le> f (world s) + 0)
      (\<lambda>s'. f (world s') \<le> f (world s) + 0) s"
    by (rule instances.find_res_cases [of cs name s role]) (auto simp: wp_def dest: le)
qed

lemma find_server_steady:
  assumes "\<And>opts. steady f (BareMetal_List (BareMetal (cs_clients cs)) opts)"
  shows "grows f 0 (FindBareMetalServerByTags cs name role)"
  unfolding grows_def
proof (intro allI)
  fix s
  note le = listing_steady [where f = f, OF assms]
  show "wp (FindBareMetalServerByTags cs name role) (\<lambda>_ s'. f (world s') \<le> f (world s) + 0)
      (\<lambda>s'. f (world s') \<le> f (world s) + 0) s"
    by (rule servers.find_res_cases [of cs name s role]) (auto simp: wp_def dest: le)
qed

section \<open>The shared services\<close>

text \<open>
  How the code changes the members of a load balancer it has read: one that is not there is
  appended, or one is taken out, and never the last.
\<close>

definition member_update :: "string list \<Rightarrow> string list \<Rightarrow> bool" where
  "member_update xs ys \<longleftrightarrow>
     (\<exists>i. i \<notin> set xs \<and> ys = xs @ [i]) \<or> (\<exists>i. ys = filter (\<lambda>x. x \<noteq> i) xs \<and> ys \<noteq> [])"

definition member_updates_steady :: "('w \<Rightarrow> nat) \<Rightarrow> 'w ClusterScope \<Rightarrow> bool" where
  "member_updates_steady f cs \<longleftrightarrow>
     (\<forall>lbID w a w' lb ys. LoadBalancers_Get (LoadBalancers (cs_clients cs)) lbID w = (a, w') \<longrightarrow>
        a_err a = None \<longrightarrow> a_value a = Some lb \<longrightarrow> member_update (gl_Instances lb) ys \<longrightarrow>
        f (snd (LoadBalancers_Update (LoadBalancers (cs_clients cs)) lbID (members_req ys) w')) \<le> f w)"

definition shared_steady :: "('w \<Rightarrow> nat) \<Rightarrow> 'w env \<Rightarrow> 'w ClusterScope \<Rightarrow> bool" where
  "shared_steady f E cs \<longleftrightarrow>
     (\<forall>k. steady f (SSHKeys_Get (SSHKeys (cs_clients cs)) k)) \<and>
     (\<forall>i. steady f (LoadBalancers_Get (LoadBalancers (cs_clients cs)) i)) \<and>
     member_updates_steady f cs \<and>
     (\<forall>key. steady f (GetSecret E key))"

lemma shared_steady_lb:
  assumes "shared_steady f E cs" and "LoadBalancers_Get (LoadBalancers (cs_clients cs)) lbID w = (a, w')"
  shows "f w' \<le> f w"
    and "a_err a = None \<Longrightarrow> a_value a = Some lb \<Longrightarrow> member_update (gl_Instances lb) ys \<Longrightarrow>
      f (snd (LoadBalancers_Update (LoadBalancers (cs_clients cs)) lbID (members_req ys) w')) \<le> f w"
proof -
  show "f w' \<le> f w" using assms unfolding shared_steady_def steady_def by (metis snd_conv)
  show "a_err a = None \<Longrightarrow> a_value a = Some lb \<Longrightarrow> member_update (gl_Instances lb) ys \<Longrightarrow>
      f (snd (LoadBalancers_Update (LoadBalancers (cs_clients cs)) lbID (members_req ys) w')) \<le> f w"
    using assms unfolding shared_steady_def member_updates_steady_def by blast
qed

lemma ensure_member_steady:
  fixes f :: "'w \<Rightarrow> nat"
  assumes "shared_steady f E cs"
  shows "grows f 0 (EnsureLoadBalancerMember cs lbID i :: (('w, 'o) st, error + bool) comp)"
  unfolding grows_def
proof (intro allI)
  fix s :: "('w, 'o) st"
  obtain a w where g: "LoadBalancers_Get (LoadBalancers (cs_clients cs)) lbID (world s) = (a, w)" by fastforce
  have add: "member_update xs (xs @ [i])" if "i \<notin> set xs" for xs
    using that by (auto simp: member_update_def)
  show "wp (EnsureLoadBalancerMember cs lbID i) (\<lambda>_ s'. f (world s') \<le> f (world s) + 0)
      (\<lambda>s'. f (world s') \<le> f (world s) + 0) s"
    unfolding EnsureLoadBalancerMember_def Let_def
    using shared_steady_lb [OF assms g] add by (auto simp: wp_rules g split: option.split)
qed

lemma remove_member_steady:
  fixes f :: "'w \<Rightarrow> nat"
  assumes "shared_steady f E cs"
  shows "grows f 0 (RemoveLoadBalancerMember cs lbID i :: (('w, 'o) st, error option) comp)"
  unfolding grows_def
proof (intro allI)
  fix s :: "('w, 'o) st"
  obtain a w where g: "LoadBalancers_Get (LoadBalancers (cs_clients cs)) lbID (world s) = (a, w)" by fastforce
  have del: "member_update xs (filter (\<lambda>x. x \<noteq> i) xs)" if "filter (\<lambda>x. x \<noteq> i) xs \<noteq> []" for xs
    using that by (auto simp: member_update_def)
  show "wp (RemoveLoadBalancerMember cs lbID i) (\<lambda>_ s'. f (world s') \<le> f (world s) + 0)
      (\<lambda>s'. f (world s') \<le> f (world s) + 0) s"
    unfolding RemoveLoadBalancerMember_def Let_def
    using shared_steady_lb [OF assms g] del by (auto simp: wp_rules g split: option.split)
qed

lemma shared_services_steady:
  assumes "shared_steady f E cs"
  shows "grows f 0 (GetSSHKey cs key)" and "grows f 0 (GetBootstrapData E machine ns)"
  using assms
  unfolding GetSSHKey_def GetBootstrapData_def shared_steady_def Let_def
  by (auto intro!: steady_rules grow_rules)

section \<open>The VultrMachine controller\<close>

definition vm_steady :: "('w \<Rightarrow> nat) \<Rightarrow> 'w env \<Rightarrow> 'w ClusterScope \<Rightarrow> bool" where
  "vm_steady f E cs \<longleftrightarrow>
     (\<forall>i. steady f (Instances_Get (Instances (cs_clients cs)) i)) \<and>
     (\<forall>opts. steady f (Instances_List (Instances (cs_clients cs)) opts)) \<and>
     (\<forall>req. steady f (Instances_Create (Instances (cs_clients cs)) req)) \<and>
     (\<forall>i. steady f (Instances_Delete (Instances (cs_clients cs)) i)) \<and>
     (\<forall>old new. steady f (PatchVM E old new)) \<and>
     shared_steady f E cs"

lemma vm_steadyD:
  assumes "vm_steady f E cs"
  shows "steady f (Instances_Get (Instances (cs_clients cs)) i)"
    and "steady f (Instances_List (Instances (cs_clients cs)) opts)"
    and "steady f (Instances_Create (Instances (cs_clients cs)) req)"
    and "steady f (Instances_Delete (Instances (cs_clients cs)) i)"
    and "steady f (PatchVM E old new)" and "shared_steady f E cs"
  using assms by (simp_all add: vm_steady_def)

lemma instance_ssh_keys_steady:
  assumes "vm_steady f E cs"
  shows "grows f 0 (instance_ssh_keys cs keys acc)"
  by (induction keys arbitrary: acc)
    (auto intro!: grow_rules shared_services_steady(1) [OF vm_steadyD(6) [OF assms]])

lemma CreateInstance_steady:
  assumes "vm_steady f E cs"
  shows "grows f 0 (CreateInstance E cs ms)"
  unfolding CreateInstance_def MachineScope_GetBootstrapData_def submit_instance_def Let_def
  by (intro grow_rules steady_rules vm_steadyD [OF assms] instance_ssh_keys_steady [OF assms]
      shared_services_steady [OF vm_steadyD(6) [OF assms]])

lemma findOrCreateInstance_steady:
  assumes "vm_steady f E cs"
  shows "grows f 0 (findOrCreateInstance E cs ms)"
  unfolding findOrCreateInstance_def create_instance_step_def GetInstance_def Let_def
  by (intro grow_rules steady_rules vm_steadyD [OF assms] CreateInstance_steady [OF assms]
      find_instance_steady)

lemma reconcile_instance_steady:
  assumes "vm_steady f E cs"
  shows "grows f 0 (reconcile_instance E cs ms i)"
  unfolding reconcile_instance_def persist_provider_id_def MachineScope_PatchObject_def set_instance_details_def
    join_load_balancer_def set_instance_addresses_def report_instance_status_def
    MachineScope_SetTerminalFailure_def MachineScope_SetReadyCondition_def Let_def
  by (intro grow_rules steady_rules vm_steadyD [OF assms] ensure_member_steady [OF vm_steadyD(6) [OF assms]])

lemma vm_handlers_steady:
  assumes "vm_steady f E cs"
  shows "grows f 0 (VultrMachine_reconcileNormal E cs ms)" and "grows f 0 (VultrMachine_reconcileDelete E cs ms)"
  unfolding VultrMachine_reconcileNormal_def reconcile_bootstrapped_def MachineScope_SetReadyCondition_def
    VultrMachine_reconcileDelete_def delete_known_instance_def delete_remaining_instance_def
    finish_instance_delete_def DeleteInstance_def Let_def
  by (intro grow_rules steady_rules vm_steadyD [OF assms] findOrCreateInstance_steady [OF assms]
      reconcile_instance_steady [OF assms] find_instance_steady)+

lemma vm_run_scopes_steady:
  assumes "vm_steady f E cs"
  shows "grows f 0 (VultrMachine_run_scopes E cs ms deleting)"
  unfolding VultrMachine_run_scopes_def VultrMachine_close_after_def MachineScope_Close_def
  by (intro grows_deferred grow_rules steady_rules vm_handlers_steady [OF assms] vm_steadyD [OF assms])

section \<open>The VultrBareMetalMachine controller\<close>

definition bm_steady :: "('w \<Rightarrow> nat) \<Rightarrow> 'w env \<Rightarrow> 'w ClusterScope \<Rightarrow> bool" where
  "bm_steady f E cs \<longleftrightarrow>
     (\<forall>i. steady f (BareMetal_Get (BareMetal (cs_clients cs)) i)) \<and>
     (\<forall>opts. steady f (BareMetal_List (BareMetal (cs_clients cs)) opts)) \<and>
     (\<forall>req. steady f (BareMetal_Create (BareMetal (cs_clients cs)) req)) \<and>
     (\<forall>i. steady f (BareMetal_Delete (BareMetal (cs_clients cs)) i)) \<and>
     (\<forall>i. steady f (BareMetal_ListVPCInfo (BareMetal (cs_clients cs)) i)) \<and>
     (\<forall>i v. steady f (BareMetal_AttachVPC (BareMetal (cs_clients cs)) i v)) \<and>
     (\<forall>old new. steady f (PatchBM E old new)) \<and>
     shared_steady f E cs"

lemma bm_steadyD:
  assumes "bm_steady f E cs"
  shows "steady f (BareMetal_Get (BareMetal (cs_clients cs)) i)"
    and "steady f (BareMetal_List (BareMetal (cs_clients cs)) opts)"
    and "steady f (BareMetal_Create (BareMetal (cs_clients cs)) req)"
    and "steady f (BareMetal_Delete (BareMetal (cs_clients cs)) i)"
    and "steady f (BareMetal_ListVPCInfo (BareMetal (cs_clients cs)) i)"
    and "steady f (BareMetal_AttachVPC (BareMetal (cs_clients cs)) i v)"
    and "steady f (PatchBM E old new)" and "shared_steady f E cs"
  using assms by (simp_all add: bm_steady_def)

lemma bare_metal_ssh_keys_steady:
  assumes "bm_steady f E cs"
  shows "grows f 0 (bare_metal_ssh_keys cs keys acc)"
  by (induction keys arbitrary: acc)
    (auto intro!: grow_rules shared_services_steady(1) [OF bm_steadyD(8) [OF assms]])

lemma CreateBareMetalServer_steady:
  assumes "bm_steady f E cs"
  shows "grows f 0 (CreateBareMetalServer E cs bsc)"
  unfolding CreateBareMetalServer_def BareMetalMachineScope_GetBootstrapData_def submit_server_def Let_def
  by (intro grow_rules steady_rules bm_steadyD [OF assms] bare_metal_ssh_keys_steady [OF assms]
      shared_services_steady [OF bm_steadyD(8) [OF assms]])

lemma findOrCreateServer_steady:
  assumes "bm_steady f E cs"
  shows "grows f 0 (findOrCreateServer E cs bsc)"
  unfolding findOrCreateServer_def create_server_step_def GetBareMetalServer_def Let_def
  by (intro grow_rules steady_rules bm_steadyD [OF assms] CreateBareMetalServer_steady [OF assms]
      find_server_steady)

lemma reconcile_server_steady:
  assumes "bm_steady f E cs"
  shows "grows f 0 (reconcile_server E cs bsc server)"
proof -
  have "grows f 0 (attach_vpc E cs server)"
    unfolding attach_vpc_def EnsureBareMetalVPC_def BareMetalMachineScope_SetTerminalFailure_def
      BareMetalMachineScope_SetReadyCondition_def Let_def
    by (intro grow_rules steady_rules bm_steadyD [OF assms])
  then show ?thesis
    unfolding reconcile_server_def set_server_details_def check_server_status_def server_join_load_balancer_def
      report_server_active_def BareMetalMachineScope_SetTerminalFailure_def
      BareMetalMachineScope_SetReadyCondition_def Let_def
    by (intro grow_rules ensure_member_steady [OF bm_steadyD(8) [OF assms]])
qed

lemma bm_handlers_steady:
  assumes "bm_steady f E cs"
  shows "grows f 0 (VultrBareMetalMachine_reconcileNormal E cs bsc)"
    and "grows f 0 (VultrBareMetalMachine_reconcileDelete E cs bsc)"
  unfolding VultrBareMetalMachine_reconcileNormal_def reconcile_bootstrapped_server_def
    BareMetalMachineScope_SetReadyCondition_def VultrBareMetalMachine_reconcileDelete_def delete_known_server_def
    delete_remaining_server_def finish_server_delete_def DeleteBareMetalServer_def Let_def
  by (intro grow_rules steady_rules bm_steadyD [OF assms] findOrCreateServer_steady [OF assms]
      reconcile_server_steady [OF assms] find_server_steady remove_member_steady [OF bm_steadyD(8) [OF assms]])+

lemma bm_run_scopes_steady:
  assumes "bm_steady f E cs"
  shows "grows f 0 (VultrBareMetalMachine_run_scopes E cs bsc deleting)"
  unfolding VultrBareMetalMachine_run_scopes_def VultrBareMetalMachine_close_after_def BareMetalMachineScope_Close_def
  by (intro grows_deferred grow_rules steady_rules bm_handlers_steady [OF assms] bm_steadyD [OF assms])

section \<open>The VultrCluster controller\<close>

text \<open>A load balancer is created without members.\<close>

definition vc_steady :: "('w \<Rightarrow> nat) \<Rightarrow> 'w env \<Rightarrow> 'w ClusterScope \<Rightarrow> bool" where
  "vc_steady f E cs \<longleftrightarrow>
     (\<forall>i. steady f (LoadBalancers_Get (LoadBalancers (cs_clients cs)) i)) \<and>
     (\<forall>req. lq_Instances req = [] \<longrightarrow> steady f (LoadBalancers_Create (LoadBalancers (cs_clients cs)) req)) \<and>
     (\<forall>i. steady f (LoadBalancers_Delete (LoadBalancers (cs_clients cs)) i)) \<and>
     (\<forall>old new. steady f (PatchVC E old new))"

lemma vc_steadyD:
  assumes "vc_steady f E cs"
  shows "steady f (LoadBalancers_Get (LoadBalancers (cs_clients cs)) i)"
    and "steady f (LoadBalancers_Create (LoadBalancers (cs_clients cs)) (lb_create_req cs' hc gi rules))"
    and "steady f (LoadBalancers_Delete (LoadBalancers (cs_clients cs)) i)"
    and "steady f (PatchVC E old new)"
  using assms by (simp_all add: vc_steady_def lb_create_req_def)

lemma vc_services_steady:
  assumes "vc_steady f E cs"
  shows "grows f 0 (GetLoadBalancer (scope_now cs vc) lbID)"
    and "grows f 0 (CreateLoadBalancer (scope_now cs vc) spec)"
    and "grows f 0 (DeleteLoadBalancer (scope_now cs vc) lbID)"
proof -
  have "cs_clients (scope_now cs vc) = cs_clients cs" by (simp add: scope_now_def)
  then show "grows f 0 (GetLoadBalancer (scope_now cs vc) lbID)"
    and "grows f 0 (CreateLoadBalancer (scope_now cs vc) spec)"
    and "grows f 0 (DeleteLoadBalancer (scope_now cs vc) lbID)"
    unfolding GetLoadBalancer_def CreateLoadBalancer_def DeleteLoadBalancer_def Let_def
    by (simp_all only:) (intro grow_rules steady_rules vc_steadyD [OF assms])+
qed

lemma vc_run_scope_steady:
  assumes "vc_steady f E cs"
  shows "grows f 0 (VultrCluster_run_scope E cs)"
  unfolding VultrCluster_run_scope_def VultrCluster_close_after_def ClusterScope_Close_def
    VultrCluster_reconcileNormal_def VultrCluster_reconcileDelete_def find_or_create_lb_def create_lb_def
    reconcile_lb_def note_lb_def report_cluster_ready_def set_cluster_condition_def Let_def
  by (intro grows_deferred grow_rules steady_rules vc_services_steady [OF assms] vc_steadyD [OF assms])

section \<open>The reconcilers\<close>

definition kube_steady :: "('w \<Rightarrow> nat) \<Rightarrow> 'w env \<Rightarrow> bool" where
  "kube_steady f E \<longleftrightarrow>
     (\<forall>n. steady f (GetVultrMachine E n)) \<and> (\<forall>n. steady f (GetVultrBareMetalMachine E n)) \<and>
     (\<forall>n. steady f (GetVultrCluster E n)) \<and> (\<forall>meta. steady f (GetOwnerMachine E meta)) \<and>
     (\<forall>meta. steady f (GetOwnerCluster E meta)) \<and> (\<forall>meta. steady f (GetClusterFromMetadata E meta)) \<and>
     (\<forall>cluster vm. steady f (EnsurePausedVM E cluster vm)) \<and> (\<forall>cluster bm. steady f (EnsurePausedBM E cluster bm))"

lemma kube_steadyD:
  assumes "kube_steady f E"
  shows "steady f (GetVultrMachine E n)" and "steady f (GetVultrBareMetalMachine E n)"
    and "steady f (GetVultrCluster E n)" and "steady f (GetOwnerMachine E meta)"
    and "steady f (GetOwnerCluster E meta)" and "steady f (GetClusterFromMetadata E meta)"
    and "steady f (EnsurePausedVM E cluster vm)" and "steady f (EnsurePausedBM E cluster bm)"
  using assms by (simp_all add: kube_steady_def)

definition clients_keep :: "'w env \<Rightarrow> ('w ClusterScope \<Rightarrow> bool) \<Rightarrow> bool" where
  "clients_keep E L \<longleftrightarrow> (\<forall>cluster vc cs. NewClusterScope E (cluster_scope_params cluster vc) = Inr cs \<longrightarrow> L cs)"

lemma clients_keepD: "clients_keep E L \<Longrightarrow> NewClusterScope E (cluster_scope_params cluster vc) = Inr cs \<Longrightarrow> L cs"
  unfolding clients_keep_def by blast

lemma VultrMachine_Reconcile_steady:
  assumes "kube_steady f E" and "clients_keep E (vm_steady f E)"
  shows "grows f 0 (VultrMachine_Reconcile E req)"
  unfolding VultrMachine_Reconcile_def VultrMachine_with_cluster_def ensure_paused_def Let_def
  by (intro grow_rules steady_rules kube_steadyD [OF assms(1)] vm_run_scopes_steady clients_keepD [OF assms(2)])

lemma VultrBareMetalMachine_Reconcile_steady:
  assumes "kube_steady f E" and "clients_keep E (bm_steady f E)"
  shows "grows f 0 (VultrBareMetalMachine_Reconcile E req)"
  unfolding VultrBareMetalMachine_Reconcile_def VultrBareMetalMachine_with_cluster_def ensure_paused_def Let_def
  by (intro grow_rules steady_rules kube_steadyD [OF assms(1)] bm_run_scopes_steady clients_keepD [OF assms(2)])

lemma VultrCluster_Reconcile_steady:
  assumes "kube_steady f E" and "clients_keep E (vc_steady f E)"
  shows "grows f 0 (VultrCluster_Reconcile E req)"
  unfolding VultrCluster_Reconcile_def Let_def
  by (intro grow_rules steady_rules kube_steadyD [OF assms(1)] vc_run_scope_steady clients_keepD [OF assms(2)])

end
