(* ===== verification/System.thy ===== *)
theory System
  imports Steady
begin

text \<open>
  The three controllers on one cloud. Runs of their \<^verbatim>\<open>Reconcile\<close> functions follow each other in any
  order, mixed with what else happens in the cloud, and the invariants hold together: at most
  one instance and one server is made for each machine, and no load balancer with a member twice or
  without members once it had some. A run of one controller could break what another
  one keeps; theory \<open>Steady\<close> shows that it does not.
\<close>

section \<open>Load balancers in view\<close>

text \<open>
  The members of every load balancer, by its ID. Where the ID of a new load balancer comes from is
  up to the cloud, but it is none of \<open>old\<close>.
\<close>

type_synonym 'w lb_view = "'w \<Rightarrow> string \<Rightarrow> string list option"

definition unchanged :: "('w \<Rightarrow> 'v) \<Rightarrow> ('w \<Rightarrow> 'r \<times> 'w) \<Rightarrow> bool" where
  "unchanged v g \<longleftrightarrow> (\<forall>w. v (snd (g w)) = v w)"

definition lb_laws :: "'w ClusterScope \<Rightarrow> 'w lb_view \<Rightarrow> string set \<Rightarrow> bool" where
  "lb_laws cs lbs old \<longleftrightarrow>
     (\<forall>lbID w a w'. LoadBalancers_Get (LoadBalancers (cs_clients cs)) lbID w = (a, w') \<longrightarrow>
        lbs w' = lbs w \<and> (\<forall>lb. a_err a = None \<longrightarrow> a_value a = Some lb \<longrightarrow> lbs w lbID = Some (gl_Instances lb))) \<and>
     (\<forall>lbID req w. lbs (snd (LoadBalancers_Update (LoadBalancers (cs_clients cs)) lbID req w)) \<in>
        {lbs w, (lbs w)(lbID \<mapsto> lq_Instances req)}) \<and>
     (\<forall>req w. lbs (snd (LoadBalancers_Create (LoadBalancers (cs_clients cs)) req w)) \<in>
        insert (lbs w) {(lbs w)(lbID \<mapsto> lq_Instances req) | lbID. lbID \<notin> old}) \<and>
     (\<forall>lbID w. lbs (snd (LoadBalancers_Delete (LoadBalancers (cs_clients cs)) lbID w)) \<in>
        {lbs w, (lbs w)(lbID := None)})"

text \<open>No other call concerns load balancers.\<close>

definition other_calls_law :: "'w env \<Rightarrow> 'w ClusterScope \<Rightarrow> ('w \<Rightarrow> 'v) \<Rightarrow> bool" where
  "other_calls_law E cs v \<longleftrightarrow>
     (\<forall>i. unchanged v (Instances_Get (Instances (cs_clients cs)) i)) \<and>
     (\<forall>opts. unchanged v (Instances_List (Instances (cs_clients cs)) opts)) \<and>
     (\<forall>req. unchanged v (Instances_Create (Instances (cs_clients cs)) req)) \<and>
     (\<forall>i. unchanged v (Instances_Delete (Instances (cs_clients cs)) i)) \<and>
     (\<forall>i. unchanged v (BareMetal_Get (BareMetal (cs_clients cs)) i)) \<and>
     (\<forall>opts. unchanged v (BareMetal_List (BareMetal (cs_clients cs)) opts)) \<and>
     (\<forall>req. unchanged v (BareMetal_Create (BareMetal (cs_clients cs)) req)) \<and>
     (\<forall>i. unchanged v (BareMetal_Delete (BareMetal (cs_clients cs)) i)) \<and>
     (\<forall>i. unchanged v (BareMetal_ListVPCInfo (BareMetal (cs_clients cs)) i)) \<and>
     (\<forall>i x. unchanged v (BareMetal_AttachVPC (BareMetal (cs_clients cs)) i x)) \<and>
     (\<forall>k. unchanged v (SSHKeys_Get (SSHKeys (cs_clients cs)) k)) \<and>
     (\<forall>key. unchanged v (GetSecret E key)) \<and>
     (\<forall>old new. unchanged v (PatchVM E old new)) \<and>
     (\<forall>old new. unchanged v (PatchBM E old new)) \<and>
     (\<forall>old new. unchanged v (PatchVC E old new))"

definition members_ok :: "'w lb_view \<Rightarrow> string set \<Rightarrow> 'w \<Rightarrow> bool" where
  "members_ok lbs old w \<longleftrightarrow>
     (\<forall>lbID xs. lbs w lbID = Some xs \<longrightarrow> distinct xs) \<and> (\<forall>lbID\<in>old. lbs w lbID \<noteq> Some [])"

lemma members_ok_update:
  assumes "members_ok lbs old w" and "lbs w lbID = Some xs" and "member_update xs ys"
    and "lbs w' = (lbs w)(lbID \<mapsto> ys)"
  shows "members_ok lbs old w'"
proof -
  have "distinct xs" using assms(1,2) by (auto simp: members_ok_def)
  with assms(3) have "distinct ys" "ys \<noteq> []" by (auto simp: member_update_def)
  with assms(1,4) show ?thesis by (auto simp: members_ok_def)
qed

lemma members_ok_delete:
  "members_ok lbs old w \<Longrightarrow> lbs w' \<in> {lbs w, (lbs w)(lbID := None)} \<Longrightarrow> members_ok lbs old w'"
  by (auto simp: members_ok_def split: if_splits)

lemma members_ok_create:
  "members_ok lbs old w \<Longrightarrow> lbs w' \<in> insert (lbs w) {(lbs w)(i \<mapsto> []) | i. i \<notin> old} \<Longrightarrow> members_ok lbs old w'"
  by (auto simp: members_ok_def split: if_splits)

lemma unchanged_steady: "unchanged lbs g \<Longrightarrow> steady (violated (members_ok lbs old)) g"
  by (simp add: unchanged_def steady_violated members_ok_def)

lemma member_updates_ok:
  assumes "lb_laws cs lbs old"
  shows "member_updates_steady (violated (members_ok lbs old)) cs"
  unfolding member_updates_steady_def violated_le
proof (intro allI impI)
  fix lbID w a w' lb ys
  assume get: "LoadBalancers_Get (LoadBalancers (cs_clients cs)) lbID w = (a, w')" "a_err a = None" "a_value a = Some lb"
    and upd: "member_update (gl_Instances lb) ys" and ok: "members_ok lbs old w"
  let ?w = "snd (LoadBalancers_Update (LoadBalancers (cs_clients cs)) lbID (members_req ys) w')"
  have read: "lbs w' = lbs w" "lbs w lbID = Some (gl_Instances lb)"
    using assms get unfolding lb_laws_def by blast+
  have "lbs ?w \<in> {lbs w', (lbs w')(lbID \<mapsto> lq_Instances (members_req ys))}"
    using assms unfolding lb_laws_def by blast
  then have "lbs ?w = lbs w \<or> lbs ?w = (lbs w)(lbID \<mapsto> ys)" by (simp add: read(1) members_req_def)
  then show "members_ok lbs old ?w"
  proof
    assume "lbs ?w = lbs w" with ok show ?thesis by (simp add: members_ok_def)
  next
    assume "lbs ?w = (lbs w)(lbID \<mapsto> ys)" then show ?thesis by (rule members_ok_update [OF ok read(2) upd])
  qed
qed

lemma lb_calls_ok:
  assumes "lb_laws cs lbs old"
  shows "steady (violated (members_ok lbs old)) (LoadBalancers_Get (LoadBalancers (cs_clients cs)) lbID)"
    and "lq_Instances req = [] \<Longrightarrow>
      steady (violated (members_ok lbs old)) (LoadBalancers_Create (LoadBalancers (cs_clients cs)) req)"
    and "steady (violated (members_ok lbs old)) (LoadBalancers_Delete (LoadBalancers (cs_clients cs)) lbID)"
proof -
  have "lbs (snd (LoadBalancers_Get (LoadBalancers (cs_clients cs)) lbID w)) = lbs w" for w
    using assms unfolding lb_laws_def by (metis prod.collapse)
  then show "steady (violated (members_ok lbs old)) (LoadBalancers_Get (LoadBalancers (cs_clients cs)) lbID)"
    by (intro unchanged_steady) (simp add: unchanged_def)
  show "steady (violated (members_ok lbs old)) (LoadBalancers_Delete (LoadBalancers (cs_clients cs)) lbID)"
    unfolding steady_violated
  proof (intro allI impI)
    fix w assume "members_ok lbs old w"
    moreover have "lbs (snd (LoadBalancers_Delete (LoadBalancers (cs_clients cs)) lbID w)) \<in> {lbs w, (lbs w)(lbID := None)}"
      using assms unfolding lb_laws_def by blast
    ultimately show "members_ok lbs old (snd (LoadBalancers_Delete (LoadBalancers (cs_clients cs)) lbID w))"
      by (rule members_ok_delete)
  qed
  assume req: "lq_Instances req = []"
  show "steady (violated (members_ok lbs old)) (LoadBalancers_Create (LoadBalancers (cs_clients cs)) req)"
    unfolding steady_violated
  proof (intro allI impI)
    fix w assume "members_ok lbs old w"
    moreover have "lbs (snd (LoadBalancers_Create (LoadBalancers (cs_clients cs)) req w)) \<in>
        insert (lbs w) {(lbs w)(i \<mapsto> []) | i. i \<notin> old}"
      using assms unfolding lb_laws_def req [symmetric] by blast
    ultimately show "members_ok lbs old (snd (LoadBalancers_Create (LoadBalancers (cs_clients cs)) req w))"
      by (rule members_ok_create)
  qed
qed

lemma clients_members_ok:
  assumes "lb_laws cs lbs old" and "other_calls_law E cs lbs"
  shows "vm_steady (violated (members_ok lbs old)) E cs" and "bm_steady (violated (members_ok lbs old)) E cs"
    and "vc_steady (violated (members_ok lbs old)) E cs"
proof -
  have "shared_steady (violated (members_ok lbs old)) E cs"
    using assms(2) lb_calls_ok(1) [OF assms(1)] member_updates_ok [OF assms(1)]
    by (auto simp: shared_steady_def other_calls_law_def intro: unchanged_steady)
  then show "vm_steady (violated (members_ok lbs old)) E cs" and "bm_steady (violated (members_ok lbs old)) E cs"
    and "vc_steady (violated (members_ok lbs old)) E cs"
    using assms(2) lb_calls_ok [OF assms(1)]
    by (simp_all add: vm_steady_def bm_steady_def vc_steady_def other_calls_law_def unchanged_steady)
qed

section \<open>The laws of the whole cloud\<close>

text \<open>
  Besides the laws for each kind of machine: the calls of the other controllers make no
  instances and no servers, and only the calls for load balancers concern load balancers.
\<close>

definition makes_no_instances :: "'w env \<Rightarrow> 'w instance_view \<Rightarrow> bool" where
  "makes_no_instances E ins \<longleftrightarrow> (\<forall>P. kube_steady (count ins P) E \<and>
     clients_keep E (bm_steady (count ins P) E) \<and> clients_keep E (vc_steady (count ins P) E))"

definition makes_no_servers :: "'w env \<Rightarrow> 'w server_view \<Rightarrow> bool" where
  "makes_no_servers E srv \<longleftrightarrow> (\<forall>P. kube_steady (count srv P) E \<and>
     clients_keep E (vm_steady (count srv P) E) \<and> clients_keep E (vc_steady (count srv P) E))"

definition members_laws :: "'w env \<Rightarrow> 'w lb_view \<Rightarrow> string set \<Rightarrow> bool" where
  "members_laws E lbs old \<longleftrightarrow>
     clients_keep E (\<lambda>cs. lb_laws cs lbs old) \<and> clients_keep E (\<lambda>cs. other_calls_law E cs lbs) \<and>
     (\<forall>n. unchanged lbs (GetVultrMachine E n)) \<and> (\<forall>n. unchanged lbs (GetVultrBareMetalMachine E n)) \<and>
     (\<forall>n. unchanged lbs (GetVultrCluster E n)) \<and> (\<forall>meta. unchanged lbs (GetOwnerMachine E meta)) \<and>
     (\<forall>meta. unchanged lbs (GetOwnerCluster E meta)) \<and> (\<forall>meta. unchanged lbs (GetClusterFromMetadata E meta)) \<and>
     (\<forall>cluster vm. unchanged lbs (EnsurePausedVM E cluster vm)) \<and>
     (\<forall>cluster bm. unchanged lbs (EnsurePausedBM E cluster bm))"

definition system_laws ::
  "'w env \<Rightarrow> 'w instance_view \<Rightarrow> 'w server_view \<Rightarrow> 'w lb_view \<Rightarrow> string set \<Rightarrow> bool" where
  "system_laws E ins srv lbs old \<longleftrightarrow>
     reconcile_laws E ins \<and> server_reconcile_laws E srv \<and>
     makes_no_instances E ins \<and> makes_no_servers E srv \<and> members_laws E lbs old"

lemma members_laws_steady:
  assumes "members_laws E lbs old"
  shows "kube_steady (violated (members_ok lbs old)) E"
    and "clients_keep E (vm_steady (violated (members_ok lbs old)) E)"
    and "clients_keep E (bm_steady (violated (members_ok lbs old)) E)"
    and "clients_keep E (vc_steady (violated (members_ok lbs old)) E)"
proof -
  show "kube_steady (violated (members_ok lbs old)) E"
    using assms by (simp add: members_laws_def kube_steady_def unchanged_steady)
  have "lb_laws cs lbs old" and "other_calls_law E cs lbs"
    if "NewClusterScope E (cluster_scope_params cluster vc) = Inr cs" for cluster vc cs
    using assms that unfolding members_laws_def clients_keep_def by blast+
  then show "clients_keep E (vm_steady (violated (members_ok lbs old)) E)"
    and "clients_keep E (bm_steady (violated (members_ok lbs old)) E)"
    and "clients_keep E (vc_steady (violated (members_ok lbs old)) E)"
    unfolding clients_keep_def using clients_members_ok by blast+
qed

section \<open>Runs of the system\<close>

text \<open>The world in which a run ends, whether it returns or panics.\<close>

definition ends_in :: "(('w, 'o) st, 'a) comp \<Rightarrow> ('w, 'o) st \<Rightarrow> 'w \<Rightarrow> bool" where
  "ends_in m s w \<longleftrightarrow> (case m s of Ret _ s' \<Rightarrow> world s' = w | Panic _ s' \<Rightarrow> world s' = w | Diverge \<Rightarrow> False)"

lemma grows_ends_in: "grows f 0 m \<Longrightarrow> ends_in m s w \<Longrightarrow> f w \<le> f (world s)"
  using grows_wp [of f 0 m s] by (cases "m s") (auto simp: ends_in_def wp_def)

lemma keeps_one_ends_in:
  "keeps_one made owned view m s \<Longrightarrow> ends_in m s w \<Longrightarrow> one_each made owned view (world s) \<Longrightarrow> one_each made owned view w"
  by (cases "m s") (auto simp: ends_in_def keeps_one_def wp_def)

text \<open>
  Steps of the system: some object of some kind is reconciled, with whatever Kubernetes holds of it
  at that time, and the run returns or panics; or something else happens, which makes no
  instance and no server, and may take load balancers away but not change their members.
\<close>

inductive system_run ::
  "'w env \<Rightarrow> 'w instance_view \<Rightarrow> 'w server_view \<Rightarrow> 'w lb_view \<Rightarrow> 'w \<Rightarrow> 'w \<Rightarrow> bool"
  for E ins srv lbs w0 where
  begins: "system_run E ins srv lbs w0 w0"
| machine: "system_run E ins srv lbs w0 (world s) \<Longrightarrow> ends_in (VultrMachine_Reconcile E req) s w \<Longrightarrow>
    system_run E ins srv lbs w0 w"
| bare_metal: "system_run E ins srv lbs w0 (world s) \<Longrightarrow>
    ends_in (VultrBareMetalMachine_Reconcile E req) s w \<Longrightarrow> system_run E ins srv lbs w0 w"
| cluster: "system_run E ins srv lbs w0 (world s) \<Longrightarrow> ends_in (VultrCluster_Reconcile E req) s w \<Longrightarrow>
    system_run E ins srv lbs w0 w"
| elsewhere: "system_run E ins srv lbs w0 w \<Longrightarrow>
    makes_none instance_made_for instanceOwnedByMachine ins w w' \<Longrightarrow> makes_none server_made_for server_owned srv w w' \<Longrightarrow>
    (\<And>lbID xs. lbs w' lbID = Some xs \<Longrightarrow> lbs w lbID = Some xs) \<Longrightarrow> system_run E ins srv lbs w0 w'"

definition system_ok ::
  "'w instance_view \<Rightarrow> 'w server_view \<Rightarrow> 'w lb_view \<Rightarrow> string set \<Rightarrow> 'w \<Rightarrow> bool" where
  "system_ok ins srv lbs old w \<longleftrightarrow>
     one_instance_each ins w \<and> one_server_each srv w \<and> members_ok lbs old w"

lemma one_each_ends_in:
  "(\<And>P. grows (count view P) 0 m) \<Longrightarrow> ends_in m s w \<Longrightarrow> one_each made owned view (world s) \<Longrightarrow> one_each made owned view w"
  by (rule keeps_one_ends_in) (rule keeps_one_grows)

lemma members_ok_ends_in:
  "grows (violated (members_ok lbs old)) 0 m \<Longrightarrow> ends_in m s w \<Longrightarrow> members_ok lbs old (world s) \<Longrightarrow> members_ok lbs old w"
  by (drule (1) grows_ends_in) (simp add: violated_le)

lemma system_lawsD:
  assumes "system_laws E ins srv lbs old"
  shows "reconcile_laws E ins" and "server_reconcile_laws E srv"
    and "kube_steady (count ins P) E" and "clients_keep E (bm_steady (count ins P) E)"
    and "clients_keep E (vc_steady (count ins P) E)"
    and "kube_steady (count srv P') E" and "clients_keep E (vm_steady (count srv P') E)"
    and "clients_keep E (vc_steady (count srv P') E)" and "members_laws E lbs old"
  using assms by (simp_all add: system_laws_def makes_no_instances_def makes_no_servers_def)

text \<open>The invariants survive a run of each controller.\<close>

lemma machine_keeps_system_ok:
  assumes laws: "system_laws E ins srv lbs old" and run: "ends_in (VultrMachine_Reconcile E req) s w"
    and ok: "system_ok ins srv lbs old (world s)"
  shows "system_ok ins srv lbs old w"
  unfolding system_ok_def
proof (intro conjI)
  note D = system_lawsD [OF laws] and M = members_laws_steady [OF system_lawsD(9) [OF laws]]
  from ok have ok: "one_instance_each ins (world s)" "one_server_each srv (world s)"
    "members_ok lbs old (world s)" by (simp_all add: system_ok_def)
  show "one_instance_each ins w" by (rule keeps_one_ends_in [OF Reconcile_one_each [OF D(1)] run ok(1)])
  show "one_server_each srv w"
    by (rule one_each_ends_in [OF VultrMachine_Reconcile_steady [OF D(6,7)] run ok(2)])
  show "members_ok lbs old w" by (rule members_ok_ends_in [OF VultrMachine_Reconcile_steady [OF M(1,2)] run ok(3)])
qed

lemma bare_metal_keeps_system_ok:
  assumes laws: "system_laws E ins srv lbs old" and run: "ends_in (VultrBareMetalMachine_Reconcile E req) s w"
    and ok: "system_ok ins srv lbs old (world s)"
  shows "system_ok ins srv lbs old w"
  unfolding system_ok_def
proof (intro conjI)
  note D = system_lawsD [OF laws] and M = members_laws_steady [OF system_lawsD(9) [OF laws]]
  from ok have ok: "one_instance_each ins (world s)" "one_server_each srv (world s)"
    "members_ok lbs old (world s)" by (simp_all add: system_ok_def)
  show "one_instance_each ins w"
    by (rule one_each_ends_in [OF VultrBareMetalMachine_Reconcile_steady [OF D(3,4)] run ok(1)])
  show "one_server_each srv w" by (rule keeps_one_ends_in [OF bm_Reconcile_one_each [OF D(2)] run ok(2)])
  show "members_ok lbs old w"
    by (rule members_ok_ends_in [OF VultrBareMetalMachine_Reconcile_steady [OF M(1,3)] run ok(3)])
qed

lemma cluster_keeps_system_ok:
  assumes laws: "system_laws E ins srv lbs old" and run: "ends_in (VultrCluster_Reconcile E req) s w"
    and ok: "system_ok ins srv lbs old (world s)"
  shows "system_ok ins srv lbs old w"
  unfolding system_ok_def
proof (intro conjI)
  note D = system_lawsD [OF laws] and M = members_laws_steady [OF system_lawsD(9) [OF laws]]
  from ok have ok: "one_instance_each ins (world s)" "one_server_each srv (world s)"
    "members_ok lbs old (world s)" by (simp_all add: system_ok_def)
  show "one_instance_each ins w"
    by (rule one_each_ends_in [OF VultrCluster_Reconcile_steady [OF D(3,5)] run ok(1)])
  show "one_server_each srv w"
    by (rule one_each_ends_in [OF VultrCluster_Reconcile_steady [OF D(6,8)] run ok(2)])
  show "members_ok lbs old w" by (rule members_ok_ends_in [OF VultrCluster_Reconcile_steady [OF M(1,4)] run ok(3)])
qed

text \<open>
  C1. The whole manager: over any sequence of reconciles of VultrMachines, VultrBareMetalMachines and
  VultrClusters, in any order, failures and panics included, and of other events in the cloud, there are never two instances
  or two servers that were made for the same machine of the same cluster, and what was made for a machine is recognised by
  its search; no load balancer ever has a member twice, and one that had members at the beginning is never left without any
  while it exists. What a resource was made for is read off the request it came from. Supposed are the laws of the cloud
  (an instance is tagged as asked or, when that step failed, not at all; a server is tagged as asked; listings are
  complete; no call but a create makes or changes a resource), and that the other events make no machine's resource, take none its label
  or tags, and change no load balancer's members. The tags that specs add are free.
\<close>

theorem system_invariant:
  assumes "system_laws E ins srv lbs {lbID. \<exists>x xs. lbs w0 lbID = Some (x # xs)}"
    and "system_run E ins srv lbs w0 w"
    and "one_instance_each ins w0" and "one_server_each srv w0"
    and "\<forall>lbID xs. lbs w0 lbID = Some xs \<longrightarrow> distinct xs"
  shows "(\<forall>uid name. made_count instance_made_for ins uid name w \<le> 1) \<and>
    (\<forall>(req, i)\<in>set (ins w). \<forall>p. instance_made_for req p \<longrightarrow> instanceOwnedByMachine i p) \<and>
    (\<forall>uid name. made_count server_made_for srv uid name w \<le> 1) \<and>
    (\<forall>(req, v)\<in>set (srv w). \<forall>p. server_made_for req p \<longrightarrow> TagsOwnedByMachine (bs_Tags v) p) \<and>
    (\<forall>lbID xs. lbs w lbID = Some xs \<longrightarrow> distinct xs) \<and>
    (\<forall>lbID x xs. lbs w0 lbID = Some (x # xs) \<longrightarrow> lbs w lbID \<noteq> Some [])"
proof -
  let ?old = "{lbID. \<exists>x xs. lbs w0 lbID = Some (x # xs)}"
  have "system_ok ins srv lbs ?old w"
    using assms(2)
  proof (induction rule: system_run.induct)
    case begins
    show ?case using assms(3-5) by (auto simp: system_ok_def members_ok_def)
  next
    case (machine s req w)
    show ?case by (rule machine_keeps_system_ok [OF assms(1) machine.hyps(2) machine.IH])
  next
    case (bare_metal s req w)
    show ?case by (rule bare_metal_keeps_system_ok [OF assms(1) bare_metal.hyps(2) bare_metal.IH])
  next
    case (cluster s req w)
    show ?case by (rule cluster_keeps_system_ok [OF assms(1) cluster.hyps(2) cluster.IH])
  next
    case (elsewhere w w')
    from elsewhere.IH elsewhere.hyps(4) have "members_ok lbs ?old w'"
      unfolding system_ok_def members_ok_def by blast
    with elsewhere.IH elsewhere.hyps(2,3) show ?case
      unfolding system_ok_def by (blast intro: one_each_makes_none)
  qed
  then show ?thesis unfolding system_ok_def members_ok_def one_each_def by blast
qed

text \<open>
  C10. When the finalizer of a deleted machine of either kind goes, no instance and no server is left that belongs to
  the machine, by whatever ID, label or tags it was known.
\<close>

theorem finalizers_leave_nothing:
  assumes "listing_law cs ins" and "server_listing_law cs srv"
  shows "(VultrMachine_reconcileDelete E cs ms s = Ret r s' \<longrightarrow>
      om_Finalizers (vm_meta (obj s')) \<noteq> om_Finalizers (vm_meta (obj s)) \<longrightarrow>
      owned_count instanceOwnedByMachine ins (ClusterScope_UID cs) (MachineScope_Name (obj s)) (world s') = 0) \<and>
    (VultrBareMetalMachine_reconcileDelete E cs bsc t = Ret q t' \<longrightarrow>
      om_Finalizers (bm_meta (obj t')) \<noteq> om_Finalizers (bm_meta (obj t)) \<longrightarrow>
      owned_count (\<lambda>server. TagsOwnedByMachine (bs_Tags server)) srv (ClusterScope_UID cs)
        (BareMetalMachineScope_Name (obj t)) (world t') = 0)"
  using machine_finalizer_leaves_nothing [OF assms(1)] bare_metal_finalizer_leaves_nothing [OF assms(2)] by blast

end
