(* ===== verification/Witnesses_System.thy ===== *)
theory Witnesses_System
  imports System Witnesses_Other
begin

text \<open>
  The laws of the whole cloud hold for the small cloud of theory \<open>Fake_Cloud\<close>, and the invariant of the
  system is applied to a run of all three controllers on it.
\<close>

definition fake_members_of :: "fake \<Rightarrow> string \<Rightarrow> string list option" where
  "fake_members_of w lbID = map_option gl_Instances (fake_lb_by_id lbID w)"

definition busy_world :: fake where
  "busy_world = fake_world\<lparr>fk_vc := fake_vc_ready, fk_lb := Some (fake_lb\<lparr>gl_Instances := [''i-0'']\<rparr>)\<rparr>"

lemma busy_old: "{lbID. \<exists>x xs. fake_members_of busy_world lbID = Some (x # xs)} = {''lb-1''}"
  by (auto simp: fake_members_of_def busy_world_def fake_world_def fake_lb_by_id_def fake_lb_def split: if_splits)

section \<open>The laws hold\<close>

lemma fake_lb_laws:
  assumes "cs_clients cs = fake_clients"
  shows "lb_laws cs fake_members_of {''lb-1''}"
proof -
  have upd: "fake_members_of (snd (LoadBalancers_Update fake_LoadBalancers lbID req w)) \<in>
      {fake_members_of w, (fake_members_of w)(lbID \<mapsto> lq_Instances req)}" for lbID req w
    by (cases "fk_lb w") (auto simp: fake_LoadBalancers_def fake_members_of_def fake_lb_by_id_def fun_eq_iff)
  have cre: "fake_members_of (snd (LoadBalancers_Create fake_LoadBalancers req w)) \<in>
      insert (fake_members_of w) {(fake_members_of w)(lbID \<mapsto> lq_Instances req) | lbID. lbID \<notin> {''lb-1''}}" for req w
  proof (cases "fk_lb w")
    case None
    then have "fake_members_of (snd (LoadBalancers_Create fake_LoadBalancers req w)) =
        (fake_members_of w)(''lb-2'' \<mapsto> lq_Instances req)"
      by (auto simp: fake_LoadBalancers_def fake_members_of_def fake_lb_by_id_def fun_eq_iff Let_def)
    then show ?thesis by blast
  qed (simp add: fake_LoadBalancers_def)
  have del: "fake_members_of (snd (LoadBalancers_Delete fake_LoadBalancers lbID w)) \<in>
      {fake_members_of w, (fake_members_of w)(lbID := None)}" for lbID w
    by (cases "fk_lb w") (auto simp: fake_LoadBalancers_def fake_members_of_def fake_lb_by_id_def fun_eq_iff)
  have lbs: "LoadBalancers (cs_clients cs) = fake_LoadBalancers" using assms by (simp add: fake_clients_def)
  have get: "lbs' = w \<and> (\<forall>lb. a_err a = None \<longrightarrow> a_value a = Some lb \<longrightarrow> fake_members_of w lbID = Some (gl_Instances lb))"
    if "LoadBalancers_Get fake_LoadBalancers lbID w = (a, lbs')" for lbID w a lbs'
    using that
    by (auto simp: fake_LoadBalancers_def fake_members_of_def fake_answer_def answer_ok_def answer_missing_def
        split: option.splits)
  show ?thesis
    unfolding lb_laws_def lbs using get upd cre del by blast
qed

lemma fake_other_calls_law:
  "cs_clients cs = fake_clients \<Longrightarrow> other_calls_law fake_env cs fake_members_of"
  by (simp add: other_calls_law_def unchanged_def fake_clients_def fake_Instances_def fake_BareMetal_def fake_env_def
      fake_kube_defs fake_members_of_def fake_lb_by_id_def fun_eq_iff)

lemma fake_clients_keep: "(\<And>cs. cs_clients cs = fake_clients \<Longrightarrow> L cs) \<Longrightarrow> clients_keep fake_env L"
  unfolding clients_keep_def using fake_NewClusterScope by blast

lemma fake_kube_steady: "kube_steady f fake_env"
  by (simp add: kube_steady_def steady_def fake_env_def fake_kube_defs)

lemma fake_shared_steady:
  assumes "cs_clients cs = fake_clients" and "\<And>w l. f (w\<lparr>fk_lb := l\<rparr>) = f w"
  shows "shared_steady f fake_env cs" and "vc_steady f fake_env cs \<longleftrightarrow> (\<forall>old new. steady f (PatchVC fake_env old new))"
  using assms
  by (auto simp: shared_steady_def member_updates_steady_def vc_steady_def steady_def fake_clients_def
      fake_LoadBalancers_def fake_env_def Let_def split: option.splits)

lemma fake_makes_no_instances: "makes_no_instances fake_env fk_made"
proof -
  have "bm_steady (count fk_made P) fake_env cs" and "vc_steady (count fk_made P) fake_env cs"
    if "cs_clients cs = fake_clients" for P cs
    using that fake_shared_steady [OF that, of "count fk_made P"]
    by (simp_all add: bm_steady_def steady_def count_def fake_clients_def fake_BareMetal_def fake_env_def fake_kube_defs)
  then show ?thesis
    unfolding makes_no_instances_def by (auto intro!: fake_clients_keep fake_kube_steady simp: count_def)
qed

lemma fake_makes_no_servers: "makes_no_servers fake_env fk_racked"
proof -
  have "vm_steady (count fk_racked P) fake_env cs" and "vc_steady (count fk_racked P) fake_env cs"
    if "cs_clients cs = fake_clients" for P cs
    using that fake_shared_steady [OF that, of "count fk_racked P"]
    by (simp_all add: vm_steady_def steady_def count_def fake_clients_def fake_Instances_def fake_env_def fake_kube_defs)
  then show ?thesis
    unfolding makes_no_servers_def by (auto intro!: fake_clients_keep fake_kube_steady simp: count_def)
qed

lemma fake_system_laws:
  "system_laws fake_env fk_made fk_racked fake_members_of
     {lbID. \<exists>x xs. fake_members_of busy_world lbID = Some (x # xs)}"
proof -
  have "members_laws fake_env fake_members_of {''lb-1''}"
    unfolding members_laws_def
    by (intro conjI fake_clients_keep fake_lb_laws fake_other_calls_law) (simp_all add: unchanged_def fake_env_def fake_kube_defs)
  then show ?thesis
    unfolding busy_old system_laws_def
    using fake_reconcile_laws fake_makes_no_instances fake_makes_no_servers by blast
qed

section \<open>A run of the three controllers\<close>

text \<open>
  A control-plane machine and a bare metal machine are reconciled, then the cluster, then both machines
  again.
\<close>

definition from_world :: "fake \<Rightarrow> 'o \<Rightarrow> (fake, 'o) st" where
  "from_world w v = \<lparr>world = w, trace = [], obj = v\<rparr>"

definition after_machine :: "fake \<Rightarrow> fake" where
  "after_machine w = world (final_state (VultrMachine_Reconcile fake_env fake_req) (from_world w fake_vm))"

definition after_bare_metal :: "fake \<Rightarrow> fake" where
  "after_bare_metal w = world (final_state (VultrBareMetalMachine_Reconcile fake_env fake_req) (from_world w fake_bm))"

definition after_cluster :: "fake \<Rightarrow> fake" where
  "after_cluster w = world (final_state (VultrCluster_Reconcile fake_env fake_req) (from_world w fake_vc))"

lemma final_state_ends_in: "run_gives (\<lambda>_. True) m s \<Longrightarrow> ends_in m s (world (final_state m s))"
  by (auto simp: ends_in_def run_gives_def final_state_def split: outcome.splits)

lemma system_run_after:
  assumes "system_run fake_env fk_made fk_racked fake_members_of w0 w"
  shows "run_gives (\<lambda>_. True) (VultrMachine_Reconcile fake_env fake_req) (from_world w fake_vm) \<Longrightarrow>
      system_run fake_env fk_made fk_racked fake_members_of w0 (after_machine w)"
    and "run_gives (\<lambda>_. True) (VultrBareMetalMachine_Reconcile fake_env fake_req) (from_world w fake_bm) \<Longrightarrow>
      system_run fake_env fk_made fk_racked fake_members_of w0 (after_bare_metal w)"
    and "run_gives (\<lambda>_. True) (VultrCluster_Reconcile fake_env fake_req) (from_world w fake_vc) \<Longrightarrow>
      system_run fake_env fk_made fk_racked fake_members_of w0 (after_cluster w)"
proof -
  show "run_gives (\<lambda>_. True) (VultrMachine_Reconcile fake_env fake_req) (from_world w fake_vm) \<Longrightarrow>
      system_run fake_env fk_made fk_racked fake_members_of w0 (after_machine w)"
    unfolding after_machine_def
    by (rule system_run.machine [of _ _ _ _ _ "from_world w fake_vm" fake_req]) (simp_all add: from_world_def assms final_state_ends_in)
  show "run_gives (\<lambda>_. True) (VultrBareMetalMachine_Reconcile fake_env fake_req) (from_world w fake_bm) \<Longrightarrow>
      system_run fake_env fk_made fk_racked fake_members_of w0 (after_bare_metal w)"
    unfolding after_bare_metal_def
    by (rule system_run.bare_metal [of _ _ _ _ _ "from_world w fake_bm" fake_req])
      (simp_all add: from_world_def assms final_state_ends_in)
  show "run_gives (\<lambda>_. True) (VultrCluster_Reconcile fake_env fake_req) (from_world w fake_vc) \<Longrightarrow>
      system_run fake_env fk_made fk_racked fake_members_of w0 (after_cluster w)"
    unfolding after_cluster_def
    by (rule system_run.cluster [of _ _ _ _ _ "from_world w fake_vc" fake_req]) (simp_all add: from_world_def assms final_state_ends_in)
qed

definition final_world :: fake where
  "final_world = after_machine (after_cluster (after_bare_metal (after_machine busy_world)))"

lemma final_world_run: "system_run fake_env fk_made fk_racked fake_members_of busy_world final_world"
proof -
  have "system_run fake_env fk_made fk_racked fake_members_of busy_world (after_machine busy_world)"
    by (rule system_run_after(1), rule system_run.begins) code_simp
  then have "system_run fake_env fk_made fk_racked fake_members_of busy_world
      (after_bare_metal (after_machine busy_world))"
    by (rule system_run_after(2)) code_simp
  then have "system_run fake_env fk_made fk_racked fake_members_of busy_world
      (after_cluster (after_bare_metal (after_machine busy_world)))"
    by (rule system_run_after(3)) code_simp
  then show ?thesis unfolding final_world_def by (rule system_run_after(1)) code_simp
qed

lemma final_world_contents:
  "map in_ID (fk_instances final_world) = [''i-m'']" "map bs_ID (fk_servers final_world) = [''b-m'']"
  "fake_members_of final_world ''lb-1'' = Some [''i-0'', ''i-m'']"
  by code_simp+

theorem system_invariant_witness:
  "system_run fake_env fk_made fk_racked fake_members_of busy_world final_world \<and>
   fake_members_of final_world ''lb-1'' = Some [''i-0'', ''i-m''] \<and>
   (\<forall>uid name. made_count instance_made_for fk_made uid name final_world \<le> 1) \<and>
   (\<forall>uid name. made_count server_made_for fk_racked uid name final_world \<le> 1) \<and>
   distinct [''i-0'', ''i-m'']"
proof -
  have one: "one_instance_each fk_made busy_world" "one_server_each fk_racked busy_world"
    by (simp_all add: one_each_def made_count_def count_def busy_world_def fake_world_def)
  have "\<forall>lbID xs. fake_members_of busy_world lbID = Some xs \<longrightarrow> distinct xs"
    by (auto simp: fake_members_of_def fake_lb_by_id_def busy_world_def fake_lb_def split: if_splits)
  from system_invariant [OF fake_system_laws final_world_run one this] final_world_run final_world_contents(3)
  show ?thesis by blast
qed

section \<open>Deletions\<close>

theorem finalizers_leave_nothing_witness:
  "(\<exists>r s'. VultrMachine_reconcileDelete fake_env fake_cs fake_ms (start_state fake_deleted_vm) = Ret r s' \<and>
     owned_count instanceOwnedByMachine fk_instances (ClusterScope_UID fake_cs)
       (MachineScope_Name (obj (start_state fake_deleted_vm))) (world s') = 0) \<and>
   (\<exists>r s'. VultrBareMetalMachine_reconcileDelete fake_env fake_cs fake_bsc (start_state fake_bm_known) = Ret r s' \<and>
     owned_count (\<lambda>server. TagsOwnedByMachine (bs_Tags server)) fk_servers (ClusterScope_UID fake_cs)
       (BareMetalMachineScope_Name (obj (start_state fake_bm_known))) (world s') = 0)"
  using finalizers_leave_nothing [OF fake_listing_laws [OF fake_cs_clients]]
    fake_delete_run fake_delete_changes fake_bm_delete_run fake_bm_delete_changes by blast

end
