(* ===== verification/Progress.thy ===== *)
theory Progress
  imports Machine_Safety BareMetal_Safety
begin

text \<open>
  Progress: what it takes to say that a machine gets where it should in finitely many reconciles.

  \<open>total\<close> is the total-correctness companion of \<open>wp\<close>: the run returns, and its result satisfies a
  postcondition. A \<open>plant\<close> is the part of the world one machine depends on: the region of worlds in
  which everything answers, the object Kubernetes stores, the machine's resource in the cloud, and for
  how many rounds the cloud still needs to settle (to provision a resource or a load balancer, or to finish a
  deletion). A \<open>round\<close> is one complete run of \<^verbatim>\<open>Reconcile\<close> followed by whatever happens until the next one.
  No source file is modelled here.
\<close>

section \<open>Total correctness\<close>

definition total :: "('s, 'a) comp \<Rightarrow> ('a \<Rightarrow> 's \<Rightarrow> bool) \<Rightarrow> 's \<Rightarrow> bool" where
  "total m Q s \<longleftrightarrow> (case m s of Ret a s' \<Rightarrow> Q a s' | Panic _ _ \<Rightarrow> False | Diverge \<Rightarrow> False)"

named_theorems total_rules
  \<open>rules that compute what a run that returns has to satisfy\<close>

lemma total_ret [total_rules]: "total (ret a) Q s \<longleftrightarrow> Q a s" "total (Ret a) Q s \<longleftrightarrow> Q a s"
  by (simp_all add: total_def)

lemma total_get_obj [total_rules]: "total get_obj Q s \<longleftrightarrow> Q (obj s) s"
  by (simp add: total_def)

lemma total_modify_obj [total_rules]: "total (modify_obj f) Q s \<longleftrightarrow> Q () (s\<lparr>obj := f (obj s)\<rparr>)"
  by (simp add: total_def)

lemma total_eventf [total_rules]:
  "total (eventf t r a nt args) Q s \<longleftrightarrow> Q () (s\<lparr>trace := trace s @ [Eventf t r a nt args]\<rparr>)"
  by (simp add: total_def)

lemma total_call [total_rules]:
  "total (call e f) Q s \<longleftrightarrow> Q (fst (f (world s))) (s\<lparr>world := snd (f (world s)), trace := trace s @ [e]\<rparr>)"
  by (simp add: total_def call_def split: prod.split)

lemma total_kube_call [total_rules]:
  "total (kube_call f) Q s \<longleftrightarrow> Q (fst (f (world s))) (s\<lparr>world := snd (f (world s))\<rparr>)"
  by (simp add: total_def kube_call_def split: prod.split)

lemma total_and_then [total_rules]: "total (and_then m k) Q s \<longleftrightarrow> total m (\<lambda>a. total (k a) Q) s"
  by (simp add: total_def and_then_def split: outcome.split)

lemma total_try_then [total_rules]:
  "total (try_then m h k) Q s \<longleftrightarrow>
     total m (\<lambda>r s'. case r of Inl e \<Rightarrow> total (h e) Q s' | Inr a \<Rightarrow> total (k a) Q s') s"
  by (simp add: total_def try_then_def and_then_def split: outcome.split sum.split)

lemma total_if [total_rules]: "total (if b then m else m') Q s \<longleftrightarrow> (if b then total m Q s else total m' Q s)"
  by simp

lemma total_vm_SetReadyCondition [total_rules]:
  "total (MachineScope_SetReadyCondition E status reason message) Q s \<longleftrightarrow>
     Q () (s\<lparr>obj := vm_set_condition E status reason message (Now E (world s)) (obj s)\<rparr>)"
  by (simp add: total_def)

lemma total_bm_SetReadyCondition [total_rules]:
  "total (BareMetalMachineScope_SetReadyCondition E status reason message) Q s \<longleftrightarrow>
     Q () (s\<lparr>obj := bm_set_condition E status reason message (Now E (world s)) (obj s)\<rparr>)"
  by (simp add: total_def)

lemma total_mono: "total m Q s \<Longrightarrow> (\<And>a s'. Q a s' \<Longrightarrow> R a s') \<Longrightarrow> total m R s"
  by (auto simp: total_def split: outcome.splits)

lemma total_bind: "total m Q s \<Longrightarrow> (\<And>a s'. Q a s' \<Longrightarrow> total (k a) R s') \<Longrightarrow> total (and_then m k) R s"
  unfolding total_and_then by (rule total_mono)

lemma total_bind_Inr:
  "total m (\<lambda>r s'. \<exists>a. r = Inr a \<and> Q a s') s \<Longrightarrow> (\<And>a s'. Q a s' \<Longrightarrow> total (k a) R s') \<Longrightarrow>
     total (try_then m h k) R s"
  unfolding total_try_then by (erule total_mono) auto

lemma totalE:
  assumes "total m Q s"
  obtains a s' where "m s = Ret a s'" and "Q a s'"
  using assms by (auto simp: total_def split: outcome.splits)

lemma totalI: "m s = Ret a s' \<Longrightarrow> Q a s' \<Longrightarrow> total m Q s"
  by (simp add: total_def)

section \<open>Plants\<close>

record ('w, 'o, 'i) plant =
  pl_ok :: "'w \<Rightarrow> bool"
  pl_obj :: "'w \<Rightarrow> 'o"
  pl_res :: "'w \<Rightarrow> 'i option"
  pl_left :: "'w \<Rightarrow> nat"

text \<open>The plant looks the same: nothing that concerns the machine has changed.\<close>

definition same_plant :: "('w, 'o, 'i) plant \<Rightarrow> 'w \<Rightarrow> 'w \<Rightarrow> bool" where
  "same_plant P w w' \<longleftrightarrow>
     pl_ok P w' \<and> pl_obj P w' = pl_obj P w \<and> pl_res P w' = pl_res P w \<and> pl_left P w' = pl_left P w"

text \<open>A call that changes nothing of the plant and whose result satisfies \<open>Q\<close>.\<close>

definition reads :: "('w, 'o, 'i) plant \<Rightarrow> ('w \<Rightarrow> 'r \<times> 'w) \<Rightarrow> ('w \<Rightarrow> 'r \<Rightarrow> bool) \<Rightarrow> bool" where
  "reads P f Q \<longleftrightarrow> (\<forall>w. pl_ok P w \<longrightarrow> Q w (fst (f w)) \<and> same_plant P w (snd (f w)))"

lemma readsD:
  assumes "reads P f Q" and "pl_ok P w"
  shows "Q w (fst (f w))" and "same_plant P w (snd (f w))"
  using assms by (simp_all add: reads_def)

lemma same_plantD:
  assumes "same_plant P w w'"
  shows "pl_ok P w'" and "pl_obj P w' = pl_obj P w" and "pl_res P w' = pl_res P w" and "pl_left P w' = pl_left P w"
  using assms by (simp_all add: same_plant_def)

lemma same_plant_refl: "pl_ok P w \<Longrightarrow> same_plant P w w"
  by (simp add: same_plant_def)

lemma same_plant_trans: "same_plant P w w' \<Longrightarrow> same_plant P w' w'' \<Longrightarrow> same_plant P w w''"
  by (simp add: same_plant_def)

lemma reads_from:
  assumes "reads P f Q" and "same_plant P w0 w"
  obtains r w' where "f w = (r, w')" and "Q w r" and "same_plant P w0 w'"
  using readsD [OF assms(1) same_plantD(1) [OF assms(2)]] same_plant_trans [OF assms(2)]
  by (cases "f w") auto

text \<open>
  A patch stores the object and leaves the rest of the plant alone, unless it takes the last finalizer off an
  object that is deleted.
\<close>

definition stores ::
  "('o \<Rightarrow> ObjectMeta) \<Rightarrow> ('w, 'o, 'i) plant \<Rightarrow> ('o \<Rightarrow> 'w \<Rightarrow> error option \<times> 'w) \<Rightarrow> bool" where
  "stores meta_of P patch \<longleftrightarrow> (\<forall>new w. pl_ok P w \<longrightarrow> object_kept (meta_of new) \<longrightarrow> fst (patch new w) = None \<and>
     pl_ok P (snd (patch new w)) \<and> pl_obj P (snd (patch new w)) = new \<and>
     pl_res P (snd (patch new w)) = pl_res P w \<and> pl_left P (snd (patch new w)) = pl_left P w)"

lemma storesD:
  assumes "stores meta_of P patch" and "pl_ok P w" and "object_kept (meta_of new)"
  shows "fst (patch new w) = None" and "pl_ok P (snd (patch new w))" and "pl_obj P (snd (patch new w)) = new"
    and "pl_res P (snd (patch new w)) = pl_res P w" and "pl_left P (snd (patch new w)) = pl_left P w"
  using assms by (simp_all add: stores_def)

text \<open>
  Such a patch succeeds too, and the API server removes the object with it: in the worlds \<open>gone\<close> it is not found
  any more.
\<close>

definition removes ::
  "('e \<Rightarrow> bool) \<Rightarrow> ('o \<Rightarrow> ObjectMeta) \<Rightarrow> ('w \<Rightarrow> ('e + 'o) \<times> 'w) \<Rightarrow> ('o \<Rightarrow> 'o \<Rightarrow> 'w \<Rightarrow> error option \<times> 'w) \<Rightarrow>
     ('w, 'o, 'i) plant \<Rightarrow> ('w \<Rightarrow> bool) \<Rightarrow> bool" where
  "removes not_found meta_of get patch P gone \<longleftrightarrow>
     (\<forall>old new w. pl_ok P w \<longrightarrow> \<not> object_kept (meta_of new) \<longrightarrow>
        fst (patch old new w) = None \<and> gone (snd (patch old new w))) \<and>
     (\<forall>w. gone w \<longrightarrow> (\<exists>e. fst (get w) = Inl e \<and> not_found e) \<and> gone (snd (get w)))"

lemma removesD:
  assumes "removes not_found meta_of get patch P gone"
  shows "pl_ok P w \<Longrightarrow> \<not> object_kept (meta_of new) \<Longrightarrow> fst (patch old new w) = None \<and> gone (snd (patch old new w))"
    and "gone w \<Longrightarrow> \<exists>e w'. get w = (Inl e, w') \<and> not_found e \<and> gone w'"
  using assms unfolding removes_def by (blast, metis prod.collapse)

section \<open>Rounds\<close>

text \<open>
  \<open>rounds\<close>: so many runs of \<open>Reconcile\<close>, each followed by a step \<open>between\<close> of the environment. A run
  starts with whatever trace and object the process has.
\<close>

inductive rounds ::
  "(('w, 'o) st, 'a) comp \<Rightarrow> ('w \<Rightarrow> 'w \<Rightarrow> bool) \<Rightarrow> 'w \<Rightarrow> nat \<Rightarrow> 'w \<Rightarrow> bool"
  for m between w0 where
  rounds_0: "rounds m between w0 0 w0"
| rounds_Suc: "rounds m between w0 n (world s) \<Longrightarrow> m s = Ret a s' \<Longrightarrow> between (world s') w \<Longrightarrow>
    rounds m between w0 (Suc n) w"

text \<open>
  What a round makes smaller by one, and what holds after a round that found it at nought, holds
  after more rounds than it counted at the beginning.
\<close>

lemma rounds_reach:
  assumes "rounds m between w0 n w" and "I w0"
    and step: "\<And>s a s' w. I (world s) \<Longrightarrow> m s = Ret a s' \<Longrightarrow> between (world s') w \<Longrightarrow>
      I w \<and> rank w \<le> rank (world s) - 1 \<and> (rank (world s) = 0 \<longrightarrow> goal w)"
  shows "I w \<and> rank w \<le> rank w0 - n \<and> (rank w0 < n \<longrightarrow> goal w)"
  using assms(1)
proof (induction rule: rounds.induct)
  case rounds_0
  then show ?case using assms(2) by simp
next
  case (rounds_Suc n s a s' w)
  then have I: "I (world s)" "rank (world s) \<le> rank w0 - n" by simp_all
  from step [OF I(1) rounds_Suc.hyps(2,3)] I(2) show ?case by auto
qed

lemma rounds_exist:
  assumes "I w0" and step: "\<And>w. I w \<Longrightarrow> \<exists>a s' w'. m \<lparr>world = w, trace = [], obj = v\<rparr> = Ret a s' \<and> between (world s') w' \<and> I w'"
  shows "\<exists>w. rounds m between w0 n w \<and> I w"
proof (induction n)
  case 0
  show ?case by (intro exI [of _ w0] conjI rounds_0 assms(1))
next
  case (Suc n)
  then obtain w where w: "rounds m between w0 n w" "I w" by blast
  from step [OF w(2)] obtain a s' w' where s': "m \<lparr>world = w, trace = [], obj = v\<rparr> = Ret a s'" "between (world s') w'" "I w'"
    by blast
  have "rounds m between w0 n (world \<lparr>world = w, trace = [], obj = v\<rparr>)" using w(1) by simp
  from this s'(1,2) have "rounds m between w0 (Suc n) w'" by (rule rounds_Suc)
  with s'(3) show ?case by blast
qed

text \<open>The cloud settles between two runs; the object and the identity of the resource stay.\<close>

definition settles :: "('i \<Rightarrow> string) \<Rightarrow> ('w, 'o, 'i) plant \<Rightarrow> 'w \<Rightarrow> 'w \<Rightarrow> bool" where
  "settles res_id P w w' \<longleftrightarrow> pl_ok P w' \<and> pl_obj P w' = pl_obj P w \<and>
     map_option res_id (pl_res P w') = map_option res_id (pl_res P w) \<and> pl_left P w' \<le> pl_left P w - 1"

text \<open>For how many rounds the cloud still needs to settle, with \<open>L\<close> for a resource to come.\<close>

definition rounds_needed :: "nat \<Rightarrow> ('w, 'o, 'i) plant \<Rightarrow> 'w \<Rightarrow> nat" where
  "rounds_needed L P w = (if pl_res P w = None then Suc L else pl_left P w)"

section \<open>A cluster that answers\<close>

text \<open>
  What both machine controllers read of the cluster: the owner of the object, its Cluster and
  VultrCluster, and the key of the API.
\<close>

definition cluster_answers ::
  "'w env \<Rightarrow> ('o \<Rightarrow> ObjectMeta) \<Rightarrow> Machine \<Rightarrow> Cluster \<Rightarrow> VultrCluster \<Rightarrow> ('w, 'o, 'i) plant \<Rightarrow> bool" where
  "cluster_answers E meta_of machine cluster vc P \<longleftrightarrow>
     Getenv E ''VULTR_API_KEY'' \<noteq> [] \<and> NewHelperVC E vc = None \<and>
     (\<forall>meta. reads P (GetOwnerMachine E meta) (\<lambda>w r. meta = meta_of (pl_obj P w) \<longrightarrow> r = Inr (Some machine))) \<and>
     reads P (GetClusterFromMetadata E (mc_meta machine)) (\<lambda>w r. r = Inr cluster) \<and>
     (\<forall>n. reads P (GetVultrCluster E n) (\<lambda>w r. nn_Name n = ir_Name (cl_InfrastructureRef cluster) \<longrightarrow> r = Inr vc))"

lemma cluster_answersD:
  assumes "cluster_answers E meta_of machine cluster vc P"
  shows "Getenv E ''VULTR_API_KEY'' \<noteq> []" and "NewHelperVC E vc = None"
    and "reads P (GetOwnerMachine E meta) (\<lambda>w r. meta = meta_of (pl_obj P w) \<longrightarrow> r = Inr (Some machine))"
    and "reads P (GetClusterFromMetadata E (mc_meta machine)) (\<lambda>w r. r = Inr cluster)"
    and "reads P (GetVultrCluster E n) (\<lambda>w r. nn_Name n = ir_Name (cl_InfrastructureRef cluster) \<longrightarrow> r = Inr vc)"
  using assms by (simp_all add: cluster_answers_def)

definition the_cluster_scope :: "'w env \<Rightarrow> Cluster \<Rightarrow> VultrCluster \<Rightarrow> 'w ClusterScope" where
  "the_cluster_scope E cluster vc = \<lparr>cs_clients = NewClient E (Getenv E ''VULTR_API_KEY''), cs_Cluster = cluster,
     cs_VultrCluster = vc, cs_patchHelper = vc\<rparr>"

lemma NewClusterScope_answers:
  assumes "cluster_answers E meta_of machine cluster vc P"
  shows "NewClusterScope E (cluster_scope_params cluster vc) = Inr (the_cluster_scope E cluster vc)"
  using cluster_answersD(1,2) [OF assms]
  by (simp add: NewClusterScope_def cluster_scope_params_def CreateVultrClient_def or_default_def the_cluster_scope_def)

text \<open>The load balancer answers; it may still be on its way while the cloud settles.\<close>

definition load_balancer_answers :: "'w ClusterScope \<Rightarrow> string \<Rightarrow> ('w, 'o, 'i) plant \<Rightarrow> bool" where
  "load_balancer_answers cs lbID P \<longleftrightarrow> lbID \<noteq> [] \<and>
     reads P (LoadBalancers_Get (LoadBalancers (cs_clients cs)) lbID)
       (\<lambda>w a. a_err a = None \<and> (\<exists>lb. a_value a = Some lb \<and> (pl_left P w = 0 \<longrightarrow> gl_Status lb = ''active''))) \<and>
     (\<forall>req. reads P (LoadBalancers_Update (LoadBalancers (cs_clients cs)) lbID req)
       (\<lambda>w u. a_err u = None \<or> pl_left P w \<noteq> 0 \<and> captured_status (a_trips u) = StatusUnprocessableEntity))"

lemma load_balancer_answersD:
  assumes "load_balancer_answers cs lbID P"
  shows "lbID \<noteq> []"
    and "reads P (LoadBalancers_Get (LoadBalancers (cs_clients cs)) lbID)
       (\<lambda>w a. a_err a = None \<and> (\<exists>lb. a_value a = Some lb \<and> (pl_left P w = 0 \<longrightarrow> gl_Status lb = ''active'')))"
    and "reads P (LoadBalancers_Update (LoadBalancers (cs_clients cs)) lbID req)
       (\<lambda>w u. a_err u = None \<or> pl_left P w \<noteq> 0 \<and> captured_status (a_trips u) = StatusUnprocessableEntity)"
  using assms by (simp_all add: load_balancer_answers_def)

lemma total_EnsureLoadBalancerMember:
  assumes "load_balancer_answers cs lbID P" and "pl_ok P (world s)"
  shows "total (EnsureLoadBalancerMember cs lbID i)
    (\<lambda>r s'. obj s' = obj s \<and> same_plant P (world s) (world s') \<and>
       (r = Inr True \<or> r = Inr False \<and> pl_left P (world s) \<noteq> 0)) s"
proof -
  note D = load_balancer_answersD [OF assms(1)]
  obtain a w lb where get: "LoadBalancers_Get (LoadBalancers (cs_clients cs)) lbID (world s) = (a, w)"
      "a_err a = None" "a_value a = Some lb" "pl_left P (world s) = 0 \<longrightarrow> gl_Status lb = ''active''"
      "same_plant P (world s) w"
    by (rule reads_from [OF D(2) same_plant_refl [OF assms(2)]]) (elim conjE exE, rule that)
  let ?req = "members_req (gl_Instances lb @ [i])"
  obtain u w' where upd: "LoadBalancers_Update (LoadBalancers (cs_clients cs)) lbID ?req w = (u, w')"
      "a_err u = None \<or> pl_left P w \<noteq> 0 \<and> captured_status (a_trips u) = StatusUnprocessableEntity"
      "same_plant P (world s) w'"
    by (rule reads_from [OF D(3) get(5)]) (rule that)
  have left: "pl_left P w = pl_left P (world s)" by (rule same_plantD(4) [OF get(5)])
  show ?thesis
  proof (cases "a_err u")
    case None
    with D(1) get upd(1,3) show ?thesis by (auto simp: EnsureLoadBalancerMember_def total_rules Let_def)
  next
    case (Some err)
    with upd(2) left have "pl_left P (world s) \<noteq> 0" "captured_status (a_trips u) = StatusUnprocessableEntity"
      by simp_all
    with Some D(1) get upd(1,3) show ?thesis by (simp add: EnsureLoadBalancerMember_def total_rules Let_def)
  qed
qed

section \<open>Services that answer\<close>

text \<open>
  A search comes to an end and shows exactly the machine's resource, if there is one. The resource of
  a plant may carry more than the listing shows: \<open>item\<close> is what the API shows of it.
\<close>

definition search_answers ::
  "(ListOptions \<Rightarrow> 'w \<Rightarrow> 'r page \<times> 'w) \<Rightarrow> ListOptions \<Rightarrow> ('r \<Rightarrow> bool) \<Rightarrow> ('i \<Rightarrow> 'r) \<Rightarrow> ('w, 'o, 'i) plant \<Rightarrow> bool" where
  "search_answers api opts mine item P \<longleftrightarrow> (\<forall>w. pl_ok P w \<longrightarrow> (\<exists>items reqs w'.
     listing api opts w (Inr items) reqs w' \<and>
     filter mine items = (case pl_res P w of None \<Rightarrow> [] | Some x \<Rightarrow> [item x]) \<and> same_plant P w w'))"

definition get_answers ::
  "(string \<Rightarrow> 'w \<Rightarrow> 'r answer \<times> 'w) \<Rightarrow> ('r \<Rightarrow> string) \<Rightarrow> ('i \<Rightarrow> 'r) \<Rightarrow> ('w, 'o, 'i) plant \<Rightarrow> bool" where
  "get_answers api key item P \<longleftrightarrow> (\<forall>k. reads P (api k)
     (\<lambda>w a. \<forall>x. pl_res P w = Some x \<longrightarrow> key (item x) = k \<longrightarrow> a_err a = None \<and> a_value a = Some (item x)))"

text \<open>
  A deletion is accepted, or answered 404; a resource whose deletion was accepted is gone after at most
  \<open>L\<close> rounds. Until then the listing may still show it.
\<close>

definition deletes ::
  "nat \<Rightarrow> ('w, 'o, 'i) plant \<Rightarrow> ('i \<Rightarrow> bool) \<Rightarrow> 'w \<Rightarrow> 'w \<Rightarrow> bool" where
  "deletes L P named w w' \<longleftrightarrow> pl_ok P w' \<and> pl_left P w' \<le> pl_left P w \<and> pl_res P w' \<in> {None, pl_res P w} \<and>
     (\<forall>x. pl_res P w = Some x \<longrightarrow> named x \<longrightarrow> pl_left P w' \<le> L)"

definition delete_answers ::
  "(string \<Rightarrow> 'w \<Rightarrow> unit answer \<times> 'w) \<Rightarrow> ('r \<Rightarrow> string) \<Rightarrow> ('i \<Rightarrow> 'r) \<Rightarrow> nat \<Rightarrow> ('w, 'o, 'i) plant \<Rightarrow> bool" where
  "delete_answers api key item L P \<longleftrightarrow>
     (\<forall>w. pl_ok P w \<longrightarrow> pl_left P w = 0 \<longrightarrow> pl_res P w = None) \<and>
     (\<forall>w x. pl_ok P w \<longrightarrow> pl_res P w = Some x \<longrightarrow> key (item x) \<noteq> []) \<and>
     (\<forall>k w. pl_ok P w \<longrightarrow> (case api k w of (a, w') \<Rightarrow>
        (a_err a = None \<or> captured_status (a_trips a) = StatusNotFound) \<and> deletes L P (\<lambda>x. key (item x) = k) w w'))"

text \<open>What is left to settle after a run: no more than before, or what a new resource takes.\<close>

definition within :: "nat \<Rightarrow> ('w, 'o, 'i) plant \<Rightarrow> 'w \<Rightarrow> nat \<Rightarrow> bool" where
  "within L P w l \<longleftrightarrow> l \<le> (if pl_res P w = None then L else pl_left P w)"

context tag_finder
begin

lemma total_find_res:
  assumes "search_answers (api cs) (options name) (\<lambda>i. owned i (MachineTagParams cs name role)) item P"
    and "pl_ok P (world s)"
  obtains t where "find_res cs name role s = Ret (Inr (map_option item (pl_res P (world s)))) t" and "obj t = obj s"
    and "same_plant P (world s) (world t)"
proof -
  obtain items reqs w where l: "listing (api cs) (options name) (world s) (Inr items) reqs w"
      "filter (\<lambda>i. owned i (MachineTagParams cs name role)) items =
          (case pl_res P (world s) of None \<Rightarrow> [] | Some x \<Rightarrow> [item x])" "same_plant P (world s) w"
    using assms unfolding search_answers_def by blast
  have "find_res cs name role s =
      Ret (Inr (map_option item (pl_res P (world s)))) (s\<lparr>world := w, trace := trace s @ map eff reqs\<rparr>)"
  proof (cases "pl_res P (world s)")
    case None
    then show ?thesis using none_law [OF l(1), of role] l(2) by simp
  next
    case (Some x)
    then show ?thesis using one_law [OF l(1), of role "item x"] l(2) by simp
  qed
  then show ?thesis by (rule that) (simp_all add: l(3))
qed

end

context keyed_resource
begin

lemma total_get_res:
  assumes "get_answers (get_api cs) key item P" and "pl_ok P (world s)" and "pl_res P (world s) = Some x"
    and "key (item x) \<noteq> []"
  obtains t where "get_res cs (key (item x)) s = Ret (Inr (Some (item x))) t" and "obj t = obj s"
    and "same_plant P (world s) (world t)"
proof -
  have "reads P (get_api cs (key (item x)))
      (\<lambda>w a. \<forall>y. pl_res P w = Some y \<longrightarrow> key (item y) = key (item x) \<longrightarrow> a_err a = None \<and> a_value a = Some (item y))"
    using assms(1) by (simp add: get_answers_def)
  then obtain a w where a: "get_api cs (key (item x)) (world s) = (a, w)" "a_err a = None" "a_value a = Some (item x)"
      "same_plant P (world s) w"
    by (rule reads_from [OF _ same_plant_refl [OF assms(2)]]) (use that assms(3) in blast)
  show ?thesis by (rule that [OF get_found [OF assms(4) a(1-3)]]) (simp_all add: a(4))
qed

lemma total_del_res:
  assumes "delete_answers (del_api cs) key item L P" and "pl_ok P (world s)" and "k \<noteq> []"
  obtains b t where "del_res cs k s = Ret (Inr b) t" and "obj t = obj s"
    and "deletes L P (\<lambda>x. key (item x) = k) (world s) (world t)"
proof -
  obtain a w where a: "del_api cs k (world s) = (a, w)" by fastforce
  have "case del_api cs k (world s) of (a, w') \<Rightarrow> (a_err a = None \<or> captured_status (a_trips a) = StatusNotFound) \<and>
      deletes L P (\<lambda>x. key (item x) = k) (world s) w'"
    using assms(1,2) by (simp add: delete_answers_def)
  with a have d: "a_err a = None \<or> captured_status (a_trips a) = StatusNotFound"
      "deletes L P (\<lambda>x. key (item x) = k) (world s) w" by simp_all
  show ?thesis
  proof (cases "a_err a")
    case None
    show ?thesis by (rule that [OF del_done [OF assms(3) a None]]) (simp_all add: d(2))
  next
    case (Some e)
    with d(1) have "captured_status (a_trips a) = StatusNotFound" by simp
    then show ?thesis by (rule that [OF del_gone [OF assms(3) a Some]]) (simp_all add: d(2))
  qed
qed

end

context find_or_create
begin

text \<open>The resource is found, or created when there is none.\<close>

lemma total_foc:
  assumes search: "search_answers (api cs) (options name) (\<lambda>i. owned i (MachineTagParams cs name role)) item P"
    and get: "get_answers (get_api cs) key item P" and ok: "pl_ok P (world s)" and name: "res_name (obj s) = name"
    and known: "known_id (obj s) \<noteq> [] \<longrightarrow> map_option (key \<circ> item) (pl_res P (world s)) = Some (known_id (obj s))"
    and adopted: "\<And>i t. \<exists>t'. adopt i t = Ret (Inr (Some i)) t' \<and> world t' = world t \<and> obj t' = obj t"
    and created: "\<And>t. obj t = obj s \<Longrightarrow> same_plant P (world s) (world t) \<Longrightarrow> pl_res P (world s) = None \<Longrightarrow>
      \<exists>x t'. create t = Ret (Inr (Some (item x))) t' \<and> obj t' = obj s \<and> pl_ok P (world t') \<and>
        pl_res P (world t') = Some x \<and> pl_left P (world t') \<le> L"
  obtains x t where "foc s = Ret (Inr (Some (item x))) t" and "obj t = obj s" and "pl_ok P (world t)"
    and "pl_res P (world t) = Some x" and "pl_res P (world s) \<in> {None, Some x}" and "within L P (world s) (pl_left P (world t))"
proof (cases "known_id (obj s) = []")
  case False
  with known obtain x where x: "pl_res P (world s) = Some x" "key (item x) = known_id (obj s)" by auto
  obtain t where t: "get_res cs (key (item x)) s = Ret (Inr (Some (item x))) t" "obj t = obj s" "same_plant P (world s) (world t)"
    by (rule total_get_res [OF get ok x(1)]) (use False x(2) in simp, rule that)
  from foc_known [OF False] t(1) x(2) have "foc s = Ret (Inr (Some (item x))) t" by simp
  then show ?thesis by (rule that) (use x(1) t(2) same_plantD [OF t(3)] in \<open>simp_all add: within_def\<close>)
next
  case True
  obtain u where u: "find_res cs name role s = Ret (Inr (map_option item (pl_res P (world s)))) u" "obj u = obj s"
      "same_plant P (world s) (world u)"
    by (rule total_find_res [OF search ok]) (rule that)
  show ?thesis
  proof (cases "pl_res P (world s)")
    case (Some x)
    obtain t where t: "adopt (item x) u = Ret (Inr (Some (item x))) t" "world t = world u" "obj t = obj u"
      using adopted by blast
    from foc_unknown [OF True] u(1) t(1) Some name have "foc s = Ret (Inr (Some (item x))) t" by simp
    then show ?thesis by (rule that) (use Some t(2,3) u(2) same_plantD [OF u(3)] in \<open>simp_all add: within_def\<close>)
  next
    case None
    obtain x t where t: "create u = Ret (Inr (Some (item x))) t" "obj t = obj s" "pl_ok P (world t)"
        "pl_res P (world t) = Some x" "pl_left P (world t) \<le> L"
      using created [OF u(2,3) None] by blast
    from foc_unknown [OF True] u(1) t(1) None name have "foc s = Ret (Inr (Some (item x))) t" by simp
    then show ?thesis by (rule that) (use None t in \<open>simp_all add: within_def\<close>)
  qed
qed

end

text \<open>What a run of a deletion leaves: nothing new, and the finalizer gone or a further run to come.\<close>

definition faded :: "nat \<Rightarrow> ('w, 'o, 'i) plant \<Rightarrow> 'w \<Rightarrow> Result \<Rightarrow> bool \<Rightarrow> 'i option \<Rightarrow> nat \<Rightarrow> bool" where
  "faded L P w r gone res l \<longleftrightarrow> (gone \<or> 0 < RequeueAfter r) \<and> res \<in> {None, pl_res P w} \<and>
     (res \<noteq> None \<longrightarrow> l \<le> L) \<and> l \<le> pl_left P w \<and> (pl_res P w = None \<longrightarrow> gone)"

context delete_driver
begin

lemma total_driver:
  assumes search: "search_answers (api cs) (options name) (\<lambda>i. owned i (MachineTagParams cs name role)) item P"
    and ans: "delete_answers (del_api cs) key item L P" and ok: "pl_ok P (world s)" and name: "res_name (obj s) = name"
    and deleted: "\<And>t. obj t = mark (world s) (obj s) \<Longrightarrow> world t = world s \<Longrightarrow>
      \<exists>b t'. delete_known (known_id (obj s)) t = Ret (Inr b) t' \<and>
        deletes L P (\<lambda>x. key (item x) = known_id (obj s)) (world s) (world t')"
    and retried: "\<And>b x t. obj t = mark (world s) (obj s) \<Longrightarrow> pl_ok P (world t) \<Longrightarrow> pl_res P (world t) = Some x \<Longrightarrow>
      (key (item x) = known_id (obj s) \<longrightarrow> pl_left P (world t) \<le> L) \<Longrightarrow>
      \<exists>r t'. retry b (known_id (obj s)) (item x) t = Ret (r, None) t' \<and> 0 < RequeueAfter r \<and>
        deletes L P (\<lambda>_. True) (world t) (world t')"
    and finished: "\<And>b t. obj t = mark (world s) (obj s) \<Longrightarrow>
      \<exists>t'. finish b t = Ret (no_requeue, None) t' \<and> world t' = world t \<and> obj t' = gives_up (obj t)"
  obtains r t where "driver s = Ret (r, None) t" and "pl_ok P (world t)"
    and "obj t = gives_up (mark (world s) (obj s)) \<or> obj t = mark (world s) (obj s)"
    and "faded L P (world s) r (obj t = gives_up (mark (world s) (obj s))) (pl_res P (world t)) (pl_left P (world t))"
proof -
  let ?v = "mark (world s) (obj s)" and ?k = "known_id (obj s)"
  obtain b u where u: "delete_known ?k (s\<lparr>obj := ?v\<rparr>) = Ret (Inr b) u"
      "deletes L P (\<lambda>x. key (item x) = ?k) (world s) (world u)"
    using deleted [of "s\<lparr>obj := ?v\<rparr>"] by auto
  have obj_u: "obj u = ?v" using keeps_obj_RetD [OF delete_known_keeps u(1)] by simp
  have ok_u: "pl_ok P (world u)" using u(2) by (simp add: deletes_def)
  obtain t where t: "find_res cs name role u = Ret (Inr (map_option item (pl_res P (world u)))) t" "obj t = obj u"
      "same_plant P (world u) (world t)"
    by (rule total_find_res [OF search ok_u]) (rule that)
  note same = same_plantD [OF t(3)]
  have run: "driver s = (case pl_res P (world u) of None \<Rightarrow> finish b t | Some x \<Rightarrow> retry b ?k (item x) t)"
    using u(1) t(1) name by (simp add: driver_law Let_def mark_keeps split: option.split)
  show ?thesis
  proof (cases "pl_res P (world u)")
    case None
    obtain t' where t': "finish b t = Ret (no_requeue, None) t'" "world t' = world t" "obj t' = gives_up ?v"
      using finished [of t b] t(2) obj_u by auto
    show ?thesis
      by (rule that [of no_requeue t']) (use run None t' same u(2) in \<open>auto simp: faded_def deletes_def\<close>)
  next
    case (Some x)
    have "key (item x) = ?k \<longrightarrow> pl_left P (world t) \<le> L"
      using u(2) Some same(4) unfolding deletes_def by (metis insertE option.discI singletonD)
    then obtain r t' where t': "retry b ?k (item x) t = Ret (r, None) t'" "0 < RequeueAfter r"
        "deletes L P (\<lambda>_. True) (world t) (world t')"
      using retried [of t x b] t(2) obj_u same(1,3) Some by auto
    have "obj t' = ?v" using keeps_obj_RetD [OF retry_keeps t'(1)] t(2) obj_u by simp
    then show ?thesis
      by (intro that [of r t']) (use run Some t' same u(2) in \<open>auto simp: faded_def deletes_def\<close>)
  qed
qed

end

section \<open>Rounds of a deletion\<close>

text \<open>
  Between two runs an accepted deletion makes progress, and nothing new appears; an object that a controller has let go
  may be removed from Kubernetes, when others take their finalizers off it, and an object that is removed stays so.
\<close>

definition fades :: "nat \<Rightarrow> ('w, 'o, 'i) plant \<Rightarrow> ('w \<Rightarrow> bool) \<Rightarrow> ('o \<Rightarrow> bool) \<Rightarrow> 'w \<Rightarrow> 'w \<Rightarrow> bool" where
  "fades L P gone free w w' \<longleftrightarrow> (if gone w then gone w' else free (pl_obj P w) \<and> gone w' \<or>
     pl_ok P w' \<and> pl_obj P w' = pl_obj P w \<and> (pl_res P w = None \<longrightarrow> pl_res P w' = None) \<and>
     pl_left P w' \<le> (if pl_left P w \<le> L then pl_left P w - 1 else pl_left P w))"

definition deletion_rounds :: "nat \<Rightarrow> ('w, 'o, 'i) plant \<Rightarrow> 'w \<Rightarrow> nat" where
  "deletion_rounds L P w = (if pl_res P w = None then 0 else if pl_left P w \<le> L then pl_left P w else Suc L)"

text \<open>The object is removed, or it is held by the finalizers of others only.\<close>

definition let_go :: "('w, 'o, 'i) plant \<Rightarrow> ('w \<Rightarrow> bool) \<Rightarrow> ('o \<Rightarrow> bool) \<Rightarrow> 'w \<Rightarrow> bool" where
  "let_go P gone free w \<longleftrightarrow> gone w \<or> free (pl_obj P w)"

text \<open>What a run for a deleted object leaves in the world: the object removed, or stored with what is left of its resource.\<close>

definition left_behind ::
  "nat \<Rightarrow> ('w, 'o, 'i) plant \<Rightarrow> ('w \<Rightarrow> bool) \<Rightarrow> ('o \<Rightarrow> bool) \<Rightarrow> ('o \<Rightarrow> bool) \<Rightarrow> 'w \<Rightarrow> Result \<Rightarrow> 'w \<Rightarrow> bool" where
  "left_behind L P gone leaves free w r w' \<longleftrightarrow> gone w' \<or> pl_ok P w' \<and> leaves (pl_obj P w') \<and>
     faded L P w r (free (pl_obj P w')) (pl_res P w') (pl_left P w')"

lemma patch_leaves_behind:
  assumes "stores meta_of P (patch old)" and "removes not_found meta_of get patch P gone"
    and "pl_ok P w'" and "leaves new" and "faded L P w r (free new) (pl_res P w') (pl_left P w')"
  shows "fst (patch old new w') = None" and "left_behind L P gone leaves free w r (snd (patch old new w'))"
  using storesD [OF assms(1,3), of new] removesD(1) [OF assms(2,3), of new old] assms(4,5)
  by (cases "object_kept (meta_of new)"; simp add: left_behind_def)+

text \<open>
  A controller whose runs let the resource fade lets the object go after more rounds than the cloud
  needs to remove the resource.
\<close>

lemma rounds_fade:
  assumes rounds: "rounds m (fades L P gone free) w0 n (world s)" and start: "pl_ok P w0" "leaves (pl_obj P w0)"
    and empty: "\<And>w. pl_ok P w \<Longrightarrow> pl_left P w = 0 \<Longrightarrow> pl_res P w = None"
    and absent: "\<And>s. gone (world s) \<Longrightarrow> total m (\<lambda>r s'. snd r = None \<and> gone (world s')) s"
    and run: "\<And>s. pl_ok P (world s) \<Longrightarrow> leaves (pl_obj P (world s)) \<Longrightarrow>
      total m (\<lambda>r s'. snd r = None \<and> left_behind L P gone leaves free (world s) (fst r) (world s')) s"
  shows "(\<exists>r s'. m s = Ret (r, None) s' \<and> (let_go P gone free (world s') \<or> 0 < RequeueAfter r)) \<and>
    (deletion_rounds L P w0 < n \<longrightarrow> let_go P gone free (world s))"
proof -
  let ?I = "\<lambda>w. gone w \<or> pl_ok P w \<and> leaves (pl_obj P w)"
  let ?rank = "\<lambda>w. if gone w then 0 else deletion_rounds L P w"
  have post: "snd a = None \<and> (gone (world s') \<or>
      \<not> gone (world s) \<and> left_behind L P gone leaves free (world s) (fst a) (world s'))"
    if "?I (world s)" and "m s = Ret a s'" for s a s'
    using absent [of s] run [of s] that by (cases "gone (world s)") (auto simp: total_def)
  have "?I (world s) \<and> ?rank (world s) \<le> ?rank w0 - n \<and> (?rank w0 < n \<longrightarrow> let_go P gone free (world s))"
  proof (rule rounds_reach [OF rounds])
    show "?I w0" using start by simp
    fix s a s' w
    assume I: "?I (world s)" and s': "m s = Ret a s'" and w: "fades L P gone free (world s') w"
    show "?I w \<and> ?rank w \<le> ?rank (world s) - 1 \<and> (?rank (world s) = 0 \<longrightarrow> let_go P gone free w)"
    proof (cases "gone w")
      case False
      with w have f: "\<not> gone (world s')" "pl_ok P w" "pl_obj P w = pl_obj P (world s')"
          "pl_res P (world s') = None \<longrightarrow> pl_res P w = None"
          "pl_left P w \<le> (if pl_left P (world s') \<le> L then pl_left P (world s') - 1 else pl_left P (world s'))"
        by (auto simp: fades_def split: if_splits)
      with post [OF I s'] I have "\<not> gone (world s)" "pl_ok P (world s)" "leaves (pl_obj P (world s'))"
          "faded L P (world s) (fst a) (free (pl_obj P (world s'))) (pl_res P (world s')) (pl_left P (world s'))"
        by (auto simp: left_behind_def)
      with f empty [of "world s"] False show ?thesis
        by (auto simp: faded_def deletion_rounds_def let_go_def split: if_splits)
    qed (simp add: let_go_def)
  qed
  moreover from calculation have "total m (\<lambda>r s'. snd r = None \<and> (let_go P gone free (world s') \<or> 0 < RequeueAfter (fst r))) s"
    using absent [of s] run [of s] by (elim conjE disjE) (auto simp: total_def let_go_def left_behind_def faded_def split: outcome.splits)
  then obtain a s' where "m s = Ret a s'" "snd a = None" "let_go P gone free (world s') \<or> 0 < RequeueAfter (fst a)"
    by (elim totalE) blast
  moreover have "?rank w0 \<le> deletion_rounds L P w0" by simp
  ultimately show ?thesis by (cases a) auto
qed

end
