(* ===== verification/BareMetal_Progress.thy ===== *)
theory BareMetal_Progress
  imports Progress
begin

text \<open>
  A VultrBareMetalMachine gets there too. Its way is longer than that of a VultrMachine: the server is
  provisioned, its VPC is attached in a run of its own and takes its time to be listed, and only then the server joins the load
  balancer and is reported (\<open>bare_metal_becomes_ready\<close>). A deleted one leaves the load balancer, loses its
  finalizer and, unless others hold it, is removed from Kubernetes (\<open>bare_metal_gets_deleted\<close>).
\<close>

section \<open>A Kubernetes that answers\<close>

definition bm_kube_answers ::
  "'w env \<Rightarrow> NamespacedName \<Rightarrow> Machine \<Rightarrow> Cluster \<Rightarrow> VultrCluster \<Rightarrow> ('w, VultrBareMetalMachine, 'i) plant \<Rightarrow> bool" where
  "bm_kube_answers E req machine cluster vc P \<longleftrightarrow> cluster_answers E bm_meta machine cluster vc P \<and>
     (\<forall>bm. NewHelperBM E bm = None) \<and>
     reads P (GetVultrBareMetalMachine E req) (\<lambda>w r. r = Inr (pl_obj P w)) \<and>
     (\<forall>bm. reads P (EnsurePausedBM E cluster bm) (\<lambda>w r. r = ((False, False, None), bm))) \<and>
     (\<forall>old. stores bm_meta P (PatchBM E old))"

lemma bm_kube_answersD:
  assumes "bm_kube_answers E req machine cluster vc P"
  shows "cluster_answers E bm_meta machine cluster vc P" and "NewHelperBM E bm = None"
    and "reads P (GetVultrBareMetalMachine E req) (\<lambda>w r. r = Inr (pl_obj P w))"
    and "reads P (EnsurePausedBM E cluster bm) (\<lambda>w r. r = ((False, False, None), bm))"
    and "stores bm_meta P (PatchBM E old)"
  using assms by (simp_all add: bm_kube_answers_def)

definition the_bare_metal_scope :: "Machine \<Rightarrow> Cluster \<Rightarrow> VultrCluster \<Rightarrow> VultrBareMetalMachine \<Rightarrow> BareMetalMachineScope" where
  "the_bare_metal_scope machine cluster vc bm = \<lparr>bsc_Machine = machine, bsc_Cluster = cluster, bsc_VultrCluster = vc,
     bsc_patchHelper = bm\<rparr>"

lemma total_bm_run_scopes:
  assumes "total (VultrBareMetalMachine_handler E cs bsc deleting) (\<lambda>r s'. snd r = None \<and> R (fst r) s') s"
    and "\<And>r s'. R r s' \<Longrightarrow> fst (PatchBM E (bsc_patchHelper bsc) (obj s') (world s')) = None \<and>
      Q r (snd (PatchBM E (bsc_patchHelper bsc) (obj s') (world s')))"
  shows "total (VultrBareMetalMachine_run_scopes E cs bsc deleting) (\<lambda>r s'. snd r = None \<and> Q (fst r) (world s')) s"
  using assms(1)
proof (rule totalE)
  fix r s'
  assume run: "VultrBareMetalMachine_handler E cs bsc deleting s = Ret r s'" and post: "snd r = None \<and> R (fst r) s'"
  have "VultrBareMetalMachine_run_scopes E cs bsc deleting s = VultrBareMetalMachine_close_after E bsc r s'"
    unfolding VultrBareMetalMachine_run_scopes_def deferred_def VultrBareMetalMachine_handler_def [symmetric] run by simp
  moreover have "total (VultrBareMetalMachine_close_after E bsc r) (\<lambda>r s'. snd r = None \<and> Q (fst r) (world s')) s'"
    using assms(2) [of "fst r" s'] post
    by (simp add: VultrBareMetalMachine_close_after_def BareMetalMachineScope_Close_def keep_error_def total_rules)
  ultimately show ?thesis by (simp add: total_def)
qed

lemma total_bm_Reconcile:
  assumes ans: "bm_kube_answers E req machine cluster vc P" and ok: "pl_ok P (world s)"
    and bm: "bm = pl_obj P (world s)"
    and scopes: "cs = the_cluster_scope E cluster vc" "bsc = the_bare_metal_scope machine cluster vc bm"
    and handler: "\<And>t. same_plant P (world s) (world t) \<Longrightarrow> obj t = bm \<Longrightarrow>
      total (VultrBareMetalMachine_handler E cs bsc (om_DeletionTimestamp (bm_meta bm) \<noteq> None))
        (\<lambda>r s'. snd r = None \<and> R (fst r) s') t"
    and close: "\<And>r s'. R r s' \<Longrightarrow> fst (PatchBM E bm (obj s') (world s')) = None \<and> Q r (snd (PatchBM E bm (obj s') (world s')))"
  shows "total (VultrBareMetalMachine_Reconcile E req) (\<lambda>r s'. snd r = None \<and> Q (fst r) (world s')) s"
proof -
  note K = bm_kube_answersD [OF ans] and C = cluster_answersD [OF bm_kube_answersD(1) [OF ans]]
  let ?n = "\<lparr>nn_Namespace = om_Namespace (bm_meta bm), nn_Name = ir_Name (cl_InfrastructureRef cluster)\<rparr>"
  obtain w1 where w1: "GetVultrBareMetalMachine E req (world s) = (Inr bm, w1)" "same_plant P (world s) w1"
    using bm by (auto intro: reads_from [OF K(3) same_plant_refl [OF ok]])
  obtain w2 where w2: "GetOwnerMachine E (bm_meta bm) w1 = (Inr (Some machine), w2)" "same_plant P (world s) w2"
    using bm same_plantD(2) [OF w1(2)] by (auto intro: reads_from [OF C(3) [of "bm_meta bm"] w1(2)])
  obtain w3 where w3: "GetClusterFromMetadata E (mc_meta machine) w2 = (Inr cluster, w3)" "same_plant P (world s) w3"
    by (auto intro: reads_from [OF C(4) w2(2)])
  obtain w4 where w4: "EnsurePausedBM E cluster bm w3 = (((False, False, None), bm), w4)" "same_plant P (world s) w4"
    by (auto intro: reads_from [OF K(4) [of bm] w3(2)])
  obtain w5 where w5: "GetVultrCluster E ?n w4 = (Inr vc, w5)" "same_plant P (world s) w5"
    by (auto intro: reads_from [OF C(5) [of ?n] w4(2)])
  let ?t = "s\<lparr>obj := bm, world := w5\<rparr>" and ?deleting = "om_DeletionTimestamp (bm_meta bm) \<noteq> None"
  have "VultrBareMetalMachine_Reconcile E req s = VultrBareMetalMachine_run_scopes E cs bsc ?deleting ?t"
    unfolding VultrBareMetalMachine_Reconcile_def VultrBareMetalMachine_with_cluster_def ensure_paused_def Let_def
    using NewClusterScope_answers [OF K(1)] K(2) w1(1) w2(1) w3(1) w4(1) w5(1) scopes
    by (simp add: kube_call_def and_then_def try_then_def is_error_def NewBareMetalMachineScope_def the_bare_metal_scope_def)
  moreover have "total (VultrBareMetalMachine_run_scopes E cs bsc ?deleting) (\<lambda>r s'. snd r = None \<and> Q (fst r) (world s')) ?t"
  proof (rule total_bm_run_scopes)
    show "total (VultrBareMetalMachine_handler E cs bsc ?deleting) (\<lambda>r s'. snd r = None \<and> R (fst r) s') ?t"
      by (rule handler) (simp_all add: w5(2))
  qed (use close scopes in \<open>simp add: the_bare_metal_scope_def\<close>)
  ultimately show ?thesis by (simp add: total_def)
qed

section \<open>A cloud that provisions servers and attaches VPCs\<close>

datatype vpc_stage = Detached | Requested | Attached

definition sound_server :: "BareMetalServer \<Rightarrow> bool" where
  "sound_server sv \<longleftrightarrow> bs_ID sv \<noteq> [] \<and> \<not> sublist ''://'' (bs_ID sv) \<and>
     bs_Status sv \<in> {SubscriptionStatusPending, SubscriptionStatusActive}"

definition server_search_answers ::
  "'w ClusterScope \<Rightarrow> string \<Rightarrow> string \<Rightarrow> ('i \<Rightarrow> BareMetalServer) \<Rightarrow> ('w, 'o, 'i) plant \<Rightarrow> bool" where
  "server_search_answers cs name role item P \<longleftrightarrow>
     search_answers (BareMetal_List (BareMetal (cs_clients cs))) (bare_metal_list_options name)
       (\<lambda>sv. TagsOwnedByMachine (bs_Tags sv) (MachineTagParams cs name role)) item P"

text \<open>
  A created server is detached, and takes at most \<open>L\<close> rounds to provision; an attachment takes at most
  \<open>V\<close> rounds to be listed. When nothing is left to settle the server is active, and no attachment under way.
\<close>

definition servers_answer ::
  "'w ClusterScope \<Rightarrow> string \<Rightarrow> string \<Rightarrow> nat \<Rightarrow> ('w, 'o, BareMetalServer \<times> vpc_stage) plant \<Rightarrow> bool" where
  "servers_answer cs name role L P \<longleftrightarrow>
     (\<forall>w sv st. pl_ok P w \<longrightarrow> pl_res P w = Some (sv, st) \<longrightarrow> sound_server sv \<and>
        (pl_left P w = 0 \<longrightarrow> bs_Status sv = SubscriptionStatusActive \<and> st \<noteq> Requested)) \<and>
     get_answers (BareMetal_Get (BareMetal (cs_clients cs))) bs_ID fst P \<and>
     server_search_answers cs name role fst P \<and>
     (\<forall>req w. pl_ok P w \<longrightarrow> pl_res P w = None \<longrightarrow> bcr_Label req = name \<longrightarrow>
        set (BuildTags (MachineTagParams cs name role)) \<subseteq> set (bcr_Tags req) \<longrightarrow>
        (case BareMetal_Create (BareMetal (cs_clients cs)) req w of (a, w') \<Rightarrow>
           a_err a = None \<and> a_value a \<noteq> None \<and> pl_ok P w' \<and>
           pl_res P w' = map_option (\<lambda>sv. (sv, Detached)) (a_value a) \<and> pl_left P w' \<le> L))"

definition attachments_answer ::
  "'w ClusterScope \<Rightarrow> string \<Rightarrow> nat \<Rightarrow> ('w, 'o, BareMetalServer \<times> vpc_stage) plant \<Rightarrow> bool" where
  "attachments_answer cs vpcID V P \<longleftrightarrow>
     (\<forall>k. reads P (BareMetal_ListVPCInfo (BareMetal (cs_clients cs)) k)
        (\<lambda>w r. \<forall>sv st. pl_res P w = Some (sv, st) \<longrightarrow> bs_ID sv = k \<longrightarrow>
           (\<exists>infos. r = Inr infos \<and> (find (\<lambda>i. vpc_ID i = vpcID) infos \<noteq> None \<longleftrightarrow> st = Attached)))) \<and>
     (\<forall>w sv st. pl_ok P w \<longrightarrow> pl_res P w = Some (sv, st) \<longrightarrow> st \<noteq> Attached \<longrightarrow>
        (case BareMetal_AttachVPC (BareMetal (cs_clients cs)) (bs_ID sv) vpcID w of (e, w') \<Rightarrow>
           e = None \<and> pl_ok P w' \<and> pl_res P w' \<in> {Some (sv, Requested), Some (sv, Attached)} \<and>
           pl_left P w' \<le> (if st = Detached then V else pl_left P w)))"

definition bm_bootstrap_answers :: "'w env \<Rightarrow> 'w ClusterScope \<Rightarrow> ('w, 'o, 'i) plant \<Rightarrow> bool" where
  "bm_bootstrap_answers E cs P \<longleftrightarrow>
     (\<forall>key. reads P (GetSecret E key) (\<lambda>w r. \<exists>data v out. r = Inr data \<and> data ''value'' = Some v \<and>
        PrependCloudConfigRunCmds E v [''ufw disable''] = Inr out)) \<and>
     (\<forall>k. reads P (SSHKeys_Get (SSHKeys (cs_clients cs)) k) (\<lambda>w a. a_err a = None \<and> a_value a \<noteq> None))"

lemma bm_bootstrap_answersD:
  assumes "bm_bootstrap_answers E cs P"
  shows "reads P (GetSecret E key) (\<lambda>w r. \<exists>data v out. r = Inr data \<and> data ''value'' = Some v \<and>
        PrependCloudConfigRunCmds E v [''ufw disable''] = Inr out)"
    and "reads P (SSHKeys_Get (SSHKeys (cs_clients cs)) k) (\<lambda>w a. a_err a = None \<and> a_value a \<noteq> None)"
  using assms by (simp_all add: bm_bootstrap_answers_def)

lemma servers_answerD:
  assumes "servers_answer cs name role L P" and "pl_ok P w"
  shows "pl_res P w = Some (sv, st) \<Longrightarrow> sound_server sv"
    and "pl_res P w = Some (sv, st) \<Longrightarrow> pl_left P w = 0 \<Longrightarrow> bs_Status sv = SubscriptionStatusActive \<and> st \<noteq> Requested"
    and "get_answers (BareMetal_Get (BareMetal (cs_clients cs))) bs_ID fst P"
    and "server_search_answers cs name role fst P"
    and "pl_res P w = None \<Longrightarrow> bcr_Label req = name \<Longrightarrow>
        set (BuildTags (MachineTagParams cs name role)) \<subseteq> set (bcr_Tags req) \<Longrightarrow>
        (case BareMetal_Create (BareMetal (cs_clients cs)) req w of (a, w') \<Rightarrow>
           a_err a = None \<and> a_value a \<noteq> None \<and> pl_ok P w' \<and>
           pl_res P w' = map_option (\<lambda>sv. (sv, Detached)) (a_value a) \<and> pl_left P w' \<le> L)"
  using assms by (simp_all add: servers_answer_def)

lemma total_bare_metal_ssh_keys:
  assumes "bm_bootstrap_answers E cs P" and "pl_ok P (world s)"
  shows "total (bare_metal_ssh_keys cs keys acc)
    (\<lambda>r s'. \<exists>ids. r = Inr ids \<and> obj s' = obj s \<and> same_plant P (world s) (world s')) s"
  using assms(2)
proof (induction keys arbitrary: acc s)
  case Nil
  then show ?case by (simp add: total_rules same_plant_refl)
next
  case (Cons k keys)
  obtain a w v where get: "SSHKeys_Get (SSHKeys (cs_clients cs)) k (world s) = (a, w)" "a_err a = None"
      "a_value a = Some v" "same_plant P (world s) w"
    by (rule reads_from [OF bm_bootstrap_answersD(2) [OF assms(1)] same_plant_refl [OF Cons.prems]])
      (use that in auto)
  let ?s = "s\<lparr>world := w, trace := trace s @ [CallSSHKeyGet k]\<rparr>"
  have "total (bare_metal_ssh_keys cs keys (acc @ [v]))
      (\<lambda>r s'. \<exists>ids. r = Inr ids \<and> obj s' = obj ?s \<and> same_plant P (world ?s) (world s')) ?s"
    using same_plantD(1) [OF get(4)] by (intro Cons.IH) simp
  then have "total (bare_metal_ssh_keys cs keys (acc @ [v]))
      (\<lambda>r s'. \<exists>ids. r = Inr ids \<and> obj s' = obj s \<and> same_plant P (world s) (world s')) ?s"
    by (rule total_mono) (use same_plant_trans [OF get(4)] in auto)
  then show ?case using get Cons.IH [OF Cons.prems, of acc] by (simp add: GetSSHKey_def total_rules)
qed

lemma total_CreateBareMetalServer:
  assumes boot: "bm_bootstrap_answers E cs P" and srv: "servers_answer cs name (BareMetalMachineScope_Role E bsc) L P"
    and ok: "pl_ok P (world s)" and none: "pl_res P (world s) = None"
    and bm: "BareMetalMachineScope_Name (obj s) = name" and secret: "mc_DataSecretName (bsc_Machine bsc) \<noteq> None"
  shows "total (CreateBareMetalServer E cs bsc)
    (\<lambda>r s'. \<exists>sv. r = Inr sv \<and> obj s' = obj s \<and> pl_ok P (world s') \<and> pl_res P (world s') = Some (sv, Detached) \<and>
       pl_left P (world s') \<le> L) s" (is "total _ ?Q s")
proof -
  obtain secretName where name: "mc_DataSecretName (bsc_Machine bsc) = Some secretName" using secret by blast
  let ?key = "\<lparr>nn_Namespace = BareMetalMachineScope_Namespace (obj s), nn_Name = secretName\<rparr>"
  obtain w data v out where get: "GetSecret E ?key (world s) = (Inr data, w)" "data ''value'' = Some v"
      "PrependCloudConfigRunCmds E v [''ufw disable''] = Inr out" "same_plant P (world s) w"
    by (rule reads_from [OF bm_bootstrap_answersD(1) [OF boot] same_plant_refl [OF ok], of ?key]) (use that in blast)
  let ?s = "s\<lparr>world := w, trace := trace s @ [CallSecretGet ?key]\<rparr>"
  have submit: "total (submit_server cs name (buildBareMetalCreateRequest spec name keys d
        (BuildTags (MachineTagParams cs name (BareMetalMachineScope_Role E bsc))))) ?Q t"
    if t: "obj t = obj ?s" "same_plant P w (world t)" for spec keys d t
  proof -
    have t': "pl_ok P (world t)" "pl_res P (world t) = None"
      using same_plantD(1) [OF t(2)] same_plantD(3) [OF t(2)] same_plantD(3) [OF get(4)] none by simp_all
    let ?req = "buildBareMetalCreateRequest spec name keys d
        (BuildTags (MachineTagParams cs name (BareMetalMachineScope_Role E bsc)))"
    obtain a w' sv where c: "BareMetal_Create (BareMetal (cs_clients cs)) ?req (world t) = (a, w')" "a_err a = None"
        "a_value a = Some sv" "pl_ok P w'" "pl_res P w' = Some (sv, Detached)" "pl_left P w' \<le> L"
      using servers_answerD(5) [OF srv t'(1,2), of ?req] by (auto simp: buildBareMetalCreateRequest_def split: prod.splits)
    have "bs_ID sv \<noteq> []" using servers_answerD(1) [OF srv c(4,5)] by (simp add: sound_server_def)
    with c t(1) show ?thesis by (simp add: submit_server_def total_rules Let_def)
  qed
  have "total (bare_metal_ssh_keys cs (bms_SSHKey (bm_Spec (obj s))) [])
      (\<lambda>r s'. \<exists>ids. r = Inr ids \<and> obj s' = obj ?s \<and> same_plant P (world ?s) (world s')) ?s"
    using same_plantD(1) [OF get(4)] by (intro total_bare_metal_ssh_keys [OF boot]) simp
  then have "total (try_then (bare_metal_ssh_keys cs (bms_SSHKey (bm_Spec (obj s))) []) (\<lambda>err. ret (Inl err))
      (\<lambda>keys. submit_server cs name (buildBareMetalCreateRequest (bm_Spec (obj s)) name keys (base64_EncodeToString out)
         (BuildTags (MachineTagParams cs name (BareMetalMachineScope_Role E bsc)))))) ?Q ?s"
    by (rule total_bind_Inr) (rule submit; simp)
  then show ?thesis
    unfolding CreateBareMetalServer_def BareMetalMachineScope_GetBootstrapData_def GetBootstrapData_def Let_def
    using name get(1-3) bm by (simp add: total_rules)
qed

section \<open>Becoming ready\<close>

definition bare_metal_ready :: "'w env \<Rightarrow> VultrBareMetalMachine \<Rightarrow> bool" where
  "bare_metal_ready E bm \<longleftrightarrow> bm_ready_report E bm = Some (ConditionTrue, BareMetalServerActiveReason) \<and>
     bmst_Ready (bm_Status bm) \<and> bmst_Provisioned (bm_Status bm) = Some True \<and> GetServerID bm \<noteq> []"

text \<open>The machine is not being deleted, has not failed, and names no other server than its own.\<close>

definition bm_on_course :: "'w env \<Rightarrow> string \<Rightarrow> string \<Rightarrow> string option \<Rightarrow> VultrBareMetalMachine \<Rightarrow> bool" where
  "bm_on_course E name vpcID rid bm \<longleftrightarrow> om_DeletionTimestamp (bm_meta bm) = None \<and>
     BareMetalMachineScope_Name bm = name \<and> bms_VPCID (bm_Spec bm) = vpcID \<and>
     \<not> BareMetalMachineScope_HasTerminalFailure E bm \<and> (GetServerID bm \<noteq> [] \<longrightarrow> rid = Some (GetServerID bm))"

definition server_id :: "(BareMetalServer \<times> vpc_stage) option \<Rightarrow> string option" where
  "server_id res = map_option (bs_ID \<circ> fst) res"

text \<open>For how many rounds the cloud still needs to settle, the run that asks for the attachment included.\<close>

definition stage_rounds :: "nat \<Rightarrow> nat \<Rightarrow> string \<Rightarrow> (BareMetalServer \<times> vpc_stage) option \<Rightarrow> nat \<Rightarrow> nat" where
  "stage_rounds L V vpcID res l = (case res of
      None \<Rightarrow> L + V + 2
    | Some (sv, st) \<Rightarrow> if vpcID \<noteq> [] \<and> st = Detached then l + V + 1 else l)"

text \<open>What a run leaves: the machine on course, one round less to go, and Ready or to be called again.\<close>

definition bm_advanced ::
  "'w env \<Rightarrow> string \<Rightarrow> string \<Rightarrow> nat \<Rightarrow> nat \<Rightarrow> nat \<Rightarrow> Result \<Rightarrow> VultrBareMetalMachine \<Rightarrow>
     (BareMetalServer \<times> vpc_stage) option \<Rightarrow> nat \<Rightarrow> bool" where
  "bm_advanced E name vpcID L V n r bm res l \<longleftrightarrow> res \<noteq> None \<and> bm_on_course E name vpcID (server_id res) bm \<and>
     stage_rounds L V vpcID res (l - 1) \<le> n - 1 \<and> (bare_metal_ready E bm \<or> 0 < RequeueAfter r) \<and>
     (n = 0 \<longrightarrow> bare_metal_ready E bm)"

lemma bm_requeue_positive [simp]:
  "0 < bareMetalPendingRequeue" "0 < bareMetalVPCRequeue" "0 < bareMetalNotFoundRequeue" "0 < bareMetalLoadBalancerRequeue"
  by (simp_all add: bareMetalPendingRequeue_def bareMetalVPCRequeue_def bareMetalNotFoundRequeue_def
      bareMetalLoadBalancerRequeue_def Second_def)

lemma bm_meta_setters [simp]:
  "bm_meta (BareMetalMachineScope_SetReady m) = bm_meta m" "bm_meta (SetProvisioned m) = bm_meta m"
  "bm_meta (SetServerStatus v m) = bm_meta m" "bm_meta (SetHardware c r d m) = bm_meta m"
  "bm_meta (SetVPC vpc m) = bm_meta m" "bm_meta (BareMetalMachineScope_SetAddresses addrs m) = bm_meta m"
  "bm_meta (BareMetalMachineScope_SetProviderID i m) = bm_meta m"
  "bm_meta (bm_set_condition E st reason msg now m) = bm_meta m"
  by (simp_all add: bm_setter_defs VultrBareMetalMachine_SetConditions_def)

lemma bm_Spec_setters_progress [simp]:
  "bm_Spec (BareMetalMachineScope_SetReady m) = bm_Spec m" "bm_Spec (SetProvisioned m) = bm_Spec m"
  "bm_Spec (SetServerStatus v m) = bm_Spec m" "bm_Spec (SetHardware c r d m) = bm_Spec m"
  "bm_Spec (SetVPC vpc m) = bm_Spec m" "bm_Spec (BareMetalMachineScope_SetAddresses addrs m) = bm_Spec m"
  "bm_Spec (bm_set_condition E st reason msg now m) = bm_Spec m"
  "bms_VPCID (bm_Spec (BareMetalMachineScope_SetProviderID i m)) = bms_VPCID (bm_Spec m)"
  by (simp_all add: bm_setter_defs VultrBareMetalMachine_SetConditions_def)

text \<open>A Ready condition that is no terminal failure leaves a machine that names its server on course.\<close>

lemma bm_on_course_report:
  assumes "bm_on_course E name vpcID (Some i) m" and "GetServerID m = i"
    and "bm_meta m' = bm_meta m" and "bm_Spec m' = bm_Spec m"
    and "bm_ready_report E m' \<noteq> Some (ConditionFalse, BareMetalUnexpectedStatusReason)"
    and "bm_ready_report E m' \<noteq> Some (ConditionFalse, BareMetalVPCAttachFailedReason)"
  shows "bm_on_course E name vpcID (Some i) m'" and "GetServerID m' = i"
  using assms
  by (simp_all add: bm_on_course_def BareMetalMachineScope_HasTerminalFailure_iff GetServerID_def
      BareMetalMachineScope_GetProviderID_def BareMetalMachineScope_Name_def)

lemma bm_on_course_same:
  assumes "bm_on_course E name vpcID (Some i) m" and "GetServerID m = i"
    and "bm_meta m' = bm_meta m" and "bm_Spec m' = bm_Spec m" and "bm_ready_report E m' = bm_ready_report E m"
  shows "bm_on_course E name vpcID (Some i) m'" and "GetServerID m' = i"
proof -
  have "bm_ready_report E m' \<noteq> Some (ConditionFalse, BareMetalUnexpectedStatusReason)"
    and "bm_ready_report E m' \<noteq> Some (ConditionFalse, BareMetalVPCAttachFailedReason)"
    using assms(1,5) by (simp_all add: bm_on_course_def BareMetalMachineScope_HasTerminalFailure_iff)
  from bm_on_course_report [OF assms(1-4) this]
  show "bm_on_course E name vpcID (Some i) m'" and "GetServerID m' = i" by simp_all
qed

lemma report_server_active_answers:
  assumes "conditions_laws E" and "bm_on_course E name vpcID (Some (bs_ID sv)) (obj s)" and "GetServerID (obj s) = bs_ID sv"
    and "bs_ID sv \<noteq> []"
  shows "\<exists>t. report_server_active E sv info s = Ret (no_requeue, None) t \<and> world t = world s \<and>
    bm_on_course E name vpcID (Some (bs_ID sv)) (obj t) \<and> bare_metal_ready E (obj t)"
proof -
  define t where "t = (case report_server_active E sv info s of Ret _ u \<Rightarrow> u | Panic _ u \<Rightarrow> u | Diverge \<Rightarrow> s)"
  have t: "report_server_active E sv info s = Ret (no_requeue, None) t" "world t = world s"
    and frame: "bm_meta (obj t) = bm_meta (obj s)" "bm_Spec (obj t) = bm_Spec (obj s)"
    unfolding t_def by (simp_all add: report_server_active_def)
  have ready: "bm_ready_report E (obj t) = Some (ConditionTrue, BareMetalServerActiveReason)"
    "bmst_Ready (bm_Status (obj t))" "bmst_Provisioned (bm_Status (obj t)) = Some True"
    unfolding t_def using assms(1) by (simp_all add: report_server_active_def)
      (simp_all add: BareMetalMachineScope_SetReady_def SetProvisioned_def)
  have "bm_on_course E name vpcID (Some (bs_ID sv)) (obj t)" and "GetServerID (obj t) = bs_ID sv"
    using bm_on_course_report [OF assms(2,3) frame] ready(1) by (simp_all add: ConditionTrue_def ConditionFalse_def)
  with t ready assms(4) show ?thesis by (auto simp: bare_metal_ready_def)
qed

text \<open>The load balancer confirms, or the machine waits for it.\<close>

lemma server_join_load_balancer_answers:
  assumes laws: "conditions_laws E"
    and lb: "BareMetalMachineScope_IsControlPlane E bsc \<Longrightarrow> load_balancer_answers cs (APIServerLoadBalancerID cs) P"
    and ok: "pl_ok P (world s)"
    and bm: "bm_on_course E name vpcID (Some (bs_ID sv)) (obj s)" "GetServerID (obj s) = bs_ID sv"
  shows "\<exists>early t. server_join_load_balancer E cs bsc sv s = Ret early t \<and> same_plant P (world s) (world t) \<and>
    bm_on_course E name vpcID (Some (bs_ID sv)) (obj t) \<and> GetServerID (obj t) = bs_ID sv \<and>
    (early = None \<or> pl_left P (world s) \<noteq> 0 \<and> (\<exists>r. early = Some (r, None) \<and> 0 < RequeueAfter r))"
proof (cases "BareMetalMachineScope_IsControlPlane E bsc")
  case False
  with bm same_plant_refl [OF ok] show ?thesis by (simp add: server_join_load_balancer_def)
next
  case True
  let ?lbID = "APIServerLoadBalancerID cs"
  obtain r t where join: "EnsureLoadBalancerMember cs ?lbID (bs_ID sv) s = Ret r t" "obj t = obj s"
      "same_plant P (world s) (world t)" "r = Inr True \<or> r = Inr False \<and> pl_left P (world s) \<noteq> 0"
    using total_EnsureLoadBalancerMember [OF lb [OF True] ok, of "bs_ID sv"] by (elim totalE) blast
  have lbID: "?lbID \<noteq> []" by (rule load_balancer_answersD(1) [OF lb [OF True]])
  show ?thesis
  proof (cases "r = Inr True")
    case member: True
    have "server_join_load_balancer E cs bsc sv s = Ret None t"
      using True lbID join(1) member by (simp add: server_join_load_balancer_def Let_def)
    with join(2,3) bm show ?thesis by auto
  next
    case waits: False
    with join(4) have r: "r = Inr False" "pl_left P (world s) \<noteq> 0" by simp_all
    let ?t = "t\<lparr>obj := bm_set_condition E ConditionFalse BareMetalWaitingForLoadBalancerReason
        ''Waiting for the load balancer to become active'' (Now E (world t)) (obj t)\<rparr>"
    have "server_join_load_balancer E cs bsc sv s = Ret (Some (requeue_after bareMetalLoadBalancerRequeue, None)) ?t"
      using True lbID join(1) r(1) by (simp add: server_join_load_balancer_def Let_def)
    moreover have "bm_on_course E name vpcID (Some (bs_ID sv)) (obj ?t)" "GetServerID (obj ?t) = bs_ID sv"
      using laws join(2) bm_on_course_report [OF bm, of "obj ?t"] by (simp_all add: reason_defs)
    ultimately show ?thesis using join(3) r(2) by auto
  qed
qed

text \<open>
  The VPC step of an active server: it is attached, and the handler goes on, or the attachment is asked
  for (again) and the handler returns.
\<close>

lemma vpc_listed:
  assumes "attachments_answer cs vpcID V P" and "pl_ok P (world s)" "pl_res P (world s) = Some (sv, st)"
  obtains infos w where "BareMetal_ListVPCInfo (BareMetal (cs_clients cs)) (bs_ID sv) (world s) = (Inr infos, w)"
    and "find (\<lambda>i. vpc_ID i = vpcID) infos \<noteq> None \<longleftrightarrow> st = Attached" and "same_plant P (world s) w"
proof -
  have "reads P (BareMetal_ListVPCInfo (BareMetal (cs_clients cs)) (bs_ID sv)) (\<lambda>w r. \<forall>sv' st. pl_res P w = Some (sv', st) \<longrightarrow>
      bs_ID sv' = bs_ID sv \<longrightarrow> (\<exists>infos. r = Inr infos \<and> (find (\<lambda>i. vpc_ID i = vpcID) infos \<noteq> None \<longleftrightarrow> st = Attached)))"
    using assms(1) by (simp add: attachments_answer_def)
  then show ?thesis
    by (rule reads_from [OF _ same_plant_refl [OF assms(2)]]) (use that assms(3) in blast)
qed

text \<open>Asking for the attachment brings the server one round closer.\<close>

lemma vpc_requested:
  assumes vpc: "attachments_answer cs vpcID V P" and "vpcID \<noteq> []" and st: "st \<noteq> Attached"
    and w: "pl_ok P w" "pl_res P w = Some (sv, st)" and requested: "pl_left P w = 0 \<Longrightarrow> st \<noteq> Requested"
  obtains w' st' where "BareMetal_AttachVPC (BareMetal (cs_clients cs)) (bs_ID sv) vpcID w = (None, w')" and "pl_ok P w'"
    and "pl_res P w' = Some (sv, st')"
    and "\<And>L. stage_rounds L V vpcID (Some (sv, st')) (pl_left P w' - 1) < stage_rounds L V vpcID (Some (sv, st)) (pl_left P w)"
proof -
  have "case BareMetal_AttachVPC (BareMetal (cs_clients cs)) (bs_ID sv) vpcID w of (e, w') \<Rightarrow>
      e = None \<and> pl_ok P w' \<and> pl_res P w' \<in> {Some (sv, Requested), Some (sv, Attached)} \<and>
      pl_left P w' \<le> (if st = Detached then V else pl_left P w)"
    using vpc w st by (simp add: attachments_answer_def)
  then obtain w' st' where att: "BareMetal_AttachVPC (BareMetal (cs_clients cs)) (bs_ID sv) vpcID w = (None, w')" "pl_ok P w'"
      "pl_res P w' = Some (sv, st')" "st' \<noteq> Detached" "pl_left P w' \<le> (if st = Detached then V else pl_left P w)"
    by (cases "BareMetal_AttachVPC (BareMetal (cs_clients cs)) (bs_ID sv) vpcID w") auto
  have "pl_left P w \<noteq> 0" if "st \<noteq> Detached" using that st requested by (cases st) auto
  then show ?thesis
    using att(4,5) assms(2) by (intro that [OF att(1-3)]) (auto simp: stage_rounds_def split: if_splits)
qed

lemma attach_vpc_answers:
  assumes laws: "conditions_laws E" and vpc: "vpcID \<noteq> [] \<Longrightarrow> attachments_answer cs vpcID V P"
    and ok: "pl_ok P (world s)" "pl_res P (world s) = Some (sv, st)"
    and requested: "pl_left P (world s) = 0 \<Longrightarrow> st \<noteq> Requested"
    and bm: "bm_on_course E name vpcID (Some (bs_ID sv)) (obj s)" "GetServerID (obj s) = bs_ID sv"
  shows "\<exists>t. bm_on_course E name vpcID (Some (bs_ID sv)) (obj t) \<and> GetServerID (obj t) = bs_ID sv \<and>
    ((\<exists>info. attach_vpc E cs sv s = Ret (Inr info) t) \<and> same_plant P (world s) (world t) \<and> (vpcID \<noteq> [] \<longrightarrow> st = Attached) \<or>
     (\<exists>r st'. attach_vpc E cs sv s = Ret (Inl (r, None)) t \<and> 0 < RequeueAfter r \<and> pl_ok P (world t) \<and>
        pl_res P (world t) = Some (sv, st') \<and>
        (\<forall>L. stage_rounds L V vpcID (Some (sv, st')) (pl_left P (world t) - 1)
           < stage_rounds L V vpcID (Some (sv, st)) (pl_left P (world s)))))"
proof (cases "vpcID = []")
  case True
  with bm same_plant_refl [OF ok(1)] show ?thesis
    by (intro exI [of _ s]) (simp add: attach_vpc_def bm_on_course_def)
next
  case False
  have spec: "bms_VPCID (bm_Spec (obj s)) = vpcID" using bm(1) by (simp add: bm_on_course_def)
  obtain infos w where get: "BareMetal_ListVPCInfo (BareMetal (cs_clients cs)) (bs_ID sv) (world s) = (Inr infos, w)"
      "find (\<lambda>i. vpc_ID i = vpcID) infos \<noteq> None \<longleftrightarrow> st = Attached" "same_plant P (world s) w"
    by (rule vpc_listed [OF vpc [OF False] ok]) (rule that)
  note same = same_plantD [OF get(3)]
  show ?thesis
  proof (cases "find (\<lambda>i. vpc_ID i = vpcID) infos")
    case (Some info)
    let ?t = "s\<lparr>world := w, trace := trace s @ [CallListVPCInfo (bs_ID sv)],
      obj := SetVPC (Some \<lparr>bv_ID = vpc_ID info, bv_IPAddress = vpc_IPAddress info, bv_MACAddress = vpc_MacAddress info\<rparr>) (obj s)\<rparr>"
    have "attach_vpc E cs sv s = Ret (Inr (Some info)) ?t"
      using False spec get(1) Some by (simp add: attach_vpc_def EnsureBareMetalVPC_def Let_def call_def and_then_def try_then_def)
    moreover have "bm_on_course E name vpcID (Some (bs_ID sv)) (obj ?t)" "GetServerID (obj ?t) = bs_ID sv"
      using bm_on_course_same [OF bm, of "obj ?t"] by simp_all
    moreover have "same_plant P (world s) (world ?t)" "st = Attached" using get(2,3) Some by simp_all
    ultimately show ?thesis by blast
  next
    case None
    with get(2) have st: "st \<noteq> Attached" by simp
    have w: "pl_res P w = Some (sv, st)" "pl_left P w = 0 \<Longrightarrow> st \<noteq> Requested" using same ok(2) requested by simp_all
    obtain w' st' where att: "BareMetal_AttachVPC (BareMetal (cs_clients cs)) (bs_ID sv) vpcID w = (None, w')" "pl_ok P w'"
        "pl_res P w' = Some (sv, st')"
        "\<And>L. stage_rounds L V vpcID (Some (sv, st')) (pl_left P w' - 1) < stage_rounds L V vpcID (Some (sv, st)) (pl_left P w)"
      by (rule vpc_requested [OF vpc [OF False] False st same(1) w(1) w(2)]) (assumption, rule that)
    let ?t = "s\<lparr>world := w', trace := trace s @ [CallListVPCInfo (bs_ID sv), CallAttachVPC (bs_ID sv) vpcID],
      obj := bm_set_condition E ConditionFalse BareMetalVPCAttachRequestedReason ''Waiting for VPC attachment'' (Now E w') (obj s)\<rparr>"
    have run: "attach_vpc E cs sv s = Ret (Inl (requeue_after bareMetalVPCRequeue, None)) ?t"
      using False spec get(1) att(1) None
      by (simp add: attach_vpc_def EnsureBareMetalVPC_def Let_def call_def and_then_def try_then_def)
    have "bm_on_course E name vpcID (Some (bs_ID sv)) (obj ?t)" "GetServerID (obj ?t) = bs_ID sv"
      using laws bm_on_course_report [OF bm, of "obj ?t"] by (simp_all add: reason_defs)
    with run att(2-4) same(4) show ?thesis by (intro exI [of _ ?t]) auto
  qed
qed

lemma set_server_details_names:
  assumes "bm_on_course E name vpcID (Some (bs_ID sv)) (obj s)" and "sound_server sv"
  obtains t where "set_server_details sv s = Ret () t" and "world t = world s"
    and "bm_on_course E name vpcID (Some (bs_ID sv)) (obj t)" and "GetServerID (obj t) = bs_ID sv"
proof -
  let ?m = "BareMetalMachineScope_SetProviderID (bs_ID sv) (obj s)"
  let ?o = "SetHardware (bs_CPUCount sv) (bs_RAM sv) (bs_Disk sv) (SetServerStatus (bs_Status sv) ?m)"
  have id: "GetServerID ?m = bs_ID sv"
    using assms(2) by (intro GetServerID_SetProviderID) (simp add: sound_server_def)
  have "bm_on_course E name vpcID (Some (bs_ID sv)) ?m"
    using assms(1) id by (simp add: bm_on_course_def BareMetalMachineScope_HasTerminalFailure_iff BareMetalMachineScope_Name_def)
  from bm_on_course_same [OF this id, of ?o] that [of "s\<lparr>obj := ?o\<rparr>"] show ?thesis
    by (simp add: set_server_details_def)
qed

text \<open>From the load balancer on, for a server whose VPC is attached.\<close>

lemma total_attached_server:
  assumes laws: "conditions_laws E"
    and lb: "BareMetalMachineScope_IsControlPlane E bsc \<Longrightarrow> load_balancer_answers cs (APIServerLoadBalancerID cs) P"
    and ok: "pl_ok P (world u)" "pl_res P (world u) = Some (sv, st)" and sound: "sound_server sv"
    and bm: "bm_on_course E name vpcID (Some (bs_ID sv)) (obj u)" "GetServerID (obj u) = bs_ID sv"
    and st: "vpcID \<noteq> [] \<longrightarrow> st = Attached" and n: "n = stage_rounds L V vpcID (Some (sv, st)) (pl_left P (world u))"
  shows "total (and_then (server_join_load_balancer E cs bsc sv)
      (\<lambda>early. case early of Some r \<Rightarrow> ret r | None \<Rightarrow> report_server_active E sv info))
    (\<lambda>r s'. pl_ok P (world s') \<and> snd r = None \<and>
       bm_advanced E name vpcID L V n (fst r) (obj s') (pl_res P (world s')) (pl_left P (world s'))) u"
proof -
  obtain early v where v: "server_join_load_balancer E cs bsc sv u = Ret early v" "same_plant P (world u) (world v)"
      "bm_on_course E name vpcID (Some (bs_ID sv)) (obj v)" "GetServerID (obj v) = bs_ID sv"
      "early = None \<or> pl_left P (world u) \<noteq> 0 \<and> (\<exists>r. early = Some (r, None) \<and> 0 < RequeueAfter r)"
    using server_join_load_balancer_answers [OF laws lb ok(1) bm] by blast
  have plant: "pl_ok P (world v)" "pl_res P (world v) = Some (sv, st)" "pl_left P (world v) = pl_left P (world u)"
    using same_plantD [OF v(2)] ok by simp_all
  have n: "n = pl_left P (world u)" using st n by (auto simp: stage_rounds_def)
  from v(5) show ?thesis
  proof
    assume "early = None"
    moreover obtain x where x: "report_server_active E sv info v = Ret (no_requeue, None) x" "world x = world v"
        "bm_on_course E name vpcID (Some (bs_ID sv)) (obj x)" "bare_metal_ready E (obj x)"
      using report_server_active_answers [OF laws v(3,4)] sound by (auto simp: sound_server_def)
    ultimately show ?thesis
      using v(1) plant st n by (auto simp: total_def bm_advanced_def server_id_def stage_rounds_def)
  next
    assume "pl_left P (world u) \<noteq> 0 \<and> (\<exists>r. early = Some (r, None) \<and> 0 < RequeueAfter r)"
    then show ?thesis
      using v(1,3) plant st n by (auto simp: total_def bm_advanced_def server_id_def stage_rounds_def)
  qed
qed

lemma total_pending_server:
  assumes laws: "conditions_laws E" and t: "set_server_details sv s = Ret () t"
    and bm: "bm_on_course E name vpcID (Some (bs_ID sv)) (obj t)" "GetServerID (obj t) = bs_ID sv"
    and "bs_Status sv = SubscriptionStatusPending"
  shows "total (reconcile_server E cs bsc sv)
    (\<lambda>r s'. snd r = None \<and> 0 < RequeueAfter (fst r) \<and> world s' = world t \<and> bm_on_course E name vpcID (Some (bs_ID sv)) (obj s')) s"
proof -
  let ?t = "t\<lparr>obj := bm_set_condition E ConditionFalse BareMetalServerPendingReason ''Bare metal server is provisioning''
      (Now E (world t)) (obj t)\<rparr>"
  have "reconcile_server E cs bsc sv s = Ret (requeue_after bareMetalPendingRequeue, None) ?t"
    using t assms(5) by (simp add: reconcile_server_def check_server_status_def)
  moreover have "bm_on_course E name vpcID (Some (bs_ID sv)) (obj ?t)"
    using laws bm_on_course_report(1) [OF bm, of "obj ?t"] by (simp add: reason_defs)
  ultimately show ?thesis by (simp add: total_def)
qed

lemma total_reconcile_server:
  assumes laws: "conditions_laws E" and srv: "servers_answer cs name role L P"
    and vpc: "vpcID \<noteq> [] \<Longrightarrow> attachments_answer cs vpcID V P"
    and lb: "BareMetalMachineScope_IsControlPlane E bsc \<Longrightarrow> load_balancer_answers cs (APIServerLoadBalancerID cs) P"
    and ok: "pl_ok P (world s)" "pl_res P (world s) = Some (sv, st)"
    and bm: "bm_on_course E name vpcID (Some (bs_ID sv)) (obj s)"
  shows "total (reconcile_server E cs bsc sv)
    (\<lambda>r s'. pl_ok P (world s') \<and> snd r = None \<and>
       bm_advanced E name vpcID L V (stage_rounds L V vpcID (Some (sv, st)) (pl_left P (world s))) (fst r) (obj s')
         (pl_res P (world s')) (pl_left P (world s'))) s" (is "total _ ?Q s")
proof -
  let ?n = "stage_rounds L V vpcID (Some (sv, st)) (pl_left P (world s))"
  have sound: "sound_server sv" by (rule servers_answerD(1) [OF srv ok])
  note settled = servers_answerD(2) [OF srv ok]
  obtain t where t: "set_server_details sv s = Ret () t" "world t = world s"
      "bm_on_course E name vpcID (Some (bs_ID sv)) (obj t)" "GetServerID (obj t) = bs_ID sv"
    by (rule set_server_details_names [OF bm sound]) (rule that)
  show ?thesis
  proof (cases "bs_Status sv = SubscriptionStatusActive")
    case False
    with sound have "bs_Status sv = SubscriptionStatusPending" by (simp add: sound_server_def)
    moreover have "pl_left P (world s) \<noteq> 0" using False settled by blast
    ultimately show ?thesis
      using t ok by (intro total_mono [OF total_pending_server [OF laws t(1,3,4)]])
        (auto simp: bm_advanced_def server_id_def stage_rounds_def)
  next
    case True
    have check: "check_server_status E sv u = Ret None u" for u :: "('a, VultrBareMetalMachine) st"
      using True by (simp add: check_server_status_def SubscriptionStatusActive_def SubscriptionStatusPending_def)
    obtain u where u: "bm_on_course E name vpcID (Some (bs_ID sv)) (obj u)" "GetServerID (obj u) = bs_ID sv"
      "(\<exists>info. attach_vpc E cs sv t = Ret (Inr info) u) \<and> same_plant P (world t) (world u) \<and> (vpcID \<noteq> [] \<longrightarrow> st = Attached) \<or>
       (\<exists>r st'. attach_vpc E cs sv t = Ret (Inl (r, None)) u \<and> 0 < RequeueAfter r \<and> pl_ok P (world u) \<and>
          pl_res P (world u) = Some (sv, st') \<and>
          (\<forall>L. stage_rounds L V vpcID (Some (sv, st')) (pl_left P (world u) - 1)
             < stage_rounds L V vpcID (Some (sv, st)) (pl_left P (world t))))"
      using attach_vpc_answers [OF laws vpc, of t sv st name] ok t(2-4) settled by auto
    from u(3) show ?thesis
    proof (elim disjE exE conjE)
      fix info
      assume a: "attach_vpc E cs sv t = Ret (Inr info) u" "same_plant P (world t) (world u)" "vpcID \<noteq> [] \<longrightarrow> st = Attached"
      note same = same_plantD [OF a(2)]
      have "total (and_then (server_join_load_balancer E cs bsc sv) (\<lambda>early. case early of Some r \<Rightarrow> ret r
          | None \<Rightarrow> report_server_active E sv info)) ?Q u"
        using same ok t(2) a(3) by (intro total_attached_server [OF laws lb _ _ sound u(1,2)]) simp_all
      moreover have "reconcile_server E cs bsc sv s = and_then (server_join_load_balancer E cs bsc sv)
          (\<lambda>early. case early of Some r \<Rightarrow> ret r | None \<Rightarrow> report_server_active E sv info) u"
        using t(1) check a(1) by (simp add: reconcile_server_def)
      ultimately show ?thesis by (simp add: total_def)
    next
      fix r st'
      assume a: "attach_vpc E cs sv t = Ret (Inl (r, None)) u" "0 < RequeueAfter r" "pl_ok P (world u)"
        "pl_res P (world u) = Some (sv, st')"
        "\<forall>L. stage_rounds L V vpcID (Some (sv, st')) (pl_left P (world u) - 1)
           < stage_rounds L V vpcID (Some (sv, st)) (pl_left P (world t))"
      have "reconcile_server E cs bsc sv s = Ret (r, None) u"
        using t(1) check a(1) by (simp add: reconcile_server_def)
      moreover have "stage_rounds L V vpcID (Some (sv, st')) (pl_left P (world u) - 1) < ?n" using a(5) t(2) by simp
      ultimately show ?thesis
        using a(2-4) u(1) by (auto simp: total_def bm_advanced_def server_id_def)
    qed
  qed
qed

lemma total_findOrCreateServer:
  assumes boot: "bm_bootstrap_answers E cs P" and srv: "servers_answer cs name (BareMetalMachineScope_Role E bsc) L P"
    and ok: "pl_ok P (world s)" and bm: "bm_on_course E name vpcID (server_id (pl_res P (world s))) (obj s)"
    and secret: "mc_DataSecretName (bsc_Machine bsc) \<noteq> None"
  obtains sv st t where "findOrCreateServer E cs bsc s = Ret (Inr (Some sv)) t" and "obj t = obj s" and "pl_ok P (world t)"
    and "pl_res P (world t) = Some (sv, st)" and "pl_res P (world s) \<in> {None, Some (sv, st)}"
    and "within L P (world s) (pl_left P (world t))"
proof (rule bm_foc.total_foc [of cs name E bsc fst P bs_ID s L])
  show "search_answers (BareMetal_List (BareMetal (cs_clients cs))) (bare_metal_list_options name)
      (\<lambda>sv. TagsOwnedByMachine (bs_Tags sv) (MachineTagParams cs name (BareMetalMachineScope_Role E bsc))) fst P"
    using servers_answerD(4) [OF srv ok] by (simp add: server_search_answers_def)
  show "GetServerID (obj s) \<noteq> [] \<longrightarrow> map_option (bs_ID \<circ> fst) (pl_res P (world s)) = Some (GetServerID (obj s))"
    using bm by (simp add: bm_on_course_def server_id_def)
  show "\<exists>t'. adopt_server sv t = Ret (Inr (Some sv)) t' \<and> world t' = world t \<and> obj t' = obj t"
    for sv and t :: "('a, VultrBareMetalMachine) st"
    by (simp add: adopt_server_def)
  fix t :: "('a, VultrBareMetalMachine) st"
  assume t: "obj t = obj s" "same_plant P (world s) (world t)" "pl_res P (world s) = None"
  have "total (CreateBareMetalServer E cs bsc)
      (\<lambda>r s'. \<exists>sv. r = Inr sv \<and> obj s' = obj t \<and> pl_ok P (world s') \<and> pl_res P (world s') = Some (sv, Detached) \<and>
         pl_left P (world s') \<le> L) t"
    using t bm same_plantD [OF t(2)]
    by (intro total_CreateBareMetalServer [OF boot srv _ _ _ secret]) (simp_all add: bm_on_course_def)
  then show "\<exists>x t'. create_server_step E cs bsc t = Ret (Inr (Some (fst x))) t' \<and> obj t' = obj s \<and> pl_ok P (world t') \<and>
      pl_res P (world t') = Some x \<and> pl_left P (world t') \<le> L"
    using t(1) by (elim totalE) (auto simp: create_server_step_def)
next
  fix x t
  assume "findOrCreateServer E cs bsc s = Ret (Inr (Some (fst x))) t" "obj t = obj s" "pl_ok P (world t)"
    "pl_res P (world t) = Some x" "pl_res P (world s) \<in> {None, Some x}" "within L P (world s) (pl_left P (world t))"
  then show thesis using that [of "fst x" t "snd x"] by simp
next
  show "get_answers (BareMetal_Get (BareMetal (cs_clients cs))) bs_ID fst P" by (rule servers_answerD(3) [OF srv ok])
  show "BareMetalMachineScope_Name (obj s) = name" using bm by (simp add: bm_on_course_def)
qed (rule ok)

lemma total_bm_reconcileNormal:
  fixes P :: "('w, VultrBareMetalMachine, BareMetalServer \<times> vpc_stage) plant" and s :: "('w, VultrBareMetalMachine) st"
  assumes laws: "conditions_laws E" and boot: "bm_bootstrap_answers E cs P"
    and srv: "servers_answer cs name (BareMetalMachineScope_Role E bsc) L P"
    and vpc: "vpcID \<noteq> [] \<Longrightarrow> attachments_answer cs vpcID V P"
    and lb: "BareMetalMachineScope_IsControlPlane E bsc \<Longrightarrow> load_balancer_answers cs (APIServerLoadBalancerID cs) P"
    and infra: "cl_InfrastructureProvisioned (bsc_Cluster bsc) = Some True"
    and secret: "mc_DataSecretName (bsc_Machine bsc) \<noteq> None"
    and ok: "pl_ok P (world s)" and bm: "bm_on_course E name vpcID (server_id (pl_res P (world s))) (obj s)"
  shows "total (VultrBareMetalMachine_reconcileNormal E cs bsc)
    (\<lambda>r s'. pl_ok P (world s') \<and> snd r = None \<and>
       bm_advanced E name vpcID L V (stage_rounds L V vpcID (pl_res P (world s)) (pl_left P (world s))) (fst r) (obj s')
         (pl_res P (world s')) (pl_left P (world s'))) s"
proof -
  let ?s = "s\<lparr>obj := bm_AddFinalizer E BareMetalMachineFinalizer (obj s)\<rparr>"
  have bm': "bm_on_course E name vpcID (server_id (pl_res P (world ?s))) (obj ?s)"
    using bm by (simp add: bm_on_course_def BareMetalMachineScope_HasTerminalFailure_iff BareMetalMachineScope_Name_def
        GetServerID_def BareMetalMachineScope_GetProviderID_def) (simp add: bm_AddFinalizer_def)
  have ok': "pl_ok P (world ?s)" using ok by simp
  obtain sv st t where find: "findOrCreateServer E cs bsc ?s = Ret (Inr (Some sv)) t" "obj t = obj ?s" "pl_ok P (world t)"
      "pl_res P (world t) = Some (sv, st)" "pl_res P (world s) \<in> {None, Some (sv, st)}"
      "within L P (world s) (pl_left P (world t))"
    by (rule total_findOrCreateServer [OF boot srv ok' bm' secret]) (rule that, simp_all add: within_def)
  have course: "bm_on_course E name vpcID (Some (bs_ID sv)) (obj t)"
    using bm' find(2,5) by (auto simp: bm_on_course_def server_id_def)
  obtain r u where run: "reconcile_server E cs bsc sv t = Ret r u" "pl_ok P (world u)" "snd r = None"
      "bm_advanced E name vpcID L V (stage_rounds L V vpcID (Some (sv, st)) (pl_left P (world t))) (fst r) (obj u)
         (pl_res P (world u)) (pl_left P (world u))"
    by (rule totalE [OF total_reconcile_server [OF laws srv vpc lb find(3,4) course]]) (use that in blast)+
  have "stage_rounds L V vpcID (Some (sv, st)) (pl_left P (world t)) \<le> stage_rounds L V vpcID (pl_res P (world s)) (pl_left P (world s))"
    using find(5,6) by (auto simp: stage_rounds_def within_def)
  then have "bm_advanced E name vpcID L V (stage_rounds L V vpcID (pl_res P (world s)) (pl_left P (world s))) (fst r) (obj u)
      (pl_res P (world u)) (pl_left P (world u))"
    using run(4) by (auto simp: bm_advanced_def)
  moreover have "VultrBareMetalMachine_reconcileNormal E cs bsc s = Ret r u"
    using bm infra secret find(1) run(1)
    by (auto simp: VultrBareMetalMachine_reconcileNormal_def reconcile_bootstrapped_server_def bm_on_course_def or_default_def)
  ultimately show ?thesis using run(2,3) by (simp add: total_def)
qed

section \<open>Rounds of a bare metal machine\<close>

definition bare_metal_answers ::
  "'w env \<Rightarrow> NamespacedName \<Rightarrow> Machine \<Rightarrow> Cluster \<Rightarrow> VultrCluster \<Rightarrow> string \<Rightarrow> string \<Rightarrow> nat \<Rightarrow> nat \<Rightarrow>
     ('w, VultrBareMetalMachine, BareMetalServer \<times> vpc_stage) plant \<Rightarrow> bool" where
  "bare_metal_answers E req machine cluster vc name vpcID L V P \<longleftrightarrow> (let cs = the_cluster_scope E cluster vc in
     bm_kube_answers E req machine cluster vc P \<and> bm_bootstrap_answers E cs P \<and>
     servers_answer cs name (MachineRole E machine) L P \<and>
     (vpcID \<noteq> [] \<longrightarrow> attachments_answer cs vpcID V P) \<and>
     (IsControlPlaneMachine E machine \<longrightarrow> load_balancer_answers cs (APIServerLoadBalancerID cs) P))"

text \<open>Between two runs the cloud settles: the server stays the same, and an attachment may be completed.\<close>

definition bm_settles :: "('w, 'o, BareMetalServer \<times> vpc_stage) plant \<Rightarrow> 'w \<Rightarrow> 'w \<Rightarrow> bool" where
  "bm_settles P w w' \<longleftrightarrow> pl_ok P w' \<and> pl_obj P w' = pl_obj P w \<and>
     map_option (\<lambda>(sv, st). (bs_ID sv, st = Detached)) (pl_res P w') =
       map_option (\<lambda>(sv, st). (bs_ID sv, st = Detached)) (pl_res P w) \<and> pl_left P w' \<le> pl_left P w - 1"

lemma total_bare_metal_round:
  assumes laws: "conditions_laws E" and ans: "bare_metal_answers E req machine cluster vc name vpcID L V P"
    and infra: "cl_InfrastructureProvisioned cluster = Some True" and secret: "mc_DataSecretName machine \<noteq> None"
    and ok: "pl_ok P (world s)"
    and bm: "bm_on_course E name vpcID (server_id (pl_res P (world s))) (pl_obj P (world s))"
  shows "total (VultrBareMetalMachine_Reconcile E req)
    (\<lambda>r s'. pl_ok P (world s') \<and> snd r = None \<and>
       bm_advanced E name vpcID L V (stage_rounds L V vpcID (pl_res P (world s)) (pl_left P (world s))) (fst r)
         (pl_obj P (world s')) (pl_res P (world s')) (pl_left P (world s'))) s"
proof -
  let ?cs = "the_cluster_scope E cluster vc" and ?bsc = "the_bare_metal_scope machine cluster vc (pl_obj P (world s))"
  have kube: "bm_kube_answers E req machine cluster vc P" and boot: "bm_bootstrap_answers E ?cs P"
    and srv: "servers_answer ?cs name (BareMetalMachineScope_Role E ?bsc) L P"
    and vpc: "vpcID \<noteq> [] \<Longrightarrow> attachments_answer ?cs vpcID V P"
    and lb: "BareMetalMachineScope_IsControlPlane E ?bsc \<Longrightarrow> load_balancer_answers ?cs (APIServerLoadBalancerID ?cs) P"
    using ans by (simp_all add: bare_metal_answers_def Let_def BareMetalMachineScope_Role_def
        BareMetalMachineScope_IsControlPlane_def the_bare_metal_scope_def)
  have alive: "(om_DeletionTimestamp (bm_meta (pl_obj P (world s))) \<noteq> None) = False" using bm by (simp add: bm_on_course_def)
  let ?post = "bm_advanced E name vpcID L V (stage_rounds L V vpcID (pl_res P (world s)) (pl_left P (world s)))"
  have "total (VultrBareMetalMachine_Reconcile E req) (\<lambda>r s'. snd r = None \<and> (pl_ok P (world s') \<and>
      ?post (fst r) (pl_obj P (world s')) (pl_res P (world s')) (pl_left P (world s')))) s"
  proof (rule total_bm_Reconcile [OF kube ok refl refl refl])
    fix t :: "('a, VultrBareMetalMachine) st"
    assume t: "same_plant P (world s) (world t)" "obj t = pl_obj P (world s)"
    have "total (VultrBareMetalMachine_reconcileNormal E ?cs ?bsc)
      (\<lambda>r s'. pl_ok P (world s') \<and> snd r = None \<and>
         bm_advanced E name vpcID L V (stage_rounds L V vpcID (pl_res P (world t)) (pl_left P (world t))) (fst r) (obj s')
           (pl_res P (world s')) (pl_left P (world s'))) t"
      using infra secret bm t(2) same_plantD [OF t(1)]
      by (intro total_bm_reconcileNormal [OF laws boot srv vpc lb]) (simp_all add: the_bare_metal_scope_def)
    then show "total (VultrBareMetalMachine_handler E ?cs ?bsc (om_DeletionTimestamp (bm_meta (pl_obj P (world s))) \<noteq> None))
      (\<lambda>r s'. snd r = None \<and> (pl_ok P (world s') \<and> ?post (fst r) (obj s') (pl_res P (world s')) (pl_left P (world s')))) t"
      unfolding alive VultrBareMetalMachine_handler_def same_plantD(3,4) [OF t(1)]
      by (simp only: if_False) (erule total_mono, simp)
  next
    fix r and s' :: "('a, VultrBareMetalMachine) st"
    assume post: "pl_ok P (world s') \<and> ?post r (obj s') (pl_res P (world s')) (pl_left P (world s'))"
    then have "object_kept (bm_meta (obj s'))" by (simp add: bm_advanced_def bm_on_course_def object_kept_def)
    with storesD [OF bm_kube_answersD(5) [OF kube], of "world s'" "obj s'" "pl_obj P (world s)"] post
    show "fst (PatchBM E (pl_obj P (world s)) (obj s') (world s')) = None \<and>
      (\<lambda>w'. pl_ok P w' \<and> ?post r (pl_obj P w') (pl_res P w') (pl_left P w'))
        (snd (PatchBM E (pl_obj P (world s)) (obj s') (world s')))"
      by simp
  qed
  then show ?thesis by (rule total_mono) blast
qed

text \<open>
  C5. A VultrBareMetalMachine becomes Ready: in a world that answers, every run of \<^verbatim>\<open>Reconcile\<close> on the way returns
  without an error and either leaves the machine Ready or asks to be called again; and after more rounds than the cloud needs to
  provision the server, then to attach its VPC, and to activate the load balancer, the machine is Ready and stays so.
\<close>

theorem bare_metal_becomes_ready:
  assumes "conditions_laws E" and "bare_metal_answers E req machine cluster vc name vpcID L V P"
    and "cl_InfrastructureProvisioned cluster = Some True" and "mc_DataSecretName machine \<noteq> None"
    and "pl_ok P w0" and "bm_on_course E name vpcID (server_id (pl_res P w0)) (pl_obj P w0)"
    and "rounds (VultrBareMetalMachine_Reconcile E req) (bm_settles P) w0 n (world s)"
  shows "(\<exists>r s'. VultrBareMetalMachine_Reconcile E req s = Ret (r, None) s' \<and>
      (bare_metal_ready E (pl_obj P (world s')) \<or> 0 < RequeueAfter r)) \<and>
    (stage_rounds L V vpcID (pl_res P w0) (pl_left P w0) < n \<longrightarrow> bare_metal_ready E (pl_obj P (world s)))"
proof -
  note run = total_bare_metal_round [OF assms(1-4)]
  let ?I = "\<lambda>w. pl_ok P w \<and> bm_on_course E name vpcID (server_id (pl_res P w)) (pl_obj P w)"
  let ?rank = "\<lambda>w. stage_rounds L V vpcID (pl_res P w) (pl_left P w)"
  have "?I (world s) \<and> ?rank (world s) \<le> ?rank w0 - n \<and> (?rank w0 < n \<longrightarrow> bare_metal_ready E (pl_obj P (world s)))"
  proof (rule rounds_reach [OF assms(7)])
    show "?I w0" using assms(5,6) by simp
    fix s a s' w
    assume I: "?I (world s)" and s': "VultrBareMetalMachine_Reconcile E req s = Ret a s'" and w: "bm_settles P (world s') w"
    from run [of s] I s' have post: "bm_advanced E name vpcID L V (?rank (world s)) (fst a) (pl_obj P (world s'))
        (pl_res P (world s')) (pl_left P (world s'))"
      by (simp add: total_def)
    then obtain sv st where res': "pl_res P (world s') = Some (sv, st)" by (auto simp: bm_advanced_def)
    with w obtain sv' st' where res: "pl_res P w = Some (sv', st')" "bs_ID sv' = bs_ID sv" "st' = Detached \<longleftrightarrow> st = Detached"
      by (auto simp: bm_settles_def)
    have "?rank w \<le> stage_rounds L V vpcID (pl_res P (world s')) (pl_left P (world s') - 1)"
      using w res res' by (auto simp: bm_settles_def stage_rounds_def)
    moreover have "server_id (pl_res P w) = server_id (pl_res P (world s'))" using res res' by (simp add: server_id_def)
    ultimately show "?I w \<and> ?rank w \<le> ?rank (world s) - 1 \<and> (?rank (world s) = 0 \<longrightarrow> bare_metal_ready E (pl_obj P w))"
      using post w by (auto simp: bm_advanced_def bm_settles_def)
  qed
  then obtain a s' where "VultrBareMetalMachine_Reconcile E req s = Ret a s'" "snd a = None"
      "bare_metal_ready E (pl_obj P (world s')) \<or> 0 < RequeueAfter (fst a)"
      "?rank w0 < n \<longrightarrow> bare_metal_ready E (pl_obj P (world s))"
    by (elim conjE) (rule totalE [OF run [of s]], simp_all add: bm_advanced_def)
  then show ?thesis by (cases a) auto
qed

section \<open>Being deleted\<close>

text \<open>The load balancer gives members up, or is gone itself.\<close>

definition removals_answer :: "'w ClusterScope \<Rightarrow> string \<Rightarrow> ('w, 'o, 'i) plant \<Rightarrow> bool" where
  "removals_answer cs lbID P \<longleftrightarrow>
     reads P (LoadBalancers_Get (LoadBalancers (cs_clients cs)) lbID)
       (\<lambda>w a. a_err a = None \<and> a_value a \<noteq> None \<or> a_err a \<noteq> None \<and> captured_status (a_trips a) = StatusNotFound) \<and>
     (\<forall>req. reads P (LoadBalancers_Update (LoadBalancers (cs_clients cs)) lbID req) (\<lambda>w u. a_err u = None))"

lemma RemoveLoadBalancerMember_answers:
  assumes "removals_answer cs lbID P" and "pl_ok P (world s)"
  shows "\<exists>t. RemoveLoadBalancerMember cs lbID i s = Ret None t \<and> obj t = obj s \<and> same_plant P (world s) (world t)"
proof (cases "lbID = []")
  case True
  with same_plant_refl [OF assms(2)] show ?thesis by (simp add: RemoveLoadBalancerMember_def)
next
  case False
  have get_law: "reads P (LoadBalancers_Get (LoadBalancers (cs_clients cs)) lbID)
      (\<lambda>w a. a_err a = None \<and> a_value a \<noteq> None \<or> a_err a \<noteq> None \<and> captured_status (a_trips a) = StatusNotFound)"
    and upd_law: "reads P (LoadBalancers_Update (LoadBalancers (cs_clients cs)) lbID req) (\<lambda>w u. a_err u = None)" for req
    using assms(1) by (simp_all add: removals_answer_def)
  obtain a w where get: "LoadBalancers_Get (LoadBalancers (cs_clients cs)) lbID (world s) = (a, w)"
      "a_err a = None \<and> a_value a \<noteq> None \<or> a_err a \<noteq> None \<and> captured_status (a_trips a) = StatusNotFound"
      "same_plant P (world s) w"
    by (rule reads_from [OF get_law same_plant_refl [OF assms(2)]]) (rule that)
  from get(2) show ?thesis
  proof (elim disjE conjE)
    assume "a_err a \<noteq> None" "captured_status (a_trips a) = StatusNotFound"
    then show ?thesis
      using False get(1,3) by (auto simp: RemoveLoadBalancerMember_def call_def and_then_def)
  next
    assume a: "a_err a = None" "a_value a \<noteq> None"
    then obtain lb where lb: "lb_read cs lbID (world s) = Some (lb, w)" using get(1) by (auto simp: lb_read_def)
    show ?thesis
    proof (cases rule: RemoveLoadBalancerMember_cases [OF False lb, of i])
      case 1
      then show ?thesis using get(3) by simp
    next
      case (2 u w')
      obtain u' w'' where upd: "LoadBalancers_Update (LoadBalancers (cs_clients cs)) lbID
          (members_req (removeAll i (gl_Instances lb))) w = (u', w'')" "a_err u' = None" "same_plant P (world s) w''"
        by (rule reads_from [OF upd_law get(3)]) (rule that)
      with 2 show ?thesis by simp
    qed
  qed
qed

definition bm_deletions_answer ::
  "'w ClusterScope \<Rightarrow> string \<Rightarrow> string \<Rightarrow> nat \<Rightarrow> ('w, 'o, BareMetalServer) plant \<Rightarrow> bool" where
  "bm_deletions_answer cs name role L P \<longleftrightarrow> server_search_answers cs name role (\<lambda>sv. sv) P \<and>
     delete_answers (BareMetal_Delete (BareMetal (cs_clients cs))) bs_ID (\<lambda>sv. sv) L P"

definition bm_leaving :: "string \<Rightarrow> VultrBareMetalMachine \<Rightarrow> bool" where
  "bm_leaving name bm \<longleftrightarrow> om_DeletionTimestamp (bm_meta bm) \<noteq> None \<and> BareMetalMachineScope_Name bm = name"

definition bm_given_up :: "VultrBareMetalMachine \<Rightarrow> bool" where
  "bm_given_up bm \<longleftrightarrow> BareMetalMachineFinalizer \<notin> set (om_Finalizers (bm_meta bm))"

lemma delete_known_server_answers:
  fixes t :: "('w, VultrBareMetalMachine) st"
  assumes del: "delete_answers (BareMetal_Delete (BareMetal (cs_clients cs))) bs_ID (\<lambda>sv. sv) L P" and ok: "pl_ok P (world t)"
    and lb: "BareMetalMachineScope_IsControlPlane E bsc \<Longrightarrow> removals_answer cs (APIServerLoadBalancerID cs) P"
  shows "\<exists>b t'. delete_known_server E cs bsc k t = Ret (Inr b) t' \<and> deletes L P (\<lambda>x. bs_ID x = k) (world t) (world t')"
proof (cases "k = []")
  case True
  have "bs_ID x \<noteq> []" if "pl_res P (world t) = Some x" for x
    using del ok that by (simp add: delete_answers_def)
  with True ok show ?thesis by (auto simp: delete_known_server_def deletes_def)
next
  case False
  have "\<exists>u. (if BareMetalMachineScope_IsControlPlane E bsc then RemoveLoadBalancerMember cs (APIServerLoadBalancerID cs) k
      else ret None) t = Ret None u \<and> same_plant P (world t) (world u)"
    using RemoveLoadBalancerMember_answers [OF lb ok, of k] same_plant_refl [OF ok] by auto
  then obtain u where u: "(if BareMetalMachineScope_IsControlPlane E bsc
      then RemoveLoadBalancerMember cs (APIServerLoadBalancerID cs) k else ret None) t = Ret None u"
      "same_plant P (world t) (world u)" by blast
  note same = same_plantD [OF u(2)]
  obtain b t' where d: "DeleteBareMetalServer cs k u = Ret (Inr b) t'" "deletes L P (\<lambda>x. bs_ID x = k) (world u) (world t')"
    by (rule server_by_id.total_del_res [OF del same(1) False]) (rule that)
  have "deletes L P (\<lambda>x. bs_ID x = k) (world t) (world t')" using d(2) same by (simp add: deletes_def)
  with False u(1) d(1) show ?thesis by (cases b) (auto simp: delete_known_server_def)
qed

lemma delete_remaining_server_answers:
  fixes t :: "('w, VultrBareMetalMachine) st"
  assumes del: "delete_answers (BareMetal_Delete (BareMetal (cs_clients cs))) bs_ID (\<lambda>sv. sv) L P" and ok: "pl_ok P (world t)"
    and x: "pl_res P (world t) = Some x" and known: "bs_ID x = k \<longrightarrow> pl_left P (world t) \<le> L"
  shows "\<exists>r t'. delete_remaining_server cs k x t = Ret (r, None) t' \<and> 0 < RequeueAfter r \<and>
    deletes L P (\<lambda>_. True) (world t) (world t')"
proof (cases "bs_ID x = k")
  case True
  with known ok show ?thesis by (simp add: delete_remaining_server_def deletes_def)
next
  case False
  have "bs_ID x \<noteq> []" using del ok x by (simp add: delete_answers_def)
  then obtain d t' where "DeleteBareMetalServer cs (bs_ID x) t = Ret (Inr d) t'"
      "deletes L P (\<lambda>y. bs_ID y = bs_ID x) (world t) (world t')"
    by (rule server_by_id.total_del_res [OF del ok]) (rule that)
  with False x show ?thesis by (simp add: delete_remaining_server_def deletes_def)
qed

lemma total_bm_reconcileDelete:
  fixes P :: "('w, VultrBareMetalMachine, BareMetalServer) plant" and s :: "('w, VultrBareMetalMachine) st"
  assumes laws: "finalizer_laws E" and ans: "bm_deletions_answer cs name (BareMetalMachineScope_Role E bsc) L P"
    and lb: "BareMetalMachineScope_IsControlPlane E bsc \<Longrightarrow> removals_answer cs (APIServerLoadBalancerID cs) P"
    and ok: "pl_ok P (world s)" and bm: "bm_leaving name (obj s)"
  shows "total (VultrBareMetalMachine_reconcileDelete E cs bsc)
    (\<lambda>r s'. pl_ok P (world s') \<and> snd r = None \<and> bm_leaving name (obj s') \<and>
       faded L P (world s) (fst r) (bm_given_up (obj s')) (pl_res P (world s')) (pl_left P (world s'))) s"
proof -
  let ?v = "bm_set_condition E ConditionFalse BareMetalDeletingReason ''Deleting the bare metal server'' (Now E (world s)) (obj s)"
  have search: "search_answers (BareMetal_List (BareMetal (cs_clients cs))) (bare_metal_list_options name)
      (\<lambda>sv. TagsOwnedByMachine (bs_Tags sv) (MachineTagParams cs name (BareMetalMachineScope_Role E bsc))) (\<lambda>sv. sv) P"
    and del: "delete_answers (BareMetal_Delete (BareMetal (cs_clients cs))) bs_ID (\<lambda>sv. sv) L P"
    using ans by (simp_all add: bm_deletions_answer_def server_search_answers_def)
  have name: "BareMetalMachineScope_Name (obj s) = name" using bm by (simp add: bm_leaving_def)
  show ?thesis
  proof (rule bm_delete.total_driver [OF search del ok name])
    fix t :: "('w, VultrBareMetalMachine) st" assume "world t = world s"
    then show "\<exists>b t'. delete_known_server E cs bsc (GetServerID (obj s)) t = Ret (Inr b) t' \<and>
        deletes L P (\<lambda>x. bs_ID x = GetServerID (obj s)) (world s) (world t')"
      using delete_known_server_answers [OF del _ lb, of t] ok by simp
  next
    fix x and t :: "('w, VultrBareMetalMachine) st"
    assume "pl_ok P (world t)" "pl_res P (world t) = Some x" "bs_ID x = GetServerID (obj s) \<longrightarrow> pl_left P (world t) \<le> L"
    then show "\<exists>r t'. delete_remaining_server cs (GetServerID (obj s)) x t = Ret (r, None) t' \<and> 0 < RequeueAfter r \<and>
        deletes L P (\<lambda>_. True) (world t) (world t')"
      by (rule delete_remaining_server_answers [OF del])
  next
    fix b and t :: "('w, VultrBareMetalMachine) st"
    show "\<exists>t'. finish_server_delete E b t = Ret (no_requeue, None) t' \<and> world t' = world t \<and>
        obj t' = bm_RemoveFinalizer E BareMetalMachineFinalizer (obj t)"
      by (simp add: finish_server_delete_def)
  next
    fix r t
    assume t: "VultrBareMetalMachine_reconcileDelete E cs bsc s = Ret (r, None) t" "pl_ok P (world t)"
      "obj t = bm_RemoveFinalizer E BareMetalMachineFinalizer ?v \<or> obj t = ?v"
      "faded L P (world s) r (obj t = bm_RemoveFinalizer E BareMetalMachineFinalizer ?v) (pl_res P (world t)) (pl_left P (world t))"
    have "bm_given_up (bm_RemoveFinalizer E BareMetalMachineFinalizer ?v)" using laws by (simp add: bm_given_up_def)
    with t(4) have "faded L P (world s) r (bm_given_up (obj t)) (pl_res P (world t)) (pl_left P (world t))"
      by (auto simp: faded_def)
    moreover have "bm_leaving name (obj t)"
      using t(3) bm by (auto simp: bm_leaving_def BareMetalMachineScope_Name_def bm_RemoveFinalizer_def)
    ultimately show ?thesis using t(1,2) by (simp add: total_def)
  qed
qed

text \<open>Kubernetes removes the machine with its last finalizer.\<close>

definition bm_kube_removes ::
  "'w env \<Rightarrow> NamespacedName \<Rightarrow> ('w, VultrBareMetalMachine, 'i) plant \<Rightarrow> ('w \<Rightarrow> bool) \<Rightarrow> bool" where
  "bm_kube_removes E req P gone \<longleftrightarrow> removes (IsNotFound E) bm_meta (GetVultrBareMetalMachine E req) (PatchBM E) P gone"

lemma total_absent_bare_metal:
  assumes "bm_kube_removes E req P gone" and "gone (world s)"
  shows "total (VultrBareMetalMachine_Reconcile E req) (\<lambda>r s'. snd r = None \<and> gone (world s')) s"
proof -
  obtain e w where "GetVultrBareMetalMachine E req (world s) = (Inl e, w)" "IsNotFound E e" "gone w"
    using removesD(2) [OF assms(1) [unfolded bm_kube_removes_def] assms(2)] by blast
  then show ?thesis by (simp add: VultrBareMetalMachine_Reconcile_def total_rules)
qed

lemma total_bm_deletion_round:
  assumes laws: "finalizer_laws E" and kube: "bm_kube_answers E req machine cluster vc P"
    and removal: "bm_kube_removes E req P gone"
    and ans: "bm_deletions_answer (the_cluster_scope E cluster vc) name (MachineRole E machine) L P"
    and lb: "IsControlPlaneMachine E machine \<longrightarrow>
      removals_answer (the_cluster_scope E cluster vc) (APIServerLoadBalancerID (the_cluster_scope E cluster vc)) P"
    and ok: "pl_ok P (world s)" and bm: "bm_leaving name (pl_obj P (world s))"
  shows "total (VultrBareMetalMachine_Reconcile E req)
    (\<lambda>r s'. snd r = None \<and> left_behind L P gone (bm_leaving name) bm_given_up (world s) (fst r) (world s')) s"
proof (rule total_bm_Reconcile [OF kube ok refl refl refl])
  let ?cs = "the_cluster_scope E cluster vc" and ?bsc = "the_bare_metal_scope machine cluster vc (pl_obj P (world s))"
  fix t :: "('a, VultrBareMetalMachine) st"
  assume t: "same_plant P (world s) (world t)" "obj t = pl_obj P (world s)"
  have "total (VultrBareMetalMachine_reconcileDelete E ?cs ?bsc) (\<lambda>r s'. pl_ok P (world s') \<and> snd r = None \<and>
      bm_leaving name (obj s') \<and>
      faded L P (world t) (fst r) (bm_given_up (obj s')) (pl_res P (world s')) (pl_left P (world s'))) t"
    using ans lb same_plantD [OF t(1)] t(2) bm
    by (intro total_bm_reconcileDelete [OF laws])
      (simp_all add: BareMetalMachineScope_Role_def BareMetalMachineScope_IsControlPlane_def the_bare_metal_scope_def)
  moreover have "faded L P (world t) = faded L P (world s)"
    using same_plantD [OF t(1)] by (simp add: faded_def fun_eq_iff)
  moreover have "(om_DeletionTimestamp (bm_meta (pl_obj P (world s))) \<noteq> None) = True" using bm by (simp add: bm_leaving_def)
  ultimately show "total (VultrBareMetalMachine_handler E ?cs ?bsc (om_DeletionTimestamp (bm_meta (pl_obj P (world s))) \<noteq> None))
    (\<lambda>r s'. snd r = None \<and> (pl_ok P (world s') \<and> bm_leaving name (obj s') \<and>
      faded L P (world s) (fst r) (bm_given_up (obj s')) (pl_res P (world s')) (pl_left P (world s')))) t"
    unfolding VultrBareMetalMachine_handler_def by (simp only: if_True) (erule total_mono, simp)
next
  fix r and s' :: "('a, VultrBareMetalMachine) st"
  assume "pl_ok P (world s') \<and> bm_leaving name (obj s') \<and>
      faded L P (world s) r (bm_given_up (obj s')) (pl_res P (world s')) (pl_left P (world s'))"
  with patch_leaves_behind [OF bm_kube_answersD(5) [OF kube] removal [unfolded bm_kube_removes_def],
      where leaves = "bm_leaving name" and free = bm_given_up]
  show "fst (PatchBM E (pl_obj P (world s)) (obj s') (world s')) = None \<and>
      left_behind L P gone (bm_leaving name) bm_given_up (world s) r (snd (PatchBM E (pl_obj P (world s)) (obj s') (world s')))"
    by blast
qed

text \<open>
  C12. A deleted VultrBareMetalMachine goes: in a world that answers and finishes the deletions it accepted, where Kubernetes
  removes a deleted object with the patch that takes its last finalizer off, every run of \<^verbatim>\<open>Reconcile\<close> for it
  returns without an error, also when the machine is not found any more, and either the machine is let go (removed from
  Kubernetes, or held there by the finalizers of others only) or the run asks to be called again; and after more rounds than the
  cloud needs to remove the server, the machine is let go. A load balancer that is already gone does not stand in the way.
\<close>

theorem bare_metal_gets_deleted:
  assumes "finalizer_laws E" and "bm_kube_answers E req machine cluster vc P" and "bm_kube_removes E req P gone"
    and "bm_deletions_answer (the_cluster_scope E cluster vc) name (MachineRole E machine) L P"
    and "IsControlPlaneMachine E machine \<longrightarrow>
      removals_answer (the_cluster_scope E cluster vc) (APIServerLoadBalancerID (the_cluster_scope E cluster vc)) P"
    and "pl_ok P w0" and "bm_leaving name (pl_obj P w0)"
    and "rounds (VultrBareMetalMachine_Reconcile E req) (fades L P gone bm_given_up) w0 n (world s)"
  shows "(\<exists>r s'. VultrBareMetalMachine_Reconcile E req s = Ret (r, None) s' \<and>
      (let_go P gone bm_given_up (world s') \<or> 0 < RequeueAfter r)) \<and>
    (deletion_rounds L P w0 < n \<longrightarrow> let_go P gone bm_given_up (world s))"
proof (rule rounds_fade [where leaves = "bm_leaving name" and free = bm_given_up, OF assms(8,6,7)])
  show "pl_res P w = None" if "pl_ok P w" "pl_left P w = 0" for w
    using assms(4) that by (simp add: bm_deletions_answer_def delete_answers_def)
qed (rule total_absent_bare_metal [OF assms(3)] total_bm_deletion_round [OF assms(1-5)], assumption+)+

end
