(* ===== verification/Machine_Progress.thy ===== *)
theory Machine_Progress
  imports Progress
begin

text \<open>
  A VultrMachine gets there: in a world that answers, every run of \<^verbatim>\<open>Reconcile\<close> ends without an
  error, each run either asks to be called again or leaves the machine Ready, and once the cloud has had its time
  the machine is Ready and stays so (\<open>machine_becomes_ready\<close>); a deleted machine loses its finalizer and, unless others
  hold it, is removed from Kubernetes (\<open>machine_gets_deleted\<close>).
\<close>

section \<open>A Kubernetes that answers\<close>

definition kube_answers ::
  "'w env \<Rightarrow> NamespacedName \<Rightarrow> Machine \<Rightarrow> Cluster \<Rightarrow> VultrCluster \<Rightarrow> ('w, VultrMachine, 'i) plant \<Rightarrow> bool" where
  "kube_answers E req machine cluster vc P \<longleftrightarrow> cluster_answers E vm_meta machine cluster vc P \<and>
     (\<forall>vm. NewHelperVM E vm = None) \<and>
     reads P (GetVultrMachine E req) (\<lambda>w r. r = Inr (pl_obj P w)) \<and>
     (\<forall>vm. reads P (EnsurePausedVM E cluster vm) (\<lambda>w r. r = ((False, False, None), vm))) \<and>
     (\<forall>old. stores vm_meta P (PatchVM E old))"

lemma kube_answersD:
  assumes "kube_answers E req machine cluster vc P"
  shows "cluster_answers E vm_meta machine cluster vc P" and "NewHelperVM E vm = None"
    and "reads P (GetVultrMachine E req) (\<lambda>w r. r = Inr (pl_obj P w))"
    and "reads P (EnsurePausedVM E cluster vm) (\<lambda>w r. r = ((False, False, None), vm))"
    and "stores vm_meta P (PatchVM E old)"
  using assms by (simp_all add: kube_answers_def)

text \<open>The scope a run makes there.\<close>

definition the_machine_scope :: "Machine \<Rightarrow> Cluster \<Rightarrow> VultrCluster \<Rightarrow> VultrMachine \<Rightarrow> MachineScope" where
  "the_machine_scope machine cluster vc vm = \<lparr>ms_Machine = machine, ms_Cluster = cluster, ms_VultrCluster = vc,
     ms_patchHelper = vm\<rparr>"

lemma total_run_scopes:
  assumes "total (if deleting then VultrMachine_reconcileDelete E cs ms else VultrMachine_reconcileNormal E cs ms)
      (\<lambda>r s'. snd r = None \<and> R (fst r) s') s"
    and "\<And>r s'. R r s' \<Longrightarrow> fst (PatchVM E (ms_patchHelper ms) (obj s') (world s')) = None \<and>
      Q r (snd (PatchVM E (ms_patchHelper ms) (obj s') (world s')))"
  shows "total (VultrMachine_run_scopes E cs ms deleting) (\<lambda>r s'. snd r = None \<and> Q (fst r) (world s')) s"
  using assms(1)
proof (rule totalE)
  fix r s'
  assume run: "(if deleting then VultrMachine_reconcileDelete E cs ms else VultrMachine_reconcileNormal E cs ms) s = Ret r s'"
    and post: "snd r = None \<and> R (fst r) s'"
  have "VultrMachine_run_scopes E cs ms deleting s = VultrMachine_close_after E ms r s'"
    unfolding VultrMachine_run_scopes_def deferred_def run by simp
  moreover have "total (VultrMachine_close_after E ms r) (\<lambda>r s'. snd r = None \<and> Q (fst r) (world s')) s'"
    using assms(2) [of "fst r" s'] post
    by (simp add: VultrMachine_close_after_def MachineScope_Close_def keep_error_def total_rules)
  ultimately show ?thesis by (simp add: total_def)
qed

text \<open>A run of \<open>Reconcile\<close> there is a run of its handler on the stored object, and patches what it leaves.\<close>

lemma total_Reconcile:
  assumes ans: "kube_answers E req machine cluster vc P" and ok: "pl_ok P (world s)"
    and vm: "vm = pl_obj P (world s)" "deleting = (om_DeletionTimestamp (vm_meta vm) \<noteq> None)"
    and scopes: "cs = the_cluster_scope E cluster vc" "ms = the_machine_scope machine cluster vc vm"
    and handler: "\<And>t. same_plant P (world s) (world t) \<Longrightarrow> obj t = vm \<Longrightarrow>
      total (if deleting then VultrMachine_reconcileDelete E cs ms else VultrMachine_reconcileNormal E cs ms)
        (\<lambda>r s'. snd r = None \<and> R (fst r) s') t"
    and close: "\<And>r s'. R r s' \<Longrightarrow> fst (PatchVM E vm (obj s') (world s')) = None \<and> Q r (snd (PatchVM E vm (obj s') (world s')))"
  shows "total (VultrMachine_Reconcile E req) (\<lambda>r s'. snd r = None \<and> Q (fst r) (world s')) s"
proof -
  note K = kube_answersD [OF ans] and C = cluster_answersD [OF kube_answersD(1) [OF ans]]
  let ?n = "\<lparr>nn_Namespace = om_Namespace (vm_meta vm), nn_Name = ir_Name (cl_InfrastructureRef cluster)\<rparr>"
  obtain w1 where w1: "GetVultrMachine E req (world s) = (Inr vm, w1)" "same_plant P (world s) w1"
    using vm(1) by (auto intro: reads_from [OF K(3) same_plant_refl [OF ok]])
  obtain w2 where w2: "GetOwnerMachine E (vm_meta vm) w1 = (Inr (Some machine), w2)" "same_plant P (world s) w2"
    using vm(1) same_plantD(2) [OF w1(2)] by (auto intro: reads_from [OF C(3) [of "vm_meta vm"] w1(2)])
  obtain w3 where w3: "GetClusterFromMetadata E (mc_meta machine) w2 = (Inr cluster, w3)" "same_plant P (world s) w3"
    by (auto intro: reads_from [OF C(4) w2(2)])
  obtain w4 where w4: "EnsurePausedVM E cluster vm w3 = (((False, False, None), vm), w4)" "same_plant P (world s) w4"
    by (auto intro: reads_from [OF K(4) [of vm] w3(2)])
  obtain w5 where w5: "GetVultrCluster E ?n w4 = (Inr vc, w5)" "same_plant P (world s) w5"
    by (auto intro: reads_from [OF C(5) [of ?n] w4(2)])
  let ?t = "s\<lparr>obj := vm, world := w5\<rparr>"
  have "VultrMachine_Reconcile E req s = VultrMachine_run_scopes E cs ms deleting ?t"
    unfolding VultrMachine_Reconcile_def VultrMachine_with_cluster_def ensure_paused_def Let_def
    using NewClusterScope_answers [OF K(1)] K(2) w1(1) w2(1) w3(1) w4(1) w5(1) vm(2) scopes
    by (simp add: kube_call_def and_then_def try_then_def is_error_def NewMachineScope_def the_machine_scope_def)
  moreover have "total (VultrMachine_run_scopes E cs ms deleting) (\<lambda>r s'. snd r = None \<and> Q (fst r) (world s')) ?t"
  proof (rule total_run_scopes)
    show "total (if deleting then VultrMachine_reconcileDelete E cs ms else VultrMachine_reconcileNormal E cs ms)
        (\<lambda>r s'. snd r = None \<and> R (fst r) s') ?t"
      by (rule handler) (simp_all add: w5(2))
  qed (use close scopes in \<open>simp add: the_machine_scope_def\<close>)
  ultimately show ?thesis by (simp add: total_def)
qed

section \<open>A cloud that provisions\<close>

text \<open>
  The bootstrap secret and the SSH keys can be read; a listing comes to an end and shows exactly the
  machine's instance, if there is one; a read by ID gives it; a create makes one, with a usable ID, which takes at most
  \<open>L\<close> rounds to provision.
\<close>

definition bootstrap_answers :: "'w env \<Rightarrow> 'w ClusterScope \<Rightarrow> ('w, 'o, 'i) plant \<Rightarrow> bool" where
  "bootstrap_answers E cs P \<longleftrightarrow>
     (\<forall>key. reads P (GetSecret E key)
        (\<lambda>w r. \<exists>data v. r = Inr data \<and> data ''value'' = Some v \<and> sublist ''runcmd:'' v)) \<and>
     (\<forall>k. reads P (SSHKeys_Get (SSHKeys (cs_clients cs)) k) (\<lambda>w a. a_err a = None \<and> a_value a \<noteq> None))"

definition sound_instance :: "Instance \<Rightarrow> bool" where
  "sound_instance i \<longleftrightarrow> in_ID i \<noteq> [] \<and> \<not> sublist ''://'' (in_ID i) \<and>
     in_Status i \<in> {SubscriptionStatusPending, SubscriptionStatusActive}"

definition instance_search_answers :: "'w ClusterScope \<Rightarrow> string \<Rightarrow> string \<Rightarrow> ('w, 'o, Instance) plant \<Rightarrow> bool" where
  "instance_search_answers cs name role P \<longleftrightarrow>
     search_answers (Instances_List (Instances (cs_clients cs))) (instance_list_options name)
       (\<lambda>i. instanceOwnedByMachine i (MachineTagParams cs name role)) (\<lambda>i. i) P"

definition instances_answer ::
  "'w ClusterScope \<Rightarrow> string \<Rightarrow> string \<Rightarrow> nat \<Rightarrow> ('w, 'o, Instance) plant \<Rightarrow> bool" where
  "instances_answer cs name role L P \<longleftrightarrow>
     (\<forall>w i. pl_ok P w \<longrightarrow> pl_res P w = Some i \<longrightarrow> sound_instance i \<and>
        (pl_left P w = 0 \<longrightarrow> in_Status i = SubscriptionStatusActive)) \<and>
     get_answers (Instances_Get (Instances (cs_clients cs))) in_ID (\<lambda>i. i) P \<and>
     instance_search_answers cs name role P \<and>
     (\<forall>req w. pl_ok P w \<longrightarrow> pl_res P w = None \<longrightarrow> icr_Label req = name \<longrightarrow>
        icr_Tags req = BuildTags (MachineTagParams cs name role) \<longrightarrow>
        (case Instances_Create (Instances (cs_clients cs)) req w of (a, w') \<Rightarrow>
           a_err a = None \<and> a_value a \<noteq> None \<and> pl_ok P w' \<and> pl_res P w' = a_value a \<and> pl_left P w' \<le> L))"

lemma bootstrap_answersD:
  assumes "bootstrap_answers E cs P"
  shows "reads P (GetSecret E key)
      (\<lambda>w r. \<exists>data v. r = Inr data \<and> data ''value'' = Some v \<and> sublist ''runcmd:'' v)"
    and "reads P (SSHKeys_Get (SSHKeys (cs_clients cs)) k) (\<lambda>w a. a_err a = None \<and> a_value a \<noteq> None)"
  using assms by (simp_all add: bootstrap_answers_def)

lemma total_instance_ssh_keys:
  assumes "bootstrap_answers E cs P" and "pl_ok P (world s)" and "[] \<notin> set keys"
  shows "total (instance_ssh_keys cs keys acc)
    (\<lambda>r s'. \<exists>ids. r = Inr ids \<and> obj s' = obj s \<and> same_plant P (world s) (world s')) s"
  using assms(2,3)
proof (induction keys arbitrary: acc s)
  case Nil
  then show ?case by (simp add: total_rules same_plant_refl)
next
  case (Cons k keys)
  obtain a w v where get: "SSHKeys_Get (SSHKeys (cs_clients cs)) k (world s) = (a, w)" "a_err a = None"
      "a_value a = Some v" "same_plant P (world s) w"
    by (rule reads_from [OF bootstrap_answersD(2) [OF assms(1)] same_plant_refl [OF Cons.prems(1)]])
      (use that in auto)
  let ?s = "s\<lparr>world := w, trace := trace s @ [CallSSHKeyGet k]\<rparr>"
  have "total (instance_ssh_keys cs keys (acc @ [v]))
      (\<lambda>r s'. \<exists>ids. r = Inr ids \<and> obj s' = obj ?s \<and> same_plant P (world ?s) (world s')) ?s"
    using Cons.prems(2) same_plantD(1) [OF get(4)] by (intro Cons.IH) simp_all
  then have "total (instance_ssh_keys cs keys (acc @ [v]))
      (\<lambda>r s'. \<exists>ids. r = Inr ids \<and> obj s' = obj s \<and> same_plant P (world s) (world s')) ?s"
    by (rule total_mono) (use same_plant_trans [OF get(4)] in auto)
  moreover have "k \<noteq> []" using Cons.prems(2) by auto
  ultimately show ?case using get by (simp add: GetSSHKey_def total_rules)
qed

text \<open>The instance is found, or created when there is none.\<close>

lemma instances_answerD:
  assumes "instances_answer cs name role L P" and "pl_ok P w"
  shows "pl_res P w = Some i \<Longrightarrow> sound_instance i"
    and "pl_res P w = Some i \<Longrightarrow> pl_left P w = 0 \<Longrightarrow> in_Status i = SubscriptionStatusActive"
    and "get_answers (Instances_Get (Instances (cs_clients cs))) in_ID (\<lambda>i. i) P"
    and "instance_search_answers cs name role P"
    and "pl_res P w = None \<Longrightarrow> icr_Label req = name \<Longrightarrow>
        icr_Tags req = BuildTags (MachineTagParams cs name role) \<Longrightarrow>
        (case Instances_Create (Instances (cs_clients cs)) req w of (a, w') \<Rightarrow>
           a_err a = None \<and> a_value a \<noteq> None \<and> pl_ok P w' \<and> pl_res P w' = a_value a \<and> pl_left P w' \<le> L)"
  using assms by (simp_all add: instances_answer_def)

lemma total_CreateInstance:
  assumes boot: "bootstrap_answers E cs P" and ins: "instances_answer cs name (MachineScope_Role E ms) L P"
    and ok: "pl_ok P (world s)" and none: "pl_res P (world s) = None"
    and vm: "MachineScope_Name (obj s) = name" "[] \<notin> set (vms_SSHKey (vm_Spec (obj s)))"
    and secret: "mc_DataSecretName (ms_Machine ms) \<noteq> None"
  shows "total (CreateInstance E cs ms)
    (\<lambda>r s'. \<exists>i. r = Inr i \<and> obj s' = obj s \<and> pl_ok P (world s') \<and> pl_res P (world s') = Some i \<and>
       pl_left P (world s') \<le> L) s"
proof -
  obtain secretName where name: "mc_DataSecretName (ms_Machine ms) = Some secretName" using secret by blast
  let ?key = "\<lparr>nn_Namespace = MachineScope_Namespace (obj s), nn_Name = secretName\<rparr>"
  obtain w data v where get: "GetSecret E ?key (world s) = (Inr data, w)" "data ''value'' = Some v"
      "sublist ''runcmd:'' v" "same_plant P (world s) w"
    by (rule reads_from [OF bootstrap_answersD(1) [OF boot] same_plant_refl [OF ok], of ?key]) (use that in blast)
  obtain userData where ud: "appendToUserDataCloudConfig v [''ufw disable''] = Some userData"
    using appendToUserDataCloudConfig_runcmd [OF get(3)] by blast
  let ?s = "s\<lparr>world := w, trace := trace s @ [CallSecretGet ?key]\<rparr>"
  have submit: "total (submit_instance cs name (instance_create_req spec name keys d
        (BuildTags (MachineTagParams cs name (MachineScope_Role E ms)))))
      (\<lambda>r s'. \<exists>i. r = Inr i \<and> obj s' = obj s \<and> pl_ok P (world s') \<and> pl_res P (world s') = Some i \<and>
         pl_left P (world s') \<le> L) t"
    if t: "obj t = obj ?s" "same_plant P w (world t)" for spec keys d t
  proof -
    have t': "pl_ok P (world t)" "pl_res P (world t) = None"
      using same_plantD(1) [OF t(2)] same_plantD(3) [OF t(2)] same_plantD(3) [OF get(4)] none by simp_all
    let ?req = "instance_create_req spec name keys d (BuildTags (MachineTagParams cs name (MachineScope_Role E ms)))"
    obtain a w' i where c: "Instances_Create (Instances (cs_clients cs)) ?req (world t) = (a, w')" "a_err a = None"
        "a_value a = Some i" "pl_ok P w'" "pl_res P w' = Some i" "pl_left P w' \<le> L"
      using instances_answerD(5) [OF ins t'(1,2), of ?req] by (auto split: prod.splits)
    have "in_ID i \<noteq> []" using instances_answerD(1) [OF ins c(4,5)] by (simp add: sound_instance_def)
    with c t(1) show ?thesis by (simp add: submit_instance_def total_rules Let_def)
  qed
  have "total (instance_ssh_keys cs (vms_SSHKey (vm_Spec (obj s))) [])
      (\<lambda>r s'. \<exists>ids. r = Inr ids \<and> obj s' = obj ?s \<and> same_plant P (world ?s) (world s')) ?s"
    using same_plantD(1) [OF get(4)] vm(2) by (intro total_instance_ssh_keys [OF boot]) simp_all
  then have "total (try_then (instance_ssh_keys cs (vms_SSHKey (vm_Spec (obj s))) []) (\<lambda>err. ret (Inl err))
      (\<lambda>keys. submit_instance cs name (instance_create_req (vm_Spec (obj s)) name keys (base64_EncodeToString userData)
         (BuildTags (MachineTagParams cs name (MachineScope_Role E ms))))))
      (\<lambda>r s'. \<exists>i. r = Inr i \<and> obj s' = obj s \<and> pl_ok P (world s') \<and> pl_res P (world s') = Some i \<and>
         pl_left P (world s') \<le> L) ?s"
    by (rule total_bind_Inr) (rule submit; simp)
  then show ?thesis
    unfolding CreateInstance_def MachineScope_GetBootstrapData_def GetBootstrapData_def Let_def
    using name get(1,2) ud vm(1) by (simp add: total_rules)
qed

section \<open>Becoming ready\<close>

definition machine_ready :: "'w env \<Rightarrow> VultrMachine \<Rightarrow> bool" where
  "machine_ready E vm \<longleftrightarrow> vm_ready_report E vm = Some (ConditionTrue, InstanceActiveReason) \<and>
     vmst_Ready (vm_Status vm) \<and> vmst_Provisioned (vm_Status vm) \<and> GetInstanceID vm \<noteq> []"

text \<open>The machine is not being deleted, has not failed, and names no other instance than its own.\<close>

definition on_course :: "'w env \<Rightarrow> string \<Rightarrow> Instance option \<Rightarrow> VultrMachine \<Rightarrow> bool" where
  "on_course E name res vm \<longleftrightarrow> om_DeletionTimestamp (vm_meta vm) = None \<and> MachineScope_Name vm = name \<and>
     [] \<notin> set (vms_SSHKey (vm_Spec vm)) \<and> \<not> MachineScope_HasTerminalFailure E vm \<and>
     (GetInstanceID vm \<noteq> [] \<longrightarrow> map_option in_ID res = Some (GetInstanceID vm))"

lemma total_findOrCreateInstance:
  assumes boot: "bootstrap_answers E cs P" and ins: "instances_answer cs name (MachineScope_Role E ms) L P"
    and ok: "pl_ok P (world s)" and vm: "on_course E name (pl_res P (world s)) (obj s)"
    and secret: "mc_DataSecretName (ms_Machine ms) \<noteq> None"
  obtains i t where "findOrCreateInstance E cs ms s = Ret (Inr (Some i)) t" and "obj t = obj s" and "pl_ok P (world t)"
    and "pl_res P (world t) = Some i" and "pl_res P (world s) \<in> {None, Some i}" and "within L P (world s) (pl_left P (world t))"
proof (rule vm_foc.total_foc [of cs name E ms "\<lambda>i. i" P in_ID s L])
  show "search_answers (Instances_List (Instances (cs_clients cs))) (instance_list_options name)
      (\<lambda>i. instanceOwnedByMachine i (MachineTagParams cs name (MachineScope_Role E ms))) (\<lambda>i. i) P"
    using instances_answerD(4) [OF ins ok] by (simp add: instance_search_answers_def)
  show "GetInstanceID (obj s) \<noteq> [] \<longrightarrow> map_option (in_ID \<circ> (\<lambda>i. i)) (pl_res P (world s)) = Some (GetInstanceID (obj s))"
    using vm by (simp add: on_course_def comp_def)
  show "\<exists>t'. adopt_instance i t = Ret (Inr (Some i)) t' \<and> world t' = world t \<and> obj t' = obj t"
    for i and t :: "('a, VultrMachine) st"
    by (simp add: adopt_instance_def)
  fix t :: "('a, VultrMachine) st"
  assume t: "obj t = obj s" "same_plant P (world s) (world t)" "pl_res P (world s) = None"
  let ?t = "t\<lparr>trace := trace t @ [Eventf EventTypeNormal ''InstanceCreating'' ''Creating''
      ''No instance found, attempting create'' []]\<rparr>"
  have "total (CreateInstance E cs ms)
      (\<lambda>r s'. \<exists>i. r = Inr i \<and> obj s' = obj ?t \<and> pl_ok P (world s') \<and> pl_res P (world s') = Some i \<and>
         pl_left P (world s') \<le> L) ?t"
    using t vm same_plantD [OF t(2)]
    by (intro total_CreateInstance [OF boot ins _ _ _ _ secret]) (simp_all add: on_course_def)
  then show "\<exists>x t'. create_instance_step E cs ms t = Ret (Inr (Some x)) t' \<and> obj t' = obj s \<and> pl_ok P (world t') \<and>
      pl_res P (world t') = Some x \<and> pl_left P (world t') \<le> L"
    using t(1) by (elim totalE) (auto simp: create_instance_step_def)
next
  show "get_answers (Instances_Get (Instances (cs_clients cs))) in_ID (\<lambda>i. i) P" by (rule instances_answerD(3) [OF ins ok])
  show "MachineScope_Name (obj s) = name" using vm by (simp add: on_course_def)
qed (use ok that in blast)+

text \<open>What a run of the handler leaves: no error, the machine on course, and Ready or to be called again.\<close>

definition advanced ::
  "'w env \<Rightarrow> string \<Rightarrow> bool \<Rightarrow> Result \<Rightarrow> VultrMachine \<Rightarrow> Instance option \<Rightarrow> bool" where
  "advanced E name settled r vm res \<longleftrightarrow> on_course E name res vm \<and> (machine_ready E vm \<or> 0 < RequeueAfter r) \<and>
     (settled \<longrightarrow> machine_ready E vm)"

lemma requeue_positive [simp]: "0 < loadBalancerRequeue" "0 < notFoundRequeue" "0 < 10 * Second"
  by (simp_all add: loadBalancerRequeue_def notFoundRequeue_def Second_def)

lemma vm_meta_setters [simp]:
  "vm_meta (MachineScope_SetReady m) = vm_meta m" "vm_meta (vm_set_Provisioned b m) = vm_meta m"
  "vm_meta (SetInstanceStatus v m) = vm_meta m" "vm_meta (SetCPU c m) = vm_meta m"
  "vm_meta (SetRAM c m) = vm_meta m" "vm_meta (SetStorage c m) = vm_meta m"
  "vm_meta (MachineScope_SetAddresses addrs m) = vm_meta m" "vm_meta (MachineScope_SetProviderID i m) = vm_meta m"
  "vm_meta (vm_set_condition E st reason msg now m) = vm_meta m"
  "vm_Spec (vm_set_condition E st reason msg now m) = vm_Spec m"
  "vms_SSHKey (vm_Spec (MachineScope_SetProviderID i m)) = vms_SSHKey (vm_Spec m)"
  by (simp_all add: vm_setter_defs VultrMachine_SetConditions_def)

text \<open>A Ready condition that is no terminal failure leaves a machine that names its instance on course.\<close>

lemma on_course_report:
  assumes "on_course E name (Some i) m" and "GetInstanceID m = in_ID i"
    and "vm_meta m' = vm_meta m" and "vm_Spec m' = vm_Spec m"
    and "vm_ready_report E m' \<noteq> Some (ConditionFalse, InstanceUnexpectedStatusReason)"
  shows "on_course E name (Some i) m'" and "GetInstanceID m' = in_ID i"
  using assms
  by (simp_all add: on_course_def MachineScope_HasTerminalFailure_iff GetInstanceID_def MachineScope_GetProviderID_def
      MachineScope_Name_def)

lemma total_report_instance_status:
  assumes laws: "conditions_laws E" and i: "sound_instance i"
    and vm: "on_course E name (Some i) (obj s)" "GetInstanceID (obj s) = in_ID i"
    and settled: "settled \<longrightarrow> in_Status i = SubscriptionStatusActive"
  shows "total (report_instance_status E i)
    (\<lambda>r s'. snd r = None \<and> world s' = world s \<and> advanced E name settled (fst r) (obj s') (Some i)) s"
proof -
  have id: "GetInstanceID m = in_ID i" if "vm_Spec m = vm_Spec (obj s)" for m
    using vm(2) that by (simp add: GetInstanceID_def MachineScope_GetProviderID_def)
  have course: "on_course E name (Some i) m"
    if "vm_meta m = vm_meta (obj s)" "vm_Spec m = vm_Spec (obj s)"
      "vm_ready_report E m \<noteq> Some (ConditionFalse, InstanceUnexpectedStatusReason)" for m
    using on_course_report(1) [OF vm that(1,2,3)] .
  show ?thesis
  proof (cases "in_Status i = SubscriptionStatusActive")
    case True
    with laws i show ?thesis
      by (simp add: report_instance_status_def total_rules advanced_def machine_ready_def course id sound_instance_def
          status_defs SubscriptionStatusPending_def SubscriptionStatusActive_def ConditionTrue_def ConditionFalse_def)
  next
    case False
    with i have pending: "in_Status i = SubscriptionStatusPending" by (simp add: sound_instance_def)
    with laws False settled show ?thesis
      by (simp add: report_instance_status_def total_rules advanced_def course ConditionUnknown_def ConditionFalse_def)
  qed
qed

text \<open>The load balancer confirms, or the machine waits for it.\<close>

lemma join_load_balancer_answers:
  assumes laws: "conditions_laws E"
    and lb: "IsControlPlaneMachine E (ms_Machine ms) \<Longrightarrow> load_balancer_answers cs (ref_ResourceID (APIServerLoadbalancersRef cs)) P"
    and ok: "pl_ok P (world s)" and vm: "on_course E name (Some i) (obj s)" "GetInstanceID (obj s) = in_ID i"
  shows "\<exists>early t. join_load_balancer E cs ms i s = Ret early t \<and> same_plant P (world s) (world t) \<and>
    on_course E name (Some i) (obj t) \<and> GetInstanceID (obj t) = in_ID i \<and>
    (early = None \<or> pl_left P (world s) \<noteq> 0 \<and> (\<exists>r. early = Some (r, None) \<and> 0 < RequeueAfter r))"
proof (cases "IsControlPlaneMachine E (ms_Machine ms)")
  case False
  with vm same_plant_refl [OF ok] show ?thesis by (simp add: join_load_balancer_def)
next
  case True
  let ?lbID = "ref_ResourceID (APIServerLoadbalancersRef cs)"
  obtain r t where join: "EnsureLoadBalancerMember cs ?lbID (in_ID i) s = Ret r t" "obj t = obj s"
      "same_plant P (world s) (world t)" "r = Inr True \<or> r = Inr False \<and> pl_left P (world s) \<noteq> 0"
    using total_EnsureLoadBalancerMember [OF lb [OF True] ok, of "in_ID i"] by (elim totalE) blast
  have lbID: "?lbID \<noteq> []" by (rule load_balancer_answersD(1) [OF lb [OF True]])
  show ?thesis
  proof (cases "r = Inr True")
    case member: True
    have "join_load_balancer E cs ms i s = Ret None t"
      using True lbID join(1) member by (simp add: join_load_balancer_def Let_def)
    with join(2,3) vm show ?thesis by auto
  next
    case waits: False
    with join(4) have r: "r = Inr False" "pl_left P (world s) \<noteq> 0" by simp_all
    let ?t = "t\<lparr>obj := vm_set_condition E ConditionFalse InstanceWaitingForLoadBalancerReason
        ''Waiting for the load balancer to become active'' (Now E (world t)) (obj t)\<rparr>"
    have "join_load_balancer E cs ms i s = Ret (Some (requeue_after loadBalancerRequeue, None)) ?t"
      using True lbID join(1) r(1) by (simp add: join_load_balancer_def Let_def)
    moreover have "on_course E name (Some i) (obj ?t)" "GetInstanceID (obj ?t) = in_ID i"
      using laws join(2) on_course_report [OF vm, of "obj ?t"] by (simp_all add: reason_defs)
    ultimately show ?thesis using join(3) r(2) by auto
  qed
qed

text \<open>From the load balancer on, for a machine that knows its instance.\<close>

lemma total_joined:
  assumes laws: "conditions_laws E" and i: "sound_instance i"
    and lb: "IsControlPlaneMachine E (ms_Machine ms) \<Longrightarrow> load_balancer_answers cs (ref_ResourceID (APIServerLoadbalancersRef cs)) P"
    and ok: "pl_ok P (world s)" and active: "pl_left P (world s) = 0 \<longrightarrow> in_Status i = SubscriptionStatusActive"
    and vm: "on_course E name (Some i) (obj s)" "GetInstanceID (obj s) = in_ID i"
  shows "total (and_then (join_load_balancer E cs ms i) (\<lambda>early. case early of Some r \<Rightarrow> ret r | None \<Rightarrow>
      and_then (set_instance_addresses E i) (\<lambda>early. case early of Some r \<Rightarrow> ret r | None \<Rightarrow> report_instance_status E i)))
    (\<lambda>r s'. snd r = None \<and> same_plant P (world s) (world s') \<and>
       advanced E name (pl_left P (world s) = 0) (fst r) (obj s') (Some i)) s" (is "total ?m ?Q s")
proof -
  obtain addrs where addrs: "GetInstanceAddress i = Inr addrs" by (simp add: GetInstanceAddress_def)
  obtain early t where join: "join_load_balancer E cs ms i s = Ret early t" "same_plant P (world s) (world t)"
      "on_course E name (Some i) (obj t)" "GetInstanceID (obj t) = in_ID i"
      "early = None \<or> pl_left P (world s) \<noteq> 0 \<and> (\<exists>r. early = Some (r, None) \<and> 0 < RequeueAfter r)"
    using join_load_balancer_answers [OF laws lb ok vm] by blast
  from join(5) show ?thesis
  proof
    assume none: "early = None"
    let ?m = "MachineScope_SetAddresses addrs (obj t)"
    have "vm_ready_report E (obj t) \<noteq> Some (ConditionFalse, InstanceUnexpectedStatusReason)"
      using join(3) by (simp add: on_course_def MachineScope_HasTerminalFailure_iff)
    then have "on_course E name (Some i) ?m" "GetInstanceID ?m = in_ID i"
      using on_course_report [OF join(3,4), of ?m] by simp_all
    then have "total (report_instance_status E i) ?Q u" if "obj u = ?m" "world u = world t" for u
      using that join(2) by (intro total_mono [OF total_report_instance_status [OF laws i _ _ active]]) auto
    then show ?thesis
      using none join(1) addrs by (simp add: total_rules total_def [of "join_load_balancer _ _ _ _"] set_instance_addresses_def)
  next
    assume "pl_left P (world s) \<noteq> 0 \<and> (\<exists>r. early = Some (r, None) \<and> 0 < RequeueAfter r)"
    then show ?thesis using join(1-3) by (auto simp: total_def advanced_def)
  qed
qed

text \<open>The machine knows its instance, in Kubernetes too.\<close>

lemma persist_provider_id_stores:
  assumes i: "sound_instance i" and stores: "stores vm_meta P (PatchVM E (ms_patchHelper ms))"
    and ok: "pl_ok P (world s)" "pl_res P (world s) = Some i" and vm: "on_course E name (Some i) (obj s)"
  obtains t where "persist_provider_id E ms i s = Ret None t" and "on_course E name (Some i) (obj t)"
    and "GetInstanceID (obj t) = in_ID i" and "pl_ok P (world t)" and "pl_res P (world t) = Some i"
    and "pl_left P (world t) = pl_left P (world s)"
proof (cases "GetInstanceID (obj s) = in_ID i")
  case True
  with that [of s] ok vm show ?thesis by (simp add: persist_provider_id_def)
next
  case False
  have id: "in_ID i \<noteq> []" "\<not> sublist ''://'' (in_ID i)" using i by (simp_all add: sound_instance_def)
  let ?vm = "MachineScope_SetProviderID (in_ID i) (obj s)"
  have kept: "object_kept (vm_meta ?vm)" using vm by (simp add: on_course_def object_kept_def)
  let ?w = "snd (PatchVM E (ms_patchHelper ms) ?vm (world s))"
  have "persist_provider_id E ms i s = Ret None (s\<lparr>obj := ?vm, world := ?w, trace := trace s @ [PatchVultrMachine ?vm]\<rparr>)"
    using False storesD(1) [OF stores ok(1) kept]
    by (cases "PatchVM E (ms_patchHelper ms) ?vm (world s)")
      (simp add: persist_provider_id_def MachineScope_PatchObject_def call_def and_then_def)
  moreover have "on_course E name (Some i) ?vm"
    using vm id by (simp add: on_course_def GetInstanceID_SetProviderID MachineScope_HasTerminalFailure_iff
        MachineScope_Name_def)
  ultimately show ?thesis
    using that storesD [OF stores ok(1) kept] ok(2) by (simp add: GetInstanceID_SetProviderID id)
qed

lemma total_reconcile_instance:
  assumes laws: "conditions_laws E" and i: "sound_instance i"
    and lb: "IsControlPlaneMachine E (ms_Machine ms) \<Longrightarrow> load_balancer_answers cs (ref_ResourceID (APIServerLoadbalancersRef cs)) P"
    and stores: "stores vm_meta P (PatchVM E (ms_patchHelper ms))"
    and ok: "pl_ok P (world s)" "pl_res P (world s) = Some i"
    and active: "pl_left P (world s) = 0 \<longrightarrow> in_Status i = SubscriptionStatusActive"
    and vm: "on_course E name (Some i) (obj s)"
  shows "total (reconcile_instance E cs ms i)
    (\<lambda>r s'. snd r = None \<and> pl_ok P (world s') \<and> pl_res P (world s') = Some i \<and>
       pl_left P (world s') = pl_left P (world s) \<and>
       advanced E name (pl_left P (world s) = 0) (fst r) (obj s') (Some i)) s"
proof -
  obtain t where persist: "persist_provider_id E ms i s = Ret None t" "on_course E name (Some i) (obj t)"
      "GetInstanceID (obj t) = in_ID i" "pl_ok P (world t)" "pl_res P (world t) = Some i"
      "pl_left P (world t) = pl_left P (world s)"
    by (rule persist_provider_id_stores [OF i stores ok vm])
  have details: "on_course E name (Some i) m" "GetInstanceID m = in_ID i"
    if "vm_meta m = vm_meta (obj t)" "vm_Spec m = vm_Spec (obj t)" "vm_ready_report E m = vm_ready_report E (obj t)" for m
  proof -
    have "vm_ready_report E (obj t) \<noteq> Some (ConditionFalse, InstanceUnexpectedStatusReason)"
      using persist(2) by (simp add: on_course_def MachineScope_HasTerminalFailure_iff)
    then show "on_course E name (Some i) m" using that(3) by (intro on_course_report [OF persist(2,3) that(1,2)]) simp
    show "GetInstanceID m = in_ID i" using persist(3) that(2) by (simp add: GetInstanceID_def MachineScope_GetProviderID_def)
  qed
  define u where "u = (case set_instance_details i t of Ret _ u \<Rightarrow> u | Panic _ u \<Rightarrow> u | Diverge \<Rightarrow> t)"
  have set: "set_instance_details i t = Ret () u" "world u = world t"
    unfolding u_def by (simp_all add: set_instance_details_def)
  have u: "on_course E name (Some i) (obj u)" "GetInstanceID (obj u) = in_ID i"
    unfolding u_def by (rule details; simp add: set_instance_details_def)+
  have "total (and_then (join_load_balancer E cs ms i) (\<lambda>early. case early of Some r \<Rightarrow> ret r | None \<Rightarrow>
      and_then (set_instance_addresses E i) (\<lambda>early. case early of Some r \<Rightarrow> ret r | None \<Rightarrow> report_instance_status E i)))
    (\<lambda>r s'. snd r = None \<and> same_plant P (world u) (world s') \<and>
       advanced E name (pl_left P (world u) = 0) (fst r) (obj s') (Some i)) u"
    using persist(4-6) set u active by (intro total_joined [OF laws i lb]) simp_all
  then obtain r v where "reconcile_instance E cs ms i s = Ret r v" "snd r = None" "same_plant P (world u) (world v)"
      "advanced E name (pl_left P (world u) = 0) (fst r) (obj v) (Some i)"
    using persist(1) set(1) by (elim totalE) (simp add: reconcile_instance_def)
  then show ?thesis
    using persist(4-6) set(2) same_plantD [of P "world u" "world v"] by (simp add: total_def)
qed

lemma total_reconcileNormal:
  fixes P :: "('w, VultrMachine, Instance) plant" and s :: "('w, VultrMachine) st"
  assumes laws: "conditions_laws E" and boot: "bootstrap_answers E cs P"
    and ins: "instances_answer cs name (MachineScope_Role E ms) L P"
    and lb: "IsControlPlaneMachine E (ms_Machine ms) \<Longrightarrow> load_balancer_answers cs (ref_ResourceID (APIServerLoadbalancersRef cs)) P"
    and stores: "stores vm_meta P (PatchVM E (ms_patchHelper ms))"
    and infra: "conditions_IsTrue E (cl_Conditions (ms_Cluster ms)) InfrastructureReadyCondition"
    and secret: "mc_DataSecretName (ms_Machine ms) \<noteq> None"
    and ok: "pl_ok P (world s)" and vm: "on_course E name (pl_res P (world s)) (obj s)"
  shows "total (VultrMachine_reconcileNormal E cs ms)
    (\<lambda>r s'. pl_ok P (world s') \<and> snd r = None \<and> pl_res P (world s') \<noteq> None \<and>
       advanced E name (pl_res P (world s) \<noteq> None \<and> pl_left P (world s) = 0) (fst r) (obj s') (pl_res P (world s')) \<and>
       within L P (world s) (pl_left P (world s'))) s"
proof -
  let ?s = "s\<lparr>obj := vm_AddFinalizer E MachineFinalizer (obj s)\<rparr>"
  have vm': "on_course E name (pl_res P (world ?s)) (obj ?s)"
    using vm by (simp add: on_course_def MachineScope_HasTerminalFailure_iff MachineScope_Name_def GetInstanceID_def
        MachineScope_GetProviderID_def) (simp add: vm_AddFinalizer_def)
  have ok': "pl_ok P (world ?s)" using ok by simp
  obtain i t where find: "findOrCreateInstance E cs ms ?s = Ret (Inr (Some i)) t" "obj t = obj ?s" "pl_ok P (world t)"
      "pl_res P (world t) = Some i"
      "pl_res P (world s) \<in> {None, Some i}" "within L P (world s) (pl_left P (world t))"
    by (rule total_findOrCreateInstance [OF boot ins ok' vm' secret]) (rule that, simp_all)
  have vm_t: "on_course E name (Some i) (obj t)"
    using vm' find(2,5) by (auto simp: on_course_def)
  have "total (reconcile_instance E cs ms i)
    (\<lambda>r s'. snd r = None \<and> pl_ok P (world s') \<and> pl_res P (world s') = Some i \<and>
       pl_left P (world s') = pl_left P (world t) \<and>
       advanced E name (pl_left P (world t) = 0) (fst r) (obj s') (Some i)) t"
    using instances_answerD(1,2) [OF ins find(3,4)] find(3,4) vm_t
    by (intro total_reconcile_instance [OF laws _ lb stores]) simp_all
  then obtain r u where run: "reconcile_instance E cs ms i t = Ret r u" "snd r = None" "pl_ok P (world u)"
      "pl_res P (world u) = Some i" "pl_left P (world u) = pl_left P (world t)"
      "advanced E name (pl_left P (world t) = 0) (fst r) (obj u) (Some i)"
    by (elim totalE) blast
  have "advanced E name (pl_res P (world s) \<noteq> None \<and> pl_left P (world s) = 0) (fst r) (obj u) (Some i)"
    using run(6) find(6) by (auto simp: advanced_def within_def)
  moreover have "VultrMachine_reconcileNormal E cs ms s = Ret r u"
    using vm infra secret find(1) run(1)
    by (auto simp: VultrMachine_reconcileNormal_def reconcile_bootstrapped_def on_course_def)
  ultimately show ?thesis using run(2-5) find(6) by (simp add: total_def within_def)
qed

section \<open>Rounds of a machine\<close>

definition machine_answers ::
  "'w env \<Rightarrow> NamespacedName \<Rightarrow> Machine \<Rightarrow> Cluster \<Rightarrow> VultrCluster \<Rightarrow> string \<Rightarrow> nat \<Rightarrow>
     ('w, VultrMachine, Instance) plant \<Rightarrow> bool" where
  "machine_answers E req machine cluster vc name L P \<longleftrightarrow> (let cs = the_cluster_scope E cluster vc in
     kube_answers E req machine cluster vc P \<and> bootstrap_answers E cs P \<and>
     instances_answer cs name (MachineRole E machine) L P \<and>
     (IsControlPlaneMachine E machine \<longrightarrow> load_balancer_answers cs (ref_ResourceID (APIServerLoadbalancersRef cs)) P))"

lemma total_machine_round:
  assumes laws: "conditions_laws E" and ans: "machine_answers E req machine cluster vc name L P"
    and infra: "conditions_IsTrue E (cl_Conditions cluster) InfrastructureReadyCondition"
    and secret: "mc_DataSecretName machine \<noteq> None"
    and ok: "pl_ok P (world s)" and vm: "on_course E name (pl_res P (world s)) (pl_obj P (world s))"
  shows "total (VultrMachine_Reconcile E req)
    (\<lambda>r s'. pl_ok P (world s') \<and> snd r = None \<and>
       (pl_res P (world s') \<noteq> None \<and>
        advanced E name (pl_res P (world s) \<noteq> None \<and> pl_left P (world s) = 0) (fst r) (pl_obj P (world s')) (pl_res P (world s')) \<and>
        within L P (world s) (pl_left P (world s')))) s"
proof -
  let ?cs = "the_cluster_scope E cluster vc" and ?ms = "the_machine_scope machine cluster vc (pl_obj P (world s))"
  have kube: "kube_answers E req machine cluster vc P" and boot: "bootstrap_answers E ?cs P"
    and ins: "instances_answer ?cs name (MachineScope_Role E ?ms) L P"
    and lb: "IsControlPlaneMachine E (ms_Machine ?ms) \<Longrightarrow> load_balancer_answers ?cs (ref_ResourceID (APIServerLoadbalancersRef ?cs)) P"
    using ans by (simp_all add: machine_answers_def Let_def MachineScope_Role_def the_machine_scope_def)
  have alive: "om_DeletionTimestamp (vm_meta (pl_obj P (world s))) = None" using vm by (simp add: on_course_def)
  let ?post = "\<lambda>r m res l. advanced E name (pl_res P (world s) \<noteq> None \<and> pl_left P (world s) = 0) r m res \<and>
      within L P (world s) l"
  have "total (VultrMachine_Reconcile E req) (\<lambda>r s'. snd r = None \<and> (pl_ok P (world s') \<and> pl_res P (world s') \<noteq> None \<and>
      ?post (fst r) (pl_obj P (world s')) (pl_res P (world s')) (pl_left P (world s')))) s"
  proof (rule total_Reconcile [OF kube ok refl refl refl refl])
    fix t :: "('a, VultrMachine) st"
    assume t: "same_plant P (world s) (world t)" "obj t = pl_obj P (world s)"
    have "total (VultrMachine_reconcileNormal E ?cs ?ms)
      (\<lambda>r s'. pl_ok P (world s') \<and> snd r = None \<and> pl_res P (world s') \<noteq> None \<and>
         advanced E name (pl_res P (world t) \<noteq> None \<and> pl_left P (world t) = 0) (fst r) (obj s') (pl_res P (world s')) \<and>
         within L P (world t) (pl_left P (world s'))) t"
      using infra secret vm t(2) same_plantD [OF t(1)]
      by (intro total_reconcileNormal [OF laws boot ins lb kube_answersD(5) [OF kube]]) (simp_all add: the_machine_scope_def)
    then show "total (if om_DeletionTimestamp (vm_meta (pl_obj P (world s))) \<noteq> None
        then VultrMachine_reconcileDelete E ?cs ?ms else VultrMachine_reconcileNormal E ?cs ?ms)
      (\<lambda>r s'. snd r = None \<and> (pl_ok P (world s') \<and> pl_res P (world s') \<noteq> None \<and>
         ?post (fst r) (obj s') (pl_res P (world s')) (pl_left P (world s')))) t"
      unfolding alive same_plantD(3,4) [OF t(1)] within_def
      by (simp only: simp_thms if_False not_True_eq_False) (erule total_mono, simp)
  next
    fix r and s' :: "('a, VultrMachine) st"
    assume post: "pl_ok P (world s') \<and> pl_res P (world s') \<noteq> None \<and> ?post r (obj s') (pl_res P (world s')) (pl_left P (world s'))"
    then have "object_kept (vm_meta (obj s'))" by (simp add: advanced_def on_course_def object_kept_def)
    with storesD [OF kube_answersD(5) [OF kube], of "world s'" "obj s'" "pl_obj P (world s)"] post
    show "fst (PatchVM E (pl_obj P (world s)) (obj s') (world s')) = None \<and>
      (\<lambda>w'. pl_ok P w' \<and> pl_res P w' \<noteq> None \<and> ?post r (pl_obj P w') (pl_res P w') (pl_left P w'))
        (snd (PatchVM E (pl_obj P (world s)) (obj s') (world s')))"
      by simp
  qed
  then show ?thesis by (rule total_mono) blast
qed

text \<open>
  C4. A VultrMachine becomes Ready: in a world that answers, with the cluster's infrastructure ready and
  the bootstrap data there, every run of \<^verbatim>\<open>Reconcile\<close> on the way returns without an error, and either
  leaves the machine Ready or asks to be called again; and after more rounds than the cloud needs to create and to
  provision the instance and the load balancer, the machine is Ready (condition, flags and provider ID) and stays so.
\<close>

theorem machine_becomes_ready:
  assumes "conditions_laws E" and "machine_answers E req machine cluster vc name L P"
    and "conditions_IsTrue E (cl_Conditions cluster) InfrastructureReadyCondition"
    and "mc_DataSecretName machine \<noteq> None"
    and "pl_ok P w0" and "on_course E name (pl_res P w0) (pl_obj P w0)"
    and "rounds (VultrMachine_Reconcile E req) (settles in_ID P) w0 n (world s)"
  shows "(\<exists>r s'. VultrMachine_Reconcile E req s = Ret (r, None) s' \<and>
      (machine_ready E (pl_obj P (world s')) \<or> 0 < RequeueAfter r)) \<and>
    (rounds_needed L P w0 < n \<longrightarrow> machine_ready E (pl_obj P (world s)))"
proof -
  note run = total_machine_round [OF assms(1-4)]
  let ?I = "\<lambda>w. pl_ok P w \<and> on_course E name (pl_res P w) (pl_obj P w)"
  have "?I (world s) \<and> rounds_needed L P (world s) \<le> rounds_needed L P w0 - n \<and>
      (rounds_needed L P w0 < n \<longrightarrow> machine_ready E (pl_obj P (world s)))"
  proof (rule rounds_reach [OF assms(7)])
    show "?I w0" using assms(5,6) by simp
    fix s a s' w
    assume I: "?I (world s)" and s': "VultrMachine_Reconcile E req s = Ret a s'" and w: "settles in_ID P (world s') w"
    from run [of s] I s' have post: "pl_res P (world s') \<noteq> None"
        "advanced E name (pl_res P (world s) \<noteq> None \<and> pl_left P (world s) = 0) (fst a) (pl_obj P (world s')) (pl_res P (world s'))"
        "within L P (world s) (pl_left P (world s'))"
      by (auto simp: total_def)
    then show "?I w \<and> rounds_needed L P w \<le> rounds_needed L P (world s) - 1 \<and>
        (rounds_needed L P (world s) = 0 \<longrightarrow> machine_ready E (pl_obj P w))"
      using I w by (auto simp: settles_def advanced_def on_course_def rounds_needed_def within_def split: if_splits)
  qed
  then obtain a s' where "VultrMachine_Reconcile E req s = Ret a s'" "snd a = None"
      "machine_ready E (pl_obj P (world s')) \<or> 0 < RequeueAfter (fst a)"
      "rounds_needed L P w0 < n \<longrightarrow> machine_ready E (pl_obj P (world s))"
    by (elim conjE) (rule totalE [OF run [of s]], simp_all add: advanced_def)
  then show ?thesis by (cases a) auto
qed

section \<open>Being deleted\<close>

definition deletions_answer ::
  "'w ClusterScope \<Rightarrow> string \<Rightarrow> string \<Rightarrow> nat \<Rightarrow> ('w, 'o, Instance) plant \<Rightarrow> bool" where
  "deletions_answer cs name role L P \<longleftrightarrow> instance_search_answers cs name role P \<and>
     delete_answers (Instances_Delete (Instances (cs_clients cs))) in_ID (\<lambda>i. i) L P"

definition leaving :: "string \<Rightarrow> VultrMachine \<Rightarrow> bool" where
  "leaving name vm \<longleftrightarrow> om_DeletionTimestamp (vm_meta vm) \<noteq> None \<and> MachineScope_Name vm = name"

definition given_up :: "VultrMachine \<Rightarrow> bool" where
  "given_up vm \<longleftrightarrow> MachineFinalizer \<notin> set (om_Finalizers (vm_meta vm))"

lemma delete_known_instance_answers:
  fixes t :: "('w, VultrMachine) st"
  assumes del: "delete_answers (Instances_Delete (Instances (cs_clients cs))) in_ID (\<lambda>i. i) L P" and ok: "pl_ok P (world t)"
  shows "\<exists>b t'. delete_known_instance cs k t = Ret (Inr b) t' \<and> deletes L P (\<lambda>x. in_ID x = k) (world t) (world t')"
proof (cases "k = []")
  case True
  have "in_ID x \<noteq> []" if "pl_res P (world t) = Some x" for x
    using del ok that by (simp add: delete_answers_def)
  with True ok show ?thesis by (auto simp: delete_known_instance_def deletes_def)
next
  case False
  obtain b t' where "DeleteInstance cs k t = Ret (Inr b) t'" "deletes L P (\<lambda>x. in_ID x = k) (world t) (world t')"
    by (rule instance_by_id.total_del_res [OF del ok False]) (rule that)
  with False show ?thesis by (cases b) (auto simp: delete_known_instance_def)
qed

lemma delete_remaining_instance_answers:
  fixes t :: "('w, VultrMachine) st"
  assumes del: "delete_answers (Instances_Delete (Instances (cs_clients cs))) in_ID (\<lambda>i. i) L P" and ok: "pl_ok P (world t)"
    and x: "pl_res P (world t) = Some x" and known: "in_ID x = k \<longrightarrow> pl_left P (world t) \<le> L"
  shows "\<exists>r t'. delete_remaining_instance cs b k x t = Ret (r, None) t' \<and> 0 < RequeueAfter r \<and>
    deletes L P (\<lambda>_. True) (world t) (world t')"
proof (cases "in_ID x = k")
  case True
  with known ok show ?thesis by (simp add: delete_remaining_instance_def deletes_def)
next
  case False
  have "in_ID x \<noteq> []" using del ok x by (simp add: delete_answers_def)
  then obtain d t' where "DeleteInstance cs (in_ID x) t = Ret (Inr d) t'" "deletes L P (\<lambda>y. in_ID y = in_ID x) (world t) (world t')"
    by (rule instance_by_id.total_del_res [OF del ok]) (rule that)
  with False x show ?thesis by (simp add: delete_remaining_instance_def deletes_def)
qed

lemma total_reconcileDelete:
  fixes P :: "('w, VultrMachine, Instance) plant" and s :: "('w, VultrMachine) st"
  assumes laws: "finalizer_laws E" and ans: "deletions_answer cs name (MachineScope_Role E ms) L P"
    and ok: "pl_ok P (world s)" and vm: "leaving name (obj s)"
  shows "total (VultrMachine_reconcileDelete E cs ms)
    (\<lambda>r s'. pl_ok P (world s') \<and> snd r = None \<and> leaving name (obj s') \<and>
       faded L P (world s) (fst r) (given_up (obj s')) (pl_res P (world s')) (pl_left P (world s'))) s"
proof -
  let ?v = "vm_set_condition E ConditionFalse InstanceDeletingReason ''Deleting the instance'' (Now E (world s)) (obj s)"
  have search: "search_answers (Instances_List (Instances (cs_clients cs))) (instance_list_options name)
      (\<lambda>i. instanceOwnedByMachine i (MachineTagParams cs name (MachineScope_Role E ms))) (\<lambda>i. i) P"
    and del: "delete_answers (Instances_Delete (Instances (cs_clients cs))) in_ID (\<lambda>i. i) L P"
    using ans by (simp_all add: deletions_answer_def instance_search_answers_def)
  have name: "MachineScope_Name (obj s) = name" using vm by (simp add: leaving_def)
  show ?thesis
  proof (rule vm_delete.total_driver [OF search del ok name])
    fix t :: "('w, VultrMachine) st" assume "world t = world s"
    then show "\<exists>b t'. delete_known_instance cs (GetInstanceID (obj s)) t = Ret (Inr b) t' \<and>
        deletes L P (\<lambda>x. in_ID x = GetInstanceID (obj s)) (world s) (world t')"
      using delete_known_instance_answers [OF del, of t] ok by simp
  next
    fix b x and t :: "('w, VultrMachine) st"
    assume t: "pl_ok P (world t)" "pl_res P (world t) = Some x" "in_ID x = GetInstanceID (obj s) \<longrightarrow> pl_left P (world t) \<le> L"
    then show "\<exists>r t'. delete_remaining_instance cs b (GetInstanceID (obj s)) x t = Ret (r, None) t' \<and> 0 < RequeueAfter r \<and>
        deletes L P (\<lambda>_. True) (world t) (world t')"
      by (rule delete_remaining_instance_answers [OF del])
  next
    fix b and t :: "('w, VultrMachine) st"
    show "\<exists>t'. finish_instance_delete E b t = Ret (no_requeue, None) t' \<and> world t' = world t \<and>
        obj t' = vm_RemoveFinalizer E MachineFinalizer (obj t)"
      by (simp add: finish_instance_delete_def)
  next
    fix r t
    assume t: "VultrMachine_reconcileDelete E cs ms s = Ret (r, None) t" "pl_ok P (world t)"
      "obj t = vm_RemoveFinalizer E MachineFinalizer ?v \<or> obj t = ?v"
      "faded L P (world s) r (obj t = vm_RemoveFinalizer E MachineFinalizer ?v) (pl_res P (world t)) (pl_left P (world t))"
    have "given_up (vm_RemoveFinalizer E MachineFinalizer ?v)" using laws by (simp add: given_up_def)
    with t(4) have "faded L P (world s) r (given_up (obj t)) (pl_res P (world t)) (pl_left P (world t))"
      by (auto simp: faded_def)
    moreover have "leaving name (obj t)"
      using t(3) vm by (auto simp: leaving_def MachineScope_Name_def vm_RemoveFinalizer_def)
    ultimately show ?thesis using t(1,2) by (simp add: total_def)
  qed
qed

text \<open>Kubernetes removes the machine with its last finalizer.\<close>

definition kube_removes :: "'w env \<Rightarrow> NamespacedName \<Rightarrow> ('w, VultrMachine, 'i) plant \<Rightarrow> ('w \<Rightarrow> bool) \<Rightarrow> bool" where
  "kube_removes E req P gone \<longleftrightarrow> removes (IsNotFound E) vm_meta (GetVultrMachine E req) (PatchVM E) P gone"

lemma total_absent_machine:
  assumes "kube_removes E req P gone" and "gone (world s)"
  shows "total (VultrMachine_Reconcile E req) (\<lambda>r s'. snd r = None \<and> gone (world s')) s"
proof -
  obtain e w where "GetVultrMachine E req (world s) = (Inl e, w)" "IsNotFound E e" "gone w"
    using removesD(2) [OF assms(1) [unfolded kube_removes_def] assms(2)] by blast
  then show ?thesis by (simp add: VultrMachine_Reconcile_def total_rules)
qed

lemma total_deletion_round:
  assumes laws: "finalizer_laws E" and kube: "kube_answers E req machine cluster vc P"
    and removal: "kube_removes E req P gone"
    and ans: "deletions_answer (the_cluster_scope E cluster vc) name (MachineRole E machine) L P"
    and ok: "pl_ok P (world s)" and vm: "leaving name (pl_obj P (world s))"
  shows "total (VultrMachine_Reconcile E req)
    (\<lambda>r s'. snd r = None \<and> left_behind L P gone (leaving name) given_up (world s) (fst r) (world s')) s"
proof (rule total_Reconcile [OF kube ok refl refl refl refl])
  let ?cs = "the_cluster_scope E cluster vc" and ?ms = "the_machine_scope machine cluster vc (pl_obj P (world s))"
  fix t :: "('a, VultrMachine) st"
  assume t: "same_plant P (world s) (world t)" "obj t = pl_obj P (world s)"
  have "total (VultrMachine_reconcileDelete E ?cs ?ms) (\<lambda>r s'. pl_ok P (world s') \<and> snd r = None \<and>
      leaving name (obj s') \<and>
      faded L P (world t) (fst r) (given_up (obj s')) (pl_res P (world s')) (pl_left P (world s'))) t"
    using ans same_plantD [OF t(1)] t(2) vm
    by (intro total_reconcileDelete [OF laws]) (simp_all add: MachineScope_Role_def the_machine_scope_def)
  moreover have "faded L P (world t) = faded L P (world s)"
    using same_plantD [OF t(1)] by (simp add: faded_def fun_eq_iff)
  moreover have "(om_DeletionTimestamp (vm_meta (pl_obj P (world s))) \<noteq> None) = True" using vm by (simp add: leaving_def)
  ultimately show "total (if om_DeletionTimestamp (vm_meta (pl_obj P (world s))) \<noteq> None
      then VultrMachine_reconcileDelete E ?cs ?ms else VultrMachine_reconcileNormal E ?cs ?ms)
    (\<lambda>r s'. snd r = None \<and> (pl_ok P (world s') \<and> leaving name (obj s') \<and>
      faded L P (world s) (fst r) (given_up (obj s')) (pl_res P (world s')) (pl_left P (world s')))) t"
    by (simp only: if_True) (erule total_mono, simp)
next
  fix r and s' :: "('a, VultrMachine) st"
  assume "pl_ok P (world s') \<and> leaving name (obj s') \<and>
      faded L P (world s) r (given_up (obj s')) (pl_res P (world s')) (pl_left P (world s'))"
  with patch_leaves_behind [OF kube_answersD(5) [OF kube] removal [unfolded kube_removes_def], where leaves = "leaving name" and free = given_up]
  show "fst (PatchVM E (pl_obj P (world s)) (obj s') (world s')) = None \<and>
      left_behind L P gone (leaving name) given_up (world s) r (snd (PatchVM E (pl_obj P (world s)) (obj s') (world s')))"
    by blast
qed

text \<open>
  C11. A deleted VultrMachine goes: in a world that answers and finishes the deletions it accepted, where Kubernetes
  removes a deleted object with the patch that takes its last finalizer off, every run of \<^verbatim>\<open>Reconcile\<close> for it returns
  without an error, also when the machine is not found any more, and either the machine is let go (removed from Kubernetes,
  or held there by the finalizers of others only) or the run asks to be called again; and after more rounds than the cloud needs
  to remove the instance, the machine is let go. The instance need not be known to the machine: one that only the listing
  shows is deleted too.
\<close>

theorem machine_gets_deleted:
  assumes "finalizer_laws E" and "kube_answers E req machine cluster vc P" and "kube_removes E req P gone"
    and "deletions_answer (the_cluster_scope E cluster vc) name (MachineRole E machine) L P"
    and "pl_ok P w0" and "leaving name (pl_obj P w0)"
    and "rounds (VultrMachine_Reconcile E req) (fades L P gone given_up) w0 n (world s)"
  shows "(\<exists>r s'. VultrMachine_Reconcile E req s = Ret (r, None) s' \<and>
      (let_go P gone given_up (world s') \<or> 0 < RequeueAfter r)) \<and>
    (deletion_rounds L P w0 < n \<longrightarrow> let_go P gone given_up (world s))"
proof (rule rounds_fade [where leaves = "leaving name" and free = given_up, OF assms(7,5,6)])
  show "pl_res P w = None" if "pl_ok P w" "pl_left P w = 0" for w
    using assms(4) that by (simp add: deletions_answer_def delete_answers_def)
qed (rule total_absent_machine [OF assms(3)] total_deletion_round [OF assms(1-4)], assumption+)+

end
