(* ===== verification/Cluster_Progress.thy ===== *)
theory Cluster_Progress
  imports Progress Cluster_Safety
begin

text \<open>
  A VultrCluster gets its load balancer: in a world that answers and gives the load balancer an address in
  time, the cluster becomes Ready, with the address as its endpoint (\<open>cluster_becomes_ready\<close>). It is the
  first link of the chain: the machines' controllers wait for the infrastructure of the cluster.
\<close>

section \<open>A world that answers\<close>

text \<open>
  Kubernetes reads and stores the VultrCluster, which is not paused; the Vultr API reads the load balancer it
  created, and a created one has an address after at most \<open>L\<close> rounds.
\<close>

definition cluster_kube_answers :: "'w env \<Rightarrow> NamespacedName \<Rightarrow> Cluster \<Rightarrow> ('w, VultrCluster, 'i) plant \<Rightarrow> bool" where
  "cluster_kube_answers E req cluster P \<longleftrightarrow>
     Getenv E ''VULTR_API_KEY'' \<noteq> [] \<and> (\<forall>vc. NewHelperVC E vc = None \<and> \<not> IsPaused E cluster vc) \<and>
     reads P (GetVultrCluster E req) (\<lambda>w r. r = Inr (pl_obj P w)) \<and>
     (\<forall>meta. reads P (GetOwnerCluster E meta) (\<lambda>w r. meta = vc_meta (pl_obj P w) \<longrightarrow> r = Inr (Some cluster))) \<and>
     (\<forall>old. stores vc_meta P (PatchVC E old))"

lemma cluster_kube_answersD:
  assumes "cluster_kube_answers E req cluster P"
  shows "Getenv E ''VULTR_API_KEY'' \<noteq> []" and "NewHelperVC E vc = None" and "\<not> IsPaused E cluster vc"
    and "reads P (GetVultrCluster E req) (\<lambda>w r. r = Inr (pl_obj P w))"
    and "reads P (GetOwnerCluster E meta) (\<lambda>w r. meta = vc_meta (pl_obj P w) \<longrightarrow> r = Inr (Some cluster))"
    and "stores vc_meta P (PatchVC E old)"
  using assms by (simp_all add: cluster_kube_answers_def)

definition lb_provider_answers :: "'w LoadBalancerService \<Rightarrow> nat \<Rightarrow> ('w, 'o, LoadBalancer) plant \<Rightarrow> bool" where
  "lb_provider_answers api L P \<longleftrightarrow>
     (\<forall>w l. pl_ok P w \<longrightarrow> pl_res P w = Some l \<longrightarrow> gl_ID l \<noteq> [] \<and> (pl_left P w = 0 \<longrightarrow> gl_IPV4 l \<noteq> [])) \<and>
     get_answers (LoadBalancers_Get api) gl_ID (\<lambda>l. l) P \<and>
     (\<forall>lreq w. pl_ok P w \<longrightarrow> pl_res P w = None \<longrightarrow> (case LoadBalancers_Create api lreq w of (a, w') \<Rightarrow>
        a_err a = None \<and> a_value a \<noteq> None \<and> pl_ok P w' \<and> pl_res P w' = a_value a \<and> pl_left P w' \<le> L))"

section \<open>One run\<close>

text \<open>The VultrCluster is not being deleted, and names its load balancer exactly if there is one.\<close>

definition cluster_on_course :: "LoadBalancer option \<Rightarrow> VultrCluster \<Rightarrow> bool" where
  "cluster_on_course res vc \<longleftrightarrow> om_DeletionTimestamp (vc_meta vc) = None \<and>
     known_lb_id vc = (case res of None \<Rightarrow> [] | Some l \<Rightarrow> gl_ID l)"

definition cluster_ready :: "'w env \<Rightarrow> VultrCluster \<Rightarrow> bool" where
  "cluster_ready E vc \<longleftrightarrow> vcst_Ready (vc_Status vc) \<and> vcst_Provisioned (vc_Status vc) = Some True \<and>
     vc_report E LoadBalancerReadyCondition vc = Some (ConditionTrue, ''LoadBalancerReady'') \<and>
     vc_report E VultrClusterReadyCondition vc = Some (ConditionTrue, ''ClusterReady'')"

definition has_endpoint :: "VultrCluster \<Rightarrow> bool" where
  "has_endpoint vc \<longleftrightarrow> ep_Host (vcs_ControlPlaneEndpoint (vc_Spec vc)) \<noteq> []"

definition cluster_advanced ::
  "'w env \<Rightarrow> bool \<Rightarrow> Result \<Rightarrow> VultrCluster \<Rightarrow> LoadBalancer option \<Rightarrow> bool" where
  "cluster_advanced E settled r vc res \<longleftrightarrow> res \<noteq> None \<and> cluster_on_course res vc \<and>
     (cluster_ready E vc \<or> 0 < RequeueAfter r) \<and> (settled \<longrightarrow> cluster_ready E vc \<and> has_endpoint vc)"

text \<open>What the API answers: the load balancer of the plant, read or created.\<close>

lemma lb_answer_for_answers:
  assumes api: "lb_provider_answers (LoadBalancers (cs_clients cs)) L P" and ok: "pl_ok P w"
    and vc: "known_lb_id vc = (case pl_res P w of None \<Rightarrow> [] | Some l \<Rightarrow> gl_ID l)"
  obtains l ans w' where "lb_answer_for cs vc w = Some (ans, w')" and "ans = Found l \<or> ans = Created l"
    and "pl_ok P w'" and "pl_res P w' = Some l" and "pl_res P w \<in> {None, Some l}" and "within L P w (pl_left P w')"
proof (cases "pl_res P w")
  case None
  let ?req = "lb_create_req (scope_now cs vc) (default_HealthCheck (lb_HealthCheck (api_lb vc)))
     (default_GenericInfo (lb_GenericInfo (api_lb vc))) (lb_FirewallRules (api_lb vc))"
  have "case LoadBalancers_Create (LoadBalancers (cs_clients cs)) ?req w of (a, w') \<Rightarrow>
      a_err a = None \<and> a_value a \<noteq> None \<and> pl_ok P w' \<and> pl_res P w' = a_value a \<and> pl_left P w' \<le> L"
    using api ok None by (simp add: lb_provider_answers_def)
  then obtain a w' l where c: "LoadBalancers_Create (LoadBalancers (cs_clients cs)) ?req w = (a, w')" "a_err a = None"
      "a_value a = Some l" "pl_ok P w'" "pl_res P w' = Some l" "pl_left P w' \<le> L"
    by (cases "LoadBalancers_Create (LoadBalancers (cs_clients cs)) ?req w") auto
  have "lb_answer_for cs vc w = Some (Created l, w')"
    using c(1-3) vc None by (simp add: lb_answer_for_def create_answer_def Let_def)
  then show ?thesis by (rule that) (use c None in \<open>simp_all add: within_def\<close>)
next
  case (Some l)
  have key: "known_lb_id vc = gl_ID l" "gl_ID l \<noteq> []"
    using vc api ok Some by (simp_all add: lb_provider_answers_def)
  have "reads P (LoadBalancers_Get (LoadBalancers (cs_clients cs)) (gl_ID l))
      (\<lambda>w a. \<forall>x. pl_res P w = Some x \<longrightarrow> gl_ID x = gl_ID l \<longrightarrow> a_err a = None \<and> a_value a = Some x)"
    using api by (simp add: lb_provider_answers_def get_answers_def)
  then obtain a w' where get: "LoadBalancers_Get (LoadBalancers (cs_clients cs)) (gl_ID l) w = (a, w')"
      "a_err a = None" "a_value a = Some l" "same_plant P w w'"
    by (rule reads_from [OF _ same_plant_refl [OF ok]]) (use that Some in blast)
  have "lb_answer_for cs vc w = Some (Found l, w')" using get(1-3) key by (simp add: lb_answer_for_def)
  then show ?thesis by (rule that) (use same_plantD [OF get(4)] Some in \<open>simp_all add: within_def\<close>)
qed

text \<open>No branch of \<open>reconcileNormal\<close> touches the deletion timestamp.\<close>

lemma om_DeletionTimestamp_vc [simp]:
  "om_DeletionTimestamp (vc_meta (vc_set_condition E t st r m now vc)) = om_DeletionTimestamp (vc_meta vc)"
  "om_DeletionTimestamp (vc_meta (vc_update_lb f vc)) = om_DeletionTimestamp (vc_meta vc)"
  "om_DeletionTimestamp (vc_meta (vc_update_ref g vc)) = om_DeletionTimestamp (vc_meta vc)"
  "om_DeletionTimestamp (vc_meta (vc_AddFinalizer E fin vc)) = om_DeletionTimestamp (vc_meta vc)"
  "om_DeletionTimestamp (vc_meta (prepared E vc)) = om_DeletionTimestamp (vc_meta vc)"
  "om_DeletionTimestamp (vc_meta (vc_set_Provisioned b vc)) = om_DeletionTimestamp (vc_meta vc)"
  "om_DeletionTimestamp (vc_meta (SetControlPlaneEndpoint ep vc)) = om_DeletionTimestamp (vc_meta vc)"
  "om_DeletionTimestamp (vc_meta (ClusterScope_SetReady vc)) = om_DeletionTimestamp (vc_meta vc)"
  by (simp_all add: vc_set_condition_def VultrCluster_SetConditions_def vc_update_lb_def vc_update_ref_def
      vc_AddFinalizer_def prepared_def vc_set_Provisioned_def SetControlPlaneEndpoint_def ClusterScope_SetReady_def)

lemma reconcile_lb_alive:
  "wp (reconcile_lb E cs l) (\<lambda>_ s'. om_DeletionTimestamp (vc_meta (obj s')) = om_DeletionTimestamp (vc_meta (obj s))) (\<lambda>_. True) s"
  by (simp add: reconcile_lb_def note_lb_def report_cluster_ready_def wp_rules split: option.split)

lemma cluster_reconcileNormal_alive:
  assumes "lb_answer_for cs (obj s) (world s) = Some (ans, w)" and "ans = Found l \<or> ans = Created l"
    and "VultrCluster_reconcileNormal E cs s = Ret r s'"
  shows "om_DeletionTimestamp (vc_meta (obj s')) = om_DeletionTimestamp (vc_meta (obj s))"
proof -
  let ?s = "s\<lparr>obj := prepared E (obj s)\<rparr>"
  have "lb_search_ends E (obj s) ans w (find_or_create_lb E cs ?s)"
    using find_or_create_lb_eval [of ?s E "obj s" cs] assms(1) by simp
  then obtain t where "find_or_create_lb E cs ?s = Ret (Inr l) t" "obj t = prepared E (obj s)"
    using assms(2) by (auto simp: lb_search_ends_def)
  then show ?thesis
    using assms(3) reconcile_lb_alive [of E cs l t] by (simp add: cluster_reconcileNormal_run wp_def)
qed

lemma cluster_spec_seen:
  assumes "ans = Found l \<or> ans = Created l" and "view_of E vc' = cluster_spec port running ans (view_of E vc)" and "gl_ID l \<noteq> []"
  shows "known_lb_id vc' = gl_ID l"
    and "running \<or> gl_IPV4 l \<noteq> [] \<Longrightarrow> cluster_ready E vc' \<and> ep_Host (vcs_ControlPlaneEndpoint (vc_Spec vc')) = gl_IPV4 l"
proof -
  note fields = arg_cong [OF assms(2), of cv_spec_lb] arg_cong [OF assms(2), of cv_ready] arg_cong [OF assms(2), of cv_endpoint]
    arg_cong [OF assms(2), of cv_provisioned] arg_cong [OF assms(2), of cv_lb_report]
    arg_cong [OF assms(2), of cv_cluster_report]
  from fields(1) assms(1,3) show "known_lb_id vc' = gl_ID l"
    by (auto simp: known_lb_id_alt view_of_def cluster_spec_def Let_def split: if_splits)
  assume "running \<or> gl_IPV4 l \<noteq> []"
  with fields(2-) assms(1) show "cluster_ready E vc' \<and> ep_Host (vcs_ControlPlaneEndpoint (vc_Spec vc')) = gl_IPV4 l"
    by (elim disjE) (simp_all add: cluster_ready_def view_of_def cluster_spec_def)
qed

lemma total_cluster_reconcileNormal:
  assumes laws: "conditions_laws E" and api: "lb_provider_answers (LoadBalancers (cs_clients cs)) L P"
    and ok: "pl_ok P (world s)" and vc: "cluster_on_course (pl_res P (world s)) (obj s)"
  shows "total (VultrCluster_reconcileNormal E cs)
    (\<lambda>r s'. pl_ok P (world s') \<and> snd r = None \<and>
       (cluster_advanced E (pl_res P (world s) \<noteq> None \<and> pl_left P (world s) = 0) (fst r) (obj s') (pl_res P (world s')) \<and>
        within L P (world s) (pl_left P (world s')))) s"
proof -
  let ?running = "ref_ResourcePowerStatus (api_lb_ref (obj s)) = PowerStatusRunning"
  let ?port = "hc_Port (default_HealthCheck (lb_HealthCheck (api_lb (obj s))))"
  have alive: "om_DeletionTimestamp (vc_meta (obj s)) = None"
    and known: "known_lb_id (obj s) = (case pl_res P (world s) of None \<Rightarrow> [] | Some l \<Rightarrow> gl_ID l)"
    using vc by (simp_all add: cluster_on_course_def)
  obtain l ans w where a: "lb_answer_for cs (obj s) (world s) = Some (ans, w)" "ans = Found l \<or> ans = Created l" "pl_ok P w"
      "pl_res P w = Some l" "pl_res P (world s) \<in> {None, Some l}" "within L P (world s) (pl_left P w)"
    by (rule lb_answer_for_answers [OF api ok known]) (rule that)
  obtain s' where run: "VultrCluster_reconcileNormal E cs s = Ret (cluster_result (vc_meta (obj s)) ?running ans) s'"
      "world s' = w" "view_of E (obj s') = cluster_spec ?port ?running ans (view_of E (obj s))"
    using cluster_reconcileNormal_eval [OF laws refl refl, where s = s and cs = cs] a(1) by auto
  have id: "gl_ID l \<noteq> []" "pl_left P w = 0 \<longrightarrow> gl_IPV4 l \<noteq> []"
    using api a(3,4) by (simp_all add: lb_provider_answers_def)
  note seen = cluster_spec_seen [OF a(2) run(3) id(1)]
  have "cluster_on_course (pl_res P w) (obj s')"
    using cluster_reconcileNormal_alive [OF a(1,2) run(1)] alive seen(1) a(4) by (simp add: cluster_on_course_def)
  moreover have "snd (cluster_result (vc_meta (obj s)) ?running ans) = None"
      "?running \<or> gl_IPV4 l \<noteq> [] \<or> 0 < RequeueAfter (fst (cluster_result (vc_meta (obj s)) ?running ans))"
    using a(2) by (auto simp: cluster_result_def Let_def Second_def requeue_after_def split: if_splits)
  moreover have "gl_IPV4 l \<noteq> []" if "pl_res P (world s) \<noteq> None" "pl_left P (world s) = 0"
    using that a(5,6) id(2) by (auto simp: within_def)
  ultimately show ?thesis
    using run a(3,4,6) seen(2) by (auto simp: total_def cluster_advanced_def has_endpoint_def)
qed

lemma total_cluster_round:
  assumes laws: "conditions_laws E" and kube: "cluster_kube_answers E req cluster P"
    and api: "lb_provider_answers (LoadBalancers (NewClient E (Getenv E ''VULTR_API_KEY''))) L P"
    and ok: "pl_ok P (world s)" and vc: "cluster_on_course (pl_res P (world s)) (pl_obj P (world s))"
  shows "total (VultrCluster_Reconcile E req)
    (\<lambda>r s'. pl_ok P (world s') \<and> snd r = None \<and>
       (cluster_advanced E (pl_res P (world s) \<noteq> None \<and> pl_left P (world s) = 0) (fst r) (pl_obj P (world s')) (pl_res P (world s')) \<and>
        within L P (world s) (pl_left P (world s')))) s"
proof -
  note K = cluster_kube_answersD [OF kube]
  let ?vc = "pl_obj P (world s)"
  let ?cs = "the_cluster_scope E cluster ?vc"
  obtain w1 where w1: "GetVultrCluster E req (world s) = (Inr ?vc, w1)" "same_plant P (world s) w1"
    by (auto intro: reads_from [OF K(4) same_plant_refl [OF ok]])
  obtain w2 where w2: "GetOwnerCluster E (vc_meta ?vc) w1 = (Inr (Some cluster), w2)" "same_plant P (world s) w2"
    using same_plantD(2) [OF w1(2)] by (auto intro: reads_from [OF K(5) [of "vc_meta ?vc"] w1(2)])
  let ?t = "s\<lparr>obj := ?vc, world := w2\<rparr>"
  note same = same_plantD [OF w2(2)]
  have alive: "om_DeletionTimestamp (vc_meta ?vc) = None" using vc by (simp add: cluster_on_course_def)
  have "NewClusterScope E (cluster_scope_params cluster ?vc) = Inr ?cs"
    using K(1,2) by (simp add: NewClusterScope_def cluster_scope_params_def CreateVultrClient_def or_default_def the_cluster_scope_def)
  then have entry: "VultrCluster_Reconcile E req s = VultrCluster_run_scope E ?cs ?t"
    unfolding VultrCluster_Reconcile_def using w1(1) w2(1) K(3)
    by (simp add: kube_call_def and_then_def try_then_def)
  have normal: "VultrCluster_handler E ?cs ?t = VultrCluster_reconcileNormal E ?cs ?t"
    using alive by (simp add: VultrCluster_handler_def)
  have api': "lb_provider_answers (LoadBalancers (cs_clients ?cs)) L P" using api by (simp add: the_cluster_scope_def)
  have "pl_ok P (world ?t)" "cluster_on_course (pl_res P (world ?t)) (obj ?t)" using same vc by simp_all
  from total_cluster_reconcileNormal [OF laws api' this] show ?thesis
  proof (rule totalE)
    fix r u
    assume u: "VultrCluster_reconcileNormal E ?cs ?t = Ret r u"
      "pl_ok P (world u) \<and> snd r = None \<and>
       (cluster_advanced E (pl_res P (world ?t) \<noteq> None \<and> pl_left P (world ?t) = 0) (fst r) (obj u) (pl_res P (world u)) \<and>
        within L P (world ?t) (pl_left P (world u)))"
    let ?patch = "PatchVC E (cs_patchHelper ?cs)"
    have kept: "object_kept (vc_meta (obj u))" using u(2) by (simp add: cluster_advanced_def cluster_on_course_def object_kept_def)
    note stored = storesD [OF K(6) [of "cs_patchHelper ?cs"] _ kept, of "world u"]
    have "VultrCluster_Reconcile E req s = Ret (fst r, None) (closed PatchVultrCluster ?patch u)"
      unfolding entry cluster_always_closed normal u(1) closing_def using u(2) stored(1) by (simp add: close_error_def)
    moreover have "world (closed PatchVultrCluster ?patch u) = snd (?patch (obj u) (world u))" by (simp add: closed_def)
    moreover have "within L P (world ?t) = within L P (world s)" using same by (simp add: within_def fun_eq_iff)
    ultimately show ?thesis using u(2) stored same(3,4) by (simp add: total_def)
  qed
qed

section \<open>Rounds\<close>

text \<open>
  C6. A VultrCluster becomes Ready: in a world that answers, every run of \<^verbatim>\<open>Reconcile\<close> on the way returns
  without an error and either leaves the cluster Ready or asks to be called again; and after more rounds than the cloud
  needs to create the load balancer and to give it an address, the cluster is Ready (both conditions, both
  flags), has an endpoint, and stays so.
\<close>

theorem cluster_becomes_ready:
  assumes "conditions_laws E" and "cluster_kube_answers E req cluster P"
    and "lb_provider_answers (LoadBalancers (NewClient E (Getenv E ''VULTR_API_KEY''))) L P"
    and "pl_ok P w0" and "cluster_on_course (pl_res P w0) (pl_obj P w0)"
    and "rounds (VultrCluster_Reconcile E req) (settles gl_ID P) w0 n (world s)"
  shows "(\<exists>r s'. VultrCluster_Reconcile E req s = Ret (r, None) s' \<and>
      (cluster_ready E (pl_obj P (world s')) \<or> 0 < RequeueAfter r)) \<and>
    (rounds_needed L P w0 < n \<longrightarrow> cluster_ready E (pl_obj P (world s)) \<and> has_endpoint (pl_obj P (world s)))"
proof -
  note run = total_cluster_round [OF assms(1-3)]
  let ?I = "\<lambda>w. pl_ok P w \<and> cluster_on_course (pl_res P w) (pl_obj P w)"
  let ?goal = "\<lambda>w. cluster_ready E (pl_obj P w) \<and> has_endpoint (pl_obj P w)"
  have "?I (world s) \<and> rounds_needed L P (world s) \<le> rounds_needed L P w0 - n \<and> (rounds_needed L P w0 < n \<longrightarrow> ?goal (world s))"
  proof (rule rounds_reach [OF assms(6)])
    show "?I w0" using assms(4,5) by simp
    fix s a s' w
    assume I: "?I (world s)" and s': "VultrCluster_Reconcile E req s = Ret a s'" and w: "settles gl_ID P (world s') w"
    from run [of s] I s' have post: "cluster_advanced E (pl_res P (world s) \<noteq> None \<and> pl_left P (world s) = 0) (fst a)
        (pl_obj P (world s')) (pl_res P (world s'))" "within L P (world s) (pl_left P (world s'))"
      by (simp_all add: total_def)
    have "cluster_on_course (pl_res P w) (pl_obj P w)"
      using post(1) w by (auto simp: cluster_advanced_def cluster_on_course_def settles_def split: option.splits)
    then show "?I w \<and> rounds_needed L P w \<le> rounds_needed L P (world s) - 1 \<and> (rounds_needed L P (world s) = 0 \<longrightarrow> ?goal w)"
      using post w by (auto simp: settles_def cluster_advanced_def rounds_needed_def within_def split: if_splits)
  qed
  then obtain a s' where "VultrCluster_Reconcile E req s = Ret a s'" "snd a = None"
      "cluster_ready E (pl_obj P (world s')) \<or> 0 < RequeueAfter (fst a)"
      "rounds_needed L P w0 < n \<longrightarrow> ?goal (world s)"
    by (elim conjE) (rule totalE [OF run [of s]], simp_all add: cluster_advanced_def)
  then show ?thesis by (cases a) auto
qed

end
