(* ===== verification/Witnesses_Progress.thy ===== *)
theory Witnesses_Progress
  imports Machine_Progress Cluster_Progress Witnesses
begin

text \<open>
  The small cloud of theory \<open>Fake_Cloud\<close> is a world that answers: its plants satisfy the laws of theory
  \<open>Machine_Progress\<close> and \<open>Cluster_Progress\<close>, rounds of \<^verbatim>\<open>Reconcile\<close> go on there, and the progress properties are applied to them.
\<close>

section \<open>Virtual machines\<close>

definition fake_own :: "Instance \<Rightarrow> bool" where
  "fake_own i \<longleftrightarrow> sound_instance i \<and> in_Label i = ''m'' \<and>
     instanceOwnedByMachine i (MachineTagParams fake_cs ''m'' (MachineRole fake_env fake_machine))"

definition fake_vm_ok :: "fake \<Rightarrow> bool" where
  "fake_vm_ok w \<longleftrightarrow> fk_removed w = [] \<and> \<not> fk_flaky w \<and> fk_vc w = fake_vc_ready \<and>
     (\<exists>lb. fk_lb w = Some lb \<and> gl_ID lb = ''lb-1'' \<and> gl_Status lb = ''active'') \<and>
     (case fk_instances w of [] \<Rightarrow> True | [i] \<Rightarrow> fake_own i | _ \<Rightarrow> False)"

definition fake_head :: "fake \<Rightarrow> Instance option" where
  "fake_head w = (case fk_instances w of [] \<Rightarrow> None | i # _ \<Rightarrow> Some i)"

definition fake_vm_plant :: "(fake \<Rightarrow> nat) \<Rightarrow> (fake, VultrMachine, Instance) plant" where
  "fake_vm_plant left = \<lparr>pl_ok = fake_vm_ok, pl_obj = fk_vm, pl_res = fake_head, pl_left = left\<rparr>"

text \<open>How much there is to provision, and how much to delete: functions of the instances alone.\<close>

definition pending_left :: "fake \<Rightarrow> nat" where
  "pending_left w = (if list_all (\<lambda>i. in_Status i = SubscriptionStatusActive) (fk_instances w) then 0 else 1)"

definition present_left :: "fake \<Rightarrow> nat" where
  "present_left w = (if fk_instances w = [] then 0 else 2)"

definition activate :: "fake \<Rightarrow> fake" where
  "activate w = w\<lparr>fk_made := map (\<lambda>(req, i). (req, i\<lparr>in_Status := SubscriptionStatusActive\<rparr>)) (fk_made w)\<rparr>"

lemma activate_simps [simp]:
  "fk_instances (activate w) = map (\<lambda>i. i\<lparr>in_Status := SubscriptionStatusActive\<rparr>) (fk_instances w)"
  "fk_removed (activate w) = fk_removed w" "fk_flaky (activate w) = fk_flaky w" "fk_vc (activate w) = fk_vc w"
  "fk_lb (activate w) = fk_lb w" "fk_vm (activate w) = fk_vm w"
  by (simp_all add: activate_def fk_instances_def case_prod_beta)

definition vm_world :: fake where
  "vm_world = fake_world\<lparr>fk_vc := fake_vc_ready\<rparr>"

definition vm_request :: NamespacedName where
  "vm_request = \<lparr>nn_Namespace = ''n'', nn_Name = ''m''\<rparr>"

lemma fake_cluster_scope: "the_cluster_scope fake_env fake_cluster fake_vc_ready = fake_cs"
  by (simp add: the_cluster_scope_def fake_cs_def fake_env_def)

lemma fake_vm_ok_cases:
  assumes "fake_vm_ok w"
  obtains "fk_instances w = []" | i where "fk_instances w = [i]" and "fake_own i"
  using assms by (auto simp: fake_vm_ok_def split: list.splits)

lemma fake_kube_answers:
  assumes "\<And>w vm. left (w\<lparr>fk_vm := vm\<rparr>) = left w"
  shows "kube_answers fake_env vm_request fake_machine fake_cluster fake_vc_ready (fake_vm_plant left)"
  using assms
  by (simp add: kube_answers_def cluster_answers_def reads_def stores_def same_plant_def fake_vm_plant_def fake_env_def fake_cluster_def
      fake_kube_defs fake_vm_ok_def fake_head_def)

text \<open>The machine is removed.\<close>

definition fake_vm_gone :: "fake \<Rightarrow> bool" where
  "fake_vm_gone w \<longleftrightarrow> ''vm'' \<in> set (fk_removed w)"

lemma fake_kube_removes: "kube_removes fake_env vm_request (fake_vm_plant left) fake_vm_gone"
  by (simp add: kube_removes_def removes_def fake_vm_plant_def fake_env_def fake_kube_defs fake_vm_ok_def fake_vm_gone_def)

lemma fake_bootstrap_answers: "bootstrap_answers fake_env fake_cs (fake_vm_plant left)"
proof -
  have "sublist ''runcmd:'' ''#cloud-config runcmd:''"
    by (intro suffix_imp_sublist) (simp add: suffix_def)
  then show ?thesis
    by (simp add: bootstrap_answers_def reads_def same_plant_def fake_vm_plant_def fake_env_def fake_cs_def
        fake_clients_def answer_ok_def)
qed

lemma fake_load_balancer_answers:
  assumes "\<And>w l. left (w\<lparr>fk_lb := l\<rparr>) = left w"
  shows "load_balancer_answers fake_cs (ref_ResourceID (APIServerLoadbalancersRef fake_cs)) (fake_vm_plant left)"
proof -
  have "ref_ResourceID (APIServerLoadbalancersRef fake_cs) = ''lb-1''"
    by (simp add: APIServerLoadbalancersRef_def fake_cs_def fake_vc_ready_def vc_update_ref_def fake_vc_def)
  then show ?thesis
    using assms
    by (auto simp: load_balancer_answers_def reads_def same_plant_def fake_vm_plant_def fake_vm_ok_def
        fake_cs_def fake_clients_def fake_LoadBalancers_def fake_lb_by_id_def fake_answer_def answer_ok_def fake_head_def)
qed

lemma fake_search_answers:
  "instance_search_answers fake_cs ''m'' (MachineRole fake_env fake_machine) (fake_vm_plant left)"
  unfolding instance_search_answers_def search_answers_def
proof (intro allI impI)
  fix w assume "pl_ok (fake_vm_plant left) w"
  then have ok: "fake_vm_ok w" by (simp add: fake_vm_plant_def)
  have "listing (Instances_List (Instances (cs_clients fake_cs))) (instance_list_options ''m'') w
      (Inr (filter (\<lambda>v. in_Label v = ''m'') (fk_instances w))) [instance_list_options ''m''] w"
    using fake_listing_iff by (simp add: fake_cs_def fake_clients_def instance_list_options_def)
  moreover have "filter (\<lambda>i. instanceOwnedByMachine i (MachineTagParams fake_cs ''m'' (MachineRole fake_env fake_machine)))
      (filter (\<lambda>v. in_Label v = ''m'') (fk_instances w)) = (case fake_head w of None \<Rightarrow> [] | Some i \<Rightarrow> [i])"
    by (rule fake_vm_ok_cases [OF ok]) (simp_all add: fake_head_def fake_own_def)
  ultimately show "\<exists>items reqs w'.
     listing (Instances_List (Instances (cs_clients fake_cs))) (instance_list_options ''m'') w (Inr items) reqs w' \<and>
     filter (\<lambda>i. instanceOwnedByMachine i (MachineTagParams fake_cs ''m'' (MachineRole fake_env fake_machine))) items =
       (case pl_res (fake_vm_plant left) w of None \<Rightarrow> [] | Some i \<Rightarrow> [i]) \<and> same_plant (fake_vm_plant left) w w'"
    using ok by (intro exI conjI) (assumption, simp_all add: fake_vm_plant_def same_plant_def)
qed

lemma fake_created_own:
  assumes "icr_Label req = ''m''"
    and "icr_Tags req = BuildTags (MachineTagParams fake_cs ''m'' (MachineRole fake_env fake_machine))"
  shows "fake_own (fake_instance req)"
proof -
  have "\<not> sublist ''://'' ''i-m''" by (simp add: index_of_None_iff [symmetric] prefix_def)
  with assms show ?thesis
    by (simp add: fake_own_def sound_instance_def fake_instance_def SubscriptionStatusPending_def
        instanceOwnedByMachine_def TagsOwnedByMachine_BuildTags MachineTagParams_def)
qed

lemma fake_instances_answer:
  "instances_answer fake_cs ''m'' (MachineRole fake_env fake_machine) 1 (fake_vm_plant pending_left)"
proof -
  have get: "a_err (fake_answer (find (\<lambda>v. in_ID v = instanceID) (fk_instances w))) = None \<and>
      a_value (fake_answer (find (\<lambda>v. in_ID v = instanceID) (fk_instances w))) = Some i"
    if "fake_vm_ok w" "fake_head w = Some i" "in_ID i = instanceID" for w i instanceID
    using that by (auto simp: fake_head_def fake_answer_def answer_ok_def elim: fake_vm_ok_cases)
  have sound: "sound_instance i \<and> (pending_left w = 0 \<longrightarrow> in_Status i = SubscriptionStatusActive)"
    if "fake_vm_ok w" "fake_head w = Some i" for w i
    using that by (auto simp: fake_head_def fake_own_def pending_left_def elim: fake_vm_ok_cases split: if_splits)
  have create: "\<not> fk_flaky w \<and> fake_vm_ok (w\<lparr>fk_made := fk_made w @ [(req, fake_instance req)]\<rparr>) \<and>
      fake_head (w\<lparr>fk_made := fk_made w @ [(req, fake_instance req)]\<rparr>) = Some (fake_instance req)"
    if "fake_vm_ok w" "fake_head w = None" "icr_Label req = ''m''"
      "icr_Tags req = BuildTags (MachineTagParams fake_cs ''m'' (MachineRole fake_env fake_machine))" for w req
    using that(1,2) fake_created_own [OF that(3,4)]
    by (auto simp: fake_vm_ok_def fake_head_def fk_instances_def split: list.splits)
  have left: "pending_left w \<le> 1" for w by (simp add: pending_left_def)
  show ?thesis
    unfolding instances_answer_def get_answers_def
    using get sound create left fake_search_answers [of pending_left]
    by (simp add: fake_vm_plant_def reads_def same_plant_def fake_cs_clients fake_clients_def fake_Instances_def
        answer_ok_def)
qed

lemma fake_machine_answers:
  "machine_answers fake_env vm_request fake_machine fake_cluster fake_vc_ready ''m'' 1 (fake_vm_plant pending_left)"
  unfolding machine_answers_def Let_def fake_cluster_scope
  by (intro conjI impI fake_kube_answers fake_bootstrap_answers fake_instances_answer fake_load_balancer_answers)
    (simp_all add: pending_left_def)

lemma fake_deletions_answer:
  "deletions_answer fake_cs ''m'' (MachineRole fake_env fake_machine) 1 (fake_vm_plant present_left)"
proof -
  have del: "fake_vm_ok (w\<lparr>fk_made := filter (\<lambda>v. in_ID (snd v) \<noteq> instanceID) (fk_made w)\<rparr>)"
    if "fake_vm_ok w" for w instanceID
    using that by (auto simp: fake_vm_ok_def split: list.splits)
  have found: "a_err (fake_answer (map_option (\<lambda>_. ()) x)) = None \<or>
      captured_status (a_trips (fake_answer (map_option (\<lambda>_. ()) x))) = StatusNotFound" for x :: "Instance option"
    by (cases x) (simp_all add: fake_answer_def answer_ok_def answer_missing_def captured_status_def RoundTrip_def
        Record_def Capture_def StatusNotFound_def)
  have head: "fake_head (w\<lparr>fk_made := filter (\<lambda>v. in_ID (snd v) \<noteq> instanceID) (fk_made w)\<rparr>) \<in> {None, fake_head w}"
    if "fake_vm_ok w" for w instanceID
    by (rule fake_vm_ok_cases [OF that]) (simp_all add: fake_head_def)
  have ids: "in_ID i \<noteq> []" if "fake_vm_ok w" "fake_head w = Some i" for w i
    using that by (auto simp: fake_head_def fake_own_def sound_instance_def elim: fake_vm_ok_cases)
  have gone: "filter (\<lambda>v. in_ID v \<noteq> in_ID i) (fk_instances w) = []" if "fake_vm_ok w" "fake_head w = Some i" for w i
    using that by (auto simp: fake_head_def elim: fake_vm_ok_cases)
  show ?thesis
    unfolding deletions_answer_def delete_answers_def deletes_def
    using fake_search_answers [of present_left] del found head ids gone
    by (simp add: fake_vm_plant_def fake_cs_clients fake_clients_def fake_Instances_def)
      (auto simp: present_left_def fake_head_def)
qed

text \<open>Rounds go on: the cloud activates what was created, and forgets what was deleted.\<close>

lemma fake_own_active: "fake_own i \<Longrightarrow> fake_own (i\<lparr>in_Status := SubscriptionStatusActive\<rparr>)"
  by (auto simp: fake_own_def sound_instance_def instanceOwnedByMachine_def split: if_splits)

lemma activate_settles:
  assumes "fake_vm_ok w"
  shows "settles in_ID (fake_vm_plant pending_left) w (activate w)"
  by (rule fake_vm_ok_cases [OF assms])
    (use assms fake_own_active in
      \<open>auto simp: settles_def fake_vm_plant_def fake_vm_ok_def fake_head_def pending_left_def\<close>)

lemma vm_world_ok: "fake_vm_ok vm_world" "on_course fake_env ''m'' (fake_head vm_world) (fk_vm vm_world)"
proof -
  show "on_course fake_env ''m'' (fake_head vm_world) (fk_vm vm_world)"
    by (simp add: on_course_def vm_world_def fake_world_def fake_vm_def fake_head_def zero_ObjectMeta_def MachineScope_Name_def
        fk_instances_def
        MachineScope_HasTerminalFailure_def fake_env_def fake_get_condition_def VultrMachine_GetConditions_def
        GetInstanceID_def MachineScope_GetProviderID_def ProviderIDToResourceID_def strings_Split_no_sep)
  show "fake_vm_ok vm_world"
    by (simp add: fake_vm_ok_def vm_world_def fake_world_def fake_lb_def fk_instances_def)
qed

lemma fake_machine_set_up:
  "conditions_IsTrue fake_env (cl_Conditions fake_cluster) InfrastructureReadyCondition"
  "mc_DataSecretName fake_machine \<noteq> None"
  by (simp_all add: fake_env_def fake_cluster_def fake_machine_def fake_get_condition_def)

lemma fake_rounds:
  "\<exists>w. rounds (VultrMachine_Reconcile fake_env vm_request) (settles in_ID (fake_vm_plant pending_left)) vm_world n w \<and>
     fake_vm_ok w \<and> on_course fake_env ''m'' (fake_head w) (fk_vm w)"
proof (rule rounds_exist)
  show "fake_vm_ok vm_world \<and> on_course fake_env ''m'' (fake_head vm_world) (fk_vm vm_world)"
    using vm_world_ok by simp
  fix w
  assume w: "fake_vm_ok w \<and> on_course fake_env ''m'' (fake_head w) (fk_vm w)"
  let ?s = "\<lparr>world = w, trace = [], obj = fake_vm\<rparr>"
  have "total (VultrMachine_Reconcile fake_env vm_request) (\<lambda>r s'. fake_vm_ok (world s') \<and>
      on_course fake_env ''m'' (fake_head (world s')) (fk_vm (world s'))) ?s"
    by (rule total_mono [OF total_machine_round [OF fake_conditions_laws fake_machine_answers fake_machine_set_up]])
      (use w in \<open>simp_all add: fake_vm_plant_def advanced_def\<close>)
  then obtain a s' where s': "VultrMachine_Reconcile fake_env vm_request ?s = Ret a s'" "fake_vm_ok (world s')"
      "on_course fake_env ''m'' (fake_head (world s')) (fk_vm (world s'))"
    by (elim totalE) blast
  note settled = activate_settles [OF s'(2)]
  then have "fake_vm_ok (activate (world s')) \<and>
      on_course fake_env ''m'' (fake_head (activate (world s'))) (fk_vm (activate (world s')))"
    using s'(3) by (auto simp: settles_def fake_vm_plant_def on_course_def)
  with s'(1) settled show "\<exists>a s' w'. VultrMachine_Reconcile fake_env vm_request ?s = Ret a s' \<and>
      settles in_ID (fake_vm_plant pending_left) (world s') w' \<and>
      fake_vm_ok w' \<and> on_course fake_env ''m'' (fake_head w') (fk_vm w')" by blast
qed

theorem machine_becomes_ready_witness:
  "\<exists>w. rounds (VultrMachine_Reconcile fake_env vm_request) (settles in_ID (fake_vm_plant pending_left)) vm_world 3 w \<and>
     machine_ready fake_env (fk_vm w)"
proof -
  obtain w where w: "rounds (VultrMachine_Reconcile fake_env vm_request) (settles in_ID (fake_vm_plant pending_left)) vm_world 3 w"
    using fake_rounds by blast
  have start: "pl_ok (fake_vm_plant pending_left) vm_world"
      "on_course fake_env ''m'' (pl_res (fake_vm_plant pending_left) vm_world) (pl_obj (fake_vm_plant pending_left) vm_world)"
    using vm_world_ok by (simp_all add: fake_vm_plant_def)
  have "rounds_needed 1 (fake_vm_plant pending_left) vm_world < 3"
    by (simp add: rounds_needed_def fake_vm_plant_def vm_world_def fake_head_def)
  then have "machine_ready fake_env (pl_obj (fake_vm_plant pending_left) w)"
    using machine_becomes_ready [OF fake_conditions_laws fake_machine_answers fake_machine_set_up start,
        of 3 "\<lparr>world = w, trace = [], obj = fake_vm\<rparr>"] w by simp
  with w show ?thesis by (auto simp: fake_vm_plant_def)
qed

text \<open>A machine that is deleted while its instance exists, without tags, and it does not know the instance.\<close>

definition leaving_world :: fake where
  "leaving_world = vm_world\<lparr>fk_vm := fake_vm\<lparr>vm_meta := (vm_meta fake_vm)\<lparr>om_DeletionTimestamp := Some 1,
       om_Finalizers := [MachineFinalizer]\<rparr>\<rparr>,
     fk_made := [(fake_order_m, fake_instance_m\<lparr>in_Status := ''active'', in_Tags := []\<rparr>)]\<rparr>"

lemma leaving_world_ok: "fake_vm_ok leaving_world" "leaving ''m'' (fk_vm leaving_world)"
  "\<not> let_go (fake_vm_plant present_left) fake_vm_gone given_up leaving_world"
proof -
  have "\<not> sublist ''://'' ''i-m''" by (simp add: index_of_None_iff [symmetric] prefix_def)
  then show "fake_vm_ok leaving_world"
    by (simp add: fake_vm_ok_def leaving_world_def vm_world_def fake_world_def fake_lb_def fake_own_def sound_instance_def
        SubscriptionStatusActive_def instanceOwnedByMachine_def MachineTagParams_def fake_instance_m_def fake_instance_def
        fk_instances_def fake_order_m_def instance_create_req_def)
qed (simp_all add: leaving_def given_up_def let_go_def fake_vm_gone_def fake_vm_plant_def leaving_world_def vm_world_def fake_world_def
    fake_vm_def MachineScope_Name_def)

lemma fake_deletion_laws:
  "kube_answers fake_env vm_request fake_machine fake_cluster fake_vc_ready (fake_vm_plant present_left)"
  "deletions_answer (the_cluster_scope fake_env fake_cluster fake_vc_ready) ''m'' (MachineRole fake_env fake_machine) 1
     (fake_vm_plant present_left)"
  unfolding fake_cluster_scope by (rule fake_kube_answers, simp add: present_left_def) (rule fake_deletions_answer)

text \<open>The first run deletes the instance, the second one removes the finalizer and with it the machine, the third one finds neither.\<close>

definition leaving_run :: "fake \<Rightarrow> fake" where
  "leaving_run w = world (final_state (VultrMachine_Reconcile fake_env vm_request) \<lparr>world = w, trace = [], obj = fake_vm\<rparr>)"

lemma leaving_runs:
  "fk_instances (leaving_run leaving_world) = []" "fk_removed (leaving_run leaving_world) = []"
  "fk_removed (leaving_run (leaving_run leaving_world)) = [''vm'']"
  by code_simp+

lemma fake_deletion_step:
  assumes "rounds (VultrMachine_Reconcile fake_env vm_request) (fades 1 (fake_vm_plant present_left) fake_vm_gone given_up)
      leaving_world n w"
    and "fake_vm_gone w \<or> fake_vm_ok w \<and> leaving ''m'' (fk_vm w)"
  shows "rounds (VultrMachine_Reconcile fake_env vm_request) (fades 1 (fake_vm_plant present_left) fake_vm_gone given_up)
      leaving_world (Suc n) (leaving_run w) \<and>
    (fake_vm_gone (leaving_run w) \<or> fake_vm_ok (leaving_run w) \<and> leaving ''m'' (fk_vm (leaving_run w)))"
proof -
  let ?P = "fake_vm_plant present_left" and ?s = "\<lparr>world = w, trace = [], obj = fake_vm\<rparr>"
  have "total (VultrMachine_Reconcile fake_env vm_request)
      (\<lambda>r s'. fake_vm_gone (world s') \<or> fake_vm_ok (world s') \<and> leaving ''m'' (fk_vm (world s')) \<and> \<not> fake_vm_gone w \<and>
         (fake_head (world s') \<noteq> None \<longrightarrow> present_left (world s') \<le> 1)) ?s"
  proof (cases "fake_vm_gone w")
    case True
    then show ?thesis by (intro total_mono [OF total_absent_machine [OF fake_kube_removes]]) simp_all
  next
    case False
    with assms(2) show ?thesis
      by (intro total_mono [OF total_deletion_round [OF fake_finalizer_laws fake_deletion_laws(1) fake_kube_removes fake_deletion_laws(2)]])
        (auto simp: fake_vm_plant_def faded_def left_behind_def)
  qed
  then obtain a s' where s': "VultrMachine_Reconcile fake_env vm_request ?s = Ret a s'"
      "fake_vm_gone (world s') \<or> fake_vm_ok (world s') \<and> leaving ''m'' (fk_vm (world s')) \<and> \<not> fake_vm_gone w \<and>
         (fake_head (world s') \<noteq> None \<longrightarrow> present_left (world s') \<le> 1)"
    by (elim totalE) blast
  then have "fades 1 ?P fake_vm_gone given_up (world s') (world s')"
    by (auto simp: fades_def fake_vm_plant_def present_left_def fake_head_def split: list.splits)
  moreover have "leaving_run w = world s'" using s'(1) by (simp add: leaving_run_def final_state_def)
  ultimately show ?thesis using rounds_Suc [of _ _ _ n ?s] s' assms(1) by auto
qed

theorem machine_gets_deleted_witness:
  "\<not> let_go (fake_vm_plant present_left) fake_vm_gone given_up leaving_world \<and>
   (\<exists>w. rounds (VultrMachine_Reconcile fake_env vm_request) (fades 1 (fake_vm_plant present_left) fake_vm_gone given_up)
      leaving_world 3 w \<and>
     let_go (fake_vm_plant present_left) fake_vm_gone given_up w \<and> fake_vm_gone (leaving_run (leaving_run leaving_world)))"
proof -
  let ?P = "fake_vm_plant present_left"
  let ?w = "leaving_run (leaving_run (leaving_run leaving_world))"
  have "rounds (VultrMachine_Reconcile fake_env vm_request) (fades 1 ?P fake_vm_gone given_up) leaving_world (Suc (Suc (Suc 0))) ?w"
    using fake_deletion_step [OF rounds_0] leaving_world_ok(1,2) by (blast dest: fake_deletion_step)
  then have w: "rounds (VultrMachine_Reconcile fake_env vm_request) (fades 1 ?P fake_vm_gone given_up) leaving_world 3 ?w"
    by (simp add: numeral_3_eq_3)
  have start: "pl_ok ?P leaving_world" "leaving ''m'' (pl_obj ?P leaving_world)"
    using leaving_world_ok by (simp_all add: fake_vm_plant_def)
  have "deletion_rounds 1 ?P leaving_world < 3" by (simp add: deletion_rounds_def)
  then have "let_go ?P fake_vm_gone given_up ?w"
    using machine_gets_deleted [OF fake_finalizer_laws fake_deletion_laws(1) fake_kube_removes fake_deletion_laws(2) start,
        of 3 "\<lparr>world = ?w, trace = [], obj = fake_vm\<rparr>"] w by simp
  with w leaving_world_ok(3) leaving_runs(3) show ?thesis by (auto simp: fake_vm_gone_def)
qed

section \<open>A cluster\<close>

text \<open>The load balancer gets its address between two runs.\<close>

definition fake_vc_ok :: "fake \<Rightarrow> bool" where
  "fake_vc_ok w \<longleftrightarrow> fk_removed w = [] \<and> (case fk_lb w of None \<Rightarrow> True | Some l \<Rightarrow> gl_ID l \<noteq> [])"

definition lb_left :: "fake \<Rightarrow> nat" where
  "lb_left w = (case fk_lb w of None \<Rightarrow> 0 | Some l \<Rightarrow> if gl_IPV4 l = [] then 1 else 0)"

definition lb_plant :: "(fake, VultrCluster, LoadBalancer) plant" where
  "lb_plant = \<lparr>pl_ok = fake_vc_ok, pl_obj = fk_vc, pl_res = fk_lb, pl_left = lb_left\<rparr>"

definition assign_address :: "fake \<Rightarrow> fake" where
  "assign_address w = w\<lparr>fk_lb := map_option (\<lambda>l. l\<lparr>gl_IPV4 := ''5.6.7.8''\<rparr>) (fk_lb w)\<rparr>"

definition vc_request :: NamespacedName where
  "vc_request = \<lparr>nn_Namespace = ''n'', nn_Name = ''c''\<rparr>"

definition vc_world :: fake where
  "vc_world = fake_world\<lparr>fk_lb := None\<rparr>"

lemma fake_cluster_kube: "cluster_kube_answers fake_env vc_request fake_cluster lb_plant"
  by (simp add: cluster_kube_answers_def reads_def stores_def same_plant_def lb_plant_def fake_env_def fake_cluster_def
      fake_kube_defs fake_vc_ok_def lb_left_def)

lemma fake_lb_provider:
  "lb_provider_answers (LoadBalancers (NewClient fake_env (Getenv fake_env ''VULTR_API_KEY''))) 1 lb_plant"
proof -
  have "LoadBalancers (NewClient fake_env k) = fake_LoadBalancers" for k by (simp add: fake_env_def fake_clients_def)
  then show ?thesis
    by (auto simp: lb_provider_answers_def get_answers_def reads_def same_plant_def lb_plant_def fake_LoadBalancers_def
        fake_lb_by_id_def fake_answer_def answer_ok_def fake_vc_ok_def lb_left_def Let_def split: option.splits if_splits)
qed

lemma vc_world_ok: "fake_vc_ok vc_world" "cluster_on_course (fk_lb vc_world) (fk_vc vc_world)"
  by (simp_all add: fake_vc_ok_def vc_world_def fake_world_def cluster_on_course_def fake_vc_def zero_ObjectMeta_def
      known_lb_id_def zero_VultrCluster_def zero_VultrLoadBalancer_def zero_VultrResourceReference_def Let_def)

lemma assign_address_settles: "fake_vc_ok w \<Longrightarrow> settles gl_ID lb_plant w (assign_address w)"
  by (auto simp: settles_def lb_plant_def assign_address_def fake_vc_ok_def lb_left_def split: option.splits)

lemma fake_cluster_rounds:
  "\<exists>w. rounds (VultrCluster_Reconcile fake_env vc_request) (settles gl_ID lb_plant) vc_world n w \<and>
     fake_vc_ok w \<and> cluster_on_course (fk_lb w) (fk_vc w)"
proof (rule rounds_exist)
  show "fake_vc_ok vc_world \<and> cluster_on_course (fk_lb vc_world) (fk_vc vc_world)" using vc_world_ok by simp
  fix w
  assume w: "fake_vc_ok w \<and> cluster_on_course (fk_lb w) (fk_vc w)"
  let ?s = "\<lparr>world = w, trace = [], obj = fake_vc\<rparr>"
  have "total (VultrCluster_Reconcile fake_env vc_request)
      (\<lambda>r s'. fake_vc_ok (world s') \<and> cluster_on_course (fk_lb (world s')) (fk_vc (world s'))) ?s"
    by (rule total_mono [OF total_cluster_round [OF fake_conditions_laws fake_cluster_kube fake_lb_provider]])
      (use w in \<open>simp_all add: lb_plant_def cluster_advanced_def\<close>)
  then obtain a s' where s': "VultrCluster_Reconcile fake_env vc_request ?s = Ret a s'" "fake_vc_ok (world s')"
      "cluster_on_course (fk_lb (world s')) (fk_vc (world s'))"
    by (elim totalE) blast
  note settled = assign_address_settles [OF s'(2)]
  then have "fake_vc_ok (assign_address (world s')) \<and>
      cluster_on_course (fk_lb (assign_address (world s'))) (fk_vc (assign_address (world s')))"
    using s'(3) by (auto simp: settles_def lb_plant_def cluster_on_course_def split: option.splits)
  with s'(1) settled show "\<exists>a s' w'. VultrCluster_Reconcile fake_env vc_request ?s = Ret a s' \<and>
      settles gl_ID lb_plant (world s') w' \<and> fake_vc_ok w' \<and> cluster_on_course (fk_lb w') (fk_vc w')" by blast
qed

theorem cluster_becomes_ready_witness:
  "\<exists>w. rounds (VultrCluster_Reconcile fake_env vc_request) (settles gl_ID lb_plant) vc_world 3 w \<and>
     cluster_ready fake_env (fk_vc w) \<and> has_endpoint (fk_vc w)"
proof -
  obtain w where w: "rounds (VultrCluster_Reconcile fake_env vc_request) (settles gl_ID lb_plant) vc_world 3 w"
    using fake_cluster_rounds by blast
  have start: "pl_ok lb_plant vc_world" "cluster_on_course (pl_res lb_plant vc_world) (pl_obj lb_plant vc_world)"
    using vc_world_ok by (simp_all add: lb_plant_def)
  have "rounds_needed 1 lb_plant vc_world < 3"
    by (simp add: rounds_needed_def lb_plant_def vc_world_def)
  then have "cluster_ready fake_env (pl_obj lb_plant w) \<and> has_endpoint (pl_obj lb_plant w)"
    using cluster_becomes_ready [OF fake_conditions_laws fake_cluster_kube fake_lb_provider start,
        of 3 "\<lparr>world = w, trace = [], obj = fake_vc\<rparr>"] w by simp
  with w show ?thesis by (auto simp: lb_plant_def)
qed

end
