(* ===== verification/Witnesses_Server_Progress.thy ===== *)
theory Witnesses_Server_Progress
  imports BareMetal_Progress Witnesses_Progress
begin

text \<open>
  The small cloud provisions bare metal servers and removes them: its plants satisfy the laws of theory
  \<open>BareMetal_Progress\<close>, and the progress properties of bare metal machines are applied to rounds on it.
\<close>

section \<open>Plants of the small cloud\<close>

definition fake_own_server :: "BareMetalServer \<Rightarrow> bool" where
  "fake_own_server sv \<longleftrightarrow> sound_server sv \<and>
     TagsOwnedByMachine (bs_Tags sv) (MachineTagParams fake_cs ''m'' (MachineRole fake_env fake_machine))"

definition fake_bm_ok :: "fake \<Rightarrow> bool" where
  "fake_bm_ok w \<longleftrightarrow> fk_removed w = [] \<and> fk_vc w = fake_vc_ready \<and>
     (\<exists>lb. fk_lb w = Some lb \<and> gl_ID lb = ''lb-1'' \<and> gl_Status lb = ''active'') \<and>
     (case fk_servers w of [] \<Rightarrow> True | [sv] \<Rightarrow> fake_own_server sv | _ \<Rightarrow> False)"

text \<open>While it is built, a server that does not exist has no VPC.\<close>

definition fake_building :: "fake \<Rightarrow> bool" where
  "fake_building w \<longleftrightarrow> fake_bm_ok w \<and> (fk_servers w = [] \<longrightarrow> fk_vpcs w = []) \<and>
     list_all (\<lambda>v. vpc_ID v = ''vpc'') (fk_vpcs w)"

definition fake_top :: "fake \<Rightarrow> BareMetalServer option" where
  "fake_top w = (case fk_servers w of [] \<Rightarrow> None | sv # _ \<Rightarrow> Some sv)"

definition fake_stage :: "fake \<Rightarrow> vpc_stage" where
  "fake_stage w = (if fk_vpcs w = [] then Detached else Attached)"

definition servers_left :: "fake \<Rightarrow> nat" where
  "servers_left w = (if list_all (\<lambda>sv. bs_Status sv = SubscriptionStatusActive) (fk_servers w) then 0 else 1)"

definition servers_present :: "fake \<Rightarrow> nat" where
  "servers_present w = (if fk_servers w = [] then 0 else 2)"

definition building_plant :: "(fake, VultrBareMetalMachine, BareMetalServer \<times> vpc_stage) plant" where
  "building_plant = \<lparr>pl_ok = fake_building, pl_obj = fk_bm,
     pl_res = (\<lambda>w. map_option (\<lambda>sv. (sv, fake_stage w)) (fake_top w)), pl_left = servers_left\<rparr>"

definition removal_plant :: "(fake, VultrBareMetalMachine, BareMetalServer) plant" where
  "removal_plant = \<lparr>pl_ok = fake_bm_ok, pl_obj = fk_bm, pl_res = fake_top, pl_left = servers_present\<rparr>"

definition power_on :: "fake \<Rightarrow> fake" where
  "power_on w = w\<lparr>fk_racked := map (\<lambda>(req, sv). (req, sv\<lparr>bs_Status := SubscriptionStatusActive\<rparr>)) (fk_racked w)\<rparr>"

lemma power_on_simps [simp]:
  "fk_servers (power_on w) = map (\<lambda>sv. sv\<lparr>bs_Status := SubscriptionStatusActive\<rparr>) (fk_servers w)"
  "fk_removed (power_on w) = fk_removed w" "fk_vc (power_on w) = fk_vc w" "fk_lb (power_on w) = fk_lb w"
  "fk_bm (power_on w) = fk_bm w" "fk_vpcs (power_on w) = fk_vpcs w"
  by (simp_all add: power_on_def fk_servers_def case_prod_beta)

definition bm_request :: NamespacedName where
  "bm_request = \<lparr>nn_Namespace = ''n'', nn_Name = ''m''\<rparr>"

section \<open>The laws hold\<close>

lemma fake_bm_ok_cases:
  assumes "fake_bm_ok w"
  obtains "fk_servers w = []" | sv where "fk_servers w = [sv]" and "fake_own_server sv"
  using assms by (auto simp: fake_bm_ok_def split: list.splits)

lemma building_ok: "fake_building w \<Longrightarrow> fake_bm_ok w"
  by (simp add: fake_building_def)

lemma fake_bm_kube_answers:
  "bm_kube_answers fake_env bm_request fake_machine fake_cluster fake_vc_ready building_plant"
  "bm_kube_answers fake_env bm_request fake_machine fake_cluster fake_vc_ready removal_plant"
  by (simp_all add: bm_kube_answers_def cluster_answers_def reads_def stores_def same_plant_def building_plant_def
      removal_plant_def fake_env_def fake_kube_defs fake_cluster_def fake_building_def fake_bm_ok_def fake_top_def fake_stage_def
      servers_left_def servers_present_def)

text \<open>The machine is removed.\<close>

definition fake_bm_gone :: "fake \<Rightarrow> bool" where
  "fake_bm_gone w \<longleftrightarrow> ''bm'' \<in> set (fk_removed w)"

lemma fake_bm_kube_removes: "bm_kube_removes fake_env bm_request removal_plant fake_bm_gone"
  by (simp add: bm_kube_removes_def removes_def removal_plant_def fake_env_def fake_kube_defs fake_bm_ok_def fake_bm_gone_def)

lemma fake_bm_bootstrap_answers: "bm_bootstrap_answers fake_env fake_cs building_plant"
proof -
  have "\<exists>out. PrependCloudConfigRunCmds fake_env d [''ufw disable''] = Inr out" for d
    by (auto simp: PrependCloudConfigRunCmds_def prepend_runcmd_def fake_env_def Let_def split: prod.split)
  then show ?thesis
    by (simp add: bm_bootstrap_answers_def reads_def same_plant_def building_plant_def fake_cs_def fake_clients_def
        answer_ok_def) (simp add: fake_env_def)
qed

lemma fake_lb_id: "APIServerLoadBalancerID fake_cs = ''lb-1''"
  by (simp add: APIServerLoadBalancerID_def APIServerLoadbalancersRef_def fake_cs_def fake_vc_ready_def vc_update_ref_def
      fake_vc_def)

lemma fake_bm_load_balancer:
  "load_balancer_answers fake_cs (APIServerLoadBalancerID fake_cs) building_plant"
  "removals_answer fake_cs (APIServerLoadBalancerID fake_cs) removal_plant"
  unfolding fake_lb_id
  by (auto simp: load_balancer_answers_def removals_answer_def reads_def same_plant_def building_plant_def removal_plant_def
      fake_building_def fake_bm_ok_def fake_cs_def fake_clients_def fake_LoadBalancers_def fake_lb_by_id_def
      fake_answer_def answer_ok_def fake_top_def fake_stage_def servers_left_def servers_present_def)

lemma fake_server_search:
  assumes "\<And>w. pl_ok P w \<Longrightarrow> fake_bm_ok w" and "\<And>w. map_option item (pl_res P w) = fake_top w"
  shows "server_search_answers fake_cs ''m'' (MachineRole fake_env fake_machine) item P"
  unfolding server_search_answers_def search_answers_def
proof (intro allI impI)
  fix w assume w: "pl_ok P w"
  let ?mine = "\<lambda>sv. TagsOwnedByMachine (bs_Tags sv) (MachineTagParams fake_cs ''m'' (MachineRole fake_env fake_machine))"
  let ?items = "filter (\<lambda>v. List.member (bs_Tags v) (NameTagFromName ''m'')) (fk_servers w)"
  have "listing (BareMetal_List (BareMetal (cs_clients fake_cs))) (bare_metal_list_options ''m'') w
      (Inr ?items) [bare_metal_list_options ''m''] w"
    using fake_server_listing_iff by (simp add: fake_cs_def fake_clients_def bare_metal_list_options_def)
  moreover have "filter ?mine ?items = (case fake_top w of None \<Rightarrow> [] | Some sv \<Rightarrow> [sv])"
    by (rule fake_bm_ok_cases [OF assms(1) [OF w]])
      (auto simp: fake_top_def fake_own_server_def TagsOwnedByMachine_def MachineTagParams_def)
  then have "filter ?mine ?items = (case pl_res P w of None \<Rightarrow> [] | Some x \<Rightarrow> [item x])"
    unfolding assms(2) [of w, symmetric] by (simp split: option.splits)
  ultimately show "\<exists>items reqs w'.
     listing (BareMetal_List (BareMetal (cs_clients fake_cs))) (bare_metal_list_options ''m'') w (Inr items) reqs w' \<and>
     filter ?mine items = (case pl_res P w of None \<Rightarrow> [] | Some x \<Rightarrow> [item x]) \<and> same_plant P w w'"
    using same_plant_refl [OF w] by blast
qed

lemma fake_created_server:
  assumes "bcr_Label req = ''m''"
    and "set (BuildTags (MachineTagParams fake_cs ''m'' (MachineRole fake_env fake_machine))) \<subseteq> set (bcr_Tags req)"
  shows "fake_own_server (fake_server req)"
proof -
  have "\<not> sublist ''://'' ''b-m''" by (simp add: index_of_None_iff [symmetric] prefix_def)
  moreover have "TagsOwnedByMachine (bcr_Tags req) (MachineTagParams fake_cs ''m'' (MachineRole fake_env fake_machine))"
    using assms(2) by (auto simp: TagsOwnedByMachine_def BuildTags_def MachineTagParams_def)
  ultimately show ?thesis
    using assms(1) by (simp add: fake_own_server_def sound_server_def fake_server_def SubscriptionStatusPending_def)
qed

lemma fake_servers_answer:
  "servers_answer fake_cs ''m'' (MachineRole fake_env fake_machine) 1 building_plant"
proof -
  have sound: "sound_server sv \<and> (servers_left w = 0 \<longrightarrow> bs_Status sv = SubscriptionStatusActive \<and> fake_stage w \<noteq> Requested)"
    if "fake_building w" "fake_top w = Some sv" for w sv
    using that building_ok [OF that(1)]
    by (auto simp: fake_top_def fake_own_server_def servers_left_def fake_stage_def elim: fake_bm_ok_cases split: if_splits)
  have get: "a_err (fake_answer (find (\<lambda>v. bs_ID v = k) (fk_servers w))) = None \<and>
      a_value (fake_answer (find (\<lambda>v. bs_ID v = k) (fk_servers w))) = Some sv"
    if "fake_building w" "fake_top w = Some sv" "bs_ID sv = k" for w sv k
    using that building_ok [OF that(1)] by (auto simp: fake_top_def fake_answer_def answer_ok_def elim: fake_bm_ok_cases)
  have create: "fake_building (w\<lparr>fk_racked := fk_racked w @ [(req, fake_server req)]\<rparr>) \<and>
      fake_top (w\<lparr>fk_racked := fk_racked w @ [(req, fake_server req)]\<rparr>) = Some (fake_server req) \<and>
      fake_stage (w\<lparr>fk_racked := fk_racked w @ [(req, fake_server req)]\<rparr>) = Detached"
    if "fake_building w" "fake_top w = None" "bcr_Label req = ''m''"
      "set (BuildTags (MachineTagParams fake_cs ''m'' (MachineRole fake_env fake_machine))) \<subseteq> set (bcr_Tags req)" for w req
    using that(1,2) fake_created_server [OF that(3,4)]
    by (auto simp: fake_building_def fake_bm_ok_def fake_top_def fake_stage_def fk_servers_def split: list.splits)
  have left: "servers_left w \<le> 1" for w by (simp add: servers_left_def)
  have search: "server_search_answers fake_cs ''m'' (MachineRole fake_env fake_machine) fst building_plant"
    by (rule fake_server_search) (simp_all add: building_plant_def building_ok option.map_comp comp_def option.map_ident)
  show ?thesis
    unfolding servers_answer_def get_answers_def
    using get sound create left search
    by (auto simp: building_plant_def reads_def same_plant_def fake_cs_clients fake_clients_def fake_BareMetal_def
        answer_ok_def)
qed

lemma fake_attachments_answer: "attachments_answer fake_cs ''vpc'' 1 building_plant"
proof -
  let ?info = "\<lparr>vpc_ID = ''vpc'', vpc_IPAddress = ''10.0.0.5'', vpc_MacAddress = ''aa''\<rparr>"
  have listed: "(find (\<lambda>i. vpc_ID i = ''vpc'') (fk_vpcs w) \<noteq> None) = (fake_stage w = Attached)" if "fake_building w" for w
    using that by (cases "fk_vpcs w") (auto simp: fake_building_def fake_stage_def)
  have attach: "fake_building (w\<lparr>fk_vpcs := fk_vpcs w @ [?info]\<rparr>)" if "fake_building w" "fake_top w \<noteq> None" for w
    using that by (auto simp: fake_building_def fake_bm_ok_def fake_top_def split: list.splits)
  have detached: "fake_stage w = Detached" if "fake_stage w \<noteq> Attached" for w
    using that by (auto simp: fake_stage_def split: if_splits)
  have left: "servers_left w \<le> 1" for w by (simp add: servers_left_def)
  have attached: "fake_stage (w\<lparr>fk_vpcs := fk_vpcs w @ [?info]\<rparr>) = Attached"
      "fake_top (w\<lparr>fk_vpcs := fk_vpcs w @ [?info]\<rparr>) = fake_top w" for w
    by (simp_all add: fake_stage_def fake_top_def)
  show ?thesis
    unfolding attachments_answer_def
    using listed attach detached left attached
    by (auto simp: building_plant_def reads_def same_plant_def fake_cs_clients fake_clients_def fake_BareMetal_def)
qed

lemma fake_bare_metal_answers:
  "bare_metal_answers fake_env bm_request fake_machine fake_cluster fake_vc_ready ''m'' ''vpc'' 1 1 building_plant"
  unfolding bare_metal_answers_def Let_def fake_cluster_scope
  by (intro conjI impI fake_bm_kube_answers fake_bm_bootstrap_answers fake_servers_answer fake_attachments_answer
      fake_bm_load_balancer)

lemma fake_bm_deletions_answer:
  "bm_deletions_answer fake_cs ''m'' (MachineRole fake_env fake_machine) 1 removal_plant"
proof -
  let ?without = "\<lambda>k w. w\<lparr>fk_racked := filter (\<lambda>v. bs_ID (snd v) \<noteq> k) (fk_racked w)\<rparr>"
  have search: "server_search_answers fake_cs ''m'' (MachineRole fake_env fake_machine) (\<lambda>sv. sv) removal_plant"
    by (rule fake_server_search) (simp_all add: removal_plant_def option.map_ident)
  have del: "fake_bm_ok (?without k w)" if "fake_bm_ok w" for w k
    using that by (auto simp: fake_bm_ok_def split: list.splits)
  have found: "a_err (fake_answer (map_option (\<lambda>_. ()) x)) = None \<or>
      captured_status (a_trips (fake_answer (map_option (\<lambda>_. ()) x))) = StatusNotFound" for x :: "BareMetalServer option"
    by (cases x) (simp_all add: fake_answer_def answer_ok_def answer_missing_def captured_status_def RoundTrip_def
        Record_def Capture_def StatusNotFound_def)
  have top: "fake_top (?without k w) \<in> {None, fake_top w}" if "fake_bm_ok w" for w k
    by (rule fake_bm_ok_cases [OF that]) (simp_all add: fake_top_def)
  have ids: "bs_ID sv \<noteq> []" if "fake_bm_ok w" "fake_top w = Some sv" for w sv
    using that by (auto simp: fake_top_def fake_own_server_def sound_server_def elim: fake_bm_ok_cases)
  have gone: "filter (\<lambda>v. bs_ID v \<noteq> bs_ID sv) (fk_servers w) = []" if "fake_bm_ok w" "fake_top w = Some sv" for w sv
    using that by (auto simp: fake_top_def elim: fake_bm_ok_cases)
  show ?thesis
    unfolding bm_deletions_answer_def delete_answers_def deletes_def
    using search del found top ids gone
    by (simp add: removal_plant_def fake_cs_clients fake_clients_def fake_BareMetal_def)
      (auto simp: servers_present_def fake_top_def)
qed

section \<open>A server that is built\<close>

lemma fake_own_powered: "fake_own_server sv \<Longrightarrow> fake_own_server (sv\<lparr>bs_Status := SubscriptionStatusActive\<rparr>)"
  by (simp add: fake_own_server_def sound_server_def)

lemma power_on_settles:
  assumes "fake_building w"
  shows "bm_settles building_plant w (power_on w)"
  by (rule fake_bm_ok_cases [OF building_ok [OF assms]])
    (use assms fake_own_powered in
      \<open>auto simp: bm_settles_def building_plant_def fake_building_def fake_bm_ok_def fake_top_def
        fake_stage_def servers_left_def\<close>)

lemma bm_world_ok:
  "fake_building vm_world"
  "bm_on_course fake_env ''m'' ''vpc'' (server_id (pl_res building_plant vm_world)) (fk_bm vm_world)"
proof -
  show "fake_building vm_world"
    by (simp add: fake_building_def fake_bm_ok_def vm_world_def fake_world_def fake_lb_def fk_servers_def)
  show "bm_on_course fake_env ''m'' ''vpc'' (server_id (pl_res building_plant vm_world)) (fk_bm vm_world)"
    by (simp add: bm_on_course_def vm_world_def fake_world_def fake_bm_def zero_ObjectMeta_def BareMetalMachineScope_Name_def
        BareMetalMachineScope_HasTerminalFailure_def fake_env_def fake_get_condition_def VultrBareMetalMachine_GetConditions_def
        GetServerID_def BareMetalMachineScope_GetProviderID_def ProviderIDToResourceID_def strings_Split_no_sep)
qed

lemma fake_bm_set_up:
  "cl_InfrastructureProvisioned fake_cluster = Some True" "mc_DataSecretName fake_machine \<noteq> None"
  by (simp_all add: fake_cluster_def fake_machine_def)

definition bm_under_way :: "fake \<Rightarrow> bool" where
  "bm_under_way w \<longleftrightarrow> fake_building w \<and>
     bm_on_course fake_env ''m'' ''vpc'' (server_id (pl_res building_plant w)) (fk_bm w)"

lemma fake_bm_rounds:
  "\<exists>w. rounds (VultrBareMetalMachine_Reconcile fake_env bm_request) (bm_settles building_plant) vm_world n w \<and> bm_under_way w"
proof (rule rounds_exist)
  show "bm_under_way vm_world" using bm_world_ok by (simp add: bm_under_way_def)
  fix w
  assume w: "bm_under_way w"
  let ?s = "\<lparr>world = w, trace = [], obj = fake_bm\<rparr>"
  have "total (VultrBareMetalMachine_Reconcile fake_env bm_request) (\<lambda>r s'. bm_under_way (world s')) ?s"
    by (rule total_mono [OF total_bare_metal_round [OF fake_conditions_laws fake_bare_metal_answers fake_bm_set_up]])
      (use w in \<open>simp_all add: bm_under_way_def building_plant_def bm_advanced_def\<close>)
  then obtain a s' where s': "VultrBareMetalMachine_Reconcile fake_env bm_request ?s = Ret a s'" "bm_under_way (world s')"
    by (elim totalE) blast
  then have settled: "bm_settles building_plant (world s') (power_on (world s'))"
    by (intro power_on_settles) (simp add: bm_under_way_def)
  have "server_id (pl_res building_plant (power_on (world s'))) = server_id (pl_res building_plant (world s'))"
    using settled by (cases "pl_res building_plant (power_on (world s'))"; cases "pl_res building_plant (world s')")
      (auto simp: bm_settles_def server_id_def)
  then have "bm_under_way (power_on (world s'))"
    using settled s'(2) by (simp add: bm_under_way_def bm_settles_def) (simp add: building_plant_def)
  with s'(1) settled show "\<exists>a s' w'. VultrBareMetalMachine_Reconcile fake_env bm_request ?s = Ret a s' \<and>
      bm_settles building_plant (world s') w' \<and> bm_under_way w'" by blast
qed

theorem bare_metal_becomes_ready_witness:
  "\<exists>w. rounds (VultrBareMetalMachine_Reconcile fake_env bm_request) (bm_settles building_plant) vm_world 5 w \<and>
     bare_metal_ready fake_env (fk_bm w)"
proof -
  obtain w where w: "rounds (VultrBareMetalMachine_Reconcile fake_env bm_request) (bm_settles building_plant) vm_world 5 w"
    using fake_bm_rounds by blast
  have start: "pl_ok building_plant vm_world"
      "bm_on_course fake_env ''m'' ''vpc'' (server_id (pl_res building_plant vm_world)) (pl_obj building_plant vm_world)"
    using bm_world_ok by (simp_all add: building_plant_def)
  have "stage_rounds 1 1 ''vpc'' (pl_res building_plant vm_world) (pl_left building_plant vm_world) < 5"
    by (simp add: stage_rounds_def building_plant_def vm_world_def fake_top_def)
  then have "bare_metal_ready fake_env (pl_obj building_plant w)"
    using bare_metal_becomes_ready [OF fake_conditions_laws fake_bare_metal_answers fake_bm_set_up start,
        of 5 "\<lparr>world = w, trace = [], obj = fake_bm\<rparr>"] w by simp
  with w show ?thesis by (auto simp: building_plant_def)
qed

section \<open>A server that is removed\<close>

definition bm_leaving_world :: fake where
  "bm_leaving_world = vm_world\<lparr>fk_bm := fake_bm\<lparr>bm_meta := (bm_meta fake_bm)\<lparr>om_DeletionTimestamp := Some 1,
       om_Finalizers := [BareMetalMachineFinalizer]\<rparr>\<rparr>,
     fk_racked := [(buildBareMetalCreateRequest (bm_Spec fake_bm) ''m'' [] [] [], \<lparr>bs_ID = ''b-m'', bs_Plan = ''vbm'', bs_Status = ''active'',
       bs_Tags = [NameTagFromName ''m'', ClusterUIDTag ''u''],
       bs_MainIP = ''1.2.3.5'', bs_CPUCount = 8, bs_RAM = ''32'', bs_Disk = ''2x 480GB''\<rparr>)]\<rparr>"

lemma bm_leaving_world_ok:
  "fake_bm_ok bm_leaving_world" "bm_leaving ''m'' (fk_bm bm_leaving_world)" 
  "\<not> let_go removal_plant fake_bm_gone bm_given_up bm_leaving_world"
proof -
  have "\<not> sublist ''://'' ''b-m''" by (simp add: index_of_None_iff [symmetric] prefix_def)
  then show "fake_bm_ok bm_leaving_world"
    by (simp add: fake_bm_ok_def bm_leaving_world_def vm_world_def fake_world_def fake_lb_def fake_own_server_def
        sound_server_def SubscriptionStatusActive_def TagsOwnedByMachine_def MachineTagParams_def ClusterScope_UID_def
        fake_cs_def fake_cluster_def fk_servers_def)
qed (simp_all add: bm_leaving_def bm_given_up_def let_go_def fake_bm_gone_def removal_plant_def bm_leaving_world_def vm_world_def
    fake_world_def fake_bm_def BareMetalMachineScope_Name_def)

lemma fake_removal_laws:
  "bm_deletions_answer (the_cluster_scope fake_env fake_cluster fake_vc_ready) ''m'' (MachineRole fake_env fake_machine) 1
     removal_plant"
  "IsControlPlaneMachine fake_env fake_machine \<longrightarrow> removals_answer (the_cluster_scope fake_env fake_cluster fake_vc_ready)
     (APIServerLoadBalancerID (the_cluster_scope fake_env fake_cluster fake_vc_ready)) removal_plant"
  unfolding fake_cluster_scope by (intro impI fake_bm_deletions_answer fake_bm_load_balancer)+

text \<open>The first run deletes the server, the second one removes the finalizer and with it the machine, the third one finds neither.\<close>

definition removal_run :: "fake \<Rightarrow> fake" where
  "removal_run w = world (final_state (VultrBareMetalMachine_Reconcile fake_env bm_request) \<lparr>world = w, trace = [], obj = fake_bm\<rparr>)"

lemma removal_runs:
  "fk_servers (removal_run bm_leaving_world) = []" "fk_removed (removal_run bm_leaving_world) = []"
  "fk_removed (removal_run (removal_run bm_leaving_world)) = [''bm'']"
  by code_simp+

lemma fake_removal_step:
  assumes "rounds (VultrBareMetalMachine_Reconcile fake_env bm_request) (fades 1 removal_plant fake_bm_gone bm_given_up)
      bm_leaving_world n w"
    and "fake_bm_gone w \<or> fake_bm_ok w \<and> bm_leaving ''m'' (fk_bm w)"
  shows "rounds (VultrBareMetalMachine_Reconcile fake_env bm_request) (fades 1 removal_plant fake_bm_gone bm_given_up)
      bm_leaving_world (Suc n) (removal_run w) \<and>
    (fake_bm_gone (removal_run w) \<or> fake_bm_ok (removal_run w) \<and> bm_leaving ''m'' (fk_bm (removal_run w)))"
proof -
  let ?s = "\<lparr>world = w, trace = [], obj = fake_bm\<rparr>"
  have "total (VultrBareMetalMachine_Reconcile fake_env bm_request)
      (\<lambda>r s'. fake_bm_gone (world s') \<or> fake_bm_ok (world s') \<and> bm_leaving ''m'' (fk_bm (world s')) \<and> \<not> fake_bm_gone w \<and>
         (fake_top (world s') \<noteq> None \<longrightarrow> servers_present (world s') \<le> 1)) ?s"
  proof (cases "fake_bm_gone w")
    case True
    then show ?thesis by (intro total_mono [OF total_absent_bare_metal [OF fake_bm_kube_removes]]) simp_all
  next
    case False
    with assms(2) show ?thesis
      by (intro total_mono [OF total_bm_deletion_round [OF fake_finalizer_laws fake_bm_kube_answers(2) fake_bm_kube_removes fake_removal_laws]])
        (auto simp: removal_plant_def faded_def left_behind_def)
  qed
  then obtain a s' where s': "VultrBareMetalMachine_Reconcile fake_env bm_request ?s = Ret a s'"
      "fake_bm_gone (world s') \<or> fake_bm_ok (world s') \<and> bm_leaving ''m'' (fk_bm (world s')) \<and> \<not> fake_bm_gone w \<and>
         (fake_top (world s') \<noteq> None \<longrightarrow> servers_present (world s') \<le> 1)"
    by (elim totalE) blast
  then have "fades 1 removal_plant fake_bm_gone bm_given_up (world s') (world s')"
    by (auto simp: fades_def removal_plant_def servers_present_def fake_top_def split: list.splits)
  moreover have "removal_run w = world s'" using s'(1) by (simp add: removal_run_def final_state_def)
  ultimately show ?thesis using rounds_Suc [of _ _ _ n ?s] s' assms(1) by auto
qed

theorem bare_metal_gets_deleted_witness:
  "\<not> let_go removal_plant fake_bm_gone bm_given_up bm_leaving_world \<and>
   (\<exists>w. rounds (VultrBareMetalMachine_Reconcile fake_env bm_request) (fades 1 removal_plant fake_bm_gone bm_given_up)
      bm_leaving_world 3 w \<and>
     let_go removal_plant fake_bm_gone bm_given_up w \<and> fake_bm_gone (removal_run (removal_run bm_leaving_world)))"
proof -
  let ?w = "removal_run (removal_run (removal_run bm_leaving_world))"
  let ?rounds = "rounds (VultrBareMetalMachine_Reconcile fake_env bm_request) (fades 1 removal_plant fake_bm_gone bm_given_up)"
  have "?rounds bm_leaving_world (Suc (Suc (Suc 0))) ?w"
    using fake_removal_step [OF rounds_0] bm_leaving_world_ok(1,2) by (blast dest: fake_removal_step)
  then have w: "?rounds bm_leaving_world 3 ?w" by (simp add: numeral_3_eq_3)
  have start: "pl_ok removal_plant bm_leaving_world" "bm_leaving ''m'' (pl_obj removal_plant bm_leaving_world)"
    using bm_leaving_world_ok by (simp_all add: removal_plant_def)
  have "deletion_rounds 1 removal_plant bm_leaving_world < 3" by (simp add: deletion_rounds_def)
  then have "let_go removal_plant fake_bm_gone bm_given_up ?w"
    using bare_metal_gets_deleted [OF fake_finalizer_laws fake_bm_kube_answers(2) fake_bm_kube_removes fake_removal_laws start,
        of 3 "\<lparr>world = ?w, trace = [], obj = fake_bm\<rparr>"] w by simp
  with w bm_leaving_world_ok(3) removal_runs(3) show ?thesis by (auto simp: fake_bm_gone_def)
qed

end
