(* ===== verification/Interference.thy ===== *)
theory Interference
  imports Cloud_View Server_View
begin

text \<open>
  Runs that overlap. The three controllers of a manager work at the same time, so between any two calls of a run
  the others make calls of their own. \<open>disturbed moves E\<close> is the environment \<open>E\<close> as such a run sees it: before its
  \<open>n\<close>-th call the rest of the world makes the move \<open>moves n\<close>. Everything the controllers do goes through the
  parameters, so the definitions of the code run in it as they are. As long as nobody else makes or changes instances (or
  servers), no machine is ever given two, however the calls are interleaved (\<open>interleaved_never_duplicated\<close>). A listing
  may then see each page in another world; what it has to show is what was there all the time (\<open>steady_listing\<close>).
\<close>

section \<open>Moves between calls\<close>

definition disturb :: "(nat \<Rightarrow> 'w \<Rightarrow> 'w) \<Rightarrow> ('w \<Rightarrow> 'r \<times> 'w) \<Rightarrow> 'w \<times> nat \<Rightarrow> 'r \<times> ('w \<times> nat)" where
  "disturb moves f = (\<lambda>(w, n). case f (moves n w) of (r, w') \<Rightarrow> (r, (w', Suc n)))"

definition disturbed_clients :: "(nat \<Rightarrow> 'w \<Rightarrow> 'w) \<Rightarrow> 'w VultrAPIClients \<Rightarrow> ('w \<times> nat) VultrAPIClients" where
  "disturbed_clients moves c =
     \<lparr>Instances =
        \<lparr>Instances_Get = (\<lambda>i. disturb moves (Instances_Get (Instances c) i)),
         Instances_List = (\<lambda>opts. disturb moves (Instances_List (Instances c) opts)),
         Instances_Create = (\<lambda>req. disturb moves (Instances_Create (Instances c) req)),
         Instances_Delete = (\<lambda>i. disturb moves (Instances_Delete (Instances c) i))\<rparr>,
      LoadBalancers =
        \<lparr>LoadBalancers_Get = (\<lambda>i. disturb moves (LoadBalancers_Get (LoadBalancers c) i)),
         LoadBalancers_Create = (\<lambda>req. disturb moves (LoadBalancers_Create (LoadBalancers c) req)),
         LoadBalancers_Update = (\<lambda>i req. disturb moves (LoadBalancers_Update (LoadBalancers c) i req)),
         LoadBalancers_Delete = (\<lambda>i. disturb moves (LoadBalancers_Delete (LoadBalancers c) i))\<rparr>,
      SSHKeys = \<lparr>SSHKeys_Get = (\<lambda>k. disturb moves (SSHKeys_Get (SSHKeys c) k))\<rparr>,
      BareMetal =
        \<lparr>BareMetal_Get = (\<lambda>i. disturb moves (BareMetal_Get (BareMetal c) i)),
         BareMetal_List = (\<lambda>opts. disturb moves (BareMetal_List (BareMetal c) opts)),
         BareMetal_Create = (\<lambda>req. disturb moves (BareMetal_Create (BareMetal c) req)),
         BareMetal_Delete = (\<lambda>i. disturb moves (BareMetal_Delete (BareMetal c) i)),
         BareMetal_ListVPCInfo = (\<lambda>i. disturb moves (BareMetal_ListVPCInfo (BareMetal c) i)),
         BareMetal_AttachVPC = (\<lambda>i v. disturb moves (BareMetal_AttachVPC (BareMetal c) i v))\<rparr>\<rparr>"

definition disturbed :: "(nat \<Rightarrow> 'w \<Rightarrow> 'w) \<Rightarrow> 'w env \<Rightarrow> ('w \<times> nat) env" where
  "disturbed moves E =
     \<lparr>IsPaused = IsPaused E, IsControlPlaneMachine = IsControlPlaneMachine E, IsNotFound = IsNotFound E,
      WrapText = WrapText E, AddFinalizer = AddFinalizer E, RemoveFinalizer = RemoveFinalizer E,
      conditions_Set = conditions_Set E, conditions_Get = conditions_Get E, conditions_IsTrue = conditions_IsTrue E,
      conditions_IsFalse = conditions_IsFalse E, conditions_GetReason = conditions_GetReason E,
      yaml_Unmarshal = yaml_Unmarshal E, yaml_Marshal = yaml_Marshal E, json_Marshal = json_Marshal E,
      GetVultrMachine = (\<lambda>n. disturb moves (GetVultrMachine E n)),
      GetVultrBareMetalMachine = (\<lambda>n. disturb moves (GetVultrBareMetalMachine E n)),
      GetVultrCluster = (\<lambda>n. disturb moves (GetVultrCluster E n)),
      GetSecret = (\<lambda>k. disturb moves (GetSecret E k)),
      ListMachines = (\<lambda>ns ls. disturb moves (ListMachines E ns ls)),
      GetOwnerMachine = (\<lambda>m. disturb moves (GetOwnerMachine E m)),
      GetOwnerCluster = (\<lambda>m. disturb moves (GetOwnerCluster E m)),
      GetClusterFromMetadata = (\<lambda>m. disturb moves (GetClusterFromMetadata E m)),
      EnsurePausedVM = (\<lambda>c v. disturb moves (EnsurePausedVM E c v)),
      EnsurePausedBM = (\<lambda>c v. disturb moves (EnsurePausedBM E c v)),
      NewHelperVM = NewHelperVM E, NewHelperBM = NewHelperBM E, NewHelperVC = NewHelperVC E,
      PatchVM = (\<lambda>old new. disturb moves (PatchVM E old new)),
      PatchBM = (\<lambda>old new. disturb moves (PatchBM E old new)),
      PatchVC = (\<lambda>old new. disturb moves (PatchVC E old new)),
      Getenv = Getenv E, Now = (\<lambda>(w, n). Now E w), NewClient = (\<lambda>k. disturbed_clients moves (NewClient E k))\<rparr>"

text \<open>A move that makes no resource of the view; the calls that make none are such moves.\<close>

definition quiet_moves :: "('w \<Rightarrow> 'i list) \<Rightarrow> (nat \<Rightarrow> 'w \<Rightarrow> 'w) \<Rightarrow> bool" where
  "quiet_moves view moves \<longleftrightarrow> (\<forall>n P w. count view P (moves n w) \<le> count view P w)"

lemma quiet_moves_calls:
  assumes "\<And>n. adds_nothing view (f n)"
  shows "quiet_moves view (\<lambda>n w. snd (f n w))"
  using assms by (simp add: quiet_moves_def adds_nothing_def)

lemma count_fst [simp]: "count (view \<circ> fst) P (w, n) = count view P w"
  by (simp add: count_def)

lemma disturb_count:
  assumes "quiet_moves view moves" and "\<And>w. count view P (snd (f w)) \<le> count view P w + k"
  shows "count (view \<circ> fst) P (snd (disturb moves f wn)) \<le> count (view \<circ> fst) P wn + k"
proof -
  obtain w n where wn: "wn = (w, n)" by fastforce
  have "count view P (snd (f (moves n w))) \<le> count view P w + k"
    using assms(2) [of "moves n w"] assms(1) [unfolded quiet_moves_def, rule_format, of P n w] by linarith
  then show ?thesis by (cases "f (moves n w)") (simp add: wn disturb_def)
qed

lemma adds_nothing_disturb:
  "quiet_moves view moves \<Longrightarrow> adds_nothing view f \<Longrightarrow> adds_nothing (view \<circ> fst) (disturb moves f)"
  using disturb_count [of view moves _ f 0] by (simp add: adds_nothing_def)

section \<open>Listings while the world moves\<close>

text \<open>The pages of a listing, each read in a world of its own; the worlds right after the reads.\<close>

inductive pages_read :: "(ListOptions \<Rightarrow> 'w \<Rightarrow> 'i page \<times> 'w) \<Rightarrow> ListOptions \<Rightarrow> 'w list \<Rightarrow> 'i list \<Rightarrow> bool"
  for api where
  pages_last: "api options w = (page, w') \<Longrightarrow> p_err page = None \<Longrightarrow> next_cursor (p_meta page) = None \<Longrightarrow>
    pages_read api options [w'] (p_items page)"
| pages_next: "api options w = (page, w') \<Longrightarrow> p_err page = None \<Longrightarrow> next_cursor (p_meta page) = Some c \<Longrightarrow>
    pages_read api (options\<lparr>lo_Cursor := c\<rparr>) ws items \<Longrightarrow>
    pages_read api options (w' # ws) (p_items page @ items)"

text \<open>What a listing shows: the resources \<open>wanted\<close> by its options that were there at every page.\<close>

definition steady_listing ::
  "(ListOptions \<Rightarrow> 'w \<Rightarrow> 'i page \<times> 'w) \<Rightarrow> ListOptions \<Rightarrow> ('i \<Rightarrow> bool) \<Rightarrow> ('w \<Rightarrow> 'i list) \<Rightarrow> bool" where
  "steady_listing api options wanted view \<longleftrightarrow>
     (\<forall>ws items i. pages_read api options ws items \<longrightarrow> wanted i \<longrightarrow> (\<forall>w\<in>set ws. i \<in> set (view w)) \<longrightarrow> i \<in> set items)"

lemma count_one_iff: "i \<in> set (view w) \<longleftrightarrow> 0 < count view (\<lambda>x. x = i) w"
  by (simp add: count_def filter_empty_conv)

text \<open>A disturbed listing that succeeds reads pages, and what is there at its end was there at every page.\<close>

lemma disturbed_listing_pages:
  assumes "listing (\<lambda>opts. disturb moves (api opts)) options wn r reqs wn'" and "r = Inr items"
    and quiet: "quiet_moves view moves" and calls: "\<And>opts. adds_nothing view (api opts)"
  shows "\<exists>ws. pages_read api options ws items \<and>
    (\<forall>i w. i \<in> set (view (fst wn')) \<longrightarrow> w \<in> set ws \<longrightarrow> i \<in> set (view w))"
  using assms(1,2)
proof (induction options wn r reqs wn' arbitrary: items rule: listing.induct)
  case (listing_error options wn page wn' err)
  then show ?case by simp
next
  case (listing_last options wn page wn')
  then obtain w w' where "api options w = (page, w')" "fst wn' = w'"
    by (auto simp: disturb_def split: prod.splits)
  with listing_last show ?case by (intro exI [of _ "[w']"]) (auto intro: pages_last)
next
  case (listing_next options wn page wn' c r reqs wn'')
  obtain rest where rest: "r = Inr rest" "items = p_items page @ rest" using listing_next.prems by (cases r) auto
  obtain w w' where page: "api options w = (page, w')" "fst wn' = w'"
    using listing_next.hyps(1) by (auto simp: disturb_def split: prod.splits)
  obtain ws where ws: "pages_read api (options\<lparr>lo_Cursor := c\<rparr>) ws rest"
      "\<forall>i w. i \<in> set (view (fst wn'')) \<longrightarrow> w \<in> set ws \<longrightarrow> i \<in> set (view w)"
    using listing_next.IH [OF rest(1)] by blast
  have "count (view \<circ> fst) P wn'' \<le> count (view \<circ> fst) P wn'" for P
    by (rule listing_count [OF adds_nothing_disturb [OF quiet calls] listing_next.hyps(4)])
  then have "count view P (fst wn'') \<le> count view P w'" for P
    using page(2) by (metis count_fst prod.collapse)
  then have "i \<in> set (view w')" if "i \<in> set (view (fst wn''))" for i
    using that unfolding count_one_iff by (meson order_less_le_trans)
  with ws have "\<forall>i w. i \<in> set (view (fst wn'')) \<longrightarrow> w \<in> set (w' # ws) \<longrightarrow> i \<in> set (view w)" by auto
  moreover have "pages_read api options (w' # ws) items"
    using pages_next [OF page(1) listing_next.hyps(2,3) ws(1)] rest(2) by simp
  ultimately show ?case by blast
qed

lemma disturbed_listing_complete:
  assumes "listing (\<lambda>opts. disturb moves (api opts)) options wn (Inr items) reqs wn'"
    and "quiet_moves view moves" and "\<And>opts. adds_nothing view (api opts)"
    and "steady_listing api options wanted (\<lambda>w. map snd (view w))" and "wanted i" and "i \<in> set (map snd ((view \<circ> fst) wn'))"
  shows "i \<in> set items"
proof -
  obtain ws where ws: "pages_read api options ws items" "\<forall>v w. v \<in> set (view (fst wn')) \<longrightarrow> w \<in> set ws \<longrightarrow> v \<in> set (view w)"
    using disturbed_listing_pages [OF assms(1) refl assms(2,3)] by blast
  obtain q where "(q, i) \<in> set (view (fst wn'))" using assms(6) by auto
  with ws(2) have "\<forall>w\<in>set ws. i \<in> set (map snd (view w))" by force
  with assms(4,5) ws(1) show ?thesis unfolding steady_listing_def by blast
qed

section \<open>The laws of a disturbed cloud\<close>

text \<open>The laws of \<open>Cloud_View\<close> and \<open>Server_View\<close>, with listings that are read while the world moves.\<close>

definition interleaved_laws :: "'w env \<Rightarrow> 'w instance_view \<Rightarrow> bool" where
  "interleaved_laws E view \<longleftrightarrow>
     (\<forall>cluster vc cs. NewClusterScope E (cluster_scope_params cluster vc) = Inr cs \<longrightarrow>
        calls_law E cs view \<and> create_law cs view \<and>
        (\<forall>name. steady_listing (Instances_List (Instances (cs_clients cs))) (instance_list_options name)
           (\<lambda>i. in_Label i = name) (\<lambda>w. map snd (view w)))) \<and>
     (\<forall>n. adds_nothing view (GetVultrMachine E n)) \<and>
     (\<forall>cluster vm. adds_nothing view (EnsurePausedVM E cluster vm)) \<and>
     kube_reads_law E view"

definition server_interleaved_laws :: "'w env \<Rightarrow> 'w server_view \<Rightarrow> bool" where
  "server_interleaved_laws E view \<longleftrightarrow>
     (\<forall>cluster vc cs. NewClusterScope E (cluster_scope_params cluster vc) = Inr cs \<longrightarrow>
        server_calls_law E cs view \<and> server_create_law cs view \<and>
        (\<forall>name. steady_listing (BareMetal_List (BareMetal (cs_clients cs))) (bare_metal_list_options name)
           (\<lambda>v. NameTagFromName name \<in> set (bs_Tags v)) (\<lambda>w. map snd (view w)))) \<and>
     (\<forall>n. adds_nothing view (GetVultrBareMetalMachine E n)) \<and>
     (\<forall>old new. adds_nothing view (PatchBM E old new)) \<and>
     (\<forall>cluster bm. adds_nothing view (EnsurePausedBM E cluster bm)) \<and>
     kube_reads_law E view"

lemma disturbed_scope:
  assumes "NewClusterScope (disturbed moves E) (cluster_scope_params cluster vc) = Inr cs'"
  obtains cs where "NewClusterScope E (cluster_scope_params cluster vc) = Inr cs"
    and "cs_clients cs' = disturbed_clients moves (cs_clients cs)"
proof (rule that [of "\<lparr>cs_clients = NewClient E (Getenv E ''VULTR_API_KEY''), cs_Cluster = cluster, cs_VultrCluster = vc,
      cs_patchHelper = vc\<rparr>"])
qed (use assms in \<open>auto simp: NewClusterScope_def cluster_scope_params_def CreateVultrClient_def or_default_def Let_def
      disturbed_def split: option.splits if_splits\<close>)

lemma disturbed_shared_calls_law:
  assumes "quiet_moves view moves" and "shared_calls_law E cs view" and "cs_clients cs' = disturbed_clients moves (cs_clients cs)"
  shows "shared_calls_law (disturbed moves E) cs' (view \<circ> fst)"
  using assms
  by (simp add: shared_calls_law_def disturbed_clients_def disturbed_def adds_nothing_disturb)

lemma disturbed_kube_reads_law:
  assumes "quiet_moves view moves" and "kube_reads_law E view"
  shows "kube_reads_law (disturbed moves E) (view \<circ> fst)"
  using assms by (simp add: kube_reads_law_def disturbed_def adds_nothing_disturb)

lemma disturbed_cloud_laws:
  assumes quiet: "quiet_moves view moves" and calls: "calls_law E cs view" and create: "create_law cs view"
    and steady: "\<And>name. steady_listing (Instances_List (Instances (cs_clients cs))) (instance_list_options name)
      (\<lambda>i. in_Label i = name) (\<lambda>w. map snd (view w))"
    and cs': "cs_clients cs' = disturbed_clients moves (cs_clients cs)"
  shows "cloud_laws (disturbed moves E) cs' (view \<circ> fst)"
proof -
  have "calls_law (disturbed moves E) cs' (view \<circ> fst)"
    using calls disturbed_shared_calls_law [OF quiet _ cs', of E]
    by (simp add: calls_law_def cs' disturbed_clients_def disturbed_def adds_nothing_disturb [OF quiet])
  moreover have "Instances_Create (Instances (cs_clients cs')) req = disturb moves (Instances_Create (Instances (cs_clients cs)) req)"
    for req by (simp add: cs' disturbed_clients_def)
  then have "create_law cs' (view \<circ> fst)"
    unfolding create_law_def by (simp only:) (intro allI disturb_count [OF quiet] create [unfolded create_law_def, rule_format])
  moreover have "listing_law cs' (\<lambda>w. map snd ((view \<circ> fst) w))"
    using disturbed_listing_complete [OF _ quiet _ steady] calls
    by (auto simp: listing_law_def cs' disturbed_clients_def calls_law_def)
  ultimately show ?thesis by (simp add: cloud_laws_def)
qed

lemma disturbed_server_cloud_laws:
  assumes quiet: "quiet_moves view moves" and calls: "server_calls_law E cs view" and create: "server_create_law cs view"
    and steady: "\<And>name. steady_listing (BareMetal_List (BareMetal (cs_clients cs))) (bare_metal_list_options name)
      (\<lambda>v. NameTagFromName name \<in> set (bs_Tags v)) (\<lambda>w. map snd (view w))"
    and cs': "cs_clients cs' = disturbed_clients moves (cs_clients cs)"
  shows "server_cloud_laws (disturbed moves E) cs' (view \<circ> fst)"
proof -
  have "server_calls_law (disturbed moves E) cs' (view \<circ> fst)"
    using calls disturbed_shared_calls_law [OF quiet _ cs', of E]
    by (simp add: server_calls_law_def cs' disturbed_clients_def adds_nothing_disturb [OF quiet])
  moreover have "BareMetal_Create (BareMetal (cs_clients cs')) req = disturb moves (BareMetal_Create (BareMetal (cs_clients cs)) req)"
    for req by (simp add: cs' disturbed_clients_def)
  then have "server_create_law cs' (view \<circ> fst)"
    unfolding server_create_law_def
    by (simp only:) (intro allI disturb_count [OF quiet] create [unfolded server_create_law_def, rule_format])
  moreover have "server_listing_law cs' (\<lambda>w. map snd ((view \<circ> fst) w))"
    using disturbed_listing_complete [OF _ quiet _ steady] calls
    by (auto simp: server_listing_law_def cs' disturbed_clients_def server_calls_law_def)
  ultimately show ?thesis by (simp add: server_cloud_laws_def)
qed

lemma disturbed_reconcile_laws:
  assumes quiet: "quiet_moves view moves" and laws: "interleaved_laws E view"
  shows "reconcile_laws (disturbed moves E) (view \<circ> fst)"
  unfolding reconcile_laws_def
proof (intro conjI allI impI)
  fix cluster vc cs'
  assume "NewClusterScope (disturbed moves E) (cluster_scope_params cluster vc) = Inr cs'"
  then obtain cs where "NewClusterScope E (cluster_scope_params cluster vc) = Inr cs"
      "cs_clients cs' = disturbed_clients moves (cs_clients cs)"
    by (rule disturbed_scope)
  with laws show "cloud_laws (disturbed moves E) cs' (view \<circ> fst)"
    by (intro disturbed_cloud_laws [OF quiet]) (auto simp: interleaved_laws_def)
qed (use laws disturbed_kube_reads_law [OF quiet] in
    \<open>auto simp: interleaved_laws_def disturbed_def intro: adds_nothing_disturb [OF quiet]\<close>)

lemma disturbed_server_reconcile_laws:
  assumes quiet: "quiet_moves view moves" and laws: "server_interleaved_laws E view"
  shows "server_reconcile_laws (disturbed moves E) (view \<circ> fst)"
  unfolding server_reconcile_laws_def
proof (intro conjI allI impI)
  fix cluster vc cs'
  assume "NewClusterScope (disturbed moves E) (cluster_scope_params cluster vc) = Inr cs'"
  then obtain cs where "NewClusterScope E (cluster_scope_params cluster vc) = Inr cs"
      "cs_clients cs' = disturbed_clients moves (cs_clients cs)"
    by (rule disturbed_scope)
  with laws show "server_cloud_laws (disturbed moves E) cs' (view \<circ> fst)"
    by (intro disturbed_server_cloud_laws [OF quiet]) (auto simp: server_interleaved_laws_def)
qed (use laws disturbed_kube_reads_law [OF quiet] in
    \<open>auto simp: server_interleaved_laws_def disturbed_def intro: adds_nothing_disturb [OF quiet]\<close>)

section \<open>No duplicates, however the calls are interleaved\<close>

text \<open>
  C3. Runs may overlap: over any sequence of runs of \<^verbatim>\<open>Reconcile\<close> of VultrMachines, or of VultrBareMetalMachines, with
  any moves of the rest of the world before each single call, such as calls of the other controllers, users and the cloud
  itself, there are never two instances or two servers that were made for the same machine of the same cluster (by the
  request they came from), and what was made for a machine is recognised by its search, as long as these moves make no
  resource themselves and change none but by removing it. Failing and panicking runs, lost provider IDs, instances whose tag step failed, machines of
  the same name in other clusters and specs with tags of other machines are included; that a server is tagged as asked is
  part of the laws of the cloud. Of a listing it is only needed that it shows what was there at every
  page. One controller reconciles one object at a time; a second manager at work is excluded by the hypothesis.
\<close>

theorem interleaved_never_duplicated:
  assumes "interleaved_laws E ins" and "quiet_moves ins moves"
    and "server_interleaved_laws E srv" and "quiet_moves srv moves'"
  shows "(evolves (disturbed moves E) (ins \<circ> fst) (w0, n) (w, m) \<longrightarrow> one_instance_each ins w0 \<longrightarrow>
      (\<forall>uid name. made_count instance_made_for ins uid name w \<le> 1) \<and>
      (\<forall>(req, i)\<in>set (ins w). \<forall>p. instance_made_for req p \<longrightarrow> instanceOwnedByMachine i p)) \<and>
    (bm_evolves (disturbed moves' E) (srv \<circ> fst) (u0, n') (u, m') \<longrightarrow> one_server_each srv u0 \<longrightarrow>
      (\<forall>uid name. made_count server_made_for srv uid name u \<le> 1) \<and>
      (\<forall>(req, v)\<in>set (srv u). \<forall>p. server_made_for req p \<longrightarrow> TagsOwnedByMachine (bs_Tags v) p))"
proof -
  have one: "one_each made owned (view \<circ> fst) (v, k) = one_each made owned view v"
    for made :: "'q \<Rightarrow> _" and owned :: "'i \<Rightarrow> _" and view and v :: 'a and k :: nat
    by (simp add: one_each_def made_count_def)
  show ?thesis
    using evolves_one_each [OF disturbed_reconcile_laws [OF assms(2,1)], of "(w0, n)" "(w, m)"]
      bare_metal_never_duplicated [OF disturbed_server_reconcile_laws [OF assms(4,3)], of "(u0, n')" "(u, m')"]
    unfolding one by (simp add: one_each_def)
qed

end
