(* ===== verification/Witnesses_Interference.thy ===== *)
theory Witnesses_Interference
  imports Interference Witnesses
begin

text \<open>
  The small cloud while others are at work: between the calls of a run the bare metal controller orders a server, or
  the machine controller an instance. The listings of the small cloud are steady. At the end, why one manager has to be at work
  alone: a second one that reconciles the same machine between the search and the create makes a second instance.
\<close>

section \<open>The laws hold\<close>

lemma fake_steady_listing:
  "steady_listing (Instances_List fake_Instances) (instance_list_options name) (\<lambda>i. in_Label i = name) fk_instances"
  "steady_listing (BareMetal_List fake_BareMetal) (bare_metal_list_options name) (\<lambda>v. NameTagFromName name \<in> set (bs_Tags v)) fk_servers"
  unfolding steady_listing_def
  by (auto simp: fake_Instances_def fake_BareMetal_def instance_list_options_def bare_metal_list_options_def
      next_cursor_def elim: pages_read.cases)

lemma fake_interleaved_laws: "interleaved_laws fake_env fk_made" "server_interleaved_laws fake_env fk_racked"
proof -
  note laws = fake_cloud_laws [unfolded cloud_laws_def] fake_server_cloud_laws [unfolded server_cloud_laws_def]
  have clients: "Instances fake_clients = fake_Instances" "BareMetal fake_clients = fake_BareMetal"
    by (simp_all add: fake_clients_def)
  show "interleaved_laws fake_env fk_made" "server_interleaved_laws fake_env fk_racked"
    unfolding interleaved_laws_def server_interleaved_laws_def
    using fake_NewClusterScope laws fake_steady_listing [unfolded fk_instances_def [abs_def] fk_servers_def [abs_def]] clients
      fake_reconcile_laws
    by (auto simp: reconcile_laws_def server_reconcile_laws_def)
qed

section \<open>The other controller at work\<close>

text \<open>Before the seventh call of the run a call of the other controller is made.\<close>

definition server_ordered :: "nat \<Rightarrow> fake \<Rightarrow> fake" where
  "server_ordered n w = (if n = 6 then (let req = buildBareMetalCreateRequest (bm_Spec fake_bm) ''b'' [] [] []
     in w\<lparr>fk_racked := [(req, fake_server req)]\<rparr>) else w)"

definition instance_ordered :: "nat \<Rightarrow> fake \<Rightarrow> fake" where
  "instance_ordered n w = (if n = 6 then w\<lparr>fk_made := [(fake_order_m, fake_instance_m)]\<rparr> else w)"

definition moving_state :: "'o \<Rightarrow> (fake \<times> nat, 'o) st" where
  "moving_state v = \<lparr>world = (fake_world, 0), trace = [], obj = v\<rparr>"

lemma fake_quiet_moves: "quiet_moves fk_made server_ordered" "quiet_moves fk_racked instance_ordered"
  by (simp_all add: quiet_moves_def server_ordered_def instance_ordered_def count_def Let_def)

abbreviation vm_run where "vm_run \<equiv> VultrMachine_Reconcile (disturbed server_ordered fake_env) fake_req"
abbreviation bm_run where "bm_run \<equiv> VultrBareMetalMachine_Reconcile (disturbed instance_ordered fake_env) fake_req"

lemma fake_vm_evolves:
  "evolves (disturbed server_ordered fake_env) (fk_made \<circ> fst) (fake_world, 0) (world (final_state vm_run (moving_state fake_vm)))"
proof -
  have "run_gives (\<lambda>_. True) vm_run (moving_state fake_vm)" by code_simp
  then obtain r where "vm_run (moving_state fake_vm) = Ret r (final_state vm_run (moving_state fake_vm))"
    by (blast dest: run_givesD)
  moreover have "evolves (disturbed server_ordered fake_env) (fk_made \<circ> fst) (fake_world, 0) (world (moving_state fake_vm))"
    by (simp add: moving_state_def evolves.start)
  ultimately show ?thesis by (rule evolves.reconciled [rotated])
qed

lemma fake_bm_evolves:
  "bm_evolves (disturbed instance_ordered fake_env) (fk_racked \<circ> fst) (fake_world, 0)
     (world (final_state bm_run (moving_state fake_bm)))"
proof -
  have "run_gives (\<lambda>_. True) bm_run (moving_state fake_bm)" by code_simp
  then obtain r where run: "bm_run (moving_state fake_bm) = Ret r (final_state bm_run (moving_state fake_bm))"
    by (blast dest: run_givesD)
  have start: "bm_evolves (disturbed instance_ordered fake_env) (fk_racked \<circ> fst) (fake_world, 0) (world (moving_state fake_bm))"
    by (simp add: moving_state_def bm_evolves.bm_start)
  show ?thesis by (rule bm_evolves.bm_reconciled [OF start run])
qed

lemma fake_moving_contents:
  "map in_ID (fk_instances (fst (world (final_state vm_run (moving_state fake_vm))))) = [''i-m''] \<and>
   map bs_ID (fk_servers (fst (world (final_state vm_run (moving_state fake_vm))))) = [''b-b'']"
  "map bs_ID (fk_servers (fst (world (final_state bm_run (moving_state fake_bm))))) = [''b-m''] \<and>
   map in_ID (fk_instances (fst (world (final_state bm_run (moving_state fake_bm))))) = [''i-m'']"
  by code_simp+

theorem interleaved_never_duplicated_witness:
  "(\<exists>w :: fake. map in_ID (fk_instances w) = [''i-m''] \<and> map bs_ID (fk_servers w) = [''b-b''] \<and>
      (\<forall>uid name. made_count instance_made_for fk_made uid name w \<le> 1)) \<and>
   (\<exists>u :: fake. map bs_ID (fk_servers u) = [''b-m''] \<and> map in_ID (fk_instances u) = [''i-m''] \<and>
      (\<forall>uid name. made_count server_made_for fk_racked uid name u \<le> 1))"
proof -
  obtain w m where w: "world (final_state vm_run (moving_state fake_vm)) = (w, m)" by fastforce
  obtain u m' where u: "world (final_state bm_run (moving_state fake_bm)) = (u, m')" by fastforce
  note run = interleaved_never_duplicated [OF fake_interleaved_laws(1) fake_quiet_moves(1) fake_interleaved_laws(2) fake_quiet_moves(2),
      of fake_world 0 w m fake_world 0 u m']
  have "\<forall>uid name. made_count instance_made_for fk_made uid name w \<le> 1"
    using conjunct1 [OF run] fake_vm_evolves fake_one_each(1) unfolding w by blast
  moreover have "\<forall>uid name. made_count server_made_for fk_racked uid name u \<le> 1"
    using conjunct2 [OF run] fake_bm_evolves fake_one_each(2) unfolding u by blast
  moreover have "map in_ID (fk_instances w) = [''i-m''] \<and> map bs_ID (fk_servers w) = [''b-b'']"
    "map bs_ID (fk_servers u) = [''b-m''] \<and> map in_ID (fk_instances u) = [''i-m'']"
    using fake_moving_contents unfolding w u fst_conv .
  ultimately show ?thesis by (intro conjI [OF exI [of _ w] exI [of _ u]]) (rule conjI, simp, rule conjI, simp, assumption)+
qed

section \<open>A second manager at work\<close>

text \<open>
  Right before the create of the first manager, a second one reconciles the same machine: it has not been created yet,
  so both create it. The move is not quiet, and one manager at a time is what leader election is for.
\<close>

definition second_manager :: "nat \<Rightarrow> fake \<Rightarrow> fake" where
  "second_manager n w = (if n = 8 then world (final_state (VultrMachine_Reconcile fake_env fake_req)
     \<lparr>world = w, trace = [], obj = fake_vm\<rparr>) else w)"

lemma second_manager_duplicates:
  "map in_ID (filter (\<lambda>i. instanceOwnedByMachine i (MachineTagParams fake_cs ''m'' ''control-plane''))
     (fk_instances (fst (world (final_state (VultrMachine_Reconcile (disturbed second_manager fake_env) fake_req)
        (moving_state fake_vm)))))) = [''i-m'', ''i-m'']"
  by code_simp

end
