(* ===== verification/Test_Utils.thy ===== *)
theory Test_Utils
  imports Cloud_Config
begin

text \<open>
  The helpers of the end-to-end suite (\<^verbatim>\<open>test/utils/utils.go\<close>): they run \<^verbatim>\<open>kubectl\<close> and \<^verbatim>\<open>kind\<close> from
  the root of the project. The operating system (\<^verbatim>\<open>os\<close> and \<^verbatim>\<open>os/exec\<close>) is the parameter \<open>host\<close>; of an
  error only its text is used. \<open>test_commands_run_at_root\<close> shows that a suite that starts in \<^verbatim>\<open>test/e2e\<close>
  runs all its commands at the root, \<open>nonempty_lines_of_join\<close> how output is cut into lines.
\<close>

section \<open>The host\<close>

type_synonym os_error = string

text \<open>\<^verbatim>\<open>exec.Cmd\<close>, as far as the helpers set it; the empty environment is the one of the process.\<close>

record Cmd =
  cmd_Args :: "string list"
  cmd_Dir :: string
  cmd_Env :: "string list"

record 'w host =
  os_Getwd :: "'w \<Rightarrow> string \<times> os_error option"
  os_Chdir :: "string \<Rightarrow> 'w \<Rightarrow> os_error option \<times> 'w"
  os_Environ :: "'w \<Rightarrow> string list"
  os_LookupEnv :: "string \<Rightarrow> 'w \<Rightarrow> string option"
  cmd_CombinedOutput :: "Cmd \<Rightarrow> 'w \<Rightarrow> (string \<times> os_error option) \<times> 'w"

text \<open>The state of a suite: the host's world, what was written to \<^verbatim>\<open>GinkgoWriter\<close>, and the commands that ran.\<close>

record 'w suite =
  su_world :: 'w
  su_out :: string
  su_ran :: "Cmd list"

definition exec_Command :: "string \<Rightarrow> string list \<Rightarrow> Cmd" where
  "exec_Command name args = \<lparr>cmd_Args = name # args, cmd_Dir = [], cmd_Env = []\<rparr>"

definition Fprint :: "string \<Rightarrow> 'w suite \<Rightarrow> 'w suite" where
  "Fprint text s = s\<lparr>su_out := su_out s @ text\<rparr>"

text \<open>\<^verbatim>\<open>strings.ReplaceAll\<close>; an empty \<open>old\<close> matches around every byte.\<close>

definition strings_ReplaceAll :: "string \<Rightarrow> string \<Rightarrow> string \<Rightarrow> string" where
  "strings_ReplaceAll s old new =
     (if old = [] then new @ concat (map (\<lambda>c. c # new) s) else strings_Join (strings_Split s old) new)"

section \<open>The helpers\<close>

definition prometheusOperatorVersion :: string where "prometheusOperatorVersion = ''v0.68.0''"
definition certmanagerVersion :: string where "certmanagerVersion = ''v1.5.3''"

text \<open>The URLs, as \<^verbatim>\<open>fmt.Sprintf\<close> of the template and a version.\<close>

definition prometheusOperatorURL :: "string \<Rightarrow> string" where
  "prometheusOperatorURL version = ''https://github.com/prometheus-operator/prometheus-operator/'' @
     ''releases/download/'' @ version @ ''/bundle.yaml''"

definition certmanagerURLTmpl :: "string \<Rightarrow> string" where
  "certmanagerURLTmpl version =
     ''https://github.com/jetstack/cert-manager/releases/download/'' @ version @ ''/cert-manager.yaml''"

definition warnError :: "os_error \<Rightarrow> 'w suite \<Rightarrow> 'w suite" where
  "warnError err = Fprint (''warning: '' @ err @ [newline])"

definition GetProjectDir :: "'w host \<Rightarrow> 'w suite \<Rightarrow> string \<times> os_error option" where
  "GetProjectDir H s = (case os_Getwd H (su_world s) of
      (wd, Some err) \<Rightarrow> (wd, Some err)
    | (wd, None) \<Rightarrow> (strings_ReplaceAll wd ''/test/e2e'' [], None))"

definition Run :: "'w host \<Rightarrow> Cmd \<Rightarrow> 'w suite \<Rightarrow> (string \<times> os_error option) \<times> 'w suite" where
  "Run H cmd s =
    (let dir = fst (GetProjectDir H s);
         cmd = cmd\<lparr>cmd_Dir := dir\<rparr>;
         s = (case os_Chdir H (cmd_Dir cmd) (su_world s) of (e, w) \<Rightarrow>
           let s = s\<lparr>su_world := w\<rparr> in
           case e of None \<Rightarrow> s | Some err \<Rightarrow> Fprint (''chdir dir: '' @ err @ [newline]) s);
         cmd = cmd\<lparr>cmd_Env := os_Environ H (su_world s) @ [''GO111MODULE=on'']\<rparr>;
         command = strings_Join (cmd_Args cmd) '' '';
         s = Fprint (''running: '' @ command @ [newline]) s in
     case cmd_CombinedOutput H cmd (su_world s) of ((output, err), w) \<Rightarrow>
       ((output, map_option (\<lambda>err. command @ '' failed with error: ('' @ err @ '') '' @ output) err),
        s\<lparr>su_world := w, su_ran := su_ran s @ [cmd]\<rparr>))"

definition InstallPrometheusOperator :: "'w host \<Rightarrow> 'w suite \<Rightarrow> os_error option \<times> 'w suite" where
  "InstallPrometheusOperator H s =
    (let url = prometheusOperatorURL prometheusOperatorVersion;
         cmd = exec_Command ''kubectl'' [''create'', ''-f'', url] in
     case Run H cmd s of ((_, err), s) \<Rightarrow> (err, s))"

definition UninstallPrometheusOperator :: "'w host \<Rightarrow> 'w suite \<Rightarrow> 'w suite" where
  "UninstallPrometheusOperator H s =
    (let url = prometheusOperatorURL prometheusOperatorVersion;
         cmd = exec_Command ''kubectl'' [''delete'', ''-f'', url] in
     case Run H cmd s of
       ((_, Some err), s) \<Rightarrow> warnError err s
     | ((_, None), s) \<Rightarrow> s)"

definition UninstallCertManager :: "'w host \<Rightarrow> 'w suite \<Rightarrow> 'w suite" where
  "UninstallCertManager H s =
    (let url = certmanagerURLTmpl certmanagerVersion;
         cmd = exec_Command ''kubectl'' [''delete'', ''-f'', url] in
     case Run H cmd s of
       ((_, Some err), s) \<Rightarrow> warnError err s
     | ((_, None), s) \<Rightarrow> s)"

definition InstallCertManager :: "'w host \<Rightarrow> 'w suite \<Rightarrow> os_error option \<times> 'w suite" where
  "InstallCertManager H s =
    (let url = certmanagerURLTmpl certmanagerVersion;
         cmd = exec_Command ''kubectl'' [''apply'', ''-f'', url] in
     case Run H cmd s of
       ((_, Some err), s) \<Rightarrow> (Some err, s)
     | ((_, None), s) \<Rightarrow>
         (let cmd = exec_Command ''kubectl'' [''wait'', ''deployment.apps/cert-manager-webhook'',
                ''--for'', ''condition=Available'', ''--namespace'', ''cert-manager'', ''--timeout'', ''5m''] in
          case Run H cmd s of ((_, err), s) \<Rightarrow> (err, s)))"

definition LoadImageToKindClusterWithName :: "'w host \<Rightarrow> string \<Rightarrow> 'w suite \<Rightarrow> os_error option \<times> 'w suite" where
  "LoadImageToKindClusterWithName H name s =
    (let cluster = (case os_LookupEnv H ''KIND_CLUSTER'' (su_world s) of Some v \<Rightarrow> v | None \<Rightarrow> ''kind'');
         kindOptions = [''load'', ''docker-image'', name, ''--name'', cluster];
         cmd = exec_Command ''kind'' kindOptions in
     case Run H cmd s of ((_, err), s) \<Rightarrow> (err, s))"

fun nonempty_loop :: "string list \<Rightarrow> string list \<Rightarrow> string list" where
  "nonempty_loop [] res = res"
| "nonempty_loop (element # elements) res = nonempty_loop elements (if element \<noteq> [] then res @ [element] else res)"

definition GetNonEmptyLines :: "string \<Rightarrow> string list" where
  "GetNonEmptyLines output = nonempty_loop (strings_Split output [newline]) []"

section \<open>Lines\<close>

lemma nonempty_loop_filter: "nonempty_loop elements res = res @ filter (\<lambda>l. l \<noteq> []) elements"
  by (induction elements arbitrary: res) auto

lemma strings_Split_newline:
  assumes "newline \<notin> set x"
  shows "strings_Split x [newline] = [x]" and "strings_Split (x @ newline # y) [newline] = x # strings_Split y [newline]"
proof -
  show "strings_Split x [newline] = [x]"
    using assms by (intro strings_Split_no_sep) (auto simp: sublist_def)
  have "index_of [newline] (x @ newline # y) = Some (length x)"
    using index_of_append_distinct_first [of x newline "[]" y] assms by auto
  then show "strings_Split (x @ newline # y) [newline] = x # strings_Split y [newline]"
    by (simp add: strings_Split_step)
qed

lemma strings_Split_Join:
  assumes "ls \<noteq> []" and "list_all (\<lambda>l. newline \<notin> set l) ls"
  shows "strings_Split (strings_Join ls [newline]) [newline] = ls"
  using assms by (induction ls "[newline]" rule: strings_Join.induct) (auto simp: strings_Split_newline)

lemma nonempty_lines_of_join:
  assumes "list_all (\<lambda>l. newline \<notin> set l) ls"
  shows "GetNonEmptyLines (strings_Join ls [newline]) = filter (\<lambda>l. l \<noteq> []) ls"
proof (cases "ls = []")
  case True
  then show ?thesis using strings_Split_newline(1) [of "[]"] by (simp add: GetNonEmptyLines_def nonempty_loop_filter)
next
  case False
  with assms show ?thesis by (simp add: GetNonEmptyLines_def nonempty_loop_filter strings_Split_Join)
qed

section \<open>The root of the project\<close>

text \<open>A word that does not overlap itself occurs only once at the end of a text that does not hold it.\<close>

lemma index_of_append_borderless:
  assumes "\<not> sublist sep r" and "\<And>k. 0 < k \<Longrightarrow> k < length sep \<Longrightarrow> \<not> prefix (drop k sep) sep"
  shows "index_of sep (r @ sep) = Some (length r)"
  using assms(1)
proof (induction r)
  case Nil
  then show ?case by (cases sep) auto
next
  case (Cons c r)
  have "\<not> prefix sep ((c # r) @ sep)"
  proof
    assume "prefix sep ((c # r) @ sep)"
    then consider "prefix sep (c # r)" | us where "sep = (c # r) @ us" "prefix us sep"
      unfolding prefix_append by blast
    then show False
    proof cases
      case 1
      with Cons.prems show False using prefix_imp_sublist by blast
    next
      case 2
      have "us \<noteq> []" using 2 Cons.prems by auto
      with 2 assms(2) [of "length (c # r)"] show False
        by (metis append_eq_conv_conj length_append length_greater_0_conv less_add_same_cancel1 list.distinct(1))
    qed
  qed
  moreover have "\<not> sublist sep r" using Cons.prems by (simp add: sublist_Cons_right)
  ultimately show ?case using Cons.IH by simp
qed

lemma ReplaceAll_suffix:
  assumes "\<not> sublist ''/test/e2e'' root"
  shows "strings_ReplaceAll (root @ ''/test/e2e'') ''/test/e2e'' [] = root"
    and "strings_ReplaceAll root ''/test/e2e'' [] = root"
proof -
  let ?sep = "''/test/e2e''"
  have "\<not> prefix (drop k ?sep) ?sep" if "0 < k" "k < length ?sep" for k
  proof -
    have "k \<in> {1, 2, 3, 4, 5, 6, 7, 8}" using that by auto
    then show ?thesis by auto
  qed
  then have "index_of ?sep (root @ ?sep) = Some (length root)" by (rule index_of_append_borderless [OF assms])
  then have "strings_Split (root @ ?sep) ?sep = [root, []]"
    using strings_Split_no_sep [of ?sep "[]"] by (simp add: strings_Split_step)
  then show "strings_ReplaceAll (root @ ?sep) ?sep [] = root" by (simp add: strings_ReplaceAll_def)
  show "strings_ReplaceAll root ?sep [] = root" using strings_Split_no_sep [OF assms] by (simp add: strings_ReplaceAll_def)
qed

text \<open>
  What the suite relies on: a change of directory to the root works and takes effect, and a child process
  does not change the directory of its parent.
\<close>

definition chdir_laws :: "'w host \<Rightarrow> string \<Rightarrow> bool" where
  "chdir_laws H root \<longleftrightarrow>
     (\<forall>w. fst (os_Chdir H root w) = None \<and> os_Getwd H (snd (os_Chdir H root w)) = (root, None)) \<and>
     (\<forall>c w. os_Getwd H (snd (cmd_CombinedOutput H c w)) = os_Getwd H w)"

definition in_project :: "'w host \<Rightarrow> string \<Rightarrow> 'w suite \<Rightarrow> bool" where
  "in_project H root s \<longleftrightarrow> os_Getwd H (su_world s) \<in> {(root, None), (root @ ''/test/e2e'', None)}"

definition at_root :: "string \<Rightarrow> Cmd \<Rightarrow> bool" where
  "at_root root c \<longleftrightarrow> cmd_Dir c = root \<and> cmd_Env c \<noteq> [] \<and> last (cmd_Env c) = ''GO111MODULE=on''"

text \<open>The calls a suite makes of the helpers.\<close>

datatype helper =
  HRun Cmd | HInstallPrometheus | HUninstallPrometheus | HInstallCertManager | HUninstallCertManager | HLoadImage string

fun helper_step :: "'w host \<Rightarrow> helper \<Rightarrow> 'w suite \<Rightarrow> 'w suite" where
  "helper_step H (HRun c) s = snd (Run H c s)"
| "helper_step H HInstallPrometheus s = snd (InstallPrometheusOperator H s)"
| "helper_step H HUninstallPrometheus s = UninstallPrometheusOperator H s"
| "helper_step H HInstallCertManager s = snd (InstallCertManager H s)"
| "helper_step H HUninstallCertManager s = UninstallCertManager H s"
| "helper_step H (HLoadImage name) s = snd (LoadImageToKindClusterWithName H name s)"

definition keeps_root :: "'w host \<Rightarrow> string \<Rightarrow> ('w suite \<Rightarrow> 'w suite) \<Rightarrow> bool" where
  "keeps_root H root f \<longleftrightarrow> (\<forall>s. in_project H root s \<longrightarrow> list_all (at_root root) (su_ran s) \<longrightarrow>
     in_project H root (f s) \<and> list_all (at_root root) (su_ran (f s)))"

lemma Run_at_root:
  assumes "chdir_laws H root" and "\<not> sublist ''/test/e2e'' root" and "in_project H root s"
  obtains res c w out where "Run H cmd s = (res, \<lparr>su_world = w, su_out = out, su_ran = su_ran s @ [c]\<rparr>)"
    and "cmd_Args c = cmd_Args cmd" and "at_root root c" and "os_Getwd H w = (root, None)"
proof -
  have dir: "fst (GetProjectDir H s) = root"
    using assms(2,3) ReplaceAll_suffix [OF assms(2)] by (auto simp: GetProjectDir_def in_project_def)
  obtain w where chdir: "os_Chdir H root (su_world s) = (None, w)" "os_Getwd H w = (root, None)"
    using assms(1) by (cases "os_Chdir H root (su_world s)") (auto simp: chdir_laws_def dest: spec [of _ "su_world s"])
  let ?c = "cmd\<lparr>cmd_Dir := root, cmd_Env := os_Environ H w @ [''GO111MODULE=on'']\<rparr>"
  obtain text_out err w' where out: "cmd_CombinedOutput H ?c w = ((text_out, err), w')"
    by (cases "cmd_CombinedOutput H ?c w") auto
  have "os_Getwd H w' = (root, None)"
    using assms(1) chdir(2) out unfolding chdir_laws_def by (metis snd_conv)
  then show ?thesis
    using that [of _ w' "su_out (Fprint (''running: '' @ strings_Join (cmd_Args cmd) '' '' @ [newline]) s)" ?c] out chdir dir
    by (simp add: Run_def Let_def Fprint_def at_root_def)
qed

lemma keeps_root_Run:
  assumes "chdir_laws H root" and "\<not> sublist ''/test/e2e'' root"
  shows "keeps_root H root (\<lambda>s. snd (Run H (cmd s) s))"
  unfolding keeps_root_def
proof (intro allI impI)
  fix s
  assume s: "in_project H root s" "list_all (at_root root) (su_ran s)"
  show "in_project H root (snd (Run H (cmd s) s)) \<and> list_all (at_root root) (su_ran (snd (Run H (cmd s) s)))"
    by (rule Run_at_root [OF assms s(1), of "cmd s"]) (use s(2) in \<open>simp add: in_project_def\<close>)
qed

lemma keeps_root_after:
  assumes "keeps_root H root f" and "\<And>s. keeps_root H root (g s)"
  shows "keeps_root H root (\<lambda>s. g s (f s))"
  using assms by (simp add: keeps_root_def)

lemma keeps_root_Fprint: "keeps_root H root (Fprint text)" "keeps_root H root (\<lambda>s. s)"
  by (simp_all add: keeps_root_def Fprint_def in_project_def)

lemma keeps_root_two_steps:
  assumes "chdir_laws H root" and "\<not> sublist ''/test/e2e'' root"
  shows "keeps_root H root (\<lambda>s. (case snd (fst (Run H c s)) of Some err \<Rightarrow> warnError err | None \<Rightarrow> \<lambda>s. s) (snd (Run H c s)))"
    and "keeps_root H root (\<lambda>s. (case snd (fst (Run H c s)) of Some err \<Rightarrow> \<lambda>s. s | None \<Rightarrow> \<lambda>s. snd (Run H c' s)) (snd (Run H c s)))"
  by (rule keeps_root_after [OF keeps_root_Run [OF assms]],
      simp add: warnError_def keeps_root_Fprint keeps_root_Run [OF assms] split: option.split)+

lemma keeps_root_helper:
  assumes "chdir_laws H root" and "\<not> sublist ''/test/e2e'' root"
  shows "keeps_root H root (helper_step H h)"
proof -
  note run = keeps_root_Run [OF assms] and warn = keeps_root_two_steps(1) [OF assms] and cert = keeps_root_two_steps(2) [OF assms]
  show ?thesis
  proof (cases h)
    case HUninstallPrometheus
    have "helper_step H h = (\<lambda>s. let c = exec_Command ''kubectl'' [''delete'', ''-f'', prometheusOperatorURL prometheusOperatorVersion] in
        (case snd (fst (Run H c s)) of Some err \<Rightarrow> warnError err | None \<Rightarrow> \<lambda>s. s) (snd (Run H c s)))"
      by (simp add: HUninstallPrometheus fun_eq_iff UninstallPrometheusOperator_def Let_def split: prod.split option.split)
    then show ?thesis using warn by (simp add: Let_def)
  next
    case HUninstallCertManager
    have "helper_step H h = (\<lambda>s. let c = exec_Command ''kubectl'' [''delete'', ''-f'', certmanagerURLTmpl certmanagerVersion] in
        (case snd (fst (Run H c s)) of Some err \<Rightarrow> warnError err | None \<Rightarrow> \<lambda>s. s) (snd (Run H c s)))"
      by (simp add: HUninstallCertManager fun_eq_iff UninstallCertManager_def Let_def split: prod.split option.split)
    then show ?thesis using warn by (simp add: Let_def)
  next
    case HInstallCertManager
    let ?wait = "exec_Command ''kubectl'' [''wait'', ''deployment.apps/cert-manager-webhook'', ''--for'',
      ''condition=Available'', ''--namespace'', ''cert-manager'', ''--timeout'', ''5m'']"
    have "helper_step H h = (\<lambda>s. let c = exec_Command ''kubectl'' [''apply'', ''-f'', certmanagerURLTmpl certmanagerVersion] in
        (case snd (fst (Run H c s)) of Some err \<Rightarrow> \<lambda>s. s | None \<Rightarrow> \<lambda>s. snd (Run H ?wait s)) (snd (Run H c s)))"
      by (simp add: HInstallCertManager fun_eq_iff InstallCertManager_def Let_def split_def split: option.split)
    then show ?thesis using cert by (simp add: Let_def)
  next
    case (HRun c)
    have "helper_step H h = (\<lambda>s. snd (Run H c s))" by (simp add: HRun fun_eq_iff)
    then show ?thesis using run by simp
  next
    case HInstallPrometheus
    have "helper_step H h = (\<lambda>s. snd (Run H (exec_Command ''kubectl''
        [''create'', ''-f'', prometheusOperatorURL prometheusOperatorVersion]) s))"
      by (simp add: HInstallPrometheus fun_eq_iff InstallPrometheusOperator_def Let_def split_def)
    then show ?thesis using run by simp
  next
    case (HLoadImage name)
    let ?c = "\<lambda>s. exec_Command ''kind'' [''load'', ''docker-image'', name, ''--name'',
      case os_LookupEnv H ''KIND_CLUSTER'' (su_world s) of Some v \<Rightarrow> v | None \<Rightarrow> ''kind'']"
    have "helper_step H h = (\<lambda>s. snd (Run H (?c s) s))"
      by (simp add: HLoadImage fun_eq_iff LoadImageToKindClusterWithName_def Let_def split_def)
    then show ?thesis using run [of ?c] by simp
  qed
qed

text \<open>
  C37. A suite that starts at the root of the project or in its \<^verbatim>\<open>test/e2e\<close> runs every command at the root,
  with Go modules switched on, whatever helpers it calls in whatever order and whichever of their commands fail. It
  needs that the path of the project does not itself contain \<^verbatim>\<open>/test/e2e\<close>, which the helper would cut out.
\<close>

theorem test_commands_run_at_root:
  assumes "chdir_laws H root" and "\<not> sublist ''/test/e2e'' root" and "in_project H root s" and "su_ran s = []"
  shows "list_all (at_root root) (su_ran (fold (helper_step H) hs s))"
proof -
  have "in_project H root (fold (helper_step H) hs s) \<and> list_all (at_root root) (su_ran (fold (helper_step H) hs s))"
    if "in_project H root s" "list_all (at_root root) (su_ran s)" for s
    using that
  proof (induction hs arbitrary: s)
    case (Cons h hs)
    then show ?case using keeps_root_helper [OF assms(1,2), of h] by (simp add: keeps_root_def)
  qed simp
  with assms(3,4) show ?thesis by simp
qed

text \<open>A host of three directories, on which every command fails, and a suite that starts in \<^verbatim>\<open>test/e2e\<close>.\<close>

definition small_host :: "string host" where
  "small_host = \<lparr>os_Getwd = (\<lambda>w. (w, None)), os_Chdir = (\<lambda>d w. (None, d)), os_Environ = (\<lambda>w. [''HOME=/'']),
     os_LookupEnv = (\<lambda>v w. None), cmd_CombinedOutput = (\<lambda>c w. ((''no'', Some ''exit status 1''), w))\<rparr>"

definition small_suite :: "string suite" where
  "small_suite = \<lparr>su_world = ''/p/test/e2e'', su_out = [], su_ran = []\<rparr>"

theorem test_commands_run_at_root_witness:
  "list_all (at_root ''/p'') (su_ran (fold (helper_step small_host) [HInstallCertManager, HLoadImage ''img''] small_suite)) \<and>
   map cmd_Args (su_ran (fold (helper_step small_host) [HLoadImage ''img''] small_suite)) =
     [[''kind'', ''load'', ''docker-image'', ''img'', ''--name'', ''kind'']]"
proof -
  have laws: "chdir_laws small_host ''/p''" by (simp add: chdir_laws_def small_host_def)
  have root: "\<not> sublist ''/test/e2e'' ''/p''" by (simp add: index_of_None_iff [symmetric] prefix_def)
  have start: "in_project small_host ''/p'' small_suite" "su_ran small_suite = []"
    by (simp_all add: in_project_def small_host_def small_suite_def)
  have "map cmd_Args (su_ran (fold (helper_step small_host) [HLoadImage ''img''] small_suite)) =
      [[''kind'', ''load'', ''docker-image'', ''img'', ''--name'', ''kind'']]"
    by (simp add: LoadImageToKindClusterWithName_def Run_def exec_Command_def Fprint_def small_host_def small_suite_def Let_def)
  with test_commands_run_at_root [OF laws root start] show ?thesis by blast
qed

end
