(* ===== verification/Spec2Isabelle.thy ===== *)
theory Spec2Isabelle
  imports Witnesses_Other Witnesses_Memory Witnesses_Startup Witnesses_System Witnesses_Server_Progress
    Witnesses_Interference Test_Utils
begin

text \<open>
  A verification development of the Cluster API provider for Vultr.

  \<^bold>\<open>The program.\<close> The provider is a Kubernetes controller manager in Go. Three reconcilers under
  \<^verbatim>\<open>internal/controller\<close> bring the cloud in line with three custom resources of
  \<^verbatim>\<open>api/v1beta2\<close>: a \<^verbatim>\<open>VultrCluster\<close> gets the load balancer of its API server, a
  \<^verbatim>\<open>VultrMachine\<close> an instance, a \<^verbatim>\<open>VultrBareMetalMachine\<close> a server. A reconciler fetches the
  object, its owners and the pause state from Kubernetes, makes scopes (\<^verbatim>\<open>cloud/scope\<close>),
  runs \<^verbatim>\<open>reconcileNormal\<close> or \<^verbatim>\<open>reconcileDelete\<close>, and patches the object back in a
  deferred call. The handlers work through the services of \<^verbatim>\<open>cloud/services\<close>, which call the
  Vultr API by the \<^verbatim>\<open>govultr\<close> client; \<^verbatim>\<open>cloud/vultrerrors\<close> tells them the HTTP status of a
  failed call. The machine controllers and the cluster controller meet in the VultrCluster
  (its load balancer ID, its readiness) and in the load balancer's list of members. \<^verbatim>\<open>cmd/main.go\<close>
  registers the types, reads the flags, sets the controllers up (\<^verbatim>\<open>SetupWithManager\<close>) and
  starts the manager. The libraries copy objects by the generated functions of \<^verbatim>\<open>zz_generated.deepcopy.go\<close>.
  The helpers of \<^verbatim>\<open>test/utils\<close> run the commands of the end-to-end suite.

  \<^bold>\<open>How code becomes definitions.\<close> A function with effects is a computation (\<open>comp\<close>, theory
  \<open>Vultr_Prelude\<close>): from a state it returns (\<open>Ret\<close>), panics (\<open>Panic\<close>) or loops for ever
  (\<open>Diverge\<close>). The state \<open>st\<close> (theory \<open>Vultr_API\<close>) has three fields: \<open>world\<close>, everything outside
  the process, of an arbitrary type; \<open>obj\<close>, the object under reconciliation, which Go's scopes
  hold by pointer; and \<open>trace\<close>, the list of calls and events so far, which only theorems read.
  A Go error is a returned value (\<open>error\<close>, alone as an option or in a sum), a nil dereference and a
  slice bound out of range are panics, a deferred close is \<open>deferred\<close>, an early return is a branch.
  Definitions keep the names of the code; a method that several types have carries its type's
  name first. A handler of many steps is cut at its early returns into definitions that are
  composed in the order of the code. Structs are records whose field names carry a prefix,
  pointers options, Go's \<^verbatim>\<open>int\<close> is \<open>int\<close>, and the one narrowing conversion (the endpoint's
  port) is written out (\<open>int32\<close>). In the controllers objects are values; the generated copies, whose
  point is sharing, work on an explicit memory of cells and addresses instead (theories
  \<open>Go_Memory\<close>, \<open>Api_Memory\<close>), where the records \<open>_m\<close> are the structs with their pointers and slices.

  \<^bold>\<open>What is a parameter.\<close> The services of \<^verbatim>\<open>govultr\<close> are records of functions on the world,
  the libraries of Kubernetes and Cluster API, YAML, JSON, the environment and the clock are the
  record \<open>env\<close> (theory \<open>Vultr_Env\<close>), the controller runtime and the flags of libraries are the record
  \<open>kruntime\<close> (theory \<open>Startup\<close>), and the copies of library structs the record \<open>golib\<close>. No definition assumes anything of them. Theorems that rely
  on documented behaviour name it as a hypothesis: \<open>conditions_laws\<close> and \<open>finalizer_laws\<close> (Cluster
  API's helpers), \<open>wrap_laws\<close> (the text of wrapped errors), \<open>yaml_laws\<close> (what was written can be
  read), \<open>cloud_laws\<close>, \<open>server_cloud_laws\<close>, \<open>reconcile_laws\<close> and \<open>server_reconcile_laws\<close> (complete
  listings; a create makes at most one resource, an instance with the label and hostname of the request and with its
  tags or, when the tag step failed, with none, a server with its tags; nothing else makes one), \<open>system_laws\<close> (these together, and no call touches what it is not for),
  \<open>member_store\<close> (a load balancer keeps the list of members it accepted), \<open>pages_end\<close> (a listing has a
  last page), \<open>scheme_laws\<close> (registered types are recognised) and \<open>golib_laws\<close> (library structs
  are copied deeply). The progress properties add laws of a world that answers (\<open>machine_answers\<close>,
  \<open>bare_metal_answers\<close>, \<open>cluster_kube_answers\<close>, \<open>lb_provider_answers\<close>, \<open>deletions_answer\<close>,
  \<open>bm_deletions_answer\<close>, \<open>removals_answer\<close>): calls succeed, and what was asked for settles within a number of
  rounds that is a parameter. A patch stores the object as long as Kubernetes keeps it (\<open>stores\<close>, \<open>object_kept\<close>); a
  patch that takes the last finalizer off a deleted object removes it, and it is not found from then on
  (\<open>kube_removes\<close>, \<open>bm_kube_removes\<close>). Theory \<open>Fake_Cloud\<close> is a small concrete cloud
  that satisfies those of the cloud; the witnesses run on it, by evaluation in the kernel.

  \<^bold>\<open>The theories, from the bottom.\<close>
  \<^item> \<open>Vultr_Prelude\<close>: computations, the weakest-precondition calculus \<open>wp\<close> and the rule
    collections. \<open>Go_Strings\<close>: Go's string functions and Base64. \<open>Kube_Types\<close>: objects and
    errors of the libraries.
  \<^item> \<open>Api_Types\<close>, \<open>Api_Tags\<close>: \<^verbatim>\<open>api/v1beta2\<close> (types, conditions, \<^verbatim>\<open>ApplyDefaults\<close>, tags).
  \<^item> \<open>Go_Memory\<close>: memory, copiers and the locale \<open>deep_copier\<close>, the contract of a deep copy, with its rules for
    pointers, slices and fields. \<open>Api_Memory\<close>: the types in memory, with the lists and templates.
    \<open>Deep_Copy\<close>: every function of \<^verbatim>\<open>zz_generated.deepcopy.go\<close>. \<open>Deep_Copy_Safety\<close>: what lies in memory,
    and that each of them is a \<open>deep_copier\<close>.
  \<^item> \<open>Vultr_API\<close>: the client interfaces, effects, and \<^verbatim>\<open>cloud/vultrerrors\<close>. \<open>Vultr_Env\<close>: the
    libraries. \<open>Scopes\<close>: \<^verbatim>\<open>cloud/scope\<close> and \<^verbatim>\<open>util/reconciler\<close>.
  \<^item> \<open>Cloud_Config\<close>: \<^verbatim>\<open>cloudconfig.go\<close> and the text insertion of \<^verbatim>\<open>instance.go\<close>. \<open>Svc_Common\<close>: the
    loop over the pages of a listing, and the locales \<open>tag_finder\<close>, \<open>keyed_resource\<close> and
    \<open>resource_service\<close>, the contract of a service. \<open>Svc_Instance\<close>, \<open>Svc_BareMetal\<close>,
    \<open>Svc_LoadBalancer\<close>: the services, with the interpretations of these locales.
  \<^item> \<open>Controller_Common\<close>, \<open>Drivers\<close>, \<open>Counting\<close>: what the controllers share, and the locales
    \<open>find_or_create\<close>, \<open>delete_driver\<close> and \<open>one_of_each\<close>, in which the arguments both machine
    controllers need are made once.
  \<^item> \<open>Machine_Controller\<close>, \<open>BareMetal_Controller\<close>, \<open>Cluster_Controller\<close>: the reconcilers, with the
    interpretations of the locales for instances and for servers.
  \<^item> \<open>Go_Flags\<close>: Go's command-line flags. \<open>Startup\<close>: \<^verbatim>\<open>cmd/main.go\<close>, the registration of the types
    and the three \<^verbatim>\<open>SetupWithManager\<close>.
  \<^item> \<open>Machine_Safety\<close>, \<open>BareMetal_Safety\<close>, \<open>Cluster_Safety\<close>, \<open>Controllers_Safety\<close>, \<open>Lifecycle\<close>, \<open>Cloud_View\<close>,
    \<open>Server_View\<close>, \<open>Service_Contracts\<close>, \<open>Interleaving\<close>, \<open>Encodings\<close>, \<open>Startup_Safety\<close>: the properties of the
    parts. \<open>Steady\<close>: what no controller changes. \<open>System\<close>: the controllers together.
  \<^item> \<open>Interference\<close>: runs whose calls are interleaved with those of others.
  \<^item> \<open>Progress\<close>: runs that must return (\<open>total\<close>), the plant a controller works on, and rounds of runs and
    settling. \<open>Machine_Progress\<close>, \<open>BareMetal_Progress\<close>, \<open>Cluster_Progress\<close>: the three controllers get there.
  \<^item> \<open>Test_Utils\<close>: \<^verbatim>\<open>test/utils/utils.go\<close>, over a host as a parameter.
  \<^item> \<open>Fake_Cloud\<close>, \<open>Witnesses\<close>, \<open>Witnesses_Other\<close>, \<open>Witnesses_Memory\<close>, \<open>Witnesses_Startup\<close>,
    \<open>Witnesses_System\<close>, \<open>Witnesses_Progress\<close>, \<open>Witnesses_Server_Progress\<close>,
    \<open>Witnesses_Interference\<close>: the properties at concrete inputs.

  \<^bold>\<open>What is shown.\<close>
  \<^item> The system (\<open>System\<close>): runs of the three controllers in any order on one world make at most one instance and one
    server for each machine, and keep load balancers without double members and never emptied.
    A run of one controller does not disturb what another one keeps because no call it makes
    does (\<open>Steady\<close>), the read and the update of members taken together.
  \<^item> No duplicates (\<open>Cloud_View\<close>, \<open>Server_View\<close>): over any sequence of runs of \<^verbatim>\<open>Reconcile\<close>,
    failing and panicking ones included, no two instances or servers are made for the same machine, and
    when a finalizer goes nothing of the machine is left. The argument is by counting in \<open>one_of_each\<close>:
    without an ID a run lists all pages first, an empty listing means there is nothing, and a
    create adds one. An instance without tags, and a server with tags of several machines, are recognised by
    more machines than the one they were made for, so a view shows each resource with the create request it came from,
    which says for which machine it was made (\<open>ordered_for\<close>); that the machine's own search recognises it is part of
    the invariant, and rests on the code's match by label and hostname. It holds
    call by call (\<open>Interference\<close>): before every call of a run the other controllers, and anybody else, may act, as long
    as they make or change no instance (no server) themselves; a listing then needs to show only what was there at every page.
  \<^item> Progress (\<open>Machine_Progress\<close>, \<open>BareMetal_Progress\<close>, \<open>Cluster_Progress\<close>): in a world that answers, every run
    returns without an error and leaves the object Ready or asks to be called again, and after more
    rounds than the cloud needs to settle the VultrCluster has its endpoint, and the machine is Ready,
    from a first reconcile, a lost ID or any stage on the way; a deleted machine is let go (\<open>let_go\<close>): removed from
    Kubernetes, or held there by the finalizers of others only. The
    argument is a rank that every round lowers (\<open>rounds_reach\<close>), and \<open>total\<close>, which, unlike \<open>wp\<close>, excludes
    panics and divergence.
  \<^item> Single runs (\<open>Machine_Safety\<close>, \<open>BareMetal_Safety\<close>, \<open>Controllers_Safety\<close>): a create comes only after a complete search and
    at most once; the ID of an instance is patched before anything else happens; Ready turns
    True only for an active resource whose VPC is attached and whose membership the load
    balancer confirmed; a deleted server that the machine knows leaves the load balancer first; terminal failures stop all
    later runs, and missing resources are retried; a deletion that ends without error and
    without requeue has removed the finalizer; the object is patched at the end even after a panic;
    a change of a VultrCluster asks for a reconcile of all its machines.
  \<^item> The cluster (\<open>Cluster_Safety\<close>): \<^verbatim>\<open>reconcileNormal\<close> refines a specification on seven observables
    (\<open>cluster_view\<close>, \<open>cluster_spec\<close>) for every answer of the API; when a load balancer is
    created; the defaults; the endpoint's port; and two ways in which a deletion goes wrong.
  \<^item> Many runs (\<open>Lifecycle\<close>): step relations of the objects, and the invariant that a Ready condition that is True
    goes with the flags and a terminal failure without them.
  \<^item> Services (\<open>Service_Contracts\<close>): the paged searches equal a search over the whole listing and
    return when the pages end; the load balancer operations refine insertion into and deletion
    from a list of members. When another run comes between the read and the update, a member is
    lost (\<open>Interleaving\<close>).
  \<^item> Copies (\<open>Deep_Copy_Safety\<close>): the copy of an object of each of the twelve kinds always succeeds and is
    independent of the original, which is why objects can be values elsewhere.
  \<^item> The start (\<open>Startup_Safety\<close>): its calls follow a plan up to the first failure, the manager starts only
    after everything was set up, the exit code tells the outcome, and every type that a
    controller names was registered.
  \<^item> Encodings (\<open>Encodings\<close>): create requests carry the machine's data and decode to the value of its bootstrap
    secret with the command; cloud-config documents, provider IDs and captured HTTP statuses read back.
  \<^item> Test helpers (\<open>Test_Utils\<close>): a suite runs all its commands at the root of the project.

  \<^bold>\<open>What modelling found.\<close> Some lemmas show a defect on the small cloud rather than a promise: an instance without tags is
  taken over by a machine of the same name in another cluster (\<open>untagged_instance_adopted_by_other_cluster\<close>); the server of a
  machine that lost its provider ID is deleted while it stays a member of the load balancer (\<open>lost_id_leaves_member\<close>); the
  ready flag outlives the condition (\<open>flags_outlive_condition\<close>); a second manager duplicates an instance
  (\<open>second_manager_duplicates\<close>).

  \<^bold>\<open>Loops.\<close> There is no fuel. The loop over pages has no bound in the code, so it is a partial
  function whose divergence is an outcome (\<open>list_loop\<close>, \<open>Diverge\<close>); \<open>wp\<close> says nothing of a run that
  diverges, and that the searches return is a theorem of its own (\<open>searches_terminate\<close>). In the progress
  properties the number of rounds is a variable, and the bound is computed from the world they start in. The scan for
  the cloud-config header has a termination proof; the other loops are structural.

  \<^bold>\<open>What is simplified.\<close> Between two runs anything may happen to the world; two workers on one object are
  excluded by the work queue of the controller runtime. Runs of different controllers do overlap: for instances and
  servers theory \<open>Interference\<close> puts arbitrary moves before every call, for the members of a load balancer
  theory \<open>Interleaving\<close> shows what is lost; the other properties take runs one after the other.
  Contexts, deadlines and loggers are left out; a deadline that passes is an error of the call it
  hits. Calls that only read from Kubernetes are not in the trace, except secrets. The struct
  \<^verbatim>\<open>Initialization\<close> of a status is its one field. Strings are bytes, and lower-casing and quoting
  go by ASCII. In memory a slice owns its cell: two slices that overlap are not represented. The
  manager, clients, recorders and mappers are handles.

  \<^bold>\<open>Not modelled.\<close> The struct of \<^verbatim>\<open>cloud/services/service.go\<close>, a pair of scope and context: the services
  take the scope. The test files of the repository. In \<^verbatim>\<open>zz_generated.deepcopy.go\<close> and the type files nothing but
  comments, imports and markers of the code generators is left.

  \<^bold>\<open>What is left to do.\<close> The progress properties and the status invariants under interleaving call by call.
\<close>

end
